(* ===== verification/Prelude.thy ===== *)
theory Prelude
  imports Main "HOL-Library.Word"
begin

section \<open>Shared types, automation and generic lemmas\<close>

text \<open>
  What every component of the development shares: the machine types of Go, the result type of a
  fallible Go function and its sequencing, and the lemmas on words, lists and options that the
  component proofs use.

  A Go \<^verbatim>\<open>int\<close> is a 64-bit two's complement integer; it is a \<^typ>\<open>64 word\<close> here, read with
  \<^const>\<open>sint\<close> where the code compares it and with \<^const>\<open>unat\<close> after the code converts it to
  \<^verbatim>\<open>uint64\<close>. Arithmetic on words wraps around exactly as in Go.
\<close>

type_synonym u8 = "8 word"
type_synonym u16 = "16 word"
type_synonym u32 = "32 word"
type_synonym u64 = "64 word"
type_synonym goint = "64 word"

named_theorems go_monad \<open>unfolding of the sequencing operators\<close>
named_theorems err_defs \<open>definitions of the sentinel errors\<close>
named_theorems call_defs \<open>driver entry points as calls\<close>

subsection \<open>Signed comparisons of Go integers\<close>

definition MaxInt :: goint where
  "MaxInt = 0x7FFFFFFFFFFFFFFF"

definition MaxUint64 :: u64 where
  "MaxUint64 = 0xFFFFFFFFFFFFFFFF"

definition MaxUint32 :: u64 where
  "MaxUint32 = 0xFFFFFFFF"

definition MaxInt32 :: goint where
  "MaxInt32 = 0x7FFFFFFF"

text \<open>Go's signed division truncates towards zero.\<close>

definition sdiv :: "goint \<Rightarrow> goint \<Rightarrow> goint" where
  "sdiv a b = word_of_int (sgn (sint a) * sgn (sint b) * (\<bar>sint a\<bar> div \<bar>sint b\<bar>))"

subsection \<open>Words: conversions and products without wrap-around\<close>

lemma unat_MaxUint64 [simp]: "unat MaxUint64 = 2 ^ 64 - 1"
  by (simp add: MaxUint64_def)

lemma sint_MaxInt [simp]: "sint MaxInt = 2 ^ 63 - 1"
  by (simp add: MaxInt_def)

lemma unat_lt64 [simp]: "unat (w :: u64) < 2 ^ 64"
  using unsigned_less [of w, where ?'a = nat] by simp

lemma sint_split:
  fixes w :: u64
  shows "sint w = (if unat w < 2 ^ 63 then int (unat w) else int (unat w) - 2 ^ 64)"
proof -
  have u: "0 \<le> uint w" "uint w < 2 ^ 64"
    using uint_lt2p [of w] by simp_all
  have "sint w = (uint w + 2 ^ 63) mod 2 ^ 64 - 2 ^ 63"
    by (simp add: sint_uint signed_take_bit_eq_take_bit_shift take_bit_eq_mod)
  moreover have "(uint w + 2 ^ 63) mod 2 ^ 64 =
      (if uint w < 2 ^ 63 then uint w + 2 ^ 63 else uint w - 2 ^ 63)"
  proof (cases "uint w < 2 ^ 63")
    case True
    then show ?thesis using u by simp
  next
    case False
    then have "(uint w + 2 ^ 63) mod 2 ^ 64 = (uint w + 2 ^ 63 - 2 ^ 64) mod 2 ^ 64"
      by (simp only: minus_mod_self2)
    with False u show ?thesis by simp
  qed
  ultimately have s: "sint w = (if uint w < 2 ^ 63 then uint w else uint w - 2 ^ 64)"
    by simp
  have "int (unat w) < int (2 ^ 63) \<longleftrightarrow> unat w < 2 ^ 63"
    by (rule of_nat_less_iff)
  with s show ?thesis by simp
qed

lemma sint_nonneg_unat:
  fixes w :: u64
  assumes "0 \<le> sint w"
  shows "sint w = int (unat w)" and "unat w < 2 ^ 63"
proof -
  have "uint w < 2 ^ 64" using uint_lt2p [of w] by simp
  with assms show "unat w < 2 ^ 63" by (auto simp: sint_split split: if_splits)
  then show "sint w = int (unat w)" by (simp add: sint_split)
qed

lemma sint_pos_unat:
  fixes w :: u64
  assumes "0 < sint w"
  shows "0 < unat w" and "unat w < 2 ^ 63"
proof -
  from assms have "0 \<le> sint w" by (rule order_less_imp_le)
  note s = sint_nonneg_unat [OF this]
  show "unat w < 2 ^ 63" by (rule s(2))
  from assms have "0 < int (unat w)" unfolding s(1) .
  then show "0 < unat w" by (simp only: of_nat_0_less_iff)
qed

lemma unat_mul_no_wrap:
  fixes a k :: u64
  assumes "a \<le> MaxUint64 div k" and "k \<noteq> 0"
  shows "unat (a * k) = unat a * unat k"
proof -
  have "unat a \<le> (2 ^ 64 - 1) div unat k"
    using assms(1) by (simp add: word_le_nat_alt unat_div)
  then have "unat a * unat k \<le> (2 ^ 64 - 1) div unat k * unat k"
    by (rule mult_le_mono1)
  also have "\<dots> \<le> 2 ^ 64 - 1" by (rule div_times_less_eq_dividend)
  finally have "unat a * unat k < 2 ^ 64" by simp
  then show ?thesis using unat_mult_lem [of a k] by simp
qed

lemma unat_mul_small: "unat (a :: u64) * unat k < 2 ^ 64 \<Longrightarrow> unat (a * k) = unat a * unat k"
  using unat_mult_lem [of a k] by simp

lemma unat_add_small: "unat (a :: u64) + unat b < 2 ^ 64 \<Longrightarrow> unat (a + b) = unat a + unat b"
  using unat_add_lem [of a b] by simp

lemma sint_diff_nonneg:
  fixes a b :: u64
  assumes "0 \<le> sint a" "0 \<le> sint b"
  shows "sint (a - b) = sint a - sint b"
proof -
  have a: "sint a < 2 ^ 63" "sint b < 2 ^ 63"
    using sint_lt[of a] sint_lt[of b] by simp_all
  have "a - b = word_of_int (sint a - sint b)" by simp
  then have "sint (a - b) = sint (word_of_int (sint a - sint b) :: u64)" by (rule arg_cong)
  also have "\<dots> = signed_take_bit 63 (sint a - sint b)"
    unfolding sint_sbintrunc' by simp
  also have "\<dots> = sint a - sint b"
    using assms a by (intro signed_take_bit_int_eq_self) simp_all
  finally show ?thesis .
qed

end
