(* ===== verification/GoErrors.thy ===== *)
theory GoErrors
  imports Prelude
begin

section \<open>Result codes and errors\<close>

text \<open>
  The error values of the program: the CUDA result codes of \<^verbatim>\<open>cudasys/result.go\<close>, the error types
  and the result check of \<^verbatim>\<open>cudaresult/error.go\<close> and \<^verbatim>\<open>cudaresult/stream.go\<close>, the sentinels of
  \<^verbatim>\<open>cuda/errors.go\<close>, and the parts of Go's \<^verbatim>\<open>errors\<close> package the code relies on
  (\<^verbatim>\<open>errors.Join\<close>, \<^verbatim>\<open>errors.Is\<close>). A sentinel made by \<^verbatim>\<open>errors.New\<close> is identified by its message,
  which no two sentinels of the repository share. A Go \<^verbatim>\<open>error\<close> result is a
  \<open>go_error option\<close>, with \<^const>\<open>None\<close> for \<^verbatim>\<open>nil\<close>.
\<close>

subsection \<open>CUDA result codes\<close>

type_synonym CUresult = "32 word"

named_theorems code_defs \<open>the numeric result codes\<close>

definition CUDA_SUCCESS :: CUresult where [code_defs]:
  "CUDA_SUCCESS = 0"

definition CUDA_ERROR_INVALID_VALUE :: CUresult where [code_defs]:
  "CUDA_ERROR_INVALID_VALUE = 1"

definition CUDA_ERROR_OUT_OF_MEMORY :: CUresult where [code_defs]:
  "CUDA_ERROR_OUT_OF_MEMORY = 2"

definition CUDA_ERROR_NOT_INITIALIZED :: CUresult where [code_defs]:
  "CUDA_ERROR_NOT_INITIALIZED = 3"

definition CUDA_ERROR_DEINITIALIZED :: CUresult where [code_defs]:
  "CUDA_ERROR_DEINITIALIZED = 4"

definition CUDA_ERROR_PROFILER_DISABLED :: CUresult where [code_defs]:
  "CUDA_ERROR_PROFILER_DISABLED = 5"

definition CUDA_ERROR_STUB_LIBRARY :: CUresult where [code_defs]:
  "CUDA_ERROR_STUB_LIBRARY = 34"

definition CUDA_ERROR_DEVICE_UNAVAILABLE :: CUresult where [code_defs]:
  "CUDA_ERROR_DEVICE_UNAVAILABLE = 46"

definition CUDA_ERROR_NO_DEVICE :: CUresult where [code_defs]:
  "CUDA_ERROR_NO_DEVICE = 100"

definition CUDA_ERROR_INVALID_DEVICE :: CUresult where [code_defs]:
  "CUDA_ERROR_INVALID_DEVICE = 101"

definition CUDA_ERROR_DEVICE_NOT_LICENSED :: CUresult where [code_defs]:
  "CUDA_ERROR_DEVICE_NOT_LICENSED = 102"

definition CUDA_ERROR_INVALID_IMAGE :: CUresult where [code_defs]:
  "CUDA_ERROR_INVALID_IMAGE = 200"

definition CUDA_ERROR_INVALID_CONTEXT :: CUresult where [code_defs]:
  "CUDA_ERROR_INVALID_CONTEXT = 201"

definition CUDA_ERROR_MAP_FAILED :: CUresult where [code_defs]:
  "CUDA_ERROR_MAP_FAILED = 205"

definition CUDA_ERROR_UNMAP_FAILED :: CUresult where [code_defs]:
  "CUDA_ERROR_UNMAP_FAILED = 206"

definition CUDA_ERROR_ARRAY_IS_MAPPED :: CUresult where [code_defs]:
  "CUDA_ERROR_ARRAY_IS_MAPPED = 207"

definition CUDA_ERROR_ALREADY_MAPPED :: CUresult where [code_defs]:
  "CUDA_ERROR_ALREADY_MAPPED = 208"

definition CUDA_ERROR_NO_BINARY_FOR_GPU :: CUresult where [code_defs]:
  "CUDA_ERROR_NO_BINARY_FOR_GPU = 209"

definition CUDA_ERROR_ALREADY_ACQUIRED :: CUresult where [code_defs]:
  "CUDA_ERROR_ALREADY_ACQUIRED = 210"

definition CUDA_ERROR_NOT_MAPPED :: CUresult where [code_defs]:
  "CUDA_ERROR_NOT_MAPPED = 211"

definition CUDA_ERROR_NOT_MAPPED_AS_ARRAY :: CUresult where [code_defs]:
  "CUDA_ERROR_NOT_MAPPED_AS_ARRAY = 212"

definition CUDA_ERROR_NOT_MAPPED_AS_POINTER :: CUresult where [code_defs]:
  "CUDA_ERROR_NOT_MAPPED_AS_POINTER = 213"

definition CUDA_ERROR_ECC_UNCORRECTABLE :: CUresult where [code_defs]:
  "CUDA_ERROR_ECC_UNCORRECTABLE = 214"

definition CUDA_ERROR_UNSUPPORTED_LIMIT :: CUresult where [code_defs]:
  "CUDA_ERROR_UNSUPPORTED_LIMIT = 215"

definition CUDA_ERROR_CONTEXT_ALREADY_IN_USE :: CUresult where [code_defs]:
  "CUDA_ERROR_CONTEXT_ALREADY_IN_USE = 216"

definition CUDA_ERROR_PEER_ACCESS_UNSUPPORTED :: CUresult where [code_defs]:
  "CUDA_ERROR_PEER_ACCESS_UNSUPPORTED = 217"

definition CUDA_ERROR_INVALID_PTX :: CUresult where [code_defs]:
  "CUDA_ERROR_INVALID_PTX = 218"

definition CUDA_ERROR_INVALID_GRAPHICS_CONTEXT :: CUresult where [code_defs]:
  "CUDA_ERROR_INVALID_GRAPHICS_CONTEXT = 219"

definition CUDA_ERROR_NVLINK_UNCORRECTABLE :: CUresult where [code_defs]:
  "CUDA_ERROR_NVLINK_UNCORRECTABLE = 220"

definition CUDA_ERROR_JIT_COMPILER_NOT_FOUND :: CUresult where [code_defs]:
  "CUDA_ERROR_JIT_COMPILER_NOT_FOUND = 221"

definition CUDA_ERROR_UNSUPPORTED_PTX_VERSION :: CUresult where [code_defs]:
  "CUDA_ERROR_UNSUPPORTED_PTX_VERSION = 222"

definition CUDA_ERROR_INVALID_SOURCE :: CUresult where [code_defs]:
  "CUDA_ERROR_INVALID_SOURCE = 300"

definition CUDA_ERROR_FILE_NOT_FOUND :: CUresult where [code_defs]:
  "CUDA_ERROR_FILE_NOT_FOUND = 301"

definition CUDA_ERROR_SHARED_OBJECT_SYMBOL_NOT_FOUND :: CUresult where [code_defs]:
  "CUDA_ERROR_SHARED_OBJECT_SYMBOL_NOT_FOUND = 302"

definition CUDA_ERROR_SHARED_OBJECT_INIT_FAILED :: CUresult where [code_defs]:
  "CUDA_ERROR_SHARED_OBJECT_INIT_FAILED = 303"

definition CUDA_ERROR_OPERATING_SYSTEM :: CUresult where [code_defs]:
  "CUDA_ERROR_OPERATING_SYSTEM = 304"

definition CUDA_ERROR_INVALID_HANDLE :: CUresult where [code_defs]:
  "CUDA_ERROR_INVALID_HANDLE = 400"

definition CUDA_ERROR_ILLEGAL_STATE :: CUresult where [code_defs]:
  "CUDA_ERROR_ILLEGAL_STATE = 401"

definition CUDA_ERROR_NOT_FOUND :: CUresult where [code_defs]:
  "CUDA_ERROR_NOT_FOUND = 500"

definition CUDA_ERROR_NOT_READY :: CUresult where [code_defs]:
  "CUDA_ERROR_NOT_READY = 600"

definition CUDA_ERROR_ILLEGAL_ADDRESS :: CUresult where [code_defs]:
  "CUDA_ERROR_ILLEGAL_ADDRESS = 700"

definition CUDA_ERROR_LAUNCH_OUT_OF_RESOURCES :: CUresult where [code_defs]:
  "CUDA_ERROR_LAUNCH_OUT_OF_RESOURCES = 701"

definition CUDA_ERROR_LAUNCH_TIMEOUT :: CUresult where [code_defs]:
  "CUDA_ERROR_LAUNCH_TIMEOUT = 702"

definition CUDA_ERROR_LAUNCH_INCOMPATIBLE_TEXTURING :: CUresult where [code_defs]:
  "CUDA_ERROR_LAUNCH_INCOMPATIBLE_TEXTURING = 703"

definition CUDA_ERROR_PEER_ACCESS_ALREADY_ENABLED :: CUresult where [code_defs]:
  "CUDA_ERROR_PEER_ACCESS_ALREADY_ENABLED = 704"

definition CUDA_ERROR_PEER_ACCESS_NOT_ENABLED :: CUresult where [code_defs]:
  "CUDA_ERROR_PEER_ACCESS_NOT_ENABLED = 705"

definition CUDA_ERROR_PRIMARY_CONTEXT_ACTIVE :: CUresult where [code_defs]:
  "CUDA_ERROR_PRIMARY_CONTEXT_ACTIVE = 708"

definition CUDA_ERROR_CONTEXT_IS_DESTROYED :: CUresult where [code_defs]:
  "CUDA_ERROR_CONTEXT_IS_DESTROYED = 709"

definition CUDA_ERROR_ASSERT :: CUresult where [code_defs]:
  "CUDA_ERROR_ASSERT = 710"

definition CUDA_ERROR_TOO_MANY_PEERS :: CUresult where [code_defs]:
  "CUDA_ERROR_TOO_MANY_PEERS = 711"

definition CUDA_ERROR_HOST_MEMORY_ALREADY_REGISTERED :: CUresult where [code_defs]:
  "CUDA_ERROR_HOST_MEMORY_ALREADY_REGISTERED = 712"

definition CUDA_ERROR_HOST_MEMORY_NOT_REGISTERED :: CUresult where [code_defs]:
  "CUDA_ERROR_HOST_MEMORY_NOT_REGISTERED = 713"

definition CUDA_ERROR_HARDWARE_STACK_ERROR :: CUresult where [code_defs]:
  "CUDA_ERROR_HARDWARE_STACK_ERROR = 714"

definition CUDA_ERROR_ILLEGAL_INSTRUCTION :: CUresult where [code_defs]:
  "CUDA_ERROR_ILLEGAL_INSTRUCTION = 715"

definition CUDA_ERROR_MISALIGNED_ADDRESS :: CUresult where [code_defs]:
  "CUDA_ERROR_MISALIGNED_ADDRESS = 716"

definition CUDA_ERROR_INVALID_ADDRESS_SPACE :: CUresult where [code_defs]:
  "CUDA_ERROR_INVALID_ADDRESS_SPACE = 717"

definition CUDA_ERROR_INVALID_PC :: CUresult where [code_defs]:
  "CUDA_ERROR_INVALID_PC = 718"

definition CUDA_ERROR_LAUNCH_FAILED :: CUresult where [code_defs]:
  "CUDA_ERROR_LAUNCH_FAILED = 719"

definition CUDA_ERROR_COOPERATIVE_LAUNCH_TOO_LARGE :: CUresult where [code_defs]:
  "CUDA_ERROR_COOPERATIVE_LAUNCH_TOO_LARGE = 720"

definition CUDA_ERROR_NOT_PERMITTED :: CUresult where [code_defs]:
  "CUDA_ERROR_NOT_PERMITTED = 800"

definition CUDA_ERROR_NOT_SUPPORTED :: CUresult where [code_defs]:
  "CUDA_ERROR_NOT_SUPPORTED = 801"

definition CUDA_ERROR_SYSTEM_NOT_READY :: CUresult where [code_defs]:
  "CUDA_ERROR_SYSTEM_NOT_READY = 802"

definition CUDA_ERROR_SYSTEM_DRIVER_MISMATCH :: CUresult where [code_defs]:
  "CUDA_ERROR_SYSTEM_DRIVER_MISMATCH = 803"

definition CUDA_ERROR_COMPAT_NOT_SUPPORTED_ON_DEVICE :: CUresult where [code_defs]:
  "CUDA_ERROR_COMPAT_NOT_SUPPORTED_ON_DEVICE = 804"

definition CUDA_ERROR_STREAM_CAPTURE_UNSUPPORTED :: CUresult where [code_defs]:
  "CUDA_ERROR_STREAM_CAPTURE_UNSUPPORTED = 900"

definition CUDA_ERROR_STREAM_CAPTURE_INVALIDATED :: CUresult where [code_defs]:
  "CUDA_ERROR_STREAM_CAPTURE_INVALIDATED = 901"

definition CUDA_ERROR_STREAM_CAPTURE_MERGE :: CUresult where [code_defs]:
  "CUDA_ERROR_STREAM_CAPTURE_MERGE = 902"

definition CUDA_ERROR_STREAM_CAPTURE_UNMATCHED :: CUresult where [code_defs]:
  "CUDA_ERROR_STREAM_CAPTURE_UNMATCHED = 903"

definition CUDA_ERROR_STREAM_CAPTURE_UNJOINED :: CUresult where [code_defs]:
  "CUDA_ERROR_STREAM_CAPTURE_UNJOINED = 904"

definition CUDA_ERROR_STREAM_CAPTURE_ISOLATION :: CUresult where [code_defs]:
  "CUDA_ERROR_STREAM_CAPTURE_ISOLATION = 905"

definition CUDA_ERROR_STREAM_CAPTURE_IMPLICIT :: CUresult where [code_defs]:
  "CUDA_ERROR_STREAM_CAPTURE_IMPLICIT = 906"

definition CUDA_ERROR_CAPTURED_EVENT :: CUresult where [code_defs]:
  "CUDA_ERROR_CAPTURED_EVENT = 907"

definition CUDA_ERROR_STREAM_CAPTURE_WRONG_THREAD :: CUresult where [code_defs]:
  "CUDA_ERROR_STREAM_CAPTURE_WRONG_THREAD = 908"

definition CUDA_ERROR_TIMEOUT :: CUresult where [code_defs]:
  "CUDA_ERROR_TIMEOUT = 909"

definition CUDA_ERROR_GRAPH_EXEC_UPDATE_FAILURE :: CUresult where [code_defs]:
  "CUDA_ERROR_GRAPH_EXEC_UPDATE_FAILURE = 910"

definition CUDA_ERROR_EXTERNAL_DEVICE :: CUresult where [code_defs]:
  "CUDA_ERROR_EXTERNAL_DEVICE = 911"

definition CUDA_ERROR_UNKNOWN :: CUresult where [code_defs]:
  "CUDA_ERROR_UNKNOWN = 999"

definition cuResultNames :: "(CUresult \<times> string) list" where
  "cuResultNames = [
    (CUDA_SUCCESS, ''CUDA_SUCCESS''),
    (CUDA_ERROR_INVALID_VALUE, ''CUDA_ERROR_INVALID_VALUE''),
    (CUDA_ERROR_OUT_OF_MEMORY, ''CUDA_ERROR_OUT_OF_MEMORY''),
    (CUDA_ERROR_NOT_INITIALIZED, ''CUDA_ERROR_NOT_INITIALIZED''),
    (CUDA_ERROR_DEINITIALIZED, ''CUDA_ERROR_DEINITIALIZED''),
    (CUDA_ERROR_PROFILER_DISABLED, ''CUDA_ERROR_PROFILER_DISABLED''),
    (CUDA_ERROR_STUB_LIBRARY, ''CUDA_ERROR_STUB_LIBRARY''),
    (CUDA_ERROR_DEVICE_UNAVAILABLE, ''CUDA_ERROR_DEVICE_UNAVAILABLE''),
    (CUDA_ERROR_NO_DEVICE, ''CUDA_ERROR_NO_DEVICE''),
    (CUDA_ERROR_INVALID_DEVICE, ''CUDA_ERROR_INVALID_DEVICE''),
    (CUDA_ERROR_DEVICE_NOT_LICENSED, ''CUDA_ERROR_DEVICE_NOT_LICENSED''),
    (CUDA_ERROR_INVALID_IMAGE, ''CUDA_ERROR_INVALID_IMAGE''),
    (CUDA_ERROR_INVALID_CONTEXT, ''CUDA_ERROR_INVALID_CONTEXT''),
    (CUDA_ERROR_MAP_FAILED, ''CUDA_ERROR_MAP_FAILED''),
    (CUDA_ERROR_UNMAP_FAILED, ''CUDA_ERROR_UNMAP_FAILED''),
    (CUDA_ERROR_ARRAY_IS_MAPPED, ''CUDA_ERROR_ARRAY_IS_MAPPED''),
    (CUDA_ERROR_ALREADY_MAPPED, ''CUDA_ERROR_ALREADY_MAPPED''),
    (CUDA_ERROR_NO_BINARY_FOR_GPU, ''CUDA_ERROR_NO_BINARY_FOR_GPU''),
    (CUDA_ERROR_ALREADY_ACQUIRED, ''CUDA_ERROR_ALREADY_ACQUIRED''),
    (CUDA_ERROR_NOT_MAPPED, ''CUDA_ERROR_NOT_MAPPED''),
    (CUDA_ERROR_NOT_MAPPED_AS_ARRAY, ''CUDA_ERROR_NOT_MAPPED_AS_ARRAY''),
    (CUDA_ERROR_NOT_MAPPED_AS_POINTER, ''CUDA_ERROR_NOT_MAPPED_AS_POINTER''),
    (CUDA_ERROR_ECC_UNCORRECTABLE, ''CUDA_ERROR_ECC_UNCORRECTABLE''),
    (CUDA_ERROR_UNSUPPORTED_LIMIT, ''CUDA_ERROR_UNSUPPORTED_LIMIT''),
    (CUDA_ERROR_CONTEXT_ALREADY_IN_USE, ''CUDA_ERROR_CONTEXT_ALREADY_IN_USE''),
    (CUDA_ERROR_PEER_ACCESS_UNSUPPORTED, ''CUDA_ERROR_PEER_ACCESS_UNSUPPORTED''),
    (CUDA_ERROR_INVALID_PTX, ''CUDA_ERROR_INVALID_PTX''),
    (CUDA_ERROR_INVALID_GRAPHICS_CONTEXT, ''CUDA_ERROR_INVALID_GRAPHICS_CONTEXT''),
    (CUDA_ERROR_NVLINK_UNCORRECTABLE, ''CUDA_ERROR_NVLINK_UNCORRECTABLE''),
    (CUDA_ERROR_JIT_COMPILER_NOT_FOUND, ''CUDA_ERROR_JIT_COMPILER_NOT_FOUND''),
    (CUDA_ERROR_UNSUPPORTED_PTX_VERSION, ''CUDA_ERROR_UNSUPPORTED_PTX_VERSION''),
    (CUDA_ERROR_INVALID_SOURCE, ''CUDA_ERROR_INVALID_SOURCE''),
    (CUDA_ERROR_FILE_NOT_FOUND, ''CUDA_ERROR_FILE_NOT_FOUND''),
    (CUDA_ERROR_SHARED_OBJECT_SYMBOL_NOT_FOUND, ''CUDA_ERROR_SHARED_OBJECT_SYMBOL_NOT_FOUND''),
    (CUDA_ERROR_SHARED_OBJECT_INIT_FAILED, ''CUDA_ERROR_SHARED_OBJECT_INIT_FAILED''),
    (CUDA_ERROR_OPERATING_SYSTEM, ''CUDA_ERROR_OPERATING_SYSTEM''),
    (CUDA_ERROR_INVALID_HANDLE, ''CUDA_ERROR_INVALID_HANDLE''),
    (CUDA_ERROR_ILLEGAL_STATE, ''CUDA_ERROR_ILLEGAL_STATE''),
    (CUDA_ERROR_NOT_FOUND, ''CUDA_ERROR_NOT_FOUND''),
    (CUDA_ERROR_NOT_READY, ''CUDA_ERROR_NOT_READY''),
    (CUDA_ERROR_ILLEGAL_ADDRESS, ''CUDA_ERROR_ILLEGAL_ADDRESS''),
    (CUDA_ERROR_LAUNCH_OUT_OF_RESOURCES, ''CUDA_ERROR_LAUNCH_OUT_OF_RESOURCES''),
    (CUDA_ERROR_LAUNCH_TIMEOUT, ''CUDA_ERROR_LAUNCH_TIMEOUT''),
    (CUDA_ERROR_LAUNCH_INCOMPATIBLE_TEXTURING, ''CUDA_ERROR_LAUNCH_INCOMPATIBLE_TEXTURING''),
    (CUDA_ERROR_PEER_ACCESS_ALREADY_ENABLED, ''CUDA_ERROR_PEER_ACCESS_ALREADY_ENABLED''),
    (CUDA_ERROR_PEER_ACCESS_NOT_ENABLED, ''CUDA_ERROR_PEER_ACCESS_NOT_ENABLED''),
    (CUDA_ERROR_PRIMARY_CONTEXT_ACTIVE, ''CUDA_ERROR_PRIMARY_CONTEXT_ACTIVE''),
    (CUDA_ERROR_CONTEXT_IS_DESTROYED, ''CUDA_ERROR_CONTEXT_IS_DESTROYED''),
    (CUDA_ERROR_ASSERT, ''CUDA_ERROR_ASSERT''),
    (CUDA_ERROR_TOO_MANY_PEERS, ''CUDA_ERROR_TOO_MANY_PEERS''),
    (CUDA_ERROR_HOST_MEMORY_ALREADY_REGISTERED, ''CUDA_ERROR_HOST_MEMORY_ALREADY_REGISTERED''),
    (CUDA_ERROR_HOST_MEMORY_NOT_REGISTERED, ''CUDA_ERROR_HOST_MEMORY_NOT_REGISTERED''),
    (CUDA_ERROR_HARDWARE_STACK_ERROR, ''CUDA_ERROR_HARDWARE_STACK_ERROR''),
    (CUDA_ERROR_ILLEGAL_INSTRUCTION, ''CUDA_ERROR_ILLEGAL_INSTRUCTION''),
    (CUDA_ERROR_MISALIGNED_ADDRESS, ''CUDA_ERROR_MISALIGNED_ADDRESS''),
    (CUDA_ERROR_INVALID_ADDRESS_SPACE, ''CUDA_ERROR_INVALID_ADDRESS_SPACE''),
    (CUDA_ERROR_INVALID_PC, ''CUDA_ERROR_INVALID_PC''),
    (CUDA_ERROR_LAUNCH_FAILED, ''CUDA_ERROR_LAUNCH_FAILED''),
    (CUDA_ERROR_COOPERATIVE_LAUNCH_TOO_LARGE, ''CUDA_ERROR_COOPERATIVE_LAUNCH_TOO_LARGE''),
    (CUDA_ERROR_NOT_PERMITTED, ''CUDA_ERROR_NOT_PERMITTED''),
    (CUDA_ERROR_NOT_SUPPORTED, ''CUDA_ERROR_NOT_SUPPORTED''),
    (CUDA_ERROR_SYSTEM_NOT_READY, ''CUDA_ERROR_SYSTEM_NOT_READY''),
    (CUDA_ERROR_SYSTEM_DRIVER_MISMATCH, ''CUDA_ERROR_SYSTEM_DRIVER_MISMATCH''),
    (CUDA_ERROR_COMPAT_NOT_SUPPORTED_ON_DEVICE, ''CUDA_ERROR_COMPAT_NOT_SUPPORTED_ON_DEVICE''),
    (CUDA_ERROR_STREAM_CAPTURE_UNSUPPORTED, ''CUDA_ERROR_STREAM_CAPTURE_UNSUPPORTED''),
    (CUDA_ERROR_STREAM_CAPTURE_INVALIDATED, ''CUDA_ERROR_STREAM_CAPTURE_INVALIDATED''),
    (CUDA_ERROR_STREAM_CAPTURE_MERGE, ''CUDA_ERROR_STREAM_CAPTURE_MERGE''),
    (CUDA_ERROR_STREAM_CAPTURE_UNMATCHED, ''CUDA_ERROR_STREAM_CAPTURE_UNMATCHED''),
    (CUDA_ERROR_STREAM_CAPTURE_UNJOINED, ''CUDA_ERROR_STREAM_CAPTURE_UNJOINED''),
    (CUDA_ERROR_STREAM_CAPTURE_ISOLATION, ''CUDA_ERROR_STREAM_CAPTURE_ISOLATION''),
    (CUDA_ERROR_STREAM_CAPTURE_IMPLICIT, ''CUDA_ERROR_STREAM_CAPTURE_IMPLICIT''),
    (CUDA_ERROR_CAPTURED_EVENT, ''CUDA_ERROR_CAPTURED_EVENT''),
    (CUDA_ERROR_STREAM_CAPTURE_WRONG_THREAD, ''CUDA_ERROR_STREAM_CAPTURE_WRONG_THREAD''),
    (CUDA_ERROR_TIMEOUT, ''CUDA_ERROR_TIMEOUT''),
    (CUDA_ERROR_GRAPH_EXEC_UPDATE_FAILURE, ''CUDA_ERROR_GRAPH_EXEC_UPDATE_FAILURE''),
    (CUDA_ERROR_EXTERNAL_DEVICE, ''CUDA_ERROR_EXTERNAL_DEVICE''),
    (CUDA_ERROR_UNKNOWN, ''CUDA_ERROR_UNKNOWN'')]"

definition CUresult_Name :: "CUresult \<Rightarrow> string" where
  "CUresult_Name r = (case map_of cuResultNames r of Some s \<Rightarrow> s | None \<Rightarrow> '''')"

subsection \<open>Error values\<close>

datatype go_error =
    Sentinel string                              \<comment> \<open>\<^verbatim>\<open>errors.New\<close>, identified by its message\<close>
  | CudaErr CUresult string                      \<comment> \<open>\<^verbatim>\<open>*cudaresult.Error\<close>: code and operation\<close>
  | ImmutableResultError CUresult string string  \<comment> \<open>code, operation, text\<close>
  | PanicError string                            \<comment> \<open>\<^verbatim>\<open>*executor.PanicError\<close>\<close>
  | Canceled                                     \<comment> \<open>\<^verbatim>\<open>context.Canceled\<close>\<close>
  | DeadlineExceeded                             \<comment> \<open>\<^verbatim>\<open>context.DeadlineExceeded\<close>\<close>
  | WrapErr string go_error                      \<comment> \<open>\<^verbatim>\<open>fmt.Errorf("...%w", err)\<close>\<close>
  | JoinErr "go_error list"                      \<comment> \<open>the result of \<^verbatim>\<open>errors.Join\<close>\<close>


definition ErrContextClosed :: go_error where [err_defs]:
  "ErrContextClosed = Sentinel ''cuda: context is closed''"

definition ErrNilContext :: go_error where [err_defs]:
  "ErrNilContext = Sentinel ''cuda: nil context''"

definition ErrNilBuffer :: go_error where [err_defs]:
  "ErrNilBuffer = Sentinel ''cuda: nil buffer''"

definition ErrBufferClosed :: go_error where [err_defs]:
  "ErrBufferClosed = Sentinel ''cuda: buffer is closed''"

definition ErrLengthMismatch :: go_error where [err_defs]:
  "ErrLengthMismatch = Sentinel ''cuda: length mismatch''"

definition ErrInvalidLength :: go_error where [err_defs]:
  "ErrInvalidLength = Sentinel ''cuda: invalid length''"

definition ErrOutOfRange :: go_error where [err_defs]:
  "ErrOutOfRange = Sentinel ''cuda: copy range out of bounds''"

definition ErrNilModule :: go_error where [err_defs]:
  "ErrNilModule = Sentinel ''cuda: nil module''"

definition ErrModuleClosed :: go_error where [err_defs]:
  "ErrModuleClosed = Sentinel ''cuda: module is closed''"

definition ErrEmptyImage :: go_error where [err_defs]:
  "ErrEmptyImage = Sentinel ''cuda: empty module image''"

definition ErrEmptyFunctionName :: go_error where [err_defs]:
  "ErrEmptyFunctionName = Sentinel ''cuda: empty function name''"

definition ErrInvalidFunctionName :: go_error where [err_defs]:
  "ErrInvalidFunctionName = Sentinel ''cuda: function name contains null byte''"

definition ErrNilFunction :: go_error where [err_defs]:
  "ErrNilFunction = Sentinel ''cuda: nil function''"

definition ErrNilStream :: go_error where [err_defs]:
  "ErrNilStream = Sentinel ''cuda: nil stream''"

definition ErrStreamClosed :: go_error where [err_defs]:
  "ErrStreamClosed = Sentinel ''cuda: stream is closed''"

definition ErrInvalidStreamPriority :: go_error where [err_defs]:
  "ErrInvalidStreamPriority = Sentinel ''cuda: invalid stream priority''"

definition ErrNilEvent :: go_error where [err_defs]:
  "ErrNilEvent = Sentinel ''cuda: nil event''"

definition ErrEventClosed :: go_error where [err_defs]:
  "ErrEventClosed = Sentinel ''cuda: event is closed''"

definition ErrEventTimingDisabled :: go_error where [err_defs]:
  "ErrEventTimingDisabled = Sentinel ''cuda: event timing is disabled''"

definition ErrInvalidLaunchConfig :: go_error where [err_defs]:
  "ErrInvalidLaunchConfig = Sentinel ''cuda: invalid launch config''"

definition ErrNilKernelArg :: go_error where [err_defs]:
  "ErrNilKernelArg = Sentinel ''cuda: nil kernel argument''"

definition ErrInvalidArgSize :: go_error where [err_defs]:
  "ErrInvalidArgSize = Sentinel ''cuda: invalid raw kernel argument size''"

definition ErrContextMismatch :: go_error where [err_defs]:
  "ErrContextMismatch = Sentinel ''cuda: resource belongs to a different context''"

definition ErrUnsupportedFillType :: go_error where [err_defs]:
  "ErrUnsupportedFillType = Sentinel ''cuda: Fill is unsupported for 8-byte element types''"

definition ErrInvalidBlockSize :: go_error where [err_defs]:
  "ErrInvalidBlockSize = Sentinel ''cuda: block size must be positive''"

definition ErrNilGlobal :: go_error where [err_defs]:
  "ErrNilGlobal = Sentinel ''cuda: nil global''"

definition ErrEmptyGlobalName :: go_error where [err_defs]:
  "ErrEmptyGlobalName = Sentinel ''cuda: empty global name''"

definition ErrInvalidGlobalName :: go_error where [err_defs]:
  "ErrInvalidGlobalName = Sentinel ''cuda: global name contains null byte''"

definition ErrNilGraph :: go_error where [err_defs]:
  "ErrNilGraph = Sentinel ''cuda: nil graph''"

definition ErrGraphClosed :: go_error where [err_defs]:
  "ErrGraphClosed = Sentinel ''cuda: graph is closed''"

definition ErrNilGraphExec :: go_error where [err_defs]:
  "ErrNilGraphExec = Sentinel ''cuda: nil executable graph''"

definition ErrGraphExecClosed :: go_error where [err_defs]:
  "ErrGraphExecClosed = Sentinel ''cuda: executable graph is closed''"

definition ErrNilMemPool :: go_error where [err_defs]:
  "ErrNilMemPool = Sentinel ''cuda: nil memory pool''"

definition ErrNilArray :: go_error where [err_defs]:
  "ErrNilArray = Sentinel ''cuda: nil array''"

definition ErrArrayClosed :: go_error where [err_defs]:
  "ErrArrayClosed = Sentinel ''cuda: array is closed''"

definition ErrNilTexture :: go_error where [err_defs]:
  "ErrNilTexture = Sentinel ''cuda: nil texture''"

definition ErrTextureClosed :: go_error where [err_defs]:
  "ErrTextureClosed = Sentinel ''cuda: texture is closed''"

definition ErrUnsupportedElement :: go_error where [err_defs]:
  "ErrUnsupportedElement = Sentinel ''cuda: element type not supported by CUDA arrays''"

definition ErrNilSurface :: go_error where [err_defs]:
  "ErrNilSurface = Sentinel ''cuda: nil surface''"

definition ErrSurfaceClosed :: go_error where [err_defs]:
  "ErrSurfaceClosed = Sentinel ''cuda: surface is closed''"

definition ErrNoSurfaceStore :: go_error where [err_defs]:
  "ErrNoSurfaceStore = Sentinel ''cuda: array was not allocated with surface store''"

definition ErrNilHostFunc :: go_error where [err_defs]:
  "ErrNilHostFunc = Sentinel ''cuda: nil host function''"

definition ErrEventNotInterprocess :: go_error where [err_defs]:
  "ErrEventNotInterprocess = Sentinel ''cuda: event was not created with WithEventInterprocess''"

definition ErrNilLinker :: go_error where [err_defs]:
  "ErrNilLinker = Sentinel ''cuda: nil linker''"

definition ErrLinkerClosed :: go_error where [err_defs]:
  "ErrLinkerClosed = Sentinel ''cuda: linker is closed''"

definition ErrInvalidOrdinal :: go_error where [err_defs]:
  "ErrInvalidOrdinal = Sentinel ''cuda: invalid device ordinal''"

definition ErrNilDevice :: go_error where [err_defs]:
  "ErrNilDevice = Sentinel ''cuda: nil device''"

definition ErrSymbolUnavailable :: go_error where [err_defs]:
  "ErrSymbolUnavailable = Sentinel ''cuda: optional driver symbol unavailable''"

definition ErrExecutorClosed :: go_error where [err_defs]:
  "ErrExecutorClosed = Sentinel ''cuda: executor is closed''"

definition ErrUnsupported :: go_error where [err_defs]:
  "ErrUnsupported = Sentinel ''dynload: platform not supported''"

definition ErrNoCandidates :: go_error where [err_defs]:
  "ErrNoCandidates = Sentinel ''dynload: no library candidates provided''"

definition ErrIndexOutOfRange :: go_error where [err_defs]:
  "ErrIndexOutOfRange = Sentinel ''cuda: packed argument index out of range''"

definition ErrTypeMismatch :: go_error where [err_defs]:
  "ErrTypeMismatch = Sentinel ''cuda: packed argument type mismatch''"

definition ErrSizeMismatch :: go_error where [err_defs]:
  "ErrSizeMismatch = Sentinel ''cuda: packed argument size mismatch''"

definition ErrInvalidValue :: go_error where [err_defs]:
  "ErrInvalidValue = CudaErr CUDA_ERROR_INVALID_VALUE ''''"

definition ErrOutOfMemory :: go_error where [err_defs]:
  "ErrOutOfMemory = CudaErr CUDA_ERROR_OUT_OF_MEMORY ''''"

definition ErrNotInitialized :: go_error where [err_defs]:
  "ErrNotInitialized = CudaErr CUDA_ERROR_NOT_INITIALIZED ''''"

definition ErrDeinitialized :: go_error where [err_defs]:
  "ErrDeinitialized = CudaErr CUDA_ERROR_DEINITIALIZED ''''"

definition ErrProfilerDisabled :: go_error where [err_defs]:
  "ErrProfilerDisabled = CudaErr CUDA_ERROR_PROFILER_DISABLED ''''"

definition ErrStubLibrary :: go_error where [err_defs]:
  "ErrStubLibrary = CudaErr CUDA_ERROR_STUB_LIBRARY ''''"

definition ErrDeviceUnavailable :: go_error where [err_defs]:
  "ErrDeviceUnavailable = CudaErr CUDA_ERROR_DEVICE_UNAVAILABLE ''''"

definition ErrNoDevice :: go_error where [err_defs]:
  "ErrNoDevice = CudaErr CUDA_ERROR_NO_DEVICE ''''"

definition ErrInvalidDevice :: go_error where [err_defs]:
  "ErrInvalidDevice = CudaErr CUDA_ERROR_INVALID_DEVICE ''''"

definition ErrDeviceNotLicensed :: go_error where [err_defs]:
  "ErrDeviceNotLicensed = CudaErr CUDA_ERROR_DEVICE_NOT_LICENSED ''''"

definition ErrInvalidImage :: go_error where [err_defs]:
  "ErrInvalidImage = CudaErr CUDA_ERROR_INVALID_IMAGE ''''"

definition ErrInvalidContext :: go_error where [err_defs]:
  "ErrInvalidContext = CudaErr CUDA_ERROR_INVALID_CONTEXT ''''"

definition ErrNoBinaryForGPU :: go_error where [err_defs]:
  "ErrNoBinaryForGPU = CudaErr CUDA_ERROR_NO_BINARY_FOR_GPU ''''"

definition ErrInvalidPTX :: go_error where [err_defs]:
  "ErrInvalidPTX = CudaErr CUDA_ERROR_INVALID_PTX ''''"

definition ErrUnsupportedPTXVersion :: go_error where [err_defs]:
  "ErrUnsupportedPTXVersion = CudaErr CUDA_ERROR_UNSUPPORTED_PTX_VERSION ''''"

definition ErrInvalidSource :: go_error where [err_defs]:
  "ErrInvalidSource = CudaErr CUDA_ERROR_INVALID_SOURCE ''''"

definition ErrFileNotFound :: go_error where [err_defs]:
  "ErrFileNotFound = CudaErr CUDA_ERROR_FILE_NOT_FOUND ''''"

definition ErrSharedObjectSymbolNotFound :: go_error where [err_defs]:
  "ErrSharedObjectSymbolNotFound = CudaErr CUDA_ERROR_SHARED_OBJECT_SYMBOL_NOT_FOUND ''''"

definition ErrSharedObjectInitFailed :: go_error where [err_defs]:
  "ErrSharedObjectInitFailed = CudaErr CUDA_ERROR_SHARED_OBJECT_INIT_FAILED ''''"

definition ErrOperatingSystem :: go_error where [err_defs]:
  "ErrOperatingSystem = CudaErr CUDA_ERROR_OPERATING_SYSTEM ''''"

definition ErrInvalidHandle :: go_error where [err_defs]:
  "ErrInvalidHandle = CudaErr CUDA_ERROR_INVALID_HANDLE ''''"

definition ErrIllegalState :: go_error where [err_defs]:
  "ErrIllegalState = CudaErr CUDA_ERROR_ILLEGAL_STATE ''''"

definition ErrNotFound :: go_error where [err_defs]:
  "ErrNotFound = CudaErr CUDA_ERROR_NOT_FOUND ''''"

definition ErrNotReady :: go_error where [err_defs]:
  "ErrNotReady = CudaErr CUDA_ERROR_NOT_READY ''''"

definition ErrIllegalAddress :: go_error where [err_defs]:
  "ErrIllegalAddress = CudaErr CUDA_ERROR_ILLEGAL_ADDRESS ''''"

definition ErrLaunchOutOfResources :: go_error where [err_defs]:
  "ErrLaunchOutOfResources = CudaErr CUDA_ERROR_LAUNCH_OUT_OF_RESOURCES ''''"

definition ErrLaunchTimeout :: go_error where [err_defs]:
  "ErrLaunchTimeout = CudaErr CUDA_ERROR_LAUNCH_TIMEOUT ''''"

definition ErrLaunchFailed :: go_error where [err_defs]:
  "ErrLaunchFailed = CudaErr CUDA_ERROR_LAUNCH_FAILED ''''"

definition ErrCooperativeLaunchTooLarge :: go_error where [err_defs]:
  "ErrCooperativeLaunchTooLarge = CudaErr CUDA_ERROR_COOPERATIVE_LAUNCH_TOO_LARGE ''''"

definition ErrNotPermitted :: go_error where [err_defs]:
  "ErrNotPermitted = CudaErr CUDA_ERROR_NOT_PERMITTED ''''"

definition ErrNotSupported :: go_error where [err_defs]:
  "ErrNotSupported = CudaErr CUDA_ERROR_NOT_SUPPORTED ''''"

definition ErrSystemNotReady :: go_error where [err_defs]:
  "ErrSystemNotReady = CudaErr CUDA_ERROR_SYSTEM_NOT_READY ''''"

definition ErrSystemDriverMismatch :: go_error where [err_defs]:
  "ErrSystemDriverMismatch = CudaErr CUDA_ERROR_SYSTEM_DRIVER_MISMATCH ''''"

definition ErrStreamCaptureUnsupported :: go_error where [err_defs]:
  "ErrStreamCaptureUnsupported = CudaErr CUDA_ERROR_STREAM_CAPTURE_UNSUPPORTED ''''"

definition ErrStreamCaptureInvalidated :: go_error where [err_defs]:
  "ErrStreamCaptureInvalidated = CudaErr CUDA_ERROR_STREAM_CAPTURE_INVALIDATED ''''"

definition ErrStreamCaptureMerge :: go_error where [err_defs]:
  "ErrStreamCaptureMerge = CudaErr CUDA_ERROR_STREAM_CAPTURE_MERGE ''''"

definition ErrStreamCaptureUnmatched :: go_error where [err_defs]:
  "ErrStreamCaptureUnmatched = CudaErr CUDA_ERROR_STREAM_CAPTURE_UNMATCHED ''''"

definition ErrStreamCaptureUnjoined :: go_error where [err_defs]:
  "ErrStreamCaptureUnjoined = CudaErr CUDA_ERROR_STREAM_CAPTURE_UNJOINED ''''"

definition ErrStreamCaptureIsolation :: go_error where [err_defs]:
  "ErrStreamCaptureIsolation = CudaErr CUDA_ERROR_STREAM_CAPTURE_ISOLATION ''''"

definition ErrStreamCaptureImplicit :: go_error where [err_defs]:
  "ErrStreamCaptureImplicit = CudaErr CUDA_ERROR_STREAM_CAPTURE_IMPLICIT ''''"

definition ErrCapturedEvent :: go_error where [err_defs]:
  "ErrCapturedEvent = CudaErr CUDA_ERROR_CAPTURED_EVENT ''''"

definition ErrStreamCaptureWrongThread :: go_error where [err_defs]:
  "ErrStreamCaptureWrongThread = CudaErr CUDA_ERROR_STREAM_CAPTURE_WRONG_THREAD ''''"

definition ErrTimeout :: go_error where [err_defs]:
  "ErrTimeout = CudaErr CUDA_ERROR_TIMEOUT ''''"

definition ErrGraphExecUpdateFailure :: go_error where [err_defs]:
  "ErrGraphExecUpdateFailure = CudaErr CUDA_ERROR_GRAPH_EXEC_UPDATE_FAILURE ''''"

definition ErrExternalDevice :: go_error where [err_defs]:
  "ErrExternalDevice = CudaErr CUDA_ERROR_EXTERNAL_DEVICE ''''"

definition ErrUnknown :: go_error where [err_defs]:
  "ErrUnknown = CudaErr CUDA_ERROR_UNKNOWN ''''"

text \<open>The packed-argument sentinels are re-exported by \<^verbatim>\<open>cuda/errors.go\<close>.\<close>

definition ErrArgIndexOutOfRange :: go_error where [err_defs]:
  "ErrArgIndexOutOfRange = ErrIndexOutOfRange"

definition ErrArgTypeMismatch :: go_error where [err_defs]:
  "ErrArgTypeMismatch = ErrTypeMismatch"

definition ErrArgSizeMismatch :: go_error where [err_defs]:
  "ErrArgSizeMismatch = ErrSizeMismatch"

subsection \<open>Decimal printing, for unnamed codes\<close>

fun show_nat :: "nat \<Rightarrow> string" where
  "show_nat n = (if n < 10 then [char_of (48 + n)] else show_nat (n div 10) @ [char_of (48 + n mod 10)])"

declare show_nat.simps [simp del]

definition show_int :: "int \<Rightarrow> string" where
  "show_int i = (if i < 0 then CHR ''-'' # show_nat (nat (- i)) else show_nat (nat i))"

definition Error_Error :: "CUresult \<Rightarrow> string \<Rightarrow> string" where
  "Error_Error code opn =
     (let name0 = CUresult_Name code;
          name = (if name0 = '''' then ''CUDA_ERROR_'' @ show_int (sint code) else name0)
      in if opn = '''' then name else opn @ '': '' @ name)"

subsection \<open>Checking a result code\<close>

definition check :: "string \<Rightarrow> CUresult \<Rightarrow> go_error option" where
  "check opn code = (if code = CUDA_SUCCESS then None else Some (CudaErr code opn))"

definition checkNotReady :: "string \<Rightarrow> CUresult \<Rightarrow> go_error \<Rightarrow> go_error option" where
  "checkNotReady opn code notReady =
     (if code = CUDA_ERROR_NOT_READY then Some notReady else check opn code)"

definition errStreamQueryNotReady :: go_error where
  "errStreamQueryNotReady = ImmutableResultError CUDA_ERROR_NOT_READY
     ''cuStreamQuery'' ''cuStreamQuery: CUDA_ERROR_NOT_READY''"

definition errEventQueryNotReady :: go_error where
  "errEventQueryNotReady = ImmutableResultError CUDA_ERROR_NOT_READY
     ''cuEventQuery'' ''cuEventQuery: CUDA_ERROR_NOT_READY''"

definition errEventTimeNotReady :: go_error where
  "errEventTimeNotReady = ImmutableResultError CUDA_ERROR_NOT_READY
     ''cuEventElapsedTime'' ''cuEventElapsedTime: CUDA_ERROR_NOT_READY''"

subsection \<open>Matching and joining errors\<close>

text \<open>
  The \<^verbatim>\<open>Is\<close> methods of the repository's error types, and \<^verbatim>\<open>errors.Is\<close>, which tries the error
  itself, then what it wraps. A joined error is never a target in the repository.
\<close>

fun Error_Is :: "CUresult \<Rightarrow> go_error \<Rightarrow> bool" where
  "Error_Is code (CudaErr other _) = (code = other)"
| "Error_Is code _ = False"

fun immutableResultError_Is :: "CUresult \<Rightarrow> go_error \<Rightarrow> bool" where
  "immutableResultError_Is code (CudaErr other _) = (code = other)"
| "immutableResultError_Is code (ImmutableResultError other _ _) = (code = other)"
| "immutableResultError_Is code _ = False"

text \<open>\<^verbatim>\<open>errors.As\<close> into a \<^verbatim>\<open>*Error\<close> copies code and operation out of the immutable error.\<close>

fun immutableResultError_As :: "go_error \<Rightarrow> go_error option" where
  "immutableResultError_As (ImmutableResultError code opn _) = Some (CudaErr code opn)"
| "immutableResultError_As _ = None"

fun PanicError_Is :: "go_error \<Rightarrow> bool" where
  "PanicError_Is (PanicError _) = True"
| "PanicError_Is _ = False"

fun errors_Is :: "go_error \<Rightarrow> go_error \<Rightarrow> bool" where
  "errors_Is (Sentinel m) t = (t = Sentinel m)"
| "errors_Is (CudaErr c opn) t = Error_Is c t"
| "errors_Is (ImmutableResultError c opn txt) t = immutableResultError_Is c t"
| "errors_Is (PanicError v) t = PanicError_Is t"
| "errors_Is Canceled t = (t = Canceled)"
| "errors_Is DeadlineExceeded t = (t = DeadlineExceeded)"
| "errors_Is (WrapErr m e) t = errors_Is e t"
| "errors_Is (JoinErr es) t = (\<exists>e \<in> set es. errors_Is e t)"

primrec non_nil :: "'a option list \<Rightarrow> 'a list" where
  "non_nil [] = []"
| "non_nil (x # xs) = (case x of None \<Rightarrow> non_nil xs | Some e \<Rightarrow> e # non_nil xs)"

definition errors_Join :: "go_error option list \<Rightarrow> go_error option" where
  "errors_Join es = (let xs = non_nil es in if xs = [] then None else Some (JoinErr xs))"

lemma set_non_nil [simp]: "set (non_nil xs) = {e. Some e \<in> set xs}"
  by (induction xs) (auto split: option.splits)

lemma non_nil_Nil_iff [simp]: "non_nil xs = [] \<longleftrightarrow> (\<forall>x \<in> set xs. x = None)"
  by (induction xs) (auto split: option.splits)

lemma errors_Join_None_iff [simp]: "errors_Join es = None \<longleftrightarrow> (\<forall>x \<in> set es. x = None)"
  by (simp add: errors_Join_def Let_def)

lemma errors_Join_Is:
  "errors_Join es = Some e \<Longrightarrow> errors_Is e t \<longleftrightarrow> (\<exists>x. Some x \<in> set es \<and> errors_Is x t)"
  by (auto simp: errors_Join_def Let_def split: if_splits)

lemma check_None_iff [simp]: "check opn code = None \<longleftrightarrow> code = CUDA_SUCCESS"
  by (simp add: check_def)

lemma check_Some: "code \<noteq> CUDA_SUCCESS \<Longrightarrow> check opn code = Some (CudaErr code opn)"
  by (simp add: check_def)

end
