(* ===== verification/ArgPack.thy ===== *)
theory ArgPack
  imports GoErrors
begin

unbundle bit_operations_syntax

section \<open>Kernel argument packing\<close>

text \<open>
  The argument builder of \<^verbatim>\<open>internal/argpack/argpack.go\<close>. CUDA receives an array of pointers to
  argument values; the builder owns that storage. Storage is modelled as bytes: sixteen inline
  slots of eight bytes, and the spill arena \<^verbatim>\<open>spillBuf\<close> as its backing array (whose length is the
  slice's capacity) with the slice's length. A pointer is an inline slot or an offset into one
  particular backing array: \<open>spillGen\<close> names the current one and changes whenever the arena is
  reallocated, so a pointer into an abandoned array is told apart from a live one.

  The main results: the builder implements the list of arguments added so far
  (\<open>args\<close>), every pointer handed to CUDA reads back exactly the argument it stands for, updates
  in place change one argument only, and a reset builder behaves like a new one.
\<close>

subsection \<open>Data\<close>

type_synonym bytes = "u8 list"

text \<open>\<^verbatim>\<open>reflect.Type\<close>: a type's identity, which determines its size.\<close>

datatype gotype = GoType (tname: string) (tsize: nat)

definition inlineArgs :: nat where "inlineArgs = 16"
definition spillAlign :: nat where "spillAlign = 8"
definition minArenaCap :: nat where "minArenaCap = 64"
definition MaxRetainedSpillBytes :: nat where "MaxRetainedSpillBytes = 8192"

lemmas argpack_consts = inlineArgs_def spillAlign_def minArenaCap_def MaxRetainedSpillBytes_def

record argMeta =
  am_offset :: u32   \<comment> \<open>\<^verbatim>\<open>int32\<close>; negative: the argument's own inline slot\<close>
  am_size :: u16
  am_typ :: "gotype option"

datatype pointer = PInline nat | PArena nat nat

record Builder =
  inlineValues :: "bytes list"
  inlinePointers :: "pointer option list"
  inlineMeta :: "argMeta list"
  overflowMeta :: "argMeta list"
  count :: nat
  spillBack :: bytes
  spillLen :: nat
  spillGen :: nat
  spillPointers :: "pointer option list"
  hasSpill :: bool
  dirty :: bool

definition zeroMeta :: argMeta where
  "zeroMeta = \<lparr>am_offset = 0, am_size = 0, am_typ = None\<rparr>"

definition newBuilder :: Builder where
  "newBuilder = \<lparr>inlineValues = replicate inlineArgs (replicate 8 0),
     inlinePointers = replicate inlineArgs None, inlineMeta = replicate inlineArgs zeroMeta,
     overflowMeta = [], count = 0, spillBack = [], spillLen = 0, spillGen = 0,
     spillPointers = [], hasSpill = False, dirty = False\<rparr>"

subsection \<open>Operations\<close>

text \<open>Go's \<^verbatim>\<open>copy\<close> into a byte range that is large enough.\<close>

definition overwrite :: "nat \<Rightarrow> 'a list \<Rightarrow> 'a list \<Rightarrow> 'a list" where
  "overwrite off data xs = take off xs @ data @ drop (off + length data) xs"

text \<open>\<^verbatim>\<open>(len + spillAlign - 1) &^ (spillAlign - 1)\<close>\<close>

definition alignUp :: "nat \<Rightarrow> nat" where
  "alignUp n = nat ((int n + int spillAlign - 1) AND NOT (int spillAlign - 1))"

definition arenaAlloc :: "Builder \<Rightarrow> nat \<Rightarrow> nat \<times> Builder" where
  "arenaAlloc b sz =
     (let off = alignUp (spillLen b); need = off + sz; capacity = length (spillBack b) in
      if capacity < need then
        let c0 = 2 * capacity;
            c1 = (if c0 < need then need else c0);
            grownCap = (if c1 < minArenaCap then minArenaCap else c1);
            grown = overwrite 0 (take (spillLen b) (spillBack b)) (replicate grownCap 0)
        in (off, b\<lparr>spillBack := grown, spillLen := need, spillGen := Suc (spillGen b)\<rparr>)
      else (off, b\<lparr>spillLen := need\<rparr>))"

definition setMeta :: "Builder \<Rightarrow> nat \<Rightarrow> argMeta \<Rightarrow> Builder" where
  "setMeta b i m =
     (if i < inlineArgs then b\<lparr>inlineMeta := (inlineMeta b)[i := m]\<rparr>
      else b\<lparr>overflowMeta := overflowMeta b @ [m]\<rparr>)"

definition meta :: "Builder \<Rightarrow> nat \<Rightarrow> argMeta" where
  "meta b i = (if i < inlineArgs then inlineMeta b ! i else overflowMeta b ! (i - inlineArgs))"

definition add :: "Builder \<Rightarrow> bytes \<Rightarrow> gotype option \<Rightarrow> Builder" where
  "add b data typ =
     (let size = length data in
      if count b < inlineArgs \<and> size \<le> 8 then
        let b1 = b\<lparr>inlineValues := (inlineValues b)[count b := overwrite 0 data (replicate 8 0)],
                   inlinePointers := (inlinePointers b)[count b := Some (PInline (count b))]\<rparr>;
            b2 = setMeta b1 (count b) \<lparr>am_offset = - 1, am_size = of_nat size, am_typ = typ\<rparr>
        in b2\<lparr>count := count b + 1, dirty := hasSpill b\<rparr>
      else
        let (off, b1) = arenaAlloc b size;
            b2 = b1\<lparr>spillBack := overwrite off data (spillBack b1)\<rparr>;
            b3 = setMeta b2 (count b) \<lparr>am_offset = of_nat off, am_size = of_nat size, am_typ = typ\<rparr>
        in b3\<lparr>count := count b + 1, hasSpill := True, dirty := True\<rparr>)"

text \<open>\<^verbatim>\<open>Add[T]\<close> records the static type; \<^verbatim>\<open>AddBytes\<close> records none.\<close>

definition Add :: "Builder \<Rightarrow> gotype \<Rightarrow> bytes \<Rightarrow> Builder" where
  "Add b t v = add b v (Some t)"

definition AddBytes :: "Builder \<Rightarrow> bytes \<Rightarrow> Builder" where
  "AddBytes b data = add b data None"

definition write_arg :: "Builder \<Rightarrow> argMeta \<Rightarrow> nat \<Rightarrow> bytes \<Rightarrow> Builder" where
  "write_arg b m i data =
     (if sint (am_offset m) < 0 then
        b\<lparr>inlineValues := (inlineValues b)[i := overwrite 0 data (inlineValues b ! i)]\<rparr>
      else b\<lparr>spillBack := overwrite (nat (sint (am_offset m))) data (spillBack b)\<rparr>)"

definition Set :: "Builder \<Rightarrow> int \<Rightarrow> gotype \<Rightarrow> bytes \<Rightarrow> go_error option \<times> Builder" where
  "Set b i t v =
     (if i < 0 \<or> i \<ge> int (count b) then (Some ErrIndexOutOfRange, b)
      else let m = meta b (nat i) in
        if am_typ m = None \<or> am_typ m \<noteq> Some t then (Some ErrTypeMismatch, b)
        else (None, write_arg b m (nat i) v))"

definition SetBytes :: "Builder \<Rightarrow> int \<Rightarrow> bytes \<Rightarrow> go_error option \<times> Builder" where
  "SetBytes b i data =
     (if i < 0 \<or> i \<ge> int (count b) then (Some ErrIndexOutOfRange, b)
      else let m = meta b (nat i) in
        if length data \<noteq> unat (am_size m) then (Some ErrSizeMismatch, b)
        else (None, write_arg b m (nat i) data))"

text \<open>One entry of the parameter array: the inline pointer, or a pointer into the current arena.\<close>

definition spillPointer :: "Builder \<Rightarrow> nat \<Rightarrow> pointer option" where
  "spillPointer b i =
     (let m = meta b i in
      if sint (am_offset m) < 0 then inlinePointers b ! i
      else Some (PArena (spillGen b) (nat (sint (am_offset m)))))"

definition Params :: "Builder \<Rightarrow> pointer option list option \<times> Builder" where
  "Params b =
     (if count b = 0 then (None, b)
      else if \<not> hasSpill b then (Some (inlinePointers b), b)
      else if dirty b then
        let b' = b\<lparr>spillPointers := map (spillPointer b) [0..<count b], dirty := False\<rparr>
        in (Some (spillPointers b'), b')
      else (Some (spillPointers b), b))"

definition Len :: "Builder \<Rightarrow> nat" where
  "Len b = count b"

definition Reset :: "Builder \<Rightarrow> Builder" where
  "Reset b =
     (let b1 = b\<lparr>count := 0, hasSpill := False, dirty := False\<rparr> in
      if length (spillBack b) > MaxRetainedSpillBytes then
        b1\<lparr>spillBack := [], spillLen := 0, spillPointers := [], overflowMeta := []\<rparr>
      else b1\<lparr>spillLen := 0, spillPointers := [], overflowMeta := []\<rparr>)"

subsection \<open>What CUDA reads through a pointer\<close>

definition deref :: "Builder \<Rightarrow> pointer \<Rightarrow> nat \<Rightarrow> bytes option" where
  "deref b p n =
     (case p of
        PInline k \<Rightarrow> if k < length (inlineValues b) then Some (take n (inlineValues b ! k)) else None
      | PArena g off \<Rightarrow>
          if g = spillGen b \<and> off + n \<le> length (spillBack b)
          then Some (take n (drop off (spillBack b))) else None)"

text \<open>The abstract value of a builder: the bytes and the type of every argument, in order.\<close>

definition arg_bytes :: "Builder \<Rightarrow> nat \<Rightarrow> bytes" where
  "arg_bytes b i =
     (let m = meta b i; n = unat (am_size m) in
      if sint (am_offset m) < 0 then take n (inlineValues b ! i)
      else take n (drop (nat (sint (am_offset m))) (spillBack b)))"

definition args :: "Builder \<Rightarrow> (bytes \<times> gotype option) list" where
  "args b = map (\<lambda>i. (arg_bytes b i, am_typ (meta b i))) [0..<count b]"

subsection \<open>Generic lemmas on byte ranges\<close>

lemma length_overwrite [simp]: "off + length d \<le> length xs \<Longrightarrow> length (overwrite off d xs) = length xs"
  by (simp add: overwrite_def)

lemma take_drop_overwrite_same:
  "off \<le> length xs \<Longrightarrow> take (length d) (drop off (overwrite off d xs)) = d"
  by (simp add: overwrite_def)

lemma take_drop_overwrite_before:
  "o' + n \<le> off \<Longrightarrow> off \<le> length xs \<Longrightarrow>
   take n (drop o' (overwrite off d xs)) = take n (drop o' xs)"
  by (auto simp: overwrite_def drop_take min_def)

lemma take_drop_overwrite_after:
  "off + length d \<le> o' \<Longrightarrow> off \<le> length xs \<Longrightarrow>
   drop o' (overwrite off d xs) = drop o' xs"
  by (simp add: overwrite_def)

lemma take_overwrite_0:
  "n \<le> length xs \<Longrightarrow> take n (overwrite 0 (take n xs) ys) = take n xs"
  by (simp add: overwrite_def)

lemma and_not_mask_int: "(x :: int) AND NOT (mask n) = x div 2 ^ n * 2 ^ n"
proof -
  have "x AND NOT (mask n) = push_bit n (drop_bit n x)"
    by (auto simp: bit_eq_iff bit_simps)
  then show ?thesis by (simp add: push_bit_eq_mult drop_bit_eq_div)
qed

lemma alignUp_eq: "alignUp n = (n + 7) div 8 * 8"
proof -
  have "(int n + 7) AND NOT 7 = (int n + 7) div 8 * 8"
    using and_not_mask_int [of "int n + 7" 3] by (simp add: mask_eq_exp_minus_1)
  moreover have "(int n + 7) div 8 * 8 = int ((n + 7) div 8 * 8)"
    by (simp add: of_nat_div)
  ultimately have "(int n + 7) AND NOT 7 = int ((n + 7) div 8 * 8)" by simp
  moreover have "alignUp n = nat ((int n + 7) AND NOT 7)"
    unfolding alignUp_def spillAlign_def by (simp add: algebra_simps)
  ultimately show ?thesis by (simp only: nat_int)
qed

lemma alignUp_ge: "n \<le> alignUp n" and alignUp_mod: "alignUp n mod 8 = 0"
  by (simp_all add: alignUp_eq)

subsection \<open>Well-formed builders\<close>

definition off_of :: "argMeta \<Rightarrow> nat" where
  "off_of m = nat (sint (am_offset m))"

abbreviation is_inline :: "argMeta \<Rightarrow> bool" where
  "is_inline m \<equiv> sint (am_offset m) < 0"

abbreviation size_of :: "argMeta \<Rightarrow> nat" where
  "size_of m \<equiv> unat (am_size m)"

text \<open>Every argument lies in its inline slot or, eight-byte aligned, inside the arena.\<close>

definition wf_arg :: "Builder \<Rightarrow> nat \<Rightarrow> bool" where
  "wf_arg b i \<longleftrightarrow> (let m = meta b i in
     if is_inline m then i < inlineArgs \<and> size_of m \<le> 8 \<and> inlinePointers b ! i = Some (PInline i)
     else off_of m + size_of m \<le> spillLen b \<and> off_of m mod 8 = 0 \<and> hasSpill b)"

definition disjoint_args :: "Builder \<Rightarrow> bool" where
  "disjoint_args b \<longleftrightarrow> (\<forall>j < count b. \<forall>i < j.
     \<not> is_inline (meta b i) \<longrightarrow> \<not> is_inline (meta b j) \<longrightarrow>
     off_of (meta b i) + size_of (meta b i) \<le> off_of (meta b j))"

definition wf_shape :: "Builder \<Rightarrow> bool" where
  "wf_shape b \<longleftrightarrow> length (inlineValues b) = inlineArgs \<and>
     (\<forall>v \<in> set (inlineValues b). length v = 8) \<and>
     length (inlinePointers b) = inlineArgs \<and> length (inlineMeta b) = inlineArgs \<and>
     length (overflowMeta b) = count b - inlineArgs \<and>
     spillLen b \<le> length (spillBack b)"

definition wf_pointers :: "Builder \<Rightarrow> bool" where
  "wf_pointers b \<longleftrightarrow>
     (hasSpill b \<longrightarrow> \<not> dirty b \<longrightarrow> spillPointers b = map (spillPointer b) [0..<count b])"

definition wf_builder :: "Builder \<Rightarrow> bool" where
  "wf_builder b \<longleftrightarrow> wf_shape b \<and> (\<forall>i < count b. wf_arg b i) \<and> disjoint_args b \<and> wf_pointers b"

lemmas wf_defs = wf_builder_def wf_shape_def wf_arg_def disjoint_args_def wf_pointers_def

lemma wf_newBuilder: "wf_builder newBuilder"
  by (simp add: wf_defs newBuilder_def inlineArgs_def)

lemma args_newBuilder: "args newBuilder = []"
  by (simp add: args_def newBuilder_def)

subsection \<open>Adding an argument\<close>

lemma sint_of_nat32: "n < 2 ^ 31 \<Longrightarrow> sint (of_nat n :: u32) = int n"
  by (simp add: signed_of_nat signed_take_bit_int_eq_self)

lemma unat_of_nat16: "n < 2 ^ 16 \<Longrightarrow> unat (of_nat n :: u16) = n"
  by (simp add: unsigned_of_nat take_bit_nat_eq_self)

lemma meta_setMeta_old:
  "wf_shape b \<Longrightarrow> i < count b \<Longrightarrow> meta (setMeta b (count b) m) i = meta b i"
  by (auto simp: meta_def setMeta_def wf_shape_def nth_append)

lemma meta_setMeta_new: "wf_shape b \<Longrightarrow> meta (setMeta b (count b) m) (count b) = m"
  by (auto simp: meta_def setMeta_def wf_shape_def nth_append)

lemma setMeta_frame [simp]:
  "inlineValues (setMeta b i m) = inlineValues b" "inlinePointers (setMeta b i m) = inlinePointers b"
  "count (setMeta b i m) = count b" "spillBack (setMeta b i m) = spillBack b"
  "spillLen (setMeta b i m) = spillLen b" "spillGen (setMeta b i m) = spillGen b"
  "spillPointers (setMeta b i m) = spillPointers b" "hasSpill (setMeta b i m) = hasSpill b"
  "dirty (setMeta b i m) = dirty b"
  by (simp_all add: setMeta_def)

lemma wf_shape_setMeta:
  "wf_shape b \<Longrightarrow> wf_shape ((setMeta b (count b) m)\<lparr>count := count b + 1\<rparr>)"
  by (auto simp: wf_shape_def setMeta_def)

lemma arenaAlloc_spec:
  assumes "wf_shape b" and "arenaAlloc b sz = (off, b1)"
  shows "off = alignUp (spillLen b)" "spillLen b1 = off + sz"
    "spillLen b1 \<le> length (spillBack b1)"
    "take (spillLen b) (spillBack b1) = take (spillLen b) (spillBack b)"
    "count b1 = count b" "inlineValues b1 = inlineValues b" "inlinePointers b1 = inlinePointers b"
    "inlineMeta b1 = inlineMeta b" "overflowMeta b1 = overflowMeta b"
proof -
  have le: "spillLen b \<le> length (spillBack b)" using assms(1) by (simp add: wf_shape_def)
  show "off = alignUp (spillLen b)" "spillLen b1 = off + sz"
    "count b1 = count b" "inlineValues b1 = inlineValues b" "inlinePointers b1 = inlinePointers b"
    "inlineMeta b1 = inlineMeta b" "overflowMeta b1 = overflowMeta b"
    using assms(2) by (auto simp: arenaAlloc_def Let_def split: if_splits)
  show "spillLen b1 \<le> length (spillBack b1)"
    using assms(2) le alignUp_ge [of "spillLen b"]
    by (auto simp: arenaAlloc_def Let_def overwrite_def split: if_splits)
  show "take (spillLen b) (spillBack b1) = take (spillLen b) (spillBack b)"
    using assms(2) le by (auto simp: arenaAlloc_def Let_def take_overwrite_0 split: if_splits)
qed

lemma meta_upd [simp]:
  "meta (b\<lparr>count := c\<rparr>) = meta b" "meta (b\<lparr>dirty := d\<rparr>) = meta b" "meta (b\<lparr>hasSpill := h\<rparr>) = meta b"
  "meta (b\<lparr>spillBack := x\<rparr>) = meta b" "meta (b\<lparr>spillLen := l\<rparr>) = meta b"
  "meta (b\<lparr>spillGen := g\<rparr>) = meta b" "meta (b\<lparr>spillPointers := ps\<rparr>) = meta b"
  "meta (b\<lparr>inlineValues := vs\<rparr>) = meta b" "meta (b\<lparr>inlinePointers := qs\<rparr>) = meta b"
  by (simp_all add: meta_def fun_eq_iff)

lemma args_snocI:
  assumes "count b' = Suc (count b)"
    and "\<And>i. i < count b \<Longrightarrow> arg_bytes b' i = arg_bytes b i \<and> am_typ (meta b' i) = am_typ (meta b i)"
    and "arg_bytes b' (count b) = data" and "am_typ (meta b' (count b)) = typ"
  shows "args b' = args b @ [(data, typ)]"
  using assms by (simp add: args_def)

text \<open>
  What both branches of \<^const>\<open>add\<close> share: the old arguments keep their place, the new one takes the
  next index, and the parameter array is either still right or marked for rebuilding.
\<close>

lemma wf_builder_snocI:
  assumes "wf_builder b" and "count b' = Suc (count b)" and "wf_shape b'"
    and old: "\<And>i. i < count b \<Longrightarrow> meta b' i = meta b i"
    and ptr: "\<And>i. i < count b \<Longrightarrow> inlinePointers b' ! i = inlinePointers b ! i"
    and "spillLen b \<le> spillLen b'" and "hasSpill b \<Longrightarrow> hasSpill b'"
    and new: "wf_arg b' (count b)"
    and after: "\<not> is_inline (meta b' (count b)) \<Longrightarrow> spillLen b \<le> off_of (meta b' (count b))"
    and "hasSpill b' \<Longrightarrow> dirty b'"
  shows "wf_builder b'"
proof -
  have arg: "wf_arg b' i" if "i < count b" for i
    using assms(1,6,7) old [OF that] ptr [OF that] that
    by (fastforce simp: wf_builder_def wf_arg_def Let_def split: if_splits)
  have "disjoint_args b'"
    unfolding disjoint_args_def
  proof (intro allI impI)
    fix j i
    assume j: "j < count b'" and i: "i < j"
      and ar: "\<not> is_inline (meta b' i)" "\<not> is_inline (meta b' j)"
    have ic: "i < count b" using i j assms(2) by simp
    show "off_of (meta b' i) + size_of (meta b' i) \<le> off_of (meta b' j)"
    proof (cases "j = count b")
      case True
      have "wf_arg b i" using assms(1) ic by (simp add: wf_builder_def)
      then have "off_of (meta b i) + size_of (meta b i) \<le> spillLen b"
        using ar(1) old [OF ic] by (simp add: wf_arg_def Let_def)
      then show ?thesis using after ar(2) True old [OF ic] by simp
    next
      case False
      with j assms(2) have "j < count b" by simp
      then show ?thesis
        using assms(1) i ar old [OF ic] old [of j] by (simp add: wf_builder_def disjoint_args_def)
    qed
  qed
  then show ?thesis
    using assms(2,3,10) arg new by (auto simp: wf_builder_def wf_pointers_def less_Suc_eq)
qed

lemma add_inline:
  assumes wf: "wf_builder b" and c: "count b < inlineArgs" and sz: "length data \<le> 8"
  shows "wf_builder (add b data typ) \<and> args (add b data typ) = args b @ [(data, typ)]"
proof -
  define b0 where "b0 = b\<lparr>inlineValues := (inlineValues b)[count b := overwrite 0 data (replicate 8 0)],
                   inlinePointers := (inlinePointers b)[count b := Some (PInline (count b))]\<rparr>"
  define m where "m = \<lparr>am_offset = - 1, am_size = of_nat (length data), am_typ = typ\<rparr>"
  have b': "add b data typ = (setMeta b0 (count b) m)\<lparr>count := count b + 1, dirty := hasSpill b\<rparr>"
    using c sz by (simp add: add_def b0_def m_def Let_def)
  have sh: "wf_shape b" using wf by (simp add: wf_builder_def)
  have sh0: "wf_shape b0"
    using sh sz by (auto simp: wf_shape_def b0_def dest: set_update_subset_insert [THEN subsetD])
  have cb: "count b0 = count b" by (simp add: b0_def)
  have new: "meta (add b data typ) (count b) = m"
    using meta_setMeta_new [OF sh0, of m] by (simp add: b' cb)
  have old: "meta (add b data typ) i = meta b i" if "i < count b" for i
    using meta_setMeta_old [OF sh0, of i m] that by (simp add: b' cb) (simp add: b0_def)
  have szm: "size_of m = length data" using sz by (simp add: m_def unat_of_nat16)
  have inl: "is_inline m" by (simp add: m_def)
  have sh': "wf_shape (add b data typ)"
    using wf_shape_setMeta [OF sh0, of m] by (simp add: b' cb wf_shape_def)
  have f: "count (add b data typ) = Suc (count b)" "hasSpill (add b data typ) = hasSpill b"
    "dirty (add b data typ) = hasSpill b" "spillLen (add b data typ) = spillLen b"
    "spillBack (add b data typ) = spillBack b"
    "inlineValues (add b data typ) = (inlineValues b)[count b := overwrite 0 data (replicate 8 0)]"
    "inlinePointers (add b data typ) = (inlinePointers b)[count b := Some (PInline (count b))]"
    by (simp_all add: b' b0_def)
  have "wf_builder (add b data typ)"
  proof (rule wf_builder_snocI [OF wf f(1) sh' old])
    show "wf_arg (add b data typ) (count b)"
      using c sz sh by (simp add: wf_arg_def new inl szm f wf_shape_def)
  qed (simp_all add: f new inl)
  moreover have "args (add b data typ) = args b @ [(data, typ)]"
  proof (rule args_snocI [OF f(1)])
    show "arg_bytes (add b data typ) (count b) = data"
      using c sh by (simp add: arg_bytes_def new inl szm f wf_shape_def overwrite_def)
  qed (simp_all add: arg_bytes_def old new f Let_def m_def)
  ultimately show ?thesis by blast
qed

text \<open>Growing the arena and writing behind its end leaves the bytes of the earlier arguments alone.\<close>

lemma arena_keeps:
  assumes "wf_shape b" "arenaAlloc b n = (off, b1)" "length data = n" "wf_arg b i" "\<not> is_inline (meta b i)"
  shows "take (size_of (meta b i)) (drop (off_of (meta b i)) (overwrite off data (spillBack b1))) =
    take (size_of (meta b i)) (drop (off_of (meta b i)) (spillBack b))"
proof -
  note A = arenaAlloc_spec [OF assms(1,2)]
  have ge: "spillLen b \<le> off" using A(1) alignUp_ge by simp
  have le: "off_of (meta b i) + size_of (meta b i) \<le> spillLen b"
    using assms(4,5) by (simp add: wf_arg_def Let_def)
  then have "take (size_of (meta b i)) (drop (off_of (meta b i)) (overwrite off data (spillBack b1)))
    = take (size_of (meta b i)) (drop (off_of (meta b i)) (spillBack b1))"
    using ge A(2,3) assms(3) by (intro take_drop_overwrite_before) simp_all
  also have "\<dots> = take (size_of (meta b i)) (drop (off_of (meta b i)) (take (spillLen b) (spillBack b1)))"
    using le by (simp add: drop_take min_def)
  also have "\<dots> = take (size_of (meta b i)) (drop (off_of (meta b i)) (spillBack b))"
    using le unfolding A(4) by (simp add: drop_take min_def)
  finally show ?thesis .
qed

lemma add_arena:
  assumes wf: "wf_builder b" and br: "\<not> (count b < inlineArgs \<and> length data \<le> 8)"
    and sz: "length data < 2 ^ 16" and fit: "alignUp (spillLen b) + length data < 2 ^ 31"
  shows "wf_builder (add b data typ) \<and> args (add b data typ) = args b @ [(data, typ)]"
proof -
  obtain off b1 where al: "arenaAlloc b (length data) = (off, b1)" by (rule prod.exhaust)
  have sh: "wf_shape b" using wf by (simp add: wf_builder_def)
  note A = arenaAlloc_spec [OF sh al]
  define b0 where "b0 = b1\<lparr>spillBack := overwrite off data (spillBack b1)\<rparr>"
  define m where "m = \<lparr>am_offset = of_nat off, am_size = of_nat (length data), am_typ = typ\<rparr>"
  let ?B = "add b data typ"
  have b': "?B = (setMeta b0 (count b) m)\<lparr>count := count b + 1, hasSpill := True, dirty := True\<rparr>"
    using br al by (auto simp: add_def b0_def m_def Let_def)
  have b0: "count b0 = count b" "inlineValues b0 = inlineValues b" "meta b0 = meta b"
    "inlinePointers b0 = inlinePointers b" "spillLen b0 = off + length data"
    using A by (simp_all add: b0_def meta_def fun_eq_iff)
  have bk: "length (spillBack b0) = length (spillBack b1)"
    using A(2,3) by (simp add: b0_def)
  have sh0: "wf_shape b0"
    using sh A bk by (simp add: wf_shape_def b0_def)
  have new: "meta ?B (count b) = m"
    using meta_setMeta_new [OF sh0, of m] by (simp add: b' b0(1))
  have old: "meta ?B i = meta b i" if "i < count b" for i
    using meta_setMeta_old [OF sh0, of i m] that by (simp add: b' b0(1,3))
  have offm: "sint (am_offset m) = int off" "size_of m = length data" "off_of m = off"
    using sz fit A(1) by (simp_all add: m_def off_of_def sint_of_nat32 unat_of_nat16)
  have f: "count ?B = Suc (count b)" "hasSpill ?B" "dirty ?B" "spillLen ?B = off + length data"
    "spillBack ?B = overwrite off data (spillBack b1)" "inlineValues ?B = inlineValues b"
    "inlinePointers ?B = inlinePointers b"
    by (simp_all add: b' b0 b0_def [symmetric]) (simp add: b0_def)
  have sh': "wf_shape ?B"
    using wf_shape_setMeta [OF sh0, of m] by (simp add: b' b0(1) wf_shape_def)
  have ge: "spillLen b \<le> off" using A(1) alignUp_ge by simp
  have "wf_builder ?B"
  proof (rule wf_builder_snocI [OF wf f(1) sh' old])
    show "wf_arg ?B (count b)"
      using A(1) alignUp_mod by (simp add: wf_arg_def new offm f)
  qed (use ge in \<open>simp_all add: f new offm\<close>)
  moreover have "args ?B = args b @ [(data, typ)]"
  proof (rule args_snocI [OF f(1)])
    show "arg_bytes ?B (count b) = data"
      using A(2,3) take_drop_overwrite_same [of off "spillBack b1" data]
      by (simp add: arg_bytes_def new offm f)
    fix i assume i: "i < count b"
    have "wf_arg b i" using wf i by (simp add: wf_builder_def)
    note arena_keeps [OF sh al refl this]
    then show "arg_bytes ?B i = arg_bytes b i \<and> am_typ (meta ?B i) = am_typ (meta b i)"
      by (simp add: arg_bytes_def old [OF i] f off_of_def Let_def)
  qed (simp add: new m_def)
  ultimately show ?thesis by blast
qed

lemma spillLen_add: "spillLen (add b data typ) \<le> spillLen b + length data + 7"
proof -
  have "alignUp (spillLen b) \<le> spillLen b + 7" by (simp add: alignUp_eq) 
  then show ?thesis by (auto simp: add_def arenaAlloc_def Let_def split: prod.splits)
qed

lemma alignUp_le: "alignUp n \<le> n + 7"
  by (simp add: alignUp_eq)

lemma add_refines:
  assumes "wf_builder b" and "length data < 2 ^ 16" and "spillLen b + length data + 7 < 2 ^ 31"
  shows "wf_builder (add b data typ)" "args (add b data typ) = args b @ [(data, typ)]"
proof -
  have "alignUp (spillLen b) + length data < 2 ^ 31"
    using assms(3) alignUp_le [of "spillLen b"] by simp
  then have "wf_builder (add b data typ) \<and> args (add b data typ) = args b @ [(data, typ)]"
    using assms(1,2) add_inline add_arena by blast
  then show "wf_builder (add b data typ)" "args (add b data typ) = args b @ [(data, typ)]" by auto
qed

subsection \<open>The parameter array\<close>

lemma spillPointer_upd [simp]:
  "spillPointer (b\<lparr>spillPointers := ps\<rparr>) = spillPointer b" "spillPointer (b\<lparr>dirty := d\<rparr>) = spillPointer b"
  by (simp_all add: spillPointer_def fun_eq_iff Let_def)

lemma arg_bytes_upd [simp]:
  "arg_bytes (b\<lparr>spillPointers := ps\<rparr>) = arg_bytes b" "arg_bytes (b\<lparr>dirty := d\<rparr>) = arg_bytes b"
  by (simp_all add: arg_bytes_def fun_eq_iff Let_def)

lemma wf_parts_upd [simp]:
  "wf_arg (b\<lparr>spillPointers := ps, dirty := d\<rparr>) i = wf_arg b i"
  "wf_shape (b\<lparr>spillPointers := ps, dirty := d\<rparr>) = wf_shape b"
  "disjoint_args (b\<lparr>spillPointers := ps, dirty := d\<rparr>) = disjoint_args b"
  by (simp_all add: wf_arg_def wf_shape_def disjoint_args_def)

lemma Params_wf: "wf_builder b \<Longrightarrow> wf_builder (snd (Params b)) \<and> args (snd (Params b)) = args b"
  by (auto simp: Params_def Let_def wf_builder_def wf_pointers_def args_def)

lemma deref_upd [simp]:
  "deref (b\<lparr>spillPointers := ps\<rparr>) = deref b" "deref (b\<lparr>dirty := d\<rparr>) = deref b"
  by (simp_all add: deref_def fun_eq_iff split: pointer.split)

lemma deref_snd_Params: "deref (snd (Params b)) = deref b"
  by (simp add: Params_def Let_def)

lemma deref_spillPointer:
  assumes "wf_builder b" and "i < count b"
  shows "\<exists>p. spillPointer b i = Some p \<and> deref b p (size_of (meta b i)) = Some (arg_bytes b i)"
proof -
  have w: "wf_arg b i" and sh: "wf_shape b" using assms by (simp_all add: wf_builder_def)
  show ?thesis
    using w sh by (auto simp: wf_arg_def spillPointer_def deref_def arg_bytes_def off_of_def
        wf_shape_def Let_def split: if_splits)
qed

lemma Params_entry:
  assumes wf: "wf_builder b" and i: "i < count b" and ps: "fst (Params b) = Some ps"
  shows "ps ! i = spillPointer b i"
proof (cases "hasSpill b")
  case True
  have "ps = map (spillPointer b) [0..<count b]"
    using True assms by (auto simp: Params_def Let_def wf_builder_def wf_pointers_def split: if_splits)
  then show ?thesis using i by simp
next
  case False
  have "wf_arg b i" using wf i by (simp add: wf_builder_def)
  with False have "is_inline (meta b i)" by (auto simp: wf_arg_def Let_def split: if_splits)
  then have "spillPointer b i = inlinePointers b ! i" by (simp add: spillPointer_def Let_def)
  then show ?thesis using False i ps by (simp add: Params_def split: if_splits)
qed

subsection \<open>Updating in place\<close>

lemma write_arg_meta [simp]: "meta (write_arg b m i data) = meta b" "count (write_arg b m i data) = count b"
  by (simp_all add: write_arg_def)

lemma write_arg_frame [simp]:
  "inlinePointers (write_arg b m i data) = inlinePointers b" "spillLen (write_arg b m i data) = spillLen b"
  "spillGen (write_arg b m i data) = spillGen b" "hasSpill (write_arg b m i data) = hasSpill b"
  "dirty (write_arg b m i data) = dirty b" "spillPointers (write_arg b m i data) = spillPointers b"
  by (simp_all add: write_arg_def)

lemma write_arg_parts [simp]:
  "spillPointer (write_arg b m i data) = spillPointer b"
  "wf_arg (write_arg b m i data) k = wf_arg b k"
  "disjoint_args (write_arg b m i data) = disjoint_args b"
  "wf_pointers (write_arg b m i data) = wf_pointers b"
proof -
  show "spillPointer (write_arg b m i data) = spillPointer b"
    by (simp add: spillPointer_def fun_eq_iff Let_def)
  then show "wf_pointers (write_arg b m i data) = wf_pointers b"
    by (simp add: wf_pointers_def)
qed (simp_all add: wf_arg_def disjoint_args_def)

lemma write_arg_wf:
  assumes wf: "wf_builder b" and i: "i < count b" and d: "length data = size_of (meta b i)"
  shows "wf_builder (write_arg b (meta b i) i data)"
proof -
  have w: "wf_arg b i" and sh: "wf_shape b" using wf i by (simp_all add: wf_builder_def)
  have sh': "wf_shape (write_arg b (meta b i) i data)"
    using w sh d i
    by (auto simp: write_arg_def wf_shape_def wf_arg_def off_of_def Let_def split: if_splits
        dest!: set_update_subset_insert [THEN subsetD])
  then show ?thesis using wf by (simp add: wf_builder_def)
qed

lemma arg_bytes_arena:
  "\<not> is_inline (meta b k) \<Longrightarrow> arg_bytes b k = take (size_of (meta b k)) (drop (off_of (meta b k)) (spillBack b))"
  by (simp add: arg_bytes_def off_of_def Let_def)

lemma arg_bytes_inline: "is_inline (meta b k) \<Longrightarrow> arg_bytes b k = take (size_of (meta b k)) (inlineValues b ! k)"
  by (simp add: arg_bytes_def Let_def)

lemma take_drop_overwrite_disjoint:
  assumes "o' + n \<le> off \<or> off + length d \<le> o'" and "off \<le> length xs"
  shows "take n (drop o' (overwrite off d xs)) = take n (drop o' xs)"
  using assms take_drop_overwrite_before take_drop_overwrite_after by metis

lemma write_arg_args:
  assumes wf: "wf_builder b" and i: "i < count b" and d: "length data = size_of (meta b i)"
  shows "args (write_arg b (meta b i) i data) = (args b)[i := (data, am_typ (meta b i))]"
proof (rule nth_equalityI)
  fix k assume "k < length (args (write_arg b (meta b i) i data))"
  then have k: "k < count b" by (simp add: args_def)
  have wi: "wf_arg b i" and wk: "wf_arg b k" and sh: "wf_shape b" and dj: "disjoint_args b"
    using wf i k by (simp_all add: wf_builder_def)
  have "arg_bytes (write_arg b (meta b i) i data) k = (if k = i then data else arg_bytes b k)"
  proof (cases "is_inline (meta b i)")
    case True
    then show ?thesis
      using wi sh d by (auto simp: arg_bytes_def write_arg_def wf_arg_def wf_shape_def overwrite_def
          Let_def nth_list_update)
  next
    case False
    then have ri: "off_of (meta b i) + size_of (meta b i) \<le> length (spillBack b)"
      using wi sh by (simp add: wf_arg_def wf_shape_def Let_def)
    have w: "spillBack (write_arg b (meta b i) i data) = overwrite (off_of (meta b i)) data (spillBack b)"
      "inlineValues (write_arg b (meta b i) i data) = inlineValues b"
      using False by (simp_all add: write_arg_def off_of_def)
    consider "k = i" | "k \<noteq> i" "is_inline (meta b k)" | "k \<noteq> i" "\<not> is_inline (meta b k)" by blast
    then show ?thesis
    proof cases
      case 1
      then show ?thesis
        using False ri take_drop_overwrite_same [of "off_of (meta b i)" "spillBack b" data]
        by (simp add: arg_bytes_arena w d)
    next
      case 2
      then show ?thesis by (simp add: arg_bytes_inline w)
    next
      case 3
      then have "off_of (meta b k) + size_of (meta b k) \<le> off_of (meta b i) \<or>
          off_of (meta b i) + length data \<le> off_of (meta b k)"
        using dj False i k d unfolding disjoint_args_def by (metis linorder_neqE_nat)
      then show ?thesis using 3 ri by (simp add: arg_bytes_arena w take_drop_overwrite_disjoint)
    qed
  qed
  then show "args (write_arg b (meta b i) i data) ! k = (args b)[i := (data, am_typ (meta b i))] ! k"
    using k i by (simp add: args_def nth_list_update)
qed (simp add: args_def)

subsection \<open>Resetting\<close>

lemma Reset_wf:
  assumes "wf_builder b"
  shows "wf_builder (Reset b)" "args (Reset b) = []" "count (Reset b) = 0" "spillLen (Reset b) = 0"
    "length (spillBack (Reset b)) \<le> MaxRetainedSpillBytes"
  using assms by (auto simp: Reset_def Let_def wf_defs args_def)

subsection \<open>The interface to the launch code: a bounded, clearable list of arguments\<close>

locale arg_store =
  fixes inv :: "'b \<Rightarrow> bool" and items :: "'b \<Rightarrow> 'i list" and used :: "'b \<Rightarrow> nat"
    and push :: "'b \<Rightarrow> 'i \<Rightarrow> 'b" and clear :: "'b \<Rightarrow> 'b"
    and ok :: "'i \<Rightarrow> bool" and cost :: "'i \<Rightarrow> nat" and limit :: nat
  assumes push_inv: "inv b \<Longrightarrow> ok i \<Longrightarrow> used b + cost i < limit \<Longrightarrow> inv (push b i)"
    and push_items: "inv b \<Longrightarrow> ok i \<Longrightarrow> used b + cost i < limit \<Longrightarrow> items (push b i) = items b @ [i]"
    and push_used: "used (push b i) \<le> used b + cost i"
    and clear_inv: "inv b \<Longrightarrow> inv (clear b)"
    and clear_items: "inv b \<Longrightarrow> items (clear b) = []"
    and clear_used: "inv b \<Longrightarrow> used (clear b) = 0"
begin

lemma push_all:
  "inv b \<Longrightarrow> \<forall>i \<in> set xs. ok i \<Longrightarrow> used b + sum_list (map cost xs) < limit \<Longrightarrow>
   inv (foldl push b xs) \<and> items (foldl push b xs) = items b @ xs"
proof (induction xs arbitrary: b)
  case Nil
  then show ?case by simp
next
  case (Cons x xs)
  have room: "used b + cost x < limit" using Cons.prems(3) by simp
  have "used (push b x) + sum_list (map cost xs) < limit"
    using Cons.prems(3) push_used [of b x] by simp
  then show ?case
    using Cons.IH [of "push b x"] push_inv [OF Cons.prems(1) _ room] push_items [OF Cons.prems(1) _ room]
      Cons.prems(2) by simp
qed

lemma reuse:
  assumes "inv b" and "\<forall>i \<in> set xs. ok i" and "sum_list (map cost xs) < limit"
  shows "inv (foldl push (clear b) xs)" "items (foldl push (clear b) xs) = xs"
  using push_all [of "clear b" xs] assms clear_inv clear_items clear_used by simp_all

end

definition addItem :: "Builder \<Rightarrow> bytes \<times> gotype option \<Rightarrow> Builder" where
  "addItem b i = add b (fst i) (snd i)"

interpretation ap: arg_store wf_builder args spillLen addItem Reset
  "\<lambda>i. length (fst i) < 2 ^ 16" "\<lambda>i. length (fst i) + 7" "2 ^ 31"
proof unfold_locales
  show "wf_builder b \<Longrightarrow> length (fst i) < 2 ^ 16 \<Longrightarrow> spillLen b + (length (fst i) + 7) < 2 ^ 31 \<Longrightarrow>
      wf_builder (addItem b i)" for b and i :: "bytes \<times> gotype option"
    unfolding addItem_def by (rule add_refines(1)) simp_all
  show "wf_builder b \<Longrightarrow> length (fst i) < 2 ^ 16 \<Longrightarrow> spillLen b + (length (fst i) + 7) < 2 ^ 31 \<Longrightarrow>
      args (addItem b i) = args b @ [i]" for b and i :: "bytes \<times> gotype option"
    unfolding addItem_def by (subst add_refines(2)) simp_all
  show "spillLen (addItem b i) \<le> spillLen b + (length (fst i) + 7)"
    for b and i :: "bytes \<times> gotype option"
    using spillLen_add [of b "fst i" "snd i"] by (simp add: addItem_def)
qed (simp_all add: Reset_wf)

subsection \<open>Properties\<close>

lemma size_of_args: "i < count b \<Longrightarrow> wf_builder b \<Longrightarrow> length (fst (args b ! i)) = size_of (meta b i)"
  by (auto simp: args_def wf_builder_def wf_arg_def wf_shape_def arg_bytes_def off_of_def inlineArgs_def
      Let_def split: if_splits)

lemma Params_reads_args:
  assumes "wf_builder b" and "fst (Params b) = Some ps" and "i < count b"
  shows "\<exists>p. ps ! i = Some p \<and>
    deref (snd (Params b)) p (length (fst (args b ! i))) = Some (fst (args b ! i))"
  using deref_spillPointer [OF assms(1,3)] Params_entry [OF assms(1,3,2)]
  by (simp add: size_of_args [OF assms(3,1)] deref_snd_Params) (simp add: args_def assms(3))

lemma count_args: "count b = length (args b)"
  by (simp add: args_def)



lemma Params_write_arg: "fst (Params (write_arg b m i data)) = fst (Params b)"
  by (simp add: Params_def Let_def)

lemma typ_args: "i < count b \<Longrightarrow> snd (args b ! i) = am_typ (meta b i)"
  by (simp add: args_def)

text \<open>
  Updating a packed argument from raw bytes: an index outside the packed arguments or a size
  that differs from the packed size is refused and changes nothing; otherwise exactly that
  argument's bytes change, its recorded type stays, and the parameter array handed to CUDA stays
  the same array, so a launch after the update needs no repacking and reads the new bytes.
\<close>

theorem SetBytes_updates_one_argument:
  assumes "wf_builder b" and "SetBytes b i data = (e, b')"
  shows "wf_builder b' \<and> fst (Params b') = fst (Params b) \<and>
    (if i < 0 \<or> int (length (args b)) \<le> i then e = Some ErrIndexOutOfRange \<and> b' = b
     else if length data \<noteq> length (fst (args b ! nat i)) then e = Some ErrSizeMismatch \<and> b' = b
     else e = None \<and> args b' = (args b)[nat i := (data, snd (args b ! nat i))])"
proof (cases "i < 0 \<or> int (count b) \<le> i")
  case True
  with assms show ?thesis by (auto simp: SetBytes_def count_args)
next
  case False
  then have i: "nat i < count b" by auto
  show ?thesis
    using assms False i size_of_args [OF i assms(1)]
    by (auto simp: SetBytes_def count_args [symmetric] Params_write_arg write_arg_wf write_arg_args
        typ_args Let_def split: if_splits)
qed

theorem SetBytes_updates_one_argument_witness:
  "args (snd (SetBytes (add newBuilder [1, 2] None) 0 [3, 4])) = [([3, 4], None)]"
proof -
  have wf: "wf_builder (add newBuilder [1, 2] None)" and a: "args (add newBuilder [1, 2] None) = [([1, 2], None)]"
    using add_refines [OF wf_newBuilder, of "[1, 2]" None] by (simp_all add: newBuilder_def args_newBuilder [unfolded newBuilder_def])
  show ?thesis
    using SetBytes_updates_one_argument [OF wf, of 0 "[3, 4]"] a by (simp add: prod_eq_iff)
qed

text \<open>
  Updating a packed argument with a typed value: accepted only for an argument packed with the
  very same type, which then receives the value; raw byte arguments and other types are refused,
  and a refused update changes nothing.
\<close>

theorem Set_checks_type_and_updates:
  assumes "wf_builder b" and "Set b i t v = (e, b')" and "length v = tsize t"
    and "\<forall>a \<in> set (args b). \<forall>u. snd a = Some u \<longrightarrow> length (fst a) = tsize u"
  shows "wf_builder b' \<and> fst (Params b') = fst (Params b) \<and>
    (if i < 0 \<or> int (length (args b)) \<le> i then e = Some ErrIndexOutOfRange \<and> b' = b
     else if snd (args b ! nat i) \<noteq> Some t then e = Some ErrTypeMismatch \<and> b' = b
     else e = None \<and> args b' = (args b)[nat i := (v, Some t)])"
proof (cases "i < 0 \<or> int (count b) \<le> i")
  case True
  with assms(1,2) show ?thesis by (auto simp: Set_def count_args)
next
  case False
  then have i: "nat i < count b" by auto
  show ?thesis
  proof (cases "am_typ (meta b (nat i)) = Some t")
    case True
    have "args b ! nat i \<in> set (args b)" using i by (simp add: count_args)
    then have "length v = size_of (meta b (nat i))"
      using assms(3,4) True size_of_args [OF i assms(1)] typ_args [OF i] by metis
    then show ?thesis
      using assms(1,2) False True i
      by (auto simp: Set_def count_args [symmetric] Params_write_arg write_arg_wf write_arg_args
          typ_args Let_def)
  next
    case unequal: False
    then show ?thesis
      using assms(1,2) False i
      by (auto simp: Set_def count_args [symmetric] typ_args Let_def split: if_splits)
  qed
qed

theorem Set_checks_type_and_updates_witness:
  "args (snd (Set (add newBuilder [1, 2] (Some (GoType ''int16'' 2))) 0 (GoType ''int16'' 2) [3, 4]))
     = [([3, 4], Some (GoType ''int16'' 2))]"
proof -
  let ?b = "add newBuilder [1, 2] (Some (GoType ''int16'' 2))"
  have wf: "wf_builder ?b" and a: "args ?b = [([1, 2], Some (GoType ''int16'' 2))]"
    using add_refines [OF wf_newBuilder, of "[1, 2]" "Some (GoType ''int16'' 2)"]
    by (simp_all add: newBuilder_def args_newBuilder [unfolded newBuilder_def])
  show ?thesis
    using Set_checks_type_and_updates [OF wf, of 0 "GoType ''int16'' 2" "[3, 4]"] a
    by (simp add: prod_eq_iff)
qed

end
