(* ===== verification/Executor.thy ===== *)
theory Executor
  imports GoErrors
begin

section \<open>The pinned-thread executor\<close>

text \<open>
  The executor of \<^verbatim>\<open>internal/executor/executor.go\<close> as a transition system: one worker goroutine,
  any number of callers (each with one job), and one closer. Every step is one atomic action of
  one goroutine: a channel send or receive, an atomic swap, a lock operation, or a local choice of a
  \<^verbatim>\<open>select\<close>. Which goroutine moves next is not determined, so the theorems hold for every
  interleaving. Polling iterations that find nothing (the bounded spin windows and
  \<^verbatim>\<open>runtime.Gosched\<close>) change no state and are not steps; a parked \<^verbatim>\<open>select\<close> and a spinning one
  differ only in how they wait.

  A caller's context may be cancelled at any moment from its start on: \<open>ctxerr i\<close> is the error a
  cancellation of caller \<open>i\<close> reports, if its context can be cancelled at all. Callers that
  use \<^verbatim>\<open>DoJob\<close>/\<^verbatim>\<open>DoCtxWait\<close> wait for an accepted job (\<open>cancellable i\<close> is false), callers that use
  \<^verbatim>\<open>DoJobCtx\<close>/\<^verbatim>\<open>DoCtx\<close>/\<^verbatim>\<open>Do\<close> can abandon it.

  Ghost fields count how often a job ran and how often its completion went back to the pool.
\<close>

subsection \<open>Jobs and completions\<close>

text \<open>What \<^verbatim>\<open>Job.Run\<close> does: it returns an error value or panics.\<close>

datatype job_out = JobRet "go_error option" | JobPanic string

fun runOne :: "job_out \<Rightarrow> go_error option" where
  "runOne (JobRet e) = e"
| "runOne (JobPanic v) = Some (PanicError v)"

datatype completionState =
  completionWaiting | completionAbandoned | completionReceived | completionDelivered

record completion =
  result :: "go_error option list"  \<comment> \<open>the buffered channel, capacity 1\<close>
  state :: completionState

definition newCompletion :: completion where
  "newCompletion = \<lparr>result = [], state = completionWaiting\<rparr>"

definition recycleCompletion :: "completion \<Rightarrow> completion list \<Rightarrow> completion list" where
  "recycleCompletion c pool = (c\<lparr>state := completionWaiting\<rparr>) # pool"

text \<open>
  The swaps of \<^verbatim>\<open>delivered\<close>, \<^verbatim>\<open>received\<close> and \<^verbatim>\<open>abandon\<close>. What a side has to do next depends on the
  previous state: nothing, drain the channel and recycle, or recycle.
\<close>

datatype handoff = Leave | DrainThenRecycle | RecycleNow

definition delivered :: "completion \<Rightarrow> handoff \<times> completion" where
  "delivered c =
     ((if state c = completionAbandoned then DrainThenRecycle
       else if state c \<noteq> completionWaiting then RecycleNow else Leave),
      c\<lparr>state := completionDelivered\<rparr>)"

definition received :: "completion \<Rightarrow> handoff \<times> completion" where
  "received c = ((if state c = completionDelivered then RecycleNow else Leave),
      c\<lparr>state := completionReceived\<rparr>)"

definition abandon :: "completion \<Rightarrow> handoff \<times> completion" where
  "abandon c = ((if state c \<noteq> completionDelivered then Leave else DrainThenRecycle),
      c\<lparr>state := completionAbandoned\<rparr>)"

subsection \<open>State\<close>

datatype worker_pc =
    WIdle | WRun nat | WSend nat "go_error option" | WSwap nat | WDrainC nat | WRecycle nat
  | WFinish | WExited | WParked

datatype closer_pc = ClIdle | ClLocked | ClClosed | ClQuit | ClWait | ClDone

datatype caller_pc =
    CStart | CGot | CLocked | CSelect | CSent | CWait
  | CRecvd "go_error option" | CDrain go_error | CRecycle "go_error option"
  | CDone "go_error option"

record exec_state =
  tasks :: "nat list"
  quit :: bool
  done_ch :: bool
  closed :: bool
  retire :: bool
  readers :: "nat set"
  writer :: bool
  draining :: bool
  thread_locked :: bool
  pool :: "completion list"
  wpc :: worker_pc
  clpc :: closer_pc
  cpc :: "nat \<Rightarrow> caller_pc"
  comp :: "nat \<Rightarrow> completion"
  accepted :: "nat \<Rightarrow> bool"
  ran :: "nat \<Rightarrow> nat"
  recycled :: "nat \<Rightarrow> nat"
  job_recycled :: "nat \<Rightarrow> nat"

definition newExecutor :: exec_state where
  "newExecutor = \<lparr>tasks = [], quit = False, done_ch = False, closed = False, retire = False,
     readers = {}, writer = False, draining = False, thread_locked = True, pool = [], wpc = WIdle,
     clpc = ClIdle, cpc = (\<lambda>_. CStart), comp = (\<lambda>_. newCompletion), accepted = (\<lambda>_. False),
     ran = (\<lambda>_. 0), recycled = (\<lambda>_. 0), job_recycled = (\<lambda>_. 0)\<rparr>"

abbreviation set_cpc :: "nat \<Rightarrow> caller_pc \<Rightarrow> exec_state \<Rightarrow> exec_state" where
  "set_cpc i p s \<equiv> s\<lparr>cpc := (cpc s)(i := p)\<rparr>"

abbreviation set_comp :: "nat \<Rightarrow> completion \<Rightarrow> exec_state \<Rightarrow> exec_state" where
  "set_comp i c s \<equiv> s\<lparr>comp := (comp s)(i := c)\<rparr>"

text \<open>\<^verbatim>\<open>recycleCompletion(res)\<close> for the completion of caller \<open>i\<close>.\<close>

definition recycle :: "nat \<Rightarrow> exec_state \<Rightarrow> exec_state" where
  "recycle i s = s\<lparr>pool := recycleCompletion (comp s i) (pool s),
     recycled := (recycled s)(i := Suc (recycled s i))\<rparr>"

text \<open>\<^verbatim>\<open>RecycleJob(j)\<close>: by the worker after the run, by the caller when the job was rejected.\<close>

definition RecycleJob :: "nat \<Rightarrow> exec_state \<Rightarrow> exec_state" where
  "RecycleJob i s = s\<lparr>job_recycled := (job_recycled s)(i := Suc (job_recycled s i))\<rparr>"

definition reject :: "nat \<Rightarrow> go_error \<Rightarrow> exec_state \<Rightarrow> exec_state" where
  "reject i e s = set_cpc i (CDone (Some e)) (RecycleJob i s)"

definition runlock :: "nat \<Rightarrow> exec_state \<Rightarrow> exec_state" where
  "runlock i s = s\<lparr>readers := readers s - {i}\<rparr>"

subsection \<open>The worker: \<^verbatim>\<open>run\<close>, \<^verbatim>\<open>runTask\<close>, \<^verbatim>\<open>drain\<close>, \<^verbatim>\<open>finishThread\<close>\<close>

inductive worker_step :: "(nat \<Rightarrow> job_out) \<Rightarrow> exec_state \<Rightarrow> exec_state \<Rightarrow> bool" for jobs where
  w_take: "wpc s = WIdle \<Longrightarrow> tasks s = i # ts \<Longrightarrow>
    worker_step jobs s (s\<lparr>wpc := WRun i, tasks := ts\<rparr>)"
| w_quit: "wpc s = WIdle \<Longrightarrow> \<not> draining s \<Longrightarrow> quit s \<Longrightarrow>
    worker_step jobs s (s\<lparr>draining := True\<rparr>)"
| w_drained: "wpc s = WIdle \<Longrightarrow> draining s \<Longrightarrow> tasks s = [] \<Longrightarrow>
    worker_step jobs s (s\<lparr>wpc := WFinish\<rparr>)"
| w_run: "wpc s = WRun i \<Longrightarrow>
    worker_step jobs s 
      (RecycleJob i (s\<lparr>wpc := WSend i (runOne (jobs i)), ran := (ran s)(i := Suc (ran s i))\<rparr>))"
| w_send: "wpc s = WSend i r \<Longrightarrow> result (comp s i) = [] \<Longrightarrow>
    worker_step jobs s ((set_comp i ((comp s i)\<lparr>result := [r]\<rparr>) s)\<lparr>wpc := WSwap i\<rparr>)"
| w_delivered: "wpc s = WSwap i \<Longrightarrow> delivered (comp s i) = (h, c) \<Longrightarrow>
    worker_step jobs s ((set_comp i c s)\<lparr>wpc := (case h of
       Leave \<Rightarrow> WIdle | DrainThenRecycle \<Rightarrow> WDrainC i | RecycleNow \<Rightarrow> WRecycle i)\<rparr>)"
| w_drain_result: "wpc s = WDrainC i \<Longrightarrow> result (comp s i) = r # rs \<Longrightarrow>
    worker_step jobs s ((set_comp i ((comp s i)\<lparr>result := rs\<rparr>) s)\<lparr>wpc := WRecycle i\<rparr>)"
| w_recycle: "wpc s = WRecycle i \<Longrightarrow>
    worker_step jobs s ((recycle i s)\<lparr>wpc := WIdle\<rparr>)"
| w_finish_retired: "wpc s = WFinish \<Longrightarrow> retire s \<Longrightarrow>
    worker_step jobs s (s\<lparr>done_ch := True, wpc := WParked\<rparr>)"
| w_finish_clean: "wpc s = WFinish \<Longrightarrow> \<not> retire s \<Longrightarrow>
    worker_step jobs s (s\<lparr>thread_locked := False, done_ch := True, wpc := WExited\<rparr>)"

subsection \<open>A caller: \<^verbatim>\<open>submit\<close>, then \<^verbatim>\<open>DoJobCtx\<close> or \<^verbatim>\<open>DoJob\<close>\<close>

inductive submit_step :: "(nat \<Rightarrow> go_error option) \<Rightarrow> nat \<Rightarrow> exec_state \<Rightarrow> exec_state \<Rightarrow> bool"
  for ctxerr i where
  s_ctx_err: "cpc s i = CStart \<Longrightarrow> ctxerr i = Some e \<Longrightarrow>
    submit_step ctxerr i s (reject i e s)"
| s_get_new: "cpc s i = CStart \<Longrightarrow>
    submit_step ctxerr i s (set_cpc i CGot (set_comp i newCompletion s))"
| s_get_pooled: "cpc s i = CStart \<Longrightarrow> c \<in> set (pool s) \<Longrightarrow>
    submit_step ctxerr i s (set_cpc i CGot (set_comp i c (s\<lparr>pool := remove1 c (pool s)\<rparr>)))"
| s_rlock: "cpc s i = CGot \<Longrightarrow> \<not> writer s \<Longrightarrow>
    submit_step ctxerr i s (set_cpc i CLocked (s\<lparr>readers := insert i (readers s)\<rparr>))"
| s_closed: "cpc s i = CLocked \<Longrightarrow> closed s \<Longrightarrow>
    submit_step ctxerr i s (reject i ErrExecutorClosed (recycle i (runlock i s)))"
| s_open: "cpc s i = CLocked \<Longrightarrow> \<not> closed s \<Longrightarrow>
    submit_step ctxerr i s (set_cpc i CSelect s)"
| s_send: "cpc s i = CSelect \<Longrightarrow> length (tasks s) < 1 \<Longrightarrow>
    submit_step ctxerr i s
      (set_cpc i CSent (s\<lparr>tasks := tasks s @ [i], accepted := (accepted s)(i := True)\<rparr>))"
| s_ctx_done: "cpc s i = CSelect \<Longrightarrow> ctxerr i = Some e \<Longrightarrow>
    submit_step ctxerr i s (reject i e (recycle i (runlock i s)))"
| s_exec_done: "cpc s i = CSelect \<Longrightarrow> done_ch s \<Longrightarrow>
    submit_step ctxerr i s (reject i ErrExecutorClosed (recycle i (runlock i s)))"
| s_runlock: "cpc s i = CSent \<Longrightarrow>
    submit_step ctxerr i s (set_cpc i CWait (runlock i s))"

inductive wait_step ::
  "(nat \<Rightarrow> go_error option) \<Rightarrow> (nat \<Rightarrow> bool) \<Rightarrow> nat \<Rightarrow> exec_state \<Rightarrow> exec_state \<Rightarrow> bool"
  for ctxerr cancellable i where
  r_recv: "cpc s i = CWait \<Longrightarrow> result (comp s i) = r # rs \<Longrightarrow>
    wait_step ctxerr cancellable i s (set_cpc i (CRecvd r) (set_comp i ((comp s i)\<lparr>result := rs\<rparr>) s))"
| r_received: "cpc s i = CRecvd r \<Longrightarrow> received (comp s i) = (h, c) \<Longrightarrow>
    wait_step ctxerr cancellable i s
      (set_cpc i (if h = Leave then CDone r else CRecycle r) (set_comp i c s))"
| r_recycle: "cpc s i = CRecycle r \<Longrightarrow>
    wait_step ctxerr cancellable i s (set_cpc i (CDone r) (recycle i s))"
| r_abandon: "cpc s i = CWait \<Longrightarrow> cancellable i \<Longrightarrow> ctxerr i = Some e \<Longrightarrow>
    abandon (comp s i) = (h, c) \<Longrightarrow>
    wait_step ctxerr cancellable i s
      (set_cpc i (if h = Leave then CDone (Some e) else CDrain e) (set_comp i c s))"
| r_drain: "cpc s i = CDrain e \<Longrightarrow> result (comp s i) = r # rs \<Longrightarrow>
    wait_step ctxerr cancellable i s
      (set_cpc i (CRecycle (Some e)) (set_comp i ((comp s i)\<lparr>result := rs\<rparr>) s))"

subsection \<open>\<^verbatim>\<open>Close\<close> and \<^verbatim>\<open>Retire\<close>\<close>

inductive close_step :: "exec_state \<Rightarrow> exec_state \<Rightarrow> bool" where
  cl_lock: "clpc s = ClIdle \<Longrightarrow> readers s = {} \<Longrightarrow> \<not> writer s \<Longrightarrow>
    close_step s (s\<lparr>writer := True, clpc := ClLocked\<rparr>)"
| cl_closed: "clpc s = ClLocked \<Longrightarrow> close_step s (s\<lparr>closed := True, clpc := ClClosed\<rparr>)"
| cl_quit: "clpc s = ClClosed \<Longrightarrow> close_step s (s\<lparr>quit := True, clpc := ClQuit\<rparr>)"
| cl_unlock: "clpc s = ClQuit \<Longrightarrow> close_step s (s\<lparr>writer := False, clpc := ClWait\<rparr>)"
| cl_done: "clpc s = ClWait \<Longrightarrow> done_ch s \<Longrightarrow> close_step s (s\<lparr>clpc := ClDone\<rparr>)"

definition Retire :: "exec_state \<Rightarrow> exec_state" where
  "Retire s = s\<lparr>retire := True\<rparr>"

text \<open>
  The system: \<open>n\<close> callers; \<open>closing\<close> says whether \<^verbatim>\<open>Close\<close> is called. Concurrent calls of \<^verbatim>\<open>Close\<close>
  share the one run of its \<^verbatim>\<open>sync.Once\<close> body.
\<close>

record exec_env =
  jobs :: "nat \<Rightarrow> job_out"
  ctxerr :: "nat \<Rightarrow> go_error option"
  cancellable :: "nat \<Rightarrow> bool"
  callers :: nat
  closing :: bool

inductive exec_step :: "exec_env \<Rightarrow> exec_state \<Rightarrow> exec_state \<Rightarrow> bool" for S where
  worker: "worker_step (jobs S) s t \<Longrightarrow> exec_step S s t"
| submit: "i < callers S \<Longrightarrow> submit_step (ctxerr S) i s t \<Longrightarrow> exec_step S s t"
| wait: "i < callers S \<Longrightarrow> wait_step (ctxerr S) (cancellable S) i s t \<Longrightarrow> exec_step S s t"
| close: "closing S \<Longrightarrow> close_step s t \<Longrightarrow> exec_step S s t"
| retire: "\<not> retire s \<Longrightarrow> exec_step S s (Retire s)"

inductive exec_reach :: "exec_env \<Rightarrow> exec_state \<Rightarrow> bool" for S where
  start: "exec_reach S newExecutor"
| step: "exec_reach S s \<Longrightarrow> exec_step S s t \<Longrightarrow> exec_reach S t"


subsection \<open>The invariant\<close>

text \<open>What the worker holds of caller \<open>i\<close>'s task.\<close>

datatype wref = NoRef | Queued | Running | Sending "go_error option" | Swapping | Draining | Recycling

fun wjob :: "worker_pc \<Rightarrow> nat option" where
  "wjob (WRun i) = Some i"
| "wjob (WSend i r) = Some i"
| "wjob (WSwap i) = Some i"
| "wjob (WDrainC i) = Some i"
| "wjob (WRecycle i) = Some i"
| "wjob _ = None"

fun wstage :: "worker_pc \<Rightarrow> wref" where
  "wstage (WRun i) = Running"
| "wstage (WSend i r) = Sending r"
| "wstage (WSwap i) = Swapping"
| "wstage (WDrainC i) = Draining"
| "wstage (WRecycle i) = Recycling"
| "wstage _ = NoRef"

definition worker_ref :: "worker_pc \<Rightarrow> nat list \<Rightarrow> nat \<Rightarrow> wref" where
  "worker_ref p ts i = (if wjob p = Some i then wstage p
     else if i \<in> set ts then Queued else NoRef)"

text \<open>
  The states a submission can be in, given the job's outcome \<open>out\<close>. The arguments are the caller's
  position, what the worker holds, the completion, and the ghost counters.
\<close>

definition before_delivery :: "go_error option \<Rightarrow> wref \<Rightarrow> completion \<Rightarrow> nat \<Rightarrow> bool" where
  "before_delivery out w c n =
     ((w = Queued \<or> w = Running) \<and> result c = [] \<and> n = 0 \<or>
      w = Sending out \<and> result c = [] \<and> n = 1 \<or>
      w = Swapping \<and> result c = [out] \<and> n = 1)"

fun call_ok :: "go_error option \<Rightarrow> go_error option \<Rightarrow> bool \<Rightarrow> caller_pc \<Rightarrow> wref \<Rightarrow> completion \<Rightarrow>
    bool \<Rightarrow> nat \<Rightarrow> nat \<Rightarrow> bool" where
  "call_ok out ce canc CStart w c acc n rec = (w = NoRef \<and> \<not> acc \<and> n = 0 \<and> rec = 0)"
| "call_ok out ce canc (CDone r) w c acc n rec =
     (if acc then
        r = out \<and> n = 1 \<and>
          (rec = 0 \<and> result c = [] \<and> (w = Swapping \<and> state c = completionReceived \<or> w = Recycling) \<or>
           rec = 1 \<and> w = NoRef) \<or>
        canc \<and> ce \<noteq> None \<and> r = ce \<and>
          (rec = 0 \<and> before_delivery out w c n \<and> state c = completionAbandoned \<or>
           rec = 0 \<and> w = Draining \<and> result c = [out] \<and> n = 1 \<or>
           rec = 0 \<and> w = Recycling \<and> result c = [] \<and> n = 1 \<or>
           rec = 1 \<and> w = NoRef \<and> n = 1)
      else w = NoRef \<and> n = 0 \<and> rec \<le> 1 \<and>
        (r = Some ErrExecutorClosed \<or> ce \<noteq> None \<and> r = ce))"
| "call_ok out ce canc (CRecvd r) w c acc n rec =
     (acc \<and> n = 1 \<and> rec = 0 \<and> r = out \<and> result c = [] \<and>
      (w = Swapping \<and> state c = completionWaiting \<or> w = NoRef \<and> state c = completionDelivered))"
| "call_ok out ce canc (CDrain e) w c acc n rec =
     (acc \<and> n = 1 \<and> rec = 0 \<and> canc \<and> ce = Some e \<and> result c = [out] \<and> w = NoRef)"
| "call_ok out ce canc (CRecycle r) w c acc n rec =
     (acc \<and> n = 1 \<and> rec = 0 \<and> (r = out \<or> canc \<and> ce \<noteq> None \<and> r = ce) \<and> result c = [] \<and> w = NoRef)"
| "call_ok out ce canc CSent w c acc n rec =
     (acc \<and> rec = 0 \<and>
      (before_delivery out w c n \<and> state c = completionWaiting \<or>
       w = NoRef \<and> result c = [out] \<and> state c = completionDelivered \<and> n = 1))"
| "call_ok out ce canc CWait w c acc n rec =
     (acc \<and> rec = 0 \<and>
      (before_delivery out w c n \<and> state c = completionWaiting \<or>
       w = NoRef \<and> result c = [out] \<and> state c = completionDelivered \<and> n = 1))"
| "call_ok out ce canc _ w c acc n rec =
     (w = NoRef \<and> \<not> acc \<and> n = 0 \<and> rec = 0 \<and> c = newCompletion)"

abbreviation call_inv :: "exec_env \<Rightarrow> exec_state \<Rightarrow> nat \<Rightarrow> bool" where
  "call_inv S s i \<equiv> call_ok (runOne (jobs S i)) (ctxerr S i) (cancellable S i) (cpc s i)
     (worker_ref (wpc s) (tasks s) i) (comp s i) (accepted s i) (ran s i) (recycled s i)"

definition job_inv :: "exec_state \<Rightarrow> nat \<Rightarrow> bool" where
  "job_inv s i = (job_recycled s i =
     (if accepted s i then ran s i else case cpc s i of CDone r \<Rightarrow> 1 | _ \<Rightarrow> 0))"

definition queue_inv :: "exec_state \<Rightarrow> bool" where
  "queue_inv s = (length (tasks s) \<le> 1 \<and> (\<forall>i. wjob (wpc s) = Some i \<longrightarrow> i \<notin> set (tasks s)) \<and>
     (\<forall>c \<in> set (pool s). c = newCompletion))"

fun holds_writer :: "closer_pc \<Rightarrow> bool" where
  "holds_writer ClLocked = True" | "holds_writer ClClosed = True" | "holds_writer ClQuit = True"
| "holds_writer _ = False"

fun marked_closed :: "closer_pc \<Rightarrow> bool" where
  "marked_closed ClIdle = False" | "marked_closed ClLocked = False" | "marked_closed _ = True"

fun signalled_quit :: "closer_pc \<Rightarrow> bool" where
  "signalled_quit ClIdle = False" | "signalled_quit ClLocked = False"
| "signalled_quit ClClosed = False" | "signalled_quit _ = True"

fun holds_reader :: "caller_pc \<Rightarrow> bool" where
  "holds_reader CLocked = True" | "holds_reader CSelect = True" | "holds_reader CSent = True"
| "holds_reader _ = False"

fun past_check :: "caller_pc \<Rightarrow> bool" where
  "past_check CSelect = True" | "past_check CSent = True" | "past_check _ = False"

fun finished :: "worker_pc \<Rightarrow> bool" where
  "finished WExited = True" | "finished WParked = True" | "finished _ = False"

definition reader_inv :: "exec_state \<Rightarrow> nat \<Rightarrow> bool" where
  "reader_inv s i = ((i \<in> readers s \<longleftrightarrow> holds_reader (cpc s i)) \<and>
     (holds_writer (clpc s) \<longrightarrow> \<not> holds_reader (cpc s i)) \<and>
     (past_check (cpc s i) \<longrightarrow> \<not> marked_closed (clpc s)))"

definition lock_inv :: "exec_state \<Rightarrow> bool" where
  "lock_inv s = (writer s = holds_writer (clpc s) \<and> closed s = marked_closed (clpc s) \<and>
     quit s = signalled_quit (clpc s))"

definition thread_inv :: "exec_state \<Rightarrow> bool" where
  "thread_inv s =
     ((draining s \<longrightarrow> quit s) \<and> (wpc s = WFinish \<or> finished (wpc s) \<longrightarrow> draining s \<and> tasks s = []) \<and>
      done_ch s = finished (wpc s) \<and> (thread_locked s = (wpc s \<noteq> WExited)) \<and>
      (wpc s = WParked \<longrightarrow> retire s) \<and> (clpc s = ClDone \<longrightarrow> done_ch s))"

definition exec_inv :: "exec_env \<Rightarrow> exec_state \<Rightarrow> bool" where
  "exec_inv S s = ((\<forall>i. call_inv S s i \<and> job_inv s i \<and> reader_inv s i) \<and> queue_inv s \<and> lock_inv s \<and> thread_inv s)"

lemma exec_invD:
  assumes "exec_inv S s"
  shows "call_inv S s i" "job_inv s i" "queue_inv s" "lock_inv s" "thread_inv s"
    "reader_inv s i"
  using assms by (auto simp: exec_inv_def)

lemmas exec_ops = recycle_def runlock_def RecycleJob_def reject_def recycleCompletion_def
  delivered_def received_def abandon_def newCompletion_def

lemma past_check_reader: "past_check p \<Longrightarrow> holds_reader p"
  by (cases p) simp_all

lemma wstage_NoRef[simp]: "wstage p = NoRef \<longleftrightarrow> wjob p = None"
  by (cases p) simp_all

lemma worker_ref_other: "j \<noteq> i \<Longrightarrow> worker_ref p [i] j = worker_ref p [] j"
  by (simp add: worker_ref_def)

lemma worker_call_inv:
  assumes "worker_step (jobs S) s t" and "exec_inv S s"
  shows "call_inv S t j"
proof -
  note inv = exec_invD(1)[OF assms(2), of j] and q = exec_invD(3)[OF assms(2)]
  from assms(1) show ?thesis
  proof cases
    case (w_take i ts)
    then show ?thesis using inv q
      by (cases "cpc s j") (auto simp: worker_ref_def queue_inv_def before_delivery_def split: if_splits)
  next
    case (w_run i)
    then show ?thesis using inv q
      by (cases "cpc s j") (auto simp: worker_ref_def exec_ops before_delivery_def split: if_splits)
  next
    case (w_send i r)
    then show ?thesis using inv q
      by (cases "cpc s j") (auto simp: worker_ref_def exec_ops before_delivery_def split: if_splits)
  next
    case (w_delivered i h c)
    then show ?thesis using inv q
      by (cases "cpc s j")
        (auto simp: worker_ref_def exec_ops before_delivery_def queue_inv_def split: if_splits)
  next
    case (w_drain_result i r rs)
    then show ?thesis using inv q
      by (cases "cpc s j") (auto simp: worker_ref_def exec_ops before_delivery_def split: if_splits)
  next
    case (w_recycle i)
    then show ?thesis using inv q
      by (cases "cpc s j")
        (auto simp: worker_ref_def exec_ops before_delivery_def queue_inv_def split: if_splits)
  qed (use inv in \<open>simp_all add: worker_ref_def\<close>)
qed

lemma recycling_empty:
  assumes "call_inv S s i" and "wpc s = WRecycle i"
  shows "result (comp s i) = []"
  using assms by (cases "cpc s i") (auto simp: worker_ref_def before_delivery_def split: if_splits)

lemma running_accepted:
  assumes "call_inv S s i" and "wpc s = WRun i"
  shows "accepted s i"
  using assms by (cases "cpc s i") (auto simp: worker_ref_def split: if_splits)

lemma worker_job_inv:
  assumes "worker_step (jobs S) s t" and "exec_inv S s"
  shows "job_inv t j"
  using assms(1)
proof cases
  case (w_run i)
  then show ?thesis
    using running_accepted[OF exec_invD(1)[OF assms(2), of i]] exec_invD(2)[OF assms(2), of j]
    by (cases "j = i") (simp_all add: job_inv_def RecycleJob_def)
qed (use exec_invD(2)[OF assms(2), of j] in \<open>simp_all add: job_inv_def recycle_def\<close>)

lemma worker_queue_inv:
  assumes "worker_step (jobs S) s t" and "exec_inv S s"
  shows "queue_inv t"
  using assms(1)
proof cases
  case (w_recycle i)
  then show ?thesis
    using recycling_empty[OF exec_invD(1)[OF assms(2)]] exec_invD(3)[OF assms(2)]
    by (auto simp: queue_inv_def exec_ops)
next
  case (w_take i ts)
  then show ?thesis using exec_invD(3)[OF assms(2)] by (auto simp: queue_inv_def)
qed (use exec_invD(3)[OF assms(2)] in \<open>auto simp: queue_inv_def exec_ops split: if_splits\<close>)

lemma worker_inv:
  assumes "worker_step (jobs S) s t" and "exec_inv S s"
  shows "exec_inv S t"
proof -
  have "lock_inv t"
    using assms(1) exec_invD(4)[OF assms(2)]
    by cases (simp_all add: lock_inv_def recycle_def RecycleJob_def)
  moreover have "reader_inv t j" for j
    using assms(1) exec_invD(6)[OF assms(2), of j]
    by cases (simp_all add: reader_inv_def recycle_def RecycleJob_def)
  moreover have "thread_inv t"
    using assms(1) exec_invD(5)[OF assms(2)]
    by cases (auto simp: thread_inv_def recycle_def RecycleJob_def split: handoff.splits)
  ultimately show ?thesis
    using worker_call_inv[OF assms] worker_queue_inv[OF assms] worker_job_inv[OF assms]
    by (simp add: exec_inv_def)
qed


lemma submit_call_inv:
  assumes "submit_step (ctxerr S) i s t" and "exec_inv S s"
  shows "call_inv S t j"
proof -
  note inv = exec_invD(1)[OF assms(2), of j] and ii = exec_invD(1)[OF assms(2), of i]
    and q = exec_invD(3)[OF assms(2)]
  show ?thesis
  proof (cases "j = i")
    case True
    with assms(1) show ?thesis using inv q
      by cases (auto simp: worker_ref_def exec_ops before_delivery_def queue_inv_def split: if_splits)
  next
    case False
    from assms(1) show ?thesis using inv False
      by cases (simp_all add: worker_ref_other exec_ops)
  qed
qed

lemma submit_job_inv:
  assumes "submit_step (ctxerr S) i s t" and "exec_inv S s"
  shows "job_inv t j"
proof (cases "j = i")
  case True
  with assms(1) show ?thesis using exec_invD(1,2)[OF assms(2), of j]
    by cases (auto simp: job_inv_def exec_ops)
next
  case False
  from assms(1) show ?thesis using exec_invD(2)[OF assms(2), of j] False
    by cases (simp_all add: job_inv_def exec_ops)
qed

lemma submit_queue_inv:
  assumes "submit_step (ctxerr S) i s t" and "exec_inv S s"
  shows "queue_inv t"
proof -
  note inv = exec_invD(1)[OF assms(2), of i] and q = exec_invD(3)[OF assms(2)]
  from assms(1) show ?thesis
  proof cases
    case s_send
    then show ?thesis using inv q by (auto simp: queue_inv_def worker_ref_def split: if_splits)
  next
    case (s_get_pooled c)
    then show ?thesis using q by (auto simp: queue_inv_def dest: notin_set_remove1)
  qed (use inv q in \<open>auto simp: queue_inv_def exec_ops split: if_splits\<close>)
qed

lemma submit_inv:
  assumes "submit_step (ctxerr S) i s t" and "exec_inv S s"
  shows "exec_inv S t"
proof -
  note l = exec_invD(4)[OF assms(2)] and th = exec_invD(5)[OF assms(2)]
  have "lock_inv t"
    using assms(1) l by cases (simp_all add: lock_inv_def exec_ops)
  moreover have "reader_inv t j" for j
    using assms(1) l exec_invD(6)[OF assms(2), of j] exec_invD(6)[OF assms(2), of i]
    by (cases "j = i"; cases) (auto simp: lock_inv_def reader_inv_def exec_ops)
  moreover have "thread_inv t"
    using assms(1)
  proof cases
    case s_send
    then have "\<not> draining s" using l th exec_invD(6)[OF assms(2), of i]
      by (cases "clpc s") (auto simp: lock_inv_def thread_inv_def reader_inv_def)
    with s_send th show ?thesis by (auto simp: thread_inv_def)
  qed (use th in \<open>auto simp: thread_inv_def exec_ops\<close>)
  ultimately show ?thesis
    using submit_call_inv[OF assms] submit_job_inv[OF assms] submit_queue_inv[OF assms]
    by (simp add: exec_inv_def)
qed

lemma wait_call_inv:
  assumes "wait_step (ctxerr S) (cancellable S) i s t" and "exec_inv S s"
  shows "call_inv S t j"
proof (cases "j = i")
  case True
  with assms(1) show ?thesis using exec_invD(1)[OF assms(2), of j]
    by cases (auto simp: worker_ref_def exec_ops before_delivery_def split: if_splits)
next
  case False
  from assms(1) show ?thesis using exec_invD(1)[OF assms(2), of j] False
    by cases (simp_all add: worker_ref_other exec_ops)
qed

lemma wait_inv:
  assumes "wait_step (ctxerr S) (cancellable S) i s t" and "exec_inv S s"
  shows "exec_inv S t"
proof -
  note inv = exec_invD(1)[OF assms(2), of i] and q = exec_invD(3)[OF assms(2)]
    and l = exec_invD(4)[OF assms(2)] and th = exec_invD(5)[OF assms(2)]
  have "job_inv t j" for j
    using assms(1) exec_invD(1)[OF assms(2), of i] exec_invD(2)[OF assms(2), of j]
    by cases (auto simp: job_inv_def exec_ops)
  moreover have "queue_inv t"
    using assms(1) inv q by cases (auto simp: queue_inv_def exec_ops)
  moreover have "lock_inv t"
    using assms(1) l by cases (simp_all add: lock_inv_def exec_ops)
  moreover have "reader_inv t j" for j
    using assms(1) l exec_invD(6)[OF assms(2), of j] exec_invD(6)[OF assms(2), of i]
    by (cases "j = i"; cases) (auto simp: lock_inv_def reader_inv_def exec_ops)
  moreover have "thread_inv t"
    using assms(1) th by cases (auto simp: thread_inv_def exec_ops)
  ultimately show ?thesis
    using wait_call_inv[OF assms] by (simp add: exec_inv_def)
qed

lemma close_inv:
  assumes "close_step s t" and "exec_inv S s"
  shows "exec_inv S t"
proof -
  note l = exec_invD(4)[OF assms(2)] and th = exec_invD(5)[OF assms(2)]
  have "lock_inv t"
    using assms(1) l by cases (simp_all add: lock_inv_def)
  moreover have "reader_inv t j" for j
    using assms(1) l exec_invD(6)[OF assms(2), of j]
    by cases (auto simp: reader_inv_def lock_inv_def dest: past_check_reader)
  moreover have "thread_inv t"
    using assms(1) th l by cases (auto simp: thread_inv_def lock_inv_def)
  moreover have "call_inv S t i \<and> job_inv t i \<and> queue_inv t" for i
    using assms(1) exec_invD(1,2)[OF assms(2), of i] exec_invD(3)[OF assms(2)]
    by cases (simp_all add: job_inv_def queue_inv_def)
  ultimately show ?thesis by (simp add: exec_inv_def)
qed

lemma retire_inv: "exec_inv S s \<Longrightarrow> exec_inv S (Retire s)"
  by (auto simp: exec_inv_def Retire_def job_inv_def queue_inv_def lock_inv_def
      reader_inv_def thread_inv_def)

lemma exec_step_inv: "exec_step S s t \<Longrightarrow> exec_inv S s \<Longrightarrow> exec_inv S t"
  by (elim exec_step.cases) (auto intro: worker_inv submit_inv wait_inv close_inv retire_inv)

lemma exec_inv_start: "exec_inv S newExecutor"
  by (simp add: exec_inv_def newExecutor_def worker_ref_def job_inv_def queue_inv_def lock_inv_def
      reader_inv_def thread_inv_def newCompletion_def)

lemma exec_reach_inv: "exec_reach S s \<Longrightarrow> exec_inv S s"
  by (induction rule: exec_reach.induct) (auto intro: exec_inv_start exec_step_inv)
subsection \<open>Termination and progress\<close>

fun crank :: "caller_pc \<Rightarrow> nat" where
  "crank CStart = 20" | "crank CGot = 19" | "crank CLocked = 18" | "crank CSelect = 17"
| "crank CSent = 9" | "crank CWait = 8" | "crank (CRecvd r) = 7" | "crank (CDrain e) = 6"
| "crank (CRecycle r) = 5" | "crank (CDone r) = 0"

fun wrank :: "worker_pc \<Rightarrow> nat" where
  "wrank (WRun i) = 7" | "wrank (WSend i r) = 6" | "wrank (WSwap i) = 5" | "wrank (WDrainC i) = 4"
| "wrank (WRecycle i) = 3" | "wrank WIdle = 2" | "wrank WFinish = 1" | "wrank _ = 0"

fun clrank :: "closer_pc \<Rightarrow> nat" where
  "clrank ClIdle = 5" | "clrank ClLocked = 4" | "clrank ClClosed = 3" | "clrank ClQuit = 2"
| "clrank ClWait = 1" | "clrank ClDone = 0"

definition exec_measure :: "exec_env \<Rightarrow> exec_state \<Rightarrow> nat" where
  "exec_measure S s = (\<Sum>i<callers S. crank (cpc s i)) + 6 * length (tasks s) + wrank (wpc s) +
     clrank (clpc s) + (if draining s then 0 else 1) + (if retire s then 0 else 1)"

lemma sum_crank_update:
  assumes "i < (n::nat)"
  shows "(\<Sum>j<n. crank ((f(i := p)) j)) + crank (f i) = (\<Sum>j<n. crank (f j)) + crank p"
proof -
  have "(\<Sum>j<n. crank ((f(i := p)) j)) = crank p + (\<Sum>j\<in>{..<n} - {i}. crank ((f(i := p)) j))"
    using assms by (subst sum.remove[of _ i]) auto
  also have "(\<Sum>j\<in>{..<n} - {i}. crank ((f(i := p)) j)) = (\<Sum>j\<in>{..<n} - {i}. crank (f j))"
    by (rule sum.cong) auto
  finally show ?thesis
    using assms by (simp add: sum.remove[of "{..<n}" i "\<lambda>j. crank (f j)"])
qed

lemma submit_decreases:
  assumes "submit_step ce i s t" and "i < callers S"
  shows "exec_measure S t < exec_measure S s"
proof -
  note u = sum_crank_update[OF assms(2), of "cpc s"]
  from assms(1) show ?thesis
  proof cases
    case (s_ctx_err e)
    then show ?thesis using u[of "CDone (Some e)"] by (simp add: exec_measure_def exec_ops)
  next
    case s_get_new
    then show ?thesis using u[of CGot] by (simp add: exec_measure_def exec_ops)
  next
    case s_get_pooled
    then show ?thesis using u[of CGot] by (simp add: exec_measure_def exec_ops)
  next
    case s_rlock
    then show ?thesis using u[of CLocked] by (simp add: exec_measure_def exec_ops)
  next
    case s_closed
    then show ?thesis
      using u[of "CDone (Some ErrExecutorClosed)"] by (simp add: exec_measure_def exec_ops)
  next
    case s_open
    then show ?thesis using u[of CSelect] by (simp add: exec_measure_def exec_ops)
  next
    case s_send
    then show ?thesis using u[of CSent] by (simp add: exec_measure_def exec_ops)
  next
    case (s_ctx_done e)
    then show ?thesis using u[of "CDone (Some e)"] by (simp add: exec_measure_def exec_ops)
  next
    case s_exec_done
    then show ?thesis
      using u[of "CDone (Some ErrExecutorClosed)"] by (simp add: exec_measure_def exec_ops)
  next
    case s_runlock
    then show ?thesis using u[of CWait] by (simp add: exec_measure_def exec_ops)
  qed
qed

lemma wait_decreases:
  assumes "wait_step ce canc i s t" and "i < callers S"
  shows "exec_measure S t < exec_measure S s"
proof -
  have "crank (cpc t i) < crank (cpc s i) \<and> cpc t = (cpc s)(i := cpc t i) \<and> tasks t = tasks s \<and>
      wpc t = wpc s \<and> clpc t = clpc s \<and> draining t = draining s \<and> retire t = retire s"
    using assms(1) by cases (auto simp: exec_ops)
  then show ?thesis
    using sum_crank_update[OF assms(2), of "cpc s" "cpc t i"] by (simp add: exec_measure_def)
qed

lemma exec_step_decreases: "exec_step S s t \<Longrightarrow> exec_measure S t < exec_measure S s"
proof (elim exec_step.cases)
  fix s' t' assume "s = s'" "t = t'" "worker_step (jobs S) s' t'"
  then show ?thesis
    by (elim worker_step.cases) (auto simp: exec_measure_def recycle_def RecycleJob_def split: handoff.splits)
next
  fix s' t' assume "s = s'" "t = t'" "close_step s' t'"
  then show ?thesis by (elim close_step.cases) (auto simp: exec_measure_def)
next
  fix s' assume "s = s'" "t = Retire s'" "\<not> retire s'"
  then show ?thesis by (simp add: exec_measure_def Retire_def)
qed (auto intro: submit_decreases wait_decreases)

text \<open>Callers that are not started and a closer that is not asked for never move.\<close>

lemma exec_reach_frame:
  assumes "exec_reach S s"
  shows "(clpc s \<noteq> ClIdle \<longrightarrow> closing S) \<and> (callers S \<le> i \<longrightarrow> cpc s i = CStart)"
  using assms
proof (induction rule: exec_reach.induct)
  case (step s t)
  from step(2) show ?case
  proof cases
    case worker
    then show ?thesis using step(3) by (cases) (auto simp: exec_ops)
  next
    case (submit j)
    from submit(2) show ?thesis using step(3) submit(1) by (cases) (auto simp: exec_ops)
  next
    case (wait j)
    from wait(2) show ?thesis using step(3) wait(1) by (cases) (auto simp: exec_ops)
  next
    case close
    from close(2) show ?thesis using step(3) close(1) by cases auto
  next
    case retire
    then show ?thesis using step(3) by (simp add: Retire_def)
  qed
qed (simp add: newExecutor_def)

lemma worker_stuck:
  assumes "exec_inv S s" and "\<And>t. \<not> worker_step (jobs S) s t"
  shows "tasks s = [] \<and> (wpc s = WIdle \<and> \<not> quit s \<or> finished (wpc s))"
proof (cases "wpc s")
  case WIdle
  then show ?thesis using assms(2) w_take w_quit w_drained by (cases "tasks s") blast+
next
  case (WSend i r)
  then have "result (comp s i) = []"
    using exec_invD(1)[OF assms(1), of i]
    by (cases "cpc s i") (auto simp: worker_ref_def before_delivery_def split: if_splits)
  with WSend assms(2) w_send show ?thesis by blast
next
  case (WSwap i)
  then show ?thesis using assms(2) w_delivered[OF WSwap surjective_pairing] by blast
next
  case (WDrainC i)
  then have "result (comp s i) \<noteq> []"
    using exec_invD(1)[OF assms(1), of i]
    by (cases "cpc s i") (auto simp: worker_ref_def before_delivery_def split: if_splits)
  with WDrainC assms(2) w_drain_result show ?thesis by (meson neq_Nil_conv)
next
  case (WRun i)
  then show ?thesis using assms(2) w_run by blast
next
  case (WRecycle i)
  then show ?thesis using assms(2) w_recycle by blast
next
  case WFinish
  then show ?thesis using assms(2) w_finish_retired w_finish_clean by blast
qed (use exec_invD(5)[OF assms(1)] in \<open>simp_all add: thread_inv_def\<close>)

lemma caller_stuck:
  assumes inv: "exec_inv S s" and ts: "tasks s = []" and w: "wjob (wpc s) = None"
    and sub: "\<And>t. \<not> submit_step (ctxerr S) i s t"
    and wai: "\<And>t. \<not> wait_step (ctxerr S) (cancellable S) i s t"
  shows "(\<exists>r. cpc s i = CDone r) \<or> cpc s i = CGot \<and> writer s"
proof -
  note ci = exec_invD(1)[OF inv, of i]
  have no: "worker_ref (wpc s) (tasks s) i = NoRef" using ts w by (simp add: worker_ref_def)
  show ?thesis
  proof (cases "cpc s i")
    case CStart then show ?thesis using sub s_get_new by blast
  next
    case CGot then show ?thesis using sub s_rlock by blast
  next
    case CLocked then show ?thesis using sub s_closed s_open by blast
  next
    case CSelect then show ?thesis using sub s_send ts by fastforce
  next
    case CSent then show ?thesis using sub s_runlock by blast
  next
    case CWait
    then have "result (comp s i) = [runOne (jobs S i)]"
      using ci no by (auto simp: before_delivery_def)
    then show ?thesis using wai r_recv[OF CWait] by blast
  next
    case (CRecvd r)
    then show ?thesis using wai r_received[OF CRecvd surjective_pairing] by blast
  next
    case (CDrain e)
    then have "result (comp s i) = [runOne (jobs S i)]" using ci no by auto
    then show ?thesis using wai r_drain[OF CDrain] by blast
  next
    case (CRecycle r) then show ?thesis using wai r_recycle by blast
  qed simp
qed

lemma closer_moves:
  assumes "closing S" "clpc s \<noteq> ClIdle" "clpc s \<noteq> ClDone" "clpc s = ClWait \<longrightarrow> done_ch s"
  shows "\<exists>t. exec_step S s t"
proof -
  have "\<exists>t. close_step s t"
    using assms(2-) cl_closed cl_quit cl_unlock cl_done by (cases "clpc s") blast+
  then show ?thesis using close[OF assms(1)] by blast
qed

lemma stuck_finished:
  assumes reach: "exec_reach S s" and stuck: "\<And>t. \<not> exec_step S s t"
  shows "(i < callers S \<longrightarrow> (\<exists>r. cpc s i = CDone r)) \<and> (closing S \<longrightarrow> clpc s = ClDone)"
proof -
  note inv = exec_reach_inv[OF reach]
  have w: "tasks s = [] \<and> (wpc s = WIdle \<and> \<not> quit s \<or> finished (wpc s))"
    using worker_stuck[OF inv] stuck worker by blast
  then have wn: "wjob (wpc s) = None" by (cases "wpc s") auto
  have cl: "clpc s = ClIdle \<or> clpc s = ClDone"
  proof (rule ccontr)
    assume c: "\<not> (clpc s = ClIdle \<or> clpc s = ClDone)"
    have "clpc s = ClWait \<longrightarrow> done_ch s"
      using w exec_invD(4,5)[OF inv] by (auto simp: lock_inv_def thread_inv_def)
    then show False using closer_moves[of S s] c exec_reach_frame[OF reach] stuck by blast
  qed
  then have "\<not> writer s" using exec_invD(4)[OF inv] by (auto simp: lock_inv_def)
  then have callers_done: "\<exists>r. cpc s j = CDone r" if "j < callers S" for j
    using caller_stuck[OF inv _ wn, of j] w that stuck submit[OF that] wait[OF that] by blast
  have "\<not> holds_reader (cpc s j)" for j
    using callers_done[of j] exec_reach_frame[OF reach, of j] by (cases "j < callers S") auto
  then have "readers s = {}" using exec_invD(6)[OF inv] by (auto simp: reader_inv_def)
  then have "closing S \<longrightarrow> clpc s = ClDone"
    using cl cl_lock[of s] close[of S s] stuck \<open>\<not> writer s\<close> by blast
  with callers_done show ?thesis by blast
qed
lemma exec_run_ends:
  assumes "exec_reach S s"
  shows "\<exists>t. exec_reach S t \<and> (\<forall>u. \<not> exec_step S t u)"
  using assms
proof (induction "exec_measure S s" arbitrary: s rule: less_induct)
  case less
  show ?case
  proof (cases "\<exists>t. exec_step S s t")
    case True
    then obtain t where "exec_step S s t" by blast
    then show ?thesis using less(1)[OF exec_step_decreases] exec_reach.step[OF less(2)] by blast
  qed (use less in blast)
qed

subsection \<open>An executable schedule\<close>

text \<open>
  One of the schedules the step relation allows, as a function: each goroutine's next step when
  it is enabled, the callers first, then the worker, then the closer.
\<close>

fun worker_exec :: "(nat \<Rightarrow> job_out) \<Rightarrow> exec_state \<Rightarrow> exec_state option" where
  "worker_exec jb s = (case wpc s of
     WIdle \<Rightarrow> (case tasks s of
        i # ts \<Rightarrow> Some (s\<lparr>wpc := WRun i, tasks := ts\<rparr>)
      | [] \<Rightarrow> if draining s then Some (s\<lparr>wpc := WFinish\<rparr>)
              else if quit s then Some (s\<lparr>draining := True\<rparr>) else None)
   | WRun i \<Rightarrow> Some (RecycleJob i (s\<lparr>wpc := WSend i (runOne (jb i)), ran := (ran s)(i := Suc (ran s i))\<rparr>))
   | WSend i r \<Rightarrow> if result (comp s i) = []
       then Some ((set_comp i ((comp s i)\<lparr>result := [r]\<rparr>) s)\<lparr>wpc := WSwap i\<rparr>) else None
   | WSwap i \<Rightarrow> (case delivered (comp s i) of (h, c) \<Rightarrow>
       Some ((set_comp i c s)\<lparr>wpc := (case h of
         Leave \<Rightarrow> WIdle | DrainThenRecycle \<Rightarrow> WDrainC i | RecycleNow \<Rightarrow> WRecycle i)\<rparr>))
   | WDrainC i \<Rightarrow> (case result (comp s i) of [] \<Rightarrow> None
       | r # rs \<Rightarrow> Some ((set_comp i ((comp s i)\<lparr>result := rs\<rparr>) s)\<lparr>wpc := WRecycle i\<rparr>))
   | WRecycle i \<Rightarrow> Some ((recycle i s)\<lparr>wpc := WIdle\<rparr>)
   | WFinish \<Rightarrow> Some (if retire s then s\<lparr>done_ch := True, wpc := WParked\<rparr>
       else s\<lparr>thread_locked := False, done_ch := True, wpc := WExited\<rparr>)
   | _ \<Rightarrow> None)"

fun submit_exec :: "nat \<Rightarrow> exec_state \<Rightarrow> exec_state option" where
  "submit_exec i s = (case cpc s i of
     CStart \<Rightarrow> Some (set_cpc i CGot (set_comp i newCompletion s))
   | CGot \<Rightarrow> if writer s then None
       else Some (set_cpc i CLocked (s\<lparr>readers := insert i (readers s)\<rparr>))
   | CLocked \<Rightarrow> Some (if closed s then reject i ErrExecutorClosed (recycle i (runlock i s))
       else set_cpc i CSelect s)
   | CSelect \<Rightarrow> if length (tasks s) < 1
       then Some (set_cpc i CSent (s\<lparr>tasks := tasks s @ [i], accepted := (accepted s)(i := True)\<rparr>))
       else None
   | CSent \<Rightarrow> Some (set_cpc i CWait (runlock i s))
   | _ \<Rightarrow> None)"

fun wait_exec :: "nat \<Rightarrow> exec_state \<Rightarrow> exec_state option" where
  "wait_exec i s = (case cpc s i of
     CWait \<Rightarrow> (case result (comp s i) of [] \<Rightarrow> None
       | r # rs \<Rightarrow> Some (set_cpc i (CRecvd r) (set_comp i ((comp s i)\<lparr>result := rs\<rparr>) s)))
   | CRecvd r \<Rightarrow> (case received (comp s i) of (h, c) \<Rightarrow>
       Some (set_cpc i (if h = Leave then CDone r else CRecycle r) (set_comp i c s)))
   | CRecycle r \<Rightarrow> Some (set_cpc i (CDone r) (recycle i s))
   | _ \<Rightarrow> None)"

fun caller_exec :: "nat \<Rightarrow> exec_state \<Rightarrow> exec_state option" where
  "caller_exec i s = (case submit_exec i s of Some t \<Rightarrow> Some t | None \<Rightarrow> wait_exec i s)"

fun close_exec :: "exec_state \<Rightarrow> exec_state option" where
  "close_exec s = (case clpc s of
     ClIdle \<Rightarrow> if readers s = {} \<and> \<not> writer s then Some (s\<lparr>writer := True, clpc := ClLocked\<rparr>) else None
   | ClLocked \<Rightarrow> Some (s\<lparr>closed := True, clpc := ClClosed\<rparr>)
   | ClClosed \<Rightarrow> Some (s\<lparr>quit := True, clpc := ClQuit\<rparr>)
   | ClQuit \<Rightarrow> Some (s\<lparr>writer := False, clpc := ClWait\<rparr>)
   | ClWait \<Rightarrow> if done_ch s then Some (s\<lparr>clpc := ClDone\<rparr>) else None
   | ClDone \<Rightarrow> None)"

fun sched :: "exec_env \<Rightarrow> nat \<Rightarrow> exec_state \<Rightarrow> exec_state option" where
  "sched S 0 s = (case worker_exec (jobs S) s of Some t \<Rightarrow> Some t
     | None \<Rightarrow> if closing S then close_exec s else None)"
| "sched S (Suc i) s = (case if i < callers S then caller_exec i s else None of Some t \<Rightarrow> Some t
     | None \<Rightarrow> sched S i s)"

fun exec_run :: "exec_env \<Rightarrow> nat \<Rightarrow> exec_state \<Rightarrow> exec_state" where
  "exec_run S 0 s = s"
| "exec_run S (Suc n) s = (case sched S (callers S) s of None \<Rightarrow> s | Some t \<Rightarrow> exec_run S n t)"

lemma worker_exec_step: "worker_exec jb s = Some t \<Longrightarrow> worker_step jb s t"
  by (auto split: worker_pc.splits list.splits if_splits prod.splits intro: worker_step.intros)

lemma submit_exec_step:
  assumes "submit_exec i s = Some t"
  shows "submit_step ce i s t"
proof (cases "cpc s i")
  case CSelect
  then show ?thesis using assms s_send[OF CSelect, of ce] by (simp split: if_splits)
next
  case CStart
  then show ?thesis using assms s_get_new[OF CStart, of ce] by simp
next
  case CGot
  then show ?thesis using assms s_rlock[OF CGot, of ce] by (simp split: if_splits)
qed (use assms in \<open>auto split: if_splits intro: submit_step.intros\<close>)

lemma wait_exec_step:
  assumes "wait_exec i s = Some t"
  shows "wait_step ce canc i s t"
proof (cases "cpc s i")
  case (CRecvd r)
  then show ?thesis using assms r_received[OF CRecvd] by (auto split: prod.splits)
next
  case CWait
  then show ?thesis using assms r_recv[OF CWait] by (auto split: list.splits)
qed (use assms in \<open>auto intro: wait_step.intros\<close>)

lemma caller_exec_step:
  "caller_exec i s = Some t \<Longrightarrow> submit_step ce i s t \<or> wait_step ce canc i s t"
  by (simp split: option.splits del: submit_exec.simps wait_exec.simps
      add: submit_exec_step wait_exec_step)

lemma close_exec_step: "close_exec s = Some t \<Longrightarrow> close_step s t"
  by (auto split: closer_pc.splits if_splits intro: close_step.intros)

lemma sched_step: "sched S k s = Some t \<Longrightarrow> exec_step S s t"
proof (induction S k s rule: sched.induct)
  case (1 S s)
  then show ?case
    by (auto split: option.splits if_splits simp del: worker_exec.simps close_exec.simps
        intro: worker close worker_exec_step close_exec_step)
next
  case (2 S i s)
  then show ?case
    using caller_exec_step[of i s t "ctxerr S" "cancellable S"]
    by (auto split: option.splits if_splits simp del: caller_exec.simps
        intro: submit wait)
qed

lemma exec_run_reach: "exec_reach S s \<Longrightarrow> exec_reach S (exec_run S n s)"
proof (induction S n s rule: exec_run.induct)
  case (2 S n s)
  then show ?case using exec_reach.step[OF 2(2) sched_step] by (auto split: option.splits)
qed simp


subsection \<open>What the executor guarantees\<close>

definition env_ok :: exec_env where
  "env_ok = \<lparr>jobs = (\<lambda>i. if i = 0 then JobRet None else JobPanic ''boom''), ctxerr = (\<lambda>_. None),
     cancellable = (\<lambda>_. False), callers = 2, closing = True\<rparr>"

lemma env_ok_run: "exec_reach env_ok (exec_run env_ok n newExecutor)"
  by (rule exec_run_reach, rule exec_reach.start)

lemmas exec_eval = env_ok_def newExecutor_def newCompletion_def recycle_def runlock_def RecycleJob_def
  reject_def recycleCompletion_def delivered_def received_def abandon_def

text \<open>
  C2. Whatever the interleaving of the worker, the callers, their cancellations and \<^verbatim>\<open>Close\<close>, a job
  runs at most once, and a call that has returned has returned the outcome of its own job after
  exactly one run, or its context's error, or \<^verbatim>\<open>ErrExecutorClosed\<close>. A call that was rejected never ran
  its job; a call that had to wait for its accepted job (\<^verbatim>\<open>DoJob\<close>, \<^verbatim>\<open>DoCtxWait\<close>) returns the
  job's own outcome, a panic as a \<^verbatim>\<open>PanicError\<close>.
\<close>

theorem executor_call_outcome:
  assumes "exec_reach S s"
  shows "ran s i \<le> 1 \<and> (case cpc s i of CDone r \<Rightarrow>
       if accepted s i
       then ran s i = 1 \<and> r = runOne (jobs S i) \<or> cancellable S i \<and> ctxerr S i \<noteq> None \<and> r = ctxerr S i
       else ran s i = 0 \<and> (r = Some ErrExecutorClosed \<or> ctxerr S i \<noteq> None \<and> r = ctxerr S i)
     | _ \<Rightarrow> True)"
  using exec_invD(1)[OF exec_reach_inv[OF assms], of i]
  by (cases "cpc s i") (auto simp: before_delivery_def split: if_splits)

lemma executor_call_outcome_witness:
  "cpc (exec_run env_ok 30 newExecutor) 1 = CDone (Some (PanicError ''boom'')) \<and>
   accepted (exec_run env_ok 30 newExecutor) 1 \<and> ran (exec_run env_ok 30 newExecutor) 1 \<le> 1"
  using executor_call_outcome[OF env_ok_run, of 30 1]
  by (simp add: exec_eval eval_nat_numeral)

text \<open>
  C23. The ownership handshake of completions: in every reachable state each pooled completion has an empty
  channel and is in the waiting state, no completion is put back twice by its submission, and a pooled
  job is handed back exactly once per call once the call has returned and the worker holds nothing of it. A job is never
  used after it was handed back: neither by the executor, which hands it back after its run, nor when a caller of \<^verbatim>\<open>DoJob\<close> recycles
  it itself as soon as the call has returned.
\<close>

theorem executor_recycling:
  assumes "exec_reach S s"
  shows "(\<forall>c \<in> set (pool s). result c = [] \<and> state c = completionWaiting) \<and>
     recycled s i \<le> 1 \<and> job_recycled s i \<le> 1 \<and>
     (case cpc s i of CDone r \<Rightarrow> worker_ref (wpc s) (tasks s) i = NoRef \<longrightarrow>
        job_recycled s i = 1 \<and> (accepted s i \<longrightarrow> recycled s i = 1) | _ \<Rightarrow> True) \<and>
     (job_recycled s i = 1 \<longrightarrow> worker_ref (wpc s) (tasks s) i \<notin> {Queued, Running}) \<and>
     (case cpc s i of CDone r \<Rightarrow> \<not> cancellable S i \<longrightarrow> worker_ref (wpc s) (tasks s) i \<notin> {Queued, Running} | _ \<Rightarrow> True)"
  using exec_invD(1,2)[OF exec_reach_inv[OF assms], of i] exec_invD(3)[OF exec_reach_inv[OF assms]]
  by (cases "cpc s i") (auto simp: before_delivery_def job_inv_def queue_inv_def newCompletion_def
      split: if_splits)

lemma executor_recycling_witness:
  "pool (exec_run env_ok 25 newExecutor) \<noteq> [] \<and>
   result (hd (pool (exec_run env_ok 25 newExecutor))) = [] \<and>
   job_recycled (exec_run env_ok 25 newExecutor) 0 = 1"
  using executor_recycling[OF env_ok_run, of 25 0]
  by (simp add: exec_eval eval_nat_numeral worker_ref_def)

text \<open>
  C3. When \<^verbatim>\<open>Close\<close> has returned, every accepted job has run exactly once, the task buffer is empty,
  the executor refuses work, and the worker has either released its OS thread and exited or, only when
  \<^verbatim>\<open>Retire\<close> was called, keeps the thread locked and parked.
\<close>

theorem executor_close_drains:
  assumes "exec_reach S s" and "clpc s = ClDone"
  shows "(accepted s i \<longrightarrow> ran s i = 1) \<and> tasks s = [] \<and> closed s \<and>
     (wpc s = WExited \<and> \<not> thread_locked s \<or> wpc s = WParked \<and> thread_locked s \<and> retire s)"
proof -
  note inv = exec_reach_inv[OF assms(1)]
  have t: "tasks s = [] \<and> (wpc s = WExited \<and> \<not> thread_locked s \<or> wpc s = WParked \<and> thread_locked s \<and> retire s)"
    using exec_invD(5)[OF inv] assms(2) by (cases "wpc s") (auto simp: thread_inv_def)
  then have "worker_ref (wpc s) (tasks s) i = NoRef" by (auto simp: worker_ref_def)
  then have "accepted s i \<longrightarrow> ran s i = 1"
    using exec_invD(1)[OF inv, of i] by (cases "cpc s i") (auto simp: before_delivery_def split: if_splits)
  moreover have "closed s" using exec_invD(4)[OF inv] assms(2) by (simp add: lock_inv_def)
  ultimately show ?thesis using t by blast
qed

lemma executor_close_drains_witness:
  "clpc (exec_run env_ok 40 newExecutor) = ClDone \<and> ran (exec_run env_ok 40 newExecutor) 0 = 1 \<and>
   wpc (exec_run env_ok 40 newExecutor) = WExited"
  using executor_close_drains[OF env_ok_run, of 40 0]
  by (simp add: exec_eval eval_nat_numeral)

text \<open>
  No call hangs: every run of the system is finite, and a reachable state from which no goroutine can move is one
  where every call has returned and \<^verbatim>\<open>Close\<close>, if called, has returned too.
\<close>

theorem executor_no_deadlock:
  assumes "exec_reach S s"
  shows "(\<forall>t. exec_step S s t \<longrightarrow> exec_measure S t < exec_measure S s) \<and>
     ((\<nexists>t. exec_step S s t) \<longrightarrow>
        (\<forall>i < callers S. \<exists>r. cpc s i = CDone r) \<and> (closing S \<longrightarrow> clpc s = ClDone))"
  using exec_step_decreases stuck_finished[OF assms] by blast

lemma executor_no_deadlock_witness:
  "\<exists>s. exec_reach env_ok s \<and> (\<nexists>t. exec_step env_ok s t) \<and>
     (\<exists>r. cpc s 0 = CDone r) \<and> (\<exists>r. cpc s 1 = CDone r) \<and> clpc s = ClDone"
proof -
  obtain s where "exec_reach env_ok s" "\<nexists>t. exec_step env_ok s t"
    using exec_run_ends[OF exec_reach.start, of env_ok] by blast
  then show ?thesis using executor_no_deadlock[of env_ok s] by (auto simp: env_ok_def)
qed

text \<open>
  The executor's loops end: the worker, the callers and the closer together make at most as many steps as the measure of the state they
  start in says, in any order, and a run that cannot go on has ended with every call, and \<^verbatim>\<open>Close\<close> if it was called, returned.
\<close>

theorem executor_terminates:
  assumes "exec_reach S (f 0)" and "\<forall>k < n. exec_step S (f k) (f (Suc k))"
  shows "n \<le> exec_measure S (f 0) \<and> exec_reach S (f n) \<and>
    ((\<exists>t. exec_step S (f n) t) \<or> (\<forall>i < callers S. \<exists>r. cpc (f n) i = CDone r) \<and> (closing S \<longrightarrow> clpc (f n) = ClDone))"
proof -
  have "exec_reach S (f n) \<and> n + exec_measure S (f n) \<le> exec_measure S (f 0)"
    using assms(2)
  proof (induction n)
    case 0
    then show ?case using assms(1) by simp
  next
    case (Suc n)
    then have "exec_reach S (f n)" "n + exec_measure S (f n) \<le> exec_measure S (f 0)" "exec_step S (f n) (f (Suc n))" by simp_all
    then show ?case using exec_step_decreases[of S "f n" "f (Suc n)"] exec_reach.step[of S "f n" "f (Suc n)"] by simp
  qed
  then show ?thesis using stuck_finished[of S "f n"] by auto
qed

lemma executor_terminates_witness:
  "1 \<le> exec_measure env_ok newExecutor \<and> exec_reach env_ok (Retire newExecutor)"
proof -
  let ?f = "\<lambda>k :: nat. if k = 0 then newExecutor else Retire newExecutor"
  have "exec_step env_ok newExecutor (Retire newExecutor)"
    by (rule exec_step.retire) (simp add: newExecutor_def)
  then have "\<forall>k < 1. exec_step env_ok (?f k) (?f (Suc k))" by simp
  moreover have "exec_reach env_ok (?f 0)" by (simp add: exec_reach.start)
  ultimately show ?thesis using executor_terminates[of env_ok ?f 1] by simp
qed

end
