(* ===== verification/Driver.thy ===== *)
theory Driver
  imports GoErrors
begin

section \<open>The driver interface and its checked wrappers\<close>

text \<open>
  The CUDA driver library is not part of the repository: it is a parameter of the model. A
  \<open>Driver\<close> says which entry points are bound (a \<^verbatim>\<open>cudasys.Driver\<close> field is \<^verbatim>\<open>nil\<close> or not) and what
  invoking one does: given the call, the OS thread that makes it and the state of the
  driver and of the memory it manages, it returns a result code, the values written to the
  output parameters, and the new state.

  A call is a symbol with its arguments (\<^verbatim>\<open>cudasys/syscall_bind.go\<close>): scalars are widened to the
  64-bit registers \<^verbatim>\<open>SyscallN\<close> passes (signed ones by sign extension), structures passed by
  reference are flattened to their fields, and pointers to memory owned by Go are the bytes they
  point to. Output parameters are not arguments; their values are the fields of \<open>out\<close>.
\<close>

type_synonym i32 = "32 word"
type_synonym tid = nat

datatype drvcall = Call (csym: string) (cargs: "u64 list") (cbufs: "u8 list list")

record out =
  o0 :: u64
  o1 :: u64
  obuf :: "u8 list"

record 'w Driver =
  bound :: "string \<Rightarrow> bool"
  invoke :: "drvcall \<Rightarrow> tid \<Rightarrow> 'w \<Rightarrow> (CUresult \<times> out) \<times> 'w"

type_synonym ('w, 'a) drv = "tid \<Rightarrow> 'w \<Rightarrow> (go_error + 'a) \<times> 'w"

named_theorems wrapper_defs

text \<open>A host pointer: nil, an address in memory the driver allocated or registered, or Go memory.\<close>

datatype hostptr = HNil | HAddr u64 | HGo "u8 list"

fun hostarg :: "hostptr \<Rightarrow> u64" where
  "hostarg (HAddr a) = a" | "hostarg _ = 0"

fun hostbuf :: "hostptr \<Rightarrow> u8 list list" where
  "hostbuf (HGo b) = [b]" | "hostbuf _ = []"

subsection \<open>Structures passed by reference\<close>

record Memcpy2D_desc =
  m2SrcXInBytes :: u64
  m2SrcY :: u64
  m2SrcMemoryType :: u32
  m2SrcHost :: hostptr
  m2SrcDevice :: u64
  m2SrcArray :: u64
  m2SrcPitch :: u64
  m2DstXInBytes :: u64
  m2DstY :: u64
  m2DstMemoryType :: u32
  m2DstHost :: hostptr
  m2DstDevice :: u64
  m2DstArray :: u64
  m2DstPitch :: u64
  m2WidthInBytes :: u64
  m2Height :: u64

definition zero_Memcpy2D :: Memcpy2D_desc where
  "zero_Memcpy2D = \<lparr>m2SrcXInBytes = 0, m2SrcY = 0, m2SrcMemoryType = 0, m2SrcHost = HNil,
     m2SrcDevice = 0, m2SrcArray = 0, m2SrcPitch = 0, m2DstXInBytes = 0, m2DstY = 0,
     m2DstMemoryType = 0, m2DstHost = HNil, m2DstDevice = 0, m2DstArray = 0, m2DstPitch = 0,
     m2WidthInBytes = 0, m2Height = 0\<rparr>"

definition memcpy2d_args :: "Memcpy2D_desc \<Rightarrow> u64 list" where
  "memcpy2d_args m = [m2SrcXInBytes m, m2SrcY m, ucast (m2SrcMemoryType m), hostarg (m2SrcHost m),
     m2SrcDevice m, m2SrcArray m, m2SrcPitch m, m2DstXInBytes m, m2DstY m, ucast (m2DstMemoryType m),
     hostarg (m2DstHost m), m2DstDevice m, m2DstArray m, m2DstPitch m, m2WidthInBytes m, m2Height m]"

definition memcpy2d_bufs :: "Memcpy2D_desc \<Rightarrow> u8 list list" where
  "memcpy2d_bufs m = hostbuf (m2SrcHost m) @ hostbuf (m2DstHost m)"

record Memcpy3D_desc =
  m3SrcXInBytes :: u64
  m3SrcY :: u64
  m3SrcZ :: u64
  m3SrcLOD :: u64
  m3SrcMemoryType :: u32
  m3SrcHost :: hostptr
  m3SrcDevice :: u64
  m3SrcArray :: u64
  m3SrcPitch :: u64
  m3SrcHeight :: u64
  m3DstXInBytes :: u64
  m3DstY :: u64
  m3DstZ :: u64
  m3DstLOD :: u64
  m3DstMemoryType :: u32
  m3DstHost :: hostptr
  m3DstDevice :: u64
  m3DstArray :: u64
  m3DstPitch :: u64
  m3DstHeight :: u64
  m3WidthInBytes :: u64
  m3Height :: u64
  m3Depth :: u64

definition zero_Memcpy3D :: Memcpy3D_desc where
  "zero_Memcpy3D = \<lparr>m3SrcXInBytes = 0, m3SrcY = 0, m3SrcZ = 0, m3SrcLOD = 0, m3SrcMemoryType = 0,
     m3SrcHost = HNil, m3SrcDevice = 0, m3SrcArray = 0, m3SrcPitch = 0, m3SrcHeight = 0,
     m3DstXInBytes = 0, m3DstY = 0, m3DstZ = 0, m3DstLOD = 0, m3DstMemoryType = 0, m3DstHost = HNil,
     m3DstDevice = 0, m3DstArray = 0, m3DstPitch = 0, m3DstHeight = 0, m3WidthInBytes = 0,
     m3Height = 0, m3Depth = 0\<rparr>"

definition memcpy3d_args :: "Memcpy3D_desc \<Rightarrow> u64 list" where
  "memcpy3d_args m = [m3SrcXInBytes m, m3SrcY m, m3SrcZ m, m3SrcLOD m, ucast (m3SrcMemoryType m),
     hostarg (m3SrcHost m), m3SrcDevice m, m3SrcArray m, m3SrcPitch m, m3SrcHeight m,
     m3DstXInBytes m, m3DstY m, m3DstZ m, m3DstLOD m, ucast (m3DstMemoryType m),
     hostarg (m3DstHost m), m3DstDevice m, m3DstArray m, m3DstPitch m, m3DstHeight m,
     m3WidthInBytes m, m3Height m, m3Depth m]"

definition memcpy3d_bufs :: "Memcpy3D_desc \<Rightarrow> u8 list list" where
  "memcpy3d_bufs m = hostbuf (m3SrcHost m) @ hostbuf (m3DstHost m)"

definition MemoryTypeHost :: u32 where "MemoryTypeHost = 1"
definition MemoryTypeDevice :: u32 where "MemoryTypeDevice = 2"
definition MemoryTypeArray :: u32 where "MemoryTypeArray = 3"
definition MemoryTypeUnified :: u32 where "MemoryTypeUnified = 4"

record CUDA_ARRAY_DESCRIPTOR =
  adWidth :: u64
  adHeight :: u64
  adFormat :: u32
  adNumChannels :: u32

definition array_args :: "CUDA_ARRAY_DESCRIPTOR \<Rightarrow> u64 list" where
  "array_args a = [adWidth a, adHeight a, ucast (adFormat a), ucast (adNumChannels a)]"

record CUDA_ARRAY3D_DESCRIPTOR =
  a3Width :: u64
  a3Height :: u64
  a3Depth :: u64
  a3Format :: u32
  a3NumChannels :: u32
  a3Flags :: u32

definition array3d_args :: "CUDA_ARRAY3D_DESCRIPTOR \<Rightarrow> u64 list" where
  "array3d_args a = [a3Width a, a3Height a, a3Depth a, ucast (a3Format a), ucast (a3NumChannels a),
     ucast (a3Flags a)]"

record CUDA_RESOURCE_DESC =
  rdResType :: u32
  rdHandle :: u64
  rdFlags :: u32

definition resource_args :: "CUDA_RESOURCE_DESC \<Rightarrow> u64 list" where
  "resource_args r = [ucast (rdResType r), rdHandle r, ucast (rdFlags r)]"

text \<open>The floating-point fields of a texture descriptor are never set by the repository; they stay zero.\<close>

record CUDA_TEXTURE_DESC =
  tdAddressMode :: "u32 \<times> u32 \<times> u32"
  tdFilterMode :: u32
  tdFlags :: u32
  tdMaxAnisotropy :: u32
  tdMipmapFilterMode :: u32

definition texture_args :: "CUDA_TEXTURE_DESC \<Rightarrow> u64 list" where
  "texture_args t = (case tdAddressMode t of (a, b, c) \<Rightarrow> [ucast a, ucast b, ucast c]) @
     [ucast (tdFilterMode t), ucast (tdFlags t), ucast (tdMaxAnisotropy t), ucast (tdMipmapFilterMode t)]"

record CUmemLocation =
  locType :: i32
  locId :: i32

record CUmemAllocationProp =
  propType :: i32
  propRequestedHandleTypes :: i32
  propLocation :: CUmemLocation

definition prop_args :: "CUmemAllocationProp \<Rightarrow> u64 list" where
  "prop_args p = [scast (propType p), scast (propRequestedHandleTypes p),
     scast (locType (propLocation p)), scast (locId (propLocation p))]"

record CUmemAccessDesc =
  accLocation :: CUmemLocation
  accFlags :: i32

definition access_args :: "CUmemAccessDesc \<Rightarrow> u64 list" where
  "access_args a = [scast (locType (accLocation a)), scast (locId (accLocation a)), scast (accFlags a)]"

subsection \<open>Reading output parameters\<close>

definition out_i32 :: "out \<Rightarrow> i32" where
  "out_i32 r = ucast (o0 r)"

definition out_int :: "out \<Rightarrow> goint" where
  "out_int r = scast (out_i32 r)"

text \<open>The bit pattern of a \<^verbatim>\<open>float32\<close>.\<close>

definition out_f32 :: "out \<Rightarrow> u32" where
  "out_f32 r = ucast (o0 r)"

text \<open>A byte array of \<open>n\<close> zeros, overwritten by what the driver wrote.\<close>

definition out_bytes :: "nat \<Rightarrow> out \<Rightarrow> u8 list" where
  "out_bytes n r = take n (obuf r) @ replicate (n - length (obuf r)) 0"

definition bytes_to_string :: "u8 list \<Rightarrow> string" where
  "bytes_to_string bs = map (\<lambda>b. char_of (unat b)) bs"

definition deviceNameBufferLen :: nat where "deviceNameBufferLen = 256"
definition pciBusIDBufferLen :: nat where "pciBusIDBufferLen = 16"

definition out_string :: "nat \<Rightarrow> out \<Rightarrow> string" where
  "out_string n r = bytes_to_string (takeWhile (\<lambda>b. b \<noteq> 0) (out_bytes n r))"

definition hex_digit :: "nat \<Rightarrow> char" where
  "hex_digit n = char_of (if n < 10 then 48 + n else 87 + n)"

definition hex_bytes :: "u8 list \<Rightarrow> string" where
  "hex_bytes bs = concat (map (\<lambda>b. [hex_digit (unat b div 16), hex_digit (unat b mod 16)]) bs)"

definition format_uuid :: "u8 list \<Rightarrow> string" where
  "format_uuid raw = ''GPU-'' @ hex_bytes (take 4 raw) @ ''-'' @ hex_bytes (take 2 (drop 4 raw)) @
     ''-'' @ hex_bytes (take 2 (drop 6 raw)) @ ''-'' @ hex_bytes (take 2 (drop 8 raw)) @ ''-'' @
     hex_bytes (take 6 (drop 10 raw))"

subsection \<open>Guarded calls\<close>

text \<open>
  The two guards of \<^verbatim>\<open>cudaresult\<close>: a nil driver or an unbound required symbol is \<^verbatim>\<open>ErrNotInitialized\<close>, an unbound
  optional symbol \<^verbatim>\<open>ErrSymbolUnavailable\<close>. The result is checked under the symbol's name.
\<close>

definition checked_call :: "'w Driver \<Rightarrow> drvcall \<Rightarrow> (CUresult \<Rightarrow> go_error option) \<Rightarrow> (out \<Rightarrow> 'a) \<Rightarrow> ('w, 'a) drv" where
  "checked_call D c chk f t w = (case invoke D c t w of ((code, r), w') \<Rightarrow>
     (case chk code of Some e \<Rightarrow> Inl e | None \<Rightarrow> Inr (f r), w'))"

definition required :: "'w Driver option \<Rightarrow> drvcall \<Rightarrow> (out \<Rightarrow> 'a) \<Rightarrow> ('w, 'a) drv" where
  "required d c f t w = (case d of
     None \<Rightarrow> (Inl ErrNotInitialized, w)
   | Some D \<Rightarrow> if \<not> bound D (csym c) then (Inl ErrNotInitialized, w)
       else checked_call D c (check (csym c)) f t w)"

definition required_nr :: "'w Driver option \<Rightarrow> drvcall \<Rightarrow> go_error \<Rightarrow> (out \<Rightarrow> 'a) \<Rightarrow> ('w, 'a) drv" where
  "required_nr d c notReady f t w = (case d of
     None \<Rightarrow> (Inl ErrNotInitialized, w)
   | Some D \<Rightarrow> if \<not> bound D (csym c) then (Inl ErrNotInitialized, w)
       else checked_call D c (\<lambda>code. checkNotReady (csym c) code notReady) f t w)"

definition optional :: "'w Driver option \<Rightarrow> drvcall \<Rightarrow> (out \<Rightarrow> 'a) \<Rightarrow> ('w, 'a) drv" where
  "optional d c f t w = (case d of
     None \<Rightarrow> (Inl ErrNotInitialized, w)
   | Some D \<Rightarrow> if \<not> bound D (csym c) then (Inl ErrSymbolUnavailable, w)
       else checked_call D c (check (csym c)) f t w)"

text \<open>Sequencing of calls that stop at the first error.\<close>

definition ret :: "'a \<Rightarrow> ('w, 'a) drv" where
  "ret x t w = (Inr x, w)"

definition fail :: "go_error \<Rightarrow> ('w, 'a) drv" where
  "fail e t w = (Inl e, w)"

definition andThen :: "('w, 'a) drv \<Rightarrow> ('a \<Rightarrow> ('w, 'b) drv) \<Rightarrow> ('w, 'b) drv" where
  "andThen m k t w = (case m t w of (Inl e, w') \<Rightarrow> (Inl e, w') | (Inr x, w') \<Rightarrow> k x t w')"

subsection \<open>The entry points of \<^verbatim>\<open>cudasys/syscall_bind.go\<close>\<close>

definition CuInit :: "u32 \<Rightarrow> drvcall" where [call_defs]:
  "CuInit flags = Call ''cuInit'' ([ucast flags]) ([])"

definition CuDriverGetVersion :: "drvcall" where [call_defs]:
  "CuDriverGetVersion = Call ''cuDriverGetVersion'' ([]) ([])"

definition CuDeviceGetCount :: "drvcall" where [call_defs]:
  "CuDeviceGetCount = Call ''cuDeviceGetCount'' ([]) ([])"

definition CuDeviceGet :: "i32 \<Rightarrow> drvcall" where [call_defs]:
  "CuDeviceGet ordinal = Call ''cuDeviceGet'' ([scast ordinal]) ([])"

definition CuDeviceGetName :: "i32 \<Rightarrow> i32 \<Rightarrow> drvcall" where [call_defs]:
  "CuDeviceGetName len dev = Call ''cuDeviceGetName'' ([scast len, scast dev]) ([])"

definition CuDeviceTotalMem :: "i32 \<Rightarrow> drvcall" where [call_defs]:
  "CuDeviceTotalMem dev = Call ''cuDeviceTotalMem_v2'' ([scast dev]) ([])"

definition CuDeviceGetAttribute :: "i32 \<Rightarrow> i32 \<Rightarrow> drvcall" where [call_defs]:
  "CuDeviceGetAttribute attr dev = Call ''cuDeviceGetAttribute'' ([scast attr, scast dev]) ([])"

definition CuCtxGetCurrent :: "drvcall" where [call_defs]:
  "CuCtxGetCurrent = Call ''cuCtxGetCurrent'' ([]) ([])"

definition CuCtxSetCurrent :: "u64 \<Rightarrow> drvcall" where [call_defs]:
  "CuCtxSetCurrent ctx = Call ''cuCtxSetCurrent'' ([ctx]) ([])"

definition CuCtxSynchronize :: "drvcall" where [call_defs]:
  "CuCtxSynchronize = Call ''cuCtxSynchronize'' ([]) ([])"

definition CuCtxGetStreamPriorityRange :: "drvcall" where [call_defs]:
  "CuCtxGetStreamPriorityRange = Call ''cuCtxGetStreamPriorityRange'' ([]) ([])"

definition CuDevicePrimaryCtxRetain :: "i32 \<Rightarrow> drvcall" where [call_defs]:
  "CuDevicePrimaryCtxRetain dev = Call ''cuDevicePrimaryCtxRetain'' ([scast dev]) ([])"

definition CuDevicePrimaryCtxRelease :: "i32 \<Rightarrow> drvcall" where [call_defs]:
  "CuDevicePrimaryCtxRelease dev = Call ''cuDevicePrimaryCtxRelease_v2'' ([scast dev]) ([])"

definition CuMemAlloc :: "u64 \<Rightarrow> drvcall" where [call_defs]:
  "CuMemAlloc bytesize = Call ''cuMemAlloc_v2'' ([bytesize]) ([])"

definition CuMemFree :: "u64 \<Rightarrow> drvcall" where [call_defs]:
  "CuMemFree ptr = Call ''cuMemFree_v2'' ([ptr]) ([])"

definition CuMemGetInfo :: "drvcall" where [call_defs]:
  "CuMemGetInfo = Call ''cuMemGetInfo_v2'' ([]) ([])"

definition CuMemcpyHtoD :: "u64 \<Rightarrow> hostptr \<Rightarrow> u64 \<Rightarrow> drvcall" where [call_defs]:
  "CuMemcpyHtoD dst src count = Call ''cuMemcpyHtoD_v2'' ([dst, hostarg src, count]) (hostbuf src)"

definition CuMemcpyDtoH :: "hostptr \<Rightarrow> u64 \<Rightarrow> u64 \<Rightarrow> drvcall" where [call_defs]:
  "CuMemcpyDtoH dst src count = Call ''cuMemcpyDtoH_v2'' ([hostarg dst, src, count]) (hostbuf dst)"

definition CuMemcpyDtoD :: "u64 \<Rightarrow> u64 \<Rightarrow> u64 \<Rightarrow> drvcall" where [call_defs]:
  "CuMemcpyDtoD dst src count = Call ''cuMemcpyDtoD_v2'' ([dst, src, count]) ([])"

definition CuMemcpyHtoDAsync :: "u64 \<Rightarrow> hostptr \<Rightarrow> u64 \<Rightarrow> u64 \<Rightarrow> drvcall" where [call_defs]:
  "CuMemcpyHtoDAsync dst src count stream = Call ''cuMemcpyHtoDAsync_v2'' ([dst, hostarg src, count, stream]) (hostbuf src)"

definition CuMemcpyDtoHAsync :: "hostptr \<Rightarrow> u64 \<Rightarrow> u64 \<Rightarrow> u64 \<Rightarrow> drvcall" where [call_defs]:
  "CuMemcpyDtoHAsync dst src count stream = Call ''cuMemcpyDtoHAsync_v2'' ([hostarg dst, src, count, stream]) (hostbuf dst)"

definition CuMemcpyDtoDAsync :: "u64 \<Rightarrow> u64 \<Rightarrow> u64 \<Rightarrow> u64 \<Rightarrow> drvcall" where [call_defs]:
  "CuMemcpyDtoDAsync dst src count stream = Call ''cuMemcpyDtoDAsync_v2'' ([dst, src, count, stream]) ([])"

definition CuMemsetD8 :: "u64 \<Rightarrow> u8 \<Rightarrow> u64 \<Rightarrow> drvcall" where [call_defs]:
  "CuMemsetD8 dst val count = Call ''cuMemsetD8_v2'' ([dst, ucast val, count]) ([])"

definition CuMemsetD16 :: "u64 \<Rightarrow> u16 \<Rightarrow> u64 \<Rightarrow> drvcall" where [call_defs]:
  "CuMemsetD16 dst val count = Call ''cuMemsetD16_v2'' ([dst, ucast val, count]) ([])"

definition CuMemsetD32 :: "u64 \<Rightarrow> u32 \<Rightarrow> u64 \<Rightarrow> drvcall" where [call_defs]:
  "CuMemsetD32 dst val count = Call ''cuMemsetD32_v2'' ([dst, ucast val, count]) ([])"

definition CuMemsetD8Async :: "u64 \<Rightarrow> u8 \<Rightarrow> u64 \<Rightarrow> u64 \<Rightarrow> drvcall" where [call_defs]:
  "CuMemsetD8Async dst val count stream = Call ''cuMemsetD8Async'' ([dst, ucast val, count, stream]) ([])"

definition CuMemsetD16Async :: "u64 \<Rightarrow> u16 \<Rightarrow> u64 \<Rightarrow> u64 \<Rightarrow> drvcall" where [call_defs]:
  "CuMemsetD16Async dst val count stream = Call ''cuMemsetD16Async'' ([dst, ucast val, count, stream]) ([])"

definition CuMemsetD32Async :: "u64 \<Rightarrow> u32 \<Rightarrow> u64 \<Rightarrow> u64 \<Rightarrow> drvcall" where [call_defs]:
  "CuMemsetD32Async dst val count stream = Call ''cuMemsetD32Async'' ([dst, ucast val, count, stream]) ([])"

definition CuMemAllocHost :: "u64 \<Rightarrow> drvcall" where [call_defs]:
  "CuMemAllocHost bytesize = Call ''cuMemAllocHost_v2'' ([bytesize]) ([])"

definition CuMemFreeHost :: "u64 \<Rightarrow> drvcall" where [call_defs]:
  "CuMemFreeHost p = Call ''cuMemFreeHost'' ([p]) ([])"

definition CuModuleLoadData :: "u8 list \<Rightarrow> drvcall" where [call_defs]:
  "CuModuleLoadData img = Call ''cuModuleLoadData'' ([]) ([img])"

definition CuModuleLoadDataEx :: "u8 list \<Rightarrow> u32 \<Rightarrow> i32 list \<Rightarrow> u64 list \<Rightarrow> drvcall" where [call_defs]:
  "CuModuleLoadDataEx img numOptions options optionValues = Call ''cuModuleLoadDataEx'' ([ucast numOptions] @ map scast options @ optionValues) ([img])"

definition CuModuleUnload :: "u64 \<Rightarrow> drvcall" where [call_defs]:
  "CuModuleUnload m = Call ''cuModuleUnload'' ([m]) ([])"

definition CuModuleGetFunction :: "u64 \<Rightarrow> u8 list \<Rightarrow> drvcall" where [call_defs]:
  "CuModuleGetFunction m name = Call ''cuModuleGetFunction'' ([m]) ([name])"

definition CuModuleGetGlobal :: "u64 \<Rightarrow> u8 list \<Rightarrow> drvcall" where [call_defs]:
  "CuModuleGetGlobal m name = Call ''cuModuleGetGlobal_v2'' ([m]) ([name])"

definition CuStreamCreate :: "u32 \<Rightarrow> drvcall" where [call_defs]:
  "CuStreamCreate flags = Call ''cuStreamCreate'' ([ucast flags]) ([])"

definition CuStreamCreateWithPriority :: "u32 \<Rightarrow> i32 \<Rightarrow> drvcall" where [call_defs]:
  "CuStreamCreateWithPriority flags priority = Call ''cuStreamCreateWithPriority'' ([ucast flags, scast priority]) ([])"

definition CuStreamDestroy :: "u64 \<Rightarrow> drvcall" where [call_defs]:
  "CuStreamDestroy stream = Call ''cuStreamDestroy_v2'' ([stream]) ([])"

definition CuStreamSynchronize :: "u64 \<Rightarrow> drvcall" where [call_defs]:
  "CuStreamSynchronize stream = Call ''cuStreamSynchronize'' ([stream]) ([])"

definition CuStreamQuery :: "u64 \<Rightarrow> drvcall" where [call_defs]:
  "CuStreamQuery stream = Call ''cuStreamQuery'' ([stream]) ([])"

definition CuStreamWaitEvent :: "u64 \<Rightarrow> u64 \<Rightarrow> u32 \<Rightarrow> drvcall" where [call_defs]:
  "CuStreamWaitEvent stream event flags = Call ''cuStreamWaitEvent'' ([stream, event, ucast flags]) ([])"

definition CuEventCreate :: "u32 \<Rightarrow> drvcall" where [call_defs]:
  "CuEventCreate flags = Call ''cuEventCreate'' ([ucast flags]) ([])"

definition CuEventDestroy :: "u64 \<Rightarrow> drvcall" where [call_defs]:
  "CuEventDestroy event = Call ''cuEventDestroy_v2'' ([event]) ([])"

definition CuEventRecord :: "u64 \<Rightarrow> u64 \<Rightarrow> drvcall" where [call_defs]:
  "CuEventRecord event stream = Call ''cuEventRecord'' ([event, stream]) ([])"

definition CuEventQuery :: "u64 \<Rightarrow> drvcall" where [call_defs]:
  "CuEventQuery event = Call ''cuEventQuery'' ([event]) ([])"

definition CuEventSynchronize :: "u64 \<Rightarrow> drvcall" where [call_defs]:
  "CuEventSynchronize event = Call ''cuEventSynchronize'' ([event]) ([])"

definition CuEventElapsedTime :: "u64 \<Rightarrow> u64 \<Rightarrow> drvcall" where [call_defs]:
  "CuEventElapsedTime start stop = Call ''cuEventElapsedTime'' ([start, stop]) ([])"

definition CuLaunchKernel :: "u64 \<Rightarrow> u32 \<Rightarrow> u32 \<Rightarrow> u32 \<Rightarrow> u32 \<Rightarrow> u32 \<Rightarrow> u32 \<Rightarrow> u32 \<Rightarrow> u64 \<Rightarrow> u8 list list \<Rightarrow> drvcall" where [call_defs]:
  "CuLaunchKernel fn gridX gridY gridZ blockX blockY blockZ sharedMemBytes stream params = Call ''cuLaunchKernel'' ([fn, ucast gridX, ucast gridY, ucast gridZ, ucast blockX, ucast blockY, ucast blockZ, ucast sharedMemBytes, stream]) (params)"

definition CuMemAllocAsync :: "u64 \<Rightarrow> u64 \<Rightarrow> drvcall" where [call_defs]:
  "CuMemAllocAsync bytesize stream = Call ''cuMemAllocAsync'' ([bytesize, stream]) ([])"

definition CuMemFreeAsync :: "u64 \<Rightarrow> u64 \<Rightarrow> drvcall" where [call_defs]:
  "CuMemFreeAsync ptr stream = Call ''cuMemFreeAsync'' ([ptr, stream]) ([])"

definition CuOccupancyMaxActiveBlocksPerMultiprocessor :: "u64 \<Rightarrow> i32 \<Rightarrow> u64 \<Rightarrow> drvcall" where [call_defs]:
  "CuOccupancyMaxActiveBlocksPerMultiprocessor fn blockSize dynamicSMemSize = Call ''cuOccupancyMaxActiveBlocksPerMultiprocessor'' ([fn, scast blockSize, dynamicSMemSize]) ([])"

definition CuOccupancyMaxPotentialBlockSize :: "u64 \<Rightarrow> u64 \<Rightarrow> u64 \<Rightarrow> i32 \<Rightarrow> drvcall" where [call_defs]:
  "CuOccupancyMaxPotentialBlockSize fn blockSizeToDynamicSMemSize dynamicSMemSize blockSizeLimit = Call ''cuOccupancyMaxPotentialBlockSize'' ([fn, blockSizeToDynamicSMemSize, dynamicSMemSize, scast blockSizeLimit]) ([])"

definition CuStreamBeginCapture :: "u64 \<Rightarrow> u32 \<Rightarrow> drvcall" where [call_defs]:
  "CuStreamBeginCapture stream mode = Call ''cuStreamBeginCapture_v2'' ([stream, ucast mode]) ([])"

definition CuStreamEndCapture :: "u64 \<Rightarrow> drvcall" where [call_defs]:
  "CuStreamEndCapture stream = Call ''cuStreamEndCapture'' ([stream]) ([])"

definition CuGraphInstantiate :: "u64 \<Rightarrow> u64 \<Rightarrow> drvcall" where [call_defs]:
  "CuGraphInstantiate graph flags = Call ''cuGraphInstantiateWithFlags'' ([graph, flags]) ([])"

definition CuGraphLaunch :: "u64 \<Rightarrow> u64 \<Rightarrow> drvcall" where [call_defs]:
  "CuGraphLaunch execGraph stream = Call ''cuGraphLaunch'' ([execGraph, stream]) ([])"

definition CuGraphDestroy :: "u64 \<Rightarrow> drvcall" where [call_defs]:
  "CuGraphDestroy graph = Call ''cuGraphDestroy'' ([graph]) ([])"

definition CuGraphExecDestroy :: "u64 \<Rightarrow> drvcall" where [call_defs]:
  "CuGraphExecDestroy execGraph = Call ''cuGraphExecDestroy'' ([execGraph]) ([])"

definition CuGraphExecUpdate :: "u64 \<Rightarrow> u64 \<Rightarrow> drvcall" where [call_defs]:
  "CuGraphExecUpdate execGraph graph = Call ''cuGraphExecUpdate'' ([execGraph, graph]) ([])"

definition CuDeviceGetPCIBusId :: "i32 \<Rightarrow> i32 \<Rightarrow> drvcall" where [call_defs]:
  "CuDeviceGetPCIBusId len dev = Call ''cuDeviceGetPCIBusId'' ([scast len, scast dev]) ([])"

definition CuDeviceGetUuid :: "i32 \<Rightarrow> drvcall" where [call_defs]:
  "CuDeviceGetUuid dev = Call ''cuDeviceGetUuid'' ([scast dev]) ([])"

definition CuMemHostRegister :: "u64 \<Rightarrow> u64 \<Rightarrow> u32 \<Rightarrow> drvcall" where [call_defs]:
  "CuMemHostRegister p bytesize flags = Call ''cuMemHostRegister_v2'' ([p, bytesize, ucast flags]) ([])"

definition CuMemHostUnregister :: "u64 \<Rightarrow> drvcall" where [call_defs]:
  "CuMemHostUnregister p = Call ''cuMemHostUnregister'' ([p]) ([])"

definition CuMemAllocPitch :: "u64 \<Rightarrow> u64 \<Rightarrow> u32 \<Rightarrow> drvcall" where [call_defs]:
  "CuMemAllocPitch widthInBytes height elementSizeBytes = Call ''cuMemAllocPitch_v2'' ([widthInBytes, height, ucast elementSizeBytes]) ([])"

definition CuMemcpy2D :: "Memcpy2D_desc \<Rightarrow> drvcall" where [call_defs]:
  "CuMemcpy2D desc = Call ''cuMemcpy2D_v2'' (memcpy2d_args desc) (memcpy2d_bufs desc)"

definition CuMemcpy2DAsync :: "Memcpy2D_desc \<Rightarrow> u64 \<Rightarrow> drvcall" where [call_defs]:
  "CuMemcpy2DAsync desc stream = Call ''cuMemcpy2DAsync_v2'' (memcpy2d_args desc @ [stream]) (memcpy2d_bufs desc)"

definition CuMemcpy3D :: "Memcpy3D_desc \<Rightarrow> drvcall" where [call_defs]:
  "CuMemcpy3D desc = Call ''cuMemcpy3D_v2'' (memcpy3d_args desc) (memcpy3d_bufs desc)"

definition CuMemcpy3DAsync :: "Memcpy3D_desc \<Rightarrow> u64 \<Rightarrow> drvcall" where [call_defs]:
  "CuMemcpy3DAsync desc stream = Call ''cuMemcpy3DAsync_v2'' (memcpy3d_args desc @ [stream]) (memcpy3d_bufs desc)"

definition CuArrayCreate :: "CUDA_ARRAY_DESCRIPTOR \<Rightarrow> drvcall" where [call_defs]:
  "CuArrayCreate desc = Call ''cuArrayCreate_v2'' (array_args desc) ([])"

definition CuArray3DCreate :: "CUDA_ARRAY3D_DESCRIPTOR \<Rightarrow> drvcall" where [call_defs]:
  "CuArray3DCreate desc = Call ''cuArray3DCreate_v2'' (array3d_args desc) ([])"

definition CuArrayDestroy :: "u64 \<Rightarrow> drvcall" where [call_defs]:
  "CuArrayDestroy h = Call ''cuArrayDestroy'' ([h]) ([])"

definition CuTexObjectCreate :: "CUDA_RESOURCE_DESC \<Rightarrow> CUDA_TEXTURE_DESC \<Rightarrow> drvcall" where [call_defs]:
  "CuTexObjectCreate resDesc texDesc = Call ''cuTexObjectCreate'' (resource_args resDesc @ texture_args texDesc) ([])"

definition CuTexObjectDestroy :: "u64 \<Rightarrow> drvcall" where [call_defs]:
  "CuTexObjectDestroy h = Call ''cuTexObjectDestroy'' ([h]) ([])"

definition CuSurfObjectCreate :: "CUDA_RESOURCE_DESC \<Rightarrow> drvcall" where [call_defs]:
  "CuSurfObjectCreate resDesc = Call ''cuSurfObjectCreate'' (resource_args resDesc) ([])"

definition CuSurfObjectDestroy :: "u64 \<Rightarrow> drvcall" where [call_defs]:
  "CuSurfObjectDestroy h = Call ''cuSurfObjectDestroy'' ([h]) ([])"

definition CuDeviceGetDefaultMemPool :: "i32 \<Rightarrow> drvcall" where [call_defs]:
  "CuDeviceGetDefaultMemPool dev = Call ''cuDeviceGetDefaultMemPool'' ([scast dev]) ([])"

definition CuMemPoolGetAttribute :: "u64 \<Rightarrow> i32 \<Rightarrow> drvcall" where [call_defs]:
  "CuMemPoolGetAttribute pool attr = Call ''cuMemPoolGetAttribute'' ([pool, scast attr]) ([])"

definition CuMemPoolSetAttribute :: "u64 \<Rightarrow> i32 \<Rightarrow> u64 \<Rightarrow> drvcall" where [call_defs]:
  "CuMemPoolSetAttribute pool attr val = Call ''cuMemPoolSetAttribute'' ([pool, scast attr, val]) ([])"

definition CuMemAllocFromPoolAsync :: "u64 \<Rightarrow> u64 \<Rightarrow> u64 \<Rightarrow> drvcall" where [call_defs]:
  "CuMemAllocFromPoolAsync bytesize pool stream = Call ''cuMemAllocFromPoolAsync'' ([bytesize, pool, stream]) ([])"

definition CuMemAllocManaged :: "u64 \<Rightarrow> u32 \<Rightarrow> drvcall" where [call_defs]:
  "CuMemAllocManaged bytesize flags = Call ''cuMemAllocManaged'' ([bytesize, ucast flags]) ([])"

definition CuMemPrefetchAsync :: "u64 \<Rightarrow> u64 \<Rightarrow> i32 \<Rightarrow> u64 \<Rightarrow> drvcall" where [call_defs]:
  "CuMemPrefetchAsync ptr count dstDevice stream = Call ''cuMemPrefetchAsync'' ([ptr, count, scast dstDevice, stream]) ([])"

definition CuMemAdvise :: "u64 \<Rightarrow> u64 \<Rightarrow> i32 \<Rightarrow> i32 \<Rightarrow> drvcall" where [call_defs]:
  "CuMemAdvise ptr count advice dev = Call ''cuMemAdvise'' ([ptr, count, scast advice, scast dev]) ([])"

definition CuMemGetAllocationGranularity :: "CUmemAllocationProp \<Rightarrow> u32 \<Rightarrow> drvcall" where [call_defs]:
  "CuMemGetAllocationGranularity prop opt = Call ''cuMemGetAllocationGranularity'' (prop_args prop @ [ucast opt]) ([])"

definition CuMemCreate :: "u64 \<Rightarrow> CUmemAllocationProp \<Rightarrow> u64 \<Rightarrow> drvcall" where [call_defs]:
  "CuMemCreate siz prop flags = Call ''cuMemCreate'' ([siz] @ prop_args prop @ [flags]) ([])"

definition CuMemAddressReserve :: "u64 \<Rightarrow> u64 \<Rightarrow> u64 \<Rightarrow> u64 \<Rightarrow> drvcall" where [call_defs]:
  "CuMemAddressReserve siz alignment addr flags = Call ''cuMemAddressReserve'' ([siz, alignment, addr, flags]) ([])"

definition CuMemMap :: "u64 \<Rightarrow> u64 \<Rightarrow> u64 \<Rightarrow> u64 \<Rightarrow> u64 \<Rightarrow> drvcall" where [call_defs]:
  "CuMemMap ptr siz offset handle flags = Call ''cuMemMap'' ([ptr, siz, offset, handle, flags]) ([])"

definition CuMemSetAccess :: "u64 \<Rightarrow> u64 \<Rightarrow> CUmemAccessDesc \<Rightarrow> u64 \<Rightarrow> drvcall" where [call_defs]:
  "CuMemSetAccess ptr siz desc count = Call ''cuMemSetAccess'' ([ptr, siz] @ access_args desc @ [count]) ([])"

definition CuMemUnmap :: "u64 \<Rightarrow> u64 \<Rightarrow> drvcall" where [call_defs]:
  "CuMemUnmap ptr siz = Call ''cuMemUnmap'' ([ptr, siz]) ([])"

definition CuMemAddressFree :: "u64 \<Rightarrow> u64 \<Rightarrow> drvcall" where [call_defs]:
  "CuMemAddressFree ptr siz = Call ''cuMemAddressFree'' ([ptr, siz]) ([])"

definition CuMemRelease :: "u64 \<Rightarrow> drvcall" where [call_defs]:
  "CuMemRelease handle = Call ''cuMemRelease'' ([handle]) ([])"

definition CuFuncSetAttribute :: "u64 \<Rightarrow> i32 \<Rightarrow> i32 \<Rightarrow> drvcall" where [call_defs]:
  "CuFuncSetAttribute fn attrib val = Call ''cuFuncSetAttribute'' ([fn, scast attrib, scast val]) ([])"

definition CuFuncGetAttribute :: "i32 \<Rightarrow> u64 \<Rightarrow> drvcall" where [call_defs]:
  "CuFuncGetAttribute attrib fn = Call ''cuFuncGetAttribute'' ([scast attrib, fn]) ([])"

definition CuPointerGetAttribute :: "i32 \<Rightarrow> u64 \<Rightarrow> drvcall" where [call_defs]:
  "CuPointerGetAttribute attribute ptr = Call ''cuPointerGetAttribute'' ([scast attribute, ptr]) ([])"

definition CuDeviceCanAccessPeer :: "i32 \<Rightarrow> i32 \<Rightarrow> drvcall" where [call_defs]:
  "CuDeviceCanAccessPeer dev peerDev = Call ''cuDeviceCanAccessPeer'' ([scast dev, scast peerDev]) ([])"

definition CuCtxEnablePeerAccess :: "u64 \<Rightarrow> u32 \<Rightarrow> drvcall" where [call_defs]:
  "CuCtxEnablePeerAccess peerContext flags = Call ''cuCtxEnablePeerAccess'' ([peerContext, ucast flags]) ([])"

definition CuCtxDisablePeerAccess :: "u64 \<Rightarrow> drvcall" where [call_defs]:
  "CuCtxDisablePeerAccess peerContext = Call ''cuCtxDisablePeerAccess'' ([peerContext]) ([])"

definition CuMemcpyPeer :: "u64 \<Rightarrow> u64 \<Rightarrow> u64 \<Rightarrow> u64 \<Rightarrow> u64 \<Rightarrow> drvcall" where [call_defs]:
  "CuMemcpyPeer dst dstContext src srcContext count = Call ''cuMemcpyPeer'' ([dst, dstContext, src, srcContext, count]) ([])"

definition CuLaunchCooperativeKernel :: "u64 \<Rightarrow> u32 \<Rightarrow> u32 \<Rightarrow> u32 \<Rightarrow> u32 \<Rightarrow> u32 \<Rightarrow> u32 \<Rightarrow> u32 \<Rightarrow> u64 \<Rightarrow> u8 list list \<Rightarrow> drvcall" where [call_defs]:
  "CuLaunchCooperativeKernel fn gridX gridY gridZ blockX blockY blockZ sharedMemBytes stream params = Call ''cuLaunchCooperativeKernel'' ([fn, ucast gridX, ucast gridY, ucast gridZ, ucast blockX, ucast blockY, ucast blockZ, ucast sharedMemBytes, stream]) (params)"

definition CuLaunchHostFunc :: "u64 \<Rightarrow> u64 \<Rightarrow> u64 \<Rightarrow> drvcall" where [call_defs]:
  "CuLaunchHostFunc stream fn userData = Call ''cuLaunchHostFunc'' ([stream, fn, userData]) ([])"

definition CuIpcGetMemHandle :: "u64 \<Rightarrow> drvcall" where [call_defs]:
  "CuIpcGetMemHandle ptr = Call ''cuIpcGetMemHandle'' ([ptr]) ([])"

definition CuIpcOpenMemHandle :: "u8 list \<Rightarrow> u32 \<Rightarrow> drvcall" where [call_defs]:
  "CuIpcOpenMemHandle h flags = Call ''cuIpcOpenMemHandle_v2'' ([ucast flags]) ([h])"

definition CuIpcCloseMemHandle :: "u64 \<Rightarrow> drvcall" where [call_defs]:
  "CuIpcCloseMemHandle ptr = Call ''cuIpcCloseMemHandle'' ([ptr]) ([])"

definition CuIpcGetEventHandle :: "u64 \<Rightarrow> drvcall" where [call_defs]:
  "CuIpcGetEventHandle event = Call ''cuIpcGetEventHandle'' ([event]) ([])"

definition CuIpcOpenEventHandle :: "u8 list \<Rightarrow> drvcall" where [call_defs]:
  "CuIpcOpenEventHandle h = Call ''cuIpcOpenEventHandle'' ([]) ([h])"

definition CuLinkCreate :: "u32 \<Rightarrow> i32 list \<Rightarrow> u64 list \<Rightarrow> drvcall" where [call_defs]:
  "CuLinkCreate numOptions options optionValues = Call ''cuLinkCreate_v2'' ([ucast numOptions] @ map scast options @ optionValues) ([])"

definition CuLinkAddData :: "u64 \<Rightarrow> u32 \<Rightarrow> u8 list \<Rightarrow> u64 \<Rightarrow> u8 list \<Rightarrow> u32 \<Rightarrow> drvcall" where [call_defs]:
  "CuLinkAddData st inputType data siz name numOptions = Call ''cuLinkAddData_v2'' ([st, ucast inputType, siz, ucast numOptions]) ([data, name])"

definition CuLinkComplete :: "u64 \<Rightarrow> drvcall" where [call_defs]:
  "CuLinkComplete st = Call ''cuLinkComplete'' ([st]) ([])"

definition CuLinkDestroy :: "u64 \<Rightarrow> drvcall" where [call_defs]:
  "CuLinkDestroy st = Call ''cuLinkDestroy'' ([st]) ([])"

subsection \<open>The checked wrappers of \<^verbatim>\<open>cudaresult\<close>\<close>

text \<open>\<^verbatim>\<open>cudaresult/init.go\<close>\<close>

definition Init :: "'w Driver option \<Rightarrow> u32 \<Rightarrow> ('w, unit) drv" where [wrapper_defs]:
  "Init d flags = required d (CuInit flags) (\<lambda>_. ())"

text \<open>\<^verbatim>\<open>cudaresult/version.go\<close>\<close>

definition DriverVersion :: "'w Driver option \<Rightarrow> ('w, goint) drv" where [wrapper_defs]:
  "DriverVersion d = required d CuDriverGetVersion out_int"

text \<open>\<^verbatim>\<open>cudaresult/device.go\<close>\<close>

definition DeviceCount :: "'w Driver option \<Rightarrow> ('w, goint) drv" where [wrapper_defs]:
  "DeviceCount d = required d CuDeviceGetCount out_int"

definition GetDevice :: "'w Driver option \<Rightarrow> goint \<Rightarrow> ('w, i32) drv" where [wrapper_defs]:
  "GetDevice d ordinal = required d (CuDeviceGet (ucast ordinal)) out_i32"

definition DeviceName :: "'w Driver option \<Rightarrow> i32 \<Rightarrow> ('w, string) drv" where [wrapper_defs]:
  "DeviceName d dev = required d (CuDeviceGetName (of_nat deviceNameBufferLen) dev) (out_string deviceNameBufferLen)"

definition DeviceTotalMem :: "'w Driver option \<Rightarrow> i32 \<Rightarrow> ('w, u64) drv" where [wrapper_defs]:
  "DeviceTotalMem d dev = required d (CuDeviceTotalMem dev) o0"

definition DeviceAttribute :: "'w Driver option \<Rightarrow> i32 \<Rightarrow> i32 \<Rightarrow> ('w, goint) drv" where [wrapper_defs]:
  "DeviceAttribute d attr dev = required d (CuDeviceGetAttribute attr dev) out_int"

definition DevicePCIBusID :: "'w Driver option \<Rightarrow> i32 \<Rightarrow> ('w, string) drv" where [wrapper_defs]:
  "DevicePCIBusID d dev = optional d (CuDeviceGetPCIBusId (of_nat pciBusIDBufferLen) dev) (out_string pciBusIDBufferLen)"

definition DeviceUUID :: "'w Driver option \<Rightarrow> i32 \<Rightarrow> ('w, string) drv" where [wrapper_defs]:
  "DeviceUUID d dev = optional d (CuDeviceGetUuid dev) (\<lambda>r. format_uuid (out_bytes 16 r))"

text \<open>\<^verbatim>\<open>cudaresult/context.go\<close>\<close>

definition CtxGetCurrent :: "'w Driver option \<Rightarrow> ('w, u64) drv" where [wrapper_defs]:
  "CtxGetCurrent d = required d CuCtxGetCurrent o0"

definition CtxSetCurrent :: "'w Driver option \<Rightarrow> u64 \<Rightarrow> ('w, unit) drv" where [wrapper_defs]:
  "CtxSetCurrent d ctx = required d (CuCtxSetCurrent ctx) (\<lambda>_. ())"

definition CtxSynchronize :: "'w Driver option \<Rightarrow> ('w, unit) drv" where [wrapper_defs]:
  "CtxSynchronize d = required d CuCtxSynchronize (\<lambda>_. ())"

definition CtxGetStreamPriorityRange :: "'w Driver option \<Rightarrow> ('w, i32 \<times> i32) drv" where [wrapper_defs]:
  "CtxGetStreamPriorityRange d = required d CuCtxGetStreamPriorityRange (\<lambda>r. (out_i32 r, ucast (o1 r)))"

definition PrimaryCtxRetain :: "'w Driver option \<Rightarrow> i32 \<Rightarrow> ('w, u64) drv" where [wrapper_defs]:
  "PrimaryCtxRetain d dev = required d (CuDevicePrimaryCtxRetain dev) o0"

definition PrimaryCtxRelease :: "'w Driver option \<Rightarrow> i32 \<Rightarrow> ('w, unit) drv" where [wrapper_defs]:
  "PrimaryCtxRelease d dev = required d (CuDevicePrimaryCtxRelease dev) (\<lambda>_. ())"

text \<open>\<^verbatim>\<open>cudaresult/memory.go\<close>\<close>

definition MemAlloc :: "'w Driver option \<Rightarrow> u64 \<Rightarrow> ('w, u64) drv" where [wrapper_defs]:
  "MemAlloc d bytesize = required d (CuMemAlloc bytesize) o0"

definition MemFree :: "'w Driver option \<Rightarrow> u64 \<Rightarrow> ('w, unit) drv" where [wrapper_defs]:
  "MemFree d ptr = required d (CuMemFree ptr) (\<lambda>_. ())"

definition MemGetInfo :: "'w Driver option \<Rightarrow> ('w, u64 \<times> u64) drv" where [wrapper_defs]:
  "MemGetInfo d = required d CuMemGetInfo (\<lambda>r. (o0 r, o1 r))"

definition MemcpyHtoD :: "'w Driver option \<Rightarrow> u64 \<Rightarrow> hostptr \<Rightarrow> u64 \<Rightarrow> ('w, unit) drv" where [wrapper_defs]:
  "MemcpyHtoD d dst src count = required d (CuMemcpyHtoD dst src count) (\<lambda>_. ())"

definition MemcpyDtoH :: "'w Driver option \<Rightarrow> hostptr \<Rightarrow> u64 \<Rightarrow> u64 \<Rightarrow> ('w, u8 list) drv" where [wrapper_defs]:
  "MemcpyDtoH d dst src count = required d (CuMemcpyDtoH dst src count) obuf"

definition MemcpyDtoD :: "'w Driver option \<Rightarrow> u64 \<Rightarrow> u64 \<Rightarrow> u64 \<Rightarrow> ('w, unit) drv" where [wrapper_defs]:
  "MemcpyDtoD d dst src count = required d (CuMemcpyDtoD dst src count) (\<lambda>_. ())"

definition MemcpyHtoDAsync :: "'w Driver option \<Rightarrow> u64 \<Rightarrow> hostptr \<Rightarrow> u64 \<Rightarrow> u64 \<Rightarrow> ('w, unit) drv" where [wrapper_defs]:
  "MemcpyHtoDAsync d dst src count stream = required d (CuMemcpyHtoDAsync dst src count stream) (\<lambda>_. ())"

definition MemcpyDtoHAsync :: "'w Driver option \<Rightarrow> hostptr \<Rightarrow> u64 \<Rightarrow> u64 \<Rightarrow> u64 \<Rightarrow> ('w, unit) drv" where [wrapper_defs]:
  "MemcpyDtoHAsync d dst src count stream = required d (CuMemcpyDtoHAsync dst src count stream) (\<lambda>_. ())"

definition MemcpyDtoDAsync :: "'w Driver option \<Rightarrow> u64 \<Rightarrow> u64 \<Rightarrow> u64 \<Rightarrow> u64 \<Rightarrow> ('w, unit) drv" where [wrapper_defs]:
  "MemcpyDtoDAsync d dst src count stream = required d (CuMemcpyDtoDAsync dst src count stream) (\<lambda>_. ())"

definition MemsetD8 :: "'w Driver option \<Rightarrow> u64 \<Rightarrow> u8 \<Rightarrow> u64 \<Rightarrow> ('w, unit) drv" where [wrapper_defs]:
  "MemsetD8 d dst val count = required d (CuMemsetD8 dst val count) (\<lambda>_. ())"

definition MemsetD16 :: "'w Driver option \<Rightarrow> u64 \<Rightarrow> u16 \<Rightarrow> u64 \<Rightarrow> ('w, unit) drv" where [wrapper_defs]:
  "MemsetD16 d dst val count = required d (CuMemsetD16 dst val count) (\<lambda>_. ())"

definition MemsetD32 :: "'w Driver option \<Rightarrow> u64 \<Rightarrow> u32 \<Rightarrow> u64 \<Rightarrow> ('w, unit) drv" where [wrapper_defs]:
  "MemsetD32 d dst val count = required d (CuMemsetD32 dst val count) (\<lambda>_. ())"

definition MemsetD8Async :: "'w Driver option \<Rightarrow> u64 \<Rightarrow> u8 \<Rightarrow> u64 \<Rightarrow> u64 \<Rightarrow> ('w, unit) drv" where [wrapper_defs]:
  "MemsetD8Async d dst val count stream = required d (CuMemsetD8Async dst val count stream) (\<lambda>_. ())"

definition MemsetD16Async :: "'w Driver option \<Rightarrow> u64 \<Rightarrow> u16 \<Rightarrow> u64 \<Rightarrow> u64 \<Rightarrow> ('w, unit) drv" where [wrapper_defs]:
  "MemsetD16Async d dst val count stream = required d (CuMemsetD16Async dst val count stream) (\<lambda>_. ())"

definition MemsetD32Async :: "'w Driver option \<Rightarrow> u64 \<Rightarrow> u32 \<Rightarrow> u64 \<Rightarrow> u64 \<Rightarrow> ('w, unit) drv" where [wrapper_defs]:
  "MemsetD32Async d dst val count stream = required d (CuMemsetD32Async dst val count stream) (\<lambda>_. ())"

definition MemAllocHost :: "'w Driver option \<Rightarrow> u64 \<Rightarrow> ('w, u64) drv" where [wrapper_defs]:
  "MemAllocHost d bytesize = required d (CuMemAllocHost bytesize) o0"

definition MemFreeHost :: "'w Driver option \<Rightarrow> u64 \<Rightarrow> ('w, unit) drv" where [wrapper_defs]:
  "MemFreeHost d p = required d (CuMemFreeHost p) (\<lambda>_. ())"

definition MemAllocAsync :: "'w Driver option \<Rightarrow> u64 \<Rightarrow> u64 \<Rightarrow> ('w, u64) drv" where [wrapper_defs]:
  "MemAllocAsync d bytesize stream = optional d (CuMemAllocAsync bytesize stream) o0"

definition MemFreeAsync :: "'w Driver option \<Rightarrow> u64 \<Rightarrow> u64 \<Rightarrow> ('w, unit) drv" where [wrapper_defs]:
  "MemFreeAsync d ptr stream = optional d (CuMemFreeAsync ptr stream) (\<lambda>_. ())"

definition MemHostRegister :: "'w Driver option \<Rightarrow> u64 \<Rightarrow> u64 \<Rightarrow> u32 \<Rightarrow> ('w, unit) drv" where [wrapper_defs]:
  "MemHostRegister d p bytesize flags = optional d (CuMemHostRegister p bytesize flags) (\<lambda>_. ())"

definition MemHostUnregister :: "'w Driver option \<Rightarrow> u64 \<Rightarrow> ('w, unit) drv" where [wrapper_defs]:
  "MemHostUnregister d p = optional d (CuMemHostUnregister p) (\<lambda>_. ())"

text \<open>\<^verbatim>\<open>cudaresult/stream.go\<close>\<close>

definition StreamCreate :: "'w Driver option \<Rightarrow> u32 \<Rightarrow> ('w, u64) drv" where [wrapper_defs]:
  "StreamCreate d flags = required d (CuStreamCreate flags) o0"

definition StreamCreateWithPriority :: "'w Driver option \<Rightarrow> u32 \<Rightarrow> i32 \<Rightarrow> ('w, u64) drv" where [wrapper_defs]:
  "StreamCreateWithPriority d flags priority = required d (CuStreamCreateWithPriority flags priority) o0"

definition StreamDestroy :: "'w Driver option \<Rightarrow> u64 \<Rightarrow> ('w, unit) drv" where [wrapper_defs]:
  "StreamDestroy d stream = required d (CuStreamDestroy stream) (\<lambda>_. ())"

definition StreamSynchronize :: "'w Driver option \<Rightarrow> u64 \<Rightarrow> ('w, unit) drv" where [wrapper_defs]:
  "StreamSynchronize d stream = required d (CuStreamSynchronize stream) (\<lambda>_. ())"

definition StreamQuery :: "'w Driver option \<Rightarrow> u64 \<Rightarrow> ('w, unit) drv" where [wrapper_defs]:
  "StreamQuery d stream = required_nr d (CuStreamQuery stream) errStreamQueryNotReady (\<lambda>_. ())"

definition StreamWaitEvent :: "'w Driver option \<Rightarrow> u64 \<Rightarrow> u64 \<Rightarrow> u32 \<Rightarrow> ('w, unit) drv" where [wrapper_defs]:
  "StreamWaitEvent d stream event flags = required d (CuStreamWaitEvent stream event flags) (\<lambda>_. ())"

definition EventCreate :: "'w Driver option \<Rightarrow> u32 \<Rightarrow> ('w, u64) drv" where [wrapper_defs]:
  "EventCreate d flags = required d (CuEventCreate flags) o0"

definition EventDestroy :: "'w Driver option \<Rightarrow> u64 \<Rightarrow> ('w, unit) drv" where [wrapper_defs]:
  "EventDestroy d event = required d (CuEventDestroy event) (\<lambda>_. ())"

definition EventRecord :: "'w Driver option \<Rightarrow> u64 \<Rightarrow> u64 \<Rightarrow> ('w, unit) drv" where [wrapper_defs]:
  "EventRecord d event stream = required d (CuEventRecord event stream) (\<lambda>_. ())"

definition EventQuery :: "'w Driver option \<Rightarrow> u64 \<Rightarrow> ('w, unit) drv" where [wrapper_defs]:
  "EventQuery d event = required_nr d (CuEventQuery event) errEventQueryNotReady (\<lambda>_. ())"

definition EventSynchronize :: "'w Driver option \<Rightarrow> u64 \<Rightarrow> ('w, unit) drv" where [wrapper_defs]:
  "EventSynchronize d event = required d (CuEventSynchronize event) (\<lambda>_. ())"

definition EventElapsedTime :: "'w Driver option \<Rightarrow> u64 \<Rightarrow> u64 \<Rightarrow> ('w, u32) drv" where [wrapper_defs]:
  "EventElapsedTime d start stop = required_nr d (CuEventElapsedTime start stop) errEventTimeNotReady out_f32"

text \<open>\<^verbatim>\<open>cudaresult/module.go\<close>\<close>

definition ModuleLoadData :: "'w Driver option \<Rightarrow> u8 list \<Rightarrow> ('w, u64) drv" where [wrapper_defs]:
  "ModuleLoadData d img = required d (CuModuleLoadData img) o0"

definition ModuleUnload :: "'w Driver option \<Rightarrow> u64 \<Rightarrow> ('w, unit) drv" where [wrapper_defs]:
  "ModuleUnload d m = required d (CuModuleUnload m) (\<lambda>_. ())"

definition ModuleGetFunction :: "'w Driver option \<Rightarrow> u64 \<Rightarrow> u8 list \<Rightarrow> ('w, u64) drv" where [wrapper_defs]:
  "ModuleGetFunction d m name = required d (CuModuleGetFunction m name) o0"

definition ModuleGetGlobal :: "'w Driver option \<Rightarrow> u64 \<Rightarrow> u8 list \<Rightarrow> ('w, u64 \<times> u64) drv" where [wrapper_defs]:
  "ModuleGetGlobal d m name = required d (CuModuleGetGlobal m name) (\<lambda>r. (o0 r, o1 r))"

definition ModuleLoadDataEx :: "'w Driver option \<Rightarrow> u8 list \<Rightarrow> i32 list \<Rightarrow> u64 list \<Rightarrow> ('w, u64) drv" where [wrapper_defs]:
  "ModuleLoadDataEx d img options vals t w =
     (if (case d of None \<Rightarrow> True | Some D \<Rightarrow> \<not> bound D ''cuModuleLoadDataEx'')
      then (Inl ErrNotInitialized, w)
      else if length vals \<noteq> length options then (Inl ErrInvalidValue, w)
      else required d (CuModuleLoadDataEx img (of_nat (length options)) options vals) o0 t w)"

text \<open>\<^verbatim>\<open>cudaresult/launch.go\<close>\<close>

definition LaunchKernel :: "'w Driver option \<Rightarrow> u64 \<Rightarrow> u32 \<Rightarrow> u32 \<Rightarrow> u32 \<Rightarrow> u32 \<Rightarrow> u32 \<Rightarrow> u32 \<Rightarrow> u32 \<Rightarrow> u64 \<Rightarrow> u8 list list \<Rightarrow> ('w, unit) drv" where [wrapper_defs]:
  "LaunchKernel d fn gridX gridY gridZ blockX blockY blockZ sharedMemBytes stream params = required d (CuLaunchKernel fn gridX gridY gridZ blockX blockY blockZ sharedMemBytes stream params) (\<lambda>_. ())"

definition LaunchCooperativeKernel :: "'w Driver option \<Rightarrow> u64 \<Rightarrow> u32 \<Rightarrow> u32 \<Rightarrow> u32 \<Rightarrow> u32 \<Rightarrow> u32 \<Rightarrow> u32 \<Rightarrow> u32 \<Rightarrow> u64 \<Rightarrow> u8 list list \<Rightarrow> ('w, unit) drv" where [wrapper_defs]:
  "LaunchCooperativeKernel d fn gridX gridY gridZ blockX blockY blockZ sharedMemBytes stream params = optional d (CuLaunchCooperativeKernel fn gridX gridY gridZ blockX blockY blockZ sharedMemBytes stream params) (\<lambda>_. ())"

definition LaunchHostFunc :: "'w Driver option \<Rightarrow> u64 \<Rightarrow> u64 \<Rightarrow> u64 \<Rightarrow> ('w, unit) drv" where [wrapper_defs]:
  "LaunchHostFunc d stream fn userData = optional d (CuLaunchHostFunc stream fn userData) (\<lambda>_. ())"

text \<open>\<^verbatim>\<open>cudaresult/graph.go\<close>\<close>

definition StreamBeginCapture :: "'w Driver option \<Rightarrow> u64 \<Rightarrow> u32 \<Rightarrow> ('w, unit) drv" where [wrapper_defs]:
  "StreamBeginCapture d stream mode = optional d (CuStreamBeginCapture stream mode) (\<lambda>_. ())"

definition StreamEndCapture :: "'w Driver option \<Rightarrow> u64 \<Rightarrow> ('w, u64) drv" where [wrapper_defs]:
  "StreamEndCapture d stream = optional d (CuStreamEndCapture stream) o0"

definition GraphInstantiate :: "'w Driver option \<Rightarrow> u64 \<Rightarrow> u64 \<Rightarrow> ('w, u64) drv" where [wrapper_defs]:
  "GraphInstantiate d graph flags = optional d (CuGraphInstantiate graph flags) o0"

definition GraphLaunch :: "'w Driver option \<Rightarrow> u64 \<Rightarrow> u64 \<Rightarrow> ('w, unit) drv" where [wrapper_defs]:
  "GraphLaunch d execGraph stream = optional d (CuGraphLaunch execGraph stream) (\<lambda>_. ())"

definition GraphDestroy :: "'w Driver option \<Rightarrow> u64 \<Rightarrow> ('w, unit) drv" where [wrapper_defs]:
  "GraphDestroy d graph = optional d (CuGraphDestroy graph) (\<lambda>_. ())"

definition GraphExecDestroy :: "'w Driver option \<Rightarrow> u64 \<Rightarrow> ('w, unit) drv" where [wrapper_defs]:
  "GraphExecDestroy d execGraph = optional d (CuGraphExecDestroy execGraph) (\<lambda>_. ())"

definition graphExecUpdateSuccess :: i32 where "graphExecUpdateSuccess = 0"

definition GraphExecUpdate :: "'w Driver option \<Rightarrow> u64 \<Rightarrow> u64 \<Rightarrow> ('w, unit) drv" where [wrapper_defs]:
  "GraphExecUpdate d execGraph graph =
     andThen (optional d (CuGraphExecUpdate execGraph graph) out_i32)
       (\<lambda>r. if r \<noteq> graphExecUpdateSuccess then fail ErrGraphExecUpdateFailure else ret ())"

text \<open>\<^verbatim>\<open>cudaresult/occupancy.go\<close>\<close>

definition OccupancyMaxActiveBlocksPerMultiprocessor :: "'w Driver option \<Rightarrow> u64 \<Rightarrow> i32 \<Rightarrow> u64 \<Rightarrow> ('w, goint) drv" where [wrapper_defs]:
  "OccupancyMaxActiveBlocksPerMultiprocessor d fn blockSize dynamicSMemSize = optional d (CuOccupancyMaxActiveBlocksPerMultiprocessor fn blockSize dynamicSMemSize) out_int"

definition OccupancyMaxPotentialBlockSize :: "'w Driver option \<Rightarrow> u64 \<Rightarrow> u64 \<Rightarrow> i32 \<Rightarrow> ('w, goint \<times> goint) drv" where [wrapper_defs]:
  "OccupancyMaxPotentialBlockSize d fn dynamicSMemSize blockSizeLimit = optional d (CuOccupancyMaxPotentialBlockSize fn 0 dynamicSMemSize blockSizeLimit) (\<lambda>r. (out_int r, scast (ucast (o1 r) :: 32 word)))"

text \<open>\<^verbatim>\<open>cudaresult/function.go\<close>\<close>

definition FuncSetAttribute :: "'w Driver option \<Rightarrow> u64 \<Rightarrow> i32 \<Rightarrow> i32 \<Rightarrow> ('w, unit) drv" where [wrapper_defs]:
  "FuncSetAttribute d fn attrib val = optional d (CuFuncSetAttribute fn attrib val) (\<lambda>_. ())"

definition FuncGetAttribute :: "'w Driver option \<Rightarrow> u64 \<Rightarrow> i32 \<Rightarrow> ('w, goint) drv" where [wrapper_defs]:
  "FuncGetAttribute d fn attrib = optional d (CuFuncGetAttribute attrib fn) out_int"

text \<open>\<^verbatim>\<open>cudaresult/managed.go\<close>\<close>

definition MemAllocManaged :: "'w Driver option \<Rightarrow> u64 \<Rightarrow> u32 \<Rightarrow> ('w, u64) drv" where [wrapper_defs]:
  "MemAllocManaged d bytesize flags = optional d (CuMemAllocManaged bytesize flags) o0"

definition MemPrefetchAsync :: "'w Driver option \<Rightarrow> u64 \<Rightarrow> u64 \<Rightarrow> i32 \<Rightarrow> u64 \<Rightarrow> ('w, unit) drv" where [wrapper_defs]:
  "MemPrefetchAsync d ptr count dstDevice stream = optional d (CuMemPrefetchAsync ptr count dstDevice stream) (\<lambda>_. ())"

definition MemAdvise :: "'w Driver option \<Rightarrow> u64 \<Rightarrow> u64 \<Rightarrow> i32 \<Rightarrow> i32 \<Rightarrow> ('w, unit) drv" where [wrapper_defs]:
  "MemAdvise d ptr count advice dev = optional d (CuMemAdvise ptr count advice dev) (\<lambda>_. ())"

text \<open>\<^verbatim>\<open>cudaresult/mempool.go\<close>\<close>

definition DeviceGetDefaultMemPool :: "'w Driver option \<Rightarrow> i32 \<Rightarrow> ('w, u64) drv" where [wrapper_defs]:
  "DeviceGetDefaultMemPool d dev = optional d (CuDeviceGetDefaultMemPool dev) o0"

definition MemPoolGetAttributeU64 :: "'w Driver option \<Rightarrow> u64 \<Rightarrow> i32 \<Rightarrow> ('w, u64) drv" where [wrapper_defs]:
  "MemPoolGetAttributeU64 d pool attr = optional d (CuMemPoolGetAttribute pool attr) o0"

definition MemPoolSetAttributeU64 :: "'w Driver option \<Rightarrow> u64 \<Rightarrow> i32 \<Rightarrow> u64 \<Rightarrow> ('w, unit) drv" where [wrapper_defs]:
  "MemPoolSetAttributeU64 d pool attr val = optional d (CuMemPoolSetAttribute pool attr val) (\<lambda>_. ())"

definition MemAllocFromPoolAsync :: "'w Driver option \<Rightarrow> u64 \<Rightarrow> u64 \<Rightarrow> u64 \<Rightarrow> ('w, u64) drv" where [wrapper_defs]:
  "MemAllocFromPoolAsync d bytesize pool stream = optional d (CuMemAllocFromPoolAsync bytesize pool stream) o0"

text \<open>\<^verbatim>\<open>cudaresult/vmm.go\<close>\<close>

definition MemGetAllocationGranularity :: "'w Driver option \<Rightarrow> CUmemAllocationProp \<Rightarrow> u32 \<Rightarrow> ('w, u64) drv" where [wrapper_defs]:
  "MemGetAllocationGranularity d prop opt = optional d (CuMemGetAllocationGranularity prop opt) o0"

definition MemCreate :: "'w Driver option \<Rightarrow> u64 \<Rightarrow> CUmemAllocationProp \<Rightarrow> ('w, u64) drv" where [wrapper_defs]:
  "MemCreate d siz prop = optional d (CuMemCreate siz prop 0) o0"

definition MemAddressReserve :: "'w Driver option \<Rightarrow> u64 \<Rightarrow> u64 \<Rightarrow> ('w, u64) drv" where [wrapper_defs]:
  "MemAddressReserve d siz alignment = optional d (CuMemAddressReserve siz alignment 0 0) o0"

definition MemMap :: "'w Driver option \<Rightarrow> u64 \<Rightarrow> u64 \<Rightarrow> u64 \<Rightarrow> ('w, unit) drv" where [wrapper_defs]:
  "MemMap d ptr siz handle = optional d (CuMemMap ptr siz 0 handle 0) (\<lambda>_. ())"

definition MemSetAccess :: "'w Driver option \<Rightarrow> u64 \<Rightarrow> u64 \<Rightarrow> CUmemAccessDesc \<Rightarrow> ('w, unit) drv" where [wrapper_defs]:
  "MemSetAccess d ptr siz desc = optional d (CuMemSetAccess ptr siz desc 1) (\<lambda>_. ())"

definition MemUnmap :: "'w Driver option \<Rightarrow> u64 \<Rightarrow> u64 \<Rightarrow> ('w, unit) drv" where [wrapper_defs]:
  "MemUnmap d ptr siz = optional d (CuMemUnmap ptr siz) (\<lambda>_. ())"

definition MemAddressFree :: "'w Driver option \<Rightarrow> u64 \<Rightarrow> u64 \<Rightarrow> ('w, unit) drv" where [wrapper_defs]:
  "MemAddressFree d ptr siz = optional d (CuMemAddressFree ptr siz) (\<lambda>_. ())"

definition MemRelease :: "'w Driver option \<Rightarrow> u64 \<Rightarrow> ('w, unit) drv" where [wrapper_defs]:
  "MemRelease d handle = optional d (CuMemRelease handle) (\<lambda>_. ())"

text \<open>\<^verbatim>\<open>cudaresult/peer.go\<close>\<close>

definition PointerGetAttribute :: "'w Driver option \<Rightarrow> i32 \<Rightarrow> u64 \<Rightarrow> ('w, u64) drv" where [wrapper_defs]:
  "PointerGetAttribute d attribute ptr = optional d (CuPointerGetAttribute attribute ptr) o0"

definition DeviceCanAccessPeer :: "'w Driver option \<Rightarrow> i32 \<Rightarrow> i32 \<Rightarrow> ('w, bool) drv" where [wrapper_defs]:
  "DeviceCanAccessPeer d dev peerDev = optional d (CuDeviceCanAccessPeer dev peerDev) (\<lambda>r. out_i32 r \<noteq> 0)"

definition CtxEnablePeerAccess :: "'w Driver option \<Rightarrow> u64 \<Rightarrow> ('w, unit) drv" where [wrapper_defs]:
  "CtxEnablePeerAccess d peerContext = optional d (CuCtxEnablePeerAccess peerContext 0) (\<lambda>_. ())"

definition CtxDisablePeerAccess :: "'w Driver option \<Rightarrow> u64 \<Rightarrow> ('w, unit) drv" where [wrapper_defs]:
  "CtxDisablePeerAccess d peerContext = optional d (CuCtxDisablePeerAccess peerContext) (\<lambda>_. ())"

definition MemcpyPeer :: "'w Driver option \<Rightarrow> u64 \<Rightarrow> u64 \<Rightarrow> u64 \<Rightarrow> u64 \<Rightarrow> u64 \<Rightarrow> ('w, unit) drv" where [wrapper_defs]:
  "MemcpyPeer d dst dstContext src srcContext count = optional d (CuMemcpyPeer dst dstContext src srcContext count) (\<lambda>_. ())"

text \<open>\<^verbatim>\<open>cudaresult/pitch.go\<close>\<close>

definition MemAllocPitch :: "'w Driver option \<Rightarrow> u64 \<Rightarrow> u64 \<Rightarrow> u32 \<Rightarrow> ('w, u64 \<times> u64) drv" where [wrapper_defs]:
  "MemAllocPitch d widthInBytes height elementSizeBytes = optional d (CuMemAllocPitch widthInBytes height elementSizeBytes) (\<lambda>r. (o0 r, o1 r))"

definition Memcpy2D :: "'w Driver option \<Rightarrow> Memcpy2D_desc \<Rightarrow> ('w, u8 list) drv" where [wrapper_defs]:
  "Memcpy2D d desc = optional d (CuMemcpy2D desc) obuf"

definition Memcpy2DAsync :: "'w Driver option \<Rightarrow> Memcpy2D_desc \<Rightarrow> u64 \<Rightarrow> ('w, unit) drv" where [wrapper_defs]:
  "Memcpy2DAsync d desc stream = optional d (CuMemcpy2DAsync desc stream) (\<lambda>_. ())"

definition Memcpy3D :: "'w Driver option \<Rightarrow> Memcpy3D_desc \<Rightarrow> ('w, u8 list) drv" where [wrapper_defs]:
  "Memcpy3D d desc = optional d (CuMemcpy3D desc) obuf"

definition Memcpy3DAsync :: "'w Driver option \<Rightarrow> Memcpy3D_desc \<Rightarrow> u64 \<Rightarrow> ('w, unit) drv" where [wrapper_defs]:
  "Memcpy3DAsync d desc stream = optional d (CuMemcpy3DAsync desc stream) (\<lambda>_. ())"

text \<open>\<^verbatim>\<open>cudaresult/texture.go\<close>\<close>

definition ArrayCreate :: "'w Driver option \<Rightarrow> CUDA_ARRAY_DESCRIPTOR \<Rightarrow> ('w, u64) drv" where [wrapper_defs]:
  "ArrayCreate d desc = optional d (CuArrayCreate desc) o0"

definition ArrayDestroy :: "'w Driver option \<Rightarrow> u64 \<Rightarrow> ('w, unit) drv" where [wrapper_defs]:
  "ArrayDestroy d h = optional d (CuArrayDestroy h) (\<lambda>_. ())"

definition TexObjectCreate :: "'w Driver option \<Rightarrow> CUDA_RESOURCE_DESC \<Rightarrow> CUDA_TEXTURE_DESC \<Rightarrow> ('w, u64) drv" where [wrapper_defs]:
  "TexObjectCreate d resDesc texDesc = optional d (CuTexObjectCreate resDesc texDesc) o0"

definition TexObjectDestroy :: "'w Driver option \<Rightarrow> u64 \<Rightarrow> ('w, unit) drv" where [wrapper_defs]:
  "TexObjectDestroy d h = optional d (CuTexObjectDestroy h) (\<lambda>_. ())"

text \<open>\<^verbatim>\<open>cudaresult/surface.go\<close>\<close>

definition Array3DCreate :: "'w Driver option \<Rightarrow> CUDA_ARRAY3D_DESCRIPTOR \<Rightarrow> ('w, u64) drv" where [wrapper_defs]:
  "Array3DCreate d desc = optional d (CuArray3DCreate desc) o0"

definition SurfObjectCreate :: "'w Driver option \<Rightarrow> CUDA_RESOURCE_DESC \<Rightarrow> ('w, u64) drv" where [wrapper_defs]:
  "SurfObjectCreate d resDesc = optional d (CuSurfObjectCreate resDesc) o0"

definition SurfObjectDestroy :: "'w Driver option \<Rightarrow> u64 \<Rightarrow> ('w, unit) drv" where [wrapper_defs]:
  "SurfObjectDestroy d h = optional d (CuSurfObjectDestroy h) (\<lambda>_. ())"

text \<open>\<^verbatim>\<open>cudaresult/ipc.go\<close>\<close>

definition IpcGetMemHandle :: "'w Driver option \<Rightarrow> u64 \<Rightarrow> ('w, u8 list) drv" where [wrapper_defs]:
  "IpcGetMemHandle d ptr = optional d (CuIpcGetMemHandle ptr) (out_bytes 64)"

definition IpcOpenMemHandle :: "'w Driver option \<Rightarrow> u8 list \<Rightarrow> u32 \<Rightarrow> ('w, u64) drv" where [wrapper_defs]:
  "IpcOpenMemHandle d h flags = optional d (CuIpcOpenMemHandle h flags) o0"

definition IpcCloseMemHandle :: "'w Driver option \<Rightarrow> u64 \<Rightarrow> ('w, unit) drv" where [wrapper_defs]:
  "IpcCloseMemHandle d ptr = optional d (CuIpcCloseMemHandle ptr) (\<lambda>_. ())"

definition IpcGetEventHandle :: "'w Driver option \<Rightarrow> u64 \<Rightarrow> ('w, u8 list) drv" where [wrapper_defs]:
  "IpcGetEventHandle d event = optional d (CuIpcGetEventHandle event) (out_bytes 64)"

definition IpcOpenEventHandle :: "'w Driver option \<Rightarrow> u8 list \<Rightarrow> ('w, u64) drv" where [wrapper_defs]:
  "IpcOpenEventHandle d h = optional d (CuIpcOpenEventHandle h) o0"

text \<open>\<^verbatim>\<open>cudaresult/link.go\<close>\<close>

definition LinkAddData :: "'w Driver option \<Rightarrow> u64 \<Rightarrow> u32 \<Rightarrow> u8 list \<Rightarrow> u64 \<Rightarrow> u8 list \<Rightarrow> ('w, unit) drv" where [wrapper_defs]:
  "LinkAddData d st inputType data siz name = optional d (CuLinkAddData st inputType data siz name 0) (\<lambda>_. ())"

definition LinkComplete :: "'w Driver option \<Rightarrow> u64 \<Rightarrow> ('w, u8 list \<times> u64) drv" where [wrapper_defs]:
  "LinkComplete d st = optional d (CuLinkComplete st) (\<lambda>r. (obuf r, o1 r))"

definition LinkDestroy :: "'w Driver option \<Rightarrow> u64 \<Rightarrow> ('w, unit) drv" where [wrapper_defs]:
  "LinkDestroy d st = optional d (CuLinkDestroy st) (\<lambda>_. ())"

definition LinkCreate :: "'w Driver option \<Rightarrow> i32 list \<Rightarrow> u64 list \<Rightarrow> ('w, u64) drv" where [wrapper_defs]:
  "LinkCreate d options vals t w =
     (case d of None \<Rightarrow> (Inl ErrNotInitialized, w)
      | Some D \<Rightarrow> if \<not> bound D ''cuLinkCreate_v2'' then (Inl ErrSymbolUnavailable, w)
          else if length vals \<noteq> length options then (Inl ErrInvalidValue, w)
          else optional d (CuLinkCreate (of_nat (length options)) options vals) o0 t w)"

end
