(* ===== verification/SeqExec.thy ===== *)
theory SeqExec
  imports Driver
begin

section \<open>Executors as the Context uses them\<close>

text \<open>
  The executor seen by one goroutine at a time: \<^verbatim>\<open>DoJob\<close>, \<^verbatim>\<open>DoJobCtx\<close>, \<^verbatim>\<open>Close\<close> and \<^verbatim>\<open>Retire\<close> as functions on the
  executor's state and the driver's. A job a caller abandons stays in the executor's queue and
  runs, in order, before the next job of that executor; this is the FIFO order of the task channel.
  \<^verbatim>\<open>ExecOrder\<close> shows that every concurrent run of the step relation of \<^verbatim>\<open>Executor\<close> gives its callers what these
  functions give when the accepted calls are made one after the other.

  Cancellation can happen at any moment. Time is a counter of the observations of contexts: every call of
  \<^verbatim>\<open>ctx.Err()\<close> and every \<^verbatim>\<open>select\<close> on \<^verbatim>\<open>ctx.Done()\<close> advances it, and a context with a deadline is cancelled from
  that observation on. As the deadline is arbitrary, every cancellation point is covered, and a
  cancelled context stays cancelled.
\<close>

record goctx =
  deadline :: "nat option"
  cerr :: go_error

definition Background :: goctx where
  "Background = \<lparr>deadline = None, cerr = Canceled\<rparr>"

definition canceled :: "goctx \<Rightarrow> nat \<Rightarrow> bool" where
  "canceled ctx now = (case deadline ctx of None \<Rightarrow> False | Some d \<Rightarrow> d \<le> now)"

definition ctx_or_background :: "goctx option \<Rightarrow> goctx" where
  "ctx_or_background c = (case c of None \<Rightarrow> Background | Some ctx \<Rightarrow> ctx)"

lemma canceled_Background [simp]: "\<not> canceled Background n"
  by (simp add: canceled_def Background_def)

lemma canceled_mono: "canceled ctx m \<Longrightarrow> m \<le> n \<Longrightarrow> canceled ctx n"
  by (auto simp: canceled_def split: option.splits)

record 'w Executor =
  xtid :: tid
  xclosed :: bool
  xretired :: bool
  xqueue :: "(bool \<times> ('w \<Rightarrow> 'w)) list"

definition newExec :: "tid \<Rightarrow> 'w Executor" where
  "newExec t = \<lparr>xtid = t, xclosed = False, xretired = False, xqueue = []\<rparr>"

text \<open>
  What an executor call sees and changes: the executor, the clock, the driver's state, and the
  number of tracked jobs whose \<^verbatim>\<open>Recycle\<close> ran (only wait-lane jobs are tracked).
\<close>

record 'w xst =
  ex :: "'w Executor"
  clk :: nat
  wld :: 'w
  rel :: nat

definition run_queue :: "(bool \<times> ('w \<Rightarrow> 'w)) list \<Rightarrow> 'w \<Rightarrow> 'w" where
  "run_queue q w = fold (\<lambda>j w. snd j w) q w"

definition xdrain :: "'w xst \<Rightarrow> 'w xst" where
  "xdrain s = s\<lparr>ex := (ex s)\<lparr>xqueue := []\<rparr>, wld := run_queue (xqueue (ex s)) (wld s),
     rel := rel s + length (filter fst (xqueue (ex s)))\<rparr>"

text \<open>\<^verbatim>\<open>submit\<close>: the error that rejects the job, if any.\<close>

definition xsubmit :: "goctx \<Rightarrow> 'w xst \<Rightarrow> go_error option \<times> 'w xst" where
  "xsubmit ctx s =
     (if canceled ctx (clk s) then (Some (cerr ctx), s\<lparr>clk := Suc (clk s)\<rparr>)
      else if xclosed (ex s) then (Some ErrExecutorClosed, s\<lparr>clk := Suc (clk s)\<rparr>)
      else if canceled ctx (Suc (clk s)) then (Some (cerr ctx), s\<lparr>clk := clk s + 2\<rparr>)
      else (None, s\<lparr>clk := clk s + 2\<rparr>))"

text \<open>The worker runs what is queued, then the job, on its thread.\<close>

definition xwork :: "('w, 'a) drv \<Rightarrow> 'w xst \<Rightarrow> (go_error + 'a) \<times> 'w xst" where
  "xwork job s = (let s1 = xdrain s in
     case job (xtid (ex s1)) (wld s1) of (r, w) \<Rightarrow> (r, s1\<lparr>wld := w\<rparr>))"

definition DoJob :: "goctx \<Rightarrow> ('w, 'a) drv \<Rightarrow> 'w xst \<Rightarrow> (go_error + 'a) \<times> 'w xst" where
  "DoJob ctx job s = (case xsubmit ctx s of
     (Some e, s1) \<Rightarrow> (Inl e, s1)
   | (None, s1) \<Rightarrow> xwork job s1)"

definition recycled_job :: "bool \<Rightarrow> 'w xst \<Rightarrow> 'w xst" where
  "recycled_job tracked s = s\<lparr>rel := rel s + (if tracked then 1 else 0)\<rparr>"

definition xabandon :: "bool \<Rightarrow> ('w, 'a) drv \<Rightarrow> 'w xst \<Rightarrow> 'w xst" where
  "xabandon tracked job s = s\<lparr>ex := (ex s)\<lparr>xqueue := xqueue (ex s) @
     [(tracked, \<lambda>w. snd (job (xtid (ex s)) w))]\<rparr>\<rparr>"

definition DoJobCtx :: "goctx \<Rightarrow> bool \<Rightarrow> ('w, 'a) drv \<Rightarrow> 'w xst \<Rightarrow> (go_error + 'a) \<times> 'w xst" where
  "DoJobCtx ctx tracked job s = (case xsubmit ctx s of
     (Some e, s1) \<Rightarrow> (Inl e, recycled_job tracked s1)
   | (None, s1) \<Rightarrow>
       if canceled ctx (clk s1) then (Inl (cerr ctx), (xabandon tracked job s1)\<lparr>clk := Suc (clk s1)\<rparr>)
       else (case xwork job s1 of (r, s2) \<Rightarrow> (r, recycled_job tracked (s2\<lparr>clk := Suc (clk s2)\<rparr>))))"

text \<open>\<^verbatim>\<open>Do\<close>, \<^verbatim>\<open>DoCtx\<close> and \<^verbatim>\<open>DoCtxWait\<close> wrap a function, which has no \<^verbatim>\<open>Recycle\<close> method.\<close>

definition DoCtx :: "goctx \<Rightarrow> ('w, 'a) drv \<Rightarrow> 'w xst \<Rightarrow> (go_error + 'a) \<times> 'w xst" where
  "DoCtx ctx fn = DoJobCtx ctx False fn"

definition DoCtxWait :: "goctx \<Rightarrow> ('w, 'a) drv \<Rightarrow> 'w xst \<Rightarrow> (go_error + 'a) \<times> 'w xst" where
  "DoCtxWait ctx fn = DoJob ctx fn"

definition Do :: "('w, 'a) drv \<Rightarrow> 'w xst \<Rightarrow> (go_error + 'a) \<times> 'w xst" where
  "Do fn = DoCtx Background fn"

definition xRetire :: "'w Executor \<Rightarrow> 'w Executor" where
  "xRetire x = x\<lparr>xretired := True\<rparr>"

text \<open>\<^verbatim>\<open>Close\<close> runs what was accepted, then stops; it never reports an error.\<close>

definition xClose :: "'w xst \<Rightarrow> go_error option \<times> 'w xst" where
  "xClose s = (let s1 = xdrain s in (None, s1\<lparr>ex := (ex s1)\<lparr>xclosed := True\<rparr>\<rparr>))"

subsection \<open>What a call does to the executor\<close>

lemmas xops = xsubmit_def xwork_def xdrain_def DoJob_def DoJobCtx_def DoCtx_def DoCtxWait_def Do_def
  recycled_job_def xabandon_def xClose_def Let_def

lemma DoJob_frame:
  "DoJob ctx job s = (r, s') \<Longrightarrow>
     xtid (ex s') = xtid (ex s) \<and> xclosed (ex s') = xclosed (ex s) \<and> xretired (ex s') = xretired (ex s)"
  by (auto simp: xops split: if_splits prod.splits)

lemma DoJobCtx_frame:
  "DoJobCtx ctx tr job s = (r, s') \<Longrightarrow>
     xtid (ex s') = xtid (ex s) \<and> xclosed (ex s') = xclosed (ex s) \<and> xretired (ex s') = xretired (ex s)"
  by (auto simp: xops split: if_splits prod.splits)

text \<open>
  Accounting of tracked jobs: what is queued after the call plus what was recycled during it is what
  was queued before plus the job itself.
\<close>

definition queued_tracked :: "'w Executor \<Rightarrow> nat" where
  "queued_tracked x = length (filter fst (xqueue x))"

lemma DoJobCtx_tracked:
  "DoJobCtx ctx True job s = (r, s') \<Longrightarrow>
     queued_tracked (ex s') + rel s' = queued_tracked (ex s) + rel s + 1"
  by (auto simp: xops queued_tracked_def split: if_splits prod.splits)

lemma DoCtx_tracked:
  "DoCtx ctx job s = (r, s') \<Longrightarrow> queued_tracked (ex s') + rel s' = queued_tracked (ex s) + rel s"
  by (auto simp: xops queued_tracked_def split: if_splits prod.splits)

lemma DoJob_accepted_drains:
  "DoJob ctx job s = (Inr r, s') \<Longrightarrow> xqueue (ex s') = []"
  by (auto simp: xops split: if_splits prod.splits)

lemma DoCtx_ok_drains:
  "DoCtx ctx job s = (Inr r, s') \<Longrightarrow> xqueue (ex s') = []"
  by (auto simp: xops split: if_splits prod.splits)

lemma Do_open:
  assumes "\<not> xclosed (ex s)"
  shows "Do job s = (case xwork job (s\<lparr>clk := clk s + 2\<rparr>) of (r, s2) \<Rightarrow> (r, s2\<lparr>clk := Suc (clk s2)\<rparr>))"
  using assms by (simp add: Do_def DoCtx_def DoJobCtx_def xsubmit_def recycled_job_def split: prod.splits)

lemma DoCtxWait_eq: "DoCtxWait = DoJob"
  by (intro ext) (simp add: DoCtxWait_def)

end
