(* ===== verification/Context.thy ===== *)
theory Context
  imports SeqExec
begin

section \<open>Contexts\<close>

text \<open>
  \<^verbatim>\<open>cuda/context.go\<close>: a primary context with its pinned command executor, the lazily created copy
  executor, and the pool of at most \<open>maxWaitLanes\<close> wait lanes. The state of the program is the store of contexts
  (a \<^verbatim>\<open>*Context\<close> is \<^verbatim>\<open>nil\<close> or an index), the package's driver, the driver's own state, the clock
  of context observations, and the next fresh OS thread. One operation of the package is
  one function on that state. The read locks of \<^verbatim>\<open>opMu\<close> are held across an operation and the lanes' mutexes
  across a field update, so operations of one goroutine at a time are what remains; the concurrency of
  the executors themselves is the subject of \<^verbatim>\<open>Executor\<close>.
\<close>

subsection \<open>State\<close>

definition maxWaitLanes :: nat where "maxWaitLanes = 8"

record 'w waitLane =
  lexec :: "'w Executor"
  pending :: int

record Device =
  ordinal :: goint
  handle :: i32

record 'w Context =
  device :: "Device option"
  driver :: "'w Driver option"
  raw :: u64
  exec :: "'w Executor option"
  copyExec :: "'w Executor option"
  waitLanes :: "'w waitLane list"
  syncActive :: int
  commandErr :: "go_error option"
  closed :: bool

record 'w sys =
  ctxs :: "nat \<Rightarrow> 'w Context"
  nctxs :: nat
  gdriver :: "'w Driver option"
  world :: 'w
  clock :: nat
  nexttid :: tid

type_synonym ('w, 'a) op = "'w sys \<Rightarrow> (go_error + 'a) \<times> 'w sys"

definition setctx :: "nat \<Rightarrow> 'w Context \<Rightarrow> 'w sys \<Rightarrow> 'w sys" where
  "setctx c C s = s\<lparr>ctxs := (ctxs s)(c := C)\<rparr>"

lemma setctx_simps [simp]:
  "ctxs (setctx c C s) = (ctxs s)(c := C)" "world (setctx c C s) = world s"
  "clock (setctx c C s) = clock s" "nexttid (setctx c C s) = nexttid s"
  "gdriver (setctx c C s) = gdriver s" "nctxs (setctx c C s) = nctxs s"
  by (simp_all add: setctx_def)

text \<open>Running an executor operation inside the program.\<close>

definition xrun :: "('w xst \<Rightarrow> 'r \<times> 'w xst) \<Rightarrow> 'w Executor \<Rightarrow> 'w sys \<Rightarrow> 'r \<times> 'w Executor \<times> nat \<times> 'w sys" where
  "xrun f x s = (case f \<lparr>ex = x, clk = clock s, wld = world s, rel = 0\<rparr> of
     (r, st) \<Rightarrow> (r, ex st, rel st, s\<lparr>clock := clk st, world := wld st\<rparr>))"

definition ctx_Err :: "goctx \<Rightarrow> 'w sys \<Rightarrow> go_error option \<times> 'w sys" where
  "ctx_Err ctx s = ((if canceled ctx (clock s) then Some (cerr ctx) else None), s\<lparr>clock := Suc (clock s)\<rparr>)"

definition startExecutor :: "'w sys \<Rightarrow> 'w Executor \<times> 'w sys" where
  "startExecutor s = (newExec (nexttid s), s\<lparr>nexttid := Suc (nexttid s)\<rparr>)"

subsection \<open>\<^verbatim>\<open>Primary\<close>\<close>

text \<open>Go's \<^verbatim>\<open>err\<close> value of a checked call.\<close>

definition err_of :: "go_error + 'a \<Rightarrow> go_error option" where
  "err_of r = (case r of Inl e \<Rightarrow> Some e | Inr _ \<Rightarrow> None)"

definition of_err :: "go_error option \<Rightarrow> go_error + unit" where
  "of_err e = (case e of Some x \<Rightarrow> Inl x | None \<Rightarrow> Inr ())"

definition primary_job :: "'w Driver option \<Rightarrow> i32 \<Rightarrow> ('w, u64) drv" where
  "primary_job drv h t w = (case PrimaryCtxRetain drv h t w of
     (Inl e, w1) \<Rightarrow> (Inl e, w1)
   | (Inr c, w1) \<Rightarrow> (case CtxSetCurrent drv c t w1 of
       (Inl e, w2) \<Rightarrow> (case PrimaryCtxRelease drv h t w2 of
          (r, w3) \<Rightarrow> (Inl (the (errors_Join [Some e, err_of r])), w3))
     | (Inr _, w2) \<Rightarrow> (Inr c, w2)))"

definition newContext :: "Device \<Rightarrow> 'w Driver option \<Rightarrow> u64 \<Rightarrow> 'w Executor \<Rightarrow> 'w Context" where
  "newContext d drv rawc x = \<lparr>device = Some d, driver = drv, raw = rawc, exec = Some x,
     copyExec = None, waitLanes = [], syncActive = 0, commandErr = None, closed = False\<rparr>"

definition Primary :: "Device option \<Rightarrow> ('w, nat) op" where
  "Primary d s = (case gdriver s of
     None \<Rightarrow> (Inl ErrNotInitialized, s)
   | Some D \<Rightarrow> (case d of
       None \<Rightarrow> (Inl ErrNilDevice, s)
     | Some dev \<Rightarrow> (case startExecutor s of (x, s1) \<Rightarrow>
         (case xrun (Do (primary_job (Some D) (handle dev))) x s1 of
           (Inl e, x1, _, s2) \<Rightarrow> (case xrun xClose x1 s2 of (_, _, _, s3) \<Rightarrow> (Inl e, s3))
         | (Inr rawc, x1, _, s2) \<Rightarrow>
             (Inr (nctxs s2), (setctx (nctxs s2) (newContext dev (Some D) rawc x1) s2)
                \<lparr>nctxs := Suc (nctxs s2)\<rparr>)))))"

subsection \<open>Executors of a context\<close>

definition newExecutor :: "nat \<Rightarrow> ('w, 'w Executor) op" where
  "newExecutor c s = (let C = ctxs s c in case startExecutor s of (x, s1) \<Rightarrow>
     (case xrun (Do (CtxSetCurrent (driver C) (raw C))) x s1 of
       (Inl e, x1, _, s2) \<Rightarrow> (case xrun xClose (xRetire x1) s2 of (_, _, _, s3) \<Rightarrow> (Inl e, s3))
     | (Inr _, x1, _, s2) \<Rightarrow> (Inr x1, s2)))"

definition copyExecutor :: "nat \<Rightarrow> ('w, 'w Executor) op" where
  "copyExecutor c s = (case copyExec (ctxs s c) of
     Some x \<Rightarrow> (Inr x, s)
   | None \<Rightarrow> (case newExecutor c s of
       (Inl e, s1) \<Rightarrow> (Inl e, s1)
     | (Inr x, s1) \<Rightarrow> (Inr x, setctx c ((ctxs s1 c)\<lparr>copyExec := Some x\<rparr>) s1)))"

subsection \<open>Wait lanes\<close>

fun idleFrom :: "nat \<Rightarrow> 'w waitLane list \<Rightarrow> nat option" where
  "idleFrom i [] = None"
| "idleFrom i (l # ls) = (if pending l = 0 then Some i else idleFrom (Suc i) ls)"

definition idleWaitLane :: "'w waitLane list \<Rightarrow> nat option" where
  "idleWaitLane lanes = idleFrom 0 lanes"

fun leastFrom :: "nat \<Rightarrow> nat \<Rightarrow> int \<Rightarrow> 'w waitLane list \<Rightarrow> nat" where
  "leastFrom i chosen p [] = chosen"
| "leastFrom i chosen p (l # ls) =
     (if pending l < p then leastFrom (Suc i) i (pending l) ls else leastFrom (Suc i) chosen p ls)"

definition leastLoadedWaitLane :: "'w waitLane list \<Rightarrow> nat" where
  "leastLoadedWaitLane lanes = leastFrom 1 0 (pending (hd lanes)) (tl lanes)"

definition reuseWaitLane :: "'w waitLane list \<Rightarrow> nat option \<times> 'w waitLane list" where
  "reuseWaitLane lanes =
     (let lane0 = idleWaitLane lanes;
          lane = (if lane0 = None \<and> length lanes \<ge> maxWaitLanes then Some (leastLoadedWaitLane lanes)
                  else lane0)
      in case lane of
           None \<Rightarrow> (None, lanes)
         | Some i \<Rightarrow> (Some i, lanes[i := (lanes ! i)\<lparr>pending := pending (lanes ! i) + 1\<rparr>]))"

text \<open>The lane is its position in \<^verbatim>\<open>waitLanes\<close>, which only grows while the context is open.\<close>

definition acquireWaitLane :: "nat \<Rightarrow> ('w, nat) op" where
  "acquireWaitLane c s = (case reuseWaitLane (waitLanes (ctxs s c)) of
     (Some i, lanes) \<Rightarrow> (Inr i, setctx c ((ctxs s c)\<lparr>waitLanes := lanes\<rparr>) s)
   | (None, _) \<Rightarrow> (case newExecutor c s of
       (Inl e, s1) \<Rightarrow> (Inl e, s1)
     | (Inr x, s1) \<Rightarrow>
         (let C1 = ctxs s1 c in
          (Inr (length (waitLanes C1)),
           setctx c (C1\<lparr>waitLanes := waitLanes C1 @ [\<lparr>lexec = x, pending = 1\<rparr>]\<rparr>) s1))))"

text \<open>
  What \<^verbatim>\<open>trackedSyncJob.Recycle\<close> does for each tracked job of a lane: \<^verbatim>\<open>releaseWaitLane\<close>, and one less active wait.
\<close>

definition releaseWaitLane :: "nat \<Rightarrow> nat \<Rightarrow> 'w Context \<Rightarrow> 'w Context" where
  "releaseWaitLane i n C = C\<lparr>waitLanes := (waitLanes C)[i := (waitLanes C ! i)
       \<lparr>pending := pending (waitLanes C ! i) - int n\<rparr>], syncActive := syncActive C - int n\<rparr>"

text \<open>One executor call on lane \<open>i\<close>.\<close>

definition on_lane :: "nat \<Rightarrow> nat \<Rightarrow> ('w xst \<Rightarrow> (go_error + 'a) \<times> 'w xst) \<Rightarrow> ('w, 'a) op" where
  "on_lane c i f s = (case xrun f (lexec (waitLanes (ctxs s c) ! i)) s of (r, x, n, s1) \<Rightarrow>
     (let C = ctxs s1 c; C1 = C\<lparr>waitLanes := (waitLanes C)[i := (waitLanes C ! i)\<lparr>lexec := x\<rparr>]\<rparr>
      in (r, setctx c (releaseWaitLane i n C1) s1)))"

fun barrierFrom :: "nat \<Rightarrow> goctx \<Rightarrow> nat list \<Rightarrow> ('w, unit) op" where
  "barrierFrom c ctx [] s = (Inr (), s)"
| "barrierFrom c ctx (i # is) s = (case on_lane c i (DoCtx ctx (ret ())) s of
     (Inl e, s1) \<Rightarrow> (Inl e, s1)
   | (Inr _, s1) \<Rightarrow> barrierFrom c ctx is s1)"

definition syncBarrier :: "nat \<Rightarrow> goctx \<Rightarrow> ('w, unit) op" where
  "syncBarrier c ctx s = (if syncActive (ctxs s c) = 0 then (Inr (), s)
     else barrierFrom c ctx [0..<length (waitLanes (ctxs s c))] s)"

subsection \<open>Dispatching work\<close>

definition on_exec :: "nat \<Rightarrow> 'w Executor \<Rightarrow> ('w xst \<Rightarrow> (go_error + 'a) \<times> 'w xst) \<Rightarrow> ('w, 'a) op" where
  "on_exec c x f s = (case xrun f x s of (r, x1, _, s1) \<Rightarrow>
     (r, setctx c ((ctxs s1 c)\<lparr>exec := Some x1\<rparr>) s1))"

definition on_copy :: "nat \<Rightarrow> 'w Executor \<Rightarrow> ('w xst \<Rightarrow> (go_error + 'a) \<times> 'w xst) \<Rightarrow> ('w, 'a) op" where
  "on_copy c x f s = (case xrun f x s of (r, x1, _, s1) \<Rightarrow>
     (r, setctx c ((ctxs s1 c)\<lparr>copyExec := Some x1\<rparr>) s1))"

definition doJob :: "nat option \<Rightarrow> goctx option \<Rightarrow> ('w, 'a) drv \<Rightarrow> ('w, 'a) op" where
  "doJob cp ctxo job s = (case cp of
     None \<Rightarrow> (Inl ErrNilContext, s)
   | Some c \<Rightarrow> (let ctx = ctx_or_background ctxo; C = ctxs s c in
       case exec C of
         None \<Rightarrow> (Inl ErrNilContext, s)
       | Some x \<Rightarrow>
           if closed C then (Inl ErrContextClosed, s)
           else (case commandErr C of
             Some ce \<Rightarrow> (case ctx_Err ctx s of
                (Some e, s1) \<Rightarrow> (Inl e, s1)
              | (None, s1) \<Rightarrow> (Inl ce, s1))
           | None \<Rightarrow> on_exec c x (DoJob ctx job) s)))"

text \<open>\<^verbatim>\<open>doCopyJob\<close> and \<^verbatim>\<open>doCopyWait\<close> differ only in how the job is represented.\<close>

definition doCopyJob :: "nat option \<Rightarrow> goctx option \<Rightarrow> ('w, 'a) drv \<Rightarrow> ('w, 'a) op" where
  "doCopyJob cp ctxo job s = (case cp of
     None \<Rightarrow> (Inl ErrNilContext, s)
   | Some c \<Rightarrow> (let ctx = ctx_or_background ctxo; C = ctxs s c in
       case exec C of
         None \<Rightarrow> (Inl ErrNilContext, s)
       | Some x \<Rightarrow>
           if closed C then (Inl ErrContextClosed, s)
           else (case ctx_Err ctx s of
             (Some e, s1) \<Rightarrow> (Inl e, s1)
           | (None, s1) \<Rightarrow> (case commandErr C of
                Some ce \<Rightarrow> (Inl ce, s1)
              | None \<Rightarrow> (case copyExecutor c s1 of
                   (Inl e, s2) \<Rightarrow> (Inl e, s2)
                 | (Inr lane, s2) \<Rightarrow> on_copy c lane (DoJob ctx job) s2)))))"

definition doCopyWait :: "nat option \<Rightarrow> goctx option \<Rightarrow> ('w, 'a) drv \<Rightarrow> ('w, 'a) op" where
  "doCopyWait cp ctxo fn s = (case cp of
     None \<Rightarrow> (Inl ErrNilContext, s)
   | Some c \<Rightarrow> (let ctx = ctx_or_background ctxo; C = ctxs s c in
       case exec C of
         None \<Rightarrow> (Inl ErrNilContext, s)
       | Some x \<Rightarrow>
           if closed C then (Inl ErrContextClosed, s)
           else (case ctx_Err ctx s of
             (Some e, s1) \<Rightarrow> (Inl e, s1)
           | (None, s1) \<Rightarrow> (case commandErr C of
                Some ce \<Rightarrow> (Inl ce, s1)
              | None \<Rightarrow> (case copyExecutor c s1 of
                   (Inl e, s2) \<Rightarrow> (Inl e, s2)
                 | (Inr lane, s2) \<Rightarrow> on_copy c lane (DoCtxWait ctx fn) s2)))))"

definition trackWait :: "nat \<Rightarrow> 'w sys \<Rightarrow> 'w sys" where
  "trackWait c s = setctx c ((ctxs s c)\<lparr>syncActive := syncActive (ctxs s c) + 1\<rparr>) s"

definition doJobCtx :: "nat option \<Rightarrow> goctx option \<Rightarrow> ('w, 'a) drv \<Rightarrow> ('w, 'a) op" where
  "doJobCtx cp ctxo job s = (case cp of
     None \<Rightarrow> (Inl ErrNilContext, s)
   | Some c \<Rightarrow> (let ctx = ctx_or_background ctxo; C = ctxs s c in
       case exec C of
         None \<Rightarrow> (Inl ErrNilContext, s)
       | Some x \<Rightarrow>
           if closed C then (Inl ErrContextClosed, s)
           else (case ctx_Err ctx s of
             (Some e, s1) \<Rightarrow> (Inl e, s1)
           | (None, s1) \<Rightarrow> (case commandErr C of
                Some ce \<Rightarrow> (Inl ce, s1)
              | None \<Rightarrow> (case acquireWaitLane c s1 of
                   (Inl e, s2) \<Rightarrow> (Inl e, s2)
                 | (Inr lane, s2) \<Rightarrow> on_lane c lane (DoJobCtx ctx True job) (trackWait c s2))))))"

definition doWith :: "nat option \<Rightarrow> goctx option \<Rightarrow> ('w, 'a) drv \<Rightarrow> bool \<Rightarrow> bool \<Rightarrow> ('w, 'a) op" where
  "doWith cp ctxo fn waitAfterSubmit barrierBeforeSubmit s = (case cp of
     None \<Rightarrow> (Inl ErrNilContext, s)
   | Some c \<Rightarrow> (let ctx = ctx_or_background ctxo; C = ctxs s c in
       case exec C of
         None \<Rightarrow> (Inl ErrNilContext, s)
       | Some x \<Rightarrow>
           if closed C then (Inl ErrContextClosed, s)
           else (case commandErr C of
             Some ce \<Rightarrow> (case ctx_Err ctx s of
                (Some e, s1) \<Rightarrow> (Inl e, s1)
              | (None, s1) \<Rightarrow> (Inl ce, s1))
           | None \<Rightarrow>
               if waitAfterSubmit then
                 (case ctx_Err ctx s of
                    (Some e, s1) \<Rightarrow> (Inl e, s1)
                  | (None, s1) \<Rightarrow>
                     (case (if barrierBeforeSubmit then syncBarrier c ctx s1 else (Inr (), s1)) of
                        (Inl e, s2) \<Rightarrow> (Inl e, s2)
                      | (Inr _, s2) \<Rightarrow> on_exec c x (DoCtxWait ctx fn) s2))
               else on_exec c x (DoCtx ctx fn) s)))"

definition do_cmd :: "nat option \<Rightarrow> goctx option \<Rightarrow> ('w, 'a) drv \<Rightarrow> ('w, 'a) op" where
  "do_cmd c ctx fn = doWith c ctx fn False False"

definition doWait :: "nat option \<Rightarrow> goctx option \<Rightarrow> ('w, 'a) drv \<Rightarrow> ('w, 'a) op" where
  "doWait c ctx fn = doWith c ctx fn True False"

definition doBarrier :: "nat option \<Rightarrow> goctx option \<Rightarrow> ('w, 'a) drv \<Rightarrow> ('w, 'a) op" where
  "doBarrier c ctx fn = doWith c ctx fn True True"

subsection \<open>\<^verbatim>\<open>Close\<close>\<close>

definition closeExecutor :: "'w Driver option \<Rightarrow> 'w Executor \<Rightarrow> 'w sys \<Rightarrow> go_error option \<times> 'w Executor \<times> nat \<times> 'w sys" where
  "closeExecutor d x s = (case xrun (Do (CtxSetCurrent d 0)) x s of (r, x1, n1, s1) \<Rightarrow>
     (let clearErr = err_of r; x2 = (if clearErr \<noteq> None then xRetire x1 else x1) in
      case xrun xClose x2 s1 of (closeErr, x3, n2, s2) \<Rightarrow>
        (errors_Join [clearErr, closeErr], x3, n1 + n2, s2)))"

fun closeLanes :: "nat \<Rightarrow> 'w waitLane list \<Rightarrow> go_error option \<Rightarrow> 'w sys \<Rightarrow> go_error option \<times> 'w sys" where
  "closeLanes c [] err s = (err, s)"
| "closeLanes c (l # ls) err s = (case closeExecutor (driver (ctxs s c)) (lexec l) s of
     (e, _, n, s1) \<Rightarrow> (let C = ctxs s1 c in
       closeLanes c ls (errors_Join [err, e]) (setctx c (C\<lparr>syncActive := syncActive C - int n\<rparr>) s1)))"

definition closeWaitLanes :: "nat \<Rightarrow> 'w sys \<Rightarrow> go_error option \<times> 'w sys" where
  "closeWaitLanes c s = (let C = ctxs s c in
     closeLanes c (waitLanes C) None (setctx c (C\<lparr>waitLanes := []\<rparr>) s))"

definition closeCopyExecutor :: "nat \<Rightarrow> 'w sys \<Rightarrow> go_error option \<times> 'w sys" where
  "closeCopyExecutor c s = (let C = ctxs s c; s1 = setctx c (C\<lparr>copyExec := None\<rparr>) s in
     case copyExec C of
       None \<Rightarrow> (None, s1)
     | Some x \<Rightarrow> (case closeExecutor (driver C) x s1 of (e, _, _, s2) \<Rightarrow> (e, s2)))"

definition recoverCommandExecutor :: "nat \<Rightarrow> 'w sys \<Rightarrow> go_error option \<times> 'w sys" where
  "recoverCommandExecutor c s = (let C = ctxs s c in
     case commandErr C of
       None \<Rightarrow> (None, s)
     | Some _ \<Rightarrow> (case startExecutor s of (x, s1) \<Rightarrow>
         (case xrun (Do (CtxSetCurrent (driver C) (raw C))) x s1 of
           (Inl e, x1, _, s2) \<Rightarrow> (case xrun xClose (xRetire x1) s2 of (_, _, _, s3) \<Rightarrow>
              (Some e, setctx c ((ctxs s3 c)\<lparr>commandErr := Some e\<rparr>) s3))
         | (Inr _, x1, _, s2) \<Rightarrow>
              (None, setctx c ((ctxs s2 c)\<lparr>exec := Some x1, commandErr := None\<rparr>) s2))))"

text \<open>The three results of the teardown job: clearing, releasing, and restoring after a failed release.\<close>

definition close_job :: "'w Driver option \<Rightarrow> i32 \<Rightarrow> u64 \<Rightarrow>
    ('w, go_error option \<times> go_error option \<times> go_error option) drv" where
  "close_job d h rawc t w = (case CtxSetCurrent d 0 t w of (clear, w1) \<Rightarrow>
     (case PrimaryCtxRelease d h t w1 of (release, w2) \<Rightarrow>
       if err_of release \<noteq> None then
         (case CtxSetCurrent d rawc t w2 of (restore, w3) \<Rightarrow>
            (Inr (err_of clear, err_of release, err_of restore), w3))
       else (Inr (err_of clear, err_of release, None), w2)))"

definition finishClose :: "nat \<Rightarrow> go_error option \<Rightarrow> go_error option \<Rightarrow> 'w Executor \<Rightarrow>
    go_error option \<times> go_error option \<times> go_error option \<Rightarrow> ('w, unit) op" where
  "finishClose c syncErr copyErr x = (\<lambda>(clearErr, releaseErr, restoreErr) s.
     if releaseErr \<noteq> None then
       (if restoreErr \<noteq> None then
          (case xrun xClose (xRetire x) s of (_, x1, _, s1) \<Rightarrow>
            (of_err (errors_Join [syncErr, copyErr, clearErr, releaseErr, restoreErr]),
             setctx c ((ctxs s1 c)\<lparr>exec := Some x1, commandErr := restoreErr\<rparr>) s1))
        else (of_err (errors_Join [syncErr, copyErr, clearErr, releaseErr, restoreErr]),
              setctx c ((ctxs s c)\<lparr>exec := Some x\<rparr>) s))
     else
       (case xrun xClose (if clearErr \<noteq> None then xRetire x else x) s of (closeErr, x1, _, s1) \<Rightarrow>
          (of_err (errors_Join [syncErr, copyErr, clearErr, closeErr]),
           setctx c ((ctxs s1 c)\<lparr>exec := Some x1, closed := True\<rparr>) s1)))"

definition Context_Close :: "nat option \<Rightarrow> ('w, unit) op" where
  "Context_Close cp s = (case cp of
     None \<Rightarrow> (Inl ErrNilContext, s)
   | Some c \<Rightarrow> (case device (ctxs s c) of
       None \<Rightarrow> (Inl ErrNilContext, s)
     | Some dev \<Rightarrow>
         if Option.is_none (exec (ctxs s c)) then (Inl ErrNilContext, s)
         else if closed (ctxs s c) then (Inr (), s)
         else (case recoverCommandExecutor c s of
           (Some e, s1) \<Rightarrow> (Inl e, s1)
         | (None, s1) \<Rightarrow>
             (case closeWaitLanes c s1 of (syncErr, s2) \<Rightarrow>
             (case closeCopyExecutor c s2 of (copyErr, s3) \<Rightarrow>
               (let C = ctxs s3 c in
                case xrun (Do (close_job (driver C) (handle dev) (raw C))) (the (exec C)) s3 of
                  (Inl e, x1, _, s4) \<Rightarrow>
                     (of_err (errors_Join [syncErr, copyErr, Some e]),
                      setctx c ((ctxs s4 c)\<lparr>exec := Some x1\<rparr>) s4)
                | (Inr res, x1, _, s4) \<Rightarrow> finishClose c syncErr copyErr x1 res s4))))))"
subsection \<open>Queries of a context\<close>

definition Context_Device :: "nat option \<Rightarrow> 'w sys \<Rightarrow> Device option" where
  "Context_Device cp s = (case cp of None \<Rightarrow> None | Some c \<Rightarrow> device (ctxs s c))"

definition StreamPriorityRange :: "nat option \<Rightarrow> ('w, goint \<times> goint) op" where
  "StreamPriorityRange cp s = (case cp of
     None \<Rightarrow> (Inl ErrNilContext, s)
   | Some c \<Rightarrow> (case do_cmd cp None (CtxGetStreamPriorityRange (driver (ctxs s c))) s of
       (Inl e, s1) \<Rightarrow> (Inl e, s1)
     | (Inr (l, g), s1) \<Rightarrow> (Inr (scast l, scast g), s1)))"

definition MemInfo :: "nat option \<Rightarrow> ('w, u64 \<times> u64) op" where
  "MemInfo cp s = (case cp of
     None \<Rightarrow> (Inl ErrNilContext, s)
   | Some c \<Rightarrow> do_cmd cp None (MemGetInfo (driver (ctxs s c))) s)"

subsection \<open>The contract of the dispatchers\<close>

text \<open>
  Every way a component of the package reaches the driver through a context has the same contract:
  no driver call on a nil, uninitialised, closed or failed context or once the caller's context is
  cancelled, and the identity of every context is left alone.
\<close>

definition same_ctx :: "'w Context \<Rightarrow> 'w Context \<Rightarrow> bool" where
  "same_ctx C C' = (device C' = device C \<and> driver C' = driver C \<and> raw C' = raw C \<and>
     closed C' = closed C \<and> commandErr C' = commandErr C \<and> (exec C' = None \<longleftrightarrow> exec C = None))"

definition same_identity :: "'w sys \<Rightarrow> 'w sys \<Rightarrow> bool" where
  "same_identity s s' = (nctxs s' = nctxs s \<and> gdriver s' = gdriver s \<and>
     (\<forall>c. same_ctx (ctxs s c) (ctxs s' c)))"

lemma same_ctx_refl [simp]: "same_ctx C C"
  by (simp add: same_ctx_def)

lemma same_identity_setctx:
  assumes "ctxs s1 = ctxs s" "nctxs s1 = nctxs s" "gdriver s1 = gdriver s" "same_ctx (ctxs s c) C"
  shows "same_identity s (setctx c C s1)"
  using assms by (simp add: same_identity_def)

lemma same_identity_ctxs:
  "same_identity s s' \<Longrightarrow> same_ctx (ctxs s c) (ctxs s' c)"
  by (simp add: same_identity_def)

lemma same_identity_refl [simp]: "same_identity s s"
  by (simp add: same_identity_def)

lemma same_identity_trans: "same_identity s t \<Longrightarrow> same_identity t u \<Longrightarrow> same_identity s u"
  by (simp add: same_identity_def same_ctx_def)

definition usable :: "nat option \<Rightarrow> goctx option \<Rightarrow> 'w sys \<Rightarrow> bool" where
  "usable cp ctxo s = (case cp of None \<Rightarrow> False | Some c \<Rightarrow>
     exec (ctxs s c) \<noteq> None \<and> \<not> closed (ctxs s c) \<and> commandErr (ctxs s c) = None \<and>
     \<not> canceled (ctx_or_background ctxo) (clock s))"

locale dispatcher =
  fixes run :: "nat option \<Rightarrow> goctx option \<Rightarrow> ('w, 'a) drv \<Rightarrow> ('w, 'a) op"
  assumes nil_ctx: "run None ctxo job s = (Inl ErrNilContext, s)"
    and zero_ctx: "exec (ctxs s c) = None \<Longrightarrow> run (Some c) ctxo job s = (Inl ErrNilContext, s)"
    and closed_ctx: "exec (ctxs s c) \<noteq> None \<Longrightarrow> closed (ctxs s c) \<Longrightarrow>
      run (Some c) ctxo job s = (Inl ErrContextClosed, s)"
    and failed_ctx: "exec (ctxs s c) \<noteq> None \<Longrightarrow> \<not> closed (ctxs s c) \<Longrightarrow>
      commandErr (ctxs s c) = Some ce \<Longrightarrow> \<not> canceled (ctx_or_background ctxo) (clock s) \<Longrightarrow>
      \<exists>s'. run (Some c) ctxo job s = (Inl ce, s') \<and> world s' = world s"
    and canceled_ctx: "exec (ctxs s c) \<noteq> None \<Longrightarrow> \<not> closed (ctxs s c) \<Longrightarrow>
      canceled (ctx_or_background ctxo) (clock s) \<Longrightarrow>
      \<exists>s'. run (Some c) ctxo job s = (Inl (cerr (ctx_or_background ctxo)), s') \<and> world s' = world s"
    and identity: "run cp ctxo job s = (r, s') \<Longrightarrow> same_identity s s'"
begin

lemma unusable_no_call:
  assumes "\<not> usable cp ctxo s"
  shows "\<exists>e s'. run cp ctxo job s = (Inl e, s') \<and> world s' = world s"
proof (cases cp)
  case None
  then show ?thesis by (simp add: nil_ctx)
next
  case (Some c)
  show ?thesis
  proof (cases "exec (ctxs s c) = None \<or> closed (ctxs s c)")
    case True
    then show ?thesis using Some zero_ctx[of s c ctxo job] closed_ctx[of s c ctxo job] by fastforce
  next
    case False
    then show ?thesis
      using Some assms canceled_ctx[of s c ctxo job] failed_ctx[of s c _ ctxo job]
      by (cases "commandErr (ctxs s c)"; cases "canceled (ctx_or_background ctxo) (clock s)")
        (fastforce simp: usable_def)+
  qed
qed

lemma call_needs_usable:
  assumes "run cp ctxo job s = (r, s')" and "world s' \<noteq> world s"
  shows "usable cp ctxo s"
  using assms unusable_no_call[of cp ctxo s job] by auto

end

lemma xrun_frame:
  assumes "xrun f x s = (r, x', n, s')"
  shows "ctxs s' = ctxs s" "nctxs s' = nctxs s" "gdriver s' = gdriver s" "nexttid s' = nexttid s"
  using assms by (auto simp: xrun_def split: prod.splits)

lemma newExecutor_frame:
  assumes "newExecutor c s = (r, s')"
  shows "ctxs s' = ctxs s" "nctxs s' = nctxs s" "gdriver s' = gdriver s"
  using assms
  by (auto simp: newExecutor_def startExecutor_def Let_def xrun_def split: prod.splits sum.splits)

lemma newExecutor_identity: "newExecutor c s = (r, s') \<Longrightarrow> same_identity s s'"
  by (simp add: same_identity_def newExecutor_frame)

lemma copyExecutor_identity: "copyExecutor c s = (r, s') \<Longrightarrow> same_identity s s'"
  by (auto simp: copyExecutor_def same_ctx_def newExecutor_frame
      dest: newExecutor_identity
      intro!: same_identity_setctx split: option.splits sum.splits prod.splits)

lemma acquireWaitLane_identity: "acquireWaitLane c s = (r, s') \<Longrightarrow> same_identity s s'"
  by (auto simp: acquireWaitLane_def same_ctx_def newExecutor_frame Let_def
      dest: newExecutor_identity
      intro!: same_identity_setctx split: option.splits sum.splits prod.splits)

lemma on_exec_identity: "on_exec c x f s = (r, s') \<Longrightarrow> exec (ctxs s c) \<noteq> None \<Longrightarrow> same_identity s s'"
  by (auto simp: on_exec_def same_ctx_def xrun_def intro!: same_identity_setctx split: prod.splits)

lemma on_copy_identity: "on_copy c x f s = (r, s') \<Longrightarrow> same_identity s s'"
  by (auto simp: on_copy_def same_ctx_def xrun_def intro!: same_identity_setctx split: prod.splits)

lemma on_lane_identity: "on_lane c i f s = (r, s') \<Longrightarrow> same_identity s s'"
  by (auto simp: on_lane_def same_ctx_def xrun_def releaseWaitLane_def Let_def
      intro!: same_identity_setctx split: prod.splits)

lemma ctx_Err_identity: "ctx_Err ctx s = (e, s') \<Longrightarrow> same_identity s s'"
  by (auto simp: ctx_Err_def same_identity_def)

lemma trackWait_identity: "same_identity s (trackWait c s)"
  by (auto simp: trackWait_def same_ctx_def intro!: same_identity_setctx)

lemma barrierFrom_identity: "barrierFrom c ctx is s = (r, s') \<Longrightarrow> same_identity s s'"
proof (induction "is" arbitrary: s)
  case (Cons i "is")
  then show ?case
    by (auto split: prod.splits sum.splits dest: on_lane_identity intro: same_identity_trans)
qed simp

lemma syncBarrier_identity: "syncBarrier c ctx s = (r, s') \<Longrightarrow> same_identity s s'"
  by (auto simp: syncBarrier_def split: if_splits dest: barrierFrom_identity)


lemmas identity_rules = ctx_Err_identity copyExecutor_identity acquireWaitLane_identity on_exec_identity
  on_copy_identity on_lane_identity syncBarrier_identity trackWait_identity

lemma exec_kept: "same_identity s s' \<Longrightarrow> exec (ctxs s c) \<noteq> None \<Longrightarrow> exec (ctxs s' c) \<noteq> None"
  using same_identity_ctxs[of s s' c] by (simp add: same_ctx_def)

lemma doJob_identity: "doJob cp ctxo job s = (r, s') \<Longrightarrow> same_identity s s'"
  by (auto simp: doJob_def Let_def split: option.splits prod.splits if_splits
      dest: ctx_Err_identity on_exec_identity)

lemma doCopyJob_identity:
  assumes "doCopyJob cp ctxo job s = (r, s')"
  shows "same_identity s s'"
  using assms
  by (auto simp: doCopyJob_def Let_def split: option.splits prod.splits if_splits sum.splits
      dest!: ctx_Err_identity copyExecutor_identity on_copy_identity intro: same_identity_trans)

lemma doCopyWait_eq: "doCopyWait = doCopyJob"
  by (intro ext, unfold doCopyWait_def doCopyJob_def DoCtxWait_eq, rule refl)

lemma doJobCtx_identity:
  assumes "doJobCtx cp ctxo job s = (r, s')"
  shows "same_identity s s'"
  using assms
  by (auto simp: doJobCtx_def Let_def split: option.splits prod.splits if_splits sum.splits
      dest!: ctx_Err_identity acquireWaitLane_identity on_lane_identity
      intro: same_identity_trans same_identity_trans[OF same_identity_trans]
        same_identity_trans[OF _ same_identity_trans[OF trackWait_identity]])

lemma doWith_identity:
  assumes "doWith cp ctxo job wt br s = (r, s')"
  shows "same_identity s s'"
proof (cases cp)
  case (Some c)
  show ?thesis
  proof (cases "exec (ctxs s c)")
    case (Some x)
    have k: "same_identity s t \<Longrightarrow> exec (ctxs t c) \<noteq> None" for t
      using exec_kept Some by fastforce
    then show ?thesis
      using assms \<open>cp = Some c\<close> Some
      by (auto simp: doWith_def Let_def split: option.splits prod.splits if_splits sum.splits
          dest!: ctx_Err_identity syncBarrier_identity dest: on_exec_identity
          intro: same_identity_trans[OF _ on_exec_identity] same_identity_trans
            same_identity_trans[OF same_identity_trans on_exec_identity])
  qed (use assms Some in \<open>simp add: doWith_def Let_def\<close>)
qed (use assms in \<open>simp add: doWith_def\<close>)

lemmas dispatch_guards = ctx_Err_def on_exec_def on_copy_def on_lane_def xrun_def DoCtxWait_eq DoCtx_def
  DoJob_def DoJobCtx_def xsubmit_def recycled_job_def Let_def

interpretation cmd_job: dispatcher doJob
  by (unfold_locales; (erule doJob_identity | auto simp: doJob_def dispatch_guards split: option.splits))

interpretation copy_job: dispatcher doCopyJob
  by (unfold_locales; (erule doCopyJob_identity | auto simp: doCopyJob_def dispatch_guards split: option.splits))

interpretation wait_job: dispatcher doJobCtx
  by (unfold_locales; (erule doJobCtx_identity | auto simp: doJobCtx_def dispatch_guards split: option.splits))

interpretation cmd_with: dispatcher "\<lambda>c ctx fn. doWith c ctx fn wt br"
  by (unfold_locales; (erule doWith_identity | auto simp: doWith_def dispatch_guards split: option.splits))

text \<open>\<^verbatim>\<open>do\<close>, \<^verbatim>\<open>doWait\<close>, \<^verbatim>\<open>doBarrier\<close> and \<^verbatim>\<open>doCopyWait\<close> are instances of these.\<close>

lemma do_variants:
  "do_cmd = (\<lambda>c ctx fn. doWith c ctx fn False False)" "doWait = (\<lambda>c ctx fn. doWith c ctx fn True False)"
  "doBarrier = (\<lambda>c ctx fn. doWith c ctx fn True True)"
  by (intro ext; simp add: do_cmd_def doWait_def doBarrier_def)+

end
