(* ===== verification/Lanes.thy ===== *)
theory Lanes
  imports Context
begin

section \<open>The wait-lane pool\<close>

text \<open>
  Which lane a wait gets, how many lanes there can be, and that the two counters the code keeps
  (\<^verbatim>\<open>pending\<close> per lane and \<^verbatim>\<open>syncActive\<close> per context) always count exactly the waits that were accepted and
  whose \<^verbatim>\<open>Recycle\<close> has not run. From this, a teardown command submitted behind \<^verbatim>\<open>syncBarrier\<close> runs after every
  earlier abandoned wait.
\<close>

subsection \<open>Choosing a lane\<close>

lemma idleFrom_Some:
  "idleFrom i ls = Some j \<Longrightarrow> i \<le> j \<and> j - i < length ls \<and> pending (ls ! (j - i)) = 0"
proof (induction i ls rule: idleFrom.induct)
  case (2 i l ls)
  show ?case
  proof (cases "pending l = 0")
    case False
    then have *: "Suc i \<le> j \<and> j - Suc i < length ls \<and> pending (ls ! (j - Suc i)) = 0" using 2 by simp
    then have "j - i = Suc (j - Suc i)" by linarith
    with * show ?thesis by simp
  qed (use 2 in auto)
qed simp

lemma idleFrom_None: "idleFrom i ls = None \<longleftrightarrow> (\<forall>l \<in> set ls. pending l \<noteq> 0)"
  by (induction i ls rule: idleFrom.induct) auto

lemma leastFrom_least:
  assumes "chosen < i" "i = Suc (length pre) - 1" "pre \<noteq> []" "p = pending (pre ! chosen)"
    and "chosen < length pre" "\<forall>l \<in> set pre. p \<le> pending l"
  shows "leastFrom i chosen p ls < length (pre @ ls) \<and>
     (\<forall>l \<in> set (pre @ ls). pending ((pre @ ls) ! leastFrom i chosen p ls) \<le> pending l)"
  using assms
proof (induction i chosen p ls arbitrary: pre rule: leastFrom.induct)
  case (1 i chosen p)
  then show ?case by simp
next
  case (2 i chosen p l ls)
  show ?case
  proof (cases "pending l < p")
    case True
    have "leastFrom (Suc i) i (pending l) ls < length ((pre @ [l]) @ ls) \<and>
      (\<forall>la \<in> set ((pre @ [l]) @ ls). pending (((pre @ [l]) @ ls) ! leastFrom (Suc i) i (pending l) ls) \<le> pending la)"
      using 2(4-8) True by (intro 2(1)) (auto simp: nth_append)
    with True show ?thesis by simp
  next
    case False
    have "leastFrom (Suc i) chosen p ls < length ((pre @ [l]) @ ls) \<and>
      (\<forall>la \<in> set ((pre @ [l]) @ ls). pending (((pre @ [l]) @ ls) ! leastFrom (Suc i) chosen p ls) \<le> pending la)"
      using 2(3-8) False by (intro 2(2)) (auto simp: nth_append)
    with False show ?thesis by simp
  qed
qed

lemma leastLoadedWaitLane_least:
  assumes "lanes \<noteq> []"
  shows "leastLoadedWaitLane lanes < length lanes \<and>
     (\<forall>l \<in> set lanes. pending (lanes ! leastLoadedWaitLane lanes) \<le> pending l)"
proof -
  obtain l ls where "lanes = l # ls" using assms by (cases lanes) auto
  then show ?thesis
    using leastFrom_least[of 0 1 "[l]" "pending l" ls] by (simp add: leastLoadedWaitLane_def)
qed

lemma reuseWaitLane_spec:
  "case reuseWaitLane lanes of
     (None, lanes') \<Rightarrow> lanes' = lanes \<and> length lanes < maxWaitLanes \<and> (\<forall>l \<in> set lanes. pending l \<noteq> 0)
   | (Some i, lanes') \<Rightarrow> i < length lanes \<and> lanes' = lanes[i := (lanes ! i)\<lparr>pending := pending (lanes ! i) + 1\<rparr>] \<and>
       (pending (lanes ! i) = 0 \<or> maxWaitLanes \<le> length lanes \<and> (\<forall>l \<in> set lanes. pending l \<noteq> 0) \<and>
          (\<forall>l \<in> set lanes. pending (lanes ! i) \<le> pending l))"
proof (cases "idleWaitLane lanes")
  case None
  then have busy: "\<forall>l \<in> set lanes. pending l \<noteq> 0" by (simp add: idleWaitLane_def idleFrom_None)
  show ?thesis
  proof (cases "maxWaitLanes \<le> length lanes")
    case True
    then have "lanes \<noteq> []" by (auto simp: maxWaitLanes_def)
    then show ?thesis
      using None True busy leastLoadedWaitLane_least[of lanes] by (simp add: reuseWaitLane_def)
  qed (use None busy in \<open>simp add: reuseWaitLane_def\<close>)
next
  case (Some i)
  then show ?thesis using idleFrom_Some[of 0 lanes i] by (simp add: reuseWaitLane_def idleWaitLane_def)
qed


subsection \<open>The counters\<close>

lemma sum_list_update_int:
  "i < length xs \<Longrightarrow> sum_list (map f (xs[i := y])) = sum_list (map f xs) + f y - (f (xs ! i) :: int)"
  by (induction xs arbitrary: i) (auto split: nat.splits)

definition lane_ok :: "nat \<Rightarrow> 'w waitLane \<Rightarrow> bool" where
  "lane_ok k l = (pending l = int (queued_tracked (lexec l) + k) \<and> \<not> xclosed (lexec l))"

definition lanes_inv :: "'w Context \<Rightarrow> bool" where
  "lanes_inv C = (length (waitLanes C) \<le> maxWaitLanes \<and> (\<forall>l \<in> set (waitLanes C). lane_ok 0 l) \<and>
     syncActive C = sum_list (map pending (waitLanes C)))"

text \<open>Between the acquisition of a lane and the wait on it, lane \<open>i\<close> is charged \<open>k\<close> waits in advance.\<close>

definition lanes_inv_at :: "nat \<Rightarrow> nat \<Rightarrow> 'w Context \<Rightarrow> bool" where
  "lanes_inv_at i k C = (length (waitLanes C) \<le> maxWaitLanes \<and> i < length (waitLanes C) \<and>
     (\<forall>j < length (waitLanes C). lane_ok (if j = i then k else 0) (waitLanes C ! j)) \<and>
     syncActive C = sum_list (map pending (waitLanes C)))"

lemma lanes_inv_at_0: "i < length (waitLanes C) \<Longrightarrow> lanes_inv_at i 0 C = lanes_inv C"
  by (auto simp: lanes_inv_at_def lanes_inv_def all_set_conv_all_nth)

lemma newExecutor_open:
  assumes "newExecutor c s = (Inr x, s')"
  shows "\<not> xclosed x" "xqueue x = []" "xtid x = nexttid s"
  using assms
  by (auto simp: newExecutor_def startExecutor_def newExec_def xrun_def xops Let_def
      split: prod.splits sum.splits if_splits)

lemma on_lane_lanes:
  assumes inv: "lanes_inv_at i k (ctxs s c)" and run: "on_lane c i f s = (r, s')"
    and acct: "\<And>st r st'. f st = (r, st') \<Longrightarrow>
      queued_tracked (ex st') + rel st' = queued_tracked (ex st) + rel st + k \<and> xclosed (ex st') = xclosed (ex st)"
  shows "lanes_inv (ctxs s' c) \<and> length (waitLanes (ctxs s' c)) = length (waitLanes (ctxs s c)) \<and>
     (\<forall>c'. c' \<noteq> c \<longrightarrow> ctxs s' c' = ctxs s c')"
proof -
  let ?C = "ctxs s c"
  let ?l = "waitLanes ?C ! i"
  obtain st' where f: "f \<lparr>ex = lexec ?l, clk = clock s, wld = world s, rel = 0\<rparr> = (r, st')"
    and s': "s' = setctx c (releaseWaitLane i (rel st') (?C\<lparr>waitLanes := (waitLanes ?C)[i := ?l\<lparr>lexec := ex st'\<rparr>]\<rparr>))
      (s\<lparr>clock := clk st', world := wld st'\<rparr>)"
    using run by (auto simp: on_lane_def xrun_def Let_def split: prod.splits)
  have i: "i < length (waitLanes ?C)" and ok: "lane_ok k ?l" using inv by (auto simp: lanes_inv_at_def)
  let ?l' = "?l\<lparr>lexec := ex st', pending := pending ?l - int (rel st')\<rparr>"
  have new: "waitLanes (ctxs s' c) = (waitLanes ?C)[i := ?l']"
    and act: "syncActive (ctxs s' c) = syncActive ?C - int (rel st')"
    using i by (simp_all add: s' releaseWaitLane_def)
  have "lane_ok 0 ?l'"
    using acct[OF f] ok by (auto simp: lane_ok_def)
  then have "\<forall>j < length (waitLanes ?C). lane_ok 0 ((waitLanes ?C)[i := ?l'] ! j)"
    using inv by (auto simp: lanes_inv_at_def nth_list_update)
  moreover have "sum_list (map pending ((waitLanes ?C)[i := ?l'])) = syncActive ?C - int (rel st')"
    using inv i by (simp add: sum_list_update_int lanes_inv_at_def)
  ultimately show ?thesis
    using inv new act by (auto simp: lanes_inv_def lanes_inv_at_def all_set_conv_all_nth s')
qed

lemma barrierFrom_lanes:
  assumes "lanes_inv (ctxs s c)" "set is \<subseteq> {..<length (waitLanes (ctxs s c))}"
    and "barrierFrom c ctx is s = (r, s')"
  shows "lanes_inv (ctxs s' c) \<and> length (waitLanes (ctxs s' c)) = length (waitLanes (ctxs s c)) \<and>
     (\<forall>c'. c' \<noteq> c \<longrightarrow> ctxs s' c' = ctxs s c')"
  using assms
proof (induction "is" arbitrary: s)
  case (Cons i "is")
  obtain r1 s1 where l: "on_lane c i (DoCtx ctx (ret ())) s = (r1, s1)" by fastforce
  have "lanes_inv_at i 0 (ctxs s c)" using Cons(2,3) by (subst lanes_inv_at_0) auto
  note step = on_lane_lanes[OF this l]
  have acct: "queued_tracked (ex st') + rel st' = queued_tracked (ex st) + rel st + 0 \<and> xclosed (ex st') = xclosed (ex st)"
    if "DoCtx ctx (ret ()) st = (r, st')" for st st' :: "'a xst" and r :: "go_error + unit"
    using DoCtx_tracked[OF that] DoJobCtx_frame[of ctx False "ret ()" st r st'] that by (simp add: DoCtx_def)
  note s1 = step[OF acct]
  show ?case
  proof (cases r1)
    case (Inr u)
    then have "barrierFrom c ctx is s1 = (r, s')" using Cons(4) l by simp
    then show ?thesis using Cons(1)[of s1] s1 Cons(3) by simp
  qed (use Cons(4) l s1 in auto)
qed simp

lemma syncBarrier_lanes:
  assumes "lanes_inv (ctxs s c)" and "syncBarrier c ctx s = (r, s')"
  shows "lanes_inv (ctxs s' c) \<and> (\<forall>c'. c' \<noteq> c \<longrightarrow> ctxs s' c' = ctxs s c')"
  using assms barrierFrom_lanes[of s c "[0..<length (waitLanes (ctxs s c))]" ctx r s']
  by (auto simp: syncBarrier_def atLeast0LessThan split: if_splits)

lemma acquireWaitLane_lanes:
  assumes "lanes_inv (ctxs s c)" and "acquireWaitLane c s = (r, s')"
  shows "case r of Inl e \<Rightarrow> ctxs s' = ctxs s
     | Inr i \<Rightarrow> lanes_inv_at i 1 (ctxs (trackWait c s') c) \<and> (\<forall>c'. c' \<noteq> c \<longrightarrow> ctxs s' c' = ctxs s c')"
proof -
  let ?C = "ctxs s c"
  note spec = reuseWaitLane_spec[of "waitLanes ?C"]
  show ?thesis
  proof (cases "reuseWaitLane (waitLanes ?C)")
    case (Pair o1 lanes)
    show ?thesis
    proof (cases o1)
      case None
      obtain r1 s1 where n: "newExecutor c s = (r1, s1)" by fastforce
      show ?thesis
      proof (cases r1)
        case (Inr x)
        have x: "lane_ok 1 \<lparr>lexec = x, pending = 1\<rparr>"
          using newExecutor_open[OF n[unfolded Inr]] by (simp add: lane_ok_def queued_tracked_def)
        have "lanes_inv_at (length (waitLanes ?C)) 1
          (?C\<lparr>waitLanes := waitLanes ?C @ [\<lparr>lexec = x, pending = 1\<rparr>], syncActive := syncActive ?C + 1\<rparr>)"
          using assms(1) spec Pair None x
          by (auto simp: lanes_inv_at_def lanes_inv_def nth_append all_set_conv_all_nth less_Suc_eq)
        then show ?thesis
          using assms(2) Pair None n Inr newExecutor_frame[OF n]
          by (auto simp: acquireWaitLane_def Let_def trackWait_def)
      qed (use assms(2) Pair None n newExecutor_frame[OF n] in \<open>auto simp: acquireWaitLane_def\<close>)
    next
      case (Some i)
      let ?l = "waitLanes ?C ! i"
      have "lanes_inv_at i 1 (?C\<lparr>waitLanes := (waitLanes ?C)[i := ?l\<lparr>pending := pending ?l + 1\<rparr>],
          syncActive := syncActive ?C + 1\<rparr>)"
        using assms(1) spec Pair Some
        by (auto simp: lanes_inv_at_def lanes_inv_def nth_list_update all_set_conv_all_nth
            sum_list_update_int lane_ok_def)
      then show ?thesis
        using assms(2) Pair Some spec by (auto simp: acquireWaitLane_def trackWait_def)
    qed
  qed
qed

subsection \<open>Every dispatcher keeps the counters right\<close>

definition lanes_ok :: "'w sys \<Rightarrow> bool" where
  "lanes_ok s = (\<forall>c. lanes_inv (ctxs s c))"

lemma lanes_inv_upd [simp]:
  "lanes_inv (C\<lparr>exec := x\<rparr>) = lanes_inv C" "lanes_inv (C\<lparr>copyExec := y\<rparr>) = lanes_inv C"
  "lanes_inv (C\<lparr>commandErr := e\<rparr>) = lanes_inv C" "lanes_inv (C\<lparr>closed := b\<rparr>) = lanes_inv C"
  by (simp_all add: lanes_inv_def)

lemma lanes_okI:
  "lanes_ok s \<Longrightarrow> lanes_inv (ctxs s' c) \<Longrightarrow> \<forall>c'. c' \<noteq> c \<longrightarrow> ctxs s' c' = ctxs s c' \<Longrightarrow> lanes_ok s'"
  unfolding lanes_ok_def by metis

lemma lanes_ok_ctxs: "ctxs s' = ctxs s \<Longrightarrow> lanes_ok s' = lanes_ok s"
  by (simp add: lanes_ok_def)

lemma ctx_Err_lanes: "ctx_Err ctx s = (e, s') \<Longrightarrow> lanes_ok s \<Longrightarrow> lanes_ok s'"
  by (auto simp: ctx_Err_def lanes_ok_def)

lemma on_exec_lanes: "on_exec c x f s = (r, s') \<Longrightarrow> lanes_ok s \<Longrightarrow> lanes_ok s'"
  by (auto simp: on_exec_def xrun_def lanes_ok_def split: prod.splits)

lemma on_copy_lanes: "on_copy c x f s = (r, s') \<Longrightarrow> lanes_ok s \<Longrightarrow> lanes_ok s'"
  by (auto simp: on_copy_def xrun_def lanes_ok_def split: prod.splits)

lemma copyExecutor_lanes: "copyExecutor c s = (r, s') \<Longrightarrow> lanes_ok s \<Longrightarrow> lanes_ok s'"
  by (auto simp: copyExecutor_def lanes_ok_def newExecutor_frame split: option.splits prod.splits sum.splits)

lemma doJob_lanes: "doJob cp ctxo job s = (r, s') \<Longrightarrow> lanes_ok s \<Longrightarrow> lanes_ok s'"
  by (auto simp: doJob_def Let_def split: option.splits prod.splits if_splits
      dest: on_exec_lanes ctx_Err_lanes)

lemma doCopyJob_lanes: "doCopyJob cp ctxo job s = (r, s') \<Longrightarrow> lanes_ok s \<Longrightarrow> lanes_ok s'"
  by (auto simp: doCopyJob_def Let_def
      split: option.splits prod.splits if_splits sum.splits dest: on_copy_lanes copyExecutor_lanes ctx_Err_lanes)

lemma syncBarrier_lanes_ok: "syncBarrier c ctx s = (r, s') \<Longrightarrow> lanes_ok s \<Longrightarrow> lanes_ok s'"
  using syncBarrier_lanes[of s c ctx r s'] lanes_okI[of s s' c] by (simp add: lanes_ok_def)

lemma acquire_error_lanes_ok: "acquireWaitLane c s = (Inl e, s') \<Longrightarrow> lanes_ok s \<Longrightarrow> lanes_ok s'"
  using acquireWaitLane_lanes[of s c "Inl e" s'] by (simp add: lanes_ok_def)

lemma doWith_lanes: "doWith cp ctxo job wt br s = (r, s') \<Longrightarrow> lanes_ok s \<Longrightarrow> lanes_ok s'"
  by (auto simp: doWith_def Let_def split: option.splits prod.splits if_splits sum.splits
      dest!: ctx_Err_lanes syncBarrier_lanes_ok on_exec_lanes)

lemma doJobCtx_lanes:
  assumes "doJobCtx cp ctxo job s = (r, s')" and "lanes_ok s"
  shows "lanes_ok s'"
proof -
  have tracked: "queued_tracked (ex st') + rel st' = queued_tracked (ex st) + rel st + 1 \<and> xclosed (ex st') = xclosed (ex st)"
    if "DoJobCtx ctx True job st = (r, st')" for ctx st st' r
    using DoJobCtx_tracked[OF that] DoJobCtx_frame[OF that] by simp
  have "lanes_ok s'"
    if acq: "acquireWaitLane c t = (Inr lane, t1)" and ok: "lanes_ok t"
      and run: "on_lane c lane (DoJobCtx ctx True job) (trackWait c t1) = (r, s')" for c t lane t1 ctx
  proof -
    have inv: "lanes_inv_at lane 1 (ctxs (trackWait c t1) c)"
      and fr: "\<forall>c'. c' \<noteq> c \<longrightarrow> ctxs t1 c' = ctxs t c'"
      using acquireWaitLane_lanes[OF _ acq] ok by (auto simp: lanes_ok_def)
    show ?thesis
      using on_lane_lanes[OF inv run tracked] fr by (intro lanes_okI[OF ok, of _ c]) (auto simp: trackWait_def)
  qed
  then show ?thesis
    using assms
    by (auto simp: doJobCtx_def Let_def split: option.splits prod.splits if_splits sum.splits
        dest!: ctx_Err_lanes acquire_error_lanes_ok)
qed

subsection \<open>The barrier\<close>

lemma on_lane_ok_empties:
  assumes "on_lane c i (DoCtx ctx fn) s = (Inr u, s')" "i < length (waitLanes (ctxs s c))"
  shows "xqueue (lexec (waitLanes (ctxs s' c) ! i)) = [] \<and>
     (\<forall>j. j \<noteq> i \<longrightarrow> lexec (waitLanes (ctxs s' c) ! j) = lexec (waitLanes (ctxs s c) ! j))"
  using assms
  by (auto simp: on_lane_def xrun_def releaseWaitLane_def Let_def dest: DoCtx_ok_drains split: prod.splits)

lemma barrierFrom_empties:
  assumes "lanes_inv (ctxs s c)" "set is \<subseteq> {..<length (waitLanes (ctxs s c))}"
    and "barrierFrom c ctx is s = (Inr u, s')"
    and "j < length (waitLanes (ctxs s c))" "j \<in> set is \<or> xqueue (lexec (waitLanes (ctxs s c) ! j)) = []"
  shows "xqueue (lexec (waitLanes (ctxs s' c) ! j)) = []"
  using assms
proof (induction "is" arbitrary: s)
  case (Cons i "is")
  from Cons(4) obtain u1 s1 where l: "on_lane c i (DoCtx ctx (ret ())) s = (Inr u1, s1)"
    and rest: "barrierFrom c ctx is s1 = (Inr u, s')"
    by (auto split: prod.splits sum.splits)
  have one: "barrierFrom c ctx [i] s = (Inr (), s1)" using l by simp
  have inv: "lanes_inv (ctxs s1 c)" "length (waitLanes (ctxs s1 c)) = length (waitLanes (ctxs s c))"
    using barrierFrom_lanes[OF Cons(2) _ one] Cons(3) by auto
  have "j \<in> set is \<or> xqueue (lexec (waitLanes (ctxs s1 c) ! j)) = []"
    using on_lane_ok_empties[OF l] Cons(3,6) by auto
  then show ?case using Cons(1)[OF inv(1) _ rest] Cons(3,5) inv(2) by simp
qed simp

lemma lanes_inv_idle:
  assumes "lanes_inv C"
  shows "syncActive C = 0 \<longleftrightarrow> (\<forall>l \<in> set (waitLanes C). queued_tracked (lexec l) = 0)"
proof -
  have "sum_list (map pending ls) = 0 \<longleftrightarrow> (\<forall>l \<in> set ls. queued_tracked (lexec l) = 0)"
    if "\<forall>l \<in> set ls. lane_ok 0 l" for ls :: "'a waitLane list"
  proof -
    have "sum_list (map pending ls) = int (sum_list (map (\<lambda>l. queued_tracked (lexec l)) ls))"
      using that by (induction ls) (auto simp: lane_ok_def)
    then show ?thesis by (auto simp: sum_list_eq_0_iff)
  qed
  then show ?thesis using assms by (simp add: lanes_inv_def)
qed

lemma syncBarrier_drains:
  assumes inv: "lanes_inv (ctxs s c)" and run: "syncBarrier c ctx s = (Inr u, s')"
  shows "syncActive (ctxs s' c) = 0"
proof (cases "syncActive (ctxs s c) = 0")
  case False
  let ?n = "length (waitLanes (ctxs s c))"
  have b: "barrierFrom c ctx [0..<?n] s = (Inr u, s')" using run False by (simp add: syncBarrier_def)
  have inv': "lanes_inv (ctxs s' c)" "length (waitLanes (ctxs s' c)) = ?n"
    using barrierFrom_lanes[OF inv _ b] by (auto simp: atLeast0LessThan)
  have "xqueue (lexec l) = []" if "l \<in> set (waitLanes (ctxs s' c))" for l
    using that barrierFrom_empties[OF inv _ b] inv'(2) by (auto simp: in_set_conv_nth atLeast0LessThan)
  then show ?thesis using lanes_inv_idle[OF inv'(1)] by (simp add: queued_tracked_def)
qed (use run in \<open>auto simp: syncBarrier_def\<close>)

end
