(* ===== verification/Trace.thy ===== *)
theory Trace
  imports Lanes
begin

section \<open>Traced drivers and thread binding\<close>

text \<open>
  CUDA keeps the current context per OS thread, and the package relies on pinned executors to have every call of a
  context made on a thread where that context is current. To state this, any driver is wrapped so that
  it records each call with its thread and result code. The theory shows that every call
  dispatched through a context is made on a thread whose last successful \<^verbatim>\<open>cuCtxSetCurrent\<close> set that
  context, and that retains and releases of the primary context balance.
\<close>

type_synonym logent = "tid \<times> drvcall \<times> CUresult"
type_synonym 'v tw = "'v \<times> logent list"

definition traced :: "'v Driver \<Rightarrow> 'v tw Driver" where
  "traced D = \<lparr>bound = bound D, invoke = (\<lambda>c t w. case invoke D c t (fst w) of
     ((code, r), v) \<Rightarrow> ((code, r), (v, snd w @ [(t, c, code)])))\<rparr>"

abbreviation log_of :: "'v tw sys \<Rightarrow> logent list" where
  "log_of s \<equiv> snd (world s)"

text \<open>The calls that manage the current context and the primary context's reference count.\<close>

definition mgmt :: "string set" where
  "mgmt = {''cuCtxSetCurrent'', ''cuDevicePrimaryCtxRetain'', ''cuDevicePrimaryCtxRelease_v2''}"

abbreviation sym_of :: "logent \<Rightarrow> string" where
  "sym_of e \<equiv> csym (fst (snd e))"

definition sets_current :: "logent \<Rightarrow> tid \<Rightarrow> bool" where
  "sets_current e t = (fst e = t \<and> sym_of e = ''cuCtxSetCurrent'' \<and> snd (snd e) = CUDA_SUCCESS)"

text \<open>The context current on thread \<open>t\<close> after a log.\<close>

definition cur :: "logent list \<Rightarrow> tid \<Rightarrow> u64" where
  "cur l t = foldl (\<lambda>c e. if sets_current e t then hd (cargs (fst (snd e))) else c) 0 l"

lemma cur_append_other: "\<forall>e \<in> set l'. \<not> sets_current e t \<Longrightarrow> cur (l @ l') t = cur l t"
  by (induction l' rule: rev_induct) (auto simp: cur_def)

lemma cur_snoc: "cur (l @ [e]) t = (if sets_current e t then hd (cargs (fst (snd e))) else cur l t)"
  by (simp add: cur_def)

subsection \<open>Computations that only append to the log\<close>

definition appends :: "(logent \<Rightarrow> bool) \<Rightarrow> ('v tw \<Rightarrow> 'v tw) \<Rightarrow> bool" where
  "appends P f = (\<forall>w. \<exists>l. snd (f w) = snd w @ l \<and> (\<forall>e \<in> set l. P e))"

definition neutral_ent :: "tid \<Rightarrow> logent \<Rightarrow> bool" where
  "neutral_ent t e = (fst e = t \<and> sym_of e \<notin> mgmt)"

definition neutral_job :: "('v tw, 'a) drv \<Rightarrow> bool" where
  "neutral_job job = (\<forall>t. appends (neutral_ent t) (\<lambda>w. snd (job t w)))"

lemma appendsD: "appends P f \<Longrightarrow> \<exists>l. snd (f w) = snd w @ l \<and> (\<forall>e \<in> set l. P e)"
  unfolding appends_def by blast

lemma appends_id [simp]: "appends P (\<lambda>w. w)"
  by (simp add: appends_def)

lemma appends_comp: "appends P f \<Longrightarrow> appends P g \<Longrightarrow> appends P (\<lambda>w. g (f w))"
proof -
  assume f: "appends P f" and g: "appends P g"
  have "\<exists>l. snd (g (f w)) = snd w @ l \<and> (\<forall>e \<in> set l. P e)" for w
  proof -
    obtain l1 where "snd (f w) = snd w @ l1" "\<forall>e \<in> set l1. P e" using appendsD[OF f] by blast
    moreover obtain l2 where "snd (g (f w)) = snd (f w) @ l2" "\<forall>e \<in> set l2. P e" using appendsD[OF g] by blast
    ultimately show ?thesis by (intro exI[of _ "l1 @ l2"]) auto
  qed
  then show ?thesis unfolding appends_def by blast
qed

lemma appends_queue: "(\<forall>j \<in> set q. appends P (snd j)) \<Longrightarrow> appends P (run_queue q)"
proof (induction q)
  case (Cons j q)
  have "run_queue (j # q) = (\<lambda>w. run_queue q (snd j w))" by (intro ext) (simp add: run_queue_def)
  then show ?case using Cons appends_comp[of P "snd j" "run_queue q"] by simp
qed (simp add: run_queue_def appends_def)

lemma neutral_not_current: "neutral_ent t e \<Longrightarrow> \<not> sets_current e t'"
  by (auto simp: neutral_ent_def sets_current_def mgmt_def)

subsection \<open>The wrappers are neutral\<close>

lemma checked_call_traced:
  "checked_call (traced D) c chk f t w =
     (let ((code, r), v) = invoke D c t (fst w) in
      (case chk code of Some e \<Rightarrow> Inl e | None \<Rightarrow> Inr (f r), (v, snd w @ [(t, c, code)])))"
  by (auto simp: checked_call_def traced_def split: prod.splits)

lemma neutral_guarded:
  assumes "csym c \<notin> mgmt" "d = None \<or> d = Some (traced D)"
  shows "neutral_job (required d c f)" "neutral_job (optional d c f)" "neutral_job (required_nr d c e f)"
  using assms
  by (auto simp: neutral_job_def appends_def neutral_ent_def required_def optional_def required_nr_def
      checked_call_traced Let_def split: prod.splits)

lemma neutral_ret [simp]: "neutral_job (ret x)" "neutral_job (fail e)"
  by (simp_all add: neutral_job_def ret_def fail_def)

lemma neutral_andThen:
  assumes "neutral_job m" "\<And>x. neutral_job (k x)"
  shows "neutral_job (andThen m k)"
  unfolding neutral_job_def appends_def
proof (intro allI)
  fix t and w :: "'a tw"
  obtain l where l: "snd (snd (m t w)) = snd w @ l" "\<forall>e \<in> set l. neutral_ent t e"
    using assms(1) unfolding neutral_job_def appends_def by blast
  show "\<exists>l. snd (snd (andThen m k t w)) = snd w @ l \<and> (\<forall>e \<in> set l. neutral_ent t e)"
  proof (cases "fst (m t w)")
    case (Inr x)
    obtain l2 where "snd (snd (k x t (snd (m t w)))) = snd (snd (m t w)) @ l2" "\<forall>e \<in> set l2. neutral_ent t e"
      using assms(2)[of x] unfolding neutral_job_def appends_def by blast
    then show ?thesis using l Inr
      by (intro exI[of _ "l @ l2"]) (auto simp: andThen_def split: prod.splits sum.splits)
  qed (use l in \<open>auto simp: andThen_def split: prod.splits sum.splits\<close>)
qed

lemma CtxSetCurrent_traced:
  assumes "CtxSetCurrent (Some (traced D)) r t w = (res, w')"
  shows "(\<exists>code. snd w' = snd w @ [(t, CuCtxSetCurrent r, code)] \<and> (res = Inr () \<longleftrightarrow> code = CUDA_SUCCESS)) \<or>
     w' = w \<and> res = Inl ErrNotInitialized"
  using assms
  by (auto simp: CtxSetCurrent_def required_def checked_call_traced Let_def check_def
      split: prod.splits if_splits option.splits)


subsection \<open>Executor calls with neutral jobs\<close>

definition queue_neutral :: "'v tw Executor \<Rightarrow> bool" where
  "queue_neutral x = (\<forall>j \<in> set (xqueue x). appends (neutral_ent (xtid x)) (snd j))"

definition neutral_run :: "('v tw xst \<Rightarrow> 'r \<times> 'v tw xst) \<Rightarrow> bool" where
  "neutral_run f = (\<forall>st r st'. queue_neutral (ex st) \<longrightarrow> f st = (r, st') \<longrightarrow>
     (\<exists>l. snd (wld st') = snd (wld st) @ l \<and> (\<forall>e \<in> set l. neutral_ent (xtid (ex st)) e)) \<and>
     xtid (ex st') = xtid (ex st) \<and> xclosed (ex st') = xclosed (ex st) \<and> queue_neutral (ex st'))"

lemma queue_neutral_empty [simp]: "xqueue x = [] \<Longrightarrow> queue_neutral x"
  by (simp add: queue_neutral_def)

lemma xdrain_log:
  assumes "queue_neutral (ex st)"
  shows "\<exists>l. snd (wld (xdrain st)) = snd (wld st) @ l \<and> (\<forall>e \<in> set l. neutral_ent (xtid (ex st)) e)"
  using appendsD[OF appends_queue] assms by (simp add: queue_neutral_def xdrain_def)

lemma xwork_neutral:
  assumes "neutral_job job" "queue_neutral (ex st)" "xwork job st = (r, st')"
  shows "(\<exists>l. snd (wld st') = snd (wld st) @ l \<and> (\<forall>e \<in> set l. neutral_ent (xtid (ex st)) e)) \<and>
     ex st' = (ex st)\<lparr>xqueue := []\<rparr> \<and> queue_neutral (ex st')"
proof -
  obtain l1 where l1: "snd (wld (xdrain st)) = snd (wld st) @ l1" "\<forall>e \<in> set l1. neutral_ent (xtid (ex st)) e"
    using xdrain_log[OF assms(2)] by blast
  obtain l2 where l2: "snd (snd (job (xtid (ex st)) (wld (xdrain st)))) = snd (wld (xdrain st)) @ l2"
    "\<forall>e \<in> set l2. neutral_ent (xtid (ex st)) e"
    using assms(1) unfolding neutral_job_def appends_def by blast
  have st': "st' = (xdrain st)\<lparr>wld := snd (job (xtid (ex st)) (wld (xdrain st)))\<rparr>"
    using assms(3) by (auto simp: xwork_def xdrain_def split: prod.splits)
  then show ?thesis
    using l1 l2 by (intro conjI exI[of _ "l1 @ l2"]) (auto simp: xdrain_def queue_neutral_def)
qed

lemma xsubmit_frame:
  "xsubmit ctx st = (e, st') \<Longrightarrow> ex st' = ex st \<and> wld st' = wld st \<and> rel st' = rel st"
  by (auto simp: xsubmit_def split: if_splits)

lemma neutral_DoJob:
  assumes "neutral_job job"
  shows "neutral_run (DoJob ctx job)"
  unfolding neutral_run_def
proof (intro allI impI)
  fix st r st' assume q: "queue_neutral (ex st)" and d: "DoJob ctx job st = (r, st')"
  obtain e s1 where s1: "xsubmit ctx st = (e, s1)" by fastforce
  note fr = xsubmit_frame[OF s1]
  show "(\<exists>l. snd (wld st') = snd (wld st) @ l \<and> (\<forall>e \<in> set l. neutral_ent (xtid (ex st)) e)) \<and>
     xtid (ex st') = xtid (ex st) \<and> xclosed (ex st') = xclosed (ex st) \<and> queue_neutral (ex st')"
  proof (cases e)
    case None
    then have "xwork job s1 = (r, st')" using d s1 by (simp add: DoJob_def)
    then show ?thesis using xwork_neutral[OF assms, of s1] fr q by simp
  qed (use d s1 fr q in \<open>auto simp: DoJob_def\<close>)
qed

lemma neutral_DoJobCtx:
  assumes "neutral_job job"
  shows "neutral_run (DoJobCtx ctx tr job)"
  unfolding neutral_run_def
proof (intro allI impI)
  fix st r st' assume q: "queue_neutral (ex st)" and d: "DoJobCtx ctx tr job st = (r, st')"
  obtain e s1 where s1: "xsubmit ctx st = (e, s1)" by fastforce
  obtain r2 s2 where s2: "xwork job s1 = (r2, s2)" by fastforce
  note fr = xsubmit_frame[OF s1] and wk = xwork_neutral[OF assms _ s2]
  have "queue_neutral (ex (xabandon tr job s1))"
    using q fr assms by (auto simp: xabandon_def queue_neutral_def neutral_job_def)
  then show "(\<exists>l. snd (wld st') = snd (wld st) @ l \<and> (\<forall>e \<in> set l. neutral_ent (xtid (ex st)) e)) \<and>
     xtid (ex st') = xtid (ex st) \<and> xclosed (ex st') = xclosed (ex st) \<and> queue_neutral (ex st')"
    using d s1 s2 fr wk q
    by (auto simp: DoJobCtx_def recycled_job_def xabandon_def split: option.splits if_splits)
qed

lemma neutral_variants:
  assumes "neutral_job job"
  shows "neutral_run (DoCtxWait ctx job)" "neutral_run (DoCtx ctx job)"
  using neutral_DoJob[OF assms] neutral_DoJobCtx[OF assms, of ctx False]
  by (simp_all add: DoCtxWait_eq DoCtx_def)

lemma xrun_neutral:
  assumes "neutral_run f" "queue_neutral x" "xrun f x s = (r, x', n, s')"
  shows "(\<exists>l. log_of s' = log_of s @ l \<and> (\<forall>e \<in> set l. neutral_ent (xtid x) e)) \<and>
     xtid x' = xtid x \<and> xclosed x' = xclosed x \<and> queue_neutral x'"
proof -
  obtain st' where "f \<lparr>ex = x, clk = clock s, wld = world s, rel = 0\<rparr> = (r, st')"
    and "x' = ex st'" "world s' = wld st'"
    using assms(3) by (auto simp: xrun_def split: prod.splits)
  then show ?thesis
    using assms(1)[unfolded neutral_run_def, rule_format, of "\<lparr>ex = x, clk = clock s, wld = world s, rel = 0\<rparr>"]
      assms(2) by simp
qed

subsection \<open>The binding invariant\<close>

datatype role = Cmd | Copy | Lane nat

fun exec_at :: "'w Context \<Rightarrow> role \<Rightarrow> 'w Executor option" where
  "exec_at C Cmd = (if closed C \<or> commandErr C \<noteq> None then None else exec C)"
| "exec_at C Copy = copyExec C"
| "exec_at C (Lane i) = (if i < length (waitLanes C) then Some (lexec (waitLanes C ! i)) else None)"

definition exec_bound :: "'v tw sys \<Rightarrow> u64 \<Rightarrow> 'v tw Executor \<Rightarrow> bool" where
  "exec_bound s rw x = (xtid x < nexttid s \<and> \<not> xclosed x \<and> cur (log_of s) (xtid x) = rw \<and> queue_neutral x)"

definition bound_inv :: "'v Driver \<Rightarrow> 'v tw sys \<Rightarrow> bool" where
  "bound_inv D s = ((gdriver s = None \<or> gdriver s = Some (traced D)) \<and>
     (\<forall>c < nctxs s. driver (ctxs s c) = Some (traced D) \<and>
        (\<forall>r x. exec_at (ctxs s c) r = Some x \<longrightarrow> exec_bound s (raw (ctxs s c)) x)) \<and>
     (\<forall>c r x c' r' x'. c < nctxs s \<longrightarrow> c' < nctxs s \<longrightarrow> exec_at (ctxs s c) r = Some x \<longrightarrow>
        exec_at (ctxs s c') r' = Some x' \<longrightarrow> xtid x = xtid x' \<longrightarrow> c = c' \<and> r = r'))"

lemma bound_inv_exec:
  "bound_inv D s \<Longrightarrow> c < nctxs s \<Longrightarrow> exec_at (ctxs s c) r = Some x \<Longrightarrow> exec_bound s (raw (ctxs s c)) x"
  unfolding bound_inv_def by blast

lemma bound_inv_driver: "bound_inv D s \<Longrightarrow> c < nctxs s \<Longrightarrow> driver (ctxs s c) = Some (traced D)"
  unfolding bound_inv_def by blast

text \<open>Every call of \<open>l\<close> that is not context management was made with \<open>rw\<close> current on its thread.\<close>

definition well_bound :: "u64 \<Rightarrow> logent list \<Rightarrow> logent list \<Rightarrow> bool" where
  "well_bound rw l0 l = (\<forall>l1 e l2. l = l1 @ e # l2 \<longrightarrow> sym_of e \<notin> mgmt \<longrightarrow> cur (l0 @ l1) (fst e) = rw)"

lemma well_boundD: "well_bound rw l0 (l1 @ e # l2) \<Longrightarrow> sym_of e \<notin> mgmt \<Longrightarrow> cur (l0 @ l1) (fst e) = rw"
  unfolding well_bound_def by blast

lemma well_bound_Nil [simp]: "well_bound rw l0 []"
  by (simp add: well_bound_def)

lemma well_bound_neutral:
  assumes "cur l0 t = rw" "\<forall>e \<in> set l. neutral_ent t e"
  shows "well_bound rw l0 l"
  unfolding well_bound_def
proof (intro allI impI)
  fix l1 e l2 assume l: "l = l1 @ e # l2"
  then have "fst e = t" "\<forall>e \<in> set l1. \<not> sets_current e t"
    using assms(2) neutral_not_current by (auto simp: neutral_ent_def)
  then show "cur (l0 @ l1) (fst e) = rw" using assms(1) by (simp add: cur_append_other)
qed

lemma well_bound_mgmt: "\<forall>e \<in> set l. sym_of e \<in> mgmt \<Longrightarrow> well_bound rw l0 l"
  by (simp add: well_bound_def)

lemma well_bound_append:
  assumes "well_bound rw l0 l1" "well_bound rw (l0 @ l1) l2"
  shows "well_bound rw l0 (l1 @ l2)"
  unfolding well_bound_def
proof (intro allI impI)
  fix a e b assume eq: "l1 @ l2 = a @ e # b" and n: "sym_of e \<notin> mgmt"
  then consider us where "l1 = a @ e # us" | us where "a = l1 @ us" "l2 = us @ e # b"
    by (auto simp: append_eq_append_conv2 append_eq_Cons_conv)
  then show "cur (l0 @ a) (fst e) = rw"
    using well_boundD[OF _ n, of rw l0 a] well_boundD[OF _ n, of rw "l0 @ l1"] assms by cases auto
qed

text \<open>One step of context \<open>c\<close>: the invariant holds after it, and its calls were well bound.\<close>

definition bound_step :: "'v Driver \<Rightarrow> nat \<Rightarrow> 'v tw sys \<Rightarrow> 'v tw sys \<Rightarrow> bool" where
  "bound_step D c s s' = (bound_inv D s' \<and> same_identity s s' \<and>
     (\<exists>l. log_of s' = log_of s @ l \<and> well_bound (raw (ctxs s c)) (log_of s) l))"

lemma bound_step_trans:
  assumes "bound_step D c s t" "bound_step D c t u"
  shows "bound_step D c s u"
proof -
  have rw: "raw (ctxs t c) = raw (ctxs s c)"
    using assms(1) same_identity_ctxs[of s t c] by (simp add: bound_step_def same_ctx_def)
  obtain l1 where l1: "log_of t = log_of s @ l1" "well_bound (raw (ctxs s c)) (log_of s) l1"
    using assms(1) by (auto simp: bound_step_def)
  obtain l2 where l2: "log_of u = log_of t @ l2" "well_bound (raw (ctxs t c)) (log_of t) l2"
    using assms(2) by (auto simp: bound_step_def)
  have "well_bound (raw (ctxs s c)) (log_of s) (l1 @ l2)"
    using well_bound_append l1 l2 rw by simp
  then show ?thesis
    using assms l1(1) l2(1) same_identity_trans unfolding bound_step_def by auto
qed

text \<open>An executor of the context ran neutral jobs; nothing else changed.\<close>

lemma bound_step_run:
  assumes inv: "bound_inv D s" and c: "c < nctxs s" and at: "exec_at (ctxs s c) r = Some x"
    and id: "same_identity s s'" and log: "log_of s' = log_of s @ l" "\<forall>e \<in> set l. neutral_ent (xtid x) e"
    and x': "xtid x' = xtid x" "xclosed x' = xclosed x" "queue_neutral x'" and nt: "nexttid s' = nexttid s"
    and ats: "\<And>c' r'. exec_at (ctxs s' c') r' = (if c' = c \<and> r' = r then Some x' else exec_at (ctxs s c') r')"
  shows "bound_step D c s s'"
proof -
  have ctx: "driver (ctxs s' c') = driver (ctxs s c')" "raw (ctxs s' c') = raw (ctxs s c')" for c'
    using same_identity_ctxs[OF id, of c'] by (simp_all add: same_ctx_def)
  have n: "nctxs s' = nctxs s" "gdriver s' = gdriver s" using id by (simp_all add: same_identity_def)
  have cur: "cur (log_of s') t = cur (log_of s) t" for t
  proof -
    have "\<forall>e \<in> set l. \<not> sets_current e t" using log(2) neutral_not_current by blast
    then show ?thesis by (simp add: log(1) cur_append_other)
  qed
  have xb: "exec_bound s (raw (ctxs s c)) x" using inv c at by (simp add: bound_inv_def)
  have "exec_bound s' (raw (ctxs s' c')) y" if "exec_at (ctxs s' c') r' = Some y" "c' < nctxs s" for c' r' y
  proof (cases "c' = c \<and> r' = r")
    case True
    then show ?thesis using that ats xb x' nt cur ctx by (simp add: exec_bound_def)
  next
    case False
    then have "exec_at (ctxs s c') r' = Some y" using that ats[of c' r'] by (auto split: if_splits)
    then have "exec_bound s (raw (ctxs s c')) y" using inv that(2) by (simp add: bound_inv_def)
    then show ?thesis using nt cur ctx by (simp add: exec_bound_def)
  qed
  moreover have "c1 = c2 \<and> r1 = r2" if at1: "exec_at (ctxs s' c1) r1 = Some y1" and at2: "exec_at (ctxs s' c2) r2 = Some y2"
    and lt: "c1 < nctxs s" "c2 < nctxs s" and "xtid y1 = xtid y2" for c1 c2 r1 r2 y1 y2
  proof -
    obtain z1 where z1: "exec_at (ctxs s c1) r1 = Some z1" "xtid z1 = xtid y1"
      using at1 ats[of c1 r1] at x'(1) by (auto split: if_splits)
    obtain z2 where z2: "exec_at (ctxs s c2) r2 = Some z2" "xtid z2 = xtid y2"
      using at2 ats[of c2 r2] at x'(1) by (auto split: if_splits)
    show ?thesis using inv lt z1 z2 \<open>xtid y1 = xtid y2\<close> unfolding bound_inv_def by metis
  qed
  ultimately have "bound_inv D s'"
    using inv n ctx unfolding bound_inv_def by simp
  moreover have "well_bound (raw (ctxs s c)) (log_of s) l"
    using well_bound_neutral log(2) xb by (auto simp: exec_bound_def)
  ultimately show ?thesis using id log(1) unfolding bound_step_def by blast
qed


subsection \<open>New executors are bound before they are used\<close>

lemma Do_setcurrent:
  assumes "xrun (Do (CtxSetCurrent (Some (traced D)) rw)) (newExec t) s = (r, x, n, s')"
  shows "(\<exists>l. log_of s' = log_of s @ l \<and> (\<forall>e \<in> set l. fst e = t \<and> sym_of e = ''cuCtxSetCurrent'')) \<and>
     x = newExec t \<and> n = 0 \<and> nexttid s' = nexttid s \<and> ctxs s' = ctxs s \<and>
     (r = Inr () \<longrightarrow> cur (log_of s') t = rw)"
proof -
  obtain res w' where w: "CtxSetCurrent (Some (traced D)) rw t (world s) = (res, w')" by (metis surj_pair)
  have eq: "r = res" "world s' = w'" "x = newExec t" "n = 0" "nexttid s' = nexttid s" "ctxs s' = ctxs s"
    using assms w by (auto simp: xrun_def xops newExec_def run_queue_def Let_def split: prod.splits)
  show ?thesis
    using CtxSetCurrent_traced[OF w] eq
    by (auto simp: cur_snoc sets_current_def CuCtxSetCurrent_def)
qed

lemma newExecutor_log:
  assumes "newExecutor c s = (r, s')" "driver (ctxs s c) = Some (traced D)"
  shows "\<exists>l. log_of s' = log_of s @ l \<and> (\<forall>e \<in> set l. fst e = nexttid s \<and> sym_of e = ''cuCtxSetCurrent'') \<and>
     nexttid s' = Suc (nexttid s) \<and>
     (case r of Inl e \<Rightarrow> True | Inr x \<Rightarrow> x = newExec (nexttid s) \<and> cur (log_of s') (nexttid s) = raw (ctxs s c))"
proof -
  let ?s1 = "s\<lparr>nexttid := Suc (nexttid s)\<rparr>"
  obtain r1 x1 n1 s2 where d: "xrun (Do (CtxSetCurrent (Some (traced D)) (raw (ctxs s c)))) (newExec (nexttid s)) ?s1 = (r1, x1, n1, s2)"
    by (metis surj_pair)
  note f = Do_setcurrent[OF d]
  show ?thesis
  proof (cases r1)
    case (Inl e)
    then have "r = Inl e" "world s' = world s2" "nexttid s' = nexttid s2"
      using assms d f
      by (auto simp: newExecutor_def startExecutor_def Let_def xrun_def xClose_def xdrain_def xRetire_def
          newExec_def run_queue_def split: prod.splits)
    then show ?thesis using f by auto
  next
    case (Inr u)
    then have "r = Inr x1" "s' = s2"
      using assms d by (auto simp: newExecutor_def startExecutor_def Let_def)
    then show ?thesis using f Inr by auto
  qed
qed

text \<open>
  A fresh thread ran only \<^verbatim>\<open>cuCtxSetCurrent\<close>; the executors of all contexts are the old ones, and possibly one on the fresh thread, with the
  context current there.
\<close>

lemma bound_step_fresh:
  assumes inv: "bound_inv D s" and c: "c < nctxs s" and id: "same_identity s s'"
    and log: "log_of s' = log_of s @ l" "\<forall>e \<in> set l. fst e = nexttid s \<and> sym_of e = ''cuCtxSetCurrent''"
    and nt: "nexttid s' = Suc (nexttid s)"
    and ats: "\<And>c' r' y. exec_at (ctxs s' c') r' = Some y \<Longrightarrow> exec_at (ctxs s c') r' = Some y \<or>
      c' = c \<and> r' = r \<and> y = newExec (nexttid s) \<and> cur (log_of s') (nexttid s) = raw (ctxs s c)"
  shows "bound_step D c s s'"
proof -
  have ctx: "driver (ctxs s' c') = driver (ctxs s c')" "raw (ctxs s' c') = raw (ctxs s c')" for c'
    using same_identity_ctxs[OF id, of c'] by (simp_all add: same_ctx_def)
  have n: "nctxs s' = nctxs s" "gdriver s' = gdriver s" using id by (simp_all add: same_identity_def)
  have cur: "cur (log_of s') t = cur (log_of s) t" if "t < nexttid s" for t
    unfolding log(1) by (rule cur_append_other) (use log(2) that in \<open>auto simp: sets_current_def\<close>)
  have old: "exec_bound s (raw (ctxs s c')) y" if "exec_at (ctxs s c') r' = Some y" "c' < nctxs s" for c' r' y
    using inv that by (simp add: bound_inv_def)
  have "exec_bound s' (raw (ctxs s' c')) y" if "exec_at (ctxs s' c') r' = Some y" "c' < nctxs s" for c' r' y
    using ats[OF that(1)] old[of c' r' y] that(2) cur nt ctx
    by (auto simp: exec_bound_def newExec_def)
  moreover have "c1 = c2 \<and> r1 = r2" if at1: "exec_at (ctxs s' c1) r1 = Some y1" and at2: "exec_at (ctxs s' c2) r2 = Some y2"
    and lt: "c1 < nctxs s" "c2 < nctxs s" and eq: "xtid y1 = xtid y2" for c1 c2 r1 r2 y1 y2
  proof -
    have fresh: "xtid y \<noteq> nexttid s" if "exec_at (ctxs s c') r' = Some y" "c' < nctxs s" for c' r' y
      using old[OF that] by (auto simp: exec_bound_def)
    have "exec_at (ctxs s c1) r1 = Some y1 \<and> exec_at (ctxs s c2) r2 = Some y2 \<or> c1 = c2 \<and> r1 = r2"
      using ats[OF at1] ats[OF at2] fresh[of c1 r1 y1] fresh[of c2 r2 y2] lt eq
      by (auto simp: newExec_def)
    then show ?thesis using inv lt eq unfolding bound_inv_def by metis
  qed
  ultimately have "bound_inv D s'"
    using inv n ctx unfolding bound_inv_def by simp
  moreover have "well_bound (raw (ctxs s c)) (log_of s) l"
    using log(2) by (intro well_bound_mgmt) (simp add: mgmt_def)
  ultimately show ?thesis using id log(1) unfolding bound_step_def by blast
qed


subsection \<open>Dispatching keeps the binding\<close>

lemma ctx_Err_step:
  assumes "bound_inv D s" "ctx_Err ctx s = (e, s')"
  shows "bound_step D c s s'"
proof -
  have "bound_inv D s'" "log_of s' = log_of s"
    using assms by (auto simp: ctx_Err_def bound_inv_def exec_bound_def)
  then show ?thesis using ctx_Err_identity[OF assms(2)] by (auto simp: bound_step_def)
qed

lemma on_exec_step:
  assumes inv: "bound_inv D s" and c: "c < nctxs s" and at: "exec_at (ctxs s c) Cmd = Some x"
    and f: "neutral_run f" and run: "on_exec c x f s = (r, s')"
  shows "bound_step D c s s'"
proof -
  obtain x1 n s1 where x1: "xrun f x s = (r, x1, n, s1)" and s': "s' = setctx c ((ctxs s1 c)\<lparr>exec := Some x1\<rparr>) s1"
    using run by (auto simp: on_exec_def split: prod.splits)
  have q: "queue_neutral x" using bound_inv_exec[OF inv c at] by (simp add: exec_bound_def)
  obtain l where l: "log_of s1 = log_of s @ l" "\<forall>e \<in> set l. neutral_ent (xtid x) e"
    and x: "xtid x1 = xtid x" "xclosed x1 = xclosed x" "queue_neutral x1"
    using xrun_neutral[OF f q x1] by blast
  have "exec (ctxs s c) \<noteq> None" using at by (auto split: if_splits)
  then have id: "same_identity s s'" using on_exec_identity[OF run] by simp
  have "exec_at (ctxs s' c') r' = (if c' = c \<and> r' = Cmd then Some x1 else exec_at (ctxs s c') r')" for c' r'
    using at by (cases r') (auto simp: s' xrun_frame[OF x1] split: if_splits)
  then show ?thesis
    by (intro bound_step_run[OF inv c at id _ l(2) x]) (simp_all add: s' l xrun_frame[OF x1])
qed

lemma on_copy_step:
  assumes inv: "bound_inv D s" and c: "c < nctxs s" and at: "exec_at (ctxs s c) Copy = Some x"
    and f: "neutral_run f" and run: "on_copy c x f s = (r, s')"
  shows "bound_step D c s s'"
proof -
  obtain x1 n s1 where x1: "xrun f x s = (r, x1, n, s1)" and s': "s' = setctx c ((ctxs s1 c)\<lparr>copyExec := Some x1\<rparr>) s1"
    using run by (auto simp: on_copy_def split: prod.splits)
  have q: "queue_neutral x" using bound_inv_exec[OF inv c at] by (simp add: exec_bound_def)
  obtain l where l: "log_of s1 = log_of s @ l" "\<forall>e \<in> set l. neutral_ent (xtid x) e"
    and x: "xtid x1 = xtid x" "xclosed x1 = xclosed x" "queue_neutral x1"
    using xrun_neutral[OF f q x1] by blast
  have "exec_at (ctxs s' c') r' = (if c' = c \<and> r' = Copy then Some x1 else exec_at (ctxs s c') r')" for c' r'
    using at by (cases r') (auto simp: s' xrun_frame[OF x1])
  then show ?thesis
    by (intro bound_step_run[OF inv c at on_copy_identity[OF run] _ l(2) x]) (simp_all add: s' l xrun_frame[OF x1])
qed

lemma on_lane_step:
  assumes inv: "bound_inv D s" and c: "c < nctxs s" and i: "i < length (waitLanes (ctxs s c))"
    and f: "neutral_run f" and run: "on_lane c i f s = (r, s')"
  shows "bound_step D c s s' \<and> length (waitLanes (ctxs s' c)) = length (waitLanes (ctxs s c))"
proof -
  let ?x = "lexec (waitLanes (ctxs s c) ! i)"
  have at: "exec_at (ctxs s c) (Lane i) = Some ?x" using i by simp
  obtain x1 n s1 where x1: "xrun f ?x s = (r, x1, n, s1)"
    and s': "s' = setctx c (releaseWaitLane i n ((ctxs s1 c)\<lparr>waitLanes := (waitLanes (ctxs s1 c))
      [i := (waitLanes (ctxs s1 c) ! i)\<lparr>lexec := x1\<rparr>]\<rparr>)) s1"
    using run by (auto simp: on_lane_def Let_def split: prod.splits)
  have q: "queue_neutral ?x" using bound_inv_exec[OF inv c at] by (simp add: exec_bound_def)
  obtain l where l: "log_of s1 = log_of s @ l" "\<forall>e \<in> set l. neutral_ent (xtid ?x) e"
    and x: "xtid x1 = xtid ?x" "xclosed x1 = xclosed ?x" "queue_neutral x1"
    using xrun_neutral[OF f q x1] by blast
  have "exec_at (ctxs s' c') r' = (if c' = c \<and> r' = Lane i then Some x1 else exec_at (ctxs s c') r')" for c' r'
    using i by (cases r') (auto simp: s' xrun_frame[OF x1] releaseWaitLane_def nth_list_update)
  then have "bound_step D c s s'"
    by (intro bound_step_run[OF inv c at on_lane_identity[OF run] _ l(2) x]) (simp_all add: s' l xrun_frame[OF x1])
  then show ?thesis by (simp add: s' xrun_frame[OF x1] releaseWaitLane_def)
qed

lemma bound_stepD:
  assumes "bound_step D c s s'"
  shows "bound_inv D s'" "same_identity s s'" "nctxs s' = nctxs s"
  using assms by (simp_all add: bound_step_def same_identity_def)

lemma bound_step_refl: "bound_inv D s \<Longrightarrow> bound_step D c s s"
  by (simp add: bound_step_def)

lemma copyExecutor_step:
  assumes inv: "bound_inv D s" and c: "c < nctxs s" and run: "copyExecutor c s = (r, s')"
  shows "bound_step D c s s' \<and> (case r of Inl _ \<Rightarrow> True | Inr x \<Rightarrow> exec_at (ctxs s' c) Copy = Some x)"
proof (cases "copyExec (ctxs s c)")
  case None
  obtain r1 s1 where n: "newExecutor c s = (r1, s1)" by fastforce
  obtain l where l: "log_of s1 = log_of s @ l" "\<forall>e \<in> set l. fst e = nexttid s \<and> sym_of e = ''cuCtxSetCurrent''"
    "nexttid s1 = Suc (nexttid s)"
    "case r1 of Inl e \<Rightarrow> True | Inr x \<Rightarrow> x = newExec (nexttid s) \<and> cur (log_of s1) (nexttid s) = raw (ctxs s c)"
    using newExecutor_log[OF n bound_inv_driver[OF inv c]] by blast
  have s': "(case r1 of Inl e \<Rightarrow> r = Inl e \<and> s' = s1
      | Inr x \<Rightarrow> r = Inr x \<and> s' = setctx c ((ctxs s1 c)\<lparr>copyExec := Some x\<rparr>) s1)"
    using run None n by (auto simp: copyExecutor_def split: sum.splits)
  have log: "log_of s' = log_of s @ l" "nexttid s' = Suc (nexttid s)"
    using s' l by (auto split: sum.splits)
  have ats: "exec_at (ctxs s c') r' = Some y \<or> c' = c \<and> r' = Copy \<and> y = newExec (nexttid s) \<and>
      cur (log_of s') (nexttid s) = raw (ctxs s c)" if "exec_at (ctxs s' c') r' = Some y" for c' r' y
    using that s' l(4) newExecutor_frame[OF n]
    by (cases r'; cases r1; auto split: if_splits)
  have "bound_step D c s s'"
    by (rule bound_step_fresh[OF inv c copyExecutor_identity[OF run] log(1) l(2) log(2) ats])
  then show ?thesis using s' by (auto split: sum.splits)
qed (use run bound_step_refl[OF inv] in \<open>auto simp: copyExecutor_def\<close>)

lemma acquireWaitLane_step:
  assumes inv: "bound_inv D s" and c: "c < nctxs s" and run: "acquireWaitLane c s = (r, s')"
  shows "bound_step D c s s' \<and> (case r of Inl _ \<Rightarrow> True | Inr i \<Rightarrow> i < length (waitLanes (ctxs s' c)))"
proof -
  note spec = reuseWaitLane_spec[of "waitLanes (ctxs s c)"]
  obtain oi lanes where re: "reuseWaitLane (waitLanes (ctxs s c)) = (oi, lanes)" by fastforce
  show ?thesis
  proof (cases oi)
    case (Some i)
    then have s': "r = Inr i" "s' = setctx c ((ctxs s c)\<lparr>waitLanes := lanes\<rparr>) s"
      using run re by (auto simp: acquireWaitLane_def)
    have at: "exec_at (ctxs s' c') r' = exec_at (ctxs s c') r'" for c' r'
      using spec re Some s' by (cases r') (auto simp: nth_list_update)
    have "same_identity s s'" by (rule acquireWaitLane_identity[OF run])
    then have "bound_inv D s'"
      using inv at same_identity_ctxs[of s s'] s'
      by (auto simp: bound_inv_def exec_bound_def same_ctx_def)
    then show ?thesis
      using acquireWaitLane_identity[OF run] s' spec re Some by (auto simp: bound_step_def)
  next
    case None
    obtain r1 s1 where n: "newExecutor c s = (r1, s1)" by fastforce
    obtain l where l: "log_of s1 = log_of s @ l" "\<forall>e \<in> set l. fst e = nexttid s \<and> sym_of e = ''cuCtxSetCurrent''"
      "nexttid s1 = Suc (nexttid s)"
      "case r1 of Inl e \<Rightarrow> True | Inr x \<Rightarrow> x = newExec (nexttid s) \<and> cur (log_of s1) (nexttid s) = raw (ctxs s c)"
      using newExecutor_log[OF n bound_inv_driver[OF inv c]] by blast
    let ?ls = "waitLanes (ctxs s c)"
    have s': "(case r1 of Inl e \<Rightarrow> r = Inl e \<and> s' = s1
      | Inr x \<Rightarrow> r = Inr (length ?ls) \<and>
          s' = setctx c ((ctxs s c)\<lparr>waitLanes := ?ls @ [\<lparr>lexec = x, pending = 1\<rparr>]\<rparr>) s1)"
      using run None n re newExecutor_frame[OF n] by (auto simp: acquireWaitLane_def Let_def split: sum.splits)
    have log: "log_of s' = log_of s @ l" "nexttid s' = Suc (nexttid s)"
      using s' l by (auto split: sum.splits)
    have ats: "exec_at (ctxs s c') r' = Some y \<or> c' = c \<and> r' = Lane (length ?ls) \<and> y = newExec (nexttid s) \<and>
      cur (log_of s') (nexttid s) = raw (ctxs s c)" if "exec_at (ctxs s' c') r' = Some y" for c' r' y
      using that s' l(4) newExecutor_frame[OF n]
      by (cases r'; cases r1; auto simp: nth_append split: if_splits)
    have "bound_step D c s s'"
      by (rule bound_step_fresh[OF inv c acquireWaitLane_identity[OF run] log(1) l(2) log(2) ats])
    then show ?thesis using s' by (auto split: sum.splits)
  qed
qed

lemma barrierFrom_step:
  assumes "bound_inv D s" "c < nctxs s" "set is \<subseteq> {..<length (waitLanes (ctxs s c))}"
    and "barrierFrom c ctx is s = (r, s')"
  shows "bound_step D c s s'"
  using assms
proof (induction "is" arbitrary: s)
  case (Cons i "is")
  obtain r1 s1 where l: "on_lane c i (DoCtx ctx (ret ())) s = (r1, s1)" by fastforce
  have st: "bound_step D c s s1" "length (waitLanes (ctxs s1 c)) = length (waitLanes (ctxs s c))"
    using on_lane_step[OF Cons(2,3) _ neutral_variants(2) l] Cons(4) by auto
  show ?case
  proof (cases r1)
    case (Inr u)
    then have "barrierFrom c ctx is s1 = (r, s')" using Cons(5) l by simp
    then show ?thesis
      using Cons(1)[of s1] bound_stepD[OF st(1)] st Cons(3,4) bound_step_trans by auto
  qed (use Cons(5) l st in auto)
qed (simp add: bound_step_refl)

lemma trackWait_step:
  assumes "bound_inv D s"
  shows "bound_step D c s (trackWait c s)"
proof -
  have "exec_at (ctxs (trackWait c s) c') r = exec_at (ctxs s c') r" for c' r
    by (cases r) (auto simp: trackWait_def)
  then have "bound_inv D (trackWait c s)"
    using assms same_identity_ctxs[OF trackWait_identity, of s c]
    by (auto simp: bound_inv_def exec_bound_def same_ctx_def trackWait_def)
  then show ?thesis using trackWait_identity by (auto simp: bound_step_def trackWait_def)
qed


lemma doJob_step:
  assumes inv: "bound_inv D s" and c: "c < nctxs s" and job: "neutral_job job"
    and run: "doJob (Some c) ctxo job s = (r, s')"
  shows "bound_step D c s s'"
proof -
  have "bound_step D c s s'" if "on_exec c x (DoJob (ctx_or_background ctxo) job) s = (r, s')"
    "exec (ctxs s c) = Some x" "\<not> closed (ctxs s c)" "commandErr (ctxs s c) = None" for x
    using on_exec_step[OF inv c _ neutral_DoJob[OF job] that(1)] that(2-) by simp
  then show ?thesis
    using run ctx_Err_step[OF inv] bound_step_refl[OF inv]
    by (auto simp: doJob_def Let_def split: option.splits if_splits prod.splits)
qed

lemma doCopyJob_step:
  assumes inv: "bound_inv D s" and c: "c < nctxs s" and job: "neutral_job job"
    and run: "doCopyJob (Some c) ctxo job s = (r, s')"
  shows "bound_step D c s s'"
proof -
  have "bound_step D c s s'" if e: "ctx_Err ctx s = (e, s1)" and x: "copyExecutor c s1 = (Inr x, s2)"
    and o: "on_copy c x (DoJob ctx job) s2 = (r, s')" for e s1 x s2 ctx
  proof -
    have 1: "bound_step D c s s1" by (rule ctx_Err_step[OF inv e])
    note d1 = bound_stepD[OF 1]
    have 2: "bound_step D c s1 s2" "exec_at (ctxs s2 c) Copy = Some x"
      using copyExecutor_step[OF d1(1) _ x] c d1(3) by auto
    note d2 = bound_stepD[OF 2(1)]
    have "bound_step D c s2 s'"
      using on_copy_step[OF d2(1) _ 2(2) neutral_DoJob[OF job] o] c d1(3) d2(3) by simp
    then show ?thesis using 1 2(1) bound_step_trans by blast
  qed
  moreover have "bound_step D c s s2" if "ctx_Err ctx s = (e, s1)" "copyExecutor c s1 = (Inl e2, s2)" for e s1 s2 e2 ctx
    using ctx_Err_step[OF inv that(1), of c] copyExecutor_step[OF _ _ that(2)] c bound_stepD bound_step_trans by metis
  ultimately show ?thesis
    using run ctx_Err_step[OF inv] bound_step_refl[OF inv]
    by (auto simp: doCopyJob_def Let_def split: option.splits if_splits prod.splits sum.splits)
qed

lemma doJobCtx_step:
  assumes inv: "bound_inv D s" and c: "c < nctxs s" and job: "neutral_job job"
    and run: "doJobCtx (Some c) ctxo job s = (r, s')"
  shows "bound_step D c s s'"
proof -
  have "bound_step D c s s'" if e: "ctx_Err ctx s = (e, s1)" and x: "acquireWaitLane c s1 = (Inr i, s2)"
    and o: "on_lane c i (DoJobCtx ctx True job) (trackWait c s2) = (r, s')" for e s1 i s2 ctx
  proof -
    have 1: "bound_step D c s s1" by (rule ctx_Err_step[OF inv e])
    note d1 = bound_stepD[OF 1]
    have 2: "bound_step D c s1 s2" "i < length (waitLanes (ctxs s2 c))"
      using acquireWaitLane_step[OF d1(1) _ x] c d1(3) by auto
    note d2 = bound_stepD[OF 2(1)]
    have 3: "bound_step D c s2 (trackWait c s2)" by (rule trackWait_step[OF d2(1)])
    note d3 = bound_stepD[OF 3]
    have "i < length (waitLanes (ctxs (trackWait c s2) c))" using 2(2) by (simp add: trackWait_def)
    then have "bound_step D c (trackWait c s2) s'"
      using on_lane_step[OF d3(1) _ _ neutral_DoJobCtx[OF job] o] c d1(3) d2(3) d3(3) by simp
    then show ?thesis using 1 2(1) 3 bound_step_trans by blast
  qed
  moreover have "bound_step D c s s2" if "ctx_Err ctx s = (e, s1)" "acquireWaitLane c s1 = (Inl e2, s2)" for e s1 s2 e2 ctx
    using ctx_Err_step[OF inv that(1), of c] acquireWaitLane_step[OF _ _ that(2)] c bound_stepD bound_step_trans by metis
  ultimately show ?thesis
    using run ctx_Err_step[OF inv] bound_step_refl[OF inv]
    by (auto simp: doJobCtx_def Let_def split: option.splits if_splits prod.splits sum.splits)
qed

lemma syncBarrier_step:
  assumes "bound_inv D s" "c < nctxs s" "syncBarrier c ctx s = (r, s')"
  shows "bound_step D c s s'"
  using assms barrierFrom_step[OF assms(1,2), of "[0..<length (waitLanes (ctxs s c))]" ctx r s']
    bound_step_refl[OF assms(1)]
  by (auto simp: syncBarrier_def atLeast0LessThan split: if_splits)

lemma barrierFrom_exec: "barrierFrom c ctx is s = (r, s') \<Longrightarrow> exec (ctxs s' c') = exec (ctxs s c')"
proof (induction "is" arbitrary: s)
  case (Cons i "is")
  obtain r1 s1 where l: "on_lane c i (DoCtx ctx (ret ())) s = (r1, s1)" by fastforce
  then have "exec (ctxs s1 c') = exec (ctxs s c')"
    by (auto simp: on_lane_def xrun_def Let_def releaseWaitLane_def split: prod.splits)
  then show ?case using Cons l by (auto split: sum.splits)
qed simp

lemma syncBarrier_exec: "syncBarrier c ctx s = (r, s') \<Longrightarrow> exec (ctxs s' c') = exec (ctxs s c')"
  by (auto simp: syncBarrier_def barrierFrom_exec split: if_splits)

lemma doWith_step:
  assumes inv: "bound_inv D s" and c: "c < nctxs s" and job: "neutral_job job"
    and run: "doWith (Some c) ctxo job wt br s = (r, s')"
  shows "bound_step D c s s'"
proof (cases "exec_at (ctxs s c) Cmd")
  case None
  then show ?thesis
    using run ctx_Err_step[OF inv] bound_step_refl[OF inv]
    by (auto simp: doWith_def Let_def split: option.splits if_splits prod.splits)
next
  case (Some x)
  let ?ctx = "ctx_or_background ctxo"
  have fin: "bound_step D c s s'" if b: "bound_step D c s s2" and o: "on_exec c x f s2 = (r, s')" and f: "neutral_run f"
    and same: "exec_at (ctxs s2 c) Cmd = Some x" for s2 f
    using on_exec_step[OF bound_stepD(1)[OF b] _ same f o] c bound_stepD(3)[OF b] bound_step_trans[OF b] by simp
  have kept: "exec_at (ctxs s2 c) Cmd = Some x" if "ctx_Err ctx s = (e, s1)" "syncBarrier c ctx s1 = (u, s2)" for ctx e s1 u s2
    using syncBarrier_exec[OF that(2), of c] that(1) Some syncBarrier_identity[OF that(2)] same_identity_ctxs[of s1 s2 c]
    by (auto simp: ctx_Err_def same_ctx_def split: if_splits)
  have bar: "bound_step D c s s2" if "ctx_Err ctx s = (e, s1)" "syncBarrier c ctx s1 = (u, s2)" for ctx e s1 u s2
    using ctx_Err_step[OF inv that(1), of c] syncBarrier_step[OF _ _ that(2), of D] c bound_stepD bound_step_trans by metis
  have noW: "exec_at (ctxs s1 c) Cmd = Some x" if "ctx_Err ctx s = (e, s1)" for ctx e s1
    using that Some by (auto simp: ctx_Err_def simp del: exec_at.simps)
  have fin0: "bound_step D c s s'" if "on_exec c x f s = (r, s')" "neutral_run f" for f
    using fin[OF bound_step_refl[OF inv] that Some] .
  have fin1: "bound_step D c s s'" if "ctx_Err ctx s = (e, s1)" "on_exec c x f s1 = (r, s')" "neutral_run f" for ctx e s1 f
    using fin[OF ctx_Err_step[OF inv that(1)] that(2,3) noW[OF that(1)]] .
  have fin2: "bound_step D c s s'" if "ctx_Err ctx s = (e, s1)" "syncBarrier c ctx s1 = (u, s2)"
    "on_exec c x f s2 = (r, s')" "neutral_run f" for ctx e s1 u s2 f
    using fin[OF bar[OF that(1,2)] that(3,4) kept[OF that(1,2)]] .
  show ?thesis
    using run Some ctx_Err_step[OF inv] neutral_variants[OF job]
    by (auto simp: doWith_def Let_def split: option.splits if_splits prod.splits sum.splits
        intro: fin0 fin1 fin2 bar)
qed

subsection \<open>\<^verbatim>\<open>Primary\<close> and \<^verbatim>\<open>Close\<close>: threads and reference counts\<close>

text \<open>
  The general form of the two ways the invariant is kept: some executors may disappear, at most one on a
  fresh thread may appear bound, and the log may only grow by calls on threads that are not
  those of the remaining executors (or by neutral calls).
\<close>

lemma bound_inv_shrink:
  assumes inv: "bound_inv D s" and log: "log_of s' = log_of s @ l" and nt: "nexttid s \<le> nexttid s'"
    and n: "nctxs s' = nctxs s" "gdriver s' = gdriver s"
    and ctx: "\<And>c. driver (ctxs s' c) = driver (ctxs s c) \<and> raw (ctxs s' c) = raw (ctxs s c)"
    and ats: "\<And>c r y. exec_at (ctxs s' c) r = Some y \<Longrightarrow> exec_at (ctxs s c) r = Some y \<and>
      (\<forall>e \<in> set l. \<not> sets_current e (xtid y))"
  shows "bound_inv D s'"
proof -
  have "exec_bound s' (raw (ctxs s' c)) y" if "exec_at (ctxs s' c) r = Some y" "c < nctxs s" for c r y
    using ats[OF that(1)] bound_inv_exec[OF inv that(2)] log nt ctx[of c]
    by (fastforce simp: exec_bound_def cur_append_other)
  moreover have "c1 = c2 \<and> r1 = r2" if "exec_at (ctxs s' c1) r1 = Some y1" "exec_at (ctxs s' c2) r2 = Some y2"
    "c1 < nctxs s" "c2 < nctxs s" "xtid y1 = xtid y2" for c1 c2 r1 r2 y1 y2
    using ats[OF that(1)] ats[OF that(2)] that(3-) inv unfolding bound_inv_def by metis
  ultimately show ?thesis using inv n ctx unfolding bound_inv_def by simp
qed

definition succeeded :: "string \<Rightarrow> logent list \<Rightarrow> nat" where
  "succeeded nm l = length (filter (\<lambda>e. sym_of e = nm \<and> snd (snd e) = CUDA_SUCCESS) l)"

definition refs :: "logent list \<Rightarrow> int" where
  "refs l = int (succeeded ''cuDevicePrimaryCtxRetain'' l) - int (succeeded ''cuDevicePrimaryCtxRelease_v2'' l)"

lemma refs_append [simp]: "refs (l @ l') = refs l + refs l'" "refs [] = 0"
  by (simp_all add: refs_def succeeded_def)

lemma refs_other:
  "\<forall>e \<in> set l. sym_of e \<noteq> ''cuDevicePrimaryCtxRetain'' \<and> sym_of e \<noteq> ''cuDevicePrimaryCtxRelease_v2'' \<Longrightarrow> refs l = 0"
  by (induction l) (auto simp: refs_def succeeded_def)

lemma refs_neutral: "\<forall>e \<in> set l. neutral_ent t e \<Longrightarrow> refs l = 0"
  by (rule refs_other) (auto simp: neutral_ent_def mgmt_def)

lemma refs_one:
  "refs [(t, CuDevicePrimaryCtxRetain h, code)] = (if code = CUDA_SUCCESS then 1 else 0)"
  "refs [(t, CuDevicePrimaryCtxRelease h, code)] = (if code = CUDA_SUCCESS then - 1 else 0)"
  "refs [(t, CuCtxSetCurrent r, code)] = 0"
  by (simp_all add: refs_def succeeded_def call_defs)

lemma Retain_traced:
  assumes "PrimaryCtxRetain (Some (traced D)) h t w = (res, w')"
  shows "(\<exists>code. snd w' = snd w @ [(t, CuDevicePrimaryCtxRetain h, code)] \<and> ((\<exists>c. res = Inr c) \<longleftrightarrow> code = CUDA_SUCCESS)) \<or>
     w' = w \<and> res = Inl ErrNotInitialized"
  using assms
  by (auto simp: PrimaryCtxRetain_def required_def checked_call_traced Let_def check_def
      split: prod.splits if_splits option.splits)

lemma Release_traced:
  assumes "PrimaryCtxRelease (Some (traced D)) h t w = (res, w')"
  shows "(\<exists>code. snd w' = snd w @ [(t, CuDevicePrimaryCtxRelease h, code)] \<and> (res = Inr () \<longleftrightarrow> code = CUDA_SUCCESS)) \<or>
     w' = w \<and> res = Inl ErrNotInitialized \<and> \<not> bound D ''cuDevicePrimaryCtxRelease_v2''"
  using assms
  by (auto simp: PrimaryCtxRelease_def required_def checked_call_traced Let_def check_def
      split: prod.splits if_splits option.splits)
    (auto simp: traced_def call_defs)

text \<open>The rollback of \<^verbatim>\<open>Primary\<close> failed: its release call was made and refused.\<close>

definition release_failed :: "logent list \<Rightarrow> bool" where
  "release_failed l = (l \<noteq> [] \<and> sym_of (last l) = ''cuDevicePrimaryCtxRelease_v2'' \<and> snd (snd (last l)) \<noteq> CUDA_SUCCESS)"

lemma primary_job_log:
  assumes "primary_job (Some (traced D)) h t w = (r, w')" and "bound D ''cuDevicePrimaryCtxRelease_v2''"
  shows "\<exists>l. snd w' = snd w @ l \<and> (\<forall>e \<in> set l. fst e = t \<and> sym_of e \<in> mgmt) \<and>
     (case r of Inr c \<Rightarrow> refs l = 1 \<and> cur (snd w') t = c
      | Inl _ \<Rightarrow> refs l = 0 \<or> refs l = 1 \<and> release_failed l)"
proof -
  obtain r1 w1 where 1: "PrimaryCtxRetain (Some (traced D)) h t w = (r1, w1)" by (metis surj_pair)
  show ?thesis
  proof (cases r1)
    case (Inl e)
    then show ?thesis
      using assms(1) 1 Retain_traced[OF 1]
      by (auto simp: primary_job_def mgmt_def call_defs refs_def succeeded_def)
  next
    case (Inr c)
    then obtain l1 where l1: "snd w1 = snd w @ l1" "\<forall>e \<in> set l1. fst e = t \<and> sym_of e \<in> mgmt" "refs l1 = 1"
      using Retain_traced[OF 1] by (auto simp: mgmt_def refs_one) (auto simp: call_defs)
    obtain r2 w2 where 2: "CtxSetCurrent (Some (traced D)) c t w1 = (r2, w2)" by (metis surj_pair)
    have l2: "\<exists>l2. snd w2 = snd w1 @ l2 \<and> (\<forall>e \<in> set l2. fst e = t \<and> sym_of e \<in> mgmt) \<and> refs l2 = 0 \<and>
        (r2 = Inr () \<longrightarrow> cur (snd w2) t = c)"
      using CtxSetCurrent_traced[OF 2]
      by (auto simp: refs_one cur_snoc sets_current_def) (auto simp: call_defs mgmt_def)
    then obtain l2 where l2: "snd w2 = snd w1 @ l2" "\<forall>e \<in> set l2. fst e = t \<and> sym_of e \<in> mgmt" "refs l2 = 0"
        "r2 = Inr () \<longrightarrow> cur (snd w2) t = c" by blast
    show ?thesis
    proof (cases r2)
      case r2: (Inr u)
      then show ?thesis
        using assms(1) 1 2 Inr l1 l2 by (intro exI[of _ "l1 @ l2"]) (auto simp: primary_job_def)
    next
      case r2: (Inl e)
      obtain r3 w3 where 3: "PrimaryCtxRelease (Some (traced D)) h t w2 = (r3, w3)" by (metis surj_pair)
      obtain code where l3: "snd w3 = snd w2 @ [(t, CuDevicePrimaryCtxRelease h, code)]"
        using Release_traced[OF 3] assms(2) by auto
      have "r = Inl (the (errors_Join [Some e, err_of r3]))" "w' = w3"
        using assms(1) 1 2 3 Inr r2 by (auto simp: primary_job_def)
      then show ?thesis
        using l1 l2 l3
        by (intro exI[of _ "l1 @ l2 @ [(t, CuDevicePrimaryCtxRelease h, code)]"])
          (auto simp: refs_one release_failed_def mgmt_def, auto simp: call_defs)
    qed
  qed
qed

end
