(* ===== verification/Lifecycle.thy ===== *)
theory Lifecycle
  imports Trace
begin

section \<open>The life of a context: \<^verbatim>\<open>Primary\<close> to \<^verbatim>\<open>Close\<close>\<close>

text \<open>
  \<^verbatim>\<open>Primary\<close> and \<^verbatim>\<open>Close\<close> keep the thread-binding invariant and the wait-lane counters, and the retains and releases they
  make balance: one retain per context obtained, none after a rolled-back failure, one release exactly
  when a context becomes closed.
\<close>

lemma bound_inv_fresh:
  assumes inv: "bound_inv D s" and log: "log_of s' = log_of s @ l" "\<forall>e \<in> set l. fst e = nexttid s"
    and nt: "nexttid s' = Suc (nexttid s)" and g: "gdriver s' = gdriver s"
    and drv: "\<And>c'. c' < nctxs s' \<Longrightarrow> driver (ctxs s' c') = Some (traced D)"
    and ats: "\<And>c' r' y. c' < nctxs s' \<Longrightarrow> exec_at (ctxs s' c') r' = Some y \<Longrightarrow>
      c' < nctxs s \<and> exec_at (ctxs s c') r' = Some y \<and> raw (ctxs s' c') = raw (ctxs s c') \<or>
      c' = c \<and> r' = r \<and> y = newExec (nexttid s) \<and> cur (log_of s') (nexttid s) = raw (ctxs s' c)"
  shows "bound_inv D s'"
proof -
  have cur: "cur (log_of s') t = cur (log_of s) t" if "t < nexttid s" for t
    unfolding log(1) by (rule cur_append_other) (use log(2) that in \<open>auto simp: sets_current_def\<close>)
  have fresh: "xtid y < nexttid s" if "exec_at (ctxs s c') r' = Some y" "c' < nctxs s" for c' r' y
    using bound_inv_exec[OF inv that(2,1)] by (simp add: exec_bound_def)
  have "exec_bound s' (raw (ctxs s' c')) y" if "exec_at (ctxs s' c') r' = Some y" "c' < nctxs s'" for c' r' y
    using ats[OF that(2,1)] bound_inv_exec[OF inv, of c' r' y] cur nt
    by (auto simp: exec_bound_def newExec_def)
  moreover have "c1 = c2 \<and> r1 = r2" if at1: "exec_at (ctxs s' c1) r1 = Some y1" and at2: "exec_at (ctxs s' c2) r2 = Some y2"
    and lt: "c1 < nctxs s'" "c2 < nctxs s'" and eq: "xtid y1 = xtid y2" for c1 c2 r1 r2 y1 y2
  proof -
    have "c1 < nctxs s \<and> c2 < nctxs s \<and> exec_at (ctxs s c1) r1 = Some y1 \<and> exec_at (ctxs s c2) r2 = Some y2 \<or> c1 = c2 \<and> r1 = r2"
      using ats[OF lt(1) at1] ats[OF lt(2) at2] fresh[of c1 r1 y1] fresh[of c2 r2 y2] eq by (auto simp: newExec_def)
    then show ?thesis using inv eq unfolding bound_inv_def by metis
  qed
  ultimately show ?thesis
    using inv g drv unfolding bound_inv_def by simp
qed

lemma Do_newExec:
  assumes "xrun (Do job) (newExec t) s = (r, x, n, s')"
  shows "job t (world s) = (r, world s') \<and> x = newExec t \<and> n = 0"
  using assms by (auto simp: xrun_def xops newExec_def run_queue_def split: prod.splits)

lemma xClose_newExec:
  assumes "xrun xClose x s = (r, x', n, s')" "xqueue x = []"
  shows "world s' = world s \<and> r = None \<and> n = 0 \<and> x' = x\<lparr>xclosed := True\<rparr>"
  using assms by (auto simp: xrun_def xops run_queue_def)

subsection \<open>\<^verbatim>\<open>Primary\<close>\<close>

lemma Primary_traced:
  assumes inv: "bound_inv D s" and b: "bound D ''cuDevicePrimaryCtxRelease_v2''"
    and run: "Primary d s = (r, s')"
  shows "bound_inv D s' \<and> (\<exists>l. log_of s' = log_of s @ l \<and>
     (case r of Inr c \<Rightarrow> refs l = 1 | Inl _ \<Rightarrow> refs l = 0 \<or> refs l = 1 \<and> release_failed l))"
proof (cases "\<exists>dev. gdriver s = Some (traced D) \<and> d = Some dev")
  case True
  then obtain dev where g: "gdriver s = Some (traced D)" "d = Some dev" by blast
  let ?s1 = "s\<lparr>nexttid := Suc (nexttid s)\<rparr>"
  obtain r1 x1 n1 s2 where d: "xrun (Do (primary_job (Some (traced D)) (handle dev))) (newExec (nexttid s)) ?s1 = (r1, x1, n1, s2)"
    by (metis surj_pair)
  note fr = xrun_frame[OF d]
  have job: "primary_job (Some (traced D)) (handle dev) (nexttid s) (world s) = (r1, world s2)" "x1 = newExec (nexttid s)"
    using Do_newExec[OF d] by simp_all
  obtain l where l: "log_of s2 = log_of s @ l" "\<forall>e \<in> set l. fst e = nexttid s \<and> sym_of e \<in> mgmt"
    and res: "case r1 of Inr c \<Rightarrow> refs l = 1 \<and> cur (log_of s2) (nexttid s) = c
      | Inl _ \<Rightarrow> refs l = 0 \<or> refs l = 1 \<and> release_failed l"
    using primary_job_log[OF job(1) b] by auto
  show ?thesis
  proof (cases r1)
    case (Inl e)
    obtain q1 q2 q3 s3 where cl: "xrun xClose x1 s2 = (q1, q2, q3, s3)" by (metis surj_pair)
    have w: "world s3 = world s2" using xClose_newExec[OF cl] job(2) by (simp add: newExec_def)
    have s': "r = Inl e" "s' = s3"
      using run g d cl Inl by (auto simp: Primary_def startExecutor_def)
    have "bound_inv D s'"
      by (rule bound_inv_fresh[OF inv, of s' l c r']) (use s' w l fr xrun_frame[OF cl] bound_inv_driver[OF inv] in auto)
    then show ?thesis using s' w l res Inl by auto
  next
    case (Inr c)
    have s': "r = Inr (nctxs s)" "s' = (setctx (nctxs s) (newContext dev (Some (traced D)) c x1) s2)\<lparr>nctxs := Suc (nctxs s)\<rparr>"
      using run g d Inr fr by (auto simp: Primary_def startExecutor_def)
    have ats: "c' < nctxs s \<and> exec_at (ctxs s c') r' = Some y \<and> raw (ctxs s' c') = raw (ctxs s c') \<or>
      c' = nctxs s \<and> r' = Cmd \<and> y = newExec (nexttid s) \<and> cur (log_of s') (nexttid s) = raw (ctxs s' (nctxs s))"
      if "c' < nctxs s'" "exec_at (ctxs s' c') r' = Some y" for c' r' y
      using that s' fr job(2) res Inr
      by (cases "c' = nctxs s"; cases r') (auto simp: newContext_def)
    have "bound_inv D s'"
      by (rule bound_inv_fresh[OF inv _ _ _ _ _ ats, of l])
        (use s' l fr bound_inv_driver[OF inv] in \<open>auto simp: newContext_def less_Suc_eq\<close>)
    then show ?thesis using s' l res Inr by auto
  qed
next
  case False
  then have "s' = s \<and> (\<exists>e. r = Inl e)"
    using run inv by (auto simp: Primary_def bound_inv_def split: option.splits)
  then show ?thesis using inv by auto
qed

subsection \<open>\<^verbatim>\<open>Close\<close>\<close>

lemma Do_drained:
  assumes "xrun (Do job) x s = (r, x', n, s')" "\<not> xclosed x" "queue_neutral x"
  shows "\<exists>l w1. snd w1 = log_of s @ l \<and> (\<forall>e \<in> set l. neutral_ent (xtid x) e) \<and>
     job (xtid x) w1 = (r, world s') \<and> x' = x\<lparr>xqueue := []\<rparr> \<and> n = queued_tracked x"
proof -
  let ?st = "\<lparr>ex = x, clk = clock s + 2, wld = world s, rel = 0\<rparr>"
  obtain l where l: "snd (wld (xdrain ?st)) = log_of s @ l" "\<forall>e \<in> set l. neutral_ent (xtid x) e"
    using xdrain_log[of ?st] assms(3) by auto
  have "job (xtid x) (wld (xdrain ?st)) = (r, world s') \<and> x' = x\<lparr>xqueue := []\<rparr> \<and> n = queued_tracked x"
    using assms(1) Do_open[of "\<lparr>ex = x, clk = clock s, wld = world s, rel = 0\<rparr>" job] assms(2)
    by (auto simp: xrun_def xwork_def xdrain_def Let_def queued_tracked_def split: prod.splits)
  then show ?thesis using l by blast
qed

lemma closeExecutor_log:
  assumes "closeExecutor (Some (traced D)) x s = (e, x', n, s')" "\<not> xclosed x" "queue_neutral x"
  shows "(\<exists>l. log_of s' = log_of s @ l \<and> (\<forall>e \<in> set l. fst e = xtid x) \<and> refs l = 0) \<and> n = queued_tracked x \<and>
     ctxs s' = ctxs s \<and> nctxs s' = nctxs s \<and> gdriver s' = gdriver s \<and> nexttid s' = nexttid s"
proof -
  obtain r1 x1 n1 s1 where 1: "xrun (Do (CtxSetCurrent (Some (traced D)) 0)) x s = (r1, x1, n1, s1)" by (metis surj_pair)
  let ?x2 = "if err_of r1 \<noteq> None then xRetire x1 else x1"
  obtain e2 x2 n2 s2 where 2: "xrun xClose ?x2 s1 = (e2, x2, n2, s2)" by (metis surj_pair)
  obtain l1 w1 where l1: "snd w1 = log_of s @ l1" "\<forall>e \<in> set l1. neutral_ent (xtid x) e"
    and job: "CtxSetCurrent (Some (traced D)) 0 (xtid x) w1 = (r1, world s1)"
    and x1: "x1 = x\<lparr>xqueue := []\<rparr>" "n1 = queued_tracked x"
    using Do_drained[OF 1 assms(2,3)] by blast
  have eq: "n = n1 + n2" "s' = s2" using assms(1) 1 2 by (auto simp: closeExecutor_def Let_def split: prod.splits)
  have "xqueue ?x2 = []" using x1 by (simp add: xRetire_def)
  then have w: "world s2 = world s1" "n2 = 0" using xClose_newExec[OF 2] by simp_all
  have "\<exists>l2. log_of s1 = snd w1 @ l2 \<and> (\<forall>e \<in> set l2. fst e = xtid x) \<and> refs l2 = 0"
    using CtxSetCurrent_traced[OF job] by (auto simp: refs_one)
  then obtain l2 where "log_of s1 = snd w1 @ l2" "\<forall>e \<in> set l2. fst e = xtid x" "refs l2 = 0" by blast
  then have "\<exists>l. log_of s' = log_of s @ l \<and> (\<forall>e \<in> set l. fst e = xtid x) \<and> refs l = 0"
    using l1 w eq refs_neutral[OF l1(2)]
    by (intro exI[of _ "l1 @ l2"]) (auto simp: neutral_ent_def)
  then show ?thesis using eq w x1 xrun_frame[OF 1] xrun_frame[OF 2] by simp
qed

text \<open>Executors that were detached from every context do not share a thread with the attached ones.\<close>

definition detached :: "'v tw sys \<Rightarrow> 'v tw Executor \<Rightarrow> bool" where
  "detached s x = (queue_neutral x \<and> \<not> xclosed x \<and>
     (\<forall>c r y. c < nctxs s \<longrightarrow> exec_at (ctxs s c) r = Some y \<longrightarrow> xtid y \<noteq> xtid x))"

lemma close_detached:
  assumes inv: "bound_inv D s" and x: "detached s x"
    and run: "closeExecutor (Some (traced D)) x s = (e, x', n, s1)"
    and s': "world s' = world s1" "nexttid s' = nexttid s" "nctxs s' = nctxs s" "gdriver s' = gdriver s"
    and ctx: "\<And>c. driver (ctxs s' c) = driver (ctxs s c) \<and> raw (ctxs s' c) = raw (ctxs s c)"
    and ats: "\<And>c r. exec_at (ctxs s' c) r = exec_at (ctxs s c) r"
  shows "bound_inv D s' \<and> (\<exists>l. log_of s' = log_of s @ l \<and> refs l = 0) \<and> n = queued_tracked x"
proof -
  obtain l where l: "log_of s1 = log_of s @ l" "\<forall>e \<in> set l. fst e = xtid x" "refs l = 0" and n: "n = queued_tracked x"
    using closeExecutor_log[OF run] x by (auto simp: detached_def)
  have "bound_inv D s'"
  proof -
    have ns: "\<not> sets_current e (xtid y)" if "c < nctxs s" "exec_at (ctxs s c) r = Some y" "e \<in> set l" for c r y e
    proof -
      have "xtid y \<noteq> xtid x" using x that unfolding detached_def by blast
      then show ?thesis using l(2) that(3) by (auto simp: sets_current_def)
    qed
    have "exec_bound s' (raw (ctxs s' c)) y" if "c < nctxs s" "exec_at (ctxs s c) r = Some y" for c r y
    proof -
      have "\<forall>e \<in> set l. \<not> sets_current e (xtid y)" using ns[OF that] by blast
      then show ?thesis
        using bound_inv_exec[OF inv that] ctx[of c] s' l(1) by (simp add: exec_bound_def cur_append_other)
    qed
    then show ?thesis using inv s' ctx ats unfolding bound_inv_def by simp
  qed
  then show ?thesis using l n s'(1) by auto
qed

lemma detached_cong:
  "nctxs s' = nctxs s \<Longrightarrow> (\<And>c r. exec_at (ctxs s' c) r = exec_at (ctxs s c) r) \<Longrightarrow> detached s' x = detached s x"
  by (simp add: detached_def)

lemma closeLanes_traced:
  assumes "bound_inv D s" "c < nctxs s" "\<forall>l \<in> set ls. detached s (lexec l)"
    and "closeLanes c ls err s = (e, s')"
  shows "bound_inv D s' \<and> (\<exists>l. log_of s' = log_of s @ l \<and> refs l = 0) \<and> nctxs s' = nctxs s \<and> gdriver s' = gdriver s \<and>
     nexttid s' = nexttid s \<and>
     ctxs s' = (ctxs s)(c := (ctxs s c)\<lparr>syncActive := syncActive (ctxs s c) - int (\<Sum>l\<leftarrow>ls. queued_tracked (lexec l))\<rparr>)"
  using assms
proof (induction ls arbitrary: s err)
  case (Cons l ls)
  obtain e1 x1 n s1 where cl: "closeExecutor (driver (ctxs s c)) (lexec l) s = (e1, x1, n, s1)" by (metis surj_pair)
  have cl': "closeExecutor (Some (traced D)) (lexec l) s = (e1, x1, n, s1)"
    using cl bound_inv_driver[OF Cons(2,3)] by simp
  have det: "detached s (lexec l)" using Cons(4) by simp
  have fr: "ctxs s1 = ctxs s" "nctxs s1 = nctxs s" "gdriver s1 = gdriver s" "nexttid s1 = nexttid s"
    using closeExecutor_log[OF cl'] det by (simp_all add: detached_def)
  let ?s2 = "setctx c ((ctxs s1 c)\<lparr>syncActive := syncActive (ctxs s1 c) - int n\<rparr>) s1"
  have ats: "exec_at (ctxs ?s2 c') r = exec_at (ctxs s c') r" for c' r
    by (cases r) (auto simp: fr)
  have 2: "bound_inv D ?s2" "\<exists>l. log_of ?s2 = log_of s @ l \<and> refs l = 0" "n = queued_tracked (lexec l)"
    using close_detached[OF Cons(2) det cl', of ?s2] ats by (auto simp: fr)
  have det2: "\<forall>l \<in> set ls. detached ?s2 (lexec l)" using Cons(4) detached_cong[of ?s2 s] ats fr by simp
  have cl2: "closeLanes c ls (errors_Join [err, e1]) ?s2 = (e, s')"
    using Cons(5) cl by (simp add: Let_def)
  have lt: "c < nctxs ?s2" using Cons(3) fr by simp
  note IH = Cons(1)[OF 2(1) lt det2 cl2]
  have "\<exists>l. log_of s' = log_of s @ l \<and> refs l = 0" using IH 2(2) by auto
  moreover have "ctxs s' = (ctxs s)(c := (ctxs s c)\<lparr>syncActive := syncActive (ctxs s c) -
      int (\<Sum>l\<leftarrow>l # ls. queued_tracked (lexec l))\<rparr>)"
    by (rule ext) (use IH 2(3) fr in \<open>simp add: algebra_simps\<close>)
  ultimately show ?case using IH fr by simp
qed (simp add: fun_upd_idem)


lemma closeWaitLanes_traced:
  assumes inv: "bound_inv D s" and c: "c < nctxs s" and run: "closeWaitLanes c s = (e, s')"
  shows "bound_inv D s' \<and> (\<exists>l. log_of s' = log_of s @ l \<and> refs l = 0) \<and> nctxs s' = nctxs s \<and> gdriver s' = gdriver s \<and>
     nexttid s' = nexttid s \<and>
     ctxs s' = (ctxs s)(c := (ctxs s c)\<lparr>waitLanes := [], syncActive := syncActive (ctxs s c) -
       int (\<Sum>l\<leftarrow>waitLanes (ctxs s c). queued_tracked (lexec l))\<rparr>)"
proof -
  let ?s1 = "setctx c ((ctxs s c)\<lparr>waitLanes := []\<rparr>) s"
  have sub: "exec_at (ctxs s c') r = Some y \<and> (\<forall>i. (c', r) \<noteq> (c, Lane i))" if "exec_at (ctxs ?s1 c') r = Some y" for c' r y
    using that by (cases r; cases "c' = c") (auto split: if_splits)
  have inv1: "bound_inv D ?s1"
    by (rule bound_inv_shrink[OF inv, of _ "[]"]) (use sub in auto)
  have det: "detached ?s1 (lexec l)" if l: "l \<in> set (waitLanes (ctxs s c))" for l
  proof -
    obtain i where i: "i < length (waitLanes (ctxs s c))" "l = waitLanes (ctxs s c) ! i"
      using l by (auto simp: in_set_conv_nth)
    then have at: "exec_at (ctxs s c) (Lane i) = Some (lexec l)" by simp
    have "xtid y \<noteq> xtid (lexec l)" if "c' < nctxs s" "exec_at (ctxs ?s1 c') r = Some y" for c' r y
    proof
      assume "xtid y = xtid (lexec l)"
      then have "c' = c \<and> r = Lane i" using inv sub[OF that(2)] at that(1) c unfolding bound_inv_def by metis
      then show False using sub[OF that(2)] by blast
    qed
    then show ?thesis using bound_inv_exec[OF inv c at] by (auto simp: detached_def exec_bound_def)
  qed
  have c1: "c < nctxs ?s1" and det1: "\<forall>l \<in> set (waitLanes (ctxs s c)). detached ?s1 (lexec l)"
    and run1: "closeLanes c (waitLanes (ctxs s c)) None ?s1 = (e, s')"
    using c det run by (simp_all add: closeWaitLanes_def Let_def)
  show ?thesis using closeLanes_traced[OF inv1 c1 det1 run1] by simp
qed

lemma closeCopyExecutor_traced:
  assumes inv: "bound_inv D s" and c: "c < nctxs s" and run: "closeCopyExecutor c s = (e, s')"
  shows "bound_inv D s' \<and> (\<exists>l. log_of s' = log_of s @ l \<and> refs l = 0) \<and> nctxs s' = nctxs s \<and> gdriver s' = gdriver s \<and>
     nexttid s' = nexttid s \<and> ctxs s' = (ctxs s)(c := (ctxs s c)\<lparr>copyExec := None\<rparr>)"
proof -
  let ?s1 = "setctx c ((ctxs s c)\<lparr>copyExec := None\<rparr>) s"
  have sub: "exec_at (ctxs s c') r = Some y \<and> (c', r) \<noteq> (c, Copy)" if "exec_at (ctxs ?s1 c') r = Some y" for c' r y
    using that by (cases r; cases "c' = c") (auto split: if_splits)
  have inv1: "bound_inv D ?s1"
    by (rule bound_inv_shrink[OF inv, of _ "[]"]) (use sub in auto)
  show ?thesis
  proof (cases "copyExec (ctxs s c)")
    case None
    then show ?thesis using run inv1 by (auto simp: closeCopyExecutor_def Let_def)
  next
    case (Some x)
    then have at: "exec_at (ctxs s c) Copy = Some x" by simp
    have "xtid y \<noteq> xtid x" if "c' < nctxs s" "exec_at (ctxs ?s1 c') r = Some y" for c' r y
    proof
      assume "xtid y = xtid x"
      then have "c' = c \<and> r = Copy" using inv sub[OF that(2)] at that(1) c unfolding bound_inv_def by metis
      then show False using sub[OF that(2)] by blast
    qed
    then have det: "detached ?s1 x" using bound_inv_exec[OF inv c at] by (auto simp: detached_def exec_bound_def)
    obtain e1 x1 n s2 where cl: "closeExecutor (Some (traced D)) x ?s1 = (e1, x1, n, s2)" by (metis surj_pair)
    have s': "s' = s2" using run Some cl bound_inv_driver[OF inv c] by (simp add: closeCopyExecutor_def Let_def)
    have fr: "ctxs s2 = ctxs ?s1" "nctxs s2 = nctxs s" "gdriver s2 = gdriver s" "nexttid s2 = nexttid s"
      using closeExecutor_log[OF cl] det by (simp_all add: detached_def)
    show ?thesis using close_detached[OF inv1 det cl, of s2] fr s' by simp
  qed
qed


lemma recover_traced:
  assumes inv: "bound_inv D s" and c: "c < nctxs s" and cl: "\<not> closed (ctxs s c)"
    and run: "recoverCommandExecutor c s = (e, s')"
  shows "bound_inv D s' \<and> (\<exists>l. log_of s' = log_of s @ l \<and> refs l = 0) \<and> nctxs s' = nctxs s \<and> gdriver s' = gdriver s \<and>
     (\<forall>c'. c' \<noteq> c \<longrightarrow> ctxs s' c' = ctxs s c') \<and>
     (case e of Some err \<Rightarrow> ctxs s' c = (ctxs s c)\<lparr>commandErr := Some err\<rparr>
      | None \<Rightarrow> \<exists>x. ctxs s' c = (ctxs s c)\<lparr>exec := x, commandErr := None\<rparr> \<and> (exec (ctxs s c) \<noteq> None \<longrightarrow> x \<noteq> None))"
proof (cases "commandErr (ctxs s c)")
  case None
  then show ?thesis using run inv by (auto simp: recoverCommandExecutor_def Let_def intro!: exI[of _ "exec (ctxs s c)"])
next
  case (Some ce)
  let ?s1 = "s\<lparr>nexttid := Suc (nexttid s)\<rparr>"
  obtain r1 x1 n1 s2 where d: "xrun (Do (CtxSetCurrent (Some (traced D)) (raw (ctxs s c)))) (newExec (nexttid s)) ?s1 = (r1, x1, n1, s2)"
    by (metis surj_pair)
  note fr = xrun_frame[OF d] and f = Do_setcurrent[OF d]
  obtain l where l: "log_of s2 = log_of s @ l" "\<forall>e \<in> set l. fst e = nexttid s \<and> sym_of e = ''cuCtxSetCurrent''"
    using f by auto
  have rl: "refs l = 0" by (rule refs_other) (use l(2) in auto)
  have drv: "driver (ctxs s c) = Some (traced D)" by (rule bound_inv_driver[OF inv c])
  show ?thesis
  proof (cases r1)
    case (Inl err)
    obtain q1 q2 q3 s3 where clo: "xrun xClose (xRetire x1) s2 = (q1, q2, q3, s3)" by (metis surj_pair)
    have "xqueue (xRetire x1) = []" using f by (simp add: xRetire_def newExec_def)
    then have w: "world s3 = world s2" using xClose_newExec[OF clo] by simp
    have s': "e = Some err" "s' = setctx c ((ctxs s c)\<lparr>commandErr := Some err\<rparr>) s3"
      using run Some d Inl clo drv fr xrun_frame[OF clo]
      by (auto simp: recoverCommandExecutor_def startExecutor_def Let_def)
    have ats: "exec_at (ctxs s c') r = Some y" if "exec_at (ctxs s' c') r = Some y" for c' r y
      using that s' fr xrun_frame[OF clo] Some by (cases r; cases "c' = c") (auto split: if_splits)
    have "bound_inv D s'"
      by (rule bound_inv_fresh[OF inv, of s' l c Cmd])
        (use s' w l fr xrun_frame[OF clo] bound_inv_driver[OF inv] ats in auto)
    then show ?thesis using s' w l rl fr xrun_frame[OF clo] by auto
  next
    case (Inr u)
    have s': "e = None" "s' = setctx c ((ctxs s c)\<lparr>exec := Some x1, commandErr := None\<rparr>) s2"
      using run Some d Inr drv fr by (auto simp: recoverCommandExecutor_def startExecutor_def Let_def)
    have ats: "c' < nctxs s \<and> exec_at (ctxs s c') r = Some y \<and> raw (ctxs s' c') = raw (ctxs s c') \<or>
      c' = c \<and> r = Cmd \<and> y = newExec (nexttid s) \<and> cur (log_of s') (nexttid s) = raw (ctxs s' c)"
      if "c' < nctxs s'" "exec_at (ctxs s' c') r = Some y" for c' r y
      using that s' fr f Inr cl by (cases r; cases "c' = c") (auto split: if_splits)
    have "bound_inv D s'"
      by (rule bound_inv_fresh[OF inv _ _ _ _ _ ats, of l])
        (use s' l fr bound_inv_driver[OF inv] in auto)
    then show ?thesis using s' l rl fr by (auto intro!: exI[of _ "Some x1"])
  qed
qed

lemma close_job_log:
  assumes "close_job (Some (traced D)) h rw t w = (r, w')"
  shows "\<exists>ce re rse l. r = Inr (ce, re, rse) \<and> snd w' = snd w @ l \<and> (\<forall>e \<in> set l. fst e = t) \<and>
     refs l = (if re = None then - 1 else 0) \<and> (re \<noteq> None \<and> rse = None \<longrightarrow> cur (snd w') t = rw)"
proof -
  obtain r1 w1 where 1: "CtxSetCurrent (Some (traced D)) 0 t w = (r1, w1)" by (metis surj_pair)
  obtain r2 w2 where 2: "PrimaryCtxRelease (Some (traced D)) h t w1 = (r2, w2)" by (metis surj_pair)
  have "\<exists>l. snd w1 = snd w @ l \<and> (\<forall>e \<in> set l. fst e = t) \<and> refs l = 0"
    using CtxSetCurrent_traced[OF 1] by (auto simp: refs_one)
  then obtain l1 where l1: "snd w1 = snd w @ l1" "\<forall>e \<in> set l1. fst e = t" "refs l1 = 0" by blast
  have "\<exists>l. snd w2 = snd w1 @ l \<and> (\<forall>e \<in> set l. fst e = t) \<and> refs l = (if err_of r2 = None then - 1 else 0)"
    using Release_traced[OF 2] by (cases r2) (auto simp: refs_one err_of_def)
  then obtain l2 where l2: "snd w2 = snd w1 @ l2" "\<forall>e \<in> set l2. fst e = t" "refs l2 = (if err_of r2 = None then - 1 else 0)"
    by blast
  show ?thesis
  proof (cases "err_of r2")
    case None
    then show ?thesis using assms 1 2 l1 l2
      by (intro exI[of _ "err_of r1"] exI[of _ None] exI[of _ "l1 @ l2"]) (auto simp: close_job_def)
  next
    case (Some e)
    obtain r3 w3 where 3: "CtxSetCurrent (Some (traced D)) rw t w2 = (r3, w3)" by (metis surj_pair)
    have "\<exists>l. snd w3 = snd w2 @ l \<and> (\<forall>e \<in> set l. fst e = t) \<and> refs l = 0 \<and> (err_of r3 = None \<longrightarrow> cur (snd w3) t = rw)"
      using CtxSetCurrent_traced[OF 3]
      by (cases r3) (auto simp: refs_one err_of_def cur_snoc sets_current_def, auto simp: call_defs)
    then obtain l3 where "snd w3 = snd w2 @ l3" "\<forall>e \<in> set l3. fst e = t" "refs l3 = 0" "err_of r3 = None \<longrightarrow> cur (snd w3) t = rw"
      by (elim exE conjE) (rule that)
    then show ?thesis using assms 1 2 3 l1 l2 Some
      by (intro exI[of _ "err_of r1"] exI[of _ "Some e"] exI[of _ "err_of r3"] exI[of _ "l1 @ l2 @ l3"])
        (auto simp: close_job_def)
  qed
qed

lemma of_err_Inr [simp]: "of_err e = Inr () \<longleftrightarrow> e = None"
  by (cases e) (simp_all add: of_err_def)

text \<open>
  The teardown on the command executor: what it leaves of the context. \<open>keep\<close> says that the executor
  is still attached and bound.
\<close>

lemma finishClose_result:
  assumes "finishClose c syncErr copyErr x (ce, re, rse) s = (r, s')" "xqueue x = []"
  shows "world s' = world s \<and> nctxs s' = nctxs s \<and> gdriver s' = gdriver s \<and> nexttid s' = nexttid s \<and>
     (\<forall>c'. c' \<noteq> c \<longrightarrow> ctxs s' c' = ctxs s c') \<and> (r = Inr () \<longrightarrow> re = None) \<and>
     (if re = None then \<exists>x'. ctxs s' c = (ctxs s c)\<lparr>exec := Some x', closed := True\<rparr> \<and> xclosed x'
      else if rse = None then ctxs s' c = (ctxs s c)\<lparr>exec := Some x\<rparr>
      else \<exists>x'. ctxs s' c = (ctxs s c)\<lparr>exec := Some x', commandErr := rse\<rparr>)"
proof -
  have close: "world s1 = world s \<and> x1 = y\<lparr>xclosed := True\<rparr> \<and> r1 = None \<and> ctxs s1 = ctxs s \<and> nctxs s1 = nctxs s \<and>
      gdriver s1 = gdriver s \<and> nexttid s1 = nexttid s"
    if "xrun xClose y s = (r1, x1, n1, s1)" "xqueue y = []" for y r1 x1 n1 s1
    using xClose_newExec[OF that] xrun_frame[OF that(1)] by simp
  consider "re = None" | "re \<noteq> None" "rse = None" | "re \<noteq> None" "rse \<noteq> None" by blast
  then show ?thesis
  proof cases
    case 1
    let ?y = "if ce \<noteq> None then xRetire x else x"
    obtain r1 x1 n1 s1 where x: "xrun xClose ?y s = (r1, x1, n1, s1)" by (metis surj_pair)
    have "xqueue ?y = []" using assms(2) by (simp add: xRetire_def)
    note cl = close[OF x this]
    have "s' = setctx c ((ctxs s1 c)\<lparr>exec := Some x1, closed := True\<rparr>) s1"
      using assms(1) 1 x by (simp add: finishClose_def split: if_splits)
    then show ?thesis using 1 cl by auto
  next
    case 2
    then show ?thesis using assms(1) by (auto simp: finishClose_def)
  next
    case 3
    obtain r1 x1 n1 s1 where x: "xrun xClose (xRetire x) s = (r1, x1, n1, s1)" by (metis surj_pair)
    have "xqueue (xRetire x) = []" using assms(2) by (simp add: xRetire_def)
    note cl = close[OF x this]
    have "s' = setctx c ((ctxs s1 c)\<lparr>exec := Some x1, commandErr := rse\<rparr>) s1"
      "r = of_err (errors_Join [syncErr, copyErr, ce, re, rse])"
      using assms(1) 3 x by (simp_all add: finishClose_def)
    then show ?thesis using 3 cl by auto
  qed
qed

text \<open>What only the thread of the command executor logged, and at most emptied its queue, keeps the invariant.\<close>

lemma bound_inv_one_thread:
  assumes inv: "bound_inv D s" and c: "c < nctxs s" and at: "exec_at (ctxs s c) Cmd = Some x"
    and log: "log_of s' = log_of s @ l" "\<forall>e \<in> set l. fst e = xtid x"
    and same: "nctxs s' = nctxs s" "gdriver s' = gdriver s" "nexttid s' = nexttid s"
      "\<And>c'. driver (ctxs s' c') = driver (ctxs s c') \<and> raw (ctxs s' c') = raw (ctxs s c')"
    and ats: "\<And>c' r' y. exec_at (ctxs s' c') r' = Some y \<Longrightarrow> exec_at (ctxs s c') r' = Some y \<and> (c', r') \<noteq> (c, Cmd) \<or>
      c' = c \<and> r' = Cmd \<and> y = x\<lparr>xqueue := []\<rparr> \<and> cur (log_of s') (xtid x) = raw (ctxs s c)"
  shows "bound_inv D s'"
proof -
  have "exec_bound s' (raw (ctxs s' c')) y" if y: "exec_at (ctxs s' c') r' = Some y" "c' < nctxs s" for c' r' y
  proof (cases "(c', r') = (c, Cmd)")
    case True
    then show ?thesis using ats[OF y(1)] same bound_inv_exec[OF inv c at] by (auto simp: exec_bound_def)
  next
    case False
    then have at': "exec_at (ctxs s c') r' = Some y" using ats[OF y(1)] by auto
    then have "xtid y \<noteq> xtid x" using inv c at y(2) False unfolding bound_inv_def by metis
    then have "\<forall>e \<in> set l. \<not> sets_current e (xtid y)" using log(2) by (auto simp: sets_current_def)
    then show ?thesis
      using bound_inv_exec[OF inv y(2) at'] log(1) same by (simp add: exec_bound_def cur_append_other)
  qed
  moreover have "c1 = c2 \<and> r1 = r2" if y: "exec_at (ctxs s' c1) r1 = Some y1" "exec_at (ctxs s' c2) r2 = Some y2"
    "c1 < nctxs s" "c2 < nctxs s" "xtid y1 = xtid y2" for c1 c2 r1 r2 y1 y2
  proof -
    obtain z1 where z1: "exec_at (ctxs s c1) r1 = Some z1" "xtid z1 = xtid y1"
      using ats[OF y(1)] at by auto
    obtain z2 where z2: "exec_at (ctxs s c2) r2 = Some z2" "xtid z2 = xtid y2"
      using ats[OF y(2)] at by auto
    show ?thesis using inv y(3-) z1 z2 unfolding bound_inv_def by metis
  qed
  ultimately show ?thesis using inv same unfolding bound_inv_def by simp
qed

lemma teardown_traced:
  assumes inv: "bound_inv D s" and c: "c < nctxs s" and at: "exec_at (ctxs s c) Cmd = Some x"
    and job: "xrun (Do (close_job (Some (traced D)) h (raw (ctxs s c)))) x s = (r1, x1, n, s1)"
    and fin: "(case r1 of Inl e \<Rightarrow> False | Inr res \<Rightarrow> finishClose c syncErr copyErr x1 res s1 = (r, s'))"
  shows "bound_inv D s' \<and> nctxs s' = nctxs s \<and> (\<forall>c'. c' \<noteq> c \<longrightarrow> ctxs s' c' = ctxs s c') \<and>
     waitLanes (ctxs s' c) = waitLanes (ctxs s c) \<and> copyExec (ctxs s' c) = copyExec (ctxs s c) \<and>
     syncActive (ctxs s' c) = syncActive (ctxs s c) \<and>
     (r = Inr () \<longrightarrow> closed (ctxs s' c)) \<and> (closed (ctxs s' c) \<longrightarrow> (\<exists>x. exec (ctxs s' c) = Some x \<and> xclosed x)) \<and>
     (\<exists>l. log_of s' = log_of s @ l \<and> refs l = (if closed (ctxs s' c) then - 1 else 0))"
proof -
  have open_x: "\<not> xclosed x" "queue_neutral x" and ncl: "\<not> closed (ctxs s c)" "commandErr (ctxs s c) = None"
    using bound_inv_exec[OF inv c at] at by (auto simp: exec_bound_def split: if_splits)
  obtain l1 w1 where l1: "snd w1 = log_of s @ l1" "\<forall>e \<in> set l1. neutral_ent (xtid x) e"
    and j: "close_job (Some (traced D)) h (raw (ctxs s c)) (xtid x) w1 = (r1, world s1)" and x1: "x1 = x\<lparr>xqueue := []\<rparr>"
    using Do_drained[OF job open_x] by blast
  obtain ce re rse l2 where r1: "r1 = Inr (ce, re, rse)" and l2: "log_of s1 = snd w1 @ l2" "\<forall>e \<in> set l2. fst e = xtid x"
    and ref: "refs l2 = (if re = None then - 1 else 0)" and rest: "re \<noteq> None \<and> rse = None \<longrightarrow> cur (log_of s1) (xtid x) = raw (ctxs s c)"
    using close_job_log[OF j] by blast
  note fr = xrun_frame[OF job]
  have "finishClose c syncErr copyErr x1 (ce, re, rse) s1 = (r, s')" using fin r1 by simp
  note f = finishClose_result[OF this, unfolded fr]
  have f: "world s' = world s1" "nctxs s' = nctxs s" "gdriver s' = gdriver s" "nexttid s' = nexttid s"
    "\<And>c'. c' \<noteq> c \<Longrightarrow> ctxs s' c' = ctxs s c'" "r = Inr () \<longrightarrow> re = None"
    "if re = None then \<exists>x'. ctxs s' c = (ctxs s c)\<lparr>exec := Some x', closed := True\<rparr> \<and> xclosed x'
      else if rse = None then ctxs s' c = (ctxs s c)\<lparr>exec := Some x1\<rparr>
      else \<exists>x'. ctxs s' c = (ctxs s c)\<lparr>exec := Some x', commandErr := rse\<rparr>"
    using f x1 by simp_all
  have cl: "closed (ctxs s' c) \<longleftrightarrow> re = None" using f(7) ncl by (auto split: if_splits)
  have log: "log_of s' = log_of s @ l1 @ l2" using l1 l2 f(1) by simp
  have tids: "\<forall>e \<in> set (l1 @ l2). fst e = xtid x" using l1(2) l2(2) by (auto simp: neutral_ent_def)
  have kept: "driver (ctxs s' c') = driver (ctxs s c') \<and> raw (ctxs s' c') = raw (ctxs s c')" for c'
    using f(5)[of c'] f(7) by (cases "c' = c") (auto split: if_splits)
  have "exec_at (ctxs s c') r' = Some y \<and> (c', r') \<noteq> (c, Cmd) \<or>
      c' = c \<and> r' = Cmd \<and> y = x\<lparr>xqueue := []\<rparr> \<and> cur (log_of s') (xtid x) = raw (ctxs s c)" if "exec_at (ctxs s' c') r' = Some y" for c' r' y
    using that f(1) f(5)[of c'] f(7) ncl rest x1 by (cases r'; cases "c' = c") (auto split: if_splits)
  then have "bound_inv D s'" by (rule bound_inv_one_thread[OF inv c at log tids f(2-4) kept])
  moreover have "refs (l1 @ l2) = (if closed (ctxs s' c) then - 1 else 0)"
    using refs_neutral[OF l1(2)] ref cl by simp
  moreover have "waitLanes (ctxs s' c) = waitLanes (ctxs s c) \<and> copyExec (ctxs s' c) = copyExec (ctxs s c) \<and>
     syncActive (ctxs s' c) = syncActive (ctxs s c)" "closed (ctxs s' c) \<longrightarrow> (\<exists>x. exec (ctxs s' c) = Some x \<and> xclosed x)"
    using f(7) ncl by (auto split: if_splits)
  ultimately show ?thesis using f cl log by blast
qed

lemma pending_sum: "\<forall>l \<in> set ls. lane_ok 0 l \<Longrightarrow> sum_list (map pending ls) = int (\<Sum>l\<leftarrow>ls. queued_tracked (lexec l))"
  by (induction ls) (auto simp: lane_ok_def)

lemma lanes_inv_sum: "lanes_inv C \<Longrightarrow> syncActive C = int (\<Sum>l\<leftarrow>waitLanes C. queued_tracked (lexec l))"
  using pending_sum[of "waitLanes C"] by (simp add: lanes_inv_def)

text \<open>The state of a context in the open branch of \<^verbatim>\<open>Close\<close>, after the lanes and the copy executor are closed.\<close>

lemma Close_open:
  assumes inv: "bound_inv D s" "lanes_ok s" and c: "c < nctxs s" and ncl: "\<not> closed (ctxs s c)"
    and x: "exec (ctxs s c) \<noteq> None" and dev: "device (ctxs s c) = Some dev"
    and run: "Context_Close (Some c) s = (r, s')"
  shows "bound_inv D s' \<and> lanes_ok s' \<and> (r = Inr () \<longrightarrow> closed (ctxs s' c)) \<and>
     (closed (ctxs s' c) \<longrightarrow> waitLanes (ctxs s' c) = [] \<and> copyExec (ctxs s' c) = None \<and>
        syncActive (ctxs s' c) = 0 \<and> (\<exists>x. exec (ctxs s' c) = Some x \<and> xclosed x)) \<and>
     (\<exists>l. log_of s' = log_of s @ l \<and> refs l = (if closed (ctxs s' c) then - 1 else 0))"
proof -
  obtain e1 s1 where 1: "recoverCommandExecutor c s = (e1, s1)" by fastforce
  note R = recover_traced[OF inv(1) c ncl 1]
  show ?thesis
  proof (cases e1)
    case (Some err)
    then have s': "r = Inl err" "s' = s1" using run 1 ncl x dev by (auto simp: Context_Close_def)
    then have "lanes_ok s'" using R Some inv(2) by (intro lanes_okI[OF inv(2), of _ c]) (auto simp: lanes_ok_def)
    then show ?thesis using s' R Some ncl by auto
  next
    case None
    obtain x1 where C1: "ctxs s1 c = (ctxs s c)\<lparr>exec := Some x1, commandErr := None\<rparr>"
      using R None x by auto
    obtain e2 s2 where 2: "closeWaitLanes c s1 = (e2, s2)" by fastforce
    have c1: "c < nctxs s1" using R c by simp
    have i1: "bound_inv D s1" using R by simp
    note W = closeWaitLanes_traced[OF i1 c1 2]
    obtain e3 s3 where 3: "closeCopyExecutor c s2 = (e3, s3)" by fastforce
    have c2: "c < nctxs s2" and i2: "bound_inv D s2" using W c1 by simp_all
    note P = closeCopyExecutor_traced[OF i2 c2 3]
    have idle: "syncActive (ctxs s c) = int (\<Sum>l\<leftarrow>waitLanes (ctxs s c). queued_tracked (lexec l))"
      using lanes_inv_sum[of "ctxs s c"] inv(2) by (simp add: lanes_ok_def)
    have C3: "ctxs s3 = (ctxs s1)(c := (ctxs s c)\<lparr>exec := Some x1, commandErr := None, waitLanes := [],
        syncActive := 0, copyExec := None\<rparr>)"
      using W P C1 idle by simp
    have i3: "bound_inv D s3" and c3: "c < nctxs s3" using P c2 by simp_all
    have at3: "exec_at (ctxs s3 c) Cmd = Some x1" using C3 ncl by simp
    obtain r4 x4 n4 s4 where 4: "xrun (Do (close_job (Some (traced D)) (handle dev) (raw (ctxs s3 c)))) x1 s3 = (r4, x4, n4, s4)"
      by (metis surj_pair)
    have x1: "\<not> xclosed x1" "queue_neutral x1" using bound_inv_exec[OF i3 c3 at3] by (simp_all add: exec_bound_def)
    obtain w4 where "close_job (Some (traced D)) (handle dev) (raw (ctxs s3 c)) (xtid x1) w4 = (r4, world s4)"
      using Do_drained[OF 4 x1] by blast
    then obtain res where res: "r4 = Inr res" using close_job_log by blast
    have "finishClose c e2 e3 x4 res s4 = (r, s')"
      using run 1 2 3 4 None res ncl x dev C3 bound_inv_driver[OF i3 c3]
      by (auto simp: Context_Close_def Let_def)
    then have fin: "case r4 of Inl e \<Rightarrow> False | Inr res \<Rightarrow> finishClose c e2 e3 x4 res s4 = (r, s')" using res by simp
    note T = teardown_traced[OF i3 c3 at3 4 fin]
    have lanes: "lanes_inv (ctxs s' c)" using T C3 by (simp add: lanes_inv_def)
    have "lanes_ok s'"
      by (rule lanes_okI[OF inv(2), of _ c]) (use T C3 R lanes in auto)
    moreover obtain l1 l2 l3 where "log_of s1 = log_of s @ l1" "refs l1 = 0" "log_of s2 = log_of s1 @ l2" "refs l2 = 0"
      "log_of s3 = log_of s2 @ l3" "refs l3 = 0"
      using R W P by blast
    moreover obtain l4 where "log_of s' = log_of s3 @ l4" "refs l4 = (if closed (ctxs s' c) then - 1 else 0)"
      using T by blast
    ultimately show ?thesis using T C3 by auto
  qed
qed

subsection \<open>What contexts guarantee\<close>

text \<open>A driver where every call succeeds, for concrete runs.\<close>

definition okDriver :: "unit Driver" where
  "okDriver = \<lparr>bound = (\<lambda>_. True), invoke = (\<lambda>c t w. ((CUDA_SUCCESS, \<lparr>o0 = 7, o1 = 9, obuf = []\<rparr>), w))\<rparr>"

definition zeroContext :: "'w Context" where
  "zeroContext = \<lparr>device = None, driver = None, raw = 0, exec = None, copyExec = None, waitLanes = [],
     syncActive = 0, commandErr = None, closed = False\<rparr>"

definition sys0 :: "'w Driver \<Rightarrow> 'w \<Rightarrow> 'w sys" where
  "sys0 D w = \<lparr>ctxs = (\<lambda>_. zeroContext), nctxs = 0, gdriver = Some D, world = w, clock = 0, nexttid = 1\<rparr>"

definition dev0 :: Device where
  "dev0 = \<lparr>ordinal = 0, handle = 0\<rparr>"

abbreviation start :: "unit tw sys" where
  "start \<equiv> sys0 (traced okDriver) ((), [])"

definition opened :: "unit tw sys" where
  "opened = snd (Primary (Some dev0) start)"

lemma start_inv: "bound_inv D (sys0 (traced D) w)" "lanes_ok (sys0 D' w')"
  by (simp_all add: bound_inv_def sys0_def lanes_ok_def lanes_inv_def zeroContext_def)

lemma okDriver_bound [simp]: "bound okDriver nm"
  by (simp add: okDriver_def)

lemma okDriver_check: "checked_call (traced okDriver) c (check nm) f t w =
    (Inr (f \<lparr>o0 = 7, o1 = 9, obuf = []\<rparr>), (fst w, snd w @ [(t, c, CUDA_SUCCESS)]))"
  by (simp add: checked_call_traced okDriver_def Let_def check_def)

lemma traced_bound [simp]: "bound (traced D) = bound D"
  by (simp add: traced_def)

lemmas eval_ctx = Primary_def startExecutor_def primary_job_def sys0_def dev0_def newContext_def
  xrun_def xops newExec_def run_queue_def wrapper_defs required_def okDriver_check zeroContext_def

lemma opened_eq:
  "opened = (setctx 0 (newContext dev0 (Some (traced okDriver)) 7 (newExec 1)) start)\<lparr>nctxs := 1,
     world := ((), [(1, CuDevicePrimaryCtxRetain 0, CUDA_SUCCESS), (1, CuCtxSetCurrent 7, CUDA_SUCCESS)]),
     clock := 3, nexttid := 2\<rparr>"
  by (simp add: opened_def eval_ctx setctx_def)

lemma opened_inv: "bound_inv okDriver opened" "lanes_ok opened" "nctxs opened = 1"
proof -
  have "Primary (Some dev0) start = (fst (Primary (Some dev0) start), opened)" by (simp add: opened_def)
  from Primary_traced[OF start_inv(1) _ this] show "bound_inv okDriver opened" by simp
  show "lanes_ok opened" "nctxs opened = 1"
    by (simp_all add: opened_eq lanes_ok_def lanes_inv_def newContext_def sys0_def zeroContext_def)
qed

text \<open>
  C5. Every driver call made through a context runs on a thread where that context is current: whatever the
  driver does, the calls dispatched by \<^verbatim>\<open>doJob\<close>, \<^verbatim>\<open>doCopyJob\<close>, \<^verbatim>\<open>doJobCtx\<close> and \<^verbatim>\<open>doWith\<close> (the command executor, the
  copy executor and the wait lanes, created on demand) follow, on their own thread, a successful
  \<^verbatim>\<open>cuCtxSetCurrent\<close> to that context's handle, and this stays so for the calls that follow. It is
  stated for any job that itself makes no context-management call, on a log of every call.
\<close>

theorem dispatch_on_bound_thread:
  assumes "bound_inv D s" and "c < nctxs s" and "neutral_job job"
    and "s' \<in> {snd (doJob (Some c) ctxo job s), snd (doCopyJob (Some c) ctxo job s),
      snd (doJobCtx (Some c) ctxo job s), snd (doWith (Some c) ctxo job wt br s)}"
  shows "bound_inv D s' \<and> (\<exists>l. log_of s' = log_of s @ l \<and>
     (\<forall>l1 e l2. l = l1 @ e # l2 \<longrightarrow> sym_of e \<notin> mgmt \<longrightarrow> cur (log_of s @ l1) (fst e) = raw (ctxs s c)))"
proof -
  have "bound_step D c s s'"
    using assms doJob_step[OF assms(1-3) prod.collapse[symmetric]] doCopyJob_step[OF assms(1-3) prod.collapse[symmetric]]
      doJobCtx_step[OF assms(1-3) prod.collapse[symmetric]] doWith_step[OF assms(1-3) prod.collapse[symmetric]] by blast
  then show ?thesis unfolding bound_step_def well_bound_def by blast
qed

lemma dispatch_on_bound_thread_witness:
  "\<exists>l. log_of (snd (doCopyJob (Some 0) None (MemAlloc (Some (traced okDriver)) 64) opened)) = log_of opened @ l \<and>
     l = [(2, CuCtxSetCurrent 7, CUDA_SUCCESS), (2, CuMemAlloc 64, CUDA_SUCCESS)] \<and>
     bound_inv okDriver (snd (doCopyJob (Some 0) None (MemAlloc (Some (traced okDriver)) 64) opened))"
proof -
  have "neutral_job (MemAlloc (Some (traced okDriver)) 64)"
    unfolding MemAlloc_def by (rule neutral_guarded) (auto simp: CuMemAlloc_def mgmt_def)
  from dispatch_on_bound_thread[OF opened_inv(1) _ this, of 0 _ None] opened_inv(3)
  have "bound_inv okDriver (snd (doCopyJob (Some 0) None (MemAlloc (Some (traced okDriver)) 64) opened))" by simp
  then show ?thesis
    by (simp add: opened_eq doCopyJob_def copyExecutor_def newExecutor_def on_copy_def ctx_Err_def
        ctx_or_background_def eval_ctx)
qed

text \<open>
  C27. \<^verbatim>\<open>Primary\<close> is balanced: on success exactly one retain of the primary context is outstanding more than before,
  on failure none is, unless the rollback's own release call was refused by the driver. The threads of all
  contexts stay bound.
\<close>

theorem Primary_balanced:
  assumes "bound_inv D s" and "bound D ''cuDevicePrimaryCtxRelease_v2''" and "Primary d s = (r, s')"
  shows "bound_inv D s' \<and> (\<exists>l. log_of s' = log_of s @ l \<and>
     (case r of Inr c \<Rightarrow> refs l = 1 | Inl e \<Rightarrow> refs l = 0 \<or> refs l = 1 \<and> release_failed l))"
  by (rule Primary_traced[OF assms])

lemma Primary_balanced_witness:
  "bound_inv okDriver opened \<and> (\<exists>l. log_of opened = l \<and> refs l = 1)"
proof -
  have "Primary (Some dev0) start = (Inr 0, opened)"
    by (simp add: opened_def eval_ctx)
  from Primary_balanced[OF start_inv(1) _ this] show ?thesis by (simp add: sys0_def)
qed



end
