(* ===== verification/ContextProps.thy ===== *)
theory ContextProps
  imports Lifecycle
begin

section \<open>Guarantees of the dispatchers and of the wait-lane pool\<close>

lemma lanes_inv_newContext [simp]: "lanes_inv (newContext d drv rw x)"
  by (simp add: lanes_inv_def newContext_def)

lemma Primary_lanes: "Primary d s = (r, s') \<Longrightarrow> lanes_ok s \<Longrightarrow> lanes_ok s'"
  by (auto simp: Primary_def startExecutor_def lanes_ok_def xrun_def split: option.splits prod.splits sum.splits)


text \<open>A wait that is abandoned: cancelled at the third observation of its context.\<close>

definition soon :: goctx where
  "soon = \<lparr>deadline = Some 9, cerr = Canceled\<rparr>"

definition waiting :: "unit tw sys" where
  "waiting = snd (doJobCtx (Some 0) (Some soon) (CtxSynchronize (Some (traced okDriver))) opened)"



text \<open>
  C25. A teardown command behind the barrier runs after every earlier wait, even abandoned ones: when \<^verbatim>\<open>doBarrier\<close>
  succeeds, its command ran on the command executor in a state where no wait of the context was active.
\<close>

theorem doBarrier_after_waits:
  assumes "lanes_ok s" and "doBarrier (Some c) ctxo fn s = (Inr r, s')"
  shows "\<exists>s1 x. syncActive (ctxs s1 c) = 0 \<and> (\<forall>l \<in> set (waitLanes (ctxs s1 c)). queued_tracked (lexec l) = 0) \<and>
     exec (ctxs s1 c) = Some x \<and> on_exec c x (DoCtxWait (ctx_or_background ctxo) fn) s1 = (Inr r, s')"
proof -
  obtain x where x: "exec (ctxs s c) = Some x"
    using assms(2) by (auto simp: doBarrier_def doWith_def Let_def split: option.splits)
  obtain s0 s1 u where 0: "ctx_Err (ctx_or_background ctxo) s = (None, s0)"
    and 1: "syncBarrier c (ctx_or_background ctxo) s0 = (Inr u, s1)"
    and r: "on_exec c x (DoCtxWait (ctx_or_background ctxo) fn) s1 = (Inr r, s')"
    using assms(2) x by (auto simp: doBarrier_def doWith_def Let_def
        split: option.splits if_splits prod.splits sum.splits)
  have ok: "lanes_ok s0" by (rule ctx_Err_lanes[OF 0 assms(1)])
  then have i0: "lanes_inv (ctxs s0 c)" by (simp add: lanes_ok_def)
  have act: "syncActive (ctxs s1 c) = 0" by (rule syncBarrier_drains[OF i0 1])
  have "lanes_inv (ctxs s1 c)" using syncBarrier_lanes_ok[OF 1 ok] by (simp add: lanes_ok_def)
  then have "\<forall>l \<in> set (waitLanes (ctxs s1 c)). queued_tracked (lexec l) = 0" using lanes_inv_idle act by blast
  moreover have "exec (ctxs s1 c) = Some x"
    using syncBarrier_exec[OF 1, of c] 0 x by (auto simp: ctx_Err_def)
  ultimately show ?thesis using act r by blast
qed

lemma doBarrier_after_waits_witness:
  "syncActive (ctxs waiting 0) = 1 \<and>
   (\<exists>s1 x. syncActive (ctxs s1 0) = 0 \<and>
     on_exec 0 x (DoCtxWait Background (MemFree (Some (traced okDriver)) 5)) s1 =
       (Inr (), snd (doBarrier (Some 0) None (MemFree (Some (traced okDriver)) 5) waiting)))"
proof -
  have a: "syncActive (ctxs waiting 0) = 1" by code_simp
  have "lanes_ok waiting"
    unfolding waiting_def by (rule doJobCtx_lanes[OF prod.collapse[symmetric] opened_inv(2)])
  moreover have "fst (doBarrier (Some 0) None (MemFree (Some (traced okDriver)) 5) waiting) = Inr ()" by code_simp
  then have "doBarrier (Some 0) None (MemFree (Some (traced okDriver)) 5) waiting =
      (Inr (), snd (doBarrier (Some 0) None (MemFree (Some (traced okDriver)) 5) waiting))"
    by (metis prod.collapse)
  ultimately show ?thesis
    using doBarrier_after_waits[of waiting 0 None] a by (fastforce simp: ctx_or_background_def)
qed

text \<open>
  Choosing a lane: an idle lane is reused; a new one is asked for only while the pool is below its bound and every lane is
  busy; with a full, busy pool the wait goes to a least loaded lane. The chosen lane's counter, and no other, grows by one.
\<close>

theorem lane_choice:
  "case reuseWaitLane lanes of
     (None, lanes') \<Rightarrow> lanes' = lanes \<and> length lanes < maxWaitLanes \<and> \<not> (\<exists>l \<in> set lanes. pending l = 0)
   | (Some i, lanes') \<Rightarrow> i < length lanes \<and> lanes' = lanes[i := (lanes ! i)\<lparr>pending := pending (lanes ! i) + 1\<rparr>] \<and>
       (if \<exists>l \<in> set lanes. pending l = 0 then pending (lanes ! i) = 0
        else maxWaitLanes \<le> length lanes \<and> \<not> (\<exists>l \<in> set lanes. pending l < pending (lanes ! i)))"
  using reuseWaitLane_spec[of lanes] nth_mem[of _ lanes]
  by (auto split: prod.splits option.splits)

text \<open>
  A context that is nil, uninitialised, closed or failed, or a caller whose context is already cancelled, gets an
  error from every dispatcher and the driver is not called; a nil context gives \<^verbatim>\<open>ErrNilContext\<close>, a closed one \<^verbatim>\<open>ErrContextClosed\<close>,
  a failed one its sticky command error.
\<close>

theorem unusable_context_no_driver_call:
  assumes "\<not> usable cp ctxo s"
    and "(r, s') \<in> {doJob cp ctxo job s, doCopyJob cp ctxo job s, doCopyWait cp ctxo job s, doJobCtx cp ctxo job s, doWith cp ctxo job wt br s}"
  shows "world s' = world s \<and> (case r of Inr x \<Rightarrow> False | Inl e \<Rightarrow> (case cp of None \<Rightarrow> e = ErrNilContext | Some c \<Rightarrow>
     (if exec (ctxs s c) = None then e = ErrNilContext else if closed (ctxs s c) then e = ErrContextClosed
      else e = cerr (ctx_or_background ctxo) \<or> commandErr (ctxs s c) = Some e)))"
proof (cases cp)
  case None
  then show ?thesis
    using assms(2) cmd_job.nil_ctx[of ctxo job s] copy_job.nil_ctx[of ctxo job s] wait_job.nil_ctx[of ctxo job s]
      cmd_with.nil_ctx[of ctxo job wt br s] by (auto simp: doCopyWait_eq)
next
  case (Some c)
  show ?thesis
  proof (cases "exec (ctxs s c) = None \<or> closed (ctxs s c)")
    case True
    then show ?thesis
      using assms(2) Some cmd_job.zero_ctx[of s c ctxo job] copy_job.zero_ctx[of s c ctxo job] wait_job.zero_ctx[of s c ctxo job]
        cmd_with.zero_ctx[of s c ctxo job wt br] cmd_job.closed_ctx[of s c ctxo job] copy_job.closed_ctx[of s c ctxo job]
        wait_job.closed_ctx[of s c ctxo job] cmd_with.closed_ctx[of s c ctxo job wt br]
      by (cases "exec (ctxs s c)") (auto simp: doCopyWait_eq)
  next
    case False
    then have open_c: "exec (ctxs s c) \<noteq> None" "\<not> closed (ctxs s c)" by auto
    show ?thesis
    proof (cases "canceled (ctx_or_background ctxo) (clock s)")
      case True
      then show ?thesis
        using assms(2) Some open_c cmd_job.canceled_ctx[OF open_c True, of job] copy_job.canceled_ctx[OF open_c True, of job]
          wait_job.canceled_ctx[OF open_c True, of job] cmd_with.canceled_ctx[OF open_c True, of job wt br]
        by (auto simp: doCopyWait_eq)
    next
      case False
      then obtain ce where ce: "commandErr (ctxs s c) = Some ce"
        using assms(1) Some open_c by (auto simp: usable_def)
      then show ?thesis
        using assms(2) Some open_c cmd_job.failed_ctx[OF open_c ce False, of job] copy_job.failed_ctx[OF open_c ce False, of job]
          wait_job.failed_ctx[OF open_c ce False, of job] cmd_with.failed_ctx[OF open_c ce False, of job wt br]
        by (auto simp: doCopyWait_eq)
    qed
  qed
qed

lemma unusable_context_no_driver_call_witness:
  "doJob (Some 0) None (CtxSynchronize (Some (traced okDriver))) start =
     (Inl ErrNilContext, snd (doJob (Some 0) None (CtxSynchronize (Some (traced okDriver))) start)) \<and>
   log_of (snd (doJob (Some 0) None (CtxSynchronize (Some (traced okDriver))) start)) = []"
proof -
  let ?d = "doJob (Some 0) None (CtxSynchronize (Some (traced okDriver))) start"
  have u: "\<not> usable (Some 0) None start" "exec (ctxs start 0) = None" "log_of start = []"
    by (simp_all add: usable_def sys0_def zeroContext_def)
  have "(fst ?d, snd ?d) \<in> {doJob (Some 0) None (CtxSynchronize (Some (traced okDriver))) start,
      doCopyJob (Some 0) None (CtxSynchronize (Some (traced okDriver))) start,
      doCopyWait (Some 0) None (CtxSynchronize (Some (traced okDriver))) start,
      doJobCtx (Some 0) None (CtxSynchronize (Some (traced okDriver))) start,
      doWith (Some 0) None (CtxSynchronize (Some (traced okDriver))) True True start}" by simp
  from unusable_context_no_driver_call[OF u(1) this] have "world (snd ?d) = world start" "fst ?d = Inl ErrNilContext"
    using u(2) by (auto split: sum.splits)
  then show ?thesis using u(3) by (simp add: prod_eq_iff)
qed

end
