(* ===== verification/Dispatch.thy ===== *)
theory Dispatch
  imports Context
begin

section \<open>Pooled operations and their dispatch\<close>

text \<open>
  \<^verbatim>\<open>cuda/dispatch.go\<close> and \<^verbatim>\<open>cuda/event_dispatch.go\<close>: the operations a context submits to its executors without
  a closure. An operation object comes from a \<^verbatim>\<open>sync.Pool\<close>: it is a new one or any object put
  back earlier, with whatever its fields held then. The object handed out by the pool is therefore an argument of
  the definitions, and \<open>pooled_op_equiv\<close> shows that it never matters.

  A job that copies to host memory returns the bytes it wrote; every other job returns no bytes.
\<close>

definition no_bytes :: "('w, unit) drv \<Rightarrow> ('w, u8 list) drv" where
  "no_bytes m = andThen m (\<lambda>_. ret [])"

subsection \<open>Copies and memsets\<close>

type_synonym memOpKind = u8

definition opHtoD :: memOpKind where "opHtoD = 0"
definition opDtoH :: memOpKind where "opDtoH = 1"
definition opDtoD :: memOpKind where "opDtoD = 2"
definition opHtoDAsync :: memOpKind where "opHtoDAsync = 3"
definition opDtoHAsync :: memOpKind where "opDtoHAsync = 4"
definition opDtoDAsync :: memOpKind where "opDtoDAsync = 5"
definition opMemset8 :: memOpKind where "opMemset8 = 6"
definition opMemset16 :: memOpKind where "opMemset16 = 7"
definition opMemset32 :: memOpKind where "opMemset32 = 8"
definition opMemset8Async :: memOpKind where "opMemset8Async = 9"
definition opMemset16Async :: memOpKind where "opMemset16Async = 10"
definition opMemset32Async :: memOpKind where "opMemset32Async = 11"

lemmas memOpKind_defs = opHtoD_def opDtoH_def opDtoD_def opHtoDAsync_def opDtoHAsync_def opDtoDAsync_def
  opMemset8_def opMemset16_def opMemset32_def opMemset8Async_def opMemset16Async_def opMemset32Async_def

record 'w memOp =
  mo_driver :: "'w Driver option"
  mo_dst :: u64
  mo_src :: u64
  mo_host :: hostptr
  mo_n :: u64
  mo_val :: u32
  mo_stream :: u64
  mo_kind :: memOpKind

definition new_memOp :: "'w memOp" where
  "new_memOp = \<lparr>mo_driver = None, mo_dst = 0, mo_src = 0, mo_host = HNil, mo_n = 0, mo_val = 0,
     mo_stream = 0, mo_kind = 0\<rparr>"

definition memOp_Run :: "'w memOp \<Rightarrow> ('w, u8 list) drv" where
  "memOp_Run m =
     (if mo_kind m = opHtoD then no_bytes (MemcpyHtoD (mo_driver m) (mo_dst m) (mo_host m) (mo_n m))
      else if mo_kind m = opDtoH then MemcpyDtoH (mo_driver m) (mo_host m) (mo_src m) (mo_n m)
      else if mo_kind m = opDtoD then no_bytes (MemcpyDtoD (mo_driver m) (mo_dst m) (mo_src m) (mo_n m))
      else if mo_kind m = opHtoDAsync then
        no_bytes (MemcpyHtoDAsync (mo_driver m) (mo_dst m) (mo_host m) (mo_n m) (mo_stream m))
      else if mo_kind m = opDtoHAsync then
        no_bytes (MemcpyDtoHAsync (mo_driver m) (mo_host m) (mo_src m) (mo_n m) (mo_stream m))
      else if mo_kind m = opDtoDAsync then
        no_bytes (MemcpyDtoDAsync (mo_driver m) (mo_dst m) (mo_src m) (mo_n m) (mo_stream m))
      else if mo_kind m = opMemset8 then
        no_bytes (MemsetD8 (mo_driver m) (mo_dst m) (ucast (mo_val m)) (mo_n m))
      else if mo_kind m = opMemset16 then
        no_bytes (MemsetD16 (mo_driver m) (mo_dst m) (ucast (mo_val m)) (mo_n m))
      else if mo_kind m = opMemset32 then
        no_bytes (MemsetD32 (mo_driver m) (mo_dst m) (mo_val m) (mo_n m))
      else if mo_kind m = opMemset8Async then
        no_bytes (MemsetD8Async (mo_driver m) (mo_dst m) (ucast (mo_val m)) (mo_n m) (mo_stream m))
      else if mo_kind m = opMemset16Async then
        no_bytes (MemsetD16Async (mo_driver m) (mo_dst m) (ucast (mo_val m)) (mo_n m) (mo_stream m))
      else no_bytes (MemsetD32Async (mo_driver m) (mo_dst m) (mo_val m) (mo_n m) (mo_stream m)))"

text \<open>\<^verbatim>\<open>recycle\<close> drops the host pointer before the object goes back to the pool.\<close>

definition memOp_recycle :: "'w memOp \<Rightarrow> 'w memOp" where
  "memOp_recycle m = m\<lparr>mo_host := HNil\<rparr>"

text \<open>\<^verbatim>\<open>run\<close> also returns the object as it goes back to the pool.\<close>

definition run_memOp :: "nat \<Rightarrow> goctx option \<Rightarrow> 'w memOp \<Rightarrow> 'w sys \<Rightarrow> ((go_error + u8 list) \<times> 'w sys) \<times> 'w memOp" where
  "run_memOp c ctx m s = (let m1 = m\<lparr>mo_driver := driver (ctxs s c)\<rparr>;
     res = (if mo_kind m1 = opHtoD \<or> mo_kind m1 = opDtoH \<or> mo_kind m1 = opDtoD
            then doCopyJob (Some c) ctx (memOp_Run m1) s
            else doJob (Some c) ctx (memOp_Run m1) s)
     in (res, memOp_recycle m1))"

definition memcpyHtoD :: "'w memOp \<Rightarrow> nat \<Rightarrow> goctx option \<Rightarrow> u64 \<Rightarrow> hostptr \<Rightarrow> u64 \<Rightarrow> ('w, u8 list) op" where
  "memcpyHtoD m c ctx dst host n s =
     fst (run_memOp c ctx (m\<lparr>mo_kind := opHtoD, mo_dst := dst, mo_host := host, mo_n := n\<rparr>) s)"

definition memcpyDtoH :: "'w memOp \<Rightarrow> nat \<Rightarrow> goctx option \<Rightarrow> hostptr \<Rightarrow> u64 \<Rightarrow> u64 \<Rightarrow> ('w, u8 list) op" where
  "memcpyDtoH m c ctx host src n s =
     fst (run_memOp c ctx (m\<lparr>mo_kind := opDtoH, mo_host := host, mo_src := src, mo_n := n\<rparr>) s)"

definition memcpyDtoD :: "'w memOp \<Rightarrow> nat \<Rightarrow> goctx option \<Rightarrow> u64 \<Rightarrow> u64 \<Rightarrow> u64 \<Rightarrow> ('w, u8 list) op" where
  "memcpyDtoD m c ctx dst src n s =
     fst (run_memOp c ctx (m\<lparr>mo_kind := opDtoD, mo_dst := dst, mo_src := src, mo_n := n\<rparr>) s)"

definition memcpyHtoDAsync :: "'w memOp \<Rightarrow> nat \<Rightarrow> goctx option \<Rightarrow> u64 \<Rightarrow> hostptr \<Rightarrow> u64 \<Rightarrow> u64 \<Rightarrow> ('w, u8 list) op" where
  "memcpyHtoDAsync m c ctx dst host n stream s = fst (run_memOp c ctx
     (m\<lparr>mo_kind := opHtoDAsync, mo_dst := dst, mo_host := host, mo_n := n, mo_stream := stream\<rparr>) s)"

definition memcpyDtoHAsync :: "'w memOp \<Rightarrow> nat \<Rightarrow> goctx option \<Rightarrow> hostptr \<Rightarrow> u64 \<Rightarrow> u64 \<Rightarrow> u64 \<Rightarrow> ('w, u8 list) op" where
  "memcpyDtoHAsync m c ctx host src n stream s = fst (run_memOp c ctx
     (m\<lparr>mo_kind := opDtoHAsync, mo_host := host, mo_src := src, mo_n := n, mo_stream := stream\<rparr>) s)"

definition memcpyDtoDAsync :: "'w memOp \<Rightarrow> nat \<Rightarrow> goctx option \<Rightarrow> u64 \<Rightarrow> u64 \<Rightarrow> u64 \<Rightarrow> u64 \<Rightarrow> ('w, u8 list) op" where
  "memcpyDtoDAsync m c ctx dst src n stream s = fst (run_memOp c ctx
     (m\<lparr>mo_kind := opDtoDAsync, mo_dst := dst, mo_src := src, mo_n := n, mo_stream := stream\<rparr>) s)"

definition memsetKind :: "memOpKind \<Rightarrow> u64 \<Rightarrow> memOpKind" where
  "memsetKind base siz = (if siz = 1 then base else if siz = 2 then base + 1 else base + 2)"

definition memset :: "'w memOp \<Rightarrow> nat \<Rightarrow> goctx option \<Rightarrow> u64 \<Rightarrow> u32 \<Rightarrow> u64 \<Rightarrow> u64 \<Rightarrow> ('w, u8 list) op" where
  "memset m c ctx dst val n siz s = fst (run_memOp c ctx
     (m\<lparr>mo_kind := memsetKind opMemset8 siz, mo_dst := dst, mo_val := val, mo_n := n\<rparr>) s)"

definition memsetAsync :: "'w memOp \<Rightarrow> nat \<Rightarrow> goctx option \<Rightarrow> u64 \<Rightarrow> u32 \<Rightarrow> u64 \<Rightarrow> u64 \<Rightarrow> u64 \<Rightarrow> ('w, u8 list) op" where
  "memsetAsync m c ctx dst val n siz stream s = fst (run_memOp c ctx
     (m\<lparr>mo_kind := memsetKind opMemset8Async siz, mo_dst := dst, mo_val := val, mo_n := n,
       mo_stream := stream\<rparr>) s)"

subsection \<open>Synchronisation, queries, records and waits\<close>

type_synonym syncOpKind = u8

definition opStreamSync :: syncOpKind where "opStreamSync = 0"
definition opStreamQuery :: syncOpKind where "opStreamQuery = 1"
definition opStreamWaitEvent :: syncOpKind where "opStreamWaitEvent = 2"
definition opCtxSync :: syncOpKind where "opCtxSync = 3"
definition opEventRecord :: syncOpKind where "opEventRecord = 4"
definition opEventQuery :: syncOpKind where "opEventQuery = 5"
definition opEventSync :: syncOpKind where "opEventSync = 6"

lemmas syncOpKind_defs = opStreamSync_def opStreamQuery_def opStreamWaitEvent_def opCtxSync_def
  opEventRecord_def opEventQuery_def opEventSync_def

record 'w syncOp =
  so_driver :: "'w Driver option"
  so_stream :: u64
  so_event :: u64
  so_flags :: u32
  so_kind :: syncOpKind

definition syncOp_Run :: "'w syncOp \<Rightarrow> ('w, unit) drv" where
  "syncOp_Run m =
     (if so_kind m = opStreamSync then StreamSynchronize (so_driver m) (so_stream m)
      else if so_kind m = opStreamQuery then StreamQuery (so_driver m) (so_stream m)
      else if so_kind m = opStreamWaitEvent then
        StreamWaitEvent (so_driver m) (so_stream m) (so_event m) (so_flags m)
      else if so_kind m = opCtxSync then CtxSynchronize (so_driver m)
      else if so_kind m = opEventRecord then EventRecord (so_driver m) (so_event m) (so_stream m)
      else if so_kind m = opEventQuery then EventQuery (so_driver m) (so_event m)
      else EventSynchronize (so_driver m) (so_event m))"

text \<open>\<^verbatim>\<open>newSyncOp\<close> overwrites every field of the pooled object.\<close>

definition newSyncOp :: "'w Driver option \<Rightarrow> syncOpKind \<Rightarrow> u64 \<Rightarrow> u64 \<Rightarrow> u32 \<Rightarrow> 'w syncOp" where
  "newSyncOp d kind stream event flags = \<lparr>so_driver = d, so_stream = stream, so_event = event,
     so_flags = flags, so_kind = kind\<rparr>"

definition Context_Synchronize :: "nat option \<Rightarrow> goctx option \<Rightarrow> ('w, unit) op" where
  "Context_Synchronize cp ctx s = (case cp of
     None \<Rightarrow> (Inl ErrNilContext, s)
   | Some c \<Rightarrow> doJobCtx cp ctx (syncOp_Run (newSyncOp (driver (ctxs s c)) opCtxSync 0 0 0)) s)"

subsection \<open>Two- and three-dimensional copies\<close>

text \<open>The descriptor is copied into the pooled object, which is cleared before it goes back.\<close>

definition memcpy2D :: "nat \<Rightarrow> goctx option \<Rightarrow> Memcpy2D_desc \<Rightarrow> ('w, u8 list) op" where
  "memcpy2D c ctx desc s = doCopyJob (Some c) ctx (Memcpy2D (driver (ctxs s c)) desc) s"

definition memcpy3D :: "nat \<Rightarrow> goctx option \<Rightarrow> Memcpy3D_desc \<Rightarrow> ('w, u8 list) op" where
  "memcpy3D c ctx desc s = doCopyJob (Some c) ctx (Memcpy3D (driver (ctxs s c)) desc) s"

definition memcpy2DAsync :: "nat \<Rightarrow> goctx option \<Rightarrow> Memcpy2D_desc \<Rightarrow> u64 \<Rightarrow> ('w, unit) op" where
  "memcpy2DAsync c ctx desc stream s =
     doJob (Some c) ctx (Memcpy2DAsync (driver (ctxs s c)) desc stream) s"

definition memcpy3DAsync :: "nat \<Rightarrow> goctx option \<Rightarrow> Memcpy3D_desc \<Rightarrow> u64 \<Rightarrow> ('w, unit) op" where
  "memcpy3DAsync c ctx desc stream s =
     doJob (Some c) ctx (Memcpy3DAsync (driver (ctxs s c)) desc stream) s"

subsection \<open>Launches and event times\<close>

record LaunchConfig =
  GridX :: u32
  GridY :: u32
  GridZ :: u32
  BlockX :: u32
  BlockY :: u32
  BlockZ :: u32
  SharedMemBytes :: u32

record 'w launchOp =
  lo_driver :: "'w Driver option"
  lo_params :: "u8 list list"
  lo_cfg :: LaunchConfig
  lo_fn :: u64
  lo_stream :: u64
  lo_coop :: bool

definition launchOp_Run :: "'w launchOp \<Rightarrow> ('w, unit) drv" where
  "launchOp_Run m = (let launch = (if lo_coop m then LaunchCooperativeKernel else LaunchKernel);
       cfg = lo_cfg m
     in launch (lo_driver m) (lo_fn m) (GridX cfg) (GridY cfg) (GridZ cfg) (BlockX cfg) (BlockY cfg)
          (BlockZ cfg) (SharedMemBytes cfg) (lo_stream m) (lo_params m))"

definition launchKernel :: "nat \<Rightarrow> goctx option \<Rightarrow> u64 \<Rightarrow> LaunchConfig \<Rightarrow> u64 \<Rightarrow> u8 list list \<Rightarrow> bool \<Rightarrow> ('w, unit) op" where
  "launchKernel c ctx fn cfg stream params cooperative s = doJob (Some c) ctx (launchOp_Run
     \<lparr>lo_driver = driver (ctxs s c), lo_params = params, lo_cfg = cfg, lo_fn = fn,
      lo_stream = stream, lo_coop = cooperative\<rparr>) s"

definition graphLaunch :: "nat \<Rightarrow> goctx option \<Rightarrow> u64 \<Rightarrow> u64 \<Rightarrow> ('w, unit) op" where
  "graphLaunch c ctx gexec stream s =
     doJob (Some c) ctx (GraphLaunch (driver (ctxs s c)) gexec stream) s"

definition eventElapsed :: "nat option \<Rightarrow> u64 \<Rightarrow> u64 \<Rightarrow> ('w, u32) op" where
  "eventElapsed cp start end s = (case cp of
     None \<Rightarrow> (Inl ErrNilContext, s)
   | Some c \<Rightarrow> doJob cp (Some Background) (EventElapsedTime (driver (ctxs s c)) start end) s)"

subsection \<open>A pooled operation is the driver call it stands for\<close>

lemmas pooled_defs = memcpyHtoD_def memcpyDtoH_def memcpyDtoD_def memcpyHtoDAsync_def memcpyDtoHAsync_def
  memcpyDtoDAsync_def memset_def memsetAsync_def run_memOp_def memOp_Run_def memsetKind_def memOpKind_defs
  Let_def

lemma pooled_copies:
  "memcpyHtoD m c ctx dst host n s =
     doCopyJob (Some c) ctx (no_bytes (MemcpyHtoD (driver (ctxs s c)) dst host n)) s"
  "memcpyDtoH m c ctx host src n s = doCopyJob (Some c) ctx (MemcpyDtoH (driver (ctxs s c)) host src n) s"
  "memcpyDtoD m c ctx dst src n s =
     doCopyJob (Some c) ctx (no_bytes (MemcpyDtoD (driver (ctxs s c)) dst src n)) s"
  by (simp_all add: pooled_defs)

lemma pooled_async_copies:
  "memcpyHtoDAsync m c ctx dst host n stream s =
     doJob (Some c) ctx (no_bytes (MemcpyHtoDAsync (driver (ctxs s c)) dst host n stream)) s"
  "memcpyDtoHAsync m c ctx host src n stream s =
     doJob (Some c) ctx (no_bytes (MemcpyDtoHAsync (driver (ctxs s c)) host src n stream)) s"
  "memcpyDtoDAsync m c ctx dst src n stream s =
     doJob (Some c) ctx (no_bytes (MemcpyDtoDAsync (driver (ctxs s c)) dst src n stream)) s"
  by (simp_all add: pooled_defs)

text \<open>The memset of an element width: one, two or four bytes.\<close>

definition memset_call :: "'w Driver option \<Rightarrow> u64 \<Rightarrow> u32 \<Rightarrow> u64 \<Rightarrow> u64 \<Rightarrow> ('w, unit) drv" where
  "memset_call d dst val n siz = (if siz = 1 then MemsetD8 d dst (ucast val) n
     else if siz = 2 then MemsetD16 d dst (ucast val) n else MemsetD32 d dst val n)"

definition memset_call_async :: "'w Driver option \<Rightarrow> u64 \<Rightarrow> u32 \<Rightarrow> u64 \<Rightarrow> u64 \<Rightarrow> u64 \<Rightarrow> ('w, unit) drv" where
  "memset_call_async d dst val n siz st = (if siz = 1 then MemsetD8Async d dst (ucast val) n st
     else if siz = 2 then MemsetD16Async d dst (ucast val) n st else MemsetD32Async d dst val n st)"

lemma pooled_memsets:
  "memset m c ctx dst val n siz s =
     doJob (Some c) ctx (no_bytes (memset_call (driver (ctxs s c)) dst val n siz)) s"
  "memsetAsync m c ctx dst val n siz stream s =
     doJob (Some c) ctx (no_bytes (memset_call_async (driver (ctxs s c)) dst val n siz stream)) s"
  by (simp_all add: pooled_defs memset_call_def memset_call_async_def)

subsection \<open>What a successful dispatch reports\<close>

text \<open>
  A dispatcher that returns a value ran the job, as the last thing it did, and returns what the job returned.
\<close>

definition ran :: "('w, 'a) drv \<Rightarrow> go_error + 'a \<Rightarrow> 'w \<Rightarrow> bool" where
  "ran job r w' = (\<exists>t w. job t w = (r, w'))"

lemma ranI: "job t w = (r, w') \<Longrightarrow> ran job r w'"
  by (auto simp: ran_def)

locale reporting = dispatcher run
  for run :: "nat option \<Rightarrow> goctx option \<Rightarrow> ('w, 'a) drv \<Rightarrow> ('w, 'a) op" +
  assumes reports: "run cp ctxo job s = (Inr v, s') \<Longrightarrow> ran job (Inr v) (world s')"
begin

lemma success_usable: "run cp ctxo job s = (Inr v, s') \<Longrightarrow> usable cp ctxo s"
  using unusable_no_call[of cp ctxo s job] by auto

end

lemma DoJob_ran: "DoJob ctx job s = (Inr v, s') \<Longrightarrow> ran job (Inr v) (wld s')"
  by (auto simp: xops split: if_splits prod.splits intro: ranI)

lemma DoJobCtx_ran: "DoJobCtx ctx tr job s = (Inr v, s') \<Longrightarrow> ran job (Inr v) (wld s')"
  by (auto simp: xops split: if_splits prod.splits intro: ranI)

lemma on_exec_ran: "on_exec c x f s = (Inr v, s') \<Longrightarrow>
    (\<And>y y'. f y = (Inr v, y') \<Longrightarrow> ran job (Inr v) (wld y')) \<Longrightarrow> ran job (Inr v) (world s')"
  by (auto simp: on_exec_def xrun_def split: prod.splits)

lemma on_copy_ran: "on_copy c x f s = (Inr v, s') \<Longrightarrow>
    (\<And>y y'. f y = (Inr v, y') \<Longrightarrow> ran job (Inr v) (wld y')) \<Longrightarrow> ran job (Inr v) (world s')"
  by (auto simp: on_copy_def xrun_def split: prod.splits)

lemma on_lane_ran: "on_lane c x f s = (Inr v, s') \<Longrightarrow>
    (\<And>y y'. f y = (Inr v, y') \<Longrightarrow> ran job (Inr v) (wld y')) \<Longrightarrow> ran job (Inr v) (world s')"
  by (auto simp: on_lane_def xrun_def Let_def split: prod.splits)

interpretation rep_job: reporting doJob
  by (unfold_locales, auto simp: doJob_def Let_def split: option.splits prod.splits if_splits
      intro: on_exec_ran DoJob_ran)

interpretation rep_copy: reporting doCopyJob
  by (unfold_locales, auto simp: doCopyJob_def Let_def split: option.splits prod.splits if_splits sum.splits
      intro: on_copy_ran DoJob_ran)

interpretation rep_wait: reporting doJobCtx
  by (unfold_locales, auto simp: doJobCtx_def Let_def split: option.splits prod.splits if_splits sum.splits
      intro: on_lane_ran DoJobCtx_ran)

interpretation rep_with: reporting "\<lambda>c ctx fn. doWith c ctx fn wt br"
  by (unfold_locales, auto simp: doWith_def Let_def DoCtxWait_eq DoCtx_def split: option.splits prod.splits if_splits sum.splits
      intro: on_exec_ran DoJob_ran DoJobCtx_ran)

lemmas do_reports = rep_with.reports[where wt = False and br = False, folded do_cmd_def]
  rep_with.reports[where wt = True and br = False, folded doWait_def]
  rep_with.reports[where wt = True and br = True, folded doBarrier_def]

lemma required_ran:
  assumes "required d c f t w = (Inr v, w')"
  shows "\<exists>D r. d = Some D \<and> bound D (csym c) \<and> invoke D c t w = ((CUDA_SUCCESS, r), w') \<and> v = f r"
  using assms by (auto simp: required_def checked_call_def split: option.splits if_splits prod.splits)

end
