(* ===== verification/Objects.thy ===== *)
theory Objects
  imports Dispatch
begin

section \<open>Objects of the package\<close>

text \<open>
  The objects the package hands out (buffers, streams, modules, ...) live in stores, one per Go type: a
  pointer is \<^verbatim>\<open>nil\<close> or an address. They are only made by the package's
  constructors, so an object's context is always a context of the program. A generic object carries the type argument
  \<^verbatim>\<open>T\<close> it was made with. The read lock on \<^verbatim>\<open>opMu\<close> every operation holds, and the write lock
  \<^verbatim>\<open>Close\<close> holds, make one operation one step on this state.
\<close>

subsection \<open>Element types\<close>

datatype elem = Int8 | Uint8 | Int16 | Uint16 | Int32 | Uint32 | Int64 | Uint64 | Float32 | Float64

fun elemSize :: "elem \<Rightarrow> u64" where
  "elemSize Int8 = 1" | "elemSize Uint8 = 1" | "elemSize Int16 = 2" | "elemSize Uint16 = 2"
| "elemSize Int32 = 4" | "elemSize Uint32 = 4" | "elemSize Int64 = 8" | "elemSize Uint64 = 8"
| "elemSize Float32 = 4" | "elemSize Float64 = 8"

lemma elemSize_pos: "elemSize t \<noteq> 0" "0 < unat (elemSize t)" "unat (elemSize t) \<le> 8"
  by (cases t; simp)+

text \<open>A slice of elements: each one its bytes. \<^verbatim>\<open>len\<close> is a Go \<^verbatim>\<open>int\<close>.\<close>

type_synonym goslice = "u8 list list"

definition len :: "goslice \<Rightarrow> goint" where
  "len xs = of_nat (length xs)"

definition slice_bytes :: "goslice \<Rightarrow> u8 list" where
  "slice_bytes xs = concat xs"

text \<open>What Go guarantees of every slice of a type: its length is an \<^verbatim>\<open>int\<close>, its memory addressable, its elements equally large.\<close>

definition goslice_of :: "elem \<Rightarrow> goslice \<Rightarrow> bool" where
  "goslice_of t xs = (length xs * unat (elemSize t) < 2 ^ 63 \<and> list_all (\<lambda>e. length e = unat (elemSize t)) xs)"

lemma goslice_bytes: "goslice_of t xs \<Longrightarrow> length (slice_bytes xs) = length xs * unat (elemSize t)"
  unfolding goslice_of_def slice_bytes_def by (induction xs) auto

lemma goslice_length: "goslice_of t xs \<Longrightarrow> length xs < 2 ^ 63"
proof -
  assume "goslice_of t xs"
  then have "length xs * unat (elemSize t) < 2 ^ 63" by (simp add: goslice_of_def)
  moreover have "length xs * 1 \<le> length xs * unat (elemSize t)"
    using elemSize_pos(2)[of t] by (intro mult_le_mono2) simp
  ultimately show ?thesis by linarith
qed

lemma unat_len: "goslice_of t xs \<Longrightarrow> unat (len xs) = length xs"
  using goslice_length[of t xs] by (simp add: len_def take_bit_nat_eq_self unsigned_of_nat)

lemma sint_len: "goslice_of t xs \<Longrightarrow> sint (len xs) = int (length xs)"
  using unat_len[of t xs] goslice_length[of t xs] by (simp add: sint_split)

lemma len_eq_0: "goslice_of t xs \<Longrightarrow> len xs = 0 \<longleftrightarrow> xs = []"
  using unat_len[of t xs] by (auto simp: len_def)

subsection \<open>Structures\<close>

text \<open>The part every closable object has: its context and whether it is closed.\<close>

record resource =
  octx :: nat
  oclosed :: bool

record Buffer = resource +
  bptr :: u64
  blength :: goint
  bbytes :: u64
  belem :: elem

record HostBuffer = resource +
  hptr :: u64
  hlength :: goint
  hbytes :: u64
  helem :: elem

record RegisteredHost = resource +
  rmem :: goslice
  rptr :: u64
  rbytes :: u64
  rpinned :: bool
  relem :: elem

record Stream = resource +
  sraw :: u64

record Event = resource +
  eraw :: u64
  timingDisabled :: bool
  interprocess :: bool

record Graph = resource +
  graw :: u64

record GraphExec = resource +
  geraw :: u64

record Module = resource +
  mraw :: u64

record Linker = resource +
  lraw :: u64
  linfoBuf :: "u8 list"
  lerrBuf :: "u8 list"
  loptions :: "i32 list"
  lvalues :: "u64 list"
  lpinned :: bool

record PitchedBuffer = resource +
  pptr :: u64
  ppitch :: u64
  pwidth :: goint
  pheight :: goint
  pelem :: elem

record Volume = resource +
  vptr :: u64
  vpitch :: u64
  vwidth :: goint
  vheight :: goint
  vdepth :: goint
  velem :: elem

record Array2D = resource +
  ahandle :: u64
  awidth :: goint
  aheight :: goint
  asurface :: bool
  aelem :: elem

record Texture = resource +
  thandle :: u64

record Surface = resource +
  suhandle :: u64

record ManagedBuffer = resource +
  mhost :: u64
  mptr :: u64
  mlength :: goint
  mbytes :: u64
  melem :: elem

record IPCBuffer = resource +
  iptr :: u64
  ilength :: goint
  ibytes :: u64
  ielem :: elem

record VirtualBuffer = resource +
  vbptr :: u64
  vbhandle :: u64
  vbsize :: u64
  vblength :: goint
  vbbytes :: u64
  vbmapped :: bool
  vbreserved :: bool
  vbcreated :: bool
  vbelem :: elem

text \<open>The registry of host callbacks, see \<^verbatim>\<open>internal/hostcb\<close>: a Go closure is its identity.\<close>

record hostcb =
  shards :: "(u64 \<rightharpoonup> nat) list"
  nextKey :: u64
  tramp :: u64

record 'w rt =
  sy :: "'w sys"
  nobj :: nat
  buffers :: "nat \<Rightarrow> Buffer"
  hostbufs :: "nat \<Rightarrow> HostBuffer"
  reghosts :: "nat \<Rightarrow> RegisteredHost"
  streams :: "nat \<Rightarrow> Stream"
  events :: "nat \<Rightarrow> Event"
  graphs :: "nat \<Rightarrow> Graph"
  graphexecs :: "nat \<Rightarrow> GraphExec"
  modules :: "nat \<Rightarrow> Module"
  linkers :: "nat \<Rightarrow> Linker"
  pitcheds :: "nat \<Rightarrow> PitchedBuffer"
  volumes :: "nat \<Rightarrow> Volume"
  arrays :: "nat \<Rightarrow> Array2D"
  textures :: "nat \<Rightarrow> Texture"
  surfaces :: "nat \<Rightarrow> Surface"
  manageds :: "nat \<Rightarrow> ManagedBuffer"
  ipcbufs :: "nat \<Rightarrow> IPCBuffer"
  virtuals :: "nat \<Rightarrow> VirtualBuffer"
  registry :: hostcb

type_synonym ('w, 'a) rop = "'w rt \<Rightarrow> (go_error + 'a) \<times> 'w rt"

subsection \<open>Running a context operation, making and closing objects\<close>

definition lift_op :: "('w, 'a) op \<Rightarrow> ('w, 'a) rop" where
  "lift_op f s = (case f (sy s) of (r, y) \<Rightarrow> (r, s\<lparr>sy := y\<rparr>))"

definition drv_of :: "nat \<Rightarrow> 'w rt \<Rightarrow> 'w Driver option" where
  "drv_of c s = driver (ctxs (sy s) c)"

abbreviation bg :: "goctx option" where
  "bg \<equiv> Some Background"

text \<open>The \<^verbatim>\<open>error\<close> result of an operation whose value is not used.\<close>

definition no_value :: "(go_error + 'a) \<times> 's \<Rightarrow> (go_error + unit) \<times> 's" where
  "no_value p = (case p of (Inl e, s) \<Rightarrow> (Inl e, s) | (Inr _, s) \<Rightarrow> (Inr (), s))"

definition newObject :: "(((nat \<Rightarrow> 'o) \<Rightarrow> nat \<Rightarrow> 'o) \<Rightarrow> 'w rt \<Rightarrow> 'w rt) \<Rightarrow> 'o \<Rightarrow> ('w, nat) rop" where
  "newObject upd x s = (Inr (nobj s), (upd (\<lambda>f. f(nobj s := x)) s)\<lparr>nobj := Suc (nobj s)\<rparr>)"

text \<open>
  The constructors: one dispatched job, and an object made from what it returned.
\<close>

definition createWith :: "('w, 'a) op \<Rightarrow> (((nat \<Rightarrow> 'o) \<Rightarrow> nat \<Rightarrow> 'o) \<Rightarrow> 'w rt \<Rightarrow> 'w rt) \<Rightarrow>
    ('a \<Rightarrow> 'o) \<Rightarrow> ('w, nat) rop" where
  "createWith f upd mk s = (case lift_op f s of
     (Inl e, s1) \<Rightarrow> (Inl e, s1)
   | (Inr x, s1) \<Rightarrow> newObject upd (mk x) s1)"

text \<open>
  The \<^verbatim>\<open>Close\<close> methods are written alike: nothing to do when closed, otherwise one destroying call behind
  the wait barrier, and the object is closed only if that call succeeded.
\<close>

definition closeObject :: "go_error \<Rightarrow> ('w rt \<Rightarrow> nat \<Rightarrow> 'o resource_scheme) \<Rightarrow>
    (((nat \<Rightarrow> 'o resource_scheme) \<Rightarrow> nat \<Rightarrow> 'o resource_scheme) \<Rightarrow> 'w rt \<Rightarrow> 'w rt) \<Rightarrow>
    ('w Driver option \<Rightarrow> 'o resource_scheme \<Rightarrow> ('w, unit) drv) \<Rightarrow>
    ('o resource_scheme \<Rightarrow> 'o resource_scheme) \<Rightarrow> nat option \<Rightarrow> ('w, unit) rop" where
  "closeObject nilErr sel upd destroy atend p s = (case p of
     None \<Rightarrow> (Inl nilErr, s)
   | Some i \<Rightarrow> (let x = sel s i in
       if oclosed x then (Inr (), s)
       else (case lift_op (doBarrier (Some (octx x)) bg (destroy (drv_of (octx x) s) x)) s of
           (Inl e, s1) \<Rightarrow> (Inl e, s1)
         | (Inr _, s1) \<Rightarrow> (Inr (), upd (\<lambda>f. f(i := (atend x)\<lparr>oclosed := True\<rparr>)) s1))))"


lemma lift_op_simps [simp]:
  "fst (lift_op f s) = fst (f (sy s))" "sy (snd (lift_op f s)) = snd (f (sy s))"
  by (simp_all add: lift_op_def split: prod.splits)

lemma lift_opE:
  assumes "lift_op f s = (r, s')"
  obtains y where "f (sy s) = (r, y)" "s' = s\<lparr>sy := y\<rparr>"
  using assms by (auto simp: lift_op_def split: prod.splits)

lemma no_value_Inr: "no_value p = (Inr u, s) \<longleftrightarrow> (\<exists>v. p = (Inr v, s))"
  by (auto simp: no_value_def split: prod.splits sum.splits)

lemma no_value_Inl: "no_value p = (Inl e, s) \<longleftrightarrow> p = (Inl e, s)"
  by (auto simp: no_value_def split: prod.splits sum.splits)

subsection \<open>The contract of a store, and of the objects that are closed in it\<close>

locale objstore =
  fixes sel :: "'w rt \<Rightarrow> nat \<Rightarrow> 'o"
    and upd :: "((nat \<Rightarrow> 'o) \<Rightarrow> nat \<Rightarrow> 'o) \<Rightarrow> 'w rt \<Rightarrow> 'w rt"
  assumes sel_upd: "sel (upd f s) = f (sel s)"
    and sy_upd: "sy (upd f s) = sy s"
    and nobj_upd: "nobj (upd f s) = nobj s"
    and sel_sy: "sel (s\<lparr>sy := y\<rparr>) = sel s"
    and sel_nobj: "sel (s\<lparr>nobj := n\<rparr>) = sel s"
begin

lemma newObject_sel:
  "newObject upd x s = (Inr p, s') \<Longrightarrow> p = nobj s \<and> sel s' = (sel s)(p := x) \<and> sy s' = sy s \<and> nobj s' = Suc p"
  by (auto simp: newObject_def sel_upd sy_upd nobj_upd sel_nobj)

lemma newObject_ok: "\<exists>s'. newObject upd x s = (Inr (nobj s), s')"
  by (simp add: newObject_def)

lemma createWith_ok:
  assumes "createWith f upd mk s = (Inr p, s')"
  obtains x y where "f (sy s) = (Inr x, y)" "sel s' = (sel s)(p := mk x)" "sy s' = y" "p = nobj s" "nobj s' = Suc p"
proof -
  from assms obtain x s1 where x: "lift_op f s = (Inr x, s1)" and n: "newObject upd (mk x) s1 = (Inr p, s')"
    by (auto simp: createWith_def split: prod.splits sum.splits)
  from x obtain y where "f (sy s) = (Inr x, y)" "s1 = s\<lparr>sy := y\<rparr>" by (rule lift_opE)
  with newObject_sel[OF n] show thesis by (intro that) (simp_all add: sel_sy)
qed

lemma createWith_err:
  "createWith f upd mk s = (Inl e, s') \<Longrightarrow> \<exists>y. f (sy s) = (Inl e, y) \<and> s' = s\<lparr>sy := y\<rparr>"
  by (auto simp: createWith_def newObject_def split: prod.splits sum.splits elim!: lift_opE)

end

text \<open>What a \<^verbatim>\<open>Close\<close> method promises of the objects of a store.\<close>

locale closable =
  fixes close :: "nat option \<Rightarrow> ('w, unit) rop"
    and isclosed :: "'w rt \<Rightarrow> nat \<Rightarrow> bool"
    and nilErr :: go_error
    and destroys :: "'w rt \<Rightarrow> nat \<Rightarrow> ('w, unit) drv"
  assumes close_nil: "close None s = (Inl nilErr, s)"
    and close_closed: "isclosed s i \<Longrightarrow> close (Some i) s = (Inr (), s)"
    and close_ok: "close (Some i) s = (Inr (), s') \<Longrightarrow> isclosed s' i"
    and close_fail: "close (Some i) s = (Inl e, s') \<Longrightarrow> \<not> isclosed s' i"
    and close_others: "close (Some i) s = (r, s') \<Longrightarrow> j \<noteq> i \<Longrightarrow> isclosed s' j = isclosed s j"
    and close_destroys: "close (Some i) s = (Inr (), s') \<Longrightarrow> \<not> isclosed s i \<Longrightarrow>
      ran (destroys s i) (Inr ()) (world (sy s'))"
begin

lemma close_twice: "close (Some i) s = (Inr (), s') \<Longrightarrow> close (Some i) s' = (Inr (), s')"
  by (rule close_closed) (rule close_ok)

lemma close_result: "fst (close (Some i) s) = Inr () \<longleftrightarrow> isclosed (snd (close (Some i) s)) i"
proof (cases "close (Some i) s")
  case (Pair r s')
  then show ?thesis using close_ok[of i s s'] close_fail[of i s _ s'] by (cases r) auto
qed

text \<open>Retrying: once a call has closed the object, further calls change nothing.\<close>

lemma close_retry: "isclosed s i \<Longrightarrow> ((\<lambda>s. snd (close (Some i) s)) ^^ n) s = s"
  by (induction n) (auto simp: close_closed)

end

locale resstore = objstore sel upd
  for sel :: "'w rt \<Rightarrow> nat \<Rightarrow> 'o resource_scheme" and upd +
  fixes nilErr :: go_error and destroy :: "'w Driver option \<Rightarrow> 'o resource_scheme \<Rightarrow> ('w, unit) drv"
    and atend :: "'o resource_scheme \<Rightarrow> 'o resource_scheme"

sublocale resstore \<subseteq> closable "closeObject nilErr sel upd destroy atend" "\<lambda>s i. oclosed (sel s i)" nilErr
  "\<lambda>s i. destroy (drv_of (octx (sel s i)) s) (sel s i)"
proof (unfold_locales, goal_cases)
  case (6 i s s')
  then show ?case
    by (auto simp: closeObject_def Let_def sy_upd split: prod.splits sum.splits elim!: lift_opE
        dest: do_reports(3))
qed (auto simp: closeObject_def Let_def sel_upd sel_sy split: if_splits prod.splits sum.splits elim!: lift_opE)

end
