(* ===== verification/HostMem.thy ===== *)
theory HostMem
  imports Objects
begin

section \<open>Page-locked host memory\<close>

text \<open>
  \<^verbatim>\<open>cuda/hostbuffer.go\<close>, \<^verbatim>\<open>cuda/hostregister.go\<close>, \<^verbatim>\<open>cuda/pinned.go\<close>: memory the driver allocated, memory of the
  caller it registered, and the view the copy operations take of either. A slice of memory the driver
  allocated is its address and length; a slice of the caller is its address and elements.
\<close>

subsection \<open>Sizes in bytes\<close>

text \<open>The checks every allocation starts with: a positive length whose size in bytes fits 64 bits.\<close>

definition byteSize :: "elem \<Rightarrow> goint \<Rightarrow> u64 option" where
  "byteSize t n = (if sint n \<le> 0 then None
     else if n > MaxUint64 div elemSize t then None
     else Some (n * elemSize t))"

lemma byteSize_exact:
  assumes "byteSize t n = Some bytes"
  shows "unat bytes = unat n * unat (elemSize t)" "0 < sint n" "0 < unat n" "unat n < 2 ^ 63"
proof -
  from assms have n: "0 < sint n" and le: "n \<le> MaxUint64 div elemSize t" and b: "bytes = n * elemSize t"
    by (auto simp: byteSize_def not_le not_less split: if_splits)
  show "0 < sint n" by (rule n)
  show "0 < unat n" "unat n < 2 ^ 63" using sint_pos_unat[OF n] by simp_all
  show "unat bytes = unat n * unat (elemSize t)"
    unfolding b using unat_mul_no_wrap[OF le elemSize_pos(1)] .
qed

lemma byteSize_None:
  "byteSize t n = None \<longleftrightarrow> sint n \<le> 0 \<or> 2 ^ 64 \<le> unat n * unat (elemSize t)"
proof (cases "sint n \<le> 0")
  case False
  have p: "0 < unat (elemSize t)" by (rule elemSize_pos)
  have "n \<le> MaxUint64 div elemSize t \<longleftrightarrow> unat n \<le> (2 ^ 64 - 1) div unat (elemSize t)"
    by (simp add: word_le_nat_alt unat_div)
  also have "\<dots> \<longleftrightarrow> unat n * unat (elemSize t) \<le> 2 ^ 64 - 1"
    by (rule less_eq_div_iff_mult_less_eq[OF p])
  also have "\<dots> \<longleftrightarrow> unat n * unat (elemSize t) < 2 ^ 64" by auto
  finally show ?thesis using False by (auto simp: byteSize_def not_less)
qed (simp add: byteSize_def)

subsection \<open>\<^verbatim>\<open>HostBuffer\<close>\<close>

definition AllocHost :: "elem \<Rightarrow> nat option \<Rightarrow> goint \<Rightarrow> ('w, nat) rop" where
  "AllocHost t cp n s = (case cp of
     None \<Rightarrow> (Inl ErrNilContext, s)
   | Some c \<Rightarrow> (case byteSize t n of
       None \<Rightarrow> (Inl ErrInvalidLength, s)
     | Some bytes \<Rightarrow> createWith (doWait cp bg (MemAllocHost (drv_of c s) bytes)) hostbufs_update
         (\<lambda>ptr. \<lparr>octx = c, oclosed = False, hptr = ptr, hlength = n, hbytes = bytes, helem = t\<rparr>) s))"

definition HostBuffer_Len :: "nat option \<Rightarrow> 'w rt \<Rightarrow> goint" where
  "HostBuffer_Len p s = (case p of None \<Rightarrow> 0 | Some h \<Rightarrow> hlength (hostbufs s h))"

definition HostBuffer_Bytes :: "nat option \<Rightarrow> 'w rt \<Rightarrow> u64" where
  "HostBuffer_Bytes p s = (case p of None \<Rightarrow> 0 | Some h \<Rightarrow> hbytes (hostbufs s h))"

definition HostBuffer_Slice :: "nat option \<Rightarrow> 'w rt \<Rightarrow> (u64 \<times> goint) option" where
  "HostBuffer_Slice p s = (case p of
     None \<Rightarrow> None
   | Some h \<Rightarrow> if oclosed (hostbufs s h) then None else Some (hptr (hostbufs s h), hlength (hostbufs s h)))"

definition HostBuffer_Close :: "nat option \<Rightarrow> ('w, unit) rop" where
  "HostBuffer_Close = closeObject ErrNilBuffer hostbufs hostbufs_update (\<lambda>d h. MemFreeHost d (hptr h)) id"

subsection \<open>\<^verbatim>\<open>RegisteredHost\<close>\<close>

definition RegisterHost :: "elem \<Rightarrow> nat option \<Rightarrow> u64 \<Rightarrow> goslice \<Rightarrow> ('w, nat) rop" where
  "RegisterHost t cp addr mem s = (case cp of
     None \<Rightarrow> (Inl ErrNilContext, s)
   | Some c \<Rightarrow>
       if len mem = 0 then (Inl ErrInvalidLength, s)
       else (let bytes = len mem * elemSize t in
         createWith (doWait cp bg (MemHostRegister (drv_of c s) addr bytes 0)) reghosts_update
           (\<lambda>_. \<lparr>octx = c, oclosed = False, rmem = mem, rptr = addr, rbytes = bytes, rpinned = True,
              relem = t\<rparr>) s))"

definition RegisteredHost_Slice :: "nat option \<Rightarrow> 'w rt \<Rightarrow> goslice" where
  "RegisteredHost_Slice p s = (case p of None \<Rightarrow> [] | Some r \<Rightarrow> rmem (reghosts s r))"

definition RegisteredHost_Len :: "nat option \<Rightarrow> 'w rt \<Rightarrow> goint" where
  "RegisteredHost_Len p s = (case p of None \<Rightarrow> 0 | Some r \<Rightarrow> len (rmem (reghosts s r)))"

definition RegisteredHost_Bytes :: "nat option \<Rightarrow> 'w rt \<Rightarrow> u64" where
  "RegisteredHost_Bytes p s = (case p of None \<Rightarrow> 0 | Some r \<Rightarrow> rbytes (reghosts s r))"

definition RegisteredHost_Close :: "nat option \<Rightarrow> ('w, unit) rop" where
  "RegisteredHost_Close = closeObject ErrNilBuffer reghosts reghosts_update
     (\<lambda>d r. MemHostUnregister d (rptr r)) (\<lambda>r. r\<lparr>rpinned := False\<rparr>)"

subsection \<open>\<^verbatim>\<open>PinnedHost\<close>\<close>

text \<open>The two implementations of the interface, as pointers; a nil interface value is \<^const>\<open>None\<close>.\<close>

datatype PinnedHost = PHostBuffer "nat option" | PRegisteredHost "nat option"

record pinnedHostRef =
  phctx :: nat
  phptr :: u64
  phlength :: goint
  phclosed :: bool

definition HostBuffer_pinnedHost :: "nat option \<Rightarrow> 'w rt \<Rightarrow> pinnedHostRef option" where
  "HostBuffer_pinnedHost p s = (case p of None \<Rightarrow> None | Some h \<Rightarrow> (let x = hostbufs s h in
     Some \<lparr>phctx = octx x, phptr = hptr x, phlength = hlength x, phclosed = oclosed x\<rparr>))"

definition RegisteredHost_pinnedHost :: "nat option \<Rightarrow> 'w rt \<Rightarrow> pinnedHostRef option" where
  "RegisteredHost_pinnedHost p s = (case p of None \<Rightarrow> None | Some r \<Rightarrow> (let x = reghosts s r in
     Some \<lparr>phctx = octx x, phptr = rptr x, phlength = len (rmem x), phclosed = oclosed x\<rparr>))"

text \<open>A reference with no owner stands for \<^const>\<open>None\<close>.\<close>

definition pinnedHostRefOf :: "PinnedHost option \<Rightarrow> 'w rt \<Rightarrow> go_error + pinnedHostRef" where
  "pinnedHostRefOf host s = (case host of
     None \<Rightarrow> Inl ErrNilBuffer
   | Some h \<Rightarrow> (case (case h of PHostBuffer p \<Rightarrow> HostBuffer_pinnedHost p s
                     | PRegisteredHost p \<Rightarrow> RegisteredHost_pinnedHost p s) of
       None \<Rightarrow> Inl ErrNilBuffer
     | Some ref \<Rightarrow> Inr ref))"

subsection \<open>Stores\<close>

interpretation hostbuf: resstore hostbufs hostbufs_update ErrNilBuffer "\<lambda>d h. MemFreeHost d (hptr h)" id
  rewrites "closeObject ErrNilBuffer hostbufs hostbufs_update (\<lambda>d h. MemFreeHost d (hptr h)) id = HostBuffer_Close"
  by unfold_locales (simp_all add: HostBuffer_Close_def)

interpretation reghost: resstore reghosts reghosts_update ErrNilBuffer "\<lambda>d r. MemHostUnregister d (rptr r)"
    "\<lambda>r. r\<lparr>rpinned := False\<rparr>"
  rewrites "closeObject ErrNilBuffer reghosts reghosts_update (\<lambda>d r. MemHostUnregister d (rptr r))
    (\<lambda>r. r\<lparr>rpinned := False\<rparr>) = RegisteredHost_Close"
  by unfold_locales (simp_all add: RegisteredHost_Close_def)

end
