(* ===== verification/Buffers.thy ===== *)
theory Buffers
  imports HostMem
begin

unbundle bit_operations_syntax

section \<open>Device buffers, offset copies and views\<close>

text \<open>
  \<^verbatim>\<open>cuda/buffer.go\<close>, \<^verbatim>\<open>cuda/buffer_offset.go\<close>, \<^verbatim>\<open>cuda/view.go\<close>: allocation, release, copies and fills of linear device memory,
  copies at element offsets, and windows into a buffer. The checks are in the order of the code, and a
  failed check returns before any driver call. A copy to the host returns the bytes written to
  the destination slice.
\<close>

subsection \<open>Allocation and release\<close>

definition mkBuffer :: "nat \<Rightarrow> elem \<Rightarrow> goint \<Rightarrow> u64 \<Rightarrow> u64 \<Rightarrow> Buffer" where
  "mkBuffer c t n bytes ptr = \<lparr>octx = c, oclosed = False, bptr = ptr, blength = n, bbytes = bytes, belem = t\<rparr>"

definition Alloc :: "elem \<Rightarrow> nat option \<Rightarrow> goint \<Rightarrow> ('w, nat) rop" where
  "Alloc t cp n s = (case cp of
     None \<Rightarrow> (Inl ErrNilContext, s)
   | Some c \<Rightarrow> (case byteSize t n of
       None \<Rightarrow> (Inl ErrInvalidLength, s)
     | Some bytes \<Rightarrow> createWith (do_cmd cp bg (MemAlloc (drv_of c s) bytes)) buffers_update
         (mkBuffer c t n bytes) s))"

definition AllocAsync :: "elem \<Rightarrow> nat option \<Rightarrow> nat option \<Rightarrow> goint \<Rightarrow> ('w, nat) rop" where
  "AllocAsync t cp stp n s = (case cp of
     None \<Rightarrow> (Inl ErrNilContext, s)
   | Some c \<Rightarrow> (case stp of
       None \<Rightarrow> (Inl ErrNilStream, s)
     | Some st \<Rightarrow> (case byteSize t n of
         None \<Rightarrow> (Inl ErrInvalidLength, s)
       | Some bytes \<Rightarrow> (let stream = streams s st in
           if oclosed stream then (Inl ErrStreamClosed, s)
           else if octx stream \<noteq> c then (Inl ErrContextMismatch, s)
           else createWith (doWait cp bg (MemAllocAsync (drv_of c s) bytes (sraw stream))) buffers_update
             (mkBuffer c t n bytes) s))))"

definition Buffer_Len :: "nat option \<Rightarrow> 'w rt \<Rightarrow> goint" where
  "Buffer_Len p s = (case p of None \<Rightarrow> 0 | Some b \<Rightarrow> blength (buffers s b))"

definition Buffer_Bytes :: "nat option \<Rightarrow> 'w rt \<Rightarrow> u64" where
  "Buffer_Bytes p s = (case p of None \<Rightarrow> 0 | Some b \<Rightarrow> bbytes (buffers s b))"

definition Buffer_Close :: "nat option \<Rightarrow> ('w, unit) rop" where
  "Buffer_Close = closeObject ErrNilBuffer buffers buffers_update (\<lambda>d b. MemFree d (bptr b)) id"

definition Buffer_FreeAsync :: "nat option \<Rightarrow> nat option \<Rightarrow> ('w, unit) rop" where
  "Buffer_FreeAsync p stp s = (case p of
     None \<Rightarrow> (Inl ErrNilBuffer, s)
   | Some i \<Rightarrow> (case stp of
       None \<Rightarrow> (Inl ErrNilStream, s)
     | Some st \<Rightarrow> (let stream = streams s st; b = buffers s i in
         if oclosed stream then (Inl ErrStreamClosed, s)
         else if oclosed b then (Inr (), s)
         else if octx stream \<noteq> octx b then (Inl ErrContextMismatch, s)
         else (case lift_op (doBarrier (Some (octx b)) bg
                  (MemFreeAsync (drv_of (octx b) s) (bptr b) (sraw stream))) s of
             (Inl e, s1) \<Rightarrow> (Inl e, s1)
           | (Inr _, s1) \<Rightarrow> (Inr (), buffers_update (\<lambda>f. f(i := b\<lparr>oclosed := True\<rparr>)) s1)))))"

subsection \<open>Copies of whole buffers\<close>

definition Buffer_CopyFrom :: "nat option \<Rightarrow> goctx option \<Rightarrow> goslice \<Rightarrow> ('w, unit) rop" where
  "Buffer_CopyFrom p ctx src s = (case p of
     None \<Rightarrow> (Inl ErrNilBuffer, s)
   | Some i \<Rightarrow> (let b = buffers s i in
       if oclosed b then (Inl ErrBufferClosed, s)
       else if len src = 0 \<or> len src \<noteq> blength b then (Inl ErrLengthMismatch, s)
       else no_value (lift_op
         (memcpyHtoD new_memOp (octx b) ctx (bptr b) (HGo (slice_bytes src)) (bbytes b)) s)))"

definition Buffer_CopyTo :: "nat option \<Rightarrow> goctx option \<Rightarrow> goslice \<Rightarrow> ('w, u8 list) rop" where
  "Buffer_CopyTo p ctx dst s = (case p of
     None \<Rightarrow> (Inl ErrNilBuffer, s)
   | Some i \<Rightarrow> (let b = buffers s i in
       if oclosed b then (Inl ErrBufferClosed, s)
       else if len dst = 0 \<or> len dst \<noteq> blength b then (Inl ErrLengthMismatch, s)
       else lift_op
         (memcpyDtoH new_memOp (octx b) ctx (HGo (slice_bytes dst)) (bptr b) (bbytes b)) s))"

text \<open>The checks of a copy with pinned memory, in the order of the code.\<close>

definition pinned_checks :: "Buffer \<Rightarrow> pinnedHostRef \<Rightarrow> go_error option" where
  "pinned_checks b host =
     (if oclosed b then Some ErrBufferClosed
      else if phclosed host then Some ErrBufferClosed
      else if phctx host \<noteq> octx b then Some ErrContextMismatch
      else if phlength host \<noteq> blength b then Some ErrLengthMismatch
      else None)"

definition Buffer_CopyFromHost :: "nat option \<Rightarrow> goctx option \<Rightarrow> PinnedHost option \<Rightarrow> ('w, unit) rop" where
  "Buffer_CopyFromHost p ctx src s = (case p of
     None \<Rightarrow> (Inl ErrNilBuffer, s)
   | Some i \<Rightarrow> (case pinnedHostRefOf src s of
       Inl e \<Rightarrow> (Inl e, s)
     | Inr host \<Rightarrow> (let b = buffers s i in
         case pinned_checks b host of
           Some e \<Rightarrow> (Inl e, s)
         | None \<Rightarrow> no_value (lift_op
             (memcpyHtoD new_memOp (octx b) ctx (bptr b) (HAddr (phptr host)) (bbytes b)) s))))"

definition Buffer_CopyToHost :: "nat option \<Rightarrow> goctx option \<Rightarrow> PinnedHost option \<Rightarrow> ('w, unit) rop" where
  "Buffer_CopyToHost p ctx dst s = (case p of
     None \<Rightarrow> (Inl ErrNilBuffer, s)
   | Some i \<Rightarrow> (case pinnedHostRefOf dst s of
       Inl e \<Rightarrow> (Inl e, s)
     | Inr host \<Rightarrow> (let b = buffers s i in
         case pinned_checks b host of
           Some e \<Rightarrow> (Inl e, s)
         | None \<Rightarrow> no_value (lift_op
             (memcpyDtoH new_memOp (octx b) ctx (HAddr (phptr host)) (bptr b) (bbytes b)) s))))"

definition pinned_async_checks :: "Stream \<Rightarrow> Buffer \<Rightarrow> pinnedHostRef \<Rightarrow> go_error option" where
  "pinned_async_checks stream b host =
     (if oclosed stream then Some ErrStreamClosed
      else if oclosed b then Some ErrBufferClosed
      else if phclosed host then Some ErrBufferClosed
      else if octx stream \<noteq> octx b \<or> phctx host \<noteq> octx b then Some ErrContextMismatch
      else if phlength host \<noteq> blength b then Some ErrLengthMismatch
      else None)"

definition Buffer_CopyFromHostAsync :: "nat option \<Rightarrow> goctx option \<Rightarrow> nat option \<Rightarrow> PinnedHost option \<Rightarrow> ('w, unit) rop" where
  "Buffer_CopyFromHostAsync p ctx stp src s = (case p of
     None \<Rightarrow> (Inl ErrNilBuffer, s)
   | Some i \<Rightarrow> (case pinnedHostRefOf src s of
       Inl e \<Rightarrow> (Inl e, s)
     | Inr host \<Rightarrow> (case stp of
         None \<Rightarrow> (Inl ErrNilStream, s)
       | Some st \<Rightarrow> (let b = buffers s i; stream = streams s st in
           case pinned_async_checks stream b host of
             Some e \<Rightarrow> (Inl e, s)
           | None \<Rightarrow> no_value (lift_op (memcpyHtoDAsync new_memOp (octx b) ctx (bptr b)
               (HAddr (phptr host)) (bbytes b) (sraw stream)) s)))))"

definition Buffer_CopyToHostAsync :: "nat option \<Rightarrow> goctx option \<Rightarrow> nat option \<Rightarrow> PinnedHost option \<Rightarrow> ('w, unit) rop" where
  "Buffer_CopyToHostAsync p ctx stp dst s = (case p of
     None \<Rightarrow> (Inl ErrNilBuffer, s)
   | Some i \<Rightarrow> (case pinnedHostRefOf dst s of
       Inl e \<Rightarrow> (Inl e, s)
     | Inr host \<Rightarrow> (case stp of
         None \<Rightarrow> (Inl ErrNilStream, s)
       | Some st \<Rightarrow> (let b = buffers s i; stream = streams s st in
           case pinned_async_checks stream b host of
             Some e \<Rightarrow> (Inl e, s)
           | None \<Rightarrow> no_value (lift_op (memcpyDtoHAsync new_memOp (octx b) ctx
               (HAddr (phptr host)) (bptr b) (bbytes b) (sraw stream)) s)))))"

subsection \<open>Fills\<close>

definition Buffer_Zero :: "nat option \<Rightarrow> goctx option \<Rightarrow> ('w, unit) rop" where
  "Buffer_Zero p ctx s = (case p of
     None \<Rightarrow> (Inl ErrNilBuffer, s)
   | Some i \<Rightarrow> (let b = buffers s i in
       if oclosed b then (Inl ErrBufferClosed, s)
       else no_value (lift_op (memset new_memOp (octx b) ctx (bptr b) 0 (bbytes b) 1) s)))"

definition Buffer_ZeroAsync :: "nat option \<Rightarrow> goctx option \<Rightarrow> nat option \<Rightarrow> ('w, unit) rop" where
  "Buffer_ZeroAsync p ctx stp s = (case p of
     None \<Rightarrow> (Inl ErrNilBuffer, s)
   | Some i \<Rightarrow> (case stp of
       None \<Rightarrow> (Inl ErrNilStream, s)
     | Some st \<Rightarrow> (let b = buffers s i; stream = streams s st in
         if oclosed stream then (Inl ErrStreamClosed, s)
         else if oclosed b then (Inl ErrBufferClosed, s)
         else if octx stream \<noteq> octx b then (Inl ErrContextMismatch, s)
         else no_value (lift_op
           (memsetAsync new_memOp (octx b) ctx (bptr b) 0 (bbytes b) 1 (sraw stream)) s))))"

text \<open>The little-endian bytes of a value read as an unsigned integer of their width.\<close>

fun le_word :: "u8 list \<Rightarrow> u32" where
  "le_word [] = 0"
| "le_word (b # bs) = ucast b OR push_bit 8 (le_word bs)"

definition fillBits :: "elem \<Rightarrow> u8 list \<Rightarrow> u32" where
  "fillBits t v = (if elemSize t = 1 then le_word (take 1 v)
     else if elemSize t = 2 then le_word (take 2 v) else le_word (take 4 v))"

definition Buffer_Fill :: "nat option \<Rightarrow> goctx option \<Rightarrow> u8 list \<Rightarrow> ('w, unit) rop" where
  "Buffer_Fill p ctx v s = (case p of
     None \<Rightarrow> (Inl ErrNilBuffer, s)
   | Some i \<Rightarrow> (let b = buffers s i in
       if elemSize (belem b) = 8 then (Inl ErrUnsupportedFillType, s)
       else if oclosed b then (Inl ErrBufferClosed, s)
       else no_value (lift_op (memset new_memOp (octx b) ctx (bptr b) (fillBits (belem b) v)
         (blength b) (elemSize (belem b))) s)))"

definition Buffer_FillAsync :: "nat option \<Rightarrow> goctx option \<Rightarrow> nat option \<Rightarrow> u8 list \<Rightarrow> ('w, unit) rop" where
  "Buffer_FillAsync p ctx stp v s = (case p of
     None \<Rightarrow> (Inl ErrNilBuffer, s)
   | Some i \<Rightarrow> (case stp of
       None \<Rightarrow> (Inl ErrNilStream, s)
     | Some st \<Rightarrow> (let b = buffers s i; stream = streams s st in
         if elemSize (belem b) = 8 then (Inl ErrUnsupportedFillType, s)
         else if oclosed stream then (Inl ErrStreamClosed, s)
         else if oclosed b then (Inl ErrBufferClosed, s)
         else if octx stream \<noteq> octx b then (Inl ErrContextMismatch, s)
         else no_value (lift_op (memsetAsync new_memOp (octx b) ctx (bptr b) (fillBits (belem b) v)
           (blength b) (elemSize (belem b)) (sraw stream)) s))))"

subsection \<open>Copies between buffers\<close>

definition Buffer_CopyToDevice :: "nat option \<Rightarrow> goctx option \<Rightarrow> nat option \<Rightarrow> ('w, unit) rop" where
  "Buffer_CopyToDevice p ctx q s = (case (p, q) of
     (Some i, Some j) \<Rightarrow> (let b = buffers s i; dst = buffers s j in
       if oclosed b then (Inl ErrBufferClosed, s)
       else if j \<noteq> i \<and> oclosed dst then (Inl ErrBufferClosed, s)
       else if octx dst \<noteq> octx b then (Inl ErrContextMismatch, s)
       else if blength dst \<noteq> blength b then (Inl ErrLengthMismatch, s)
       else no_value (lift_op (memcpyDtoD new_memOp (octx b) ctx (bptr dst) (bptr b) (bbytes b)) s))
   | _ \<Rightarrow> (Inl ErrNilBuffer, s))"

definition Buffer_CopyToDeviceAsync :: "nat option \<Rightarrow> goctx option \<Rightarrow> nat option \<Rightarrow> nat option \<Rightarrow> ('w, unit) rop" where
  "Buffer_CopyToDeviceAsync p ctx stp q s = (case (p, q) of
     (Some i, Some j) \<Rightarrow> (case stp of
         None \<Rightarrow> (Inl ErrNilStream, s)
       | Some st \<Rightarrow> (let b = buffers s i; dst = buffers s j; stream = streams s st in
           if oclosed stream then (Inl ErrStreamClosed, s)
           else if oclosed b then (Inl ErrBufferClosed, s)
           else if j \<noteq> i \<and> oclosed dst then (Inl ErrBufferClosed, s)
           else if octx stream \<noteq> octx b \<or> octx dst \<noteq> octx b then (Inl ErrContextMismatch, s)
           else if blength dst \<noteq> blength b then (Inl ErrLengthMismatch, s)
           else no_value (lift_op (memcpyDtoDAsync new_memOp (octx b) ctx (bptr dst) (bptr b) (bbytes b)
             (sraw stream)) s)))
   | _ \<Rightarrow> (Inl ErrNilBuffer, s))"

definition CopyHtoD :: "goctx option \<Rightarrow> nat option \<Rightarrow> goslice \<Rightarrow> ('w, unit) rop" where
  "CopyHtoD ctx dst src = Buffer_CopyFrom dst ctx src"

definition CopyDtoH :: "goctx option \<Rightarrow> goslice \<Rightarrow> nat option \<Rightarrow> ('w, u8 list) rop" where
  "CopyDtoH ctx dst src = Buffer_CopyTo src ctx dst"

subsection \<open>Copies at an element offset\<close>

definition offsetPtr :: "Buffer \<Rightarrow> goint \<Rightarrow> u64" where
  "offsetPtr b off = bptr b + off * elemSize (belem b)"

definition Buffer_CopyFromAt :: "nat option \<Rightarrow> goctx option \<Rightarrow> goint \<Rightarrow> goslice \<Rightarrow> ('w, unit) rop" where
  "Buffer_CopyFromAt p ctx dstOffset src s = (case p of
     None \<Rightarrow> (Inl ErrNilBuffer, s)
   | Some i \<Rightarrow> (let b = buffers s i in
       if oclosed b then (Inl ErrBufferClosed, s)
       else if sint dstOffset < 0 \<or> len src = 0 then (Inl ErrInvalidLength, s)
       else if sint dstOffset > sint (blength b - len src) then (Inl ErrOutOfRange, s)
       else no_value (lift_op (memcpyHtoD new_memOp (octx b) ctx (offsetPtr b dstOffset)
         (HGo (slice_bytes src)) (len src * elemSize (belem b))) s)))"

definition Buffer_CopyToAt :: "nat option \<Rightarrow> goctx option \<Rightarrow> goslice \<Rightarrow> goint \<Rightarrow> ('w, u8 list) rop" where
  "Buffer_CopyToAt p ctx dst srcOffset s = (case p of
     None \<Rightarrow> (Inl ErrNilBuffer, s)
   | Some i \<Rightarrow> (let b = buffers s i in
       if oclosed b then (Inl ErrBufferClosed, s)
       else if sint srcOffset < 0 \<or> len dst = 0 then (Inl ErrInvalidLength, s)
       else if sint srcOffset > sint (blength b - len dst) then (Inl ErrOutOfRange, s)
       else lift_op (memcpyDtoH new_memOp (octx b) ctx (HGo (slice_bytes dst))
         (offsetPtr b srcOffset) (len dst * elemSize (belem b))) s))"

definition Buffer_CopyToDeviceAt :: "nat option \<Rightarrow> goctx option \<Rightarrow> goint \<Rightarrow> nat option \<Rightarrow> goint \<Rightarrow> goint \<Rightarrow> ('w, unit) rop" where
  "Buffer_CopyToDeviceAt p ctx dstOffset q srcOffset n s = (case (p, q) of
     (Some i, Some j) \<Rightarrow> (let b = buffers s i; dst = buffers s j in
       if oclosed b then (Inl ErrBufferClosed, s)
       else if j \<noteq> i \<and> oclosed dst then (Inl ErrBufferClosed, s)
       else if octx dst \<noteq> octx b then (Inl ErrContextMismatch, s)
       else if sint n \<le> 0 \<or> sint srcOffset < 0 \<or> sint dstOffset < 0 then (Inl ErrInvalidLength, s)
       else if sint srcOffset > sint (blength b - n) \<or> sint dstOffset > sint (blength dst - n)
         then (Inl ErrOutOfRange, s)
       else no_value (lift_op (memcpyDtoD new_memOp (octx b) ctx (offsetPtr dst dstOffset)
         (offsetPtr b srcOffset) (n * elemSize (belem b))) s))
   | _ \<Rightarrow> (Inl ErrNilBuffer, s))"

definition Buffer_CopyToDeviceAtAsync :: "nat option \<Rightarrow> goctx option \<Rightarrow> nat option \<Rightarrow> goint \<Rightarrow> nat option \<Rightarrow> goint \<Rightarrow> goint \<Rightarrow> ('w, unit) rop" where
  "Buffer_CopyToDeviceAtAsync p ctx stp dstOffset q srcOffset n s = (case (p, q) of
     (Some i, Some j) \<Rightarrow> (case stp of
         None \<Rightarrow> (Inl ErrNilStream, s)
       | Some st \<Rightarrow> (let b = buffers s i; dst = buffers s j; stream = streams s st in
           if oclosed stream then (Inl ErrStreamClosed, s)
           else if oclosed b then (Inl ErrBufferClosed, s)
           else if j \<noteq> i \<and> oclosed dst then (Inl ErrBufferClosed, s)
           else if octx stream \<noteq> octx b \<or> octx dst \<noteq> octx b then (Inl ErrContextMismatch, s)
           else if sint n \<le> 0 \<or> sint srcOffset < 0 \<or> sint dstOffset < 0 then (Inl ErrInvalidLength, s)
           else if sint srcOffset > sint (blength b - n) \<or> sint dstOffset > sint (blength dst - n)
             then (Inl ErrOutOfRange, s)
           else no_value (lift_op (memcpyDtoDAsync new_memOp (octx b) ctx (offsetPtr dst dstOffset)
             (offsetPtr b srcOffset) (n * elemSize (belem b)) (sraw stream)) s)))
   | _ \<Rightarrow> (Inl ErrNilBuffer, s))"

subsection \<open>Views\<close>

record View =
  vowner :: "nat option"
  voffset :: goint
  vlength :: goint

definition Buffer_View :: "nat option \<Rightarrow> goint \<Rightarrow> goint \<Rightarrow> 'w rt \<Rightarrow> go_error + View" where
  "Buffer_View p offset n s = (case p of
     None \<Rightarrow> Inl ErrNilBuffer
   | Some i \<Rightarrow> (let b = buffers s i in
       if oclosed b then Inl ErrBufferClosed
       else if sint offset < 0 \<or> sint n \<le> 0 then Inl ErrInvalidLength
       else if sint offset > sint (blength b - n) then Inl ErrOutOfRange
       else Inr \<lparr>vowner = Some i, voffset = offset, vlength = n\<rparr>))"

definition View_View :: "View option \<Rightarrow> goint \<Rightarrow> goint \<Rightarrow> 'w rt \<Rightarrow> go_error + View" where
  "View_View vp offset n s = (case vp of
     None \<Rightarrow> Inl ErrNilBuffer
   | Some v \<Rightarrow> (case vowner v of
       None \<Rightarrow> Inl ErrNilBuffer
     | Some i \<Rightarrow>
         if oclosed (buffers s i) then Inl ErrBufferClosed
         else if sint offset < 0 \<or> sint n \<le> 0 then Inl ErrInvalidLength
         else if sint offset > sint (vlength v - n) then Inl ErrOutOfRange
         else Inr \<lparr>vowner = vowner v, voffset = voffset v + offset, vlength = n\<rparr>))"

definition View_Len :: "View option \<Rightarrow> goint" where
  "View_Len vp = (case vp of None \<Rightarrow> 0 | Some v \<Rightarrow> vlength v)"

definition View_Bytes :: "elem \<Rightarrow> View option \<Rightarrow> u64" where
  "View_Bytes t vp = (case vp of None \<Rightarrow> 0 | Some v \<Rightarrow> vlength v * elemSize t)"

definition View_DevicePtr :: "View option \<Rightarrow> 'w rt \<Rightarrow> u64" where
  "View_DevicePtr vp s = (case vp of
     None \<Rightarrow> 0
   | Some v \<Rightarrow> (case vowner v of None \<Rightarrow> 0 | Some i \<Rightarrow> offsetPtr (buffers s i) (voffset v)))"

definition View_CopyFrom :: "View option \<Rightarrow> goctx option \<Rightarrow> goslice \<Rightarrow> ('w, unit) rop" where
  "View_CopyFrom vp ctx src s = (case vp of
     None \<Rightarrow> (Inl ErrNilBuffer, s)
   | Some v \<Rightarrow>
       if vowner v = None then (Inl ErrNilBuffer, s)
       else if len src \<noteq> vlength v then (Inl ErrLengthMismatch, s)
       else Buffer_CopyFromAt (vowner v) ctx (voffset v) src s)"

definition View_CopyTo :: "View option \<Rightarrow> goctx option \<Rightarrow> goslice \<Rightarrow> ('w, u8 list) rop" where
  "View_CopyTo vp ctx dst s = (case vp of
     None \<Rightarrow> (Inl ErrNilBuffer, s)
   | Some v \<Rightarrow>
       if vowner v = None then (Inl ErrNilBuffer, s)
       else if len dst \<noteq> vlength v then (Inl ErrLengthMismatch, s)
       else Buffer_CopyToAt (vowner v) ctx dst (voffset v) s)"

subsection \<open>Raw accessors\<close>

definition Buffer_DevicePtr :: "nat option \<Rightarrow> 'w rt \<Rightarrow> u64" where
  "Buffer_DevicePtr p s = (case p of None \<Rightarrow> 0 | Some b \<Rightarrow> bptr (buffers s b))"

interpretation buf: resstore buffers buffers_update ErrNilBuffer "\<lambda>d b. MemFree d (bptr b)" id
  rewrites "closeObject ErrNilBuffer buffers buffers_update (\<lambda>d b. MemFree d (bptr b)) id = Buffer_Close"
  by unfold_locales (simp_all add: Buffer_Close_def)

end
