(* ===== verification/StreamEvent.thy ===== *)
theory StreamEvent
  imports Objects
begin

unbundle bit_operations_syntax

section \<open>Streams, events and host callbacks\<close>

text \<open>
  \<^verbatim>\<open>cuda/stream.go\<close>, \<^verbatim>\<open>cuda/event.go\<close>, \<^verbatim>\<open>cuda/hostfunc.go\<close>, \<^verbatim>\<open>internal/hostcb\<close>. An option is a function on the options record, or
  \<^verbatim>\<open>nil\<close>; the options of a call are applied in order and the first error ends the call.
\<close>

subsection \<open>Streams\<close>

definition streamNonBlocking :: u32 where "streamNonBlocking = 1"

record streamOptions =
  sopriority :: "i32 option"
  soerr :: "go_error option"

type_synonym StreamOption = "streamOptions \<Rightarrow> streamOptions"

definition WithStreamPriority :: "goint \<Rightarrow> StreamOption" where
  "WithStreamPriority priority opts =
     (if soerr opts \<noteq> None then opts
      else if sint priority < - (2 ^ 31) \<or> sint priority > 2 ^ 31 - 1
        then opts\<lparr>soerr := Some ErrInvalidStreamPriority\<rparr>
      else opts\<lparr>sopriority := Some (ucast priority)\<rparr>)"

fun applyStreamOptions :: "StreamOption option list \<Rightarrow> streamOptions \<Rightarrow> go_error + streamOptions" where
  "applyStreamOptions [] opts = Inr opts"
| "applyStreamOptions (None # xs) opts = applyStreamOptions xs opts"
| "applyStreamOptions (Some f # xs) opts = (case soerr (f opts) of
     Some e \<Rightarrow> Inl e
   | None \<Rightarrow> applyStreamOptions xs (f opts))"

definition NewStream :: "nat option \<Rightarrow> StreamOption option list \<Rightarrow> ('w, nat) rop" where
  "NewStream cp options s = (case cp of
     None \<Rightarrow> (Inl ErrNilContext, s)
   | Some c \<Rightarrow> (case applyStreamOptions options \<lparr>sopriority = None, soerr = None\<rparr> of
       Inl e \<Rightarrow> (Inl e, s)
     | Inr opts \<Rightarrow> createWith (doWait cp bg (case sopriority opts of
           Some p \<Rightarrow> StreamCreateWithPriority (drv_of c s) streamNonBlocking p
         | None \<Rightarrow> StreamCreate (drv_of c s) streamNonBlocking)) streams_update
         (\<lambda>r. \<lparr>octx = c, oclosed = False, sraw = r\<rparr>) s))"

definition Stream_Synchronize :: "nat option \<Rightarrow> goctx option \<Rightarrow> ('w, unit) rop" where
  "Stream_Synchronize p ctx s = (case p of
     None \<Rightarrow> (Inl ErrNilStream, s)
   | Some i \<Rightarrow> (let st = streams s i in
       if oclosed st then (Inl ErrStreamClosed, s)
       else lift_op (doJobCtx (Some (octx st)) ctx
         (syncOp_Run (newSyncOp (drv_of (octx st) s) opStreamSync (sraw st) 0 0))) s))"

definition Stream_Query :: "nat option \<Rightarrow> ('w, unit) rop" where
  "Stream_Query p s = (case p of
     None \<Rightarrow> (Inl ErrNilStream, s)
   | Some i \<Rightarrow> (let st = streams s i in
       if oclosed st then (Inl ErrStreamClosed, s)
       else lift_op (doJob (Some (octx st)) bg
         (syncOp_Run (newSyncOp (drv_of (octx st) s) opStreamQuery (sraw st) 0 0))) s))"

definition waitEventDefault :: u32 where "waitEventDefault = 0"

record waitOptions =
  woflags :: u32
  woerr :: "go_error option"

type_synonym WaitOption = "waitOptions \<Rightarrow> waitOptions"

fun applyWaitOptions :: "WaitOption option list \<Rightarrow> waitOptions \<Rightarrow> go_error + waitOptions" where
  "applyWaitOptions [] opts = Inr opts"
| "applyWaitOptions (None # xs) opts = applyWaitOptions xs opts"
| "applyWaitOptions (Some f # xs) opts = (case woerr (f opts) of
     Some e \<Rightarrow> Inl e
   | None \<Rightarrow> applyWaitOptions xs (f opts))"

definition Stream_WaitEvent :: "nat option \<Rightarrow> nat option \<Rightarrow> WaitOption option list \<Rightarrow> ('w, unit) rop" where
  "Stream_WaitEvent p evp options s = (case p of
     None \<Rightarrow> (Inl ErrNilStream, s)
   | Some i \<Rightarrow> (case evp of
       None \<Rightarrow> (Inl ErrNilEvent, s)
     | Some j \<Rightarrow> (case applyWaitOptions options \<lparr>woflags = waitEventDefault, woerr = None\<rparr> of
         Inl e \<Rightarrow> (Inl e, s)
       | Inr opts \<Rightarrow> (let st = streams s i; ev = events s j in
           if oclosed st then (Inl ErrStreamClosed, s)
           else if oclosed ev then (Inl ErrEventClosed, s)
           else if octx st \<noteq> octx ev then (Inl ErrContextMismatch, s)
           else lift_op (doJob (Some (octx st)) bg (syncOp_Run
             (newSyncOp (drv_of (octx st) s) opStreamWaitEvent (sraw st) (eraw ev) (woflags opts)))) s))))"

definition Stream_Close :: "nat option \<Rightarrow> ('w, unit) rop" where
  "Stream_Close = closeObject ErrNilStream streams streams_update (\<lambda>d st. StreamDestroy d (sraw st)) id"

definition Stream_Raw :: "nat option \<Rightarrow> 'w rt \<Rightarrow> u64" where
  "Stream_Raw p s = (case p of None \<Rightarrow> 0 | Some i \<Rightarrow> sraw (streams s i))"

subsection \<open>Events\<close>

definition eventDefault :: u32 where "eventDefault = 0"
definition eventBlockingSync :: u32 where "eventBlockingSync = 1"
definition eventDisableTiming :: u32 where "eventDisableTiming = 2"
definition eventInterprocess :: u32 where "eventInterprocess = 4"

lemmas event_flags = eventDefault_def eventBlockingSync_def eventDisableTiming_def eventInterprocess_def

record eventOptions =
  eoflags :: u32
  eoerr :: "go_error option"

type_synonym EventOption = "eventOptions \<Rightarrow> eventOptions"

definition WithEventBlockingSync :: EventOption where
  "WithEventBlockingSync opts = (if eoerr opts \<noteq> None then opts
     else opts\<lparr>eoflags := eoflags opts OR eventBlockingSync\<rparr>)"

definition WithEventInterprocess :: EventOption where
  "WithEventInterprocess opts = opts\<lparr>eoflags := eoflags opts OR (eventInterprocess OR eventDisableTiming)\<rparr>"

definition WithEventDisableTiming :: EventOption where
  "WithEventDisableTiming opts = (if eoerr opts \<noteq> None then opts
     else opts\<lparr>eoflags := eoflags opts OR eventDisableTiming\<rparr>)"

fun applyEventOptions :: "EventOption option list \<Rightarrow> eventOptions \<Rightarrow> go_error + eventOptions" where
  "applyEventOptions [] opts = Inr opts"
| "applyEventOptions (None # xs) opts = applyEventOptions xs opts"
| "applyEventOptions (Some f # xs) opts = (case eoerr (f opts) of
     Some e \<Rightarrow> Inl e
   | None \<Rightarrow> applyEventOptions xs (f opts))"

definition NewEvent :: "nat option \<Rightarrow> EventOption option list \<Rightarrow> ('w, nat) rop" where
  "NewEvent cp options s = (case cp of
     None \<Rightarrow> (Inl ErrNilContext, s)
   | Some c \<Rightarrow> (case applyEventOptions options \<lparr>eoflags = eventDefault, eoerr = None\<rparr> of
       Inl e \<Rightarrow> (Inl e, s)
     | Inr opts \<Rightarrow> createWith (doWait cp bg (EventCreate (drv_of c s) (eoflags opts))) events_update
         (\<lambda>r. \<lparr>octx = c, oclosed = False, eraw = r,
            timingDisabled = (eoflags opts AND eventDisableTiming \<noteq> 0),
            interprocess = (eoflags opts AND eventInterprocess \<noteq> 0)\<rparr>) s))"

definition Event_Record :: "nat option \<Rightarrow> nat option \<Rightarrow> ('w, unit) rop" where
  "Event_Record p stp s = (case p of
     None \<Rightarrow> (Inl ErrNilEvent, s)
   | Some i \<Rightarrow> (case stp of
       None \<Rightarrow> (Inl ErrNilStream, s)
     | Some j \<Rightarrow> (let ev = events s i; st = streams s j in
         if oclosed st then (Inl ErrStreamClosed, s)
         else if oclosed ev then (Inl ErrEventClosed, s)
         else if octx st \<noteq> octx ev then (Inl ErrContextMismatch, s)
         else lift_op (doJob (Some (octx ev)) bg (syncOp_Run
           (newSyncOp (drv_of (octx ev) s) opEventRecord (sraw st) (eraw ev) 0))) s)))"

definition Event_Synchronize :: "nat option \<Rightarrow> goctx option \<Rightarrow> ('w, unit) rop" where
  "Event_Synchronize p ctx s = (case p of
     None \<Rightarrow> (Inl ErrNilEvent, s)
   | Some i \<Rightarrow> (let ev = events s i in
       if oclosed ev then (Inl ErrEventClosed, s)
       else lift_op (doJobCtx (Some (octx ev)) ctx
         (syncOp_Run (newSyncOp (drv_of (octx ev) s) opEventSync 0 (eraw ev) 0))) s))"

definition Event_Query :: "nat option \<Rightarrow> ('w, unit) rop" where
  "Event_Query p s = (case p of
     None \<Rightarrow> (Inl ErrNilEvent, s)
   | Some i \<Rightarrow> (let ev = events s i in
       if oclosed ev then (Inl ErrEventClosed, s)
       else lift_op (doJob (Some (octx ev)) bg
         (syncOp_Run (newSyncOp (drv_of (octx ev) s) opEventQuery 0 (eraw ev) 0))) s))"

text \<open>
  \<^verbatim>\<open>lockEvents\<close> takes the two read locks in address order; an event paired with itself is locked once.
  \<^verbatim>\<open>unlockEvents\<close> releases in the reverse order.
\<close>

definition lockEvents :: "nat \<Rightarrow> nat \<Rightarrow> nat \<times> nat option" where
  "lockEvents a b = (if a = b then (a, None) else if a > b then (b, Some a) else (a, Some b))"

definition unlockEvents :: "nat \<times> nat option \<Rightarrow> nat list" where
  "unlockEvents fs = (case fs of (first, None) \<Rightarrow> [first] | (first, Some second) \<Rightarrow> [second, first])"

text \<open>
  The driver returns milliseconds as a \<^verbatim>\<open>float32\<close>: sign, eight bits of exponent and 23 of fraction, a number \<open>\<plusminus>m * 2^e\<close> or, for the largest exponent, none. Its product with the
  million nanoseconds of a \<^verbatim>\<open>time.Millisecond\<close> needs at most 38 significant bits and is exact as a \<^verbatim>\<open>float64\<close>. The conversion to a
  \<^verbatim>\<open>time.Duration\<close> cuts off the fraction; Go leaves open what it gives for a value that does not fit 64 bits (\<open>None\<close>).
\<close>

definition f32_parts :: "u32 \<Rightarrow> (bool \<times> int \<times> int) option" where
  "f32_parts v = (let expo = uint (drop_bit 23 v AND 0xff); frac = uint (v AND 0x7fffff) in
     if expo = 255 then None
     else if expo = 0 then Some (bit v 31, frac, - 149)
     else Some (bit v 31, frac + 2 ^ 23, expo - 150))"

definition msDuration :: "u32 \<Rightarrow> int option" where
  "msDuration ms = (case f32_parts ms of
     None \<Rightarrow> None
   | Some (neg, m, e) \<Rightarrow>
       (let q = (if 0 \<le> e then m * 1000000 * 2 ^ nat e else m * 1000000 div 2 ^ nat (- e)) in
        if q < 2 ^ 63 then Some (if neg then - q else q) else None))"

definition Event_Elapsed :: "nat option \<Rightarrow> nat option \<Rightarrow> ('w, int option) rop" where
  "Event_Elapsed p q s = (case (p, q) of
     (Some i, Some j) \<Rightarrow> (let e = events s i; f = events s j in
       if oclosed e \<or> oclosed f then (Inl ErrEventClosed, s)
       else if timingDisabled e \<or> timingDisabled f then (Inl ErrEventTimingDisabled, s)
       else if octx e \<noteq> octx f then (Inl ErrContextMismatch, s)
       else (case lift_op (eventElapsed (Some (octx e)) (eraw e) (eraw f)) s of
           (Inl err, s1) \<Rightarrow> (Inl err, s1)
         | (Inr ms, s1) \<Rightarrow> (Inr (msDuration ms), s1)))
   | _ \<Rightarrow> (Inl ErrNilEvent, s))"

definition Event_Close :: "nat option \<Rightarrow> ('w, unit) rop" where
  "Event_Close = closeObject ErrNilEvent events events_update (\<lambda>d ev. EventDestroy d (eraw ev)) id"

definition Event_Raw :: "nat option \<Rightarrow> 'w rt \<Rightarrow> u64" where
  "Event_Raw p s = (case p of None \<Rightarrow> 0 | Some i \<Rightarrow> eraw (events s i))"

definition Context_Raw :: "nat option \<Rightarrow> 'w sys \<Rightarrow> u64" where
  "Context_Raw cp s = (case cp of None \<Rightarrow> 0 | Some c \<Rightarrow> raw (ctxs s c))"

definition Context_Driver :: "nat option \<Rightarrow> 'w sys \<Rightarrow> 'w Driver option" where
  "Context_Driver cp s = (case cp of None \<Rightarrow> None | Some c \<Rightarrow> driver (ctxs s c))"

subsection \<open>The callback registry\<close>

definition registryShardCount :: nat where "registryShardCount = 32"

definition shardFor :: "u64 \<Rightarrow> nat" where
  "shardFor key = unat key mod registryShardCount"

definition setShard :: "nat \<Rightarrow> (u64 \<rightharpoonup> nat) \<Rightarrow> hostcb \<Rightarrow> hostcb" where
  "setShard i m r = r\<lparr>shards := (shards r)[i := m]\<rparr>"

definition Register :: "nat \<Rightarrow> hostcb \<Rightarrow> u64 \<times> hostcb" where
  "Register fn r = (let k = nextKey r + 1; r1 = r\<lparr>nextKey := k\<rparr>; i = shardFor k in
     (k, setShard i ((shards r1 ! i)(k \<mapsto> fn)) r1))"

definition Unregister :: "u64 \<Rightarrow> hostcb \<Rightarrow> hostcb" where
  "Unregister key r = (let i = shardFor key in setShard i ((shards r ! i)(key := None)) r)"

text \<open>
  \<^verbatim>\<open>Invoke\<close> runs the closure it removed. Running a closure is a function on the state \<open>'h\<close> of the Go program that may
  panic with a message; the panic is written to standard error and swallowed.
\<close>

definition Invoke :: "(nat \<Rightarrow> 'h \<Rightarrow> string option \<times> 'h) \<Rightarrow> u64 \<Rightarrow> hostcb \<times> 'h \<times> string list \<Rightarrow>
    hostcb \<times> 'h \<times> string list" where
  "Invoke call key = (\<lambda>(r, h, stderr). (let i = shardFor key in
     case (shards r ! i) key of
       None \<Rightarrow> (r, h, stderr)
     | Some fn \<Rightarrow> (let r1 = setShard i ((shards r ! i)(key := None)) r in
         case call fn h of
           (None, h1) \<Rightarrow> (r1, h1, stderr)
         | (Some msg, h1) \<Rightarrow> (r1, h1, stderr @ [''cuda: panic in host function: '' @ msg @ [CHR 0x0A]]))))"

definition callback :: "(nat \<Rightarrow> 'h \<Rightarrow> string option \<times> 'h) \<Rightarrow> u64 \<Rightarrow> hostcb \<times> 'h \<times> string list \<Rightarrow>
    u64 \<times> hostcb \<times> 'h \<times> string list" where
  "callback call userData st = (0, Invoke call userData st)"

text \<open>The trampoline is made on first use; its address is what the foreign-function library returned.\<close>

definition Callback :: "u64 \<Rightarrow> hostcb \<Rightarrow> u64 \<times> hostcb" where
  "Callback fresh r = (if tramp r = 0 then (fresh, r\<lparr>tramp := fresh\<rparr>) else (tramp r, r))"

definition Pending :: "u64 \<Rightarrow> hostcb \<Rightarrow> bool" where
  "Pending key r = ((shards r ! shardFor key) key \<noteq> None)"

text \<open>
  \<^verbatim>\<open>LaunchHostFunc\<close>: the closure is registered before the call and dropped if the call failed. The job evaluates
  \<^verbatim>\<open>Callback()\<close>; here the trampoline is made just before the dispatch, which shows only in \<open>tramp\<close> when the dispatch is refused.
\<close>

definition Stream_LaunchHostFunc :: "u64 \<Rightarrow> nat option \<Rightarrow> nat option \<Rightarrow> ('w, unit) rop" where
  "Stream_LaunchHostFunc fresh p fn s = (case p of
     None \<Rightarrow> (Inl ErrNilStream, s)
   | Some i \<Rightarrow> (case fn of
       None \<Rightarrow> (Inl ErrNilHostFunc, s)
     | Some f \<Rightarrow> (let st = streams s i in
         if oclosed st then (Inl ErrStreamClosed, s)
         else (case Register f (registry s) of (key, r1) \<Rightarrow>
           (case Callback fresh r1 of (tr, r2) \<Rightarrow>
             (case lift_op (doWait (Some (octx st)) bg
                 (LaunchHostFunc (drv_of (octx st) s) (sraw st) tr key)) (s\<lparr>registry := r2\<rparr>) of
               (Inl e, s1) \<Rightarrow> (Inl e, s1\<lparr>registry := Unregister key (registry s1)\<rparr>)
             | (Inr _, s1) \<Rightarrow> (Inr (), s1)))))))"

subsection \<open>Stores\<close>

interpretation stream: resstore streams streams_update ErrNilStream "\<lambda>d st. StreamDestroy d (sraw st)" id
  rewrites "closeObject ErrNilStream streams streams_update (\<lambda>d st. StreamDestroy d (sraw st)) id = Stream_Close"
  by unfold_locales (simp_all add: Stream_Close_def)

interpretation event: resstore events events_update ErrNilEvent "\<lambda>d ev. EventDestroy d (eraw ev)" id
  rewrites "closeObject ErrNilEvent events events_update (\<lambda>d ev. EventDestroy d (eraw ev)) id = Event_Close"
  by unfold_locales (simp_all add: Event_Close_def)

end
