(* ===== verification/Vmm.thy ===== *)
theory Vmm
  imports HostMem
begin

section \<open>Virtual memory\<close>

text \<open>
  \<^verbatim>\<open>cuda/vmm.go\<close>: a virtual buffer is a physical allocation, an address range and a mapping, made together with
  rollback on failure, and released piecewise by \<^verbatim>\<open>Close\<close>, which can be retried.
\<close>

definition memAllocTypePinned :: i32 where "memAllocTypePinned = 1"
definition memLocTypeDevice :: i32 where "memLocTypeDevice = 1"
definition memAccessReadWrite :: i32 where "memAccessReadWrite = 3"
definition granularityRecommend :: u32 where "granularityRecommend = 1"

definition deviceHandle :: "nat \<Rightarrow> 'w rt \<Rightarrow> i32" where
  "deviceHandle c s = (case device (ctxs (sy s) c) of None \<Rightarrow> 0 | Some d \<Rightarrow> handle d)"

definition memProp :: "i32 \<Rightarrow> CUmemAllocationProp" where
  "memProp h = \<lparr>propType = memAllocTypePinned, propRequestedHandleTypes = 0,
     propLocation = \<lparr>locType = memLocTypeDevice, locId = h\<rparr>\<rparr>"

definition accessDesc :: "i32 \<Rightarrow> CUmemAccessDesc" where
  "accessDesc h = \<lparr>accLocation = \<lparr>locType = memLocTypeDevice, locId = h\<rparr>, accFlags = memAccessReadWrite\<rparr>"

definition vmmAvailable :: "'w Driver option \<Rightarrow> bool" where
  "vmmAvailable d = (case d of None \<Rightarrow> False | Some D \<Rightarrow>
     bound D ''cuMemGetAllocationGranularity'' \<and> bound D ''cuMemCreate'' \<and> bound D ''cuMemAddressReserve'' \<and>
     bound D ''cuMemMap'' \<and> bound D ''cuMemSetAccess'' \<and> bound D ''cuMemUnmap'' \<and>
     bound D ''cuMemAddressFree'' \<and> bound D ''cuMemRelease'')"

definition roundUp :: "u64 \<Rightarrow> u64 \<Rightarrow> u64 option" where
  "roundUp v mult = (let r = v mod mult in
     if r = 0 then Some v
     else let pad = mult - r in
       if pad > MaxUint64 - v then None else Some (v + pad))"

text \<open>\<^verbatim>\<open>errors.Join\<close> of a list with at least one error.\<close>

definition joined :: "go_error option list \<Rightarrow> go_error + 'a" where
  "joined es = Inl (the (errors_Join es))"

definition acquireVirtual :: "'w Driver option \<Rightarrow> i32 \<Rightarrow> u64 \<Rightarrow> u64 \<Rightarrow> CUmemAllocationProp \<Rightarrow> ('w, u64 \<times> u64) drv" where
  "acquireVirtual d h siz gran prop t w = (case MemCreate d siz prop t w of
     (Inl e, w1) \<Rightarrow> (Inl e, w1)
   | (Inr hdl, w1) \<Rightarrow> (case MemAddressReserve d siz gran t w1 of
       (Inl e, w2) \<Rightarrow> (case MemRelease d hdl t w2 of (r1, w3) \<Rightarrow> (joined [Some e, err_of r1], w3))
     | (Inr ptr, w2) \<Rightarrow> (case MemMap d ptr siz hdl t w2 of
         (Inl e, w3) \<Rightarrow> (case MemAddressFree d ptr siz t w3 of (r1, w4) \<Rightarrow>
            (case MemRelease d hdl t w4 of (r2, w5) \<Rightarrow> (joined [Some e, err_of r1, err_of r2], w5)))
       | (Inr _, w3) \<Rightarrow> (case MemSetAccess d ptr siz (accessDesc h) t w3 of
           (Inl e, w4) \<Rightarrow> (case MemUnmap d ptr siz t w4 of (r1, w5) \<Rightarrow>
              if err_of r1 = None then
                (case MemAddressFree d ptr siz t w5 of (r2, w6) \<Rightarrow>
                  (case MemRelease d hdl t w6 of (r3, w7) \<Rightarrow>
                    (joined [Some e, err_of r1, err_of r2, err_of r3], w7)))
              else (case MemRelease d hdl t w5 of (r3, w6) \<Rightarrow> (joined [Some e, err_of r1, err_of r3], w6)))
         | (Inr _, w4) \<Rightarrow> (Inr (ptr, hdl), w4)))))"

definition allocVirtualJob :: "'w Driver option \<Rightarrow> i32 \<Rightarrow> u64 \<Rightarrow> ('w, u64 \<times> u64 \<times> u64) drv" where
  "allocVirtualJob d h bytes t w = (let prop = memProp h in
     case MemGetAllocationGranularity d prop granularityRecommend t w of
       (Inl e, w1) \<Rightarrow> (Inl e, w1)
     | (Inr gran, w1) \<Rightarrow>
         if gran = 0 then (Inl ErrInvalidLength, w1)
         else (case roundUp bytes gran of
           None \<Rightarrow> (Inl ErrInvalidLength, w1)
         | Some siz \<Rightarrow> (case acquireVirtual d h siz gran prop t w1 of
             (Inl e, w2) \<Rightarrow> (Inl e, w2)
           | (Inr (ptr, hdl), w2) \<Rightarrow> (Inr (ptr, hdl, siz), w2))))"

definition AllocVirtual :: "elem \<Rightarrow> nat option \<Rightarrow> goint \<Rightarrow> ('w, nat) rop" where
  "AllocVirtual t cp n s = (case cp of
     None \<Rightarrow> (Inl ErrNilContext, s)
   | Some c \<Rightarrow> (case byteSize t n of
       None \<Rightarrow> (Inl ErrInvalidLength, s)
     | Some bytes \<Rightarrow>
         if \<not> vmmAvailable (drv_of c s) then (Inl ErrSymbolUnavailable, s)
         else createWith (do_cmd cp bg (allocVirtualJob (drv_of c s) (deviceHandle c s) bytes)) virtuals_update
           (\<lambda>(ptr, hdl, siz). \<lparr>octx = c, oclosed = False, vbptr = ptr, vbhandle = hdl, vbsize = siz,
              vblength = n, vbbytes = bytes, vbmapped = True, vbreserved = True, vbcreated = True,
              vbelem = t\<rparr>) s))"

definition Virtual_Len :: "nat option \<Rightarrow> 'w rt \<Rightarrow> goint" where
  "Virtual_Len p s = (case p of None \<Rightarrow> 0 | Some i \<Rightarrow> vblength (virtuals s i))"

definition Virtual_Bytes :: "nat option \<Rightarrow> 'w rt \<Rightarrow> u64" where
  "Virtual_Bytes p s = (case p of None \<Rightarrow> 0 | Some i \<Rightarrow> vbbytes (virtuals s i))"

definition Virtual_DevicePtr :: "nat option \<Rightarrow> 'w rt \<Rightarrow> u64" where
  "Virtual_DevicePtr p s = (case p of None \<Rightarrow> 0 | Some i \<Rightarrow> vbptr (virtuals s i))"

definition Virtual_CopyFrom :: "nat option \<Rightarrow> goctx option \<Rightarrow> goslice \<Rightarrow> ('w, unit) rop" where
  "Virtual_CopyFrom p ctx src s = (case p of
     None \<Rightarrow> (Inl ErrNilBuffer, s)
   | Some i \<Rightarrow> (let b = virtuals s i in
       if oclosed b \<or> \<not> vbmapped b then (Inl ErrBufferClosed, s)
       else if len src = 0 \<or> len src \<noteq> vblength b then (Inl ErrLengthMismatch, s)
       else no_value (lift_op
         (memcpyHtoD new_memOp (octx b) ctx (vbptr b) (HGo (slice_bytes src)) (vbbytes b)) s)))"

definition Virtual_CopyTo :: "nat option \<Rightarrow> goctx option \<Rightarrow> goslice \<Rightarrow> ('w, u8 list) rop" where
  "Virtual_CopyTo p ctx dst s = (case p of
     None \<Rightarrow> (Inl ErrNilBuffer, s)
   | Some i \<Rightarrow> (let b = virtuals s i in
       if oclosed b \<or> \<not> vbmapped b then (Inl ErrBufferClosed, s)
       else if len dst = 0 \<or> len dst \<noteq> vblength b then (Inl ErrLengthMismatch, s)
       else lift_op
         (memcpyDtoH new_memOp (octx b) ctx (HGo (slice_bytes dst)) (vbptr b) (vbbytes b)) s))"

text \<open>\<^verbatim>\<open>tryFree\<close>: the flag stays set, and the error is recorded, when the call fails.\<close>

definition tryFree :: "bool \<Rightarrow> go_error list \<Rightarrow> ('w, unit) drv \<Rightarrow> tid \<Rightarrow> 'w \<Rightarrow> (bool \<times> go_error list) \<times> 'w" where
  "tryFree live errs opn t w = (if \<not> live then ((live, errs), w)
     else (case opn t w of
       (Inl e, w1) \<Rightarrow> ((live, errs @ [e]), w1)
     | (Inr _, w1) \<Rightarrow> ((False, errs), w1)))"

definition closeVirtualJob :: "'w Driver option \<Rightarrow> VirtualBuffer \<Rightarrow> ('w, bool \<times> bool \<times> bool \<times> go_error list) drv" where
  "closeVirtualJob d b t w =
     (case tryFree (vbmapped b) [] (MemUnmap d (vbptr b) (vbsize b)) t w of ((mapped, errs1), w1) \<Rightarrow>
     (case tryFree (vbcreated b) errs1 (MemRelease d (vbhandle b)) t w1 of ((created, errs2), w2) \<Rightarrow>
     (if \<not> mapped then
        (case tryFree (vbreserved b) errs2 (MemAddressFree d (vbptr b) (vbsize b)) t w2 of
           ((reserved, errs3), w3) \<Rightarrow> (Inr (mapped, reserved, created, errs3), w3))
      else (Inr (mapped, vbreserved b, created, errs2), w2))))"

definition Virtual_Close :: "nat option \<Rightarrow> ('w, unit) rop" where
  "Virtual_Close p s = (case p of
     None \<Rightarrow> (Inl ErrNilBuffer, s)
   | Some i \<Rightarrow> (let b = virtuals s i in
       if oclosed b then (Inr (), s)
       else (case lift_op (doBarrier (Some (octx b)) bg (closeVirtualJob (drv_of (octx b) s) b)) s of
           (Inl e, s1) \<Rightarrow> (Inl e, s1)
         | (Inr (mapped, reserved, created, errs), s1) \<Rightarrow>
             (let b1 = b\<lparr>vbmapped := mapped, vbreserved := reserved, vbcreated := created\<rparr> in
              if errs \<noteq> [] then
                (joined (map Some errs), virtuals_update (\<lambda>f. f(i := b1)) s1)
              else (Inr (), virtuals_update (\<lambda>f. f(i := b1\<lparr>oclosed := True\<rparr>)) s1)))))"

interpretation virt: objstore virtuals virtuals_update
  by unfold_locales simp_all

end
