(* ===== verification/MemKinds.thy ===== *)
theory MemKinds
  imports Buffers StreamEvent Vmm
begin

section \<open>Managed memory, memory pools, inter-process handles and peer access\<close>

text \<open>\<^verbatim>\<open>cuda/managed.go\<close>, \<^verbatim>\<open>cuda/mempool.go\<close>, \<^verbatim>\<open>cuda/ipc.go\<close>, \<^verbatim>\<open>cuda/peer.go\<close>.\<close>

subsection \<open>Managed memory\<close>

definition memAttachGlobal :: u32 where "memAttachGlobal = 1"
definition deviceCPU :: i32 where "deviceCPU = - 1"

text \<open>The host address of a managed allocation is also its device pointer.\<close>

definition AllocManaged :: "elem \<Rightarrow> nat option \<Rightarrow> goint \<Rightarrow> ('w, nat) rop" where
  "AllocManaged t cp n s = (case cp of
     None \<Rightarrow> (Inl ErrNilContext, s)
   | Some c \<Rightarrow> (case byteSize t n of
       None \<Rightarrow> (Inl ErrInvalidLength, s)
     | Some bytes \<Rightarrow> createWith (do_cmd cp bg (MemAllocManaged (drv_of c s) bytes memAttachGlobal))
         manageds_update (\<lambda>host. \<lparr>octx = c, oclosed = False, mhost = host, mptr = host, mlength = n,
            mbytes = bytes, melem = t\<rparr>) s))"

definition Managed_Len :: "nat option \<Rightarrow> 'w rt \<Rightarrow> goint" where
  "Managed_Len p s = (case p of None \<Rightarrow> 0 | Some i \<Rightarrow> mlength (manageds s i))"

definition Managed_Bytes :: "nat option \<Rightarrow> 'w rt \<Rightarrow> u64" where
  "Managed_Bytes p s = (case p of None \<Rightarrow> 0 | Some i \<Rightarrow> mbytes (manageds s i))"

definition Managed_DevicePtr :: "nat option \<Rightarrow> 'w rt \<Rightarrow> u64" where
  "Managed_DevicePtr p s = (case p of None \<Rightarrow> 0 | Some i \<Rightarrow> mptr (manageds s i))"

definition Managed_Slice :: "nat option \<Rightarrow> 'w rt \<Rightarrow> (u64 \<times> goint) option" where
  "Managed_Slice p s = (case p of
     None \<Rightarrow> None
   | Some i \<Rightarrow> (let m = manageds s i in
       if mhost m = 0 then None else if oclosed m then None else Some (mhost m, mlength m)))"

definition prefetch :: "nat option \<Rightarrow> goctx option \<Rightarrow> nat option \<Rightarrow> bool \<Rightarrow> ('w, unit) rop" where
  "prefetch p ctx stp toHost s = (case p of
     None \<Rightarrow> (Inl ErrNilBuffer, s)
   | Some i \<Rightarrow> (case stp of
       None \<Rightarrow> (Inl ErrNilStream, s)
     | Some j \<Rightarrow> (let m = manageds s i; stream = streams s j in
         if oclosed stream then (Inl ErrStreamClosed, s)
         else if oclosed m then (Inl ErrBufferClosed, s)
         else if octx stream \<noteq> octx m then (Inl ErrContextMismatch, s)
         else (let dst = (if toHost then deviceCPU else deviceHandle (octx m) s) in
           lift_op (doWait (Some (octx m)) ctx
             (MemPrefetchAsync (drv_of (octx m) s) (mptr m) (mbytes m) dst (sraw stream))) s))))"

definition PrefetchToDevice :: "nat option \<Rightarrow> goctx option \<Rightarrow> nat option \<Rightarrow> ('w, unit) rop" where
  "PrefetchToDevice p ctx stp = prefetch p ctx stp False"

definition PrefetchToHost :: "nat option \<Rightarrow> goctx option \<Rightarrow> nat option \<Rightarrow> ('w, unit) rop" where
  "PrefetchToHost p ctx stp = prefetch p ctx stp True"

definition AdviseSetReadMostly :: i32 where "AdviseSetReadMostly = 1"
definition AdviseUnsetReadMostly :: i32 where "AdviseUnsetReadMostly = 2"
definition AdviseSetPreferredLocation :: i32 where "AdviseSetPreferredLocation = 3"
definition AdviseUnsetPreferredLocation :: i32 where "AdviseUnsetPreferredLocation = 4"
definition AdviseSetAccessedBy :: i32 where "AdviseSetAccessedBy = 5"
definition AdviseUnsetAccessedBy :: i32 where "AdviseUnsetAccessedBy = 6"

definition Managed_Advise :: "nat option \<Rightarrow> i32 \<Rightarrow> ('w, unit) rop" where
  "Managed_Advise p advice s = (case p of
     None \<Rightarrow> (Inl ErrNilBuffer, s)
   | Some i \<Rightarrow> (let m = manageds s i in
       if oclosed m then (Inl ErrBufferClosed, s)
       else lift_op (do_cmd (Some (octx m)) bg (MemAdvise (drv_of (octx m) s) (mptr m) (mbytes m) advice
         (deviceHandle (octx m) s))) s))"

definition Managed_Close :: "nat option \<Rightarrow> ('w, unit) rop" where
  "Managed_Close = closeObject ErrNilBuffer manageds manageds_update (\<lambda>d m. MemFree d (mptr m)) id"

subsection \<open>Memory pools\<close>

record MemoryPool =
  mpctx :: nat
  mpraw :: u64

definition MemPoolAttrReleaseThreshold :: i32 where "MemPoolAttrReleaseThreshold = 4"
definition MemPoolAttrReservedMemCurrent :: i32 where "MemPoolAttrReservedMemCurrent = 5"
definition MemPoolAttrUsedMemCurrent :: i32 where "MemPoolAttrUsedMemCurrent = 7"
definition MemPoolAttrReuseFollowEventDependencies :: i32 where "MemPoolAttrReuseFollowEventDependencies = 1"
definition MemPoolAttrReuseAllowOpportunistic :: i32 where "MemPoolAttrReuseAllowOpportunistic = 2"
definition MemPoolAttrReuseAllowInternalDependencies :: i32 where "MemPoolAttrReuseAllowInternalDependencies = 3"
definition MemPoolAttrReservedMemHigh :: i32 where "MemPoolAttrReservedMemHigh = 6"
definition MemPoolAttrUsedMemHigh :: i32 where "MemPoolAttrUsedMemHigh = 8"

definition DefaultMemPool :: "nat option \<Rightarrow> ('w, MemoryPool) rop" where
  "DefaultMemPool cp s = (case cp of
     None \<Rightarrow> (Inl ErrNilContext, s)
   | Some c \<Rightarrow> (case lift_op (do_cmd cp bg (DeviceGetDefaultMemPool (drv_of c s) (deviceHandle c s))) s of
       (Inl e, s1) \<Rightarrow> (Inl e, s1)
     | (Inr p, s1) \<Rightarrow> (Inr \<lparr>mpctx = c, mpraw = p\<rparr>, s1)))"

definition getU64 :: "MemoryPool option \<Rightarrow> i32 \<Rightarrow> ('w, u64) rop" where
  "getU64 pp attr s = (case pp of
     None \<Rightarrow> (Inl ErrNilMemPool, s)
   | Some p \<Rightarrow> lift_op (do_cmd (Some (mpctx p)) bg (MemPoolGetAttributeU64 (drv_of (mpctx p) s) (mpraw p) attr)) s)"

definition ReleaseThreshold :: "MemoryPool option \<Rightarrow> ('w, u64) rop" where
  "ReleaseThreshold pp = getU64 pp MemPoolAttrReleaseThreshold"

definition SetReleaseThreshold :: "MemoryPool option \<Rightarrow> u64 \<Rightarrow> ('w, unit) rop" where
  "SetReleaseThreshold pp bytes s = (case pp of
     None \<Rightarrow> (Inl ErrNilMemPool, s)
   | Some p \<Rightarrow> lift_op (do_cmd (Some (mpctx p)) bg
       (MemPoolSetAttributeU64 (drv_of (mpctx p) s) (mpraw p) MemPoolAttrReleaseThreshold bytes)) s)"

definition ReservedMemCurrent :: "MemoryPool option \<Rightarrow> ('w, u64) rop" where
  "ReservedMemCurrent pp = getU64 pp MemPoolAttrReservedMemCurrent"

definition UsedMemCurrent :: "MemoryPool option \<Rightarrow> ('w, u64) rop" where
  "UsedMemCurrent pp = getU64 pp MemPoolAttrUsedMemCurrent"

definition AllocFromPool :: "elem \<Rightarrow> MemoryPool option \<Rightarrow> nat option \<Rightarrow> goint \<Rightarrow> ('w, nat) rop" where
  "AllocFromPool t pp stp n s = (case pp of
     None \<Rightarrow> (Inl ErrNilMemPool, s)
   | Some p \<Rightarrow> (case stp of
       None \<Rightarrow> (Inl ErrNilStream, s)
     | Some j \<Rightarrow> (case byteSize t n of
         None \<Rightarrow> (Inl ErrInvalidLength, s)
       | Some bytes \<Rightarrow> (let stream = streams s j in
           if oclosed stream then (Inl ErrStreamClosed, s)
           else if octx stream \<noteq> mpctx p then (Inl ErrContextMismatch, s)
           else createWith (doWait (Some (mpctx p)) bg
             (MemAllocFromPoolAsync (drv_of (mpctx p) s) bytes (mpraw p) (sraw stream))) buffers_update
             (mkBuffer (mpctx p) t n bytes) s))))"

subsection \<open>Inter-process handles\<close>

text \<open>A handle is its 64 bytes.\<close>

record IPCMemHandle = imData :: "u8 list"
record IPCEventHandle = ieData :: "u8 list"

definition IPCMemHandle_Bytes :: "IPCMemHandle \<Rightarrow> u8 list" where
  "IPCMemHandle_Bytes h = imData h"

definition IPCMemHandleFromBytes :: "u8 list \<Rightarrow> IPCMemHandle" where
  "IPCMemHandleFromBytes b = \<lparr>imData = b\<rparr>"

definition IPCEventHandle_Bytes :: "IPCEventHandle \<Rightarrow> u8 list" where
  "IPCEventHandle_Bytes h = ieData h"

definition IPCEventHandleFromBytes :: "u8 list \<Rightarrow> IPCEventHandle" where
  "IPCEventHandleFromBytes b = \<lparr>ieData = b\<rparr>"

definition IpcMemLazyEnablePeerAccess :: u32 where "IpcMemLazyEnablePeerAccess = 1"

definition Buffer_IPCHandle :: "nat option \<Rightarrow> ('w, IPCMemHandle) rop" where
  "Buffer_IPCHandle p s = (case p of
     None \<Rightarrow> (Inl ErrNilBuffer, s)
   | Some i \<Rightarrow> (let b = buffers s i in
       if oclosed b then (Inl ErrBufferClosed, s)
       else (case lift_op (doWait (Some (octx b)) bg (IpcGetMemHandle (drv_of (octx b) s) (bptr b))) s of
           (Inl e, s1) \<Rightarrow> (Inl e, s1)
         | (Inr h, s1) \<Rightarrow> (Inr \<lparr>imData = h\<rparr>, s1))))"

definition OpenIPCBuffer :: "elem \<Rightarrow> nat option \<Rightarrow> IPCMemHandle \<Rightarrow> goint \<Rightarrow> ('w, nat) rop" where
  "OpenIPCBuffer t cp h n s = (case cp of
     None \<Rightarrow> (Inl ErrNilContext, s)
   | Some c \<Rightarrow> (case byteSize t n of
       None \<Rightarrow> (Inl ErrInvalidLength, s)
     | Some bytes \<Rightarrow> createWith (do_cmd cp bg
         (IpcOpenMemHandle (drv_of c s) (imData h) IpcMemLazyEnablePeerAccess)) ipcbufs_update
         (\<lambda>ptr. \<lparr>octx = c, oclosed = False, iptr = ptr, ilength = n, ibytes = bytes, ielem = t\<rparr>) s))"

definition IPCBuffer_Len :: "nat option \<Rightarrow> 'w rt \<Rightarrow> goint" where
  "IPCBuffer_Len p s = (case p of None \<Rightarrow> 0 | Some i \<Rightarrow> ilength (ipcbufs s i))"

definition IPCBuffer_Bytes :: "nat option \<Rightarrow> 'w rt \<Rightarrow> u64" where
  "IPCBuffer_Bytes p s = (case p of None \<Rightarrow> 0 | Some i \<Rightarrow> ibytes (ipcbufs s i))"

definition IPCBuffer_DevicePtr :: "nat option \<Rightarrow> 'w rt \<Rightarrow> u64" where
  "IPCBuffer_DevicePtr p s = (case p of None \<Rightarrow> 0 | Some i \<Rightarrow> iptr (ipcbufs s i))"

definition IPCBuffer_CopyFrom :: "nat option \<Rightarrow> goctx option \<Rightarrow> goslice \<Rightarrow> ('w, unit) rop" where
  "IPCBuffer_CopyFrom p ctx src s = (case p of
     None \<Rightarrow> (Inl ErrNilBuffer, s)
   | Some i \<Rightarrow> (let b = ipcbufs s i in
       if oclosed b then (Inl ErrBufferClosed, s)
       else if len src = 0 \<or> len src \<noteq> ilength b then (Inl ErrLengthMismatch, s)
       else no_value (lift_op
         (memcpyHtoD new_memOp (octx b) ctx (iptr b) (HGo (slice_bytes src)) (ibytes b)) s)))"

definition IPCBuffer_CopyTo :: "nat option \<Rightarrow> goctx option \<Rightarrow> goslice \<Rightarrow> ('w, u8 list) rop" where
  "IPCBuffer_CopyTo p ctx dst s = (case p of
     None \<Rightarrow> (Inl ErrNilBuffer, s)
   | Some i \<Rightarrow> (let b = ipcbufs s i in
       if oclosed b then (Inl ErrBufferClosed, s)
       else if len dst = 0 \<or> len dst \<noteq> ilength b then (Inl ErrLengthMismatch, s)
       else lift_op
         (memcpyDtoH new_memOp (octx b) ctx (HGo (slice_bytes dst)) (iptr b) (ibytes b)) s))"

definition IPCBuffer_Close :: "nat option \<Rightarrow> ('w, unit) rop" where
  "IPCBuffer_Close = closeObject ErrNilBuffer ipcbufs ipcbufs_update (\<lambda>d b. IpcCloseMemHandle d (iptr b)) id"

definition Event_IPCHandle :: "nat option \<Rightarrow> ('w, IPCEventHandle) rop" where
  "Event_IPCHandle p s = (case p of
     None \<Rightarrow> (Inl ErrNilEvent, s)
   | Some i \<Rightarrow> (let ev = events s i in
       if oclosed ev then (Inl ErrEventClosed, s)
       else if \<not> interprocess ev then (Inl ErrEventNotInterprocess, s)
       else (case lift_op (doWait (Some (octx ev)) bg (IpcGetEventHandle (drv_of (octx ev) s) (eraw ev))) s of
           (Inl e, s1) \<Rightarrow> (Inl e, s1)
         | (Inr h, s1) \<Rightarrow> (Inr \<lparr>ieData = h\<rparr>, s1))))"

definition OpenIPCEvent :: "nat option \<Rightarrow> IPCEventHandle \<Rightarrow> ('w, nat) rop" where
  "OpenIPCEvent cp h s = (case cp of
     None \<Rightarrow> (Inl ErrNilContext, s)
   | Some c \<Rightarrow> createWith (do_cmd cp bg (IpcOpenEventHandle (drv_of c s) (ieData h))) events_update
       (\<lambda>r. \<lparr>octx = c, oclosed = False, eraw = r, timingDisabled = True, interprocess = True\<rparr>) s)"

subsection \<open>Peer access\<close>

definition pointerAttributeMemoryType :: i32 where "pointerAttributeMemoryType = 2"

definition EnablePeerAccess :: "nat option \<Rightarrow> nat option \<Rightarrow> ('w, unit) op" where
  "EnablePeerAccess cp pp s = (case (cp, pp) of
     (Some c, Some p) \<Rightarrow>
       if closed (ctxs s p) then (Inl ErrContextClosed, s)
       else do_cmd cp bg (CtxEnablePeerAccess (driver (ctxs s c)) (raw (ctxs s p))) s
   | _ \<Rightarrow> (Inl ErrNilContext, s))"

definition DisablePeerAccess :: "nat option \<Rightarrow> nat option \<Rightarrow> ('w, unit) op" where
  "DisablePeerAccess cp pp s = (case (cp, pp) of
     (Some c, Some p) \<Rightarrow>
       if closed (ctxs s p) then (Inl ErrContextClosed, s)
       else do_cmd cp bg (CtxDisablePeerAccess (driver (ctxs s c)) (raw (ctxs s p))) s
   | _ \<Rightarrow> (Inl ErrNilContext, s))"

definition PointerMemoryType :: "nat option \<Rightarrow> u64 \<Rightarrow> ('w, u32) op" where
  "PointerMemoryType cp ptr s = (case cp of
     None \<Rightarrow> (Inl ErrNilContext, s)
   | Some c \<Rightarrow> (case do_cmd cp bg (PointerGetAttribute (driver (ctxs s c)) pointerAttributeMemoryType ptr) s of
       (Inl e, s1) \<Rightarrow> (Inl e, s1)
     | (Inr mt, s1) \<Rightarrow> (Inr (ucast mt), s1)))"

definition Buffer_CopyToPeer :: "nat option \<Rightarrow> goctx option \<Rightarrow> nat option \<Rightarrow> ('w, unit) rop" where
  "Buffer_CopyToPeer p ctx q s = (case (p, q) of
     (Some i, Some j) \<Rightarrow> (let b = buffers s i; dst = buffers s j in
       if oclosed b then (Inl ErrBufferClosed, s)
       else if j \<noteq> i \<and> oclosed dst then (Inl ErrBufferClosed, s)
       else if blength dst \<noteq> blength b then (Inl ErrLengthMismatch, s)
       else lift_op (doCopyWait (Some (octx b)) ctx (MemcpyPeer (drv_of (octx b) s) (bptr dst)
         (raw (ctxs (sy s) (octx dst))) (bptr b) (raw (ctxs (sy s) (octx b))) (bbytes b))) s)
   | _ \<Rightarrow> (Inl ErrNilBuffer, s))"

subsection \<open>Stores\<close>

interpretation managed: resstore manageds manageds_update ErrNilBuffer "\<lambda>d m. MemFree d (mptr m)" id
  rewrites "closeObject ErrNilBuffer manageds manageds_update (\<lambda>d m. MemFree d (mptr m)) id = Managed_Close"
  by unfold_locales (simp_all add: Managed_Close_def)

interpretation ipcbuf: resstore ipcbufs ipcbufs_update ErrNilBuffer "\<lambda>d b. IpcCloseMemHandle d (iptr b)" id
  rewrites "closeObject ErrNilBuffer ipcbufs ipcbufs_update (\<lambda>d b. IpcCloseMemHandle d (iptr b)) id = IPCBuffer_Close"
  by unfold_locales (simp_all add: IPCBuffer_Close_def)

end
