(* ===== verification/Shaped.thy ===== *)
theory Shaped
  imports HostMem
begin

unbundle bit_operations_syntax

section \<open>Pitched buffers, volumes, arrays, textures and surfaces\<close>

text \<open>
  \<^verbatim>\<open>cuda/pitched.go\<close>, \<^verbatim>\<open>cuda/volume.go\<close>, \<^verbatim>\<open>cuda/texture.go\<close>, \<^verbatim>\<open>cuda/surface.go\<close> and their asynchronous pinned copies in
  \<^verbatim>\<open>cuda/pinned_async.go\<close>. The copies are described by the descriptors of \<^verbatim>\<open>cuMemcpy2D\<close> and
  \<^verbatim>\<open>cuMemcpy3D\<close>; a copy to a host slice returns the bytes written to it.
\<close>

subsection \<open>Pitched buffers\<close>

definition AllocPitched :: "elem \<Rightarrow> nat option \<Rightarrow> goint \<Rightarrow> goint \<Rightarrow> ('w, nat) rop" where
  "AllocPitched t cp width height s = (case cp of
     None \<Rightarrow> (Inl ErrNilContext, s)
   | Some c \<Rightarrow>
       if sint width \<le> 0 \<or> sint height \<le> 0 then (Inl ErrInvalidLength, s)
       else if width > MaxUint64 div elemSize t then (Inl ErrInvalidLength, s)
       else (let widthBytes = width * elemSize t; esb = (if elemSize t = 8 then 8 else 4) in
         createWith (do_cmd cp bg (MemAllocPitch (drv_of c s) widthBytes height esb)) pitcheds_update
           (\<lambda>(ptr, pitch). \<lparr>octx = c, oclosed = False, pptr = ptr, ppitch = pitch, pwidth = width,
              pheight = height, pelem = t\<rparr>) s))"

definition Pitched_Width :: "nat option \<Rightarrow> 'w rt \<Rightarrow> goint" where
  "Pitched_Width p s = (case p of None \<Rightarrow> 0 | Some i \<Rightarrow> pwidth (pitcheds s i))"

definition Pitched_Height :: "nat option \<Rightarrow> 'w rt \<Rightarrow> goint" where
  "Pitched_Height p s = (case p of None \<Rightarrow> 0 | Some i \<Rightarrow> pheight (pitcheds s i))"

definition Pitched_Pitch :: "nat option \<Rightarrow> 'w rt \<Rightarrow> u64" where
  "Pitched_Pitch p s = (case p of None \<Rightarrow> 0 | Some i \<Rightarrow> ppitch (pitcheds s i))"

definition Pitched_DevicePtr :: "nat option \<Rightarrow> 'w rt \<Rightarrow> u64" where
  "Pitched_DevicePtr p s = (case p of None \<Rightarrow> 0 | Some i \<Rightarrow> pptr (pitcheds s i))"

definition Pitched_elements :: "PitchedBuffer \<Rightarrow> go_error + goint" where
  "Pitched_elements b = (if sint (pwidth b) > sint (sdiv MaxInt (pheight b)) then Inl ErrInvalidLength
     else Inr (pwidth b * pheight b))"

text \<open>The read locks of two buffers, in address order; a buffer paired with itself is locked once.\<close>

definition lockPitchedPair :: "nat \<Rightarrow> nat \<Rightarrow> nat list" where
  "lockPitchedPair a b = (let first = min a b; second = max a b in
     if first = second then [first] else [first, second])"

definition pitched_widthBytes :: "PitchedBuffer \<Rightarrow> u64" where
  "pitched_widthBytes b = pwidth b * elemSize (pelem b)"

definition pitchedFromHost :: "PitchedBuffer \<Rightarrow> hostptr \<Rightarrow> Memcpy2D_desc" where
  "pitchedFromHost b host = zero_Memcpy2D\<lparr>m2SrcMemoryType := MemoryTypeHost, m2SrcHost := host,
     m2SrcPitch := pitched_widthBytes b, m2DstMemoryType := MemoryTypeDevice, m2DstDevice := pptr b,
     m2DstPitch := ppitch b, m2WidthInBytes := pitched_widthBytes b, m2Height := pheight b\<rparr>"

definition pitchedToHost :: "PitchedBuffer \<Rightarrow> hostptr \<Rightarrow> Memcpy2D_desc" where
  "pitchedToHost b host = zero_Memcpy2D\<lparr>m2SrcMemoryType := MemoryTypeDevice, m2SrcDevice := pptr b,
     m2SrcPitch := ppitch b, m2DstMemoryType := MemoryTypeHost, m2DstHost := host,
     m2DstPitch := pitched_widthBytes b, m2WidthInBytes := pitched_widthBytes b, m2Height := pheight b\<rparr>"

definition pitchedToPitched :: "PitchedBuffer \<Rightarrow> PitchedBuffer \<Rightarrow> Memcpy2D_desc" where
  "pitchedToPitched b dst = zero_Memcpy2D\<lparr>m2SrcMemoryType := MemoryTypeDevice, m2SrcDevice := pptr b,
     m2SrcPitch := ppitch b, m2DstMemoryType := MemoryTypeDevice, m2DstDevice := pptr dst,
     m2DstPitch := ppitch dst, m2WidthInBytes := pitched_widthBytes b, m2Height := pheight b\<rparr>"

definition Pitched_CopyFrom :: "nat option \<Rightarrow> goctx option \<Rightarrow> goslice \<Rightarrow> ('w, unit) rop" where
  "Pitched_CopyFrom p ctx src s = (case p of
     None \<Rightarrow> (Inl ErrNilBuffer, s)
   | Some i \<Rightarrow> (let b = pitcheds s i in
       if oclosed b then (Inl ErrBufferClosed, s)
       else (case Pitched_elements b of
         Inl e \<Rightarrow> (Inl e, s)
       | Inr n \<Rightarrow>
           if len src \<noteq> n then (Inl ErrLengthMismatch, s)
           else no_value (lift_op (memcpy2D (octx b) ctx (pitchedFromHost b (HGo (slice_bytes src)))) s))))"

definition Pitched_CopyTo :: "nat option \<Rightarrow> goctx option \<Rightarrow> goslice \<Rightarrow> ('w, u8 list) rop" where
  "Pitched_CopyTo p ctx dst s = (case p of
     None \<Rightarrow> (Inl ErrNilBuffer, s)
   | Some i \<Rightarrow> (let b = pitcheds s i in
       if oclosed b then (Inl ErrBufferClosed, s)
       else (case Pitched_elements b of
         Inl e \<Rightarrow> (Inl e, s)
       | Inr n \<Rightarrow>
           if len dst \<noteq> n then (Inl ErrLengthMismatch, s)
           else lift_op (memcpy2D (octx b) ctx (pitchedToHost b (HGo (slice_bytes dst)))) s)))"

definition Pitched_CopyToDevice :: "nat option \<Rightarrow> goctx option \<Rightarrow> nat option \<Rightarrow> ('w, unit) rop" where
  "Pitched_CopyToDevice p ctx q s = (case (p, q) of
     (Some i, Some j) \<Rightarrow> (let b = pitcheds s i; dst = pitcheds s j in
       if oclosed b \<or> oclosed dst then (Inl ErrBufferClosed, s)
       else if octx dst \<noteq> octx b then (Inl ErrContextMismatch, s)
       else if pwidth dst \<noteq> pwidth b \<or> pheight dst \<noteq> pheight b then (Inl ErrLengthMismatch, s)
       else no_value (lift_op (memcpy2D (octx b) ctx (pitchedToPitched b dst)) s))
   | _ \<Rightarrow> (Inl ErrNilBuffer, s))"

definition Pitched_Close :: "nat option \<Rightarrow> ('w, unit) rop" where
  "Pitched_Close = closeObject ErrNilBuffer pitcheds pitcheds_update (\<lambda>d b. MemFree d (pptr b)) id"

subsection \<open>Volumes\<close>

definition AllocVolume :: "elem \<Rightarrow> nat option \<Rightarrow> goint \<Rightarrow> goint \<Rightarrow> goint \<Rightarrow> ('w, nat) rop" where
  "AllocVolume t cp width height depth s = (case cp of
     None \<Rightarrow> (Inl ErrNilContext, s)
   | Some c \<Rightarrow>
       if sint width \<le> 0 \<or> sint height \<le> 0 \<or> sint depth \<le> 0 then (Inl ErrInvalidLength, s)
       else if width > MaxUint64 div elemSize t then (Inl ErrInvalidLength, s)
       else if sint width > sint (sdiv MaxInt height) \<or> sint (width * height) > sint (sdiv MaxInt depth)
         then (Inl ErrInvalidLength, s)
       else (let widthBytes = width * elemSize t; rows = height * depth in
         if widthBytes > MaxUint64 div rows then (Inl ErrInvalidLength, s)
         else (let esb = (if elemSize t = 8 then 8 else 4) in
           createWith (do_cmd cp bg (MemAllocPitch (drv_of c s) widthBytes rows esb)) volumes_update
             (\<lambda>(ptr, pitch). \<lparr>octx = c, oclosed = False, vptr = ptr, vpitch = pitch, vwidth = width,
                vheight = height, vdepth = depth, velem = t\<rparr>) s)))"

definition Volume_Width :: "nat option \<Rightarrow> 'w rt \<Rightarrow> goint" where
  "Volume_Width p s = (case p of None \<Rightarrow> 0 | Some i \<Rightarrow> vwidth (volumes s i))"

definition Volume_Height :: "nat option \<Rightarrow> 'w rt \<Rightarrow> goint" where
  "Volume_Height p s = (case p of None \<Rightarrow> 0 | Some i \<Rightarrow> vheight (volumes s i))"

definition Volume_Depth :: "nat option \<Rightarrow> 'w rt \<Rightarrow> goint" where
  "Volume_Depth p s = (case p of None \<Rightarrow> 0 | Some i \<Rightarrow> vdepth (volumes s i))"

definition Volume_Pitch :: "nat option \<Rightarrow> 'w rt \<Rightarrow> u64" where
  "Volume_Pitch p s = (case p of None \<Rightarrow> 0 | Some i \<Rightarrow> vpitch (volumes s i))"

definition Volume_DevicePtr :: "nat option \<Rightarrow> 'w rt \<Rightarrow> u64" where
  "Volume_DevicePtr p s = (case p of None \<Rightarrow> 0 | Some i \<Rightarrow> vptr (volumes s i))"

definition Volume_elements :: "Volume \<Rightarrow> go_error + goint" where
  "Volume_elements v = (if sint (vwidth v) > sint (sdiv MaxInt (vheight v)) then Inl ErrInvalidLength
     else let plane = vwidth v * vheight v in
       if sint plane > sint (sdiv MaxInt (vdepth v)) then Inl ErrInvalidLength
       else Inr (plane * vdepth v))"

definition Volume_hostDesc :: "Volume \<Rightarrow> bool \<Rightarrow> hostptr \<Rightarrow> Memcpy3D_desc" where
  "Volume_hostDesc v hostToDevice host =
     (let widthBytes = vwidth v * elemSize (velem v);
          dev = zero_Memcpy3D\<lparr>m3WidthInBytes := widthBytes, m3Height := vheight v, m3Depth := vdepth v\<rparr>
      in if hostToDevice then
        dev\<lparr>m3SrcMemoryType := MemoryTypeHost, m3SrcHost := host, m3SrcPitch := widthBytes,
            m3SrcHeight := vheight v, m3DstMemoryType := MemoryTypeDevice, m3DstDevice := vptr v,
            m3DstPitch := vpitch v, m3DstHeight := vheight v\<rparr>
      else
        dev\<lparr>m3SrcMemoryType := MemoryTypeDevice, m3SrcDevice := vptr v, m3SrcPitch := vpitch v,
            m3SrcHeight := vheight v, m3DstMemoryType := MemoryTypeHost, m3DstHost := host,
            m3DstPitch := widthBytes, m3DstHeight := vheight v\<rparr>)"

definition Volume_CopyFrom :: "nat option \<Rightarrow> goctx option \<Rightarrow> goslice \<Rightarrow> ('w, unit) rop" where
  "Volume_CopyFrom p ctx src s = (case p of
     None \<Rightarrow> (Inl ErrNilBuffer, s)
   | Some i \<Rightarrow> (let v = volumes s i in
       if oclosed v then (Inl ErrBufferClosed, s)
       else (case Volume_elements v of
         Inl e \<Rightarrow> (Inl e, s)
       | Inr n \<Rightarrow>
           if len src \<noteq> n then (Inl ErrLengthMismatch, s)
           else no_value (lift_op (memcpy3D (octx v) ctx (Volume_hostDesc v True (HGo (slice_bytes src)))) s))))"

definition Volume_CopyTo :: "nat option \<Rightarrow> goctx option \<Rightarrow> goslice \<Rightarrow> ('w, u8 list) rop" where
  "Volume_CopyTo p ctx dst s = (case p of
     None \<Rightarrow> (Inl ErrNilBuffer, s)
   | Some i \<Rightarrow> (let v = volumes s i in
       if oclosed v then (Inl ErrBufferClosed, s)
       else (case Volume_elements v of
         Inl e \<Rightarrow> (Inl e, s)
       | Inr n \<Rightarrow>
           if len dst \<noteq> n then (Inl ErrLengthMismatch, s)
           else lift_op (memcpy3D (octx v) ctx (Volume_hostDesc v False (HGo (slice_bytes dst)))) s)))"

definition Volume_Close :: "nat option \<Rightarrow> ('w, unit) rop" where
  "Volume_Close = closeObject ErrNilBuffer volumes volumes_update (\<lambda>d v. MemFree d (vptr v)) id"

subsection \<open>Arrays\<close>

definition AdFormatUnsignedInt8 :: u32 where "AdFormatUnsignedInt8 = 1"
definition AdFormatUnsignedInt16 :: u32 where "AdFormatUnsignedInt16 = 2"
definition AdFormatUnsignedInt32 :: u32 where "AdFormatUnsignedInt32 = 3"
definition AdFormatSignedInt8 :: u32 where "AdFormatSignedInt8 = 8"
definition AdFormatSignedInt16 :: u32 where "AdFormatSignedInt16 = 9"
definition AdFormatSignedInt32 :: u32 where "AdFormatSignedInt32 = 10"
definition AdFormatHalf :: u32 where "AdFormatHalf = 16"
definition AddressModeWrap :: u32 where "AddressModeWrap = 0"
definition AddressModeClamp :: u32 where "AddressModeClamp = 1"
definition AddressModeMirror :: u32 where "AddressModeMirror = 2"
definition AddressModeBorder :: u32 where "AddressModeBorder = 3"
definition FilterModePoint :: u32 where "FilterModePoint = 0"
definition FilterModeLinear :: u32 where "FilterModeLinear = 1"
definition AddressWrap :: u32 where "AddressWrap = AddressModeWrap"
definition AddressClamp :: u32 where "AddressClamp = AddressModeClamp"
definition AddressMirror :: u32 where "AddressMirror = AddressModeMirror"
definition AddressBorder :: u32 where "AddressBorder = AddressModeBorder"
definition FilterPoint :: u32 where "FilterPoint = FilterModePoint"
definition FilterLinear :: u32 where "FilterLinear = FilterModeLinear"
definition AdFormatFloat :: u32 where "AdFormatFloat = 32"

text \<open>The format of an element type and whether it is an integer format; none for 64-bit types.\<close>

fun arrayFormat :: "elem \<Rightarrow> (u32 \<times> bool) option" where
  "arrayFormat Uint8 = Some (AdFormatUnsignedInt8, True)"
| "arrayFormat Uint16 = Some (AdFormatUnsignedInt16, True)"
| "arrayFormat Uint32 = Some (AdFormatUnsignedInt32, True)"
| "arrayFormat Int8 = Some (AdFormatSignedInt8, True)"
| "arrayFormat Int16 = Some (AdFormatSignedInt16, True)"
| "arrayFormat Int32 = Some (AdFormatSignedInt32, True)"
| "arrayFormat Float32 = Some (AdFormatFloat, False)"
| "arrayFormat _ = None"

definition ArraySurfaceLoadStore :: u32 where "ArraySurfaceLoadStore = 2"

type_synonym arrayConfig = bool
type_synonym ArrayOption = "arrayConfig \<Rightarrow> arrayConfig"

definition WithSurfaceStore :: ArrayOption where
  "WithSurfaceStore c = True"

definition applyArrayOptions :: "ArrayOption option list \<Rightarrow> arrayConfig" where
  "applyArrayOptions opts = fold (\<lambda>o1 c. case o1 of None \<Rightarrow> c | Some f \<Rightarrow> f c) opts False"

definition arrayCreateJob :: "'w Driver option \<Rightarrow> bool \<Rightarrow> goint \<Rightarrow> goint \<Rightarrow> u32 \<Rightarrow> ('w, u64) drv" where
  "arrayCreateJob d surface width height format = (if surface
     then Array3DCreate d \<lparr>a3Width = width, a3Height = height, a3Depth = 0, a3Format = format,
            a3NumChannels = 1, a3Flags = ArraySurfaceLoadStore\<rparr>
     else ArrayCreate d \<lparr>adWidth = width, adHeight = height, adFormat = format, adNumChannels = 1\<rparr>)"

definition AllocArray2D :: "elem \<Rightarrow> nat option \<Rightarrow> goint \<Rightarrow> goint \<Rightarrow> ArrayOption option list \<Rightarrow> ('w, nat) rop" where
  "AllocArray2D t cp width height opts s = (case cp of
     None \<Rightarrow> (Inl ErrNilContext, s)
   | Some c \<Rightarrow>
       if sint width \<le> 0 \<or> sint height \<le> 0 then (Inl ErrInvalidLength, s)
       else if sint width > sint (sdiv MaxInt height) then (Inl ErrInvalidLength, s)
       else (case arrayFormat t of
         None \<Rightarrow> (Inl ErrUnsupportedElement, s)
       | Some (format, _) \<Rightarrow> (let surface = applyArrayOptions opts in
           createWith (do_cmd cp bg (arrayCreateJob (drv_of c s) surface width height format)) arrays_update
             (\<lambda>h. \<lparr>octx = c, oclosed = False, ahandle = h, awidth = width, aheight = height,
                asurface = surface, aelem = t\<rparr>) s)))"

definition Array2D_Width :: "nat option \<Rightarrow> 'w rt \<Rightarrow> goint" where
  "Array2D_Width p s = (case p of None \<Rightarrow> 0 | Some i \<Rightarrow> awidth (arrays s i))"

definition Array2D_Height :: "nat option \<Rightarrow> 'w rt \<Rightarrow> goint" where
  "Array2D_Height p s = (case p of None \<Rightarrow> 0 | Some i \<Rightarrow> aheight (arrays s i))"

definition Array2D_Raw :: "nat option \<Rightarrow> 'w rt \<Rightarrow> u64" where
  "Array2D_Raw p s = (case p of None \<Rightarrow> 0 | Some i \<Rightarrow> ahandle (arrays s i))"

definition Array2D_hostDesc :: "Array2D \<Rightarrow> bool \<Rightarrow> hostptr \<Rightarrow> Memcpy2D_desc" where
  "Array2D_hostDesc a hostToArray host =
     (let widthBytes = awidth a * elemSize (aelem a);
          desc = zero_Memcpy2D\<lparr>m2WidthInBytes := widthBytes, m2Height := aheight a\<rparr>
      in if hostToArray then
        desc\<lparr>m2SrcMemoryType := MemoryTypeHost, m2SrcHost := host, m2SrcPitch := widthBytes,
             m2DstMemoryType := MemoryTypeArray, m2DstArray := ahandle a\<rparr>
      else
        desc\<lparr>m2SrcMemoryType := MemoryTypeArray, m2SrcArray := ahandle a,
             m2DstMemoryType := MemoryTypeHost, m2DstHost := host, m2DstPitch := widthBytes\<rparr>)"

definition Array2D_CopyFrom :: "nat option \<Rightarrow> goctx option \<Rightarrow> goslice \<Rightarrow> ('w, unit) rop" where
  "Array2D_CopyFrom p ctx src s = (case p of
     None \<Rightarrow> (Inl ErrNilArray, s)
   | Some i \<Rightarrow> (let a = arrays s i in
       if oclosed a then (Inl ErrArrayClosed, s)
       else if len src \<noteq> awidth a * aheight a then (Inl ErrLengthMismatch, s)
       else no_value (lift_op (memcpy2D (octx a) ctx (Array2D_hostDesc a True (HGo (slice_bytes src)))) s)))"

definition Array2D_CopyTo :: "nat option \<Rightarrow> goctx option \<Rightarrow> goslice \<Rightarrow> ('w, u8 list) rop" where
  "Array2D_CopyTo p ctx dst s = (case p of
     None \<Rightarrow> (Inl ErrNilArray, s)
   | Some i \<Rightarrow> (let a = arrays s i in
       if oclosed a then (Inl ErrArrayClosed, s)
       else if len dst \<noteq> awidth a * aheight a then (Inl ErrLengthMismatch, s)
       else lift_op (memcpy2D (octx a) ctx (Array2D_hostDesc a False (HGo (slice_bytes dst)))) s))"

definition Array2D_Close :: "nat option \<Rightarrow> ('w, unit) rop" where
  "Array2D_Close = closeObject ErrNilArray arrays arrays_update (\<lambda>d a. ArrayDestroy d (ahandle a)) id"

subsection \<open>Textures and surfaces\<close>

definition ResourceTypeArray :: u32 where "ResourceTypeArray = 0"
definition TexReadAsInteger :: u32 where "TexReadAsInteger = 1"
definition TexNormalizedCoordinate :: u32 where "TexNormalizedCoordinate = 2"

record TextureConfig =
  tcAddressMode :: u32
  tcFilterMode :: u32
  tcNormalizedCoordinates :: bool

definition arrayResource :: "Array2D \<Rightarrow> CUDA_RESOURCE_DESC" where
  "arrayResource a = \<lparr>rdResType = ResourceTypeArray, rdHandle = ahandle a, rdFlags = 0\<rparr>"

definition textureDesc :: "TextureConfig \<Rightarrow> bool \<Rightarrow> CUDA_TEXTURE_DESC" where
  "textureDesc cfg integer = (let m = tcAddressMode cfg;
       f0 = (if tcNormalizedCoordinates cfg then 0 OR TexNormalizedCoordinate else 0);
       f1 = (if integer then f0 OR TexReadAsInteger else f0)
     in \<lparr>tdAddressMode = (m, m, m), tdFilterMode = tcFilterMode cfg, tdFlags = f1, tdMaxAnisotropy = 0,
         tdMipmapFilterMode = 0\<rparr>)"

definition NewTexture :: "nat option \<Rightarrow> TextureConfig \<Rightarrow> ('w, nat) rop" where
  "NewTexture p cfg s = (case p of
     None \<Rightarrow> (Inl ErrNilArray, s)
   | Some i \<Rightarrow> (let a = arrays s i in
       if oclosed a then (Inl ErrArrayClosed, s)
       else (case arrayFormat (aelem a) of
         None \<Rightarrow> (Inl ErrUnsupportedElement, s)
       | Some (_, integer) \<Rightarrow> createWith (do_cmd (Some (octx a)) bg
           (TexObjectCreate (drv_of (octx a) s) (arrayResource a) (textureDesc cfg integer))) textures_update
           (\<lambda>h. \<lparr>octx = octx a, oclosed = False, thandle = h\<rparr>) s)))"

definition Texture_Raw :: "nat option \<Rightarrow> 'w rt \<Rightarrow> u64" where
  "Texture_Raw p s = (case p of None \<Rightarrow> 0 | Some i \<Rightarrow> thandle (textures s i))"

definition Texture_Close :: "nat option \<Rightarrow> ('w, unit) rop" where
  "Texture_Close = closeObject ErrNilTexture textures textures_update (\<lambda>d t. TexObjectDestroy d (thandle t)) id"

definition NewSurface :: "nat option \<Rightarrow> ('w, nat) rop" where
  "NewSurface p s = (case p of
     None \<Rightarrow> (Inl ErrNilArray, s)
   | Some i \<Rightarrow> (let a = arrays s i in
       if oclosed a then (Inl ErrArrayClosed, s)
       else if \<not> asurface a then (Inl ErrNoSurfaceStore, s)
       else createWith (do_cmd (Some (octx a)) bg
           (SurfObjectCreate (drv_of (octx a) s) (arrayResource a))) surfaces_update
           (\<lambda>h. \<lparr>octx = octx a, oclosed = False, suhandle = h\<rparr>) s))"

definition Surface_Raw :: "nat option \<Rightarrow> 'w rt \<Rightarrow> u64" where
  "Surface_Raw p s = (case p of None \<Rightarrow> 0 | Some i \<Rightarrow> suhandle (surfaces s i))"

definition Surface_Close :: "nat option \<Rightarrow> ('w, unit) rop" where
  "Surface_Close = closeObject ErrNilSurface surfaces surfaces_update (\<lambda>d u. SurfObjectDestroy d (suhandle u)) id"

subsection \<open>Asynchronous copies with pinned memory\<close>

definition Pitched_CopyFromHostAsync :: "nat option \<Rightarrow> goctx option \<Rightarrow> nat option \<Rightarrow> PinnedHost option \<Rightarrow> ('w, unit) rop" where
  "Pitched_CopyFromHostAsync p ctx stp host0 s = (case p of
     None \<Rightarrow> (Inl ErrNilBuffer, s)
   | Some i \<Rightarrow> (case pinnedHostRefOf host0 s of
       Inl e \<Rightarrow> (Inl e, s)
     | Inr host \<Rightarrow> (case stp of
         None \<Rightarrow> (Inl ErrNilStream, s)
       | Some j \<Rightarrow> (let b = pitcheds s i; stream = streams s j in
           if oclosed stream then (Inl ErrStreamClosed, s)
           else if oclosed b then (Inl ErrBufferClosed, s)
           else if phclosed host then (Inl ErrBufferClosed, s)
           else if octx stream \<noteq> octx b \<or> phctx host \<noteq> octx b then (Inl ErrContextMismatch, s)
           else (case Pitched_elements b of
             Inl e \<Rightarrow> (Inl e, s)
           | Inr n \<Rightarrow>
               if phlength host \<noteq> n then (Inl ErrLengthMismatch, s)
               else lift_op (memcpy2DAsync (octx b) ctx (pitchedFromHost b (HAddr (phptr host))) (sraw stream)) s)))))"

definition Pitched_CopyToHostAsync :: "nat option \<Rightarrow> goctx option \<Rightarrow> nat option \<Rightarrow> PinnedHost option \<Rightarrow> ('w, unit) rop" where
  "Pitched_CopyToHostAsync p ctx stp host0 s = (case p of
     None \<Rightarrow> (Inl ErrNilBuffer, s)
   | Some i \<Rightarrow> (case pinnedHostRefOf host0 s of
       Inl e \<Rightarrow> (Inl e, s)
     | Inr host \<Rightarrow> (case stp of
         None \<Rightarrow> (Inl ErrNilStream, s)
       | Some j \<Rightarrow> (let b = pitcheds s i; stream = streams s j in
           if oclosed stream then (Inl ErrStreamClosed, s)
           else if oclosed b then (Inl ErrBufferClosed, s)
           else if phclosed host then (Inl ErrBufferClosed, s)
           else if octx stream \<noteq> octx b \<or> phctx host \<noteq> octx b then (Inl ErrContextMismatch, s)
           else (case Pitched_elements b of
             Inl e \<Rightarrow> (Inl e, s)
           | Inr n \<Rightarrow>
               if phlength host \<noteq> n then (Inl ErrLengthMismatch, s)
               else lift_op (memcpy2DAsync (octx b) ctx (pitchedToHost b (HAddr (phptr host))) (sraw stream)) s)))))"

definition Pitched_CopyToDeviceAsync :: "nat option \<Rightarrow> goctx option \<Rightarrow> nat option \<Rightarrow> nat option \<Rightarrow> ('w, unit) rop" where
  "Pitched_CopyToDeviceAsync p ctx stp q s = (case (p, q) of
     (Some i, Some k) \<Rightarrow> (case stp of
         None \<Rightarrow> (Inl ErrNilStream, s)
       | Some j \<Rightarrow> (let b = pitcheds s i; dst = pitcheds s k; stream = streams s j in
           if oclosed stream then (Inl ErrStreamClosed, s)
           else if oclosed b \<or> oclosed dst then (Inl ErrBufferClosed, s)
           else if octx stream \<noteq> octx b \<or> octx dst \<noteq> octx b then (Inl ErrContextMismatch, s)
           else if pwidth dst \<noteq> pwidth b \<or> pheight dst \<noteq> pheight b then (Inl ErrLengthMismatch, s)
           else lift_op (memcpy2DAsync (octx b) ctx (pitchedToPitched b dst) (sraw stream)) s))
   | _ \<Rightarrow> (Inl ErrNilBuffer, s))"

definition Volume_CopyFromHostAsync :: "nat option \<Rightarrow> goctx option \<Rightarrow> nat option \<Rightarrow> PinnedHost option \<Rightarrow> ('w, unit) rop" where
  "Volume_CopyFromHostAsync p ctx stp host0 s = (case p of
     None \<Rightarrow> (Inl ErrNilBuffer, s)
   | Some i \<Rightarrow> (case pinnedHostRefOf host0 s of
       Inl e \<Rightarrow> (Inl e, s)
     | Inr host \<Rightarrow> (case stp of
         None \<Rightarrow> (Inl ErrNilStream, s)
       | Some j \<Rightarrow> (let b = volumes s i; stream = streams s j in
           if oclosed stream then (Inl ErrStreamClosed, s)
           else if oclosed b then (Inl ErrBufferClosed, s)
           else if phclosed host then (Inl ErrBufferClosed, s)
           else if octx stream \<noteq> octx b \<or> phctx host \<noteq> octx b then (Inl ErrContextMismatch, s)
           else (case Volume_elements b of
             Inl e \<Rightarrow> (Inl e, s)
           | Inr n \<Rightarrow>
               if phlength host \<noteq> n then (Inl ErrLengthMismatch, s)
               else lift_op (memcpy3DAsync (octx b) ctx (Volume_hostDesc b True (HAddr (phptr host))) (sraw stream)) s)))))"

definition Volume_CopyToHostAsync :: "nat option \<Rightarrow> goctx option \<Rightarrow> nat option \<Rightarrow> PinnedHost option \<Rightarrow> ('w, unit) rop" where
  "Volume_CopyToHostAsync p ctx stp host0 s = (case p of
     None \<Rightarrow> (Inl ErrNilBuffer, s)
   | Some i \<Rightarrow> (case pinnedHostRefOf host0 s of
       Inl e \<Rightarrow> (Inl e, s)
     | Inr host \<Rightarrow> (case stp of
         None \<Rightarrow> (Inl ErrNilStream, s)
       | Some j \<Rightarrow> (let b = volumes s i; stream = streams s j in
           if oclosed stream then (Inl ErrStreamClosed, s)
           else if oclosed b then (Inl ErrBufferClosed, s)
           else if phclosed host then (Inl ErrBufferClosed, s)
           else if octx stream \<noteq> octx b \<or> phctx host \<noteq> octx b then (Inl ErrContextMismatch, s)
           else (case Volume_elements b of
             Inl e \<Rightarrow> (Inl e, s)
           | Inr n \<Rightarrow>
               if phlength host \<noteq> n then (Inl ErrLengthMismatch, s)
               else lift_op (memcpy3DAsync (octx b) ctx (Volume_hostDesc b False (HAddr (phptr host))) (sraw stream)) s)))))"

definition Array2D_CopyFromHostAsync :: "nat option \<Rightarrow> goctx option \<Rightarrow> nat option \<Rightarrow> PinnedHost option \<Rightarrow> ('w, unit) rop" where
  "Array2D_CopyFromHostAsync p ctx stp host0 s = (case p of
     None \<Rightarrow> (Inl ErrNilArray, s)
   | Some i \<Rightarrow> (case pinnedHostRefOf host0 s of
       Inl e \<Rightarrow> (Inl e, s)
     | Inr host \<Rightarrow> (case stp of
         None \<Rightarrow> (Inl ErrNilStream, s)
       | Some j \<Rightarrow> (let b = arrays s i; stream = streams s j in
           if oclosed stream then (Inl ErrStreamClosed, s)
           else if oclosed b then (Inl ErrArrayClosed, s)
           else if phclosed host then (Inl ErrBufferClosed, s)
           else if octx stream \<noteq> octx b \<or> phctx host \<noteq> octx b then (Inl ErrContextMismatch, s)
           else if phlength host \<noteq> awidth b * aheight b then (Inl ErrLengthMismatch, s)
           else lift_op (memcpy2DAsync (octx b) ctx (Array2D_hostDesc b True (HAddr (phptr host))) (sraw stream)) s))))"

definition Array2D_CopyToHostAsync :: "nat option \<Rightarrow> goctx option \<Rightarrow> nat option \<Rightarrow> PinnedHost option \<Rightarrow> ('w, unit) rop" where
  "Array2D_CopyToHostAsync p ctx stp host0 s = (case p of
     None \<Rightarrow> (Inl ErrNilArray, s)
   | Some i \<Rightarrow> (case pinnedHostRefOf host0 s of
       Inl e \<Rightarrow> (Inl e, s)
     | Inr host \<Rightarrow> (case stp of
         None \<Rightarrow> (Inl ErrNilStream, s)
       | Some j \<Rightarrow> (let b = arrays s i; stream = streams s j in
           if oclosed stream then (Inl ErrStreamClosed, s)
           else if oclosed b then (Inl ErrArrayClosed, s)
           else if phclosed host then (Inl ErrBufferClosed, s)
           else if octx stream \<noteq> octx b \<or> phctx host \<noteq> octx b then (Inl ErrContextMismatch, s)
           else if phlength host \<noteq> awidth b * aheight b then (Inl ErrLengthMismatch, s)
           else lift_op (memcpy2DAsync (octx b) ctx (Array2D_hostDesc b False (HAddr (phptr host))) (sraw stream)) s))))"

subsection \<open>Stores\<close>

interpretation pitched: resstore pitcheds pitcheds_update ErrNilBuffer "\<lambda>d b. MemFree d (pptr b)" id
  rewrites "closeObject ErrNilBuffer pitcheds pitcheds_update (\<lambda>d b. MemFree d (pptr b)) id = Pitched_Close"
  by unfold_locales (simp_all add: Pitched_Close_def)

interpretation volume: resstore volumes volumes_update ErrNilBuffer "\<lambda>d v. MemFree d (vptr v)" id
  rewrites "closeObject ErrNilBuffer volumes volumes_update (\<lambda>d v. MemFree d (vptr v)) id = Volume_Close"
  by unfold_locales (simp_all add: Volume_Close_def)

interpretation array2d: resstore arrays arrays_update ErrNilArray "\<lambda>d a. ArrayDestroy d (ahandle a)" id
  rewrites "closeObject ErrNilArray arrays arrays_update (\<lambda>d a. ArrayDestroy d (ahandle a)) id = Array2D_Close"
  by unfold_locales (simp_all add: Array2D_Close_def)

interpretation texture: resstore textures textures_update ErrNilTexture "\<lambda>d t. TexObjectDestroy d (thandle t)" id
  rewrites "closeObject ErrNilTexture textures textures_update (\<lambda>d t. TexObjectDestroy d (thandle t)) id = Texture_Close"
  by unfold_locales (simp_all add: Texture_Close_def)

interpretation surface: resstore surfaces surfaces_update ErrNilSurface "\<lambda>d u. SurfObjectDestroy d (suhandle u)" id
  rewrites "closeObject ErrNilSurface surfaces surfaces_update (\<lambda>d u. SurfObjectDestroy d (suhandle u)) id = Surface_Close"
  by unfold_locales (simp_all add: Surface_Close_def)

end
