(* ===== verification/Graphs.thy ===== *)
theory Graphs
  imports StreamEvent
begin

section \<open>Stream capture and graphs\<close>

text \<open>\<^verbatim>\<open>cuda/graph.go\<close>: capturing a stream into a graph, instantiating, launching, updating and destroying graphs.\<close>

definition CaptureModeGlobal :: u32 where "CaptureModeGlobal = 0"
definition CaptureModeThreadLocal :: u32 where "CaptureModeThreadLocal = 1"
definition CaptureModeRelaxed :: u32 where "CaptureModeRelaxed = 2"

definition Stream_BeginCapture :: "nat option \<Rightarrow> u32 \<Rightarrow> ('w, unit) rop" where
  "Stream_BeginCapture p mode s = (case p of
     None \<Rightarrow> (Inl ErrNilStream, s)
   | Some i \<Rightarrow> (let st = streams s i in
       if oclosed st then (Inl ErrStreamClosed, s)
       else lift_op (doWait (Some (octx st)) bg (StreamBeginCapture (drv_of (octx st) s) (sraw st) mode)) s))"

definition Stream_EndCapture :: "nat option \<Rightarrow> ('w, nat) rop" where
  "Stream_EndCapture p s = (case p of
     None \<Rightarrow> (Inl ErrNilStream, s)
   | Some i \<Rightarrow> (let st = streams s i in
       if oclosed st then (Inl ErrStreamClosed, s)
       else createWith (doWait (Some (octx st)) bg (StreamEndCapture (drv_of (octx st) s) (sraw st)))
         graphs_update (\<lambda>r. \<lparr>octx = octx st, oclosed = False, graw = r\<rparr>) s))"

definition Graph_Instantiate :: "nat option \<Rightarrow> ('w, nat) rop" where
  "Graph_Instantiate p s = (case p of
     None \<Rightarrow> (Inl ErrNilGraph, s)
   | Some i \<Rightarrow> (let g = graphs s i in
       if oclosed g then (Inl ErrGraphClosed, s)
       else createWith (doWait (Some (octx g)) bg (GraphInstantiate (drv_of (octx g) s) (graw g) 0))
         graphexecs_update (\<lambda>r. \<lparr>octx = octx g, oclosed = False, geraw = r\<rparr>) s))"

definition Graph_Close :: "nat option \<Rightarrow> ('w, unit) rop" where
  "Graph_Close = closeObject ErrNilGraph graphs graphs_update (\<lambda>d g. GraphDestroy d (graw g)) id"

definition GraphExec_Launch :: "nat option \<Rightarrow> goctx option \<Rightarrow> nat option \<Rightarrow> ('w, unit) rop" where
  "GraphExec_Launch p ctx stp s = (case p of
     None \<Rightarrow> (Inl ErrNilGraphExec, s)
   | Some i \<Rightarrow> (case stp of
       None \<Rightarrow> (Inl ErrNilStream, s)
     | Some j \<Rightarrow> (let e = graphexecs s i; st = streams s j in
         if oclosed st then (Inl ErrStreamClosed, s)
         else if oclosed e then (Inl ErrGraphExecClosed, s)
         else if octx st \<noteq> octx e then (Inl ErrContextMismatch, s)
         else lift_op (graphLaunch (octx e) ctx (geraw e) (sraw st)) s)))"

definition GraphExec_Update :: "nat option \<Rightarrow> nat option \<Rightarrow> ('w, unit) rop" where
  "GraphExec_Update p gp s = (case p of
     None \<Rightarrow> (Inl ErrNilGraphExec, s)
   | Some i \<Rightarrow> (case gp of
       None \<Rightarrow> (Inl ErrNilGraph, s)
     | Some j \<Rightarrow> (let e = graphexecs s i; g = graphs s j in
         if oclosed e then (Inl ErrGraphExecClosed, s)
         else if oclosed g then (Inl ErrGraphClosed, s)
         else if octx g \<noteq> octx e then (Inl ErrContextMismatch, s)
         else lift_op (doWait (Some (octx e)) bg
           (GraphExecUpdate (drv_of (octx e) s) (geraw e) (graw g))) s)))"

definition GraphExec_Close :: "nat option \<Rightarrow> ('w, unit) rop" where
  "GraphExec_Close = closeObject ErrNilGraphExec graphexecs graphexecs_update (\<lambda>d e. GraphExecDestroy d (geraw e)) id"

interpretation graph: resstore graphs graphs_update ErrNilGraph "\<lambda>d g. GraphDestroy d (graw g)" id
  rewrites "closeObject ErrNilGraph graphs graphs_update (\<lambda>d g. GraphDestroy d (graw g)) id = Graph_Close"
  by unfold_locales (simp_all add: Graph_Close_def)

interpretation graphexec: resstore graphexecs graphexecs_update ErrNilGraphExec "\<lambda>d e. GraphExecDestroy d (geraw e)" id
  rewrites "closeObject ErrNilGraphExec graphexecs graphexecs_update (\<lambda>d e. GraphExecDestroy d (geraw e)) id = GraphExec_Close"
  by unfold_locales (simp_all add: GraphExec_Close_def)

end
