(* ===== verification/ModuleLink.thy ===== *)
theory ModuleLink
  imports Objects
begin

section \<open>Modules, functions, globals and the linker\<close>

text \<open>
  \<^verbatim>\<open>cuda/module.go\<close>, \<^verbatim>\<open>cuda/global.go\<close>, \<^verbatim>\<open>cuda/link.go\<close>, \<^verbatim>\<open>cuda/funcattr.go\<close>: images and their terminating zero byte, just-in-time
  options, lookups of functions and globals, copies to globals, and linking. Names are byte strings. The log buffers
  of a just-in-time compilation are memory the driver writes; what it wrote is read from the state
  of the world by \<open>logs\<close>, an argument of the operations that read them. \<^verbatim>\<open>LoadModuleFromFile\<close> reads a file with \<open>readFile\<close>,
  an argument too; its error quotes the path, here without the escapes \<^verbatim>\<open>%q\<close> gives special characters.
\<close>

subsection \<open>Images\<close>

definition nullTerminated :: "u8 list \<Rightarrow> u8 list" where
  "nullTerminated img = (if img \<noteq> [] \<and> last img = 0 then img else img @ [0])"

definition cubinMagic :: "u8 list" where "cubinMagic = [0x7f, 0x45, 0x4c, 0x46]"
definition fatbinMagic :: "u8 list" where "fatbinMagic = [0x50, 0xed, 0x55, 0xba]"

definition HasPrefix :: "u8 list \<Rightarrow> u8 list \<Rightarrow> bool" where
  "HasPrefix xs pre = (take (length pre) xs = pre)"

definition moduleImage :: "u8 list \<Rightarrow> u8 list" where
  "moduleImage img = (if HasPrefix img cubinMagic \<or> HasPrefix img fatbinMagic then img
     else nullTerminated img)"

definition trimNull :: "u8 list \<Rightarrow> string" where
  "trimNull b = bytes_to_string (takeWhile (\<lambda>x. x \<noteq> 0) b)"

text \<open>The name as a C string: its bytes and a zero.\<close>

definition nameBuf :: "u8 list \<Rightarrow> u8 list" where
  "nameBuf name = name @ [0]"

subsection \<open>Loading\<close>

definition LoadModule :: "nat option \<Rightarrow> u8 list \<Rightarrow> ('w, nat) rop" where
  "LoadModule cp img s = (case cp of
     None \<Rightarrow> (Inl ErrNilContext, s)
   | Some c \<Rightarrow>
       if img = [] then (Inl ErrEmptyImage, s)
       else createWith (doWait cp bg (ModuleLoadData (drv_of c s) (moduleImage img))) modules_update
         (\<lambda>r. \<lparr>octx = c, oclosed = False, mraw = r\<rparr>) s)"

record JITOptions =
  LogBufferBytes :: goint
  MaxRegisters :: goint

record JITLog =
  logInfo :: string
  logError :: string

definition noLog :: JITLog where "noLog = \<lparr>logInfo = [], logError = []\<rparr>"

definition defaultJITLogBytes :: goint where "defaultJITLogBytes = 8192"
definition maxJITLogBytes :: goint where "maxJITLogBytes = 0x1000000"

definition jitMaxRegisters :: i32 where "jitMaxRegisters = 0"
definition jitInfoLogBuffer :: i32 where "jitInfoLogBuffer = 3"
definition jitInfoLogBufferSizeBytes :: i32 where "jitInfoLogBufferSizeBytes = 4"
definition jitErrorLogBuffer :: i32 where "jitErrorLogBuffer = 5"
definition jitErrorLogBufferSizeBytes :: i32 where "jitErrorLogBufferSizeBytes = 6"

text \<open>The validation and the option arrays shared by \<^verbatim>\<open>LoadModuleEx\<close> and \<^verbatim>\<open>NewLinker\<close>; \<open>ia\<close>, \<open>ea\<close> are the addresses of the log buffers.\<close>

definition jitLogSize :: "JITOptions \<Rightarrow> go_error + goint" where
  "jitLogSize opts = (let siz = LogBufferBytes opts in
     if sint siz < 0 \<or> sint siz > sint maxJITLogBytes then Inl ErrInvalidLength
     else if sint (MaxRegisters opts) > sint MaxUint32 then Inl ErrInvalidValue
     else Inr (if siz = 0 then defaultJITLogBytes else siz))"

definition jitOptions :: "JITOptions \<Rightarrow> i32 list" where
  "jitOptions opts = [jitInfoLogBuffer, jitInfoLogBufferSizeBytes, jitErrorLogBuffer, jitErrorLogBufferSizeBytes] @
     (if sint (MaxRegisters opts) > 0 then [jitMaxRegisters] else [])"

definition jitValues :: "JITOptions \<Rightarrow> goint \<Rightarrow> u64 \<Rightarrow> u64 \<Rightarrow> u64 list" where
  "jitValues opts siz ia ea = [ia, siz, ea, siz] @
     (if sint (MaxRegisters opts) > 0 then [MaxRegisters opts] else [])"

text \<open>The log is read back whether or not the load succeeded.\<close>

definition LoadModuleEx :: "('w \<Rightarrow> u8 list \<times> u8 list) \<Rightarrow> u64 \<Rightarrow> u64 \<Rightarrow> nat option \<Rightarrow> u8 list \<Rightarrow> JITOptions \<Rightarrow>
    'w rt \<Rightarrow> (go_error + nat) \<times> JITLog \<times> 'w rt" where
  "LoadModuleEx logs ia ea cp img opts s = (case cp of
     None \<Rightarrow> (Inl ErrNilContext, noLog, s)
   | Some c \<Rightarrow>
       if img = [] then (Inl ErrEmptyImage, noLog, s)
       else (case jitLogSize opts of
         Inl e \<Rightarrow> (Inl e, noLog, s)
       | Inr siz \<Rightarrow> (case createWith (doWait cp bg (ModuleLoadDataEx (drv_of c s) (moduleImage img)
             (jitOptions opts) (jitValues opts siz ia ea))) modules_update
             (\<lambda>r. \<lparr>octx = c, oclosed = False, mraw = r\<rparr>) s of (r, s1) \<Rightarrow>
           (case logs (world (sy s1)) of (info, err) \<Rightarrow>
             (r, \<lparr>logInfo = trimNull info, logError = trimNull err\<rparr>, s1)))))"

definition LoadModuleFromFile :: "(string \<Rightarrow> go_error + u8 list) \<Rightarrow> nat option \<Rightarrow> string \<Rightarrow> ('w, nat) rop" where
  "LoadModuleFromFile readFile cp path s = (case cp of
     None \<Rightarrow> (Inl ErrNilContext, s)
   | Some c \<Rightarrow>
       if path = [] then (Inl ErrEmptyImage, s)
       else (case readFile path of
         Inl e \<Rightarrow> (Inl (WrapErr (''cuda: read module file '' @ [CHR 0x22] @ path @ [CHR 0x22] @ '': '') e), s)
       | Inr data \<Rightarrow> LoadModule cp data s))"

subsection \<open>Functions\<close>

record Function =
  fmodule :: "nat option"
  fraw :: u64
  fname :: "u8 list"

definition Module_Function :: "nat option \<Rightarrow> u8 list \<Rightarrow> ('w, Function) rop" where
  "Module_Function p name s = (case p of
     None \<Rightarrow> (Inl ErrNilModule, s)
   | Some i \<Rightarrow>
       if name = [] then (Inl ErrEmptyFunctionName, s)
       else if 0 \<in> set name then (Inl ErrInvalidFunctionName, s)
       else (let m = modules s i in
         if oclosed m then (Inl ErrModuleClosed, s)
         else (case lift_op (doWait (Some (octx m)) bg
                 (ModuleGetFunction (drv_of (octx m) s) (mraw m) (nameBuf name))) s of
             (Inl e, s1) \<Rightarrow> (Inl e, s1)
           | (Inr r, s1) \<Rightarrow> (Inr \<lparr>fmodule = Some i, fraw = r, fname = name\<rparr>, s1))))"

definition Module_Close :: "nat option \<Rightarrow> ('w, unit) rop" where
  "Module_Close = closeObject ErrNilModule modules modules_update (\<lambda>d m. ModuleUnload d (mraw m)) id"

definition Function_Name :: "Function option \<Rightarrow> u8 list" where
  "Function_Name f = (case f of None \<Rightarrow> [] | Some x \<Rightarrow> fname x)"

text \<open>The guards of every function operation: the function's module is known and open.\<close>

definition with_module :: "Function \<Rightarrow> (nat \<Rightarrow> 'w Driver option \<Rightarrow> ('w, 'a) op) \<Rightarrow> ('w, 'a) rop" where
  "with_module f k s = (case fmodule f of
     None \<Rightarrow> (Inl ErrNilModule, s)
   | Some i \<Rightarrow> (let m = modules s i in
       if oclosed m then (Inl ErrModuleClosed, s)
       else lift_op (k (octx m) (drv_of (octx m) s)) s))"

definition FuncAttrMaxDynamicSharedSizeBytes :: i32 where "FuncAttrMaxDynamicSharedSizeBytes = 8"
definition FuncAttrMaxThreadsPerBlock :: i32 where "FuncAttrMaxThreadsPerBlock = 0"
definition FuncAttrSharedSizeBytes :: i32 where "FuncAttrSharedSizeBytes = 1"
definition FuncAttrConstSizeBytes :: i32 where "FuncAttrConstSizeBytes = 2"
definition FuncAttrLocalSizeBytes :: i32 where "FuncAttrLocalSizeBytes = 3"
definition FuncAttrNumRegs :: i32 where "FuncAttrNumRegs = 4"
definition FuncAttrPTXVersion :: i32 where "FuncAttrPTXVersion = 5"
definition FuncAttrBinaryVersion :: i32 where "FuncAttrBinaryVersion = 6"
definition FuncAttrCacheModeCA :: i32 where "FuncAttrCacheModeCA = 7"
definition FuncAttrPreferredSharedMemoryCarveout :: i32 where "FuncAttrPreferredSharedMemoryCarveout = 9"

definition Function_Attribute :: "Function option \<Rightarrow> i32 \<Rightarrow> ('w, goint) rop" where
  "Function_Attribute fp attr s = (case fp of
     None \<Rightarrow> (Inl ErrNilFunction, s)
   | Some f \<Rightarrow> with_module f (\<lambda>c d. do_cmd (Some c) bg (FuncGetAttribute d (fraw f) attr)) s)"

definition Function_SetAttribute :: "Function option \<Rightarrow> i32 \<Rightarrow> goint \<Rightarrow> ('w, unit) rop" where
  "Function_SetAttribute fp attr val s = (case fp of
     None \<Rightarrow> (Inl ErrNilFunction, s)
   | Some f \<Rightarrow>
       if sint val < 0 \<or> sint val > sint MaxInt32 then (Inl ErrInvalidLength, s)
       else with_module f (\<lambda>c d. do_cmd (Some c) bg (FuncSetAttribute d (fraw f) attr (ucast val))) s)"

definition SetMaxDynamicSharedMemory :: "Function option \<Rightarrow> goint \<Rightarrow> ('w, unit) rop" where
  "SetMaxDynamicSharedMemory fp bytes = Function_SetAttribute fp FuncAttrMaxDynamicSharedSizeBytes bytes"

subsection \<open>Globals\<close>

record Global =
  gmodule :: "nat option"
  gptr :: u64
  gbytes :: u64
  gname :: "u8 list"

definition Module_Global :: "nat option \<Rightarrow> u8 list \<Rightarrow> ('w, Global) rop" where
  "Module_Global p name s = (case p of
     None \<Rightarrow> (Inl ErrNilModule, s)
   | Some i \<Rightarrow>
       if name = [] then (Inl ErrEmptyGlobalName, s)
       else if 0 \<in> set name then (Inl ErrInvalidGlobalName, s)
       else (let m = modules s i in
         if oclosed m then (Inl ErrModuleClosed, s)
         else (case lift_op (doWait (Some (octx m)) bg
                 (ModuleGetGlobal (drv_of (octx m) s) (mraw m) (nameBuf name))) s of
             (Inl e, s1) \<Rightarrow> (Inl e, s1)
           | (Inr (ptr, bytes), s1) \<Rightarrow>
               (Inr \<lparr>gmodule = Some i, gptr = ptr, gbytes = bytes, gname = name\<rparr>, s1))))"

definition Global_Bytes :: "Global option \<Rightarrow> u64" where
  "Global_Bytes g = (case g of None \<Rightarrow> 0 | Some x \<Rightarrow> gbytes x)"

definition Global_Name :: "Global option \<Rightarrow> u8 list" where
  "Global_Name g = (case g of None \<Rightarrow> [] | Some x \<Rightarrow> gname x)"

definition WriteGlobal :: "elem \<Rightarrow> goctx option \<Rightarrow> Global option \<Rightarrow> goslice \<Rightarrow> ('w, unit) rop" where
  "WriteGlobal t ctx gp vals s = (case gp of
     None \<Rightarrow> (Inl ErrNilGlobal, s)
   | Some g \<Rightarrow> (case gmodule g of
       None \<Rightarrow> (Inl ErrNilModule, s)
     | Some i \<Rightarrow>
         if len vals = 0 then (Inl ErrLengthMismatch, s)
         else (let bytes = len vals * elemSize t; m = modules s i in
           if oclosed m then (Inl ErrModuleClosed, s)
           else if bytes > gbytes g then (Inl ErrLengthMismatch, s)
           else no_value (lift_op
             (memcpyHtoD new_memOp (octx m) ctx (gptr g) (HGo (slice_bytes vals)) bytes) s))))"

definition ReadGlobal :: "elem \<Rightarrow> goctx option \<Rightarrow> goslice \<Rightarrow> Global option \<Rightarrow> ('w, u8 list) rop" where
  "ReadGlobal t ctx dst gp s = (case gp of
     None \<Rightarrow> (Inl ErrNilGlobal, s)
   | Some g \<Rightarrow> (case gmodule g of
       None \<Rightarrow> (Inl ErrNilModule, s)
     | Some i \<Rightarrow>
         if len dst = 0 then (Inl ErrLengthMismatch, s)
         else (let bytes = len dst * elemSize t; m = modules s i in
           if oclosed m then (Inl ErrModuleClosed, s)
           else if bytes > gbytes g then (Inl ErrLengthMismatch, s)
           else lift_op
             (memcpyDtoH new_memOp (octx m) ctx (HGo (slice_bytes dst)) (gptr g) bytes) s)))"

subsection \<open>The linker\<close>

definition jitInputCubin :: u32 where "jitInputCubin = 0"
definition jitInputPTX :: u32 where "jitInputPTX = 1"

definition linkerAvailable :: "'w Driver option \<Rightarrow> bool" where
  "linkerAvailable d = (case d of None \<Rightarrow> False | Some D \<Rightarrow> bound D ''cuLinkCreate_v2'' \<and>
     bound D ''cuLinkAddData_v2'' \<and> bound D ''cuLinkComplete'' \<and> bound D ''cuLinkDestroy'')"

definition NewLinker :: "u64 \<Rightarrow> u64 \<Rightarrow> nat option \<Rightarrow> JITOptions \<Rightarrow> ('w, nat) rop" where
  "NewLinker ia ea cp opts s = (case cp of
     None \<Rightarrow> (Inl ErrNilContext, s)
   | Some c \<Rightarrow>
       if \<not> linkerAvailable (drv_of c s) then (Inl ErrSymbolUnavailable, s)
       else (case jitLogSize opts of
         Inl e \<Rightarrow> (Inl e, s)
       | Inr siz \<Rightarrow> createWith (doWait cp bg (LinkCreate (drv_of c s) (jitOptions opts)
             (jitValues opts siz ia ea))) linkers_update
             (\<lambda>r. \<lparr>octx = c, oclosed = False, lraw = r, linfoBuf = replicate (unat siz) 0,
                lerrBuf = replicate (unat siz) 0, loptions = jitOptions opts,
                lvalues = jitValues opts siz ia ea, lpinned = True\<rparr>) s))"

definition addInput :: "nat option \<Rightarrow> u8 list \<Rightarrow> u8 list \<Rightarrow> u32 \<Rightarrow> bool \<Rightarrow> ('w, unit) rop" where
  "addInput p name data inputType terminate s = (case p of
     None \<Rightarrow> (Inl ErrNilLinker, s)
   | Some i \<Rightarrow> (let l = linkers s i in
       if oclosed l then (Inl ErrLinkerClosed, s)
       else if data = [] then (Inl ErrEmptyImage, s)
       else (let buf = (if terminate then nullTerminated data else data);
                 nm = (if name = [] then [] else nameBuf name)
         in lift_op (doWait (Some (octx l)) bg
              (LinkAddData (drv_of (octx l) s) (lraw l) inputType buf (of_nat (length buf)) nm)) s)))"

definition AddPTX :: "nat option \<Rightarrow> u8 list \<Rightarrow> u8 list \<Rightarrow> ('w, unit) rop" where
  "AddPTX p name ptx = addInput p name ptx jitInputPTX True"

definition AddCubin :: "nat option \<Rightarrow> u8 list \<Rightarrow> u8 list \<Rightarrow> ('w, unit) rop" where
  "AddCubin p name cubin = addInput p name cubin jitInputCubin False"

text \<open>The driver's image is copied out, its first \<open>size\<close> bytes, while the linker is still alive.\<close>

definition complete_job :: "'w Driver option \<Rightarrow> u64 \<Rightarrow> ('w, u8 list) drv" where
  "complete_job d rawl = andThen (LinkComplete d rawl) (\<lambda>(out, siz). ret (take (unat siz) out))"

definition Linker_Complete :: "nat option \<Rightarrow> ('w, u8 list) rop" where
  "Linker_Complete p s = (case p of
     None \<Rightarrow> (Inl ErrNilLinker, s)
   | Some i \<Rightarrow> (let l = linkers s i in
       if oclosed l then (Inl ErrLinkerClosed, s)
       else lift_op (doWait (Some (octx l)) bg (complete_job (drv_of (octx l) s) (lraw l))) s))"

definition Linker_Log :: "('w \<Rightarrow> nat \<Rightarrow> u8 list \<times> u8 list) \<Rightarrow> nat option \<Rightarrow> 'w rt \<Rightarrow> JITLog" where
  "Linker_Log logs p s = (case p of
     None \<Rightarrow> noLog
   | Some i \<Rightarrow> (case logs (world (sy s)) i of (info, err) \<Rightarrow>
       \<lparr>logInfo = trimNull info, logError = trimNull err\<rparr>))"

definition Linker_Close :: "nat option \<Rightarrow> ('w, unit) rop" where
  "Linker_Close = closeObject ErrNilLinker linkers linkers_update (\<lambda>d l. LinkDestroy d (lraw l))
     (\<lambda>l. l\<lparr>lpinned := False\<rparr>)"

subsection \<open>Stores\<close>

interpretation module: resstore modules modules_update ErrNilModule "\<lambda>d m. ModuleUnload d (mraw m)" id
  rewrites "closeObject ErrNilModule modules modules_update (\<lambda>d m. ModuleUnload d (mraw m)) id = Module_Close"
  by unfold_locales (simp_all add: Module_Close_def)

interpretation linker: resstore linkers linkers_update ErrNilLinker "\<lambda>d l. LinkDestroy d (lraw l)"
    "\<lambda>l. l\<lparr>lpinned := False\<rparr>"
  rewrites "closeObject ErrNilLinker linkers linkers_update (\<lambda>d l. LinkDestroy d (lraw l))
    (\<lambda>l. l\<lparr>lpinned := False\<rparr>) = Linker_Close"
  by unfold_locales (simp_all add: Linker_Close_def)

end
