(* ===== verification/Launch.thy ===== *)
theory Launch
  imports Buffers ModuleLink ArgPack
begin

section \<open>Kernel launches\<close>

text \<open>
  \<^verbatim>\<open>cuda/launch.go\<close>, \<^verbatim>\<open>cuda/coop.go\<close>, \<^verbatim>\<open>cuda/occupancy.go\<close> and the kernel arguments of \<^verbatim>\<open>cuda/texture.go\<close> and \<^verbatim>\<open>cuda/surface.go\<close>. A launch packs its arguments
  while it takes the read lock of every object among them, submits the kernel, and releases the locks. The locks are
  part of the model here: an operation returns the sequence of lock operations it made, with a
  mark where the driver was called. The argument state a launch takes from its pool was reset before it went there; it is a new one here,
  and \<^verbatim>\<open>LaunchPool\<close> shows that any state from the pool gives the same.
\<close>

subsection \<open>Launch configurations\<close>

definition zeroConfig :: LaunchConfig where
  "zeroConfig = \<lparr>GridX = 0, GridY = 0, GridZ = 0, BlockX = 0, BlockY = 0, BlockZ = 0, SharedMemBytes = 0\<rparr>"

definition LaunchConfig1D :: "goint \<Rightarrow> goint \<Rightarrow> LaunchConfig" where
  "LaunchConfig1D n blockSize =
     (if sint n \<le> 0 \<or> sint blockSize \<le> 0 \<or> blockSize > MaxUint32 then zeroConfig
      else let grid = (n + blockSize - 1) div blockSize in
        if grid = 0 \<or> grid > MaxUint32 then zeroConfig
        else \<lparr>GridX = ucast grid, GridY = 1, GridZ = 1, BlockX = ucast blockSize, BlockY = 1, BlockZ = 1,
               SharedMemBytes = 0\<rparr>)"

definition valid :: "LaunchConfig \<Rightarrow> bool" where
  "valid cfg = (GridX cfg > 0 \<and> GridY cfg > 0 \<and> GridZ cfg > 0 \<and> BlockX cfg > 0 \<and> BlockY cfg > 0 \<and> BlockZ cfg > 0)"

subsection \<open>Read locks\<close>

datatype lock = LBuffer nat | LTexture nat | LSurface nat | LModule nat | LStream nat

datatype lev = RLock lock | RUnlock lock | DriverCall

text \<open>How often a lock is held after a sequence of lock operations.\<close>

definition holds :: "lev list \<Rightarrow> lock \<Rightarrow> int" where
  "holds l m = int (count_list l (RLock m)) - int (count_list l (RUnlock m))"

subsection \<open>The argument builder\<close>

record kernelArgBuilder =
  kbctx :: "nat option"
  packed :: Builder
  inlineLocks :: "lock option list"
  lockCount :: nat
  overflowLocks :: "lock list"
  snapshot :: bool
  trail :: "lev list"

definition newKernelArgBuilder :: "nat option \<Rightarrow> bool \<Rightarrow> kernelArgBuilder" where
  "newKernelArgBuilder cp snap = \<lparr>kbctx = cp, packed = newBuilder, inlineLocks = replicate 16 None,
     lockCount = 0, overflowLocks = [], snapshot = snap, trail = []\<rparr>"

definition rlock :: "lock \<Rightarrow> kernelArgBuilder \<Rightarrow> kernelArgBuilder" where
  "rlock m b = b\<lparr>trail := trail b @ [RLock m]\<rparr>"

definition runlock :: "lock \<Rightarrow> kernelArgBuilder \<Rightarrow> kernelArgBuilder" where
  "runlock m b = b\<lparr>trail := trail b @ [RUnlock m]\<rparr>"

fun le_bytes :: "nat \<Rightarrow> u64 \<Rightarrow> u8 list" where
  "le_bytes 0 w = []"
| "le_bytes (Suc n) w = ucast w # le_bytes n (drop_bit 8 w)"

lemma length_le_bytes [simp]: "length (le_bytes n w) = n"
  by (induction n w rule: le_bytes.induct) simp_all

definition devicePtrType :: gotype where "devicePtrType = GoType ''cudasys.CUdeviceptr'' 8"
definition texObjectType :: gotype where "texObjectType = GoType ''cudasys.CUtexObject'' 8"
definition surfObjectType :: gotype where "surfObjectType = GoType ''cudasys.CUsurfObject'' 8"

definition addDevicePtr :: "u64 \<Rightarrow> kernelArgBuilder \<Rightarrow> kernelArgBuilder" where
  "addDevicePtr ptr b = b\<lparr>packed := Add (packed b) devicePtrType (le_bytes 8 ptr)\<rparr>"

definition addLock :: "lock \<Rightarrow> kernelArgBuilder \<Rightarrow> kernelArgBuilder" where
  "addLock m b = (if lockCount b < length (inlineLocks b)
     then b\<lparr>inlineLocks := (inlineLocks b)[lockCount b := Some m], lockCount := lockCount b + 1\<rparr>
     else b\<lparr>overflowLocks := overflowLocks b @ [m], lockCount := lockCount b + 1\<rparr>)"

definition holdsLock :: "lock \<Rightarrow> kernelArgBuilder \<Rightarrow> bool" where
  "holdsLock m b = (list_ex (\<lambda>l. l = Some m) (take (lockCount b) (inlineLocks b)) \<or>
     list_ex (\<lambda>h. h = m) (overflowLocks b))"

text \<open>The lock released at position \<open>i\<close>; \<^verbatim>\<open>release\<close> goes from the last one taken to the first.\<close>

definition lockAt :: "kernelArgBuilder \<Rightarrow> nat \<Rightarrow> lock" where
  "lockAt b i = (if i < length (inlineLocks b) then the (inlineLocks b ! i)
     else overflowLocks b ! (i - length (inlineLocks b)))"

definition release :: "kernelArgBuilder \<Rightarrow> lev list" where
  "release b = map (\<lambda>i. RUnlock (lockAt b i)) (rev [0..<lockCount b])"

subsection \<open>Arguments\<close>

text \<open>
  A buffer, a value of a supported type with its bytes, a raw device pointer, raw memory with a size, a texture, a
  surface. The pointer of a raw argument is nil or the memory it points to.
\<close>

datatype KernelArg = Arg "nat option" | ArgValue gotype "u8 list" | ArgDevicePtr u64
  | ArgRaw "u8 list option" goint | ArgTexture "nat option" | ArgSurface "nat option"

definition maxRawArgBytes :: goint where "maxRawArgBytes = 4096"

text \<open>
  The three arguments that own a lock (buffers, textures, surfaces) are appended alike: a lock already held by this
  launch is not taken again, and on an error a lock taken here is released at once.
\<close>

definition appendLocked :: "lock \<Rightarrow> 'o resource_scheme \<Rightarrow> go_error \<Rightarrow> (kernelArgBuilder \<Rightarrow> kernelArgBuilder) \<Rightarrow>
    kernelArgBuilder \<Rightarrow> go_error option \<times> kernelArgBuilder" where
  "appendLocked m x closedErr put b =
     (let held = holdsLock m b; b1 = (if held then b else rlock m b) in
      if oclosed x then (Some closedErr, if held then b1 else runlock m b1)
      else if kbctx b \<noteq> None \<and> Some (octx x) \<noteq> kbctx b
        then (Some ErrContextMismatch, if held then b1 else runlock m b1)
      else (None, put (if snapshot b then (if held then b1 else runlock m b1)
                       else if held then b1 else addLock m b1)))"

definition buffer_appendKernelArg :: "nat option \<Rightarrow> 'w rt \<Rightarrow> kernelArgBuilder \<Rightarrow> go_error option \<times> kernelArgBuilder" where
  "buffer_appendKernelArg p s b = (case p of
     None \<Rightarrow> (Some ErrNilBuffer, b)
   | Some i \<Rightarrow> appendLocked (LBuffer i) (buffers s i) ErrBufferClosed (addDevicePtr (bptr (buffers s i))) b)"

definition value_appendKernelArg :: "gotype \<Rightarrow> u8 list \<Rightarrow> kernelArgBuilder \<Rightarrow> go_error option \<times> kernelArgBuilder" where
  "value_appendKernelArg t v b = (None, b\<lparr>packed := Add (packed b) t v\<rparr>)"

definition devicePtr_appendKernelArg :: "u64 \<Rightarrow> kernelArgBuilder \<Rightarrow> go_error option \<times> kernelArgBuilder" where
  "devicePtr_appendKernelArg ptr b = (None, addDevicePtr ptr b)"

definition raw_appendKernelArg :: "u8 list option \<Rightarrow> goint \<Rightarrow> kernelArgBuilder \<Rightarrow> go_error option \<times> kernelArgBuilder" where
  "raw_appendKernelArg val siz b = (case val of
     None \<Rightarrow> (Some ErrNilKernelArg, b)
   | Some mem \<Rightarrow>
       if sint siz \<le> 0 \<or> sint siz > sint maxRawArgBytes then (Some ErrInvalidArgSize, b)
       else (None, b\<lparr>packed := AddBytes (packed b) (take (unat siz) mem)\<rparr>))"

definition texture_appendKernelArg :: "nat option \<Rightarrow> 'w rt \<Rightarrow> kernelArgBuilder \<Rightarrow> go_error option \<times> kernelArgBuilder" where
  "texture_appendKernelArg p s b = (case p of
     None \<Rightarrow> (Some ErrNilTexture, b)
   | Some i \<Rightarrow> appendLocked (LTexture i) (textures s i) ErrTextureClosed
       (\<lambda>b. b\<lparr>packed := Add (packed b) texObjectType (le_bytes 8 (thandle (textures s i)))\<rparr>) b)"

definition surface_appendKernelArg :: "nat option \<Rightarrow> 'w rt \<Rightarrow> kernelArgBuilder \<Rightarrow> go_error option \<times> kernelArgBuilder" where
  "surface_appendKernelArg p s b = (case p of
     None \<Rightarrow> (Some ErrNilSurface, b)
   | Some i \<Rightarrow> appendLocked (LSurface i) (surfaces s i) ErrSurfaceClosed
       (\<lambda>b. b\<lparr>packed := Add (packed b) surfObjectType (le_bytes 8 (suhandle (surfaces s i)))\<rparr>) b)"

fun appendKernelArg :: "KernelArg \<Rightarrow> 'w rt \<Rightarrow> kernelArgBuilder \<Rightarrow> go_error option \<times> kernelArgBuilder" where
  "appendKernelArg (Arg p) s b = buffer_appendKernelArg p s b"
| "appendKernelArg (ArgValue t v) s b = value_appendKernelArg t v b"
| "appendKernelArg (ArgDevicePtr ptr) s b = devicePtr_appendKernelArg ptr b"
| "appendKernelArg (ArgRaw val siz) s b = raw_appendKernelArg val siz b"
| "appendKernelArg (ArgTexture p) s b = texture_appendKernelArg p s b"
| "appendKernelArg (ArgSurface p) s b = surface_appendKernelArg p s b"

text \<open>The loop over the arguments; a nil argument or a failing one ends it.\<close>

fun appendArgs :: "KernelArg option list \<Rightarrow> 'w rt \<Rightarrow> kernelArgBuilder \<Rightarrow> go_error option \<times> kernelArgBuilder" where
  "appendArgs [] s b = (None, b)"
| "appendArgs (None # as) s b = (Some ErrNilKernelArg, b)"
| "appendArgs (Some a # as) s b = (case appendKernelArg a s b of
     (Some e, b1) \<Rightarrow> (Some e, b1)
   | (None, b1) \<Rightarrow> appendArgs as s b1)"

text \<open>What the driver reads through the parameter array: the bytes each pointer stands for.\<close>

definition params_bytes :: "Builder \<Rightarrow> u8 list list" where
  "params_bytes b = (case Params b of
     (None, _) \<Rightarrow> []
   | (Some ps, b1) \<Rightarrow> map (\<lambda>i. the (deref b1 (the (ps ! i)) (unat (am_size (meta b1 i))))) [0..<count b1])"

subsection \<open>Launching\<close>

definition launch :: "Function option \<Rightarrow> goctx option \<Rightarrow> u64 \<Rightarrow> nat option \<Rightarrow> LaunchConfig \<Rightarrow> bool \<Rightarrow>
    KernelArg option list \<Rightarrow> 'w rt \<Rightarrow> (go_error + unit) \<times> lev list \<times> 'w rt" where
  "launch fp ctx rawStream streamCtx cfg cooperative as s = (case fp of
     None \<Rightarrow> (Inl ErrNilFunction, [], s)
   | Some f \<Rightarrow>
       if \<not> valid cfg then (Inl ErrInvalidLaunchConfig, [], s)
       else (case fmodule f of
         None \<Rightarrow> (Inl ErrNilModule, [], s)
       | Some i \<Rightarrow> (let m = modules s i in
           if streamCtx \<noteq> None \<and> streamCtx \<noteq> Some (octx m) then (Inl ErrContextMismatch, [], s)
           else if oclosed m then (Inl ErrModuleClosed, [RLock (LModule i), RUnlock (LModule i)], s)
           else (case appendArgs as s (newKernelArgBuilder (Some (octx m)) False) of
               (Some e, b) \<Rightarrow>
                  (Inl e, [RLock (LModule i)] @ trail b @ release b @ [RUnlock (LModule i)], s)
             | (None, b) \<Rightarrow> (case lift_op (launchKernel (octx m) ctx (fraw f) cfg rawStream
                   (params_bytes (packed b)) cooperative) s of (r, s1) \<Rightarrow>
                  (r, [RLock (LModule i)] @ trail b @ [DriverCall] @ release b @ [RUnlock (LModule i)], s1))))))"

definition defaultStream :: u64 where "defaultStream = 0"

definition Launch :: "Function option \<Rightarrow> goctx option \<Rightarrow> LaunchConfig \<Rightarrow> KernelArg option list \<Rightarrow>
    'w rt \<Rightarrow> (go_error + unit) \<times> lev list \<times> 'w rt" where
  "Launch fp ctx cfg as s = launch fp ctx defaultStream None cfg False as s"

text \<open>The operations on a stream hold its read lock around the launch.\<close>

definition on_stream :: "Function option \<Rightarrow> nat option \<Rightarrow> (u64 \<Rightarrow> nat option \<Rightarrow> 'w rt \<Rightarrow> (go_error + unit) \<times> lev list \<times> 'w rt) \<Rightarrow>
    'w rt \<Rightarrow> (go_error + unit) \<times> lev list \<times> 'w rt" where
  "on_stream fp stp k s = (case fp of
     None \<Rightarrow> (Inl ErrNilFunction, [], s)
   | Some f \<Rightarrow> (case stp of
       None \<Rightarrow> (Inl ErrNilStream, [], s)
     | Some j \<Rightarrow> (let st = streams s j in
         if oclosed st then (Inl ErrStreamClosed, [RLock (LStream j), RUnlock (LStream j)], s)
         else (case k (sraw st) (Some (octx st)) s of (r, l, s1) \<Rightarrow>
           (r, [RLock (LStream j)] @ l @ [RUnlock (LStream j)], s1)))))"

definition LaunchOn :: "Function option \<Rightarrow> goctx option \<Rightarrow> nat option \<Rightarrow> LaunchConfig \<Rightarrow> KernelArg option list \<Rightarrow>
    'w rt \<Rightarrow> (go_error + unit) \<times> lev list \<times> 'w rt" where
  "LaunchOn fp ctx stp cfg as = on_stream fp stp (\<lambda>rawst c. launch fp ctx rawst c cfg False as)"

definition LaunchCooperative :: "Function option \<Rightarrow> goctx option \<Rightarrow> LaunchConfig \<Rightarrow> KernelArg option list \<Rightarrow>
    'w rt \<Rightarrow> (go_error + unit) \<times> lev list \<times> 'w rt" where
  "LaunchCooperative fp ctx cfg as s = launch fp ctx defaultStream None cfg True as s"

definition LaunchCooperativeOn :: "Function option \<Rightarrow> goctx option \<Rightarrow> nat option \<Rightarrow> LaunchConfig \<Rightarrow> KernelArg option list \<Rightarrow>
    'w rt \<Rightarrow> (go_error + unit) \<times> lev list \<times> 'w rt" where
  "LaunchCooperativeOn fp ctx stp cfg as = on_stream fp stp (\<lambda>rawst c. launch fp ctx rawst c cfg True as)"

subsection \<open>Prepacked arguments\<close>

record PackedArgs =
  papacked :: Builder

text \<open>\<^verbatim>\<open>Pack\<close> snapshots device pointers: every lock it takes is released before it returns.\<close>

definition Pack :: "KernelArg option list \<Rightarrow> 'w rt \<Rightarrow> (go_error + PackedArgs) \<times> lev list" where
  "Pack as s = (case appendArgs as s (newKernelArgBuilder None True) of
     (Some e, b) \<Rightarrow> (Inl e, trail b)
   | (None, b) \<Rightarrow> (Inr \<lparr>papacked = snd (Params (packed b))\<rparr>, trail b))"

definition PackedArgs_Len :: "PackedArgs option \<Rightarrow> nat" where
  "PackedArgs_Len p = (case p of None \<Rightarrow> 0 | Some q \<Rightarrow> Len (papacked q))"

definition SetPacked :: "PackedArgs option \<Rightarrow> int \<Rightarrow> gotype \<Rightarrow> u8 list \<Rightarrow> go_error option \<times> PackedArgs option" where
  "SetPacked p i t v = (case p of
     None \<Rightarrow> (Some ErrNilKernelArg, None)
   | Some q \<Rightarrow> (case Set (papacked q) i t v of (e, b) \<Rightarrow> (e, Some \<lparr>papacked = b\<rparr>)))"

definition SetPackedBuffer :: "PackedArgs option \<Rightarrow> int \<Rightarrow> nat option \<Rightarrow> 'w rt \<Rightarrow> go_error option \<times> PackedArgs option" where
  "SetPackedBuffer p i bp s = (case p of
     None \<Rightarrow> (Some ErrNilKernelArg, None)
   | Some q \<Rightarrow> (case bp of
       None \<Rightarrow> (Some ErrNilBuffer, p)
     | Some j \<Rightarrow> (let b = buffers s j in
         if oclosed b then (Some ErrBufferClosed, p)
         else (case Set (papacked q) i devicePtrType (le_bytes 8 (bptr b)) of
            (e, b1) \<Rightarrow> (e, Some \<lparr>papacked = b1\<rparr>)))))"

definition SetDevicePtr :: "PackedArgs option \<Rightarrow> int \<Rightarrow> u64 \<Rightarrow> go_error option \<times> PackedArgs option" where
  "SetDevicePtr p i ptr = (case p of
     None \<Rightarrow> (Some ErrNilKernelArg, None)
   | Some q \<Rightarrow> (case Set (papacked q) i devicePtrType (le_bytes 8 ptr) of (e, b) \<Rightarrow> (e, Some \<lparr>papacked = b\<rparr>)))"

definition SetRaw :: "PackedArgs option \<Rightarrow> int \<Rightarrow> u8 list option \<Rightarrow> goint \<Rightarrow> go_error option \<times> PackedArgs option" where
  "SetRaw p i val siz = (case (p, val) of
     (Some q, Some mem) \<Rightarrow>
       if sint siz \<le> 0 \<or> sint siz > sint maxRawArgBytes then (Some ErrInvalidArgSize, p)
       else (case SetBytes (papacked q) i (take (unat siz) mem) of (e, b) \<Rightarrow> (e, Some \<lparr>papacked = b\<rparr>))
   | _ \<Rightarrow> (Some ErrNilKernelArg, p))"

definition launchPacked :: "Function option \<Rightarrow> goctx option \<Rightarrow> u64 \<Rightarrow> nat option \<Rightarrow> LaunchConfig \<Rightarrow> PackedArgs option \<Rightarrow>
    'w rt \<Rightarrow> (go_error + unit) \<times> lev list \<times> 'w rt" where
  "launchPacked fp ctx rawStream streamCtx cfg p s = (case fp of
     None \<Rightarrow> (Inl ErrNilFunction, [], s)
   | Some f \<Rightarrow> (case p of
       None \<Rightarrow> (Inl ErrNilKernelArg, [], s)
     | Some q \<Rightarrow>
       if \<not> valid cfg then (Inl ErrInvalidLaunchConfig, [], s)
       else (case fmodule f of
         None \<Rightarrow> (Inl ErrNilModule, [], s)
       | Some i \<Rightarrow> (let m = modules s i in
           if streamCtx \<noteq> None \<and> streamCtx \<noteq> Some (octx m) then (Inl ErrContextMismatch, [], s)
           else if oclosed m then (Inl ErrModuleClosed, [RLock (LModule i), RUnlock (LModule i)], s)
           else (case lift_op (launchKernel (octx m) ctx (fraw f) cfg rawStream
                   (params_bytes (papacked q)) False) s of (r, s1) \<Rightarrow>
                  (r, [RLock (LModule i), DriverCall, RUnlock (LModule i)], s1))))))"

definition LaunchPacked :: "Function option \<Rightarrow> goctx option \<Rightarrow> LaunchConfig \<Rightarrow> PackedArgs option \<Rightarrow>
    'w rt \<Rightarrow> (go_error + unit) \<times> lev list \<times> 'w rt" where
  "LaunchPacked fp ctx cfg p s = launchPacked fp ctx defaultStream None cfg p s"

definition LaunchPackedOn :: "Function option \<Rightarrow> goctx option \<Rightarrow> nat option \<Rightarrow> LaunchConfig \<Rightarrow> PackedArgs option \<Rightarrow>
    'w rt \<Rightarrow> (go_error + unit) \<times> lev list \<times> 'w rt" where
  "LaunchPackedOn fp ctx stp cfg p = on_stream fp stp (\<lambda>rawst c. launchPacked fp ctx rawst c cfg p)"

subsection \<open>Occupancy\<close>

definition MaxActiveBlocksPerSM :: "Function option \<Rightarrow> goint \<Rightarrow> goint \<Rightarrow> ('w, goint) rop" where
  "MaxActiveBlocksPerSM fp blockSize dynamicSharedMem s = (case fp of
     None \<Rightarrow> (Inl ErrNilFunction, s)
   | Some f \<Rightarrow>
       if sint blockSize \<le> 0 \<or> sint blockSize > sint MaxInt32 then (Inl ErrInvalidBlockSize, s)
       else if sint dynamicSharedMem < 0 then (Inl ErrInvalidLength, s)
       else with_module f (\<lambda>c d. do_cmd (Some c) bg
         (OccupancyMaxActiveBlocksPerMultiprocessor d (fraw f) (ucast blockSize) dynamicSharedMem)) s)"

definition SuggestedBlockSize :: "Function option \<Rightarrow> goint \<Rightarrow> goint \<Rightarrow> ('w, goint \<times> goint) rop" where
  "SuggestedBlockSize fp dynamicSharedMem blockSizeLimit s = (case fp of
     None \<Rightarrow> (Inl ErrNilFunction, s)
   | Some f \<Rightarrow>
       if sint dynamicSharedMem < 0 \<or> sint blockSizeLimit < 0 \<or> sint blockSizeLimit > sint MaxInt32
         then (Inl ErrInvalidLength, s)
       else with_module f (\<lambda>c d. do_cmd (Some c) bg
         (OccupancyMaxPotentialBlockSize d (fraw f) dynamicSharedMem (ucast blockSizeLimit))) s)"

definition SuggestedConfig1D :: "Function option \<Rightarrow> goint \<Rightarrow> goint \<Rightarrow> ('w, LaunchConfig) rop" where
  "SuggestedConfig1D fp n dynamicSharedMem s =
     (if sint n \<le> 0 then (Inl ErrInvalidLaunchConfig, s)
      else (case SuggestedBlockSize fp dynamicSharedMem 0 s of
        (Inl e, s1) \<Rightarrow> (Inl e, s1)
      | (Inr (_, blockSize), s1) \<Rightarrow>
          if sint blockSize \<le> 0 then (Inl ErrInvalidLaunchConfig, s1)
          else (let cfg = LaunchConfig1D n blockSize in
            if \<not> valid cfg then (Inl ErrInvalidLaunchConfig, s1)
            else (Inr (cfg\<lparr>SharedMemBytes := ucast dynamicSharedMem\<rparr>), s1))))"

end
