(* ===== verification/Start.thy ===== *)
theory Start
  imports Lifecycle MemKinds Shaped Graphs Launch
begin

section \<open>The initial state\<close>

text \<open>
  No object exists yet: every store holds zero values. \<open>rt_open\<close> is a program that initialised a driver that accepts
  every call and opened one context; it serves as a concrete input of the theorems.
\<close>

definition rt0 :: "'w sys \<Rightarrow> 'w rt" where
  "rt0 y = \<lparr>sy = y, nobj = 0,
     buffers = (\<lambda>_. \<lparr>octx = 0, oclosed = False, bptr = 0, blength = 0, bbytes = 0, belem = Uint8\<rparr>),
     hostbufs = (\<lambda>_. \<lparr>octx = 0, oclosed = False, hptr = 0, hlength = 0, hbytes = 0, helem = Uint8\<rparr>),
     reghosts = (\<lambda>_. \<lparr>octx = 0, oclosed = False, rmem = [], rptr = 0, rbytes = 0, rpinned = False, relem = Uint8\<rparr>),
     streams = (\<lambda>_. \<lparr>octx = 0, oclosed = False, sraw = 0\<rparr>),
     events = (\<lambda>_. \<lparr>octx = 0, oclosed = False, eraw = 0, timingDisabled = False, interprocess = False\<rparr>),
     graphs = (\<lambda>_. \<lparr>octx = 0, oclosed = False, graw = 0\<rparr>),
     graphexecs = (\<lambda>_. \<lparr>octx = 0, oclosed = False, geraw = 0\<rparr>),
     modules = (\<lambda>_. \<lparr>octx = 0, oclosed = False, mraw = 0\<rparr>),
     linkers = (\<lambda>_. \<lparr>octx = 0, oclosed = False, lraw = 0, linfoBuf = [], lerrBuf = [], loptions = [],
        lvalues = [], lpinned = False\<rparr>),
     pitcheds = (\<lambda>_. \<lparr>octx = 0, oclosed = False, pptr = 0, ppitch = 0, pwidth = 0, pheight = 0, pelem = Uint8\<rparr>),
     volumes = (\<lambda>_. \<lparr>octx = 0, oclosed = False, vptr = 0, vpitch = 0, vwidth = 0, vheight = 0, vdepth = 0,
        velem = Uint8\<rparr>),
     arrays = (\<lambda>_. \<lparr>octx = 0, oclosed = False, ahandle = 0, awidth = 0, aheight = 0, asurface = False,
        aelem = Uint8\<rparr>),
     textures = (\<lambda>_. \<lparr>octx = 0, oclosed = False, thandle = 0\<rparr>),
     surfaces = (\<lambda>_. \<lparr>octx = 0, oclosed = False, suhandle = 0\<rparr>),
     manageds = (\<lambda>_. \<lparr>octx = 0, oclosed = False, mhost = 0, mptr = 0, mlength = 0, mbytes = 0, melem = Uint8\<rparr>),
     ipcbufs = (\<lambda>_. \<lparr>octx = 0, oclosed = False, iptr = 0, ilength = 0, ibytes = 0, ielem = Uint8\<rparr>),
     virtuals = (\<lambda>_. \<lparr>octx = 0, oclosed = False, vbptr = 0, vbhandle = 0, vbsize = 0, vblength = 0, vbbytes = 0,
        vbmapped = False, vbreserved = False, vbcreated = False, vbelem = Uint8\<rparr>),
     registry = \<lparr>shards = replicate registryShardCount (\<lambda>_. None), nextKey = 0, tramp = 0\<rparr>\<rparr>"

definition rt_open :: "unit tw rt" where
  "rt_open = rt0 opened"

end
