(* ===== verification/BufferProps.thy ===== *)
theory BufferProps
  imports Start
begin

section \<open>Buffers: sizes, ranges and views\<close>

subsection \<open>Well-formed buffers\<close>

definition wf_buffer :: "Buffer \<Rightarrow> bool" where
  "wf_buffer b = (0 \<le> sint (blength b) \<and> unat (bbytes b) = unat (blength b) * unat (elemSize (belem b)))"

definition wf_buffers :: "'w rt \<Rightarrow> bool" where
  "wf_buffers s = (\<forall>i. wf_buffer (buffers s i))"

text \<open>The \<open>n\<close> bytes from address \<open>p\<close> on are inside the buffer.\<close>

definition in_buffer :: "Buffer \<Rightarrow> u64 \<Rightarrow> u64 \<Rightarrow> bool" where
  "in_buffer b p n = (unat (p - bptr b) + unat n \<le> unat (bbytes b))"

lemma range_in_buffer:
  assumes wf: "wf_buffer b" and off: "0 \<le> sint off" and n: "0 < sint n"
    and fits: "sint off \<le> sint (blength b - n)"
  shows "unat off + unat n \<le> unat (blength b)"
    and "unat (off * elemSize (belem b)) = unat off * unat (elemSize (belem b))"
    and "unat (n * elemSize (belem b)) = unat n * unat (elemSize (belem b))"
    and "in_buffer b (offsetPtr b off) (n * elemSize (belem b))"
proof -
  let ?e = "unat (elemSize (belem b))"
  have L: "0 \<le> sint (blength b)" and bytes: "unat (bbytes b) = unat (blength b) * ?e"
    using wf by (simp_all add: wf_buffer_def)
  have "sint off + sint n \<le> sint (blength b)"
    using fits sint_diff_nonneg[OF L order.strict_implies_order[OF n]] by simp
  then show le: "unat off + unat n \<le> unat (blength b)"
    using sint_nonneg_unat(1)[OF off] sint_nonneg_unat(1)[OF L] sint_nonneg_unat(1)[of n] n by linarith
  have lt: "unat (blength b) * ?e < 2 ^ 64"
    using bytes unat_lt64[of "bbytes b"] by simp
  have o: "unat off * ?e \<le> unat (blength b) * ?e" and m: "unat n * ?e \<le> unat (blength b) * ?e"
    using le by (auto intro!: mult_le_mono1)
  show uo: "unat (off * elemSize (belem b)) = unat off * ?e"
    by (rule unat_mul_small) (rule le_less_trans[OF o lt])
  show un: "unat (n * elemSize (belem b)) = unat n * ?e"
    by (rule unat_mul_small) (rule le_less_trans[OF m lt])
  have "unat off * ?e + unat n * ?e \<le> unat (blength b) * ?e"
    using mult_le_mono1[OF le, of ?e] by (simp add: algebra_simps)
  then show "in_buffer b (offsetPtr b off) (n * elemSize (belem b))"
    by (simp add: in_buffer_def offsetPtr_def uo un bytes)
qed

subsection \<open>Allocation\<close>

lemma wf_mkBuffer: "byteSize t n = Some bytes \<Longrightarrow> wf_buffer (mkBuffer c t n bytes ptr)"
  using byteSize_exact[of t n bytes] by (simp add: wf_buffer_def mkBuffer_def)

lemma wf_buffers_upd: "wf_buffers s \<Longrightarrow> buffers s' = (buffers s)(i := b) \<Longrightarrow> wf_buffer b \<Longrightarrow> wf_buffers s'"
  by (simp add: wf_buffers_def)

lemma wf_buffers_same: "wf_buffers s \<Longrightarrow> buffers s' = buffers s \<Longrightarrow> wf_buffers s'"
  by (simp add: wf_buffers_def)

lemma wf_buffer_closed: "wf_buffer b \<Longrightarrow> wf_buffer (b\<lparr>oclosed := c\<rparr>)"
  by (simp add: wf_buffer_def)

lemma createWith_buffers:
  assumes "createWith f buffers_update mk s = (r, s')"
  shows "buffers s' = buffers s \<or> (\<exists>x. buffers s' = (buffers s)(nobj s := mk x))"
proof (cases r)
  case (Inl e)
  with assms buf.createWith_err[of f mk s e s'] show ?thesis by auto
next
  case (Inr p)
  with assms show ?thesis by (auto elim: buf.createWith_ok)
qed


text \<open>
  C30. An allocation asks the driver for exactly the size of its elements: \<^verbatim>\<open>Alloc\<close> refuses a length that is not positive or
  whose size in bytes does not fit 64 bits, without a driver call; when it succeeds, the driver was asked for \<open>n\<close> times the
  element size, computed without wrap-around, the new buffer records that size and what the driver
  returned, and no other buffer changed; when it fails no buffer was made.
\<close>

theorem Alloc_exact_size:
  assumes "Alloc t (Some c) n s = (r, s')"
  shows "case r of
     Inl e \<Rightarrow> buffers s' = buffers s \<and>
       (sint n \<le> 0 \<or> 2 ^ 64 \<le> unat n * unat (elemSize t) \<longrightarrow> e = ErrInvalidLength \<and> s' = s)
   | Inr p \<Rightarrow> (\<exists>bytes ptr. 0 < sint n \<and> unat bytes = unat n * unat (elemSize t) \<and>
       buffers s' = (buffers s)(p := mkBuffer c t n bytes ptr) \<and>
       ran (MemAlloc (drv_of c s) bytes) (Inr ptr) (world (sy s')))"
proof (cases "byteSize t n")
  case None
  then show ?thesis using assms by (auto simp: Alloc_def)
next
  case (Some bytes)
  let ?f = "do_cmd (Some c) bg (MemAlloc (drv_of c s) bytes)"
  have cw: "createWith ?f buffers_update (mkBuffer c t n bytes) s = (r, s')"
    using assms Some by (simp add: Alloc_def)
  have big: "\<not> (sint n \<le> 0 \<or> 2 ^ 64 \<le> unat n * unat (elemSize t))"
    using Some byteSize_None[of t n] by simp
  show ?thesis
  proof (cases r)
    case (Inl e)
    then show ?thesis using buf.createWith_err[of ?f "mkBuffer c t n bytes" s e s'] cw big by auto
  next
    case (Inr p)
    with cw obtain x y where "?f (sy s) = (Inr x, y)" "buffers s' = (buffers s)(p := mkBuffer c t n bytes x)"
      "sy s' = y" by (auto elim: buf.createWith_ok)
    moreover from this have "ran (MemAlloc (drv_of c s) bytes) (Inr x) (world (sy s'))"
      using do_reports(1) by auto
    ultimately show ?thesis using Inr byteSize_exact[OF Some] by auto
  qed
qed

lemma Alloc_exact_size_witness:
  "\<exists>bytes ptr. unat bytes = 3 * unat (elemSize Float32) \<and>
     buffers (snd (Alloc Float32 (Some 0) 3 rt_open)) = (buffers rt_open)(0 := mkBuffer 0 Float32 3 bytes ptr) \<and>
     ran (MemAlloc (drv_of 0 rt_open) bytes) (Inr ptr) (world (sy (snd (Alloc Float32 (Some 0) 3 rt_open))))"
proof -
  have "Alloc Float32 (Some 0) 3 rt_open = (Inr 0, snd (Alloc Float32 (Some 0) 3 rt_open))"
    by (rule prod_eqI) (code_simp, simp)
  from Alloc_exact_size[OF this] show ?thesis by simp
qed

subsection \<open>Offset copies\<close>

text \<open>
  A copy at an offset is refused by a check, leaving the program as it was, or it is the dispatch of one driver copy
  whose device range lies inside the buffer.
\<close>

lemma no_value_lift: "no_value (lift_op f s) = lift_op (\<lambda>y. no_value (f y)) s"
  by (simp add: no_value_def lift_op_def split: prod.splits sum.splits)

definition copies_into :: "Buffer \<Rightarrow> goctx option \<Rightarrow> u8 list \<Rightarrow> 'w rt \<Rightarrow> (go_error + unit) \<times> 'w rt \<Rightarrow> bool" where
  "copies_into b ctx data s res = (\<exists>p n. in_buffer b p n \<and> unat n = length data \<and>
     res = no_value (lift_op (doCopyJob (Some (octx b)) ctx
       (no_bytes (MemcpyHtoD (drv_of (octx b) s) p (HGo data) n))) s))"

definition copies_out :: "Buffer \<Rightarrow> goctx option \<Rightarrow> u8 list \<Rightarrow> 'w rt \<Rightarrow> (go_error + u8 list) \<times> 'w rt \<Rightarrow> bool" where
  "copies_out b ctx data s res = (\<exists>p n. in_buffer b p n \<and> unat n = length data \<and>
     res = lift_op (doCopyJob (Some (octx b)) ctx (MemcpyDtoH (drv_of (octx b) s) (HGo data) p n)) s)"

definition copies_between :: "Buffer \<Rightarrow> Buffer \<Rightarrow> goctx option \<Rightarrow> 'w rt \<Rightarrow> (go_error + unit) \<times> 'w rt \<Rightarrow> bool" where
  "copies_between b d ctx s res = (\<exists>p q n. in_buffer b p n \<and> in_buffer d q n \<and>
     res = no_value (lift_op (doCopyJob (Some (octx b)) ctx
       (no_bytes (MemcpyDtoD (drv_of (octx b) s) q p n))) s))"

lemma goslice_range:
  assumes "wf_buffer b" "goslice_of (belem b) xs" "0 \<le> sint off" "len xs \<noteq> 0" "sint off \<le> sint (blength b - len xs)"
  shows "in_buffer b (offsetPtr b off) (len xs * elemSize (belem b))"
    and "unat (len xs * elemSize (belem b)) = length (slice_bytes xs)"
proof -
  have "0 < sint (len xs)" using assms(2,4) by (auto simp: sint_len len_eq_0)
  note r = range_in_buffer[OF assms(1,3) this assms(5)]
  show "in_buffer b (offsetPtr b off) (len xs * elemSize (belem b))" by (rule r(4))
  show "unat (len xs * elemSize (belem b)) = length (slice_bytes xs)"
    using r(3) assms(2) by (simp add: unat_len goslice_bytes)
qed

text \<open>
  C10. Offset copies stay inside the buffers: \<^verbatim>\<open>CopyFromAt\<close>, \<^verbatim>\<open>CopyToAt\<close> and \<^verbatim>\<open>CopyToDeviceAt\<close> either return an error from their
  checks and leave everything as it was, or dispatch exactly one driver copy whose device range lies inside the buffer
  (both buffers), whose size is the size of the host slice, and whose byte arithmetic does not wrap around.
\<close>

theorem offset_copies_in_bounds:
  assumes "wf_buffer (buffers s i)" and "wf_buffer (buffers s j)" and "belem (buffers s j) = belem (buffers s i)"
    and "goslice_of (belem (buffers s i)) xs"
  shows "((\<exists>e. Buffer_CopyFromAt (Some i) ctx off xs s = (Inl e, s)) \<or>
      copies_into (buffers s i) ctx (slice_bytes xs) s (Buffer_CopyFromAt (Some i) ctx off xs s)) \<and>
    ((\<exists>e. Buffer_CopyToAt (Some i) ctx xs off s = (Inl e, s)) \<or>
      copies_out (buffers s i) ctx (slice_bytes xs) s (Buffer_CopyToAt (Some i) ctx xs off s)) \<and>
    ((\<exists>e. Buffer_CopyToDeviceAt (Some i) ctx doff (Some j) soff n s = (Inl e, s)) \<or>
      copies_between (buffers s i) (buffers s j) ctx s (Buffer_CopyToDeviceAt (Some i) ctx doff (Some j) soff n s))"
proof (intro conjI)
  note r = goslice_range[OF assms(1,4)]
  show "(\<exists>e. Buffer_CopyFromAt (Some i) ctx off xs s = (Inl e, s)) \<or>
      copies_into (buffers s i) ctx (slice_bytes xs) s (Buffer_CopyFromAt (Some i) ctx off xs s)"
    using r[of off] by (auto simp: Buffer_CopyFromAt_def copies_into_def Let_def pooled_copies drv_of_def lift_op_def not_less)
  show "(\<exists>e. Buffer_CopyToAt (Some i) ctx xs off s = (Inl e, s)) \<or>
      copies_out (buffers s i) ctx (slice_bytes xs) s (Buffer_CopyToAt (Some i) ctx xs off s)"
    using r[of off] by (auto simp: Buffer_CopyToAt_def copies_out_def Let_def pooled_copies drv_of_def lift_op_def not_less)
  show "(\<exists>e. Buffer_CopyToDeviceAt (Some i) ctx doff (Some j) soff n s = (Inl e, s)) \<or>
      copies_between (buffers s i) (buffers s j) ctx s (Buffer_CopyToDeviceAt (Some i) ctx doff (Some j) soff n s)"
    using range_in_buffer(4)[OF assms(1), of soff n] range_in_buffer(4)[OF assms(2), of doff n] assms(3)
    by (auto simp: Buffer_CopyToDeviceAt_def copies_between_def Let_def pooled_copies drv_of_def lift_op_def not_less not_le)
qed

definition two_floats :: goslice where
  "two_floats = [[1, 2, 3, 4], [5, 6, 7, 8]]"

definition one_buffer :: "unit tw rt" where
  "one_buffer = snd (Alloc Float32 (Some 0) 3 rt_open)"

lemma one_buffer_0: "buffers one_buffer 0 = mkBuffer 0 Float32 3 12 7"
  by (rule Buffer.equality; code_simp)

lemma offset_copies_in_bounds_witness:
  "copies_into (buffers one_buffer 0) bg [1, 2, 3, 4, 5, 6, 7, 8] one_buffer
     (Buffer_CopyFromAt (Some 0) bg 1 two_floats one_buffer) \<and>
   Buffer_CopyFromAt (Some 0) bg 2 two_floats one_buffer = (Inl ErrOutOfRange, one_buffer)"
proof -
  have w: "wf_buffer (buffers one_buffer 0)" unfolding one_buffer_0 by code_simp
  have g: "goslice_of (belem (buffers one_buffer 0)) two_floats"
    by (simp add: one_buffer_0 goslice_of_def two_floats_def mkBuffer_def)
  have ok: "fst (Buffer_CopyFromAt (Some 0) bg 1 two_floats one_buffer) = Inr ()" by code_simp
  have b: "slice_bytes two_floats = [1, 2, 3, 4, 5, 6, 7, 8]" by code_simp
  have "Buffer_CopyFromAt (Some 0) bg 2 two_floats one_buffer = (Inl ErrOutOfRange, one_buffer)"
    by (simp add: Buffer_CopyFromAt_def one_buffer_0 mkBuffer_def two_floats_def len_def Let_def)
  with offset_copies_in_bounds[OF w w refl g, of bg 1 0 0 0] ok show ?thesis
    by (auto simp: b)
qed

subsection \<open>Views\<close>

text \<open>The window of a view lies inside its owner.\<close>

definition wf_view :: "'w rt \<Rightarrow> View \<Rightarrow> bool" where
  "wf_view s v = (case vowner v of None \<Rightarrow> False | Some i \<Rightarrow>
     0 \<le> sint (voffset v) \<and> 0 < sint (vlength v) \<and>
     unat (voffset v) + unat (vlength v) \<le> unat (blength (buffers s i)))"

text \<open>The views of a buffer: windows of it, and windows of its views, to any depth.\<close>

inductive view_of :: "'w rt \<Rightarrow> nat \<Rightarrow> View \<Rightarrow> bool" for s :: "'w rt" and i :: nat where
  whole: "Buffer_View (Some i) off n s = Inr v \<Longrightarrow> view_of s i v"
| sub: "view_of s i v \<Longrightarrow> View_View (Some v) off n s = Inr v' \<Longrightarrow> view_of s i v'"

lemma le_diff_unat:
  fixes L off n :: u64
  assumes "0 \<le> sint L" "0 \<le> sint off" "0 < sint n" "sint off \<le> sint (L - n)"
  shows "unat off + unat n \<le> unat L"
  using assms sint_diff_nonneg[OF assms(1), of n] sint_nonneg_unat(1)[OF assms(1)]
    sint_nonneg_unat(1)[OF assms(2)] sint_nonneg_unat(1)[of n] by linarith

lemma View_View_spec:
  assumes "View_View (Some v) off n s = Inr v'" "wf_view s v" "vowner v = Some i" "0 \<le> sint (blength (buffers s i))"
  shows "vowner v' = Some i" "unat (voffset v') = unat (voffset v) + unat off" "vlength v' = n"
    "0 < sint n" "unat off + unat n \<le> unat (vlength v)" "0 \<le> sint (voffset v')"
proof -
  from assms(1,3) have o: "0 \<le> sint off" and n: "0 < sint n" and le: "sint off \<le> sint (vlength v - n)"
    and v': "v' = \<lparr>vowner = Some i, voffset = voffset v + off, vlength = n\<rparr>"
    by (auto simp: View_View_def not_less not_le split: if_splits)
  from assms(2,3) have w: "0 \<le> sint (voffset v)" "0 < sint (vlength v)"
    "unat (voffset v) + unat (vlength v) \<le> unat (blength (buffers s i))" by (auto simp: wf_view_def)
  show "vowner v' = Some i" "vlength v' = n" "0 < sint n" using v' n by simp_all
  show fit: "unat off + unat n \<le> unat (vlength v)"
    using le_diff_unat[OF _ o n le] w(2) by simp
  have small: "unat (voffset v) + unat off < 2 ^ 63"
    using w(3) fit sint_nonneg_unat(2)[OF assms(4)] by linarith
  then show uo: "unat (voffset v') = unat (voffset v) + unat off"
    using v' unat_add_small[of "voffset v" off] by simp
  show "0 \<le> sint (voffset v')" using uo small by (simp add: sint_split)
qed

lemma view_of_wf:
  assumes "view_of s i v" "wf_buffer (buffers s i)"
  shows "wf_view s v \<and> vowner v = Some i"
  using assms
proof (induction rule: view_of.induct)
  case (whole off n v)
  then show ?case
    using le_diff_unat[of "blength (buffers s i)" off n]
    by (auto simp: Buffer_View_def wf_view_def wf_buffer_def Let_def not_less not_le split: if_splits)
next
  case (sub v off n v')
  have "0 \<le> sint (blength (buffers s i))" using sub.prems by (simp add: wf_buffer_def)
  from View_View_spec[OF sub.hyps(2) _ _ this] sub.IH sub.prems show ?case
    by (auto simp: wf_view_def)
qed

lemma view_window:
  assumes "wf_view s v" "vowner v = Some i" "wf_buffer (buffers s i)"
  shows "sint (voffset v) \<le> sint (blength (buffers s i) - vlength v)" "0 \<le> sint (voffset v)" "0 < sint (vlength v)"
proof -
  have w: "0 \<le> sint (voffset v)" "0 < sint (vlength v)" "0 \<le> sint (blength (buffers s i))"
    "unat (voffset v) + unat (vlength v) \<le> unat (blength (buffers s i))"
    using assms by (auto simp: wf_view_def wf_buffer_def)
  show "0 \<le> sint (voffset v)" "0 < sint (vlength v)" by (rule w)+
  have "sint (voffset v) + sint (vlength v) \<le> sint (blength (buffers s i))"
    using w(4) sint_nonneg_unat(1)[OF w(1)] sint_nonneg_unat(1)[OF w(3)] sint_nonneg_unat(1)[of "vlength v"] w(2)
    by linarith
  then show "sint (voffset v) \<le> sint (blength (buffers s i) - vlength v)"
    using sint_diff_nonneg[OF w(3), of "vlength v"] w(2) by simp
qed

text \<open>
  C29. Views never leave their buffer: a view made from a buffer by any chain of nested \<^verbatim>\<open>View\<close> calls is a non-empty
  window inside it, at an offset that is the sum of the offsets without wrap-around, and copying a slice of the view's
  length through it, while the owner is open, passes every check of the offset copy and dispatches one driver copy
  that starts at the view's device pointer and stays inside the buffer.
\<close>

theorem views_stay_in_their_buffer:
  assumes "view_of s i v" and "wf_buffer (buffers s i)"
  shows "wf_view s v \<and> vowner v = Some i \<and>
    (\<forall>off n v'. View_View (Some v) off n s = Inr v' \<longrightarrow>
       unat (voffset v') = unat (voffset v) + unat off \<and> unat off + unat n \<le> unat (vlength v)) \<and>
    (\<forall>ctx xs. \<not> oclosed (buffers s i) \<longrightarrow> goslice_of (belem (buffers s i)) xs \<longrightarrow> len xs = vlength v \<longrightarrow>
       in_buffer (buffers s i) (View_DevicePtr (Some v) s) (View_Bytes (belem (buffers s i)) (Some v)) \<and>
       View_CopyFrom (Some v) ctx xs s = no_value (lift_op (doCopyJob (Some (octx (buffers s i))) ctx
         (no_bytes (MemcpyHtoD (drv_of (octx (buffers s i)) s) (View_DevicePtr (Some v) s)
           (HGo (slice_bytes xs)) (View_Bytes (belem (buffers s i)) (Some v))))) s))"
proof -
  let ?b = "buffers s i"
  have w: "wf_view s v" and ow: "vowner v = Some i" using view_of_wf[OF assms] by auto
  note win = view_window[OF w ow assms(2)]
  have L: "0 \<le> sint (blength ?b)" using assms(2) by (simp add: wf_buffer_def)
  have sub: "View_View (Some v) off n s = Inr v' \<Longrightarrow>
      unat (voffset v') = unat (voffset v) + unat off \<and> unat off + unat n \<le> unat (vlength v)" for off n v'
    using View_View_spec[OF _ w ow L] by auto
  have "in_buffer ?b (View_DevicePtr (Some v) s) (View_Bytes (belem ?b) (Some v))"
    using range_in_buffer(4)[OF assms(2) win(2,3,1)] ow by (simp add: View_DevicePtr_def View_Bytes_def)
  moreover have "View_CopyFrom (Some v) ctx xs s = no_value (lift_op (doCopyJob (Some (octx ?b)) ctx
         (no_bytes (MemcpyHtoD (drv_of (octx ?b) s) (View_DevicePtr (Some v) s)
           (HGo (slice_bytes xs)) (View_Bytes (belem ?b) (Some v))))) s)"
    if "\<not> oclosed ?b" "len xs = vlength v" for ctx xs
  proof -
    have "vlength v \<noteq> 0" using win(3) by auto
    then show ?thesis using that win ow
      by (simp add: View_CopyFrom_def Buffer_CopyFromAt_def Let_def pooled_copies drv_of_def lift_op_def
          View_DevicePtr_def View_Bytes_def)
  qed
  ultimately show ?thesis using w ow sub by auto
qed

definition view_a :: View where "view_a = \<lparr>vowner = Some 0, voffset = 1, vlength = 2\<rparr>"
definition view_b :: View where "view_b = \<lparr>vowner = Some 0, voffset = 2, vlength = 1\<rparr>"

lemma views_stay_in_their_buffer_witness:
  "view_of one_buffer 0 view_b \<and> wf_view one_buffer view_b \<and>
   View_View (Some view_a) 1 1 one_buffer = Inr view_b \<and> View_View (Some view_a) 1 2 one_buffer = Inl ErrOutOfRange"
proof -
  have ev: "Buffer_View (Some 0) 1 2 one_buffer = Inr view_a" "View_View (Some view_a) 1 1 one_buffer = Inr view_b"
    "View_View (Some view_a) 1 2 one_buffer = Inl ErrOutOfRange"
    by (simp_all add: Buffer_View_def View_View_def one_buffer_0 mkBuffer_def view_a_def view_b_def Let_def)
  have v: "view_of one_buffer 0 view_b"
    by (rule view_of.sub[OF view_of.whole[OF ev(1)] ev(2)])
  have w: "wf_buffer (buffers one_buffer 0)" unfolding one_buffer_0 by code_simp
  from views_stay_in_their_buffer[OF v w] v ev show ?thesis by blast
qed

end
