(* ===== verification/LaunchLocks.thy ===== *)
theory LaunchLocks
  imports BufferProps
begin

section \<open>Launches: the read locks\<close>

text \<open>
  Which locks a launch holds while the driver reads its arguments. The builder's inline and overflow slots are seen as one
  list of locks, the lock operations of a launch as that list taken in order and released in reverse.
\<close>

subsection \<open>The locks a builder holds\<close>

definition is_obj_lock :: "lock \<Rightarrow> bool" where
  "is_obj_lock m = (\<forall>i. m \<noteq> LModule i \<and> m \<noteq> LStream i)"

lemma is_obj_lock [simp]: "is_obj_lock (LBuffer i)" "is_obj_lock (LTexture i)" "is_obj_lock (LSurface i)"
  "\<not> is_obj_lock (LModule i)" "\<not> is_obj_lock (LStream i)"
  by (simp_all add: is_obj_lock_def)

definition heldLocks :: "kernelArgBuilder \<Rightarrow> lock list" where
  "heldLocks b = map the (take (lockCount b) (inlineLocks b)) @ overflowLocks b"

definition wf_locks :: "kernelArgBuilder \<Rightarrow> bool" where
  "wf_locks b = (length (inlineLocks b) = 16 \<and> length (overflowLocks b) = lockCount b - 16 \<and>
     (\<forall>i < min 16 (lockCount b). inlineLocks b ! i \<noteq> None) \<and> distinct (heldLocks b) \<and>
     list_all is_obj_lock (heldLocks b))"

lemma newKernelArgBuilder_simps [simp]:
  "trail (newKernelArgBuilder cp snap) = []" "snapshot (newKernelArgBuilder cp snap) = snap"
  "kbctx (newKernelArgBuilder cp snap) = cp" "packed (newKernelArgBuilder cp snap) = newBuilder"
  by (simp_all add: newKernelArgBuilder_def)

lemma wf_locks_new: "wf_locks (newKernelArgBuilder cp snap)" "heldLocks (newKernelArgBuilder cp snap) = []"
  by (simp_all add: wf_locks_def newKernelArgBuilder_def heldLocks_def)

lemma holdsLock_iff:
  assumes "wf_locks b"
  shows "holdsLock m b \<longleftrightarrow> m \<in> set (heldLocks b)"
proof -
  have "\<forall>l \<in> set (take (lockCount b) (inlineLocks b)). l \<noteq> None"
    using assms by (auto simp: wf_locks_def in_set_conv_nth)
  then have "list_ex (\<lambda>l. l = Some m) (take (lockCount b) (inlineLocks b)) \<longleftrightarrow>
      m \<in> the ` set (take (lockCount b) (inlineLocks b))"
    by (force simp: list_ex_iff)
  then show ?thesis by (auto simp: holdsLock_def heldLocks_def list_ex_iff)
qed

lemma addLock_held:
  assumes "wf_locks b"
  shows "heldLocks (addLock m b) = heldLocks b @ [m]"
  using assms by (auto simp: addLock_def heldLocks_def wf_locks_def take_Suc_conv_app_nth)

lemma wf_locks_addLock:
  assumes "wf_locks b" and "m \<notin> set (heldLocks b)" and "is_obj_lock m"
  shows "wf_locks (addLock m b)"
proof -
  have "length (inlineLocks (addLock m b)) = 16 \<and> length (overflowLocks (addLock m b)) = lockCount (addLock m b) - 16 \<and>
     (\<forall>i < min 16 (lockCount (addLock m b)). inlineLocks (addLock m b) ! i \<noteq> None)"
    using assms(1) by (auto simp: addLock_def wf_locks_def nth_list_update less_Suc_eq)
  then show ?thesis
    using assms by (auto simp: wf_locks_def addLock_held)
qed

lemma length_heldLocks: "wf_locks b \<Longrightarrow> length (heldLocks b) = lockCount b"
  by (auto simp: wf_locks_def heldLocks_def)

lemma release_held:
  assumes "wf_locks b"
  shows "release b = map RUnlock (rev (heldLocks b))"
proof -
  have "map (lockAt b) [0..<lockCount b] = heldLocks b"
    by (rule nth_equalityI)
      (use assms in \<open>auto simp: length_heldLocks lockAt_def wf_locks_def heldLocks_def nth_append\<close>)
  then have "map RUnlock (rev (map (lockAt b) [0..<lockCount b])) = map RUnlock (rev (heldLocks b))" by simp
  then show ?thesis by (simp add: release_def rev_map comp_def)
qed

lemma wf_locks_upd [simp]:
  "wf_locks (b\<lparr>packed := p\<rparr>) = wf_locks b" "wf_locks (b\<lparr>trail := l\<rparr>) = wf_locks b"
  "heldLocks (b\<lparr>packed := p\<rparr>) = heldLocks b" "heldLocks (b\<lparr>trail := l\<rparr>) = heldLocks b"
  "trail (addLock m b) = trail b"
  by (simp_all add: wf_locks_def heldLocks_def addLock_def)

subsection \<open>Appending arguments\<close>

text \<open>The lock an argument needs.\<close>

fun arg_lock :: "KernelArg \<Rightarrow> lock option" where
  "arg_lock (Arg p) = map_option LBuffer p"
| "arg_lock (ArgTexture p) = map_option LTexture p"
| "arg_lock (ArgSurface p) = map_option LSurface p"
| "arg_lock _ = None"

text \<open>What one argument, or a list of them, does to the locks.\<close>

definition locks_step :: "kernelArgBuilder \<Rightarrow> lock set \<Rightarrow> go_error option \<times> kernelArgBuilder \<Rightarrow> bool" where
  "locks_step b need res = (case res of (r, b') \<Rightarrow>
     wf_locks b' \<and> snapshot b' = snapshot b \<and>
     (\<exists>new extra. heldLocks b' = heldLocks b @ new \<and> trail b' = trail b @ map RLock new @ extra \<and>
       (case r of
         None \<Rightarrow> extra = [] \<and> need \<subseteq> set (heldLocks b')
       | Some e \<Rightarrow> extra = [] \<or> (\<exists>m. is_obj_lock m \<and> m \<notin> set (heldLocks b') \<and> extra = [RLock m, RUnlock m]))))"

lemma locks_step_nochange:
  "wf_locks b \<Longrightarrow> locks_step b {} (None, b\<lparr>packed := p\<rparr>)" "wf_locks b \<Longrightarrow> locks_step b need (Some e, b)"
  by (auto simp: locks_step_def)

lemma appendLocked_step:
  assumes "wf_locks b" and "\<not> snapshot b" and "is_obj_lock m"
    and put: "\<And>b. \<exists>p. put b = b\<lparr>packed := p\<rparr>"
  shows "locks_step b {m} (appendLocked m x closedErr put b)"
proof -
  have put_simps: "wf_locks (put b') = wf_locks b'" "heldLocks (put b') = heldLocks b'" "trail (put b') = trail b'"
    "snapshot (put b') = snapshot b'" for b'
    using put[of b'] by auto
  have snap: "snapshot (addLock m b') = snapshot b'" for b' by (simp add: addLock_def)
  show ?thesis
  proof (cases "holdsLock m b")
    case True
    then show ?thesis using assms
      by (auto simp: appendLocked_def locks_step_def Let_def put_simps holdsLock_iff)
  next
    case False
    then have new: "m \<notin> set (heldLocks b)" using assms(1) by (simp add: holdsLock_iff)
    have "wf_locks (addLock m b')" "heldLocks (addLock m b') = heldLocks b' @ [m]" if "b' = rlock m b" for b'
      using assms(1,3) new that
      by (auto intro!: wf_locks_addLock simp: addLock_held rlock_def)
    then show ?thesis using False new assms
      by (auto simp: appendLocked_def locks_step_def Let_def put_simps snap)
        (auto simp: rlock_def runlock_def)
  qed
qed

lemma appendKernelArg_step:
  "wf_locks b \<Longrightarrow> \<not> snapshot b \<Longrightarrow> locks_step b (set_option (arg_lock a)) (appendKernelArg a s b)"
  by (cases a) (auto simp: buffer_appendKernelArg_def value_appendKernelArg_def devicePtr_appendKernelArg_def
      raw_appendKernelArg_def texture_appendKernelArg_def surface_appendKernelArg_def addDevicePtr_def
      split: option.splits intro!: locks_step_nochange appendLocked_step)

lemma appendArgs_step:
  "wf_locks b \<Longrightarrow> \<not> snapshot b \<Longrightarrow>
   locks_step b (\<Union>a \<in> set as. \<Union>x \<in> set_option a. set_option (arg_lock x)) (appendArgs as s b)"
proof (induction as s b rule: appendArgs.induct)
  case (1 s b)
  then show ?case by (auto simp: locks_step_def)
next
  case (2 as s b)
  then show ?case by (simp add: locks_step_nochange)
next
  case (3 a as s b)
  obtain r b1 where r: "appendKernelArg a s b = (r, b1)" by (cases "appendKernelArg a s b")
  have one: "locks_step b (set_option (arg_lock a)) (r, b1)"
    using appendKernelArg_step[OF 3(2,3), of a s] r by simp
  show ?case
  proof (cases r)
    case (Some e)
    then show ?thesis using one r by (auto simp: locks_step_def)
  next
    case None
    then have "wf_locks b1" "\<not> snapshot b1" using one 3(3) by (auto simp: locks_step_def)
    from 3(1)[OF r[symmetric] None this] one None r show ?thesis
      by (fastforce simp: locks_step_def split: option.splits prod.splits)
  qed
qed

subsection \<open>Sequences of lock operations\<close>

text \<open>At every moment each lock is held at most once, and at the end none is.\<close>

definition disciplined :: "lev list \<Rightarrow> bool" where
  "disciplined l = ((\<forall>k m. 0 \<le> holds (take k l) m \<and> holds (take k l) m \<le> 1) \<and> (\<forall>m. holds l m = 0))"

lemma holds_simps [simp]:
  "holds [] m = 0" "holds (RLock x # l) m = (if x = m then 1 else 0) + holds l m"
  "holds (RUnlock x # l) m = (if x = m then -1 else 0) + holds l m" "holds (DriverCall # l) m = holds l m"
  "holds (l @ l') m = holds l m + holds l' m"
  by (simp_all add: holds_def)

definition locks_in :: "lev list \<Rightarrow> lock set" where
  "locks_in l = {m. RLock m \<in> set l \<or> RUnlock m \<in> set l}"

lemma locks_in_simps [simp]:
  "locks_in [] = {}" "locks_in (RLock m # l) = insert m (locks_in l)"
  "locks_in (RUnlock m # l) = insert m (locks_in l)"
  "locks_in (DriverCall # l) = locks_in l" "locks_in (l @ l') = locks_in l \<union> locks_in l'"
  "locks_in (rev l) = locks_in l" "locks_in (map RLock hs) = set hs" "locks_in (map RUnlock hs) = set hs"
  by (auto simp: locks_in_def)

lemma holds_outside: "m \<notin> locks_in l \<Longrightarrow> holds l m = 0"
  by (simp add: holds_def locks_in_def count_list_0_iff)

lemma locks_in_take: "locks_in (take k l) \<subseteq> locks_in l"
  by (auto simp: locks_in_def dest: in_set_takeD)

lemma disciplined_basic:
  "disciplined []" "disciplined [DriverCall]" "disciplined [RLock m, RUnlock m]"
  by (auto simp: disciplined_def take_Cons split: nat.splits)

lemma disciplined_bracket:
  assumes "disciplined l" and "x \<notin> locks_in l"
  shows "disciplined (RLock x # l @ [RUnlock x])"
proof -
  have x0: "holds (take k l) x = 0" for k
    using assms(2) locks_in_take[of k l] by (intro holds_outside) auto
  have "0 \<le> holds (take k (RLock x # l @ [RUnlock x])) m \<and> holds (take k (RLock x # l @ [RUnlock x])) m \<le> 1" for k m
  proof (cases k)
    case (Suc k')
    have b: "0 \<le> holds (take k' l) m" "holds (take k' l) m \<le> 1" using assms(1) by (auto simp: disciplined_def)
    then show ?thesis
      using Suc x0[of k'] by (cases "k' - length l") (auto simp: take_Cons')
  qed simp
  moreover have "holds l m = 0" for m using assms(1) by (simp add: disciplined_def)
  ultimately show ?thesis by (simp add: disciplined_def)
qed

lemma disciplined_brackets:
  assumes "disciplined l" and "distinct hs" and "set hs \<inter> locks_in l = {}"
  shows "disciplined (map RLock hs @ l @ map RUnlock (rev hs))"
  using assms(2,3)
proof (induction hs)
  case Nil
  then show ?case using assms(1) by simp
next
  case (Cons h hs)
  then have "disciplined (RLock h # (map RLock hs @ l @ map RUnlock (rev hs)) @ [RUnlock h])"
    by (intro disciplined_bracket) auto
  then show ?case by simp
qed

lemma holds_RLocks: "distinct hs \<Longrightarrow> m \<in> set hs \<Longrightarrow> holds (map RLock hs) m = 1"
  by (induction hs) (auto intro: holds_outside)

text \<open>The driver is not called, or once, with all of the locks in \<open>need\<close> held.\<close>

definition called_under :: "lock set \<Rightarrow> lev list \<Rightarrow> bool" where
  "called_under need l = (DriverCall \<notin> set l \<or>
     (\<exists>pre post. l = pre @ DriverCall # post \<and> DriverCall \<notin> set pre \<and> DriverCall \<notin> set post \<and>
        (\<forall>m \<in> need. holds pre m = 1)))"

subsection \<open>Launches\<close>

definition args_locks :: "KernelArg option list \<Rightarrow> lock set" where
  "args_locks as = (\<Union>a \<in> set as. \<Union>x \<in> set_option a. set_option (arg_lock x))"

definition launch_trace :: "lock set \<Rightarrow> 'w rt \<Rightarrow> (go_error + unit) \<times> lev list \<times> 'w rt \<Rightarrow> bool" where
  "launch_trace need s res = (case res of (r, l, s') \<Rightarrow> disciplined l \<and> called_under need l \<and>
     (DriverCall \<notin> set l \<longrightarrow> s' = s \<and> (\<exists>e. r = Inl e)))"

lemma launch_trace_none:
  "launch_trace need s (Inl e, [], s)" "launch_trace need s (Inl e, [RLock m, RUnlock m], s)"
  by (auto simp: launch_trace_def called_under_def disciplined_basic)

lemma is_obj_heldLocks: "wf_locks b \<Longrightarrow> m \<in> set (heldLocks b) \<Longrightarrow> is_obj_lock m"
  by (auto simp: wf_locks_def list_all_iff)

lemma distinct_with_module: "wf_locks b \<Longrightarrow> distinct (LModule i # heldLocks b)"
  using is_obj_heldLocks[of b "LModule i"] by (auto simp: wf_locks_def)

lemma launch_module_trace:
  assumes "wf_locks b" and "trail b = map RLock (heldLocks b) @ extra" and "args_locks as \<subseteq> set (heldLocks b)"
  shows "extra = [] \<Longrightarrow> launch_trace (insert (LModule i) (args_locks as)) s
      (r, [RLock (LModule i)] @ trail b @ [DriverCall] @ release b @ [RUnlock (LModule i)], s1)"
proof -
  assume e: "extra = []"
  let ?hs = "LModule i # heldLocks b"
  have d: "distinct ?hs" by (rule distinct_with_module[OF assms(1)])
  have tr: "[RLock (LModule i)] @ trail b @ [DriverCall] @ release b @ [RUnlock (LModule i)] =
      map RLock ?hs @ [DriverCall] @ map RUnlock (rev ?hs)"
    using assms e by (simp add: release_held)
  have "called_under (insert (LModule i) (args_locks as)) (map RLock ?hs @ [DriverCall] @ map RUnlock (rev ?hs))"
    unfolding called_under_def
  proof (intro disjI2 exI conjI ballI)
    show "map RLock ?hs @ [DriverCall] @ map RUnlock (rev ?hs) = map RLock ?hs @ DriverCall # map RUnlock (rev ?hs)" by simp
    show "holds (map RLock ?hs) m = 1" if "m \<in> insert (LModule i) (args_locks as)" for m
      using that assms(3) by (intro holds_RLocks[OF d]) auto
  qed auto
  moreover have "disciplined (map RLock ?hs @ [DriverCall] @ map RUnlock (rev ?hs))"
    using d by (intro disciplined_brackets disciplined_basic) auto
  ultimately show ?thesis unfolding tr by (simp add: launch_trace_def)
qed

lemma launch_failed_trace:
  assumes "wf_locks b" and "trail b = map RLock (heldLocks b) @ extra"
    and "extra = [] \<or> (\<exists>m. is_obj_lock m \<and> m \<notin> set (heldLocks b) \<and> extra = [RLock m, RUnlock m])"
  shows "launch_trace need s (Inl e, [RLock (LModule i)] @ trail b @ release b @ [RUnlock (LModule i)], s)"
proof -
  let ?hs = "LModule i # heldLocks b"
  have d: "distinct ?hs" by (rule distinct_with_module[OF assms(1)])
  have x: "disciplined extra" "set ?hs \<inter> locks_in extra = {}" "DriverCall \<notin> set extra"
    using assms(3) by (auto simp: disciplined_basic dest: is_obj_heldLocks[OF assms(1)])
  have "[RLock (LModule i)] @ trail b @ release b @ [RUnlock (LModule i)] =
      map RLock ?hs @ extra @ map RUnlock (rev ?hs)"
    using assms by (simp add: release_held)
  moreover have "DriverCall \<notin> set (map RLock ?hs @ extra @ map RUnlock (rev ?hs))" using x(3) by auto
  ultimately show ?thesis using disciplined_brackets[OF x(1) d x(2)]
    by (simp only: launch_trace_def called_under_def) simp
qed

lemma appendArgs_new:
  assumes "appendArgs as s (newKernelArgBuilder cp False) = (r, b)"
  obtains extra where "wf_locks b" "trail b = map RLock (heldLocks b) @ extra"
    "extra = [] \<or> (\<exists>m. is_obj_lock m \<and> m \<notin> set (heldLocks b) \<and> extra = [RLock m, RUnlock m])"
    "r = None \<longrightarrow> extra = [] \<and> args_locks as \<subseteq> set (heldLocks b)"
proof -
  have "locks_step (newKernelArgBuilder cp False) (args_locks as) (r, b)"
    unfolding args_locks_def assms[symmetric]
    by (rule appendArgs_step) (simp_all add: wf_locks_new)
  then obtain new extra where w: "wf_locks b" "heldLocks b = new" "trail b = map RLock new @ extra"
    and x: "case r of None \<Rightarrow> extra = [] \<and> args_locks as \<subseteq> set (heldLocks b)
      | Some e \<Rightarrow> extra = [] \<or> (\<exists>m. is_obj_lock m \<and> m \<notin> set (heldLocks b) \<and> extra = [RLock m, RUnlock m])"
    by (auto simp: locks_step_def wf_locks_new)
  show thesis by (rule that[of extra]) (use w x in \<open>auto split: option.splits\<close>)
qed

lemma launch_locks:
  assumes "fmodule f = Some i"
  shows "launch_trace (insert (LModule i) (args_locks as)) s (launch (Some f) ctx rs sc cfg coop as s)"
proof -
  let ?b = "newKernelArgBuilder (Some (octx (modules s i))) False"
  obtain r b where a: "appendArgs as s ?b = (r, b)" by (cases "appendArgs as s ?b")
  then obtain extra where b: "wf_locks b" "trail b = map RLock (heldLocks b) @ extra"
    and err: "extra = [] \<or> (\<exists>m. is_obj_lock m \<and> m \<notin> set (heldLocks b) \<and> extra = [RLock m, RUnlock m])"
    and ok: "r = None \<longrightarrow> extra = [] \<and> args_locks as \<subseteq> set (heldLocks b)"
    by (rule appendArgs_new)
  show ?thesis
  proof (cases r)
    case None
    then show ?thesis using launch_module_trace[OF b] ok assms a
      by (auto simp: launch_def Let_def launch_trace_none split: prod.splits)
  next
    case (Some e)
    then show ?thesis using launch_failed_trace[OF b err] assms a
      by (auto simp: launch_def Let_def launch_trace_none split: prod.splits)
  qed
qed

lemma launch_no_stream_lock: "LStream j \<notin> locks_in (fst (snd (launch (Some f) ctx rs sc cfg coop as s)))"
proof (cases "fmodule f")
  case (Some i)
  let ?b = "newKernelArgBuilder (Some (octx (modules s i))) False"
  obtain r b where a: "appendArgs as s ?b = (r, b)" by (cases "appendArgs as s ?b")
  then obtain extra where b: "wf_locks b" "trail b = map RLock (heldLocks b) @ extra"
    and err: "extra = [] \<or> (\<exists>m. is_obj_lock m \<and> m \<notin> set (heldLocks b) \<and> extra = [RLock m, RUnlock m])"
    by (rule appendArgs_new)
  have "LStream j \<notin> locks_in (trail b)" "LStream j \<notin> locks_in (release b)"
    using b err by (auto simp: release_held simp flip: rev_map dest: is_obj_heldLocks)
  then show ?thesis using Some a
    by (auto simp: launch_def Let_def split: prod.splits option.splits)
qed (simp add: launch_def)

lemma stream_locks:
  assumes tr: "\<And>rs c. launch_trace need s (k rs c s)" and no: "\<And>rs c. LStream j \<notin> locks_in (fst (snd (k rs c s)))"
  shows "launch_trace (insert (LStream j) need) s (on_stream (Some f) (Some j) k s)"
proof (cases "oclosed (streams s j)")
  case True
  then show ?thesis by (simp add: on_stream_def launch_trace_none)
next
  case False
  obtain r l s1 where k: "k (sraw (streams s j)) (Some (octx (streams s j))) s = (r, l, s1)" by (metis prod_cases3)
  have t: "launch_trace need s (r, l, s1)" and j: "LStream j \<notin> locks_in l"
    using tr no k by (metis, metis fst_conv snd_conv)
  have d: "disciplined (RLock (LStream j) # l @ [RUnlock (LStream j)])"
    using t j by (intro disciplined_bracket) (auto simp: launch_trace_def)
  have "called_under (insert (LStream j) need) (RLock (LStream j) # l @ [RUnlock (LStream j)])"
  proof (cases "DriverCall \<in> set l")
    case True
    with t obtain pre post where l: "l = pre @ DriverCall # post" "DriverCall \<notin> set pre" "DriverCall \<notin> set post"
      and need: "\<forall>m \<in> need. holds pre m = 1"
      by (auto simp: launch_trace_def called_under_def)
    have p0: "holds pre (LStream j) = 0" using j l(1) by (intro holds_outside) simp
    then have "LStream j \<notin> need" using need by auto
    then show ?thesis unfolding called_under_def using l need p0
      by (intro disjI2 exI[of _ "RLock (LStream j) # pre"] exI[of _ "post @ [RUnlock (LStream j)]"]) auto
  qed (auto simp: called_under_def)
  with d t False k show ?thesis by (auto simp: on_stream_def launch_trace_def)
qed

text \<open>
  C7. Launches take and release their read locks properly: at every moment a launch holds each lock at most once (also when
  an object appears several times among the arguments, or more than sixteen locks are needed), when it returns, with or without an error,
  it holds none, and the driver is called at most once, while the locks of the module, of every buffer, texture and
  surface argument and, for a launch on a stream, of the stream are held. A launch that does not call the driver
  returns an error and changes nothing.
\<close>

theorem launch_lock_discipline:
  assumes "fmodule f = Some i"
  shows "launch_trace (insert (LModule i) (args_locks as)) s (Launch (Some f) ctx cfg as s) \<and>
    launch_trace (insert (LModule i) (args_locks as)) s (LaunchCooperative (Some f) ctx cfg as s) \<and>
    launch_trace (insert (LStream j) (insert (LModule i) (args_locks as))) s (LaunchOn (Some f) ctx (Some j) cfg as s) \<and>
    launch_trace (insert (LStream j) (insert (LModule i) (args_locks as))) s
      (LaunchCooperativeOn (Some f) ctx (Some j) cfg as s)"
  unfolding Launch_def LaunchCooperative_def LaunchOn_def LaunchCooperativeOn_def
  by (intro conjI launch_locks[OF assms] stream_locks launch_no_stream_lock)

definition one_module :: "unit tw rt" where
  "one_module = snd (LoadModule (Some 0) [0x2e] one_buffer)"

definition one_kernel :: Function where
  "one_kernel = \<lparr>fmodule = Some 1, fraw = 7, fname = [102]\<rparr>"

lemma launch_lock_discipline_witness:
  "fst (Module_Function (Some 1) [102] one_module) = Inr one_kernel \<and>
   fst (snd (Launch (Some one_kernel) bg (LaunchConfig1D 3 2) [Some (Arg (Some 0)), Some (Arg (Some 0))] one_module)) =
     [RLock (LModule 1), RLock (LBuffer 0), DriverCall, RUnlock (LBuffer 0), RUnlock (LModule 1)] \<and>
   launch_trace {LModule 1, LBuffer 0} one_module
     (Launch (Some one_kernel) bg (LaunchConfig1D 3 2) [Some (Arg (Some 0)), Some (Arg (Some 0))] one_module)"
proof -
  have m: "fmodule one_kernel = Some 1" by (simp add: one_kernel_def)
  have a: "args_locks [Some (Arg (Some 0)), Some (Arg (Some 0))] = {LBuffer 0}" by (simp add: args_locks_def)
  have "fst (Module_Function (Some 1) [102] one_module) = Inr one_kernel" by code_simp
  moreover have "fst (snd (Launch (Some one_kernel) bg (LaunchConfig1D 3 2) [Some (Arg (Some 0)), Some (Arg (Some 0))] one_module)) =
     [RLock (LModule 1), RLock (LBuffer 0), DriverCall, RUnlock (LBuffer 0), RUnlock (LModule 1)]" by code_simp
  ultimately show ?thesis using launch_lock_discipline[OF m] a by metis
qed

end
