(* ===== verification/LaunchProps.thy ===== *)
theory LaunchProps
  imports LaunchLocks
begin

section \<open>Launches: arguments, configurations and prepacked launches\<close>

subsection \<open>What an argument stands for\<close>

text \<open>The bytes and the type recorded for an argument, and the error it is refused with in context \<open>cp\<close> (no context: any will do).\<close>

fun arg_item :: "'w rt \<Rightarrow> KernelArg \<Rightarrow> bytes \<times> gotype option" where
  "arg_item s (Arg p) = (le_bytes 8 (bptr (buffers s (the p))), Some devicePtrType)"
| "arg_item s (ArgValue t v) = (v, Some t)"
| "arg_item s (ArgDevicePtr ptr) = (le_bytes 8 ptr, Some devicePtrType)"
| "arg_item s (ArgRaw val siz) = (take (unat siz) (the val), None)"
| "arg_item s (ArgTexture p) = (le_bytes 8 (thandle (textures s (the p))), Some texObjectType)"
| "arg_item s (ArgSurface p) = (le_bytes 8 (suhandle (surfaces s (the p))), Some surfObjectType)"

definition resource_error :: "nat option \<Rightarrow> 'o resource_scheme \<Rightarrow> go_error \<Rightarrow> go_error option" where
  "resource_error cp x closedErr = (if oclosed x then Some closedErr
     else if cp \<noteq> None \<and> Some (octx x) \<noteq> cp then Some ErrContextMismatch else None)"

fun arg_error :: "'w rt \<Rightarrow> nat option \<Rightarrow> KernelArg option \<Rightarrow> go_error option" where
  "arg_error s cp None = Some ErrNilKernelArg"
| "arg_error s cp (Some (Arg None)) = Some ErrNilBuffer"
| "arg_error s cp (Some (Arg (Some i))) = resource_error cp (buffers s i) ErrBufferClosed"
| "arg_error s cp (Some (ArgRaw val siz)) = (if val = None then Some ErrNilKernelArg
     else if sint siz \<le> 0 \<or> 4096 < sint siz then Some ErrInvalidArgSize else None)"
| "arg_error s cp (Some (ArgTexture None)) = Some ErrNilTexture"
| "arg_error s cp (Some (ArgTexture (Some i))) = resource_error cp (textures s i) ErrTextureClosed"
| "arg_error s cp (Some (ArgSurface None)) = Some ErrNilSurface"
| "arg_error s cp (Some (ArgSurface (Some i))) = resource_error cp (surfaces s i) ErrSurfaceClosed"
| "arg_error s cp (Some _) = None"

text \<open>The first error of a list of arguments.\<close>

fun first_error :: "'w rt \<Rightarrow> nat option \<Rightarrow> KernelArg option list \<Rightarrow> go_error option" where
  "first_error s cp [] = None"
| "first_error s cp (a # as) = (case arg_error s cp a of Some e \<Rightarrow> Some e | None \<Rightarrow> first_error s cp as)"

lemma builder_frame [simp]:
  "kbctx (rlock m b) = kbctx b" "kbctx (runlock m b) = kbctx b" "kbctx (addLock m b) = kbctx b"
  "packed (rlock m b) = packed b" "packed (runlock m b) = packed b" "packed (addLock m b) = packed b"
  by (simp_all add: rlock_def runlock_def addLock_def)

text \<open>One argument: its error, or its bytes added to the builder.\<close>

definition arg_step :: "kernelArgBuilder \<Rightarrow> go_error option \<Rightarrow> (bytes \<times> gotype option) list \<Rightarrow>
    go_error option \<times> kernelArgBuilder \<Rightarrow> bool" where
  "arg_step b err items res = (case res of (r, b') \<Rightarrow> r = err \<and> kbctx b' = kbctx b \<and>
     (r = None \<longrightarrow> packed b' = foldl addItem (packed b) items))"

lemma appendLocked_item:
  assumes "\<And>b. put b = b\<lparr>packed := addItem (packed b) i\<rparr>"
  shows "arg_step b (resource_error (kbctx b) x closedErr) [i] (appendLocked m x closedErr put b)"
  by (auto simp: arg_step_def appendLocked_def resource_error_def Let_def assms)

lemma appendKernelArg_item: "arg_step b (arg_error s (kbctx b) (Some a)) [arg_item s a] (appendKernelArg a s b)"
proof (cases a)
  case (Arg p)
  then show ?thesis
    by (cases p) (auto simp: buffer_appendKernelArg_def arg_step_def[of _ "Some _"] addItem_def Add_def addDevicePtr_def
        intro!: appendLocked_item)
next
  case (ArgTexture p)
  then show ?thesis
    by (cases p) (auto simp: texture_appendKernelArg_def arg_step_def[of _ "Some _"] addItem_def Add_def
        intro!: appendLocked_item)
next
  case (ArgSurface p)
  then show ?thesis
    by (cases p) (auto simp: surface_appendKernelArg_def arg_step_def[of _ "Some _"] addItem_def Add_def
        intro!: appendLocked_item)
qed (auto simp: arg_step_def value_appendKernelArg_def devicePtr_appendKernelArg_def raw_appendKernelArg_def
    addDevicePtr_def addItem_def Add_def AddBytes_def maxRawArgBytes_def split: option.splits)

lemma appendArgs_items:
  "arg_step b (first_error s (kbctx b) as) (map (arg_item s \<circ> the) as) (appendArgs as s b)"
proof (induction as s b rule: appendArgs.induct)
  case (3 a as s b)
  obtain r b1 where r: "appendKernelArg a s b = (r, b1)" by (cases "appendKernelArg a s b")
  have one: "arg_step b (arg_error s (kbctx b) (Some a)) [arg_item s a] (r, b1)"
    using appendKernelArg_item[of b s a] r by simp
  show ?case
  proof (cases r)
    case None
    from 3[OF r[symmetric] None] one None r show ?thesis by (auto simp: arg_step_def)
  next
    case (Some e)
    then have "arg_error s (kbctx b) (Some a) = Some e" using one by (simp add: arg_step_def)
    with one r Some show ?thesis by (simp add: arg_step_def)
  qed
qed (auto simp: arg_step_def)

subsection \<open>The parameters handed to the driver\<close>

lemma params_bytes_args:
  assumes "wf_builder b"
  shows "params_bytes b = map fst (args b)"
proof (cases "fst (Params b)")
  case None
  then have "count b = 0" by (auto simp: Params_def Let_def split: if_splits)
  with None show ?thesis by (auto simp: params_bytes_def args_def split: prod.splits)
next
  case (Some ps)
  obtain b1 where p: "Params b = (Some ps, b1)" using Some by (cases "Params b") auto
  have b1: "wf_builder b1" "args b1 = args b" using Params_wf[OF assms] p by auto
  have c: "count b1 = length (args b)" using b1(2) by (simp add: count_args)
  have "the (deref b1 (the (ps ! i)) (size_of (meta b1 i))) = fst (args b ! i)" if "i < length (args b)" for i
  proof -
    have i: "i < count b" "i < count b1" using that c by (simp_all add: count_args)
    have "length (fst (args b ! i)) = size_of (meta b1 i)" using size_of_args[OF i(2) b1(1)] b1(2) by simp
    then show ?thesis using Params_reads_args[OF assms Some i(1)] p by force
  qed
  then show ?thesis unfolding params_bytes_def p
    by (auto simp: c intro!: nth_equalityI)
qed

text \<open>What the argument builder can hold: each argument below 64 KiB, all of them below 2 GiB with their padding.\<close>

definition args_fit :: "'w rt \<Rightarrow> KernelArg option list \<Rightarrow> bool" where
  "args_fit s as = (list_all (\<lambda>a. length (fst (arg_item s (the a))) < 2 ^ 16) as \<and>
     sum_list (map (\<lambda>a. length (fst (arg_item s (the a))) + 7) as) < 2 ^ 31)"

definition args_values :: "'w rt \<Rightarrow> KernelArg option list \<Rightarrow> u8 list list" where
  "args_values s as = map (\<lambda>a. fst (arg_item s (the a))) as"

lemma foldl_items:
  assumes "args_fit s as" and "b = foldl addItem newBuilder (map (arg_item s \<circ> the) as)"
  shows "wf_builder b" "args b = map (arg_item s \<circ> the) as" "params_bytes b = args_values s as"
proof -
  have s0: "spillLen newBuilder = 0" by (simp add: newBuilder_def)
  show "wf_builder b" "args b = map (arg_item s \<circ> the) as"
    using assms ap.push_all[OF wf_newBuilder, of "map (arg_item s \<circ> the) as"]
    by (auto simp: args_fit_def list_all_iff args_newBuilder s0 comp_def)
  then show "params_bytes b = args_values s as"
    by (simp add: params_bytes_args args_values_def)
qed

subsection \<open>Launching\<close>

text \<open>The reference: the checks of a launch in their order, and the driver call it makes.\<close>

definition launch_error :: "Function \<Rightarrow> nat option \<Rightarrow> LaunchConfig \<Rightarrow> KernelArg option list \<Rightarrow> 'w rt \<Rightarrow> go_error option" where
  "launch_error f streamCtx cfg as s = (if \<not> valid cfg then Some ErrInvalidLaunchConfig
     else case fmodule f of None \<Rightarrow> Some ErrNilModule
     | Some i \<Rightarrow> if streamCtx \<noteq> None \<and> streamCtx \<noteq> Some (octx (modules s i)) then Some ErrContextMismatch
         else if oclosed (modules s i) then Some ErrModuleClosed
         else first_error s (Some (octx (modules s i))) as)"

definition kernel_call :: "'w Driver option \<Rightarrow> Function \<Rightarrow> LaunchConfig \<Rightarrow> u64 \<Rightarrow> bool \<Rightarrow> u8 list list \<Rightarrow> ('w, unit) drv" where
  "kernel_call d f cfg rawStream coop params = (if coop then LaunchCooperativeKernel else LaunchKernel) d (fraw f)
     (GridX cfg) (GridY cfg) (GridZ cfg) (BlockX cfg) (BlockY cfg) (BlockZ cfg) (SharedMemBytes cfg) rawStream params"

definition kernel_dispatch :: "nat \<Rightarrow> goctx option \<Rightarrow> Function \<Rightarrow> LaunchConfig \<Rightarrow> u64 \<Rightarrow> bool \<Rightarrow> u8 list list \<Rightarrow> ('w, unit) rop" where
  "kernel_dispatch c ctx f cfg rawStream coop params s =
     lift_op (doJob (Some c) ctx (kernel_call (drv_of c s) f cfg rawStream coop params)) s"

lemma launchKernel_call:
  "lift_op (launchKernel c ctx (fraw f) cfg rs params coop) s = kernel_dispatch c ctx f cfg rs coop params s"
  by (simp add: lift_op_def launchKernel_def launchOp_Run_def kernel_dispatch_def kernel_call_def drv_of_def Let_def)

lemma launch_dispatch:
  assumes "args_fit s as"
  shows "case launch_error f streamCtx cfg as s of
     Some e \<Rightarrow> \<exists>l. launch (Some f) ctx rawStream streamCtx cfg coop as s = (Inl e, l, s)
   | None \<Rightarrow> \<exists>i l r s'. fmodule f = Some i \<and>
       kernel_dispatch (octx (modules s i)) ctx f cfg rawStream coop (args_values s as) s = (r, s') \<and>
       launch (Some f) ctx rawStream streamCtx cfg coop as s = (r, l, s')"
proof (cases "fmodule f")
  case None
  then show ?thesis by (auto simp: launch_error_def launch_def)
next
  case (Some i)
  let ?c = "Some (octx (modules s i))"
  obtain r b where a: "appendArgs as s (newKernelArgBuilder ?c False) = (r, b)"
    by (cases "appendArgs as s (newKernelArgBuilder ?c False)")
  have step: "r = first_error s ?c as"
    "r = None \<longrightarrow> packed b = foldl addItem newBuilder (map (arg_item s \<circ> the) as)"
    using appendArgs_items[of "newKernelArgBuilder ?c False" s as] a by (auto simp: arg_step_def)
  show ?thesis
  proof (cases r)
    case None
    then have "params_bytes (packed b) = args_values s as" using step(2) foldl_items(3)[OF assms] by simp
    then show ?thesis using None Some a step
      by (auto simp: launch_error_def launch_def Let_def launchKernel_call split: prod.splits)
  next
    case (Some e)
    then have "first_error s ?c as = Some e" using step(1) by simp
    then show ?thesis using Some \<open>fmodule f = Some i\<close> a
      by (auto simp: launch_error_def launch_def Let_def)
  qed
qed

text \<open>
  C8. A launch hands the driver exactly its arguments: a launch is refused, with no driver call and nothing changed, with the first
  error of its checks (configuration, module, stream context, then the arguments from left to right: nil, closed,
  of another context, of a bad size); otherwise it is the dispatch of one kernel launch whose parameter array reads, one
  parameter per argument in their order, the device pointer of a buffer, the bytes of a value, the handle of a texture
  or surface, with the grid, block and shared memory of the configuration.
\<close>

theorem launch_passes_arguments:
  assumes "args_fit s as"
  shows "case launch_error f streamCtx cfg as s of
     Some e \<Rightarrow> \<exists>l. launch (Some f) ctx rawStream streamCtx cfg coop as s = (Inl e, l, s)
   | None \<Rightarrow> \<exists>i l r s'. fmodule f = Some i \<and>
       kernel_dispatch (octx (modules s i)) ctx f cfg rawStream coop (args_values s as) s = (r, s') \<and>
       launch (Some f) ctx rawStream streamCtx cfg coop as s = (r, l, s')"
  by (rule launch_dispatch[OF assms])

lemma launch_passes_arguments_witness:
  "launch_error one_kernel None (LaunchConfig1D 3 2) [Some (Arg (Some 0)), Some (ArgValue (GoType ''int32'' 4) [5, 0, 0, 0])] one_module = None \<and>
   args_values one_module [Some (Arg (Some 0)), Some (ArgValue (GoType ''int32'' 4) [5, 0, 0, 0])] =
     [[7, 0, 0, 0, 0, 0, 0, 0], [5, 0, 0, 0]] \<and>
   (\<exists>l r s'. kernel_dispatch 0 bg one_kernel (LaunchConfig1D 3 2) 0 False [[7, 0, 0, 0, 0, 0, 0, 0], [5, 0, 0, 0]] one_module = (r, s') \<and>
     launch (Some one_kernel) bg 0 None (LaunchConfig1D 3 2) False
       [Some (Arg (Some 0)), Some (ArgValue (GoType ''int32'' 4) [5, 0, 0, 0])] one_module = (r, l, s'))"
proof -
  let ?as = "[Some (Arg (Some 0)), Some (ArgValue (GoType ''int32'' 4) [5, 0, 0, 0])]"
  have v: "args_values one_module ?as = [[7, 0, 0, 0, 0, 0, 0, 0], [5, 0, 0, 0]]" by code_simp
  then have f: "args_fit one_module ?as" by (simp add: args_values_def args_fit_def)
  have e: "launch_error one_kernel None (LaunchConfig1D 3 2) ?as one_module = None" by code_simp
  have m: "fmodule one_kernel = Some 1" "octx (modules one_module 1) = 0" by (simp add: one_kernel_def) code_simp
  show ?thesis using launch_passes_arguments[OF f, where f = one_kernel and streamCtx = None and
      cfg = "LaunchConfig1D 3 2" and ctx = bg and rawStream = 0 and coop = False] e v m by auto
qed

subsection \<open>Prepacked arguments\<close>

lemma disciplined_append: "disciplined l \<Longrightarrow> disciplined l' \<Longrightarrow> disciplined (l @ l')"
proof -
  assume d: "disciplined l" "disciplined l'"
  have "0 \<le> holds (take k (l @ l')) m \<and> holds (take k (l @ l')) m \<le> 1" for k m
    using d by (cases "k \<le> length l") (auto simp: disciplined_def)
  then show ?thesis using d by (simp add: disciplined_def)
qed

text \<open>A builder that snapshots keeps no lock.\<close>

definition snapped :: "kernelArgBuilder \<Rightarrow> bool" where
  "snapped b = (snapshot b \<and> lockCount b = 0 \<and> overflowLocks b = [] \<and> disciplined (trail b))"

lemma snapped_no_lock: "snapped b \<Longrightarrow> \<not> holdsLock m b"
  by (simp add: snapped_def holdsLock_def)

lemma appendLocked_snapped:
  assumes "snapped b" and "\<And>b. \<exists>p. put b = b\<lparr>packed := p\<rparr>"
  shows "snapped (snd (appendLocked m x closedErr put b))"
proof -
  have "snapped (runlock m (rlock m b))"
    using assms(1) disciplined_append[OF _ disciplined_basic(3), of "trail b" m]
    by (simp add: snapped_def rlock_def runlock_def)
  moreover obtain p where "put (runlock m (rlock m b)) = (runlock m (rlock m b))\<lparr>packed := p\<rparr>" using assms(2) by blast
  ultimately show ?thesis using assms(1) snapped_no_lock[OF assms(1), of m]
    by (auto simp: appendLocked_def Let_def) (auto simp: snapped_def)
qed

lemma appendArgs_snapped: "snapped b \<Longrightarrow> snapped (snd (appendArgs as s b))"
proof (induction as s b rule: appendArgs.induct)
  case (3 a as s b)
  have "snapped (snd (appendKernelArg a s b))"
    using 3(2) by (cases a) (auto simp: buffer_appendKernelArg_def value_appendKernelArg_def devicePtr_appendKernelArg_def
      raw_appendKernelArg_def texture_appendKernelArg_def surface_appendKernelArg_def addDevicePtr_def snapped_def[of "_\<lparr>packed := _\<rparr>"]
      snapped_def[of b] split: option.splits intro!: appendLocked_snapped)
  then show ?case using 3(1) by (auto split: option.splits prod.splits)
qed auto

lemma Pack_result:
  assumes "args_fit s as" and "Pack as s = (r, l)"
  shows "disciplined l \<and> (case r of Inl e \<Rightarrow> first_error s None as = Some e
    | Inr q \<Rightarrow> first_error s None as = None \<and> params_bytes (papacked q) = args_values s as)"
proof -
  obtain e b where a: "appendArgs as s (newKernelArgBuilder None True) = (e, b)"
    by (cases "appendArgs as s (newKernelArgBuilder None True)")
  have step: "e = first_error s None as" "e = None \<longrightarrow> packed b = foldl addItem newBuilder (map (arg_item s \<circ> the) as)"
    using appendArgs_items[of "newKernelArgBuilder None True" s as] a by (auto simp: arg_step_def)
  have "snapped (newKernelArgBuilder None True)"
    by (simp add: snapped_def disciplined_basic) (simp add: newKernelArgBuilder_def)
  then have l: "disciplined (trail b)" using appendArgs_snapped[of _ as s] a by (force simp: snapped_def)
  have "params_bytes (snd (Params (packed b))) = args_values s as" if "e = None"
    using foldl_items(1,2)[OF assms(1), of "packed b"] step(2) that Params_wf[of "packed b"]
    by (simp add: params_bytes_args args_values_def)
  then show ?thesis using assms(2) a l step(1) by (auto simp: Pack_def split: option.splits)
qed



subsection \<open>Configurations\<close>

lemma ceil_div:
  fixes n b :: nat
  assumes "0 < n" "0 < b"
  shows "n \<le> (n + b - 1) div b * b" "((n + b - 1) div b - 1) * b < n" "0 < (n + b - 1) div b"
proof -
  let ?q = "(n + b - 1) div b"
  have q: "?q * b \<le> n + b - 1" "n + b - 1 < ?q * b + b"
    using div_mod_decomp[of "n + b - 1" b] mod_less_divisor[OF assms(2), of "n + b - 1"] by linarith+
  then show "n \<le> ?q * b" using assms(1) by simp
  show "0 < ?q" using assms by (simp add: div_greater_zero_iff)
  have "?q * b - b < n" using q(1) assms by linarith
  then show "(?q - 1) * b < n" by (simp add: diff_mult_distrib)
qed

lemma unat_ucast32: "unat (w :: u64) < 2 ^ 32 \<Longrightarrow> unat (ucast w :: u32) = unat w"
  by (simp add: unsigned_ucast_eq take_bit_nat_eq_self)

lemma le_MaxUint32: "w > MaxUint32 \<longleftrightarrow> 2 ^ 32 \<le> unat w"
  by (auto simp: word_less_nat_alt MaxUint32_def)

lemma LaunchConfig1D_grid:
  fixes n blockSize :: goint
  assumes n: "0 < sint n" and b: "0 < sint blockSize" "unat blockSize < 2 ^ 32"
  shows "unat ((n + blockSize - 1) div blockSize) = (unat n + unat blockSize - 1) div unat blockSize"
proof -
  note p = sint_pos_unat[OF n] sint_pos_unat[OF b(1)]
  have "unat n + unat blockSize < 2 ^ 64" using p(2) b(2) by simp
  then have s: "unat (n + blockSize) = unat n + unat blockSize" by (rule unat_add_small)
  have "unat (n + blockSize - 1) = unat (n + blockSize) - 1"
    using s p(1) by (subst unat_sub) (auto simp: word_le_nat_alt)
  then show ?thesis by (simp add: unat_div s)
qed

lemma LaunchConfig1D_spec:
  "if 0 < sint n \<and> 0 < sint blockSize \<and> unat blockSize < 2 ^ 32 \<and>
      (unat n + unat blockSize - 1) div unat blockSize < 2 ^ 32
   then valid (LaunchConfig1D n blockSize) \<and>
     unat (BlockX (LaunchConfig1D n blockSize)) = unat blockSize \<and>
     unat n \<le> unat (GridX (LaunchConfig1D n blockSize)) * unat (BlockX (LaunchConfig1D n blockSize)) \<and>
     (unat (GridX (LaunchConfig1D n blockSize)) - 1) * unat (BlockX (LaunchConfig1D n blockSize)) < unat n \<and>
     GridY (LaunchConfig1D n blockSize) = 1 \<and> GridZ (LaunchConfig1D n blockSize) = 1 \<and>
     BlockY (LaunchConfig1D n blockSize) = 1 \<and> BlockZ (LaunchConfig1D n blockSize) = 1
   else LaunchConfig1D n blockSize = zeroConfig \<and> \<not> valid zeroConfig"
proof (cases "0 < sint n \<and> 0 < sint blockSize \<and> unat blockSize < 2 ^ 32")
  case False
  then show ?thesis by (auto simp: LaunchConfig1D_def le_MaxUint32 zeroConfig_def valid_def not_less)
next
  case True
  let ?g = "(n + blockSize - 1) div blockSize"
  have p: "0 < unat n" "0 < unat blockSize" using True sint_pos_unat by blast+
  have g: "unat ?g = (unat n + unat blockSize - 1) div unat blockSize"
    using True by (intro LaunchConfig1D_grid) auto
  note c = ceil_div[OF p, folded g]
  show ?thesis
  proof (cases "unat ?g < 2 ^ 32")
    case False
    then have "LaunchConfig1D n blockSize = zeroConfig" by (simp add: LaunchConfig1D_def le_MaxUint32 Let_def)
    then show ?thesis using False g by (simp add: zeroConfig_def valid_def)
  next
    case small: True
    have "?g \<noteq> 0" using c(3) by auto
    then have cfg: "LaunchConfig1D n blockSize = \<lparr>GridX = ucast ?g, GridY = 1, GridZ = 1, BlockX = ucast blockSize, BlockY = 1, BlockZ = 1,
               SharedMemBytes = 0\<rparr>"
      using True small by (simp add: LaunchConfig1D_def le_MaxUint32 Let_def not_le)
    have u: "unat (ucast ?g :: u32) = unat ?g" "unat (ucast blockSize :: u32) = unat blockSize"
      using True small by (auto intro: unat_ucast32)
    then have "valid (LaunchConfig1D n blockSize)" using c(3) p(2) unfolding cfg valid_def
      by (simp add: word_less_nat_alt)
    then show ?thesis using True small g c u by (simp add: cfg)
  qed
qed

text \<open>
  \<^verbatim>\<open>LaunchConfig1D\<close> covers its elements: for a positive number of elements and a positive block size whose number of
  blocks fits 32 bits, the configuration is valid, has the requested block size, covers all \<open>n\<close> elements and one
  block fewer would not, without wrap-around; in every other case it is the zero configuration, which no
  launch accepts.
\<close>

theorem LaunchConfig1D_covers:
  "if 0 < sint n \<and> 0 < sint blockSize \<and> unat blockSize < 2 ^ 32 \<and>
      (unat n + unat blockSize - 1) div unat blockSize < 2 ^ 32
   then valid (LaunchConfig1D n blockSize) \<and>
     unat (BlockX (LaunchConfig1D n blockSize)) = unat blockSize \<and>
     unat n \<le> unat (GridX (LaunchConfig1D n blockSize)) * unat (BlockX (LaunchConfig1D n blockSize)) \<and>
     (unat (GridX (LaunchConfig1D n blockSize)) - 1) * unat (BlockX (LaunchConfig1D n blockSize)) < unat n \<and>
     GridY (LaunchConfig1D n blockSize) = 1 \<and> GridZ (LaunchConfig1D n blockSize) = 1 \<and>
     BlockY (LaunchConfig1D n blockSize) = 1 \<and> BlockZ (LaunchConfig1D n blockSize) = 1
   else LaunchConfig1D n blockSize = zeroConfig \<and> \<not> valid zeroConfig"
  by (rule LaunchConfig1D_spec)

text \<open>
  C38. What \<^verbatim>\<open>SuggestedConfig1D\<close> returns: a valid configuration with the block size the driver suggested, that covers the \<open>n\<close>
  elements with no block to spare. Its shared memory size is the low 32 bits of the requested one: a request of 4 GiB or more,
  which only the driver could still refuse, is silently changed.
\<close>

theorem SuggestedConfig1D_result:
  assumes "SuggestedConfig1D fp n dynamicSharedMem s = (Inr cfg, s')"
  shows "\<exists>g blockSize. SuggestedBlockSize fp dynamicSharedMem 0 s = (Inr (g, blockSize), s') \<and>
    valid cfg \<and> unat (BlockX cfg) = unat blockSize \<and> unat n \<le> unat (GridX cfg) * unat (BlockX cfg) \<and>
    (unat (GridX cfg) - 1) * unat (BlockX cfg) < unat n \<and>
    unat (SharedMemBytes cfg) = unat dynamicSharedMem mod 2 ^ 32"
proof -
  obtain g blockSize where g: "SuggestedBlockSize fp dynamicSharedMem 0 s = (Inr (g, blockSize), s')"
    and v: "valid (LaunchConfig1D n blockSize)"
    and cfg: "cfg = LaunchConfig1D n blockSize\<lparr>SharedMemBytes := ucast dynamicSharedMem\<rparr>"
    using assms by (auto simp: SuggestedConfig1D_def Let_def split: if_splits prod.splits sum.splits)
  have "unat (ucast dynamicSharedMem :: u32) = unat dynamicSharedMem mod 2 ^ 32"
    by (simp add: unsigned_ucast_eq take_bit_eq_mod)
  moreover have "valid cfg" using v cfg by (simp add: valid_def)
  ultimately show ?thesis using LaunchConfig1D_spec[of n blockSize] v g cfg
    by (auto simp: valid_def split: if_splits)
qed

lemma SuggestedConfig1D_result_witness:
  "\<exists>cfg s'. SuggestedConfig1D (Some one_kernel) 100 0x100000000 one_module = (Inr cfg, s') \<and>
     unat (BlockX cfg) = 9 \<and> SharedMemBytes cfg = 0"
proof -
  let ?r = "SuggestedConfig1D (Some one_kernel) 100 0x100000000 one_module"
  have "fst ?r = Inr (\<lparr>GridX = 12, GridY = 1, GridZ = 1, BlockX = 9, BlockY = 1, BlockZ = 1, SharedMemBytes = 0\<rparr>)"
    by code_simp
  then have r: "?r = (Inr (\<lparr>GridX = 12, GridY = 1, GridZ = 1, BlockX = 9, BlockY = 1, BlockZ = 1, SharedMemBytes = 0\<rparr>), snd ?r)"
    by (metis prod.collapse)
  show ?thesis using SuggestedConfig1D_result[OF r] r by auto
qed

end
