(* ===== verification/ResourceProps.thy ===== *)
theory ResourceProps
  imports BufferProps
begin

section \<open>Closing objects, and using closed ones\<close>

subsection \<open>The contract of Close\<close>

definition close_contract :: "(nat option \<Rightarrow> ('w, unit) rop) \<Rightarrow> ('w rt \<Rightarrow> nat \<Rightarrow> bool) \<Rightarrow> go_error \<Rightarrow>
    ('w rt \<Rightarrow> nat \<Rightarrow> ('w, unit) drv) \<Rightarrow> bool" where
  "close_contract close isclosed nilErr destroys = (\<forall>s.
     close None s = (Inl nilErr, s) \<and>
     (\<forall>i. if isclosed s i then close (Some i) s = (Inr (), s)
          else (case close (Some i) s of
            (Inl e, s') \<Rightarrow> isclosed s' = isclosed s
          | (Inr _, s') \<Rightarrow> isclosed s' = (isclosed s)(i := True) \<and> ran (destroys s i) (Inr ()) (world (sy s')) \<and>
              close (Some i) s' = (Inr (), s'))))"

context closable
begin

lemma contract: "close_contract close isclosed nilErr destroys"
proof -
  have "case close (Some i) s of
            (Inl e, s') \<Rightarrow> isclosed s' = isclosed s
          | (Inr _, s') \<Rightarrow> isclosed s' = (isclosed s)(i := True) \<and> ran (destroys s i) (Inr ()) (world (sy s')) \<and>
              close (Some i) s' = (Inr (), s')" if "\<not> isclosed s i" for i s
  proof (cases "close (Some i) s")
    case (Pair r s')
    have others: "isclosed s' j = isclosed s j" if "j \<noteq> i" for j by (rule close_others[OF Pair that])
    show ?thesis
    proof (cases r)
      case (Inl e)
      have "isclosed s' j = isclosed s j" for j
        using that others close_fail[of i s e s'] Pair Inl by (cases "j = i") auto
      then show ?thesis using Pair Inl by auto
    next
      case (Inr u)
      then show ?thesis using that others close_ok[of i s s'] close_destroys[of i s s'] close_twice[of i s s'] Pair
        by (auto simp: fun_eq_iff)
    qed
  qed
  then show ?thesis unfolding close_contract_def by (auto simp: close_nil close_closed)
qed

end


subsection \<open>Closed objects\<close>

text \<open>An operation refuses the closed objects of a store: it returns an error and changes nothing, so no driver call is made.\<close>

definition refuses :: "('w rt \<Rightarrow> nat \<Rightarrow> 'o resource_scheme) \<Rightarrow> (nat \<Rightarrow> ('w, 'a) rop) \<Rightarrow> bool" where
  "refuses sel f = (\<forall>s i. oclosed (sel s i) \<longrightarrow> (\<exists>e. f i s = (Inl e, s)))"

lemma refusesI: "(\<And>s i. oclosed (sel s i) \<Longrightarrow> \<exists>e. f i s = (Inl e, s)) \<Longrightarrow> refuses sel f"
  by (simp add: refuses_def)

lemma closed_buffers:
  "refuses buffers (\<lambda>i. Buffer_CopyFrom (Some i) ctx xs)"
  "refuses buffers (\<lambda>i. Buffer_CopyTo (Some i) ctx xs)"
  "refuses buffers (\<lambda>i. Buffer_CopyFromHost (Some i) ctx h)"
  "refuses buffers (\<lambda>i. Buffer_CopyToHost (Some i) ctx h)"
  "refuses buffers (\<lambda>i. Buffer_CopyFromHostAsync (Some i) ctx st h)"
  "refuses buffers (\<lambda>i. Buffer_CopyToHostAsync (Some i) ctx st h)"
  "refuses buffers (\<lambda>i. Buffer_Zero (Some i) ctx)"
  "refuses buffers (\<lambda>i. Buffer_ZeroAsync (Some i) ctx st)"
  "refuses buffers (\<lambda>i. Buffer_Fill (Some i) ctx v)"
  "refuses buffers (\<lambda>i. Buffer_FillAsync (Some i) ctx st v)"
  "refuses buffers (\<lambda>i. Buffer_CopyToDevice (Some i) ctx q)"
  "refuses buffers (\<lambda>i. Buffer_CopyToDevice q ctx (Some i))"
  "refuses buffers (\<lambda>i. Buffer_CopyToDeviceAsync (Some i) ctx st q)"
  "refuses buffers (\<lambda>i. Buffer_CopyToDeviceAsync q ctx st (Some i))"
  "refuses buffers (\<lambda>i. CopyHtoD ctx (Some i) xs)"
  "refuses buffers (\<lambda>i. CopyDtoH ctx xs (Some i))"
  "refuses buffers (\<lambda>i. Buffer_CopyFromAt (Some i) ctx off xs)"
  "refuses buffers (\<lambda>i. Buffer_CopyToAt (Some i) ctx xs off)"
  "refuses buffers (\<lambda>i. Buffer_CopyToDeviceAt (Some i) ctx off q off2 n)"
  "refuses buffers (\<lambda>i. Buffer_CopyToDeviceAt q ctx off (Some i) off2 n)"
  "refuses buffers (\<lambda>i. Buffer_CopyToDeviceAtAsync (Some i) ctx st off q off2 n)"
  "refuses buffers (\<lambda>i. Buffer_IPCHandle (Some i))"
  "refuses buffers (\<lambda>i. Buffer_CopyToPeer (Some i) ctx q)"
  "refuses buffers (\<lambda>i. Buffer_CopyToPeer q ctx (Some i))"
  by (intro refusesI; auto simp: Buffer_CopyFrom_def Buffer_CopyTo_def Buffer_CopyFromHost_def Buffer_CopyToHost_def Buffer_CopyFromHostAsync_def Buffer_CopyToHostAsync_def Buffer_Zero_def Buffer_ZeroAsync_def Buffer_Fill_def Buffer_FillAsync_def Buffer_CopyToDevice_def Buffer_CopyToDeviceAsync_def CopyHtoD_def CopyDtoH_def Buffer_CopyFromAt_def Buffer_CopyToAt_def Buffer_CopyToDeviceAt_def Buffer_CopyToDeviceAtAsync_def Buffer_IPCHandle_def Buffer_CopyToPeer_def pinned_checks_def pinned_async_checks_def Let_def split: option.splits sum.splits if_splits)+

lemma closed_streams:
  "refuses streams (\<lambda>i. Stream_Synchronize (Some i) ctx)"
  "refuses streams (\<lambda>i. Stream_Query (Some i))"
  "refuses streams (\<lambda>i. Stream_WaitEvent (Some i) q wo)"
  "refuses streams (\<lambda>i. Stream_LaunchHostFunc fresh (Some i) fn)"
  "refuses streams (\<lambda>i. Stream_BeginCapture (Some i) mode)"
  "refuses streams (\<lambda>i. Stream_EndCapture (Some i))"
  "refuses streams (\<lambda>i. Event_Record q (Some i))"
  "refuses streams (\<lambda>i. GraphExec_Launch q ctx (Some i))"
  "refuses streams (\<lambda>i. Buffer_FreeAsync q (Some i))"
  "refuses streams (\<lambda>i. AllocAsync t c (Some i) n)"
  "refuses streams (\<lambda>i. AllocFromPool t pool (Some i) n)"
  "refuses streams (\<lambda>i. PrefetchToDevice q ctx (Some i))"
  "refuses streams (\<lambda>i. PrefetchToHost q ctx (Some i))"
  by (intro refusesI; auto simp: Stream_Synchronize_def Stream_Query_def Stream_WaitEvent_def Stream_LaunchHostFunc_def Stream_BeginCapture_def Stream_EndCapture_def Event_Record_def GraphExec_Launch_def Buffer_FreeAsync_def AllocAsync_def AllocFromPool_def PrefetchToDevice_def PrefetchToHost_def prefetch_def pinned_checks_def pinned_async_checks_def Let_def split: option.splits sum.splits if_splits)+

lemma closed_events:
  "refuses events (\<lambda>i. Event_Record (Some i) st)"
  "refuses events (\<lambda>i. Event_Synchronize (Some i) ctx)"
  "refuses events (\<lambda>i. Event_Query (Some i))"
  "refuses events (\<lambda>i. Event_Elapsed (Some i) q)"
  "refuses events (\<lambda>i. Event_Elapsed q (Some i))"
  "refuses events (\<lambda>i. Event_IPCHandle (Some i))"
  "refuses events (\<lambda>i. Stream_WaitEvent st (Some i) wo)"
  by (intro refusesI; auto simp: Event_Record_def Event_Synchronize_def Event_Query_def Event_Elapsed_def Event_IPCHandle_def Stream_WaitEvent_def pinned_checks_def pinned_async_checks_def Let_def split: option.splits sum.splits if_splits)+

lemma closed_graphs:
  "refuses graphs (\<lambda>i. Graph_Instantiate (Some i))"
  "refuses graphs (\<lambda>i. GraphExec_Update q (Some i))"
  by (intro refusesI; auto simp: Graph_Instantiate_def GraphExec_Update_def pinned_checks_def pinned_async_checks_def Let_def split: option.splits sum.splits if_splits)+

lemma closed_graphexecs:
  "refuses graphexecs (\<lambda>i. GraphExec_Launch (Some i) ctx st)"
  "refuses graphexecs (\<lambda>i. GraphExec_Update (Some i) q)"
  by (intro refusesI; auto simp: GraphExec_Launch_def GraphExec_Update_def pinned_checks_def pinned_async_checks_def Let_def split: option.splits sum.splits if_splits)+

lemma closed_modules:
  "refuses modules (\<lambda>i. Module_Function (Some i) name)"
  "refuses modules (\<lambda>i. Module_Global (Some i) name)"
  by (intro refusesI; auto simp: Module_Function_def Module_Global_def pinned_checks_def pinned_async_checks_def Let_def split: option.splits sum.splits if_splits)+

lemma closed_linkers:
  "refuses linkers (\<lambda>i. AddPTX (Some i) img name)"
  "refuses linkers (\<lambda>i. AddCubin (Some i) img name)"
  "refuses linkers (\<lambda>i. Linker_Complete (Some i))"
  by (intro refusesI; auto simp: AddPTX_def AddCubin_def Linker_Complete_def addInput_def pinned_checks_def pinned_async_checks_def Let_def split: option.splits sum.splits if_splits)+

lemma closed_pitcheds:
  "refuses pitcheds (\<lambda>i. Pitched_CopyFrom (Some i) ctx xs)"
  "refuses pitcheds (\<lambda>i. Pitched_CopyTo (Some i) ctx xs)"
  "refuses pitcheds (\<lambda>i. Pitched_CopyToDevice (Some i) ctx q)"
  "refuses pitcheds (\<lambda>i. Pitched_CopyToDevice q ctx (Some i))"
  "refuses pitcheds (\<lambda>i. Pitched_CopyFromHostAsync (Some i) ctx st h)"
  "refuses pitcheds (\<lambda>i. Pitched_CopyToHostAsync (Some i) ctx st h)"
  "refuses pitcheds (\<lambda>i. Pitched_CopyToDeviceAsync (Some i) ctx st q)"
  by (intro refusesI; auto simp: Pitched_CopyFrom_def Pitched_CopyTo_def Pitched_CopyToDevice_def Pitched_CopyFromHostAsync_def Pitched_CopyToHostAsync_def Pitched_CopyToDeviceAsync_def pinned_checks_def pinned_async_checks_def Let_def split: option.splits sum.splits if_splits)+

lemma closed_volumes:
  "refuses volumes (\<lambda>i. Volume_CopyFrom (Some i) ctx xs)"
  "refuses volumes (\<lambda>i. Volume_CopyTo (Some i) ctx xs)"
  "refuses volumes (\<lambda>i. Volume_CopyFromHostAsync (Some i) ctx st h)"
  "refuses volumes (\<lambda>i. Volume_CopyToHostAsync (Some i) ctx st h)"
  by (intro refusesI; auto simp: Volume_CopyFrom_def Volume_CopyTo_def Volume_CopyFromHostAsync_def Volume_CopyToHostAsync_def pinned_checks_def pinned_async_checks_def Let_def split: option.splits sum.splits if_splits)+

lemma closed_arrays:
  "refuses arrays (\<lambda>i. Array2D_CopyFrom (Some i) ctx xs)"
  "refuses arrays (\<lambda>i. Array2D_CopyTo (Some i) ctx xs)"
  "refuses arrays (\<lambda>i. Array2D_CopyFromHostAsync (Some i) ctx st h)"
  "refuses arrays (\<lambda>i. Array2D_CopyToHostAsync (Some i) ctx st h)"
  "refuses arrays (\<lambda>i. NewTexture (Some i) tcfg)"
  "refuses arrays (\<lambda>i. NewSurface (Some i))"
  by (intro refusesI; auto simp: Array2D_CopyFrom_def Array2D_CopyTo_def Array2D_CopyFromHostAsync_def Array2D_CopyToHostAsync_def NewTexture_def NewSurface_def pinned_checks_def pinned_async_checks_def Let_def split: option.splits sum.splits if_splits)+

lemma closed_manageds:
  "refuses manageds (\<lambda>i. PrefetchToDevice (Some i) ctx st)"
  "refuses manageds (\<lambda>i. PrefetchToHost (Some i) ctx st)"
  "refuses manageds (\<lambda>i. Managed_Advise (Some i) adv)"
  by (intro refusesI; auto simp: PrefetchToDevice_def PrefetchToHost_def Managed_Advise_def prefetch_def pinned_checks_def pinned_async_checks_def Let_def split: option.splits sum.splits if_splits)+

lemma closed_ipcbufs:
  "refuses ipcbufs (\<lambda>i. IPCBuffer_CopyFrom (Some i) ctx xs)"
  "refuses ipcbufs (\<lambda>i. IPCBuffer_CopyTo (Some i) ctx xs)"
  by (intro refusesI; auto simp: IPCBuffer_CopyFrom_def IPCBuffer_CopyTo_def pinned_checks_def pinned_async_checks_def Let_def split: option.splits sum.splits if_splits)+

lemma closed_virtuals:
  "refuses virtuals (\<lambda>i. Virtual_CopyFrom (Some i) ctx xs)"
  "refuses virtuals (\<lambda>i. Virtual_CopyTo (Some i) ctx xs)"
  by (intro refusesI; auto simp: Virtual_CopyFrom_def Virtual_CopyTo_def pinned_checks_def pinned_async_checks_def Let_def split: option.splits sum.splits if_splits)+


end
