(* ===== verification/HostCallbacks.thy ===== *)
theory HostCallbacks
  imports Start
begin

section \<open>The registry of host callbacks\<close>

text \<open>
  The sharded registry of \<^verbatim>\<open>internal/hostcb\<close> implements one map from keys to closures. Keys are drawn from a 64-bit counter, so
  they are fresh until it wraps around.
\<close>

subsection \<open>The abstract registry\<close>

definition registered :: "hostcb \<Rightarrow> (u64 \<rightharpoonup> nat)" where
  "registered r = (\<lambda>k. (shards r ! shardFor k) k)"

definition wf_registry :: "hostcb \<Rightarrow> bool" where
  "wf_registry r = (length (shards r) = registryShardCount \<and> (\<forall>k \<in> dom (registered r). k \<le> nextKey r))"

lemma shardFor_less: "length (shards r) = registryShardCount \<Longrightarrow> shardFor k < length (shards r)"
  by (simp add: shardFor_def registryShardCount_def)

lemma registered_setShard:
  assumes "length (shards r) = registryShardCount"
  shows "registered (setShard (shardFor k) ((shards r ! shardFor k)(k := v)) r) = (registered r)(k := v)"
  using shardFor_less[OF assms, of k] by (auto simp: registered_def setShard_def nth_list_update fun_eq_iff)

lemma registered_upd [simp]:
  "registered (r\<lparr>nextKey := n\<rparr>) = registered r" "registered (r\<lparr>tramp := t\<rparr>) = registered r"
  "length (shards (setShard i m r)) = length (shards r)" "nextKey (setShard i m r) = nextKey r"
  by (simp_all add: registered_def setShard_def)

text \<open>What a registry of closures promises: keys are fresh, and a key is taken out once.\<close>

locale callback_registry =
  fixes inv :: "'r \<Rightarrow> bool" and absmap :: "'r \<Rightarrow> (u64 \<rightharpoonup> nat)" and last :: "'r \<Rightarrow> nat"
    and reg :: "nat \<Rightarrow> 'r \<Rightarrow> u64 \<times> 'r" and drop1 :: "u64 \<Rightarrow> 'r \<Rightarrow> 'r"
  assumes reg_key: "inv r \<Longrightarrow> reg fn r = (k, r') \<Longrightarrow> Suc (last r) < 2 ^ 64 \<Longrightarrow> unat k = Suc (last r)"
    and reg_map: "inv r \<Longrightarrow> reg fn r = (k, r') \<Longrightarrow> absmap r' = (absmap r)(k \<mapsto> fn)"
    and reg_inv: "inv r \<Longrightarrow> reg fn r = (k, r') \<Longrightarrow> Suc (last r) < 2 ^ 64 \<Longrightarrow> inv r' \<and> last r' = Suc (last r)"
    and drop_map: "inv r \<Longrightarrow> absmap (drop1 k r) = (absmap r)(k := None)"
    and drop_inv: "inv r \<Longrightarrow> inv (drop1 k r) \<and> last (drop1 k r) = last r"
    and keys_used: "inv r \<Longrightarrow> absmap r k \<noteq> None \<Longrightarrow> unat k \<le> last r"
begin

lemma reg_fresh: "inv r \<Longrightarrow> reg fn r = (k, r') \<Longrightarrow> Suc (last r) < 2 ^ 64 \<Longrightarrow> absmap r k = None"
  using reg_key[of r fn k r'] keys_used[of r k] by fastforce

lemma reg_undo:
  assumes "inv r" "reg fn r = (k, r')" "Suc (last r) < 2 ^ 64"
  shows "absmap (drop1 k r') = absmap r"
proof -
  have "inv r'" using reg_inv[OF assms] by simp
  then have "absmap (drop1 k r') = (absmap r)(k := None)"
    using drop_map[of r' k] reg_map[OF assms(1,2)] by simp
  then show ?thesis using reg_fresh[OF assms] by (simp add: fun_upd_idem)
qed

end

interpretation hc: callback_registry wf_registry registered "unat \<circ> nextKey" Register Unregister
proof unfold_locales
  fix r :: hostcb and fn k r'
  assume w: "wf_registry r" and rg: "Register fn r = (k, r')"
  have len: "length (shards r) = registryShardCount" using w by (simp add: wf_registry_def)
  have k: "k = nextKey r + 1" and r': "r' = setShard (shardFor k) ((shards r ! shardFor k)(k \<mapsto> fn)) (r\<lparr>nextKey := k\<rparr>)"
    using rg by (auto simp: Register_def Let_def)
  show map: "registered r' = (registered r)(k \<mapsto> fn)"
    using registered_setShard[of "r\<lparr>nextKey := k\<rparr>" k "Some fn"] len r' by simp
  assume room: "Suc ((unat \<circ> nextKey) r) < 2 ^ 64"
  show uk: "unat k = Suc ((unat \<circ> nextKey) r)"
    using room unat_add_small[of "nextKey r" 1] k by simp
  have up: "nextKey r \<le> k" using uk by (simp add: word_le_nat_alt)
  have "j \<le> k" if "j \<in> dom (registered r)" for j
    using w that order_trans[OF _ up] by (auto simp: wf_registry_def)
  then have "wf_registry r'" using map len r' by (auto simp: wf_registry_def)
  then show "wf_registry r' \<and> (unat \<circ> nextKey) r' = Suc ((unat \<circ> nextKey) r)"
    using r' uk by simp
next
  fix r :: hostcb and k :: u64
  assume w: "wf_registry r"
  have len: "length (shards r) = registryShardCount" using w by (simp add: wf_registry_def)
  show map: "registered (Unregister k r) = (registered r)(k := None)"
    using registered_setShard[OF len, of k None] by (simp add: Unregister_def Let_def)
  show "wf_registry (Unregister k r) \<and> (unat \<circ> nextKey) (Unregister k r) = (unat \<circ> nextKey) r"
    using w map by (auto simp: wf_registry_def Unregister_def Let_def)
  show "registered r k \<noteq> None \<Longrightarrow> unat k \<le> (unat \<circ> nextKey) r"
    using w by (auto simp: wf_registry_def word_le_nat_alt)
qed

subsection \<open>Runs of the registry\<close>

text \<open>
  Any sequence of registrations, removals and callbacks from the driver, with the closures that were run: \<open>pan\<close>
  says which closures panic.
\<close>

datatype regop = RReg nat | RUnreg u64 | RInv u64

type_synonym regstate = "hostcb \<times> (u64 \<times> nat) list \<times> string list"

fun reg_step :: "(nat \<Rightarrow> string option) \<Rightarrow> regop \<Rightarrow> regstate \<Rightarrow> regstate" where
  "reg_step pan (RReg fn) (r, h, e) = (snd (Register fn r), h, e)"
| "reg_step pan (RUnreg k) (r, h, e) = (Unregister k r, h, e)"
| "reg_step pan (RInv k) (r, h, e) = Invoke (\<lambda>fn h. (pan fn, h @ [(k, fn)])) k (r, h, e)"

fun reg_run :: "(nat \<Rightarrow> string option) \<Rightarrow> regop list \<Rightarrow> regstate \<Rightarrow> regstate" where
  "reg_run pan [] st = st"
| "reg_run pan (x # xs) st = reg_run pan xs (reg_step pan x st)"

text \<open>The closures registered by a sequence, in order: the \<open>n\<close>-th one gets the key \<open>n\<close>.\<close>

definition regs :: "regop list \<Rightarrow> nat list" where
  "regs xs = List.map_filter (\<lambda>x. case x of RReg fn \<Rightarrow> Some fn | _ \<Rightarrow> None) xs"

lemma regs_snoc: "regs (xs @ [x]) = regs xs @ (case x of RReg fn \<Rightarrow> [fn] | _ \<Rightarrow> [])"
  by (simp add: regs_def List.map_filter_def split: regop.splits)

definition emptyRegistry :: hostcb where
  "emptyRegistry = \<lparr>shards = replicate registryShardCount (\<lambda>_. None), nextKey = 0, tramp = 0\<rparr>"

lemma registered_empty: "registered emptyRegistry = Map.empty" "wf_registry emptyRegistry"
  by (auto simp: registered_def emptyRegistry_def wf_registry_def shardFor_def registryShardCount_def fun_eq_iff)

lemma Invoke_registered:
  assumes "wf_registry r"
  shows "Invoke call k (r, h, e) = (case registered r k of
      None \<Rightarrow> (r, h, e)
    | Some fn \<Rightarrow> (case call fn h of (p, h1) \<Rightarrow> (Unregister k r, h1,
        case p of None \<Rightarrow> e | Some msg \<Rightarrow> e @ [''cuda: panic in host function: '' @ msg @ [CHR 0x0A]])))"
  by (auto simp: Invoke_def registered_def Unregister_def Let_def split: option.splits prod.splits)

lemma reg_run_snoc: "reg_run pan (xs @ [x]) st = reg_step pan x (reg_run pan xs st)"
  by (induction xs arbitrary: st) simp_all

text \<open>
  The invariant of a run: keys not yet given out are unused, every waiting or finished closure is the one
  registered under its key, and a finished key is no longer waiting.
\<close>

definition key_of :: "nat list \<Rightarrow> u64 \<times> nat \<Rightarrow> bool" where
  "key_of fs kf = (0 < unat (fst kf) \<and> unat (fst kf) \<le> length fs \<and> fs ! (unat (fst kf) - 1) = snd kf)"

definition run_ok :: "nat list \<Rightarrow> regstate \<Rightarrow> bool" where
  "run_ok fs st = (case st of (r, h, e) \<Rightarrow>
     wf_registry r \<and> unat (nextKey r) = length fs \<and> distinct (map fst h) \<and>
     (\<forall>x \<in> set h. key_of fs x) \<and> (\<forall>k fn. registered r k = Some fn \<longrightarrow> key_of fs (k, fn)) \<and>
     (\<forall>x \<in> set h. registered r (fst x) = None))"

lemma key_of_snoc: "key_of fs x \<Longrightarrow> key_of (fs @ [fn]) x"
  by (auto simp: key_of_def nth_append)

lemma run_ok_reg:
  assumes "run_ok fs (r, h, e)" and "Suc (length fs) < 2 ^ 64"
  shows "run_ok (fs @ [fn]) (snd (Register fn r), h, e)"
proof -
  obtain k r' where rg: "Register fn r = (k, r')" by (cases "Register fn r")
  have w: "wf_registry r" and n: "Suc ((unat \<circ> nextKey) r) < 2 ^ 64" and nk: "unat (nextKey r) = length fs"
    and h: "\<forall>x \<in> set h. key_of fs x"
    using assms by (auto simp: run_ok_def)
  note k = hc.reg_key[OF w rg n] and m = hc.reg_map[OF w rg] and i = hc.reg_inv[OF w rg n]
  have new: "key_of (fs @ [fn]) (k, fn)" using k nk by (simp add: key_of_def)
  have kh: "fst x \<noteq> k" if "x \<in> set h" for x
    using h that k nk by (auto simp: key_of_def)
  show ?thesis using assms(1) i m nk kh rg new by (simp add: run_ok_def key_of_snoc)
qed

lemma run_ok_drop:
  assumes "run_ok fs (r, h, e)"
  shows "run_ok fs (Unregister k r, h, e')"
    and "registered r k = Some fn \<Longrightarrow> run_ok fs (Unregister k r, h @ [(k, fn)], e')"
proof -
  have w: "wf_registry r" using assms by (simp add: run_ok_def)
  note m = hc.drop_map[OF w, of k] and i = hc.drop_inv[OF w, of k]
  show "run_ok fs (Unregister k r, h, e')" using assms m i by (simp add: run_ok_def)
  assume "registered r k = Some fn"
  moreover from this have "k \<notin> fst ` set h" using assms by (auto simp: run_ok_def)
  ultimately show "run_ok fs (Unregister k r, h @ [(k, fn)], e')"
    using assms m i by (simp add: run_ok_def)
qed

lemma run_ok_run:
  "length (regs xs) < 2 ^ 64 \<Longrightarrow> run_ok (regs xs) (reg_run pan xs (emptyRegistry, [], e))"
proof (induction xs rule: rev_induct)
  case Nil
  show ?case
    by (simp add: run_ok_def registered_empty regs_def List.map_filter_def) (simp add: emptyRegistry_def)
next
  case (snoc x xs)
  obtain r h e' where st: "reg_run pan xs (emptyRegistry, [], e) = (r, h, e')" by (metis prod_cases3)
  have ok: "run_ok (regs xs) (r, h, e')" using snoc st by (simp add: regs_snoc)
  then have w: "wf_registry r" by (simp add: run_ok_def)
  show ?case
  proof (cases x)
    case (RReg fn)
    then show ?thesis using run_ok_reg[OF ok, of fn] snoc.prems st by (simp add: reg_run_snoc regs_snoc)
  next
    case (RUnreg k)
    then show ?thesis using run_ok_drop(1)[OF ok] st by (simp add: reg_run_snoc regs_snoc)
  next
    case (RInv k)
    then show ?thesis using ok run_ok_drop(2)[OF ok, of k] st
      by (auto simp: reg_run_snoc regs_snoc Invoke_registered[OF w] split: option.splits)
  qed
qed

subsection \<open>Properties\<close>

text \<open>
  C31. The sharded registry refines one map from keys to closures: registering adds one entry under the next key, which is
  unused as long as the 64-bit counter has not wrapped around, removing deletes one entry, a callback takes out its entry and runs
  exactly that closure once, and does nothing for an unknown key, also when the closure panics; \<^verbatim>\<open>Pending\<close> is membership. No other entry
  is ever touched.
\<close>

theorem hostcb_refines_map:
  assumes "wf_registry r" and "Suc (unat (nextKey r)) < 2 ^ 64"
  shows "registered r (fst (Register fn r)) = None \<and>
    registered (snd (Register fn r)) = (registered r)(fst (Register fn r) \<mapsto> fn) \<and> wf_registry (snd (Register fn r)) \<and>
    registered (Unregister k r) = (registered r)(k := None) \<and> wf_registry (Unregister k r) \<and>
    Pending k r = (k \<in> dom (registered r)) \<and>
    (\<exists>r' h' e'. Invoke call k (r, h, e) = (r', h', e') \<and> wf_registry r' \<and>
       registered r' = (registered r)(k := None) \<and>
       h' = (case registered r k of None \<Rightarrow> h | Some fn \<Rightarrow> snd (call fn h)))"
proof -
  obtain k1 r1 where rg: "Register fn r = (k1, r1)" by (cases "Register fn r")
  have n: "Suc ((unat \<circ> nextKey) r) < 2 ^ 64" using assms(2) by simp
  have "\<exists>r' h' e'. Invoke call k (r, h, e) = (r', h', e') \<and> wf_registry r' \<and>
       registered r' = (registered r)(k := None) \<and>
       h' = (case registered r k of None \<Rightarrow> h | Some fn \<Rightarrow> snd (call fn h))"
    using assms(1) hc.drop_map[OF assms(1), of k] hc.drop_inv[OF assms(1), of k]
    by (auto simp: Invoke_registered[OF assms(1)] fun_upd_idem split: option.splits prod.splits)
  then show ?thesis
    using hc.reg_fresh[OF assms(1) rg n] hc.reg_map[OF assms(1) rg] hc.reg_inv[OF assms(1) rg n] rg
      hc.drop_map[OF assms(1), of k] hc.drop_inv[OF assms(1), of k]
    by (auto simp: Pending_def registered_def)
qed

lemma hostcb_refines_map_witness:
  "registered (snd (Register 5 emptyRegistry)) = [1 \<mapsto> 5] \<and> Pending 1 (snd (Register 5 emptyRegistry))"
proof -
  have n: "Suc (unat (nextKey emptyRegistry)) < 2 ^ 64" by (simp add: emptyRegistry_def)
  have "fst (Register 5 emptyRegistry) = 1" by code_simp
  moreover have "Pending 1 (snd (Register 5 emptyRegistry))" by code_simp
  ultimately show ?thesis using registered_empty(1)
      hostcb_refines_map[OF registered_empty(2) n, of 5 1 "\<lambda>fn h. (None, h)" "()" "[]"] by simp
qed

text \<open>
  C13. A host callback runs at most once, and it is the right one: in every sequence of registrations, removals and callbacks
  from the driver, in any order and with any of the closures panicking, no key is run twice, and the closure run for a key
  is the one registered under it; a closure that has run or was removed is no longer pending.
\<close>

theorem callbacks_run_at_most_once:
  assumes "length (regs xs) < 2 ^ 64" and "reg_run pan xs (emptyRegistry, [], e) = (r, h, e')"
  shows "distinct (map fst h) \<and> (\<forall>k fn. (k, fn) \<in> set h \<longrightarrow>
    0 < unat k \<and> unat k \<le> length (regs xs) \<and> regs xs ! (unat k - 1) = fn \<and> \<not> Pending k r)"
proof -
  have ok: "run_ok (regs xs) (r, h, e')" using run_ok_run[OF assms(1)] assms(2) by metis
  then have "\<not> Pending k r" if "(k, fn) \<in> set h" for k fn
    using that by (auto simp: run_ok_def Pending_def registered_def)
  with ok show ?thesis by (fastforce simp: run_ok_def key_of_def)
qed

lemma callbacks_run_at_most_once_witness:
  "fst (snd (reg_run (\<lambda>fn. if fn = 6 then Some ''boom'' else None)
     [RReg 5, RReg 6, RInv 2, RInv 2, RUnreg 1, RInv 1] (emptyRegistry, [], []))) = [(2, 6)] \<and>
   regs [RReg 5, RReg 6, RInv 2, RInv 2, RUnreg 1, RInv 1] ! 1 = 6"
proof -
  let ?xs = "[RReg 5, RReg 6, RInv 2, RInv 2, RUnreg 1, RInv 1]"
  let ?pan = "\<lambda>fn. if fn = 6 then Some ''boom'' else None"
  have h: "fst (snd (reg_run ?pan ?xs (emptyRegistry, [], []))) = [(2, 6)]" by code_simp
  have r: "regs ?xs = [5, 6]" by code_simp
  then have l: "length (regs ?xs) < 2 ^ 64" by simp
  obtain r' h' e' where st: "reg_run ?pan ?xs (emptyRegistry, [], []) = (r', h', e')" by (metis prod_cases3)
  show ?thesis using callbacks_run_at_most_once[OF l st] h st r by simp
qed

text \<open>
  \<^verbatim>\<open>LaunchHostFunc\<close> leaves its closure registered exactly when the driver took it: when it succeeds the driver was given
  a key that was unused before and now stands for the closure; when it fails, for whatever reason, the registry is as before,
  so that no closure leaks and none can run.
\<close>

theorem LaunchHostFunc_registers:
  assumes "wf_registry (registry s)" and "Suc (unat (nextKey (registry s))) < 2 ^ 64"
    and "Stream_LaunchHostFunc fresh (Some i) (Some f) s = (r, s')"
  shows "wf_registry (registry s') \<and> (case r of
     Inl e \<Rightarrow> registered (registry s') = registered (registry s)
   | Inr _ \<Rightarrow> (\<exists>k tr. registered (registry s) k = None \<and> registered (registry s') = (registered (registry s))(k \<mapsto> f) \<and>
       ran (LaunchHostFunc (drv_of (octx (streams s i)) s) (sraw (streams s i)) tr k) (Inr ()) (world (sy s'))))"
proof (cases "oclosed (streams s i)")
  case True
  then show ?thesis using assms by (auto simp: Stream_LaunchHostFunc_def)
next
  case False
  obtain k r1 where rg: "Register f (registry s) = (k, r1)" by (cases "Register f (registry s)")
  obtain tr r2 where cb: "Callback fresh r1 = (tr, r2)" by (cases "Callback fresh r1")
  have n: "Suc ((unat \<circ> nextKey) (registry s)) < 2 ^ 64" using assms(2) by simp
  note w1 = hc.reg_inv[OF assms(1) rg n] and m = hc.reg_map[OF assms(1) rg] and un = hc.reg_undo[OF assms(1) rg n]
    and fresh = hc.reg_fresh[OF assms(1) rg n]
  have r2: "registered r2 = registered r1" "wf_registry r2" "registered (Unregister k r2) = registered (Unregister k r1)"
    "nextKey r2 = nextKey r1"
    using cb w1 by (auto simp: Callback_def wf_registry_def registered_def Unregister_def setShard_def Let_def split: if_splits)
  let ?job = "LaunchHostFunc (drv_of (octx (streams s i)) s) (sraw (streams s i)) tr k"
  obtain v y where d: "doWait (Some (octx (streams s i))) bg ?job (sy s) = (v, y)" by (cases "doWait (Some (octx (streams s i))) bg ?job (sy s)")
  show ?thesis
  proof (cases v)
    case (Inl e)
    then have "r = Inl e" "registry s' = Unregister k r2"
      using assms(3) False rg cb d by (auto simp: Stream_LaunchHostFunc_def lift_op_def)
    then show ?thesis using r2 un hc.drop_inv[OF r2(2), of k] by simp
  next
    case (Inr u)
    then have "r = Inr ()" "registry s' = r2" "sy s' = y"
      using assms(3) False rg cb d by (auto simp: Stream_LaunchHostFunc_def lift_op_def)
    moreover have "ran ?job (Inr ()) (world y)" using do_reports(2)[OF d[unfolded Inr]] by simp
    ultimately show ?thesis using r2 m fresh by auto
  qed
qed

definition one_stream :: "unit tw rt" where
  "one_stream = snd (NewStream (Some 0) [] rt_open)"

lemma LaunchHostFunc_registers_witness:
  "\<exists>k. registered (registry (snd (Stream_LaunchHostFunc 11 (Some 0) (Some 5) one_stream))) = [k \<mapsto> 5]"
proof -
  let ?r = "Stream_LaunchHostFunc 11 (Some 0) (Some 5) one_stream"
  have g: "registry one_stream = emptyRegistry"
    by (rule hostcb.equality; code_simp)
  have ok: "fst ?r = Inr ()" by code_simp
  have n: "Suc (unat (nextKey (registry one_stream))) < 2 ^ 64" by (simp add: g emptyRegistry_def)
  have w: "wf_registry (registry one_stream)" by (simp add: g registered_empty)
  have p: "?r = (fst ?r, snd ?r)" by simp
  show ?thesis using LaunchHostFunc_registers[OF w n p] ok by (auto simp: g registered_empty)
qed

end
