(* ===== verification/VmmProps.thy ===== *)
theory VmmProps
  imports Start
begin

section \<open>Virtual memory: sizes, rollback and retried closing\<close>

subsection \<open>Rounding up\<close>

lemma next_multiple: "(v :: nat) = q * m + r \<Longrightarrow> r < m \<Longrightarrow> v + (m - r) = Suc q * m"
  by simp

lemma ceil_multiple: "(v :: nat) = q * m + r \<Longrightarrow> 0 < r \<Longrightarrow> r < m \<Longrightarrow> (v + m - 1) div m = Suc q"
  by (rule div_nat_eqI) (simp_all add: algebra_simps)

text \<open>
  Rounding a size up to the allocation granularity: the result is the smallest multiple of the granularity that is not below
  the size, and there is none exactly when that multiple does not fit 64 bits; nothing wraps around.
\<close>

theorem roundUp_least:
  assumes "mult \<noteq> 0"
  shows "case roundUp v mult of
     Some r \<Rightarrow> unat mult dvd unat r \<and> unat v \<le> unat r \<and> unat r < unat v + unat mult
   | None \<Rightarrow> 2 ^ 64 \<le> (unat v + unat mult - 1) div unat mult * unat mult"
proof -
  let ?v = "unat v" and ?m = "unat mult"
  have m: "0 < ?m" using assms by (simp add: unat_gt_0)
  have r: "unat (v mod mult) = ?v mod ?m" by (simp add: unat_mod)
  have lt: "?v mod ?m < ?m" by (rule mod_less_divisor[OF m])
  have dec: "?v = ?v div ?m * ?m + ?v mod ?m" by simp
  show ?thesis
  proof (cases "v mod mult = 0")
    case True
    then have "?v mod ?m = 0" using r by simp
    then show ?thesis using True m by (simp add: roundUp_def mod_eq_0_iff_dvd)
  next
    case False
    then have nz: "0 < ?v mod ?m" using r by (simp flip: unat_gt_0)
    have pad: "unat (mult - v mod mult) = ?m - ?v mod ?m"
      using lt by (subst unat_sub) (simp_all add: word_le_nat_alt r)
    have room: "unat (MaxUint64 - v) = 2 ^ 64 - 1 - ?v"
      using unat_lt64[of v] by (subst unat_sub) (simp_all add: word_le_nat_alt)
    have up: "?v + (?m - ?v mod ?m) = Suc (?v div ?m) * ?m" by (rule next_multiple[OF dec lt])
    show ?thesis
    proof (cases "mult - v mod mult > MaxUint64 - v")
      case True
      then have "2 ^ 64 \<le> ?v + (?m - ?v mod ?m)"
        using pad room unat_lt64[of v] by (simp add: word_less_nat_alt)
      moreover have "(?v + ?m - 1) div ?m = Suc (?v div ?m)" by (rule ceil_multiple[OF dec nz lt])
      ultimately show ?thesis using True False up by (simp add: roundUp_def Let_def)
    next
      case small: False
      then have "?v + (?m - ?v mod ?m) < 2 ^ 64"
        using pad room unat_lt64[of v] by (simp add: word_less_nat_alt)
      then have s: "unat (v + (mult - v mod mult)) = ?v + (?m - ?v mod ?m)"
        using unat_add_small[of v "mult - v mod mult"] pad by simp
      then have "unat (v + (mult - v mod mult)) = Suc (?v div ?m) * ?m" using up by simp
      then have "?m dvd unat (v + (mult - v mod mult))" by simp
      moreover have "roundUp v mult = Some (v + (mult - v mod mult))"
        using False small by (simp add: roundUp_def Let_def)
      ultimately show ?thesis using s nz lt by simp
    qed
  qed
qed

lemma roundUp_least_witness:
  "roundUp 5 4 = Some 8 \<and> roundUp (- 1) 4 = None \<and> unat (4 :: u64) dvd unat (8 :: u64)"
proof -
  have "roundUp 5 4 = Some 8" "roundUp (- 1) 4 = None" by code_simp+
  then show ?thesis using roundUp_least[of 4 5] by simp
qed

subsection \<open>What the driver holds for a virtual buffer\<close>

text \<open>
  The ledger of one virtual buffer with its handle, address and size: whether its physical memory is created, its address range reserved and the
  memory mapped there, as the successful calls in a log tell; and what makes a call legal: nothing is released
  that is not held, and in particular an address range is not freed while memory is mapped in it.
\<close>

type_synonym ledger = "bool \<times> bool \<times> bool"

fun vstep :: "u64 \<Rightarrow> u64 \<Rightarrow> u64 \<Rightarrow> ledger \<Rightarrow> logent \<Rightarrow> ledger" where
  "vstep hdl ptr siz (c, r, m) (t, call, code) =
     (if code \<noteq> CUDA_SUCCESS then (c, r, m)
      else if csym call = ''cuMemCreate'' then (True, r, m)
      else if csym call = ''cuMemAddressReserve'' then (c, True, m)
      else if csym call = ''cuMemMap'' then (c, r, True)
      else if call = CuMemRelease hdl then (False, r, m)
      else if call = CuMemAddressFree ptr siz then (c, False, m)
      else if call = CuMemUnmap ptr siz then (c, r, False)
      else (c, r, m))"

fun vlegal :: "u64 \<Rightarrow> u64 \<Rightarrow> u64 \<Rightarrow> ledger \<Rightarrow> logent \<Rightarrow> bool" where
  "vlegal hdl ptr siz (c, r, m) (t, call, code) =
     (if csym call = ''cuMemMap'' then c \<and> r \<and> \<not> m
      else if csym call = ''cuMemRelease'' then call = CuMemRelease hdl \<and> c
      else if csym call = ''cuMemAddressFree'' then call = CuMemAddressFree ptr siz \<and> r \<and> \<not> m
      else if csym call = ''cuMemUnmap'' then call = CuMemUnmap ptr siz \<and> m
      else True)"

fun vsafe :: "u64 \<Rightarrow> u64 \<Rightarrow> u64 \<Rightarrow> ledger \<Rightarrow> logent list \<Rightarrow> bool" where
  "vsafe hdl ptr siz st [] = True"
| "vsafe hdl ptr siz st (e # l) = (vlegal hdl ptr siz st e \<and> vsafe hdl ptr siz (vstep hdl ptr siz st e) l)"

definition vafter :: "u64 \<Rightarrow> u64 \<Rightarrow> u64 \<Rightarrow> ledger \<Rightarrow> logent list \<Rightarrow> ledger" where
  "vafter hdl ptr siz = foldl (vstep hdl ptr siz)"

lemma vafter_simps [simp]:
  "vafter hdl ptr siz st [] = st" "vafter hdl ptr siz st (e # l) = vafter hdl ptr siz (vstep hdl ptr siz st e) l"
  by (simp_all add: vafter_def)

definition undone :: "logent list \<Rightarrow> bool" where
  "undone l = (\<forall>(t, call, code) \<in> set l. csym call \<in> {''cuMemRelease'', ''cuMemAddressFree'', ''cuMemUnmap''} \<longrightarrow> code = CUDA_SUCCESS)"

text \<open>A bound entry point is called once, and succeeds if the call does.\<close>

lemma optional_traced:
  assumes "bound D (csym call)" and "optional (Some (traced D)) call f t w = (r, w')"
  obtains code where "snd w' = snd w @ [(t, call, code)]" "isl r \<longleftrightarrow> code \<noteq> CUDA_SUCCESS"
  using assms by (auto simp: optional_def traced_bound checked_call_traced Let_def check_def split: prod.splits if_splits)

lemmas vmm_wrappers = MemCreate_def MemAddressReserve_def MemMap_def MemSetAccess_def MemUnmap_def
  MemAddressFree_def MemRelease_def

lemmas vmm_calls = CuMemCreate_def CuMemAddressReserve_def CuMemMap_def CuMemSetAccess_def CuMemUnmap_def
  CuMemAddressFree_def CuMemRelease_def

lemma vmm_traced:
  assumes "vmmAvailable (Some D)"
  shows "MemCreate (Some (traced D)) siz prop t w = (r0, w') \<Longrightarrow>
      \<exists>code. snd w' = snd w @ [(t, CuMemCreate siz prop 0, code)] \<and> (isl r0 \<longleftrightarrow> code \<noteq> CUDA_SUCCESS)"
    "MemAddressReserve (Some (traced D)) siz al t w = (r0, w') \<Longrightarrow>
      \<exists>code. snd w' = snd w @ [(t, CuMemAddressReserve siz al 0 0, code)] \<and> (isl r0 \<longleftrightarrow> code \<noteq> CUDA_SUCCESS)"
    "MemMap (Some (traced D)) ptr siz hdl t w = (r1, w') \<Longrightarrow>
      \<exists>code. snd w' = snd w @ [(t, CuMemMap ptr siz 0 hdl 0, code)] \<and> (isl r1 \<longleftrightarrow> code \<noteq> CUDA_SUCCESS)"
    "MemSetAccess (Some (traced D)) ptr siz desc t w = (r1, w') \<Longrightarrow>
      \<exists>code. snd w' = snd w @ [(t, CuMemSetAccess ptr siz desc 1, code)] \<and> (isl r1 \<longleftrightarrow> code \<noteq> CUDA_SUCCESS)"
    "MemUnmap (Some (traced D)) ptr siz t w = (r1, w') \<Longrightarrow>
      \<exists>code. snd w' = snd w @ [(t, CuMemUnmap ptr siz, code)] \<and> (isl r1 \<longleftrightarrow> code \<noteq> CUDA_SUCCESS)"
    "MemAddressFree (Some (traced D)) ptr siz t w = (r1, w') \<Longrightarrow>
      \<exists>code. snd w' = snd w @ [(t, CuMemAddressFree ptr siz, code)] \<and> (isl r1 \<longleftrightarrow> code \<noteq> CUDA_SUCCESS)"
    "MemRelease (Some (traced D)) hdl t w = (r1, w') \<Longrightarrow>
      \<exists>code. snd w' = snd w @ [(t, CuMemRelease hdl, code)] \<and> (isl r1 \<longleftrightarrow> code \<noteq> CUDA_SUCCESS)"
  using assms unfolding vmm_wrappers
  by (auto simp: vmmAvailable_def vmm_calls elim!: optional_traced[rotated])

subsection \<open>Acquiring\<close>

text \<open>What an acquisition leaves: everything, or nothing unless undoing it failed too.\<close>

definition acquired :: "u64 \<Rightarrow> logent list \<Rightarrow> go_error + u64 \<times> u64 \<Rightarrow> logent list \<Rightarrow> bool" where
  "acquired siz l0 r l' = (\<exists>l hdl ptr. l' = l0 @ l \<and> vsafe hdl ptr siz (False, False, False) l \<and>
     (case r of Inr (p, h) \<Rightarrow> p = ptr \<and> h = hdl \<and> vafter hdl ptr siz (False, False, False) l = (True, True, True)
      | Inl e \<Rightarrow> undone l \<longrightarrow> vafter hdl ptr siz (False, False, False) l = (False, False, False)))"

lemma acquiredI:
  assumes "l' = l0 @ l" "vsafe hdl ptr siz (False, False, False) l"
    "case r of Inr (p, h) \<Rightarrow> p = ptr \<and> h = hdl \<and> vafter hdl ptr siz (False, False, False) l = (True, True, True)
      | Inl e \<Rightarrow> undone l \<longrightarrow> vafter hdl ptr siz (False, False, False) l = (False, False, False)"
  shows "acquired siz l0 r l'"
  using assms unfolding acquired_def by blast

text \<open>The undoing calls after a failed reservation, mapping or access change.\<close>

lemma acquire_access:
  assumes av: "vmmAvailable (Some D)" 
    and w3: "snd w3 = l0 @ [(t, CuMemCreate siz prop 0, CUDA_SUCCESS), (t, CuMemAddressReserve siz gran 0 0, CUDA_SUCCESS),
      (t, CuMemMap ptr siz 0 hdl 0, CUDA_SUCCESS)]"
    and run: "(case MemSetAccess (Some (traced D)) ptr siz (accessDesc h) t w3 of
           (Inl e, w4) \<Rightarrow> (case MemUnmap (Some (traced D)) ptr siz t w4 of (r1, w5) \<Rightarrow>
              if err_of r1 = None then
                (case MemAddressFree (Some (traced D)) ptr siz t w5 of (r2, w6) \<Rightarrow>
                  (case MemRelease (Some (traced D)) hdl t w6 of (r3, w7) \<Rightarrow>
                    (joined [Some e, err_of r1, err_of r2, err_of r3], w7)))
              else (case MemRelease (Some (traced D)) hdl t w5 of (r3, w6) \<Rightarrow> (joined [Some e, err_of r1, err_of r3], w6)))
         | (Inr _, w4) \<Rightarrow> (Inr (ptr, hdl), w4)) = (r, w')"
  shows "acquired siz l0 r (snd w')"
proof -
  note T = vmm_traced[OF av]
  obtain r4 w4 where 4: "MemSetAccess (Some (traced D)) ptr siz (accessDesc h) t w3 = (r4, w4)" by (rule prod.exhaust)
  then obtain c4 where l4: "snd w4 = snd w3 @ [(t, CuMemSetAccess ptr siz (accessDesc h) 1, c4)]" and i4: "isl r4 \<longleftrightarrow> c4 \<noteq> CUDA_SUCCESS"
    using T(4) by blast
  show ?thesis
  proof (cases r4)
    case (Inr u)
    then show ?thesis using run 4 l4 w3 i4
      by (intro acquiredI[where l = "drop (length l0) (snd w4)" and hdl = hdl and ptr = ptr]) (auto simp: vmm_calls)
  next
    case (Inl e)
    obtain r5 w5 where 5: "MemUnmap (Some (traced D)) ptr siz t w4 = (r5, w5)" by (rule prod.exhaust)
    then obtain c5 where l5: "snd w5 = snd w4 @ [(t, CuMemUnmap ptr siz, c5)]" and i5: "isl r5 \<longleftrightarrow> c5 \<noteq> CUDA_SUCCESS"
      using T(5) by blast
    show ?thesis
    proof (cases r5)
      case e5: (Inl _)
      obtain r6 w6 where 6: "MemRelease (Some (traced D)) hdl t w5 = (r6, w6)" by (rule prod.exhaust)
      then obtain c6 where l6: "snd w6 = snd w5 @ [(t, CuMemRelease hdl, c6)]" using T(7) by blast
      show ?thesis using run Inl 4 5 6 l4 l5 l6 w3 i4 i5 e5
        by (intro acquiredI[where l = "drop (length l0) (snd w6)" and hdl = hdl and ptr = ptr])
          (auto simp: vmm_calls undone_def joined_def err_of_def)
    next
      case (Inr _)
      obtain r6 w6 where 6: "MemAddressFree (Some (traced D)) ptr siz t w5 = (r6, w6)" by (rule prod.exhaust)
      then obtain c6 where l6: "snd w6 = snd w5 @ [(t, CuMemAddressFree ptr siz, c6)]" using T(6) by blast
      obtain r7 w7 where 7: "MemRelease (Some (traced D)) hdl t w6 = (r7, w7)" by (rule prod.exhaust)
      then obtain c7 where l7: "snd w7 = snd w6 @ [(t, CuMemRelease hdl, c7)]" using T(7) by blast
      show ?thesis using run Inl 4 5 6 7 l4 l5 l6 l7 w3 i4 i5 Inr
        by (intro acquiredI[where l = "drop (length l0) (snd w7)" and hdl = hdl and ptr = ptr])
          (auto simp: vmm_calls undone_def joined_def err_of_def)
    qed
  qed
qed

lemma acquireVirtual_traced:
  assumes av: "vmmAvailable (Some D)" and run: "acquireVirtual (Some (traced D)) h siz gran prop t w = (r, w')"
  shows "acquired siz (snd w) r (snd w')"
proof -
  note T = vmm_traced[OF av]
  obtain r1 w1 where 1: "MemCreate (Some (traced D)) siz prop t w = (r1, w1)" by (rule prod.exhaust)
  then obtain c1 where l1: "snd w1 = snd w @ [(t, CuMemCreate siz prop 0, c1)]" and i1: "isl r1 \<longleftrightarrow> c1 \<noteq> CUDA_SUCCESS"
    using T(1) by blast
  show ?thesis
  proof (cases r1)
    case (Inl e)
    then show ?thesis using run 1 l1 i1
      by (intro acquiredI[where l = "[(t, CuMemCreate siz prop 0, c1)]"]) (auto simp: acquireVirtual_def vmm_calls)
  next
    case h: (Inr hdl)
    obtain r2 w2 where 2: "MemAddressReserve (Some (traced D)) siz gran t w1 = (r2, w2)" by (rule prod.exhaust)
    then obtain c2 where l2: "snd w2 = snd w1 @ [(t, CuMemAddressReserve siz gran 0 0, c2)]" and i2: "isl r2 \<longleftrightarrow> c2 \<noteq> CUDA_SUCCESS"
      using T(2) by blast
    show ?thesis
    proof (cases r2)
      case (Inl e)
      obtain r3 w3 where 3: "MemRelease (Some (traced D)) hdl t w2 = (r3, w3)" by (rule prod.exhaust)
      then obtain c3 where l3: "snd w3 = snd w2 @ [(t, CuMemRelease hdl, c3)]" using T(7) by blast
      show ?thesis using run 1 2 3 l1 l2 l3 i1 i2 h Inl
        by (intro acquiredI[where l = "drop (length (snd w)) (snd w3)" and hdl = hdl])
          (auto simp: acquireVirtual_def vmm_calls undone_def joined_def)
    next
      case p: (Inr ptr)
      obtain r3 w3 where 3: "MemMap (Some (traced D)) ptr siz hdl t w2 = (r3, w3)" by (rule prod.exhaust)
      then obtain c3 where l3: "snd w3 = snd w2 @ [(t, CuMemMap ptr siz 0 hdl 0, c3)]" and i3: "isl r3 \<longleftrightarrow> c3 \<noteq> CUDA_SUCCESS"
        using T(3) by blast
      show ?thesis
      proof (cases r3)
        case (Inl e)
        obtain r4 w4 where 4: "MemAddressFree (Some (traced D)) ptr siz t w3 = (r4, w4)" by (rule prod.exhaust)
        then obtain c4 where l4: "snd w4 = snd w3 @ [(t, CuMemAddressFree ptr siz, c4)]" using T(6) by blast
        obtain r5 w5 where 5: "MemRelease (Some (traced D)) hdl t w4 = (r5, w5)" by (rule prod.exhaust)
        then obtain c5 where l5: "snd w5 = snd w4 @ [(t, CuMemRelease hdl, c5)]" using T(7) by blast
        show ?thesis using run 1 2 3 4 5 l1 l2 l3 l4 l5 i1 i2 i3 h p Inl
          by (intro acquiredI[where l = "drop (length (snd w)) (snd w5)" and hdl = hdl and ptr = ptr])
            (auto simp: acquireVirtual_def vmm_calls undone_def joined_def)
      next
        case (Inr u)
        show ?thesis
          by (rule acquire_access[OF av, where hdl = hdl and ptr = ptr])
            (use run 1 2 3 l1 l2 l3 i1 i2 i3 h p Inr in \<open>auto simp: acquireVirtual_def\<close>)
      qed
    qed
  qed
qed

text \<open>
  C12. Acquiring virtual memory is all or nothing: whatever the driver answers, a successful acquisition holds the created memory,
  the reserved range and the mapping it returns; a failed one has undone what it did, in the reverse order, unless an undoing call failed
  itself; nothing is released that is not held, and an address range is never freed while memory may still be mapped in it.
\<close>

theorem acquireVirtual_rollback:
  assumes "vmmAvailable (Some D)" and "acquireVirtual (Some (traced D)) h siz gran prop t w = (r, w')"
  shows "\<exists>l hdl ptr. snd w' = snd w @ l \<and> vsafe hdl ptr siz (False, False, False) l \<and>
    (case r of
       Inr (p, hd') \<Rightarrow> p = ptr \<and> hd' = hdl \<and> vafter hdl ptr siz (False, False, False) l = (True, True, True)
     | Inl e \<Rightarrow> undone l \<longrightarrow> vafter hdl ptr siz (False, False, False) l = (False, False, False))"
  using acquireVirtual_traced[OF assms] unfolding acquired_def .

text \<open>A driver that refuses every call of one entry point.\<close>

definition refusing :: "string \<Rightarrow> unit Driver" where
  "refusing nm = okDriver\<lparr>invoke := (\<lambda>c t w. if csym c = nm then ((1, \<lparr>o0 = 0, o1 = 0, obuf = []\<rparr>), w) else invoke okDriver c t w)\<rparr>"

lemma vmmAvailable_refusing: "vmmAvailable (Some (refusing nm))"
  by (simp add: vmmAvailable_def refusing_def)

lemma acquireVirtual_rollback_witness:
  "isl (fst (acquireVirtual (Some (traced (refusing ''cuMemSetAccess''))) 0 64 64 (memProp 0) 1 ((), []))) \<and>
   (\<exists>l hdl ptr. snd (snd (acquireVirtual (Some (traced (refusing ''cuMemSetAccess''))) 0 64 64 (memProp 0) 1 ((), []))) = l \<and>
     length l = 7 \<and> vsafe hdl ptr 64 (False, False, False) l \<and> vafter hdl ptr 64 (False, False, False) l = (False, False, False))"
proof -
  let ?r = "acquireVirtual (Some (traced (refusing ''cuMemSetAccess''))) 0 64 64 (memProp 0) 1 ((), [])"
  have e: "isl (fst ?r)" by code_simp
  have len: "length (snd (snd ?r)) = 7" by code_simp
  have u: "undone (snd (snd ?r))" by code_simp
  have p: "?r = (fst ?r, snd ?r)" by simp
  obtain e' where "fst ?r = Inl e'" using e by (cases "fst ?r") auto
  then show ?thesis using acquireVirtual_rollback[OF vmmAvailable_refusing p] u e len by auto
qed

subsection \<open>Closing\<close>

definition vflags :: "VirtualBuffer \<Rightarrow> ledger" where
  "vflags b = (vbcreated b, vbreserved b, vbmapped b)"

abbreviation bsafe :: "VirtualBuffer \<Rightarrow> logent list \<Rightarrow> bool" where
  "bsafe b \<equiv> vsafe (vbhandle b) (vbptr b) (vbsize b) (vflags b)"

abbreviation bafter :: "VirtualBuffer \<Rightarrow> logent list \<Rightarrow> ledger" where
  "bafter b \<equiv> vafter (vbhandle b) (vbptr b) (vbsize b) (vflags b)"

lemma vsafe_append: "vsafe hdl ptr siz st (l @ l') \<longleftrightarrow> vsafe hdl ptr siz st l \<and> vsafe hdl ptr siz (vafter hdl ptr siz st l) l'"
  by (induction l arbitrary: st) auto

lemma vafter_append: "vafter hdl ptr siz st (l @ l') = vafter hdl ptr siz (vafter hdl ptr siz st l) l'"
  by (simp add: vafter_def)

lemma vstep_undo:
  "vstep hdl ptr siz (c, r, m) (t, CuMemUnmap ptr siz, code) = (c, r, m \<and> code \<noteq> CUDA_SUCCESS)"
  "vstep hdl ptr siz (c, r, m) (t, CuMemRelease hdl, code) = (c \<and> code \<noteq> CUDA_SUCCESS, r, m)"
  "vstep hdl ptr siz (c, r, m) (t, CuMemAddressFree ptr siz, code) = (c, r \<and> code \<noteq> CUDA_SUCCESS, m)"
  "vlegal hdl ptr siz (c, r, m) (t, CuMemUnmap ptr siz, code) = m"
  "vlegal hdl ptr siz (c, r, m) (t, CuMemRelease hdl, code) = c"
  "vlegal hdl ptr siz (c, r, m) (t, CuMemAddressFree ptr siz, code) = (r \<and> \<not> m)"
  by (simp_all add: vmm_calls)

lemma tryFree_traced:
  assumes "tryFree live errs opn t w = ((live', errs'), w')"
    and "\<And>r w'. opn t w = (r, w') \<Longrightarrow> \<exists>code. snd w' = snd w @ [(t, call, code)] \<and> (isl r \<longleftrightarrow> code \<noteq> CUDA_SUCCESS)"
  obtains more l where "errs' = errs @ more" "more = [] \<longleftrightarrow> \<not> live'" "snd w' = snd w @ l"
    "if live then \<exists>code. l = [(t, call, code)] \<and> (live' \<longleftrightarrow> code \<noteq> CUDA_SUCCESS) else l = [] \<and> \<not> live'"
proof (cases live)
  case False
  then show ?thesis using assms(1) by (intro that[of "[]" "[]"]) (auto simp: tryFree_def)
next
  case True
  obtain r w1 where o: "opn t w = (r, w1)" by (rule prod.exhaust)
  from assms(2)[OF o] obtain code where "snd w1 = snd w @ [(t, call, code)]" "isl r \<longleftrightarrow> code \<noteq> CUDA_SUCCESS" by blast
  then show ?thesis using True assms(1) o
    by (cases r) (auto simp: tryFree_def intro: that[of "[_]"] that[of "[]"])
qed

lemma nested_pair: obtains a b c where "x = ((a, b), c)"
  by (cases x; cases "fst x") auto

lemma closeVirtual_traced:
  assumes av: "vmmAvailable (Some D)" and run: "closeVirtualJob (Some (traced D)) b t w = (r, w')"
  shows "\<exists>l mapped reserved created errs. r = Inr (mapped, reserved, created, errs) \<and> snd w' = snd w @ l \<and>
    bsafe b l \<and> bafter b l = (created, reserved, mapped) \<and> (errs = [] \<longleftrightarrow> \<not> mapped \<and> \<not> reserved \<and> \<not> created)"
proof -
  note T = vmm_traced[OF av]
  obtain m e1 w1 where 1: "tryFree (vbmapped b) [] (MemUnmap (Some (traced D)) (vbptr b) (vbsize b)) t w = ((m, e1), w1)"
    by (rule nested_pair)
  obtain l1 where x1: "e1 = [] \<longleftrightarrow> \<not> m" "snd w1 = snd w @ l1"
    "if vbmapped b then \<exists>code. l1 = [(t, CuMemUnmap (vbptr b) (vbsize b), code)] \<and> (m \<longleftrightarrow> code \<noteq> CUDA_SUCCESS) else l1 = [] \<and> \<not> m"
    by (rule tryFree_traced[OF 1 T(5)]) auto
  obtain c e2 w2 where 2: "tryFree (vbcreated b) e1 (MemRelease (Some (traced D)) (vbhandle b)) t w1 = ((c, e2), w2)"
    by (rule nested_pair)
  obtain l2 where x2: "e2 = [] \<longleftrightarrow> \<not> m \<and> \<not> c" "snd w2 = snd w1 @ l2"
    "if vbcreated b then \<exists>code. l2 = [(t, CuMemRelease (vbhandle b), code)] \<and> (c \<longleftrightarrow> code \<noteq> CUDA_SUCCESS) else l2 = [] \<and> \<not> c"
    by (rule tryFree_traced[OF 2 T(7)]) (use x1(1) in auto)
  have s1: "bsafe b l1" "bafter b l1 = (vbcreated b, vbreserved b, m)"
    using x1(3) by (auto simp: vflags_def vstep_undo simp del: vstep.simps vlegal.simps split: if_splits)
  have s2: "vsafe (vbhandle b) (vbptr b) (vbsize b) (vbcreated b, vbreserved b, m) l2"
    "vafter (vbhandle b) (vbptr b) (vbsize b) (vbcreated b, vbreserved b, m) l2 = (c, vbreserved b, m)"
    using x2(3) by (auto simp: vstep_undo simp del: vstep.simps vlegal.simps split: if_splits)
  have s12: "snd w2 = snd w @ l1 @ l2" "bsafe b (l1 @ l2)" "bafter b (l1 @ l2) = (c, vbreserved b, m)"
    using x1(2) x2(2) s1 s2 by (simp_all add: vsafe_append vafter_append)
  show ?thesis
  proof (cases m)
    case True
    then have "r = Inr (m, vbreserved b, c, e2)" "w' = w2" using run 1 2 by (auto simp: closeVirtualJob_def)
    with s12 x2(1) True show ?thesis by blast
  next
    case False
    obtain a e3 w3 where 3: "tryFree (vbreserved b) e2 (MemAddressFree (Some (traced D)) (vbptr b) (vbsize b)) t w2 = ((a, e3), w3)"
      by (rule nested_pair)
    obtain l3 where x3: "e3 = [] \<longleftrightarrow> \<not> m \<and> \<not> a \<and> \<not> c" "snd w3 = snd w2 @ l3"
      "if vbreserved b then \<exists>code. l3 = [(t, CuMemAddressFree (vbptr b) (vbsize b), code)] \<and> (a \<longleftrightarrow> code \<noteq> CUDA_SUCCESS) else l3 = [] \<and> \<not> a"
      by (rule tryFree_traced[OF 3 T(6)]) (use x2(1) in auto)
    have r: "r = Inr (m, a, c, e3)" "w' = w3" using run 1 2 3 False by (auto simp: closeVirtualJob_def)
    have s3: "vsafe (vbhandle b) (vbptr b) (vbsize b) (c, vbreserved b, m) l3"
      "vafter (vbhandle b) (vbptr b) (vbsize b) (c, vbreserved b, m) l3 = (c, a, m)"
      using x3(3) False by (auto simp: vstep_undo simp del: vstep.simps vlegal.simps split: if_splits)
    have "snd w3 = snd w @ (l1 @ l2) @ l3" "bsafe b ((l1 @ l2) @ l3)" "bafter b ((l1 @ l2) @ l3) = (c, a, m)"
      using x3(2) s12 s3 by (simp_all only: vsafe_append vafter_append append_assoc)
    with r x3(1) show ?thesis by blast
  qed
qed

text \<open>
  C11. Closing a virtual buffer can be retried without harm: a \<^verbatim>\<open>Close\<close> that reaches the driver unmaps, releases and frees only what
  its flags say is still held, never frees the address range while the memory is mapped, and afterwards the
  flags say exactly what is still held according to the calls that succeeded; it reports success, and the buffer
  is closed, exactly when nothing is held any more. A \<^verbatim>\<open>Close\<close> that could not be dispatched changes no buffer.
\<close>

theorem Virtual_Close_retry:
  assumes "vmmAvailable (Some D)" and "drv_of (octx (virtuals s i)) s = Some (traced D)"
    and "\<not> oclosed (virtuals s i)" and "Virtual_Close (Some i) s = (r, s')"
  shows "(\<exists>e. r = Inl e \<and> virtuals s' = virtuals s \<and>
       fst (doBarrier (Some (octx (virtuals s i))) bg (closeVirtualJob (Some (traced D)) (virtuals s i)) (sy s)) = Inl e) \<or>
    (\<exists>l0 l. log_of (sy s') = l0 @ l \<and> bsafe (virtuals s i) l \<and>
       vflags (virtuals s' i) = bafter (virtuals s i) l \<and>
       (r = Inr ()) = (vflags (virtuals s' i) = (False, False, False)) \<and> oclosed (virtuals s' i) = (r = Inr ()) \<and>
       (\<forall>j. j = i \<or> virtuals s' j = virtuals s j))"
proof -
  let ?b = "virtuals s i"
  let ?job = "closeVirtualJob (Some (traced D)) ?b"
  obtain v y where d: "doBarrier (Some (octx ?b)) bg ?job (sy s) = (v, y)" by (rule prod.exhaust)
  show ?thesis
  proof (cases v)
    case (Inl e)
    then show ?thesis using assms d by (auto simp: Virtual_Close_def lift_op_def)
  next
    case (Inr x)
    obtain t w where run: "?job t w = (Inr x, world y)" using do_reports(3)[OF d[unfolded Inr]] by (auto simp: ran_def)
    obtain l mapped reserved created errs where x: "x = (mapped, reserved, created, errs)" and l: "log_of y = snd w @ l"
      and safe: "bsafe ?b l" and after: "bafter ?b l = (created, reserved, mapped)"
      and e: "errs = [] \<longleftrightarrow> \<not> mapped \<and> \<not> reserved \<and> \<not> created"
      using closeVirtual_traced[OF assms(1) run] unfolding sum.inject by blast
    let ?b1 = "?b\<lparr>vbmapped := mapped, vbreserved := reserved, vbcreated := created\<rparr>"
    have s': "sy s' = y" "virtuals s' = (virtuals s)(i := ?b1\<lparr>oclosed := (errs = [])\<rparr>)" "(r = Inr ()) = (errs = [])"
      using assms(2-4) d Inr x
      by (auto simp: Virtual_Close_def lift_op_def Let_def joined_def split: if_splits intro!: VirtualBuffer.equality)
    show ?thesis using s' l safe after e by (intro disjI2 exI[of _ "snd w"] exI[of _ l]) (auto simp: vflags_def)
  qed
qed

text \<open>A virtual buffer whose address range the driver refuses to free: the first close leaves only the range.\<close>

definition rt_stuck :: "unit tw rt" where
  "rt_stuck = rt0 (snd (Primary (Some dev0) (sys0 (traced (refusing ''cuMemAddressFree'')) ((), []))))"

definition stuck_buffer :: VirtualBuffer where
  "stuck_buffer = \<lparr>octx = 0, oclosed = False, vbptr = 7, vbhandle = 7, vbsize = 64, vblength = 3, vbbytes = 3,
     vbmapped = True, vbreserved = True, vbcreated = True, vbelem = Uint8\<rparr>"

definition stuck :: "unit tw rt" where
  "stuck = virtuals_update (\<lambda>f. f(0 := stuck_buffer)) rt_stuck"

lemma stuck_driver: "drv_of 0 stuck = Some (traced (refusing ''cuMemAddressFree''))"
proof -
  let ?s = "sys0 (traced (refusing ''cuMemAddressFree'')) ((), [])"
  have p: "Primary (Some dev0) ?s = (fst (Primary (Some dev0) ?s), snd (Primary (Some dev0) ?s))" by simp
  have "bound_inv (refusing ''cuMemAddressFree'') (snd (Primary (Some dev0) ?s))"
    using Primary_traced[OF start_inv(1) _ p] by (simp add: refusing_def)
  moreover have "nctxs (snd (Primary (Some dev0) ?s)) = 1" by code_simp
  ultimately have "driver (ctxs (snd (Primary (Some dev0) ?s)) 0) = Some (traced (refusing ''cuMemAddressFree''))"
    by (intro bound_inv_driver) simp_all
  then show ?thesis by (simp add: stuck_def drv_of_def rt_stuck_def rt0_def)
qed

lemma Virtual_Close_retry_witness:
  "\<exists>l0 l. log_of (sy (snd (Virtual_Close (Some 0) stuck))) = l0 @ l \<and> bsafe stuck_buffer l \<and>
     bafter stuck_buffer l = (False, True, False)"
proof -
  let ?r = "Virtual_Close (Some 0) stuck"
  have b: "virtuals stuck 0 = stuck_buffer" by (simp add: stuck_def)
  have d: "drv_of (octx (virtuals stuck 0)) stuck = Some (traced (refusing ''cuMemAddressFree''))"
    using stuck_driver by (simp add: b stuck_buffer_def)
  have o: "\<not> oclosed (virtuals stuck 0)" by (simp add: b stuck_buffer_def)
  have f: "vflags (virtuals (snd ?r) 0) = (False, True, False)" by code_simp
  then have n: "virtuals (snd ?r) \<noteq> virtuals stuck" by (auto simp: b vflags_def stuck_buffer_def)
  have p: "?r = (fst ?r, snd ?r)" by simp
  from Virtual_Close_retry[OF vmmAvailable_refusing d o p] n f show ?thesis unfolding b by metis
qed

end
