(* ===== verification/RoundTrip.thy ===== *)
theory RoundTrip
  imports BufferProps
begin

section \<open>What is copied to a buffer is read back from it\<close>

subsection \<open>Copy jobs in sequence\<close>

text \<open>A copy that succeeded leaves its executor idle: the next copy starts in the state it left.\<close>

lemma copyExecutor_driver: "copyExecutor c s = (r, s') \<Longrightarrow> driver (ctxs s' c) = driver (ctxs s c)"
  by (auto simp: copyExecutor_def split: option.splits prod.splits sum.splits simp: newExecutor_frame)

lemma doCopyJob_idle:
  assumes "doCopyJob (Some c) ctx job s = (Inr v, s')"
  obtains x where "copyExec (ctxs s' c) = Some x" "xqueue x = []" "driver (ctxs s' c) = driver (ctxs s c)"
  using assms
  by (auto simp: doCopyJob_def Let_def on_copy_def xrun_def ctx_Err_def split: option.splits if_splits prod.splits sum.splits
      dest!: copyExecutor_driver dest: DoJob_accepted_drains)

lemma doCopyJob_next:
  assumes "doCopyJob (Some c) ctx job s = (Inr v, s')" and "copyExec (ctxs s c) = Some x" and "xqueue x = []"
  shows "job (xtid x) (world s) = (Inr v, world s')"
  using assms
  by (auto simp: doCopyJob_def Let_def on_copy_def xrun_def ctx_Err_def copyExecutor_def xops run_queue_def
      split: option.splits if_splits prod.splits sum.splits)

subsection \<open>Device memory\<close>

text \<open>
  What the CUDA documentation says of the two synchronous copies, for \<open>rd w p n\<close> the \<open>n\<close> bytes of device memory from address \<open>p\<close> on:
  after a successful copy to the device that memory holds the copied bytes, and a successful copy to the
  host delivers what that memory holds.
\<close>

definition device_memory :: "'w Driver \<Rightarrow> ('w \<Rightarrow> u64 \<Rightarrow> u64 \<Rightarrow> u8 list) \<Rightarrow> bool" where
  "device_memory D rd \<longleftrightarrow>
     (\<forall>dst data n t w r w'. invoke D (CuMemcpyHtoD dst (HGo data) n) t w = ((CUDA_SUCCESS, r), w') \<and> unat n = length data \<longrightarrow>
        rd w' dst n = data) \<and>
     (\<forall>src data n t w r w'. invoke D (CuMemcpyDtoH (HGo data) src n) t w = ((CUDA_SUCCESS, r), w') \<and> unat n = length data \<longrightarrow>
        obuf r = rd w src n)"

lemma MemcpyHtoD_stores:
  assumes "device_memory D rd" and "no_bytes (MemcpyHtoD (Some D) dst (HGo data) n) t w = (Inr v, w')" and "unat n = length data"
  shows "rd w' dst n = data"
  using assms by (auto simp: no_bytes_def andThen_def ret_def MemcpyHtoD_def device_memory_def split: prod.splits sum.splits dest!: required_ran)

lemma MemcpyDtoH_loads:
  assumes "device_memory D rd" and "MemcpyDtoH (Some D) (HGo data) src n t w = (Inr v, w')" and "unat n = length data"
  shows "v = rd w src n"
proof -
  obtain r where "invoke D (CuMemcpyDtoH (HGo data) src n) t w = ((CUDA_SUCCESS, r), w')" "v = obuf r"
    using assms(2) by (auto simp: MemcpyDtoH_def dest!: required_ran)
  with assms(1,3) show ?thesis unfolding device_memory_def by blast
qed

lemma copy_and_back:
  assumes D: "device_memory D rd" "driver (ctxs s c) = Some D"
    and w: "doCopyJob (Some c) ctx (no_bytes (MemcpyHtoD (driver (ctxs s c)) p (HGo data) n)) s = (Inr u, s1)"
    and r: "doCopyJob (Some c) ctx' (MemcpyDtoH (driver (ctxs s1 c)) (HGo data') p n) s1 = (Inr out, s2)"
    and n: "unat n = length data" "unat n = length data'"
  shows "out = data"
proof -
  obtain x where x: "copyExec (ctxs s1 c) = Some x" "xqueue x = []" "driver (ctxs s1 c) = Some D"
    using doCopyJob_idle[OF w] D(2) by metis
  have "rd (world s1) p n = data"
    using rep_copy.reports[OF w] MemcpyHtoD_stores[OF D(1) _ n(1)] D(2) by (auto simp: ran_def)
  moreover have "out = rd (world s1) p n"
    using MemcpyDtoH_loads[OF D(1) _ n(2)] doCopyJob_next[OF r x(1,2)] x(3) by auto
  ultimately show ?thesis by simp
qed

text \<open>
  C9. What is copied into a buffer is read back: on a device with memory, a \<^verbatim>\<open>CopyTo\<close> after a \<^verbatim>\<open>CopyFrom\<close>, of the whole buffer or
  of the same range of it, delivers exactly the bytes that were copied in, whatever contexts cancel the calls and whether or not the copy
  executor had to be started for them.
\<close>

theorem CopyFrom_CopyTo:
  assumes "device_memory D rd" and "drv_of (octx (buffers s i)) s = Some D" and "wf_buffer (buffers s i)"
    and "goslice_of (belem (buffers s i)) xs" and "goslice_of (belem (buffers s i)) ys"
    and "(Buffer_CopyFrom (Some i) ctx xs s, Buffer_CopyTo (Some i) ctx' ys s1) = ((Inr (), s1), (Inr out, s2)) \<or>
      length ys = length xs \<and>
      (Buffer_CopyFromAt (Some i) ctx off xs s, Buffer_CopyToAt (Some i) ctx' ys off s1) = ((Inr (), s1), (Inr out, s2))"
  shows "out = slice_bytes xs"
proof -
  let ?b = "buffers s i"
  let ?c = "octx ?b"
  have D: "driver (ctxs (sy s) ?c) = Some D" using assms(2) by (simp add: drv_of_def)
  have "\<exists>p n u y y2. doCopyJob (Some ?c) ctx (no_bytes (MemcpyHtoD (driver (ctxs (sy s) ?c)) p (HGo (slice_bytes xs)) n)) (sy s) = (Inr u, y) \<and>
     doCopyJob (Some ?c) ctx' (MemcpyDtoH (driver (ctxs y ?c)) (HGo (slice_bytes ys)) p n) y = (Inr out, y2) \<and>
     unat n = length (slice_bytes xs) \<and> unat n = length (slice_bytes ys)"
    using assms(6)
  proof
    assume a: "(Buffer_CopyFrom (Some i) ctx xs s, Buffer_CopyTo (Some i) ctx' ys s1) = ((Inr (), s1), (Inr out, s2))"
    then have l: "len xs = blength ?b"
      by (auto simp: Buffer_CopyFrom_def Let_def split: if_splits)
    obtain u y where w: "doCopyJob (Some ?c) ctx (no_bytes (MemcpyHtoD (driver (ctxs (sy s) ?c)) (bptr ?b) (HGo (slice_bytes xs)) (bbytes ?b))) (sy s) = (Inr u, y)"
      and s1: "s1 = s\<lparr>sy := y\<rparr>"
      using a by (auto simp: Buffer_CopyFrom_def Let_def no_value_Inr pooled_copies lift_op_def split: if_splits prod.splits)
    obtain y2 where r: "doCopyJob (Some ?c) ctx' (MemcpyDtoH (driver (ctxs y ?c)) (HGo (slice_bytes ys)) (bptr ?b) (bbytes ?b)) y = (Inr out, y2)"
      and ly: "len ys = blength ?b"
      using a by (auto simp: Buffer_CopyTo_def Let_def s1 pooled_copies lift_op_def split: if_splits prod.splits)
    have "unat (bbytes ?b) = length (slice_bytes zs)" if "goslice_of (belem ?b) zs" "len zs = blength ?b" for zs
      using assms(3) that unat_len[OF that(1)] by (simp add: wf_buffer_def goslice_bytes)
    then show ?thesis using w r l ly assms(4,5) by blast
  next
    assume a: "length ys = length xs \<and>
      (Buffer_CopyFromAt (Some i) ctx off xs s, Buffer_CopyToAt (Some i) ctx' ys off s1) = ((Inr (), s1), (Inr out, s2))"
    then have chk: "0 \<le> sint off" "len xs \<noteq> 0" "sint off \<le> sint (blength ?b - len xs)"
      by (auto simp: Buffer_CopyFromAt_def Let_def not_less split: if_splits)
    let ?n = "len xs * elemSize (belem ?b)"
    have ly: "len ys = len xs" using a by (simp add: len_def)
    obtain u y where w: "doCopyJob (Some ?c) ctx (no_bytes (MemcpyHtoD (driver (ctxs (sy s) ?c)) (offsetPtr ?b off) (HGo (slice_bytes xs)) ?n)) (sy s) = (Inr u, y)"
      and s1: "s1 = s\<lparr>sy := y\<rparr>"
      using a by (auto simp: Buffer_CopyFromAt_def Let_def no_value_Inr pooled_copies lift_op_def split: if_splits prod.splits)
    obtain y2 where r: "doCopyJob (Some ?c) ctx' (MemcpyDtoH (driver (ctxs y ?c)) (HGo (slice_bytes ys)) (offsetPtr ?b off) ?n) y = (Inr out, y2)"
      using a ly by (auto simp: Buffer_CopyToAt_def Let_def s1 pooled_copies lift_op_def split: if_splits prod.splits)
    have "unat ?n = length (slice_bytes xs)" by (rule goslice_range(2)[OF assms(3,4) chk])
    moreover from this have "unat ?n = length (slice_bytes ys)" using goslice_bytes[OF assms(4)] goslice_bytes[OF assms(5)] a by simp
    ultimately show ?thesis using w r by blast
  qed
  then show ?thesis using copy_and_back[OF assms(1) D] by blast
qed

text \<open>A device whose state is its memory; every other call succeeds and does nothing.\<close>

definition rd_mem :: "(u64 \<Rightarrow> u8) \<Rightarrow> u64 \<Rightarrow> u64 \<Rightarrow> u8 list" where
  "rd_mem m p n = map (\<lambda>k. m (p + of_nat k)) [0..<unat n]"

definition wr_mem :: "(u64 \<Rightarrow> u8) \<Rightarrow> u64 \<Rightarrow> u8 list \<Rightarrow> u64 \<Rightarrow> u8" where
  "wr_mem m p data = (\<lambda>a. if unat (a - p) < length data then data ! unat (a - p) else m a)"

definition memDriver :: "(u64 \<Rightarrow> u8) Driver" where
  "memDriver = \<lparr>bound = (\<lambda>_. True), invoke = (\<lambda>call t m.
     if csym call = ''cuMemcpyHtoD_v2'' then
       ((CUDA_SUCCESS, \<lparr>o0 = 0, o1 = 0, obuf = []\<rparr>), wr_mem m (cargs call ! 0) (cbufs call ! 0))
     else if csym call = ''cuMemcpyDtoH_v2'' then
       ((CUDA_SUCCESS, \<lparr>o0 = 0, o1 = 0, obuf = rd_mem m (cargs call ! 1) (cargs call ! 2)\<rparr>), m)
     else ((CUDA_SUCCESS, \<lparr>o0 = 7, o1 = 9, obuf = []\<rparr>), m))\<rparr>"

lemma rd_wr_mem:
  assumes "unat n = length data"
  shows "rd_mem (wr_mem m p data) p n = data"
proof (rule nth_equalityI)
  show "length (rd_mem (wr_mem m p data) p n) = length data" using assms by (simp add: rd_mem_def)
  fix k assume "k < length (rd_mem (wr_mem m p data) p n)"
  then have k: "k < length data" "k < 2 ^ 64" using assms unat_lt64[of n] by (simp_all add: rd_mem_def)
  then have "unat (of_nat k :: u64) = k" by (simp add: unsigned_of_nat take_bit_nat_eq_self)
  then show "rd_mem (wr_mem m p data) p n ! k = data ! k"
    using k assms by (simp add: rd_mem_def wr_mem_def)
qed

lemma memDriver_memory: "device_memory (traced memDriver) (\<lambda>w. rd_mem (fst w))"
  by (auto simp: device_memory_def traced_def memDriver_def CuMemcpyHtoD_def CuMemcpyDtoH_def rd_wr_mem split: prod.splits)

definition mem_rt :: "(u64 \<Rightarrow> u8) tw rt" where
  "mem_rt = buffers_update (\<lambda>f. f(0 := mkBuffer 0 Float32 2 8 64))
     (rt0 (snd (Primary (Some dev0) (sys0 (traced memDriver) ((\<lambda>_. 0), [])))))"

lemma mem_rt_driver: "drv_of 0 mem_rt = Some (traced memDriver)"
proof -
  let ?s = "sys0 (traced memDriver) ((\<lambda>_. 0), [])"
  have p: "Primary (Some dev0) ?s = (fst (Primary (Some dev0) ?s), snd (Primary (Some dev0) ?s))" by simp
  have "bound_inv memDriver (snd (Primary (Some dev0) ?s))"
    using Primary_traced[OF start_inv(1) _ p] by (simp add: memDriver_def)
  moreover have "nctxs (snd (Primary (Some dev0) ?s)) = 1" by code_simp
  ultimately have "driver (ctxs (snd (Primary (Some dev0) ?s)) 0) = Some (traced memDriver)"
    by (intro bound_inv_driver) simp_all
  then show ?thesis by (simp add: mem_rt_def drv_of_def rt0_def)
qed

lemma CopyFrom_CopyTo_witness:
  "\<exists>s1 s2. Buffer_CopyFrom (Some 0) bg two_floats mem_rt = (Inr (), s1) \<and>
     Buffer_CopyTo (Some 0) bg [[0, 0, 0, 0], [0, 0, 0, 0]] s1 = (Inr [1, 2, 3, 4, 5, 6, 7, 8], s2)"
proof -
  let ?ys = "[[0, 0, 0, 0], [0, 0, 0, 0]] :: goslice"
  let ?r1 = "Buffer_CopyFrom (Some 0) bg two_floats mem_rt"
  let ?r2 = "Buffer_CopyTo (Some 0) bg ?ys (snd ?r1)"
  have b: "buffers mem_rt 0 = mkBuffer 0 Float32 2 8 64" by (simp add: mem_rt_def)
  have d: "drv_of (octx (buffers mem_rt 0)) mem_rt = Some (traced memDriver)" using mem_rt_driver by (simp add: b mkBuffer_def)
  have w: "wf_buffer (buffers mem_rt 0)" unfolding b by code_simp
  have g: "goslice_of (belem (buffers mem_rt 0)) two_floats" "goslice_of (belem (buffers mem_rt 0)) ?ys"
    by (simp_all add: b goslice_of_def two_floats_def mkBuffer_def)
  have "fst ?r1 = Inr ()" by code_simp
  then have r1: "?r1 = (Inr (), snd ?r1)" by (metis prod.collapse)
  have "\<not> isl (fst ?r2)" by code_simp
  then obtain out where "fst ?r2 = Inr out" by (cases "fst ?r2") auto
  then have r2: "?r2 = (Inr out, snd ?r2)" by (metis prod.collapse)
  have bytes: "slice_bytes two_floats = [1, 2, 3, 4, 5, 6, 7, 8]" by code_simp
  have "out = slice_bytes two_floats"
    by (rule CopyFrom_CopyTo[OF memDriver_memory d w g, where ctx = bg and ctx' = bg and ?s1.0 = "snd ?r1" and ?s2.0 = "snd ?r2"])
      (use r1 r2 in auto)
  with r1 r2 bytes show ?thesis by metis
qed

end
