(* ===== verification/Loader.thy ===== *)
theory Loader
  imports Launch
begin

section \<open>Loading the driver and querying devices\<close>

text \<open>
  \<^verbatim>\<open>internal/platform\<close>, \<^verbatim>\<open>internal/dynload\<close>, \<^verbatim>\<open>cudasys/driver.go\<close>, \<^verbatim>\<open>cuda/init.go\<close>, \<^verbatim>\<open>cuda/device.go\<close>, \<^verbatim>\<open>cuda/version.go\<close>. The dynamic loader of the operating
  system is not part of the repository: what opening a path returns, what a symbol resolves to and what calling
  into an opened library does are arguments. The loader's state here is the list of handles that are open.
\<close>

subsection \<open>Candidates and opening\<close>

definition LibraryCandidates_linux :: "string list" where
  "LibraryCandidates_linux = [''libcuda.so.1'', ''/usr/lib/x86_64-linux-gnu/libcuda.so.1'',
     ''/usr/lib/wsl/lib/libcuda.so.1'']"

definition LibraryCandidates_windows :: "string list" where
  "LibraryCandidates_windows = [''nvcuda.dll'']"

definition LibraryCandidates_other :: "string list" where
  "LibraryCandidates_other = []"

text \<open>An opened library is its handle.\<close>

type_synonym Library = u64

type_synonym openlibs = "Library list"

definition unix_Open :: "(string \<Rightarrow> go_error + u64) \<Rightarrow> string \<Rightarrow> openlibs \<Rightarrow> (go_error + Library) \<times> openlibs" where
  "unix_Open dlopen path libs = (case dlopen path of
     Inl e \<Rightarrow> (Inl e, libs)
   | Inr h \<Rightarrow> (Inr h, h # libs))"

text \<open>
  A path with a zero character has no form the system accepts (\<^verbatim>\<open>syscall.EINVAL\<close>); \<^verbatim>\<open>LoadLibraryExW\<close> reports failure by a zero handle and the
  call's error.
\<close>

definition win_Open :: "(string \<Rightarrow> u64 \<times> go_error) \<Rightarrow> string \<Rightarrow> openlibs \<Rightarrow> (go_error + Library) \<times> openlibs" where
  "win_Open loadLibrary path libs =
     (if List.member path (CHR 0x00) then (Inl (Sentinel ''invalid argument''), libs)
      else (case loadLibrary path of (h, callErr) \<Rightarrow>
        if h = 0 then (Inl callErr, libs) else (Inr h, h # libs)))"

definition unsupported_Open :: "string \<Rightarrow> openlibs \<Rightarrow> (go_error + Library) \<times> openlibs" where
  "unsupported_Open path libs = (Inl ErrUnsupported, libs)"

definition closeLib :: "Library \<Rightarrow> openlibs \<Rightarrow> openlibs" where
  "closeLib h libs = remove1 h libs"

fun openFrom :: "(string \<Rightarrow> 'l \<Rightarrow> (go_error + 'lib) \<times> 'l) \<Rightarrow> string list \<Rightarrow> go_error list \<Rightarrow> 'l \<Rightarrow> (go_error + 'lib) \<times> 'l" where
  "openFrom opn [] errs l = (Inl (the (errors_Join (map Some errs))), l)"
| "openFrom opn (p # ps) errs l = (case opn p l of
     (Inr lib, l1) \<Rightarrow> (Inr lib, l1)
   | (Inl e, l1) \<Rightarrow> openFrom opn ps (errs @ [WrapErr (p @ '': '') e]) l1)"

definition OpenAny :: "(string \<Rightarrow> 'l \<Rightarrow> (go_error + 'lib) \<times> 'l) \<Rightarrow> string list \<Rightarrow> 'l \<Rightarrow> (go_error + 'lib) \<times> 'l" where
  "OpenAny opn paths l = (if paths = [] then (Inl ErrNoCandidates, l) else openFrom opn paths [] l)"

subsection \<open>Binding the entry points\<close>

definition requiredSymbols :: "string list" where
  "requiredSymbols = [
    ''cuInit'', ''cuDriverGetVersion'', ''cuDeviceGetCount'', ''cuDeviceGet'', ''cuDeviceGetName'',
    ''cuDeviceTotalMem_v2'', ''cuDeviceGetAttribute'', ''cuCtxGetCurrent'', ''cuCtxSetCurrent'',
    ''cuCtxSynchronize'', ''cuCtxGetStreamPriorityRange'', ''cuDevicePrimaryCtxRetain'',
    ''cuDevicePrimaryCtxRelease_v2'', ''cuMemAlloc_v2'', ''cuMemFree_v2'', ''cuMemGetInfo_v2'',
    ''cuMemcpyHtoD_v2'', ''cuMemcpyDtoH_v2'', ''cuMemcpyDtoD_v2'', ''cuMemcpyHtoDAsync_v2'',
    ''cuMemcpyDtoHAsync_v2'', ''cuMemcpyDtoDAsync_v2'', ''cuMemsetD8_v2'', ''cuMemsetD16_v2'',
    ''cuMemsetD32_v2'', ''cuMemsetD8Async'', ''cuMemsetD16Async'', ''cuMemsetD32Async'',
    ''cuMemAllocHost_v2'', ''cuMemFreeHost'', ''cuModuleLoadData'', ''cuModuleLoadDataEx'',
    ''cuModuleUnload'', ''cuModuleGetFunction'', ''cuModuleGetGlobal_v2'', ''cuStreamCreate'',
    ''cuStreamCreateWithPriority'', ''cuStreamDestroy_v2'', ''cuStreamSynchronize'', ''cuStreamQuery'',
    ''cuStreamWaitEvent'', ''cuEventCreate'', ''cuEventDestroy_v2'', ''cuEventRecord'', ''cuEventQuery'',
    ''cuEventSynchronize'', ''cuEventElapsedTime'', ''cuLaunchKernel'']"

definition optionalSymbols :: "string list" where
  "optionalSymbols = [
    ''cuMemAllocAsync'', ''cuMemFreeAsync'', ''cuOccupancyMaxActiveBlocksPerMultiprocessor'',
    ''cuOccupancyMaxPotentialBlockSize'', ''cuStreamBeginCapture_v2'', ''cuStreamEndCapture'',
    ''cuGraphInstantiateWithFlags'', ''cuGraphLaunch'', ''cuGraphDestroy'', ''cuGraphExecDestroy'',
    ''cuGraphExecUpdate'', ''cuDeviceGetPCIBusId'', ''cuDeviceGetUuid'', ''cuMemHostRegister_v2'',
    ''cuMemHostUnregister'', ''cuMemAllocPitch_v2'', ''cuMemcpy2D_v2'', ''cuMemcpy2DAsync_v2'',
    ''cuMemcpy3D_v2'', ''cuMemcpy3DAsync_v2'', ''cuArrayCreate_v2'', ''cuArray3DCreate_v2'',
    ''cuArrayDestroy'', ''cuTexObjectCreate'', ''cuTexObjectDestroy'', ''cuSurfObjectCreate'',
    ''cuSurfObjectDestroy'', ''cuDeviceGetDefaultMemPool'', ''cuMemPoolGetAttribute'',
    ''cuMemPoolSetAttribute'', ''cuMemAllocFromPoolAsync'', ''cuMemAllocManaged'', ''cuMemPrefetchAsync'',
    ''cuMemAdvise'', ''cuMemGetAllocationGranularity'', ''cuMemCreate'', ''cuMemAddressReserve'',
    ''cuMemMap'', ''cuMemSetAccess'', ''cuMemUnmap'', ''cuMemAddressFree'', ''cuMemRelease'',
    ''cuFuncSetAttribute'', ''cuFuncGetAttribute'', ''cuPointerGetAttribute'', ''cuDeviceCanAccessPeer'',
    ''cuCtxEnablePeerAccess'', ''cuCtxDisablePeerAccess'', ''cuMemcpyPeer'', ''cuLaunchCooperativeKernel'',
    ''cuLaunchHostFunc'', ''cuIpcGetMemHandle'', ''cuIpcCloseMemHandle'', ''cuIpcGetEventHandle'',
    ''cuLinkCreate_v2'', ''cuLinkAddData_v2'', ''cuLinkComplete'', ''cuLinkDestroy'']"

definition byValueIPCSymbols :: "string list" where
  "byValueIPCSymbols = [''cuIpcOpenMemHandle_v2'', ''cuIpcOpenEventHandle'']"

text \<open>Resolving a name, with \<open>dlsym\<close> for \<^verbatim>\<open>Dlsym\<close> or \<^verbatim>\<open>GetProcAddress\<close>.\<close>

definition lookupSymbol :: "(Library \<Rightarrow> string \<Rightarrow> go_error + u64) \<Rightarrow> Library \<Rightarrow> string \<Rightarrow> go_error + u64" where
  "lookupSymbol dlsym lib name = (case dlsym lib name of
     Inl e \<Rightarrow> Inl (WrapErr (''cudasys: lookup '' @ [CHR 0x22] @ name @ [CHR 0x22] @ '': '') e)
   | Inr addr \<Rightarrow> if addr = 0 then Inl (Sentinel (''cudasys: lookup '' @ [CHR 0x22] @ name @ [CHR 0x22] @ '': nil address'')) else Inr addr)"

record 'w LoadedDriver =
  dlib :: "Library option"
  ddrv :: "'w Driver"

text \<open>The first required symbol that does not resolve, in table order.\<close>

fun firstMissing :: "(string \<Rightarrow> go_error + u64) \<Rightarrow> string list \<Rightarrow> go_error option" where
  "firstMissing lookup [] = None"
| "firstMissing lookup (n # ns) = (case lookup n of Inl e \<Rightarrow> Some e | Inr _ \<Rightarrow> firstMissing lookup ns)"

definition resolves :: "(string \<Rightarrow> go_error + u64) \<Rightarrow> string \<Rightarrow> bool" where
  "resolves lookup n = (case lookup n of Inl _ \<Rightarrow> False | Inr _ \<Rightarrow> True)"

text \<open>
  \<^verbatim>\<open>Load\<close>: \<open>invk\<close> is what calling an entry point of the library does. On a missing required symbol the library is
  closed again.
\<close>

definition Load :: "(Library \<Rightarrow> string \<Rightarrow> go_error + u64) \<Rightarrow>
    (Library \<Rightarrow> drvcall \<Rightarrow> tid \<Rightarrow> 'w \<Rightarrow> (CUresult \<times> out) \<times> 'w) \<Rightarrow> Library \<Rightarrow> openlibs \<Rightarrow>
    (go_error + 'w LoadedDriver) \<times> openlibs" where
  "Load dlsym invk lib libs = (let lookup = lookupSymbol dlsym lib in
     case firstMissing lookup requiredSymbols of
       Some e \<Rightarrow> (Inl e, closeLib lib libs)
     | None \<Rightarrow> (Inr \<lparr>dlib = Some lib, ddrv = \<lparr>
          bound = (\<lambda>n. List.member requiredSymbols n \<or>
             List.member (optionalSymbols @ byValueIPCSymbols) n \<and> resolves lookup n),
          invoke = invk lib\<rparr>\<rparr>, libs))"

definition Driver_Close :: "'w LoadedDriver \<Rightarrow> openlibs \<Rightarrow> 'w LoadedDriver \<times> openlibs" where
  "Driver_Close d libs = (case dlib d of
     None \<Rightarrow> (d, libs)
   | Some lib \<Rightarrow> (d\<lparr>dlib := None\<rparr>, closeLib lib libs))"

subsection \<open>Initialisation\<close>

definition defaultLoad :: "(string \<Rightarrow> openlibs \<Rightarrow> (go_error + Library) \<times> openlibs) \<Rightarrow> string list \<Rightarrow>
    (Library \<Rightarrow> string \<Rightarrow> go_error + u64) \<Rightarrow>
    (Library \<Rightarrow> drvcall \<Rightarrow> tid \<Rightarrow> 'w \<Rightarrow> (CUresult \<times> out) \<times> 'w) \<Rightarrow> openlibs \<Rightarrow>
    (go_error + 'w LoadedDriver) \<times> openlibs" where
  "defaultLoad opn candidates dlsym invk libs = (case OpenAny opn candidates libs of
     (Inl e, l1) \<Rightarrow> (Inl (WrapErr ''cuda: load library: '' e), l1)
   | (Inr lib, l1) \<Rightarrow> Load dlsym invk lib l1)"

definition cuda_Init :: "(openlibs \<Rightarrow> (go_error + 'w LoadedDriver) \<times> openlibs) \<Rightarrow> tid \<Rightarrow>
    'w sys \<times> openlibs \<Rightarrow> (go_error + unit) \<times> 'w sys \<times> openlibs" where
  "cuda_Init loadFn t = (\<lambda>(s, libs). (case gdriver s of
     Some _ \<Rightarrow> (Inr (), s, libs)
   | None \<Rightarrow> (case loadFn libs of
       (Inl e, l1) \<Rightarrow> (Inl e, s, l1)
     | (Inr d, l1) \<Rightarrow> (case Init (Some (ddrv d)) 0 t (world s) of
         (Inl e, w1) \<Rightarrow> (Inl e, s\<lparr>world := w1\<rparr>, snd (Driver_Close d l1))
       | (Inr _, w1) \<Rightarrow> (Inr (), s\<lparr>world := w1, gdriver := Some (ddrv d)\<rparr>, l1)))))"

subsection \<open>Devices\<close>

text \<open>Queries run on the caller's own thread, under the package's mutex.\<close>

definition on_caller :: "tid \<Rightarrow> ('w, 'a) drv \<Rightarrow> ('w, 'a) op" where
  "on_caller t job s = (case job t (world s) of (r, w) \<Rightarrow> (r, s\<lparr>world := w\<rparr>))"

definition cuda_DriverVersion :: "tid \<Rightarrow> ('w, goint) op" where
  "cuda_DriverVersion t s = (case gdriver s of
     None \<Rightarrow> (Inl ErrNotInitialized, s)
   | Some D \<Rightarrow> on_caller t (DriverVersion (Some D)) s)"

definition cuda_DeviceCount :: "tid \<Rightarrow> ('w, goint) op" where
  "cuda_DeviceCount t s = (case gdriver s of
     None \<Rightarrow> (Inl ErrNotInitialized, s)
   | Some D \<Rightarrow> on_caller t (DeviceCount (Some D)) s)"

definition cuda_GetDevice :: "tid \<Rightarrow> goint \<Rightarrow> ('w, Device) op" where
  "cuda_GetDevice t n s = (case gdriver s of
     None \<Rightarrow> (Inl ErrNotInitialized, s)
   | Some D \<Rightarrow> (case on_caller t (DeviceCount (Some D)) s of
       (Inl e, s1) \<Rightarrow> (Inl e, s1)
     | (Inr cnt, s1) \<Rightarrow>
         if sint n < 0 \<or> sint n \<ge> sint cnt then (Inl ErrInvalidOrdinal, s1)
         else (case on_caller t (GetDevice (Some D) n) s1 of
           (Inl e, s2) \<Rightarrow> (Inl e, s2)
         | (Inr h, s2) \<Rightarrow> (Inr \<lparr>ordinal = n, handle = h\<rparr>, s2))))"

definition Device_Ordinal :: "Device option \<Rightarrow> goint" where
  "Device_Ordinal d = (case d of None \<Rightarrow> - 1 | Some x \<Rightarrow> ordinal x)"

text \<open>A query of a device: the driver first, then the receiver.\<close>

definition deviceQuery :: "('w Driver option \<Rightarrow> i32 \<Rightarrow> ('w, 'a) drv) \<Rightarrow> tid \<Rightarrow> Device option \<Rightarrow> ('w, 'a) op" where
  "deviceQuery q t d s = (case gdriver s of
     None \<Rightarrow> (Inl ErrNotInitialized, s)
   | Some D \<Rightarrow> (case d of
       None \<Rightarrow> (Inl ErrNilDevice, s)
     | Some x \<Rightarrow> on_caller t (q (Some D) (handle x)) s))"

definition Device_Name :: "tid \<Rightarrow> Device option \<Rightarrow> ('w, string) op" where
  "Device_Name = deviceQuery DeviceName"

definition Device_TotalMemory :: "tid \<Rightarrow> Device option \<Rightarrow> ('w, u64) op" where
  "Device_TotalMemory = deviceQuery DeviceTotalMem"

definition DeviceAttributeMultiprocessorCount :: i32 where "DeviceAttributeMultiprocessorCount = 16"
definition DeviceAttributeComputeCapabilityMajor :: i32 where "DeviceAttributeComputeCapabilityMajor = 75"
definition DeviceAttributeComputeCapabilityMinor :: i32 where "DeviceAttributeComputeCapabilityMinor = 76"

definition Device_ComputeCapability :: "tid \<Rightarrow> Device option \<Rightarrow> ('w, goint \<times> goint) op" where
  "Device_ComputeCapability = deviceQuery (\<lambda>d h.
     andThen (DeviceAttribute d DeviceAttributeComputeCapabilityMajor h) (\<lambda>major.
     andThen (DeviceAttribute d DeviceAttributeComputeCapabilityMinor h) (\<lambda>minor. ret (major, minor))))"

definition Device_Attribute :: "tid \<Rightarrow> Device option \<Rightarrow> i32 \<Rightarrow> ('w, goint) op" where
  "Device_Attribute t d attr = deviceQuery (\<lambda>d h. DeviceAttribute d attr h) t d"

definition Device_PCIBusID :: "tid \<Rightarrow> Device option \<Rightarrow> ('w, string) op" where
  "Device_PCIBusID = deviceQuery DevicePCIBusID"

definition Device_UUID :: "tid \<Rightarrow> Device option \<Rightarrow> ('w, string) op" where
  "Device_UUID = deviceQuery DeviceUUID"

definition Device_CanAccessPeer :: "tid \<Rightarrow> Device option \<Rightarrow> Device option \<Rightarrow> ('w, bool) op" where
  "Device_CanAccessPeer t d peer s = (case gdriver s of
     None \<Rightarrow> (Inl ErrNotInitialized, s)
   | Some D \<Rightarrow> (case (d, peer) of
       (Some x, Some y) \<Rightarrow> on_caller t (DeviceCanAccessPeer (Some D) (handle x) (handle y)) s
     | _ \<Rightarrow> (Inl ErrNilDevice, s)))"

text \<open>\<^verbatim>\<open>cuda/coop.go\<close>: the occupancy of the function times the multiprocessors of its context's device.\<close>

definition MaxCooperativeGridBlocks :: "tid \<Rightarrow> Function option \<Rightarrow> goint \<Rightarrow> goint \<Rightarrow> ('w, goint) rop" where
  "MaxCooperativeGridBlocks t fp blockSize dynamicSharedMem s =
     (case MaxActiveBlocksPerSM fp blockSize dynamicSharedMem s of
       (Inl e, s1) \<Rightarrow> (Inl e, s1)
     | (Inr perSM, s1) \<Rightarrow>
         (let c = octx (modules s1 (the (fmodule (the fp)))) in
          case lift_op (Device_Attribute t (device (ctxs (sy s1) c)) DeviceAttributeMultiprocessorCount) s1 of
            (Inl e, s2) \<Rightarrow> (Inl e, s2)
          | (Inr sm, s2) \<Rightarrow> (Inr (perSM * sm), s2)))"

end
