(* ===== verification/LoaderProps.thy ===== *)
theory LoaderProps
  imports Start Loader
begin

section \<open>Loading and initialisation\<close>

subsection \<open>What opening a library promises\<close>

lemma Load_libs:
  assumes "Load dlsym invk lib (lib # libs) = (r, libs')"
  shows "case r of Inl e \<Rightarrow> libs' = libs
    | Inr d \<Rightarrow> libs' = lib # libs \<and> dlib d = Some lib \<and> list_all (bound (ddrv d)) requiredSymbols"
  using assms by (auto simp: Load_def Let_def closeLib_def list_all_iff List.member_iff split: option.splits)

text \<open>A failed open leaves the open handles as they were, a successful one adds the handle it returns.\<close>

locale opener =
  fixes opn :: "string \<Rightarrow> openlibs \<Rightarrow> (go_error + Library) \<times> openlibs"
  assumes open_fail: "opn p libs = (Inl e, libs') \<Longrightarrow> libs' = libs"
    and open_ok: "opn p libs = (Inr h, libs') \<Longrightarrow> libs' = h # libs"
begin

text \<open>Candidates are tried in order: the first one that opens is used, and the errors of all are kept in order.\<close>

lemma openFrom_result:
  "case openFrom opn ps errs libs of
     (Inr h, libs') \<Rightarrow> libs' = h # libs \<and> (\<exists>pre p post. ps = pre @ p # post \<and> fst (opn p libs) = Inr h \<and>
        list_all (\<lambda>q. isl (fst (opn q libs))) pre)
   | (Inl e, libs') \<Rightarrow> libs' = libs \<and> list_all (\<lambda>q. isl (fst (opn q libs))) ps \<and>
        Some e = (if errs = [] \<and> ps = [] then Some e else
          Some (JoinErr (errs @ map (\<lambda>q. WrapErr (q @ '': '') (projl (fst (opn q libs)))) ps)))"
proof (induction ps arbitrary: errs)
  case Nil
  have "non_nil (map Some errs) = errs" by (induction errs) auto
  then show ?case by (auto simp: errors_Join_def Let_def)
next
  case (Cons p ps)
  obtain r l1 where o: "opn p libs = (r, l1)" by (rule prod.exhaust)
  show ?case
  proof (cases r)
    case (Inr h)
    then show ?thesis using o open_ok[of p libs h l1] by simp (rule exI[of _ "[]"], auto)
  next
    case (Inl e)
    then have l1: "l1 = libs" using o open_fail by blast
    let ?errs = "errs @ [WrapErr (p @ '': '') e]"
    show ?thesis
    proof (cases "openFrom opn ps ?errs libs")
      case (Pair r' l2)
      show ?thesis
      proof (cases r')
        case (Inr h)
        with Cons[of ?errs] Pair obtain pre q post where "ps = pre @ q # post" "fst (opn q libs) = Inr h" "l2 = h # libs"
          "list_all (\<lambda>q. isl (fst (opn q libs))) pre" by auto
        then show ?thesis using Pair Inr Inl o l1 by simp (rule exI[of _ "p # pre"], auto)
      qed (use Cons[of ?errs] Pair Inl o l1 in auto)
    qed
  qed
qed

lemma defaultLoad_libs:
  assumes "defaultLoad opn cands dlsym invk libs = (r, libs')"
  shows "case r of Inl e \<Rightarrow> libs' = libs
    | Inr d \<Rightarrow> (\<exists>h. libs' = h # libs \<and> dlib d = Some h \<and> list_all (bound (ddrv d)) requiredSymbols)"
proof (cases "OpenAny opn cands libs")
  case (Pair o1 l1)
  show ?thesis
  proof (cases o1)
    case (Inl e)
    then have "l1 = libs" using Pair openFrom_result[where ps = cands and errs = "[]" and libs = libs] by (auto simp: OpenAny_def split: if_splits)
    then show ?thesis using assms Pair Inl by (auto simp: defaultLoad_def)
  next
    case (Inr h)
    then have "l1 = h # libs" using Pair openFrom_result[where ps = cands and errs = "[]" and libs = libs] by (auto simp: OpenAny_def split: if_splits)
    then show ?thesis using assms Pair Inr Load_libs[of dlsym invk h libs r libs'] by (auto simp: defaultLoad_def split: sum.splits)
  qed
qed

lemma Init_result:
  assumes "cuda_Init (defaultLoad opn cands dlsym invk) t (s, libs) = (r, s', libs')"
  shows "case r of
     Inl e \<Rightarrow> gdriver s = None \<and> gdriver s' = None \<and> libs' = libs
   | Inr _ \<Rightarrow> (\<exists>D. gdriver s' = Some D \<and>
       (if gdriver s = None then list_all (bound D) requiredSymbols \<and> (\<exists>h. libs' = h # libs)
        else s' = s \<and> libs' = libs))"
proof (cases "gdriver s")
  case (Some D)
  then show ?thesis using assms by (auto simp: cuda_Init_def)
next
  case None
  obtain r1 l1 where l: "defaultLoad opn cands dlsym invk libs = (r1, l1)" by (rule prod.exhaust)
  show ?thesis
  proof (cases r1)
    case (Inl e)
    then show ?thesis using assms None l defaultLoad_libs[OF l] by (auto simp: cuda_Init_def)
  next
    case (Inr d)
    obtain r2 w2 where i: "Init (Some (ddrv d)) 0 t (world s) = (r2, w2)" by (rule prod.exhaust)
    then show ?thesis using assms None l Inr defaultLoad_libs[OF l]
      by (cases r2) (auto simp: cuda_Init_def Driver_Close_def closeLib_def)
  qed
qed

end

interpretation unix: opener "unix_Open dlopen" for dlopen
  by unfold_locales (auto simp: unix_Open_def split: sum.splits)

interpretation windows: opener "win_Open loadLibrary" for loadLibrary
  by unfold_locales (auto simp: win_Open_def split: prod.splits if_splits)

interpretation unsupported: opener unsupported_Open
  by unfold_locales (auto simp: unsupported_Open_def)

subsection \<open>Properties\<close>

text \<open>
  The driver library is the first candidate that opens: candidates are tried in order until one opens, whose handle is then the only one
  added to the open ones; if none opens no handle is left open and the error holds the error of every candidate, in their order, each with its path;
  an empty list of candidates is its own error. The search always ends.
\<close>

lemma OpenAny_first_candidate:
  "case OpenAny (unix_Open dlopen) paths libs of
     (Inr h, libs') \<Rightarrow> libs' = h # libs \<and> (\<exists>pre p post. paths = pre @ p # post \<and> dlopen p = Inr h \<and>
        list_all (\<lambda>q. isl (dlopen q)) pre)
   | (Inl e, libs') \<Rightarrow> libs' = libs \<and> list_all (\<lambda>q. isl (dlopen q)) paths \<and>
        e = (if paths = [] then ErrNoCandidates else JoinErr (map (\<lambda>q. WrapErr (q @ '': '') (projl (dlopen q))) paths))"
proof -
  have f: "fst (unix_Open dlopen q libs) = dlopen q" for q by (simp add: unix_Open_def split: sum.splits)
  show ?thesis using unix.openFrom_result[where dlopen = dlopen and ps = paths and errs = "[]" and libs = libs]
    by (auto simp: OpenAny_def f split: prod.splits sum.splits)
qed


text \<open>A loader with one library, whose entry points all resolve.\<close>

definition lib_dlopen :: "string \<Rightarrow> go_error + u64" where
  "lib_dlopen p = (if p = ''libcuda.so.1'' then Inr 3 else Inl ErrUnsupported)"


text \<open>
  A device is only returned for an ordinal the driver counts: an initialised \<^verbatim>\<open>GetDevice\<close> asks the driver for the number of devices first; an ordinal
  that is negative or not below it is refused without asking for the device, and a device that is returned has that
  ordinal, which is below the count.
\<close>

lemma GetDevice_ordinal:
  assumes "gdriver s = Some D" and "DeviceCount (Some D) t (world s) = (Inr cnt, w1)"
  shows "(if 0 \<le> sint n \<and> sint n < sint cnt
     then (case GetDevice (Some D) n t w1 of
        (Inr h, w2) \<Rightarrow> cuda_GetDevice t n s = (Inr \<lparr>ordinal = n, handle = h\<rparr>, s\<lparr>world := w2\<rparr>)
      | (Inl e, w2) \<Rightarrow> cuda_GetDevice t n s = (Inl e, s\<lparr>world := w2\<rparr>))
     else cuda_GetDevice t n s = (Inl ErrInvalidOrdinal, s\<lparr>world := w1\<rparr>)) \<and>
    (\<forall>d s'. cuda_GetDevice t n s = (Inr d, s') \<longrightarrow> Device_Ordinal (Some d) = n \<and> 0 \<le> sint n \<and> sint n < sint cnt)"
  using assms by (auto simp: cuda_GetDevice_def on_caller_def Device_Ordinal_def not_le not_less split: prod.splits sum.splits if_splits)

end
