(* ===== verification/BufferRuns.thy ===== *)
theory BufferRuns
  imports BufferProps
begin

section \<open>Buffers over the life of a program\<close>

text \<open>
  The operations that make, release and use device buffers, as steps of a program; a step of any other operation
  leaves the buffers alone and only adds objects.
\<close>

inductive buffer_step :: "'w rt \<Rightarrow> 'w rt \<Rightarrow> bool" where
  alloc: "Alloc t cp n s = (r, s') \<Longrightarrow> buffer_step s s'"
| allocAsync: "AllocAsync t cp stp n s = (r, s') \<Longrightarrow> buffer_step s s'"
| fromPool: "AllocFromPool t pp stp n s = (r, s') \<Longrightarrow> buffer_step s s'"
| close: "Buffer_Close p s = (ru, s') \<Longrightarrow> buffer_step s s'"
| freeAsync: "Buffer_FreeAsync p stp s = (ru, s') \<Longrightarrow> buffer_step s s'"
| copyFrom: "Buffer_CopyFrom p ctx xs s = (ru, s') \<Longrightarrow> buffer_step s s'"
| copyTo: "Buffer_CopyTo p ctx xs s = (rb, s') \<Longrightarrow> buffer_step s s'"
| copyFromAt: "Buffer_CopyFromAt p ctx off xs s = (ru, s') \<Longrightarrow> buffer_step s s'"
| copyToAt: "Buffer_CopyToAt p ctx xs off s = (rb, s') \<Longrightarrow> buffer_step s s'"
| toDevice: "Buffer_CopyToDevice p ctx q s = (ru, s') \<Longrightarrow> buffer_step s s'"
| toDeviceAt: "Buffer_CopyToDeviceAt p ctx off q off2 n s = (ru, s') \<Longrightarrow> buffer_step s s'"
| zero: "Buffer_Zero p ctx s = (ru, s') \<Longrightarrow> buffer_step s s'"
| fill: "Buffer_Fill p ctx v s = (ru, s') \<Longrightarrow> buffer_step s s'"
| other: "buffers s' = buffers s \<Longrightarrow> nobj s \<le> nobj s' \<Longrightarrow> buffer_step s s'"

text \<open>What an existing buffer keeps.\<close>

definition same_buffer :: "Buffer \<Rightarrow> Buffer \<Rightarrow> bool" where
  "same_buffer b b' = (octx b' = octx b \<and> bptr b' = bptr b \<and> blength b' = blength b \<and> bbytes b' = bbytes b \<and>
     belem b' = belem b \<and> (oclosed b \<longrightarrow> oclosed b'))"

definition evolves :: "'w rt \<Rightarrow> 'w rt \<Rightarrow> bool" where
  "evolves s s' = (nobj s \<le> nobj s' \<and> (\<forall>i < nobj s. same_buffer (buffers s i) (buffers s' i)) \<and>
     (wf_buffers s \<longrightarrow> wf_buffers s'))"

lemma same_buffer_refl [simp]: "same_buffer b b" "same_buffer b (b\<lparr>oclosed := True\<rparr>)"
  by (simp_all add: same_buffer_def)

lemma evolves_refl [simp]: "evolves s s"
  by (simp add: evolves_def)

lemma evolves_trans: "evolves s s' \<Longrightarrow> evolves s' s'' \<Longrightarrow> evolves s s''"
  by (auto simp: evolves_def same_buffer_def)

lemma evolves_frame: "buffers s' = buffers s \<Longrightarrow> nobj s \<le> nobj s' \<Longrightarrow> evolves s s'"
  by (auto simp: evolves_def intro: wf_buffers_same)

lemma evolves_lift: "evolves s (snd (lift_op f s))"
  by (rule evolves_frame) (auto simp: lift_op_def split: prod.splits)

lemma evolves_no_value: "evolves s (snd p) \<Longrightarrow> evolves s (snd (no_value p))"
  by (auto simp: no_value_def split: prod.splits sum.splits)

lemma evolves_create:
  assumes "\<And>x. wf_buffer (mk x)"
  shows "evolves s (snd (createWith f buffers_update mk s))"
proof (cases "createWith f buffers_update mk s")
  case (Pair r s')
  show ?thesis
  proof (cases r)
    case (Inl e)
    then show ?thesis using Pair buf.createWith_err[of f mk s e s'] by (auto intro!: evolves_frame)
  next
    case (Inr p)
    with Pair obtain x y where "buffers s' = (buffers s)(p := mk x)" "p = nobj s" "nobj s' = Suc p"
      by (auto elim: buf.createWith_ok)
    then show ?thesis using Pair assms by (auto simp: evolves_def intro: wf_buffers_upd)
  qed
qed

lemma evolves_sy: "evolves s (s\<lparr>sy := y\<rparr>)"
  by (rule evolves_frame) simp_all

lemma evolves_closed: "evolves s (buffers_update (\<lambda>f. f(i := (buffers s i)\<lparr>oclosed := True\<rparr>)) (s\<lparr>sy := y\<rparr>))"
  by (auto simp: evolves_def wf_buffers_def wf_buffer_def)

lemma evolves_Alloc: "evolves s (snd (Alloc t cp n s))" "evolves s (snd (AllocAsync t cp stp n s))"
  "evolves s (snd (AllocFromPool t pp stp n s))"
  by (auto simp: Alloc_def AllocAsync_def AllocFromPool_def Let_def split: option.splits
      intro!: evolves_create wf_mkBuffer)

lemma evolves_release: "evolves s (snd (Buffer_Close p s))" "evolves s (snd (Buffer_FreeAsync p stp s))"
  by (auto simp: Buffer_Close_def closeObject_def Buffer_FreeAsync_def Let_def split: option.splits prod.splits sum.splits
      elim!: lift_opE intro!: evolves_sy evolves_closed)

lemma evolves_use:
  "evolves s (snd (Buffer_CopyFrom p ctx xs s))" "evolves s (snd (Buffer_CopyTo p ctx xs s))"
  "evolves s (snd (Buffer_CopyFromAt p ctx off xs s))" "evolves s (snd (Buffer_CopyToAt p ctx xs off s))"
  "evolves s (snd (Buffer_CopyToDevice p ctx q s))" "evolves s (snd (Buffer_CopyToDeviceAt p ctx off q off2 n s))"
  "evolves s (snd (Buffer_Zero p ctx s))" "evolves s (snd (Buffer_Fill p ctx v s))"
  by (auto simp: Buffer_CopyFrom_def Buffer_CopyTo_def Buffer_CopyFromAt_def Buffer_CopyToAt_def Buffer_CopyToDevice_def
      Buffer_CopyToDeviceAt_def Buffer_Zero_def Buffer_Fill_def Let_def split: option.splits
      intro!: evolves_no_value evolves_lift)

lemma buffer_step_evolves: "buffer_step s s' \<Longrightarrow> evolves s s'"
  by (induction rule: buffer_step.induct)
    (metis snd_conv evolves_Alloc evolves_release evolves_use evolves_frame)+

text \<open>
  C28. Buffers keep their shape for life: in every program, from the empty state on, every buffer's recorded size in bytes is its length times its element
  size, without wrap-around; once made, a buffer never changes its context, address, length or size and
  never becomes usable again after it was closed or freed, whatever operations follow, failing ones included.
\<close>

theorem buffers_for_life:
  assumes "buffer_step\<^sup>*\<^sup>* (rt0 y) s" and "buffer_step\<^sup>*\<^sup>* s s'"
  shows "wf_buffers s \<and> wf_buffers s' \<and> (\<forall>i < nobj s. same_buffer (buffers s i) (buffers s' i))"
proof -
  have ev: "evolves a b" if "buffer_step\<^sup>*\<^sup>* a b" for a b :: "'a rt"
    using that by (induction rule: rtranclp_induct) (auto intro: evolves_trans buffer_step_evolves)
  have "wf_buffers (rt0 y)" by (simp add: wf_buffers_def rt0_def wf_buffer_def)
  then show ?thesis using ev[OF assms(1)] ev[OF assms(2)] by (simp add: evolves_def)
qed

lemma buffers_for_life_witness:
  "wf_buffers one_buffer \<and> same_buffer (buffers one_buffer 0) (buffers (snd (Buffer_Close (Some 0) one_buffer)) 0) \<and>
   oclosed (buffers (snd (Buffer_Close (Some 0) one_buffer)) 0)"
proof -
  have a: "buffer_step\<^sup>*\<^sup>* (rt0 opened) one_buffer"
    unfolding one_buffer_def rt_open_def by (intro r_into_rtranclp buffer_step.alloc) (rule prod.collapse[symmetric])
  have c: "buffer_step\<^sup>*\<^sup>* one_buffer (snd (Buffer_Close (Some 0) one_buffer))"
    by (intro r_into_rtranclp buffer_step.close) (rule prod.collapse[symmetric])
  have "nobj one_buffer = 1" "oclosed (buffers (snd (Buffer_Close (Some 0) one_buffer)) 0)" by code_simp+
  then show ?thesis using buffers_for_life[OF a c] by simp
qed

end
