(* ===== verification/EventProps.thy ===== *)
theory EventProps
  imports BufferProps
begin

unbundle bit_operations_syntax

section \<open>Pooled operations, event options and locks of pairs\<close>

subsection \<open>Pooled operations\<close>

text \<open>
  The pooled operations are the driver calls they stand for: whatever object the pool hands out, with whatever an earlier operation left in its
  fields, each copy and memset makes exactly the call of its own kind with its own arguments, on the copy executor for synchronous copies
  and on the command executor otherwise, and the object goes back without its pointer into Go memory.
\<close>

theorem pooled_op_equiv:
  "memcpyHtoD m c ctx dst host n s = doCopyJob (Some c) ctx (no_bytes (MemcpyHtoD (driver (ctxs s c)) dst host n)) s \<and>
   memcpyDtoH m c ctx host src n s = doCopyJob (Some c) ctx (MemcpyDtoH (driver (ctxs s c)) host src n) s \<and>
   memcpyDtoD m c ctx dst src n s = doCopyJob (Some c) ctx (no_bytes (MemcpyDtoD (driver (ctxs s c)) dst src n)) s \<and>
   memcpyHtoDAsync m c ctx dst host n st s =
     doJob (Some c) ctx (no_bytes (MemcpyHtoDAsync (driver (ctxs s c)) dst host n st)) s \<and>
   memcpyDtoHAsync m c ctx host src n st s =
     doJob (Some c) ctx (no_bytes (MemcpyDtoHAsync (driver (ctxs s c)) host src n st)) s \<and>
   memcpyDtoDAsync m c ctx dst src n st s =
     doJob (Some c) ctx (no_bytes (MemcpyDtoDAsync (driver (ctxs s c)) dst src n st)) s \<and>
   memset m c ctx dst val n siz s = doJob (Some c) ctx (no_bytes (
     if siz = 1 then MemsetD8 (driver (ctxs s c)) dst (ucast val) n
     else if siz = 2 then MemsetD16 (driver (ctxs s c)) dst (ucast val) n
     else MemsetD32 (driver (ctxs s c)) dst val n)) s \<and>
   memsetAsync m c ctx dst val n siz st s = doJob (Some c) ctx (no_bytes (
     if siz = 1 then MemsetD8Async (driver (ctxs s c)) dst (ucast val) n st
     else if siz = 2 then MemsetD16Async (driver (ctxs s c)) dst (ucast val) n st
     else MemsetD32Async (driver (ctxs s c)) dst val n st)) s \<and>
   mo_host (snd (run_memOp c ctx m s)) = HNil"
  unfolding pooled_copies pooled_async_copies pooled_memsets memset_call_def memset_call_async_def
  by (simp add: run_memOp_def memOp_recycle_def Let_def)

subsection \<open>Event options\<close>

datatype evopt = OptNil | OptBlockingSync | OptInterprocess | OptDisableTiming

fun evopt_fn :: "evopt \<Rightarrow> EventOption option" where
  "evopt_fn OptNil = None"
| "evopt_fn OptBlockingSync = Some WithEventBlockingSync"
| "evopt_fn OptInterprocess = Some WithEventInterprocess"
| "evopt_fn OptDisableTiming = Some WithEventDisableTiming"

definition evflags :: "evopt list \<Rightarrow> u32" where
  "evflags os = (if OptBlockingSync \<in> set os then 1 else 0) OR
     ((if OptInterprocess \<in> set os then 6 else 0) OR (if OptDisableTiming \<in> set os then 2 else 0))"

lemma evflags_Cons: "evflags (x # os) = (case x of OptNil \<Rightarrow> 0 | OptBlockingSync \<Rightarrow> 1 | OptInterprocess \<Rightarrow> 6 | OptDisableTiming \<Rightarrow> 2) OR evflags os"
  by (cases x) (auto simp: evflags_def)

lemma applyEventOptions_flags:
  "applyEventOptions (map evopt_fn os) \<lparr>eoflags = f, eoerr = None\<rparr> = Inr \<lparr>eoflags = f OR evflags os, eoerr = None\<rparr>"
proof (induction os arbitrary: f)
  case Nil
  then show ?case by (simp add: evflags_def)
next
  case (Cons x os)
  have "eventInterprocess OR eventDisableTiming = 6" by (simp add: event_flags)
  then show ?case
    by (cases x) (simp_all add: Cons evflags_Cons WithEventBlockingSync_def WithEventInterprocess_def
      WithEventDisableTiming_def event_flags or.assoc)
qed

lemma evflags_bits:
  "evflags os AND eventDisableTiming \<noteq> 0 \<longleftrightarrow> OptInterprocess \<in> set os \<or> OptDisableTiming \<in> set os"
  "evflags os AND eventInterprocess \<noteq> 0 \<longleftrightarrow> OptInterprocess \<in> set os"
  by (auto simp: evflags_def event_flags)

text \<open>
  Event options mean what they say: with any options, in any order and repeated or nil ones among them, the driver is asked for exactly the
  flags requested, an inter-process event always has its timing disabled (as CUDA demands), an event without the inter-process option cannot be
  exported, and elapsed time between events of which one has its timing disabled is refused without a driver call.
\<close>

theorem NewEvent_options:
  assumes "NewEvent (Some c) (map evopt_fn os) s = (Inr p, s')"
  shows "timingDisabled (events s' p) = (OptInterprocess \<in> set os \<or> OptDisableTiming \<in> set os) \<and>
    interprocess (events s' p) = (OptInterprocess \<in> set os) \<and> \<not> oclosed (events s' p) \<and> octx (events s' p) = c \<and>
    ran (EventCreate (drv_of c s) (evflags os)) (Inr (eraw (events s' p))) (world (sy s')) \<and>
    (if OptInterprocess \<in> set os then True else Event_IPCHandle (Some p) s' = (Inl ErrEventNotInterprocess, s')) \<and>
    (if OptInterprocess \<in> set os \<or> OptDisableTiming \<in> set os
     then \<forall>q. (\<exists>e. Event_Elapsed (Some p) q s' = (Inl e, s')) \<and> (\<exists>e. Event_Elapsed q (Some p) s' = (Inl e, s')) else True)"
proof -
  let ?f = "doWait (Some c) bg (EventCreate (drv_of c s) (evflags os))"
  let ?mk = "\<lambda>r. \<lparr>octx = c, oclosed = False, eraw = r, timingDisabled = (evflags os AND eventDisableTiming \<noteq> 0),
            interprocess = (evflags os AND eventInterprocess \<noteq> 0)\<rparr>"
  have z: "eventDefault OR evflags os = evflags os" by (simp add: event_flags)
  have "createWith ?f events_update ?mk s = (Inr p, s')"
    using assms by (simp add: NewEvent_def applyEventOptions_flags z)
  then obtain x y where x: "?f (sy s) = (Inr x, y)" "events s' = (events s)(p := ?mk x)" "sy s' = y"
    by (rule event.createWith_ok)
  have e: "events s' p = ?mk x" by (simp add: x(2))
  have "ran (EventCreate (drv_of c s) (evflags os)) (Inr x) (world (sy s'))"
    using do_reports(2)[OF x(1)] x(3) by simp
  then show ?thesis
    by (auto simp: e evflags_bits Event_IPCHandle_def Event_Elapsed_def Let_def split: option.splits)
qed

lemma NewEvent_options_witness:
  "timingDisabled (events (snd (NewEvent (Some 0) (map evopt_fn [OptBlockingSync, OptNil, OptInterprocess]) rt_open)) 0) \<and>
   evflags [OptBlockingSync, OptNil, OptInterprocess] = 7"
proof -
  let ?r = "NewEvent (Some 0) (map evopt_fn [OptBlockingSync, OptNil, OptInterprocess]) rt_open"
  have "fst ?r = Inr 0" by code_simp
  then have p: "?r = (Inr 0, snd ?r)" by (metis prod.collapse)
  have "evflags [OptBlockingSync, OptNil, OptInterprocess] = 7" by code_simp
  with NewEvent_options[OF p] show ?thesis by simp
qed

subsection \<open>Elapsed times\<close>

text \<open>
  The duration is the driver's time to the nanosecond below: the product with a million is exact as a \<^verbatim>\<open>float64\<close> (at most 38 significant bits), and only the
  fraction of a nanosecond is lost.
\<close>

lemma f32_parts_bound:
  assumes "f32_parts v = Some (neg, m, e)"
  shows "0 \<le> m" "m < 2 ^ 24" "- 149 \<le> e" "e \<le> 104"
proof -
  define x y where "x = uint (drop_bit 23 v AND 0xff)" and "y = uint (v AND 0x7fffff)"
  have "y \<le> uint (0x7fffff :: u32)" "x \<le> uint (0xff :: u32)"
    using word_and_le1[of v "0x7fffff"] word_and_le1[of "drop_bit 23 v" "0xff"] by (simp_all only: word_le_def x_def y_def)
  moreover have "0 \<le> x" "0 \<le> y" by (simp_all add: x_def y_def)
  ultimately show "0 \<le> m" "m < 2 ^ 24" "- 149 \<le> e" "e \<le> 104" using assms
    by (auto simp: f32_parts_def Let_def simp flip: x_def y_def split: if_splits)
qed

lemma msDuration_exact:
  assumes "msDuration ms = Some d"
  obtains neg m e where "f32_parts ms = Some (neg, m, e)" "0 \<le> m" "m * 15625 < 2 ^ 38" "m * 1000000 = m * 15625 * 2 ^ 6"
    "0 \<le> e \<Longrightarrow> \<bar>d\<bar> = m * 1000000 * 2 ^ nat e"
    "e < 0 \<Longrightarrow> \<bar>d\<bar> * 2 ^ nat (- e) \<le> m * 1000000 \<and> m * 1000000 < (\<bar>d\<bar> + 1) * 2 ^ nat (- e)"
    "neg \<longrightarrow> d \<le> 0" "\<not> neg \<longrightarrow> 0 \<le> d" "\<bar>d\<bar> < 2 ^ 63"
proof -
  from assms obtain neg m e where p: "f32_parts ms = Some (neg, m, e)"
    by (auto simp: msDuration_def split: option.splits)
  note m = f32_parts_bound[OF p]
  define q where "q = (if 0 \<le> e then m * 1000000 * 2 ^ nat e else m * 1000000 div 2 ^ nat (- e))"
  have q: "q < 2 ^ 63" "d = (if neg then - q else q)" "0 \<le> q"
    using assms p m(1) by (auto simp: msDuration_def q_def Let_def pos_imp_zdiv_nonneg_iff split: if_splits)
  have r: "q * 2 ^ nat (- e) \<le> m * 1000000 \<and> m * 1000000 < (q + 1) * 2 ^ nat (- e)" if "e < 0"
  proof -
    let ?p = "2 ^ nat (- e) :: int" and ?x = "m * 1000000"
    have "q = ?x div ?p" using that by (simp add: q_def)
    then have "q * ?p + ?x mod ?p = ?x" by (simp only: div_mult_mod_eq)
    moreover have "0 \<le> ?x mod ?p" "?x mod ?p < ?p" by simp_all
    ultimately have "q * ?p \<le> ?x" "?x < q * ?p + ?p" by linarith+
    then show ?thesis by (simp add: distrib_right)
  qed
  have d: "\<bar>d\<bar> = q" using q by simp
  show thesis
    by (rule that[OF p]) (use m q r d in \<open>auto simp: q_def\<close>)
qed
subsection \<open>Locking two objects\<close>

text \<open>
  Pairs are locked in one order: whichever of two events, or two pitched buffers, is named first, their locks are taken in the same, strictly
  increasing order, an object paired with itself is locked once, and events are unlocked in the reverse order, so that two
  operations on the same pair cannot wait for each other.
\<close>

lemma pair_locks_ordered:
  "lockEvents a b = lockEvents b a \<and> lockPitchedPair a b = lockPitchedPair b a \<and>
   sorted_wrt (<) (rev (unlockEvents (lockEvents a b))) \<and> set (unlockEvents (lockEvents a b)) = {a, b} \<and>
   sorted_wrt (<) (lockPitchedPair a b) \<and> set (lockPitchedPair a b) = {a, b}"
  by (auto simp: lockEvents_def unlockEvents_def lockPitchedPair_def Let_def min_def max_def)

end
