(* ===== verification/ShapedProps.thy ===== *)
theory ShapedProps
  imports BufferProps
begin

section \<open>Volumes and pitched buffers: sizes\<close>

lemma sint_sdiv_MaxInt:
  assumes "0 < sint b"
  shows "sint (sdiv MaxInt b) = (2 ^ 63 - 1) div sint b"
proof -
  let ?q = "(2 ^ 63 - 1) div sint b :: int"
  have "0 \<le> ?q" using assms by (intro pos_imp_zdiv_nonneg_iff[THEN iffD2]) simp_all
  moreover have "?q \<le> 2 ^ 63 - 1" using zdiv_mono2[of "2 ^ 63 - 1 :: int" 1 "sint b"] assms by simp
  moreover have "sdiv MaxInt b = word_of_int ?q" using assms by (simp add: sdiv_def)
  ultimately show ?thesis
    by (simp add: sint_sbintrunc' signed_take_bit_int_eq_self)
qed

text \<open>The product of two positive integers that passed the overflow check of the code.\<close>

lemma checked_product:
  assumes a: "0 < sint a" and b: "0 < sint b" and le: "sint a \<le> sint (sdiv MaxInt b)"
  shows "unat (a * b) = unat a * unat b" "unat a * unat b < 2 ^ 63" "0 < sint (a * b)"
proof -
  note pa = sint_pos_unat[OF a] and pb = sint_pos_unat[OF b]
  have sa: "sint a = int (unat a)" and sb: "sint b = int (unat b)"
    using sint_nonneg_unat(1) a b by (simp_all only: order.strict_implies_order)
  have "sint a * sint b \<le> (2 ^ 63 - 1) div sint b * sint b"
    using le b sint_sdiv_MaxInt[OF b] by (intro mult_right_mono) simp_all
  also have "\<dots> \<le> 2 ^ 63 - 1" using div_mult_mod_eq[of "2 ^ 63 - 1 :: int" "sint b"] b
    by (metis add_le_same_cancel1 diff_le_0_iff_le le_add_same_cancel1 pos_mod_sign add.commute)
  finally have "int (unat a * unat b) \<le> 2 ^ 63 - 1" unfolding sa sb by simp
  then have "int (unat a * unat b) < int (2 ^ 63)" by simp
  then show lt: "unat a * unat b < 2 ^ 63" by (simp only: of_nat_less_iff)
  then show eq: "unat (a * b) = unat a * unat b" by (intro unat_mul_small) simp
  have "0 < unat a * unat b" using pa pb by simp
  then have "0 < int (unat (a * b))" unfolding eq by (simp only: of_nat_0_less_iff)
  moreover have "sint (a * b) = int (unat (a * b))" using lt eq by (simp only: sint_split if_True)
  ultimately show "0 < sint (a * b)" by (simp only:)
qed

lemma check_passes:
  fixes a b :: goint
  assumes "0 < sint a" "0 < sint b" "unat a * unat b < 2 ^ 63"
  shows "sint a \<le> sint (sdiv MaxInt b)"
proof -
  have ab: "sint a = int (unat a)" "sint b = int (unat b)"
    using sint_nonneg_unat(1) assms by (simp_all only: order.strict_implies_order)
  have "int (unat a * unat b) < int (2 ^ 63)" using assms(3) by (simp only: of_nat_less_iff)
  then have "int (unat a * unat b) \<le> 2 ^ 63 - 1" by simp
  then have "sint a * sint b \<le> 2 ^ 63 - 1" by (simp add: ab)
  then have "sint a \<le> (2 ^ 63 - 1) div sint b"
    using zdiv_mono1[of "sint a * sint b" "2 ^ 63 - 1" "sint b"] assms(2) by simp
  then show ?thesis by (simp add: sint_sdiv_MaxInt[OF assms(2)])
qed

text \<open>The volumes \<^verbatim>\<open>AllocVolume\<close> makes: positive dimensions, and neither the elements nor the bytes overflow.\<close>

definition wf_volume :: "Volume \<Rightarrow> bool" where
  "wf_volume v = (0 < sint (vwidth v) \<and> 0 < sint (vheight v) \<and> 0 < sint (vdepth v) \<and>
     unat (vwidth v) * unat (vheight v) * unat (vdepth v) < 2 ^ 63 \<and>
     unat (vwidth v) * unat (elemSize (velem v)) * (unat (vheight v) * unat (vdepth v)) < 2 ^ 64)"

lemma volume_checks:
  assumes w: "0 < sint w" and h: "0 < sint h" and d: "0 < sint d"
    and wh: "sint w \<le> sint (sdiv MaxInt h)" and whd: "sint (w * h) \<le> sint (sdiv MaxInt d)"
  shows "unat (w * h * d) = unat w * unat h * unat d" "unat w * unat h * unat d < 2 ^ 63"
    "unat (h * d) = unat h * unat d" "h * d \<noteq> 0"
proof -
  note p = checked_product[OF w h wh]
  note q = checked_product[OF p(3) d whd]
  show "unat (w * h * d) = unat w * unat h * unat d" using q(1) p(1) by simp
  show lt: "unat w * unat h * unat d < 2 ^ 63" using q(2) p(1) by simp
  have "1 * (unat h * unat d) \<le> unat w * (unat h * unat d)"
    using sint_pos_unat(1)[OF w] by (intro mult_le_mono1) simp
  also have "\<dots> < 2 ^ 63" using lt by (simp only: mult.assoc)
  finally have "unat h * unat d < 2 ^ 64" by simp
  then show hd: "unat (h * d) = unat h * unat d" by (rule unat_mul_small)
  have "0 < unat (h * d)" using hd sint_pos_unat(1)[OF h] sint_pos_unat(1)[OF d] by simp
  then show "h * d \<noteq> 0" by (metis unat_0 less_numeral_extra(3))
qed

lemma mul_checked: "a \<le> MaxUint64 div k \<Longrightarrow> k \<noteq> 0 \<Longrightarrow> unat a * unat k < 2 ^ 64"
  using unat_mul_no_wrap[of a k] unat_lt64[of "a * k"] by simp

lemma wf_volume_elements:
  assumes "wf_volume v"
  shows "\<exists>n. Volume_elements v = Inr n \<and> unat n = unat (vwidth v) * unat (vheight v) * unat (vdepth v)"
proof -
  let ?w = "vwidth v" and ?h = "vheight v" and ?d = "vdepth v"
  have pos: "0 < sint ?w" "0 < sint ?h" "0 < sint ?d" and lt: "unat ?w * unat ?h * unat ?d < 2 ^ 63"
    using assms by (simp_all add: wf_volume_def)
  have "unat ?w * unat ?h * 1 \<le> unat ?w * unat ?h * unat ?d"
    using sint_pos_unat(1)[OF pos(3)] by (intro mult_le_mono2) simp
  also note lt
  finally have wh: "unat ?w * unat ?h < 2 ^ 63" by (simp only: mult_1_right)
  note c1 = check_passes[OF pos(1,2) wh]
  note p = checked_product[OF pos(1,2) c1]
  have c2: "sint (?w * ?h) \<le> sint (sdiv MaxInt ?d)" by (rule check_passes[OF p(3) pos(3)]) (use lt p(1) in simp)
  show ?thesis using c1 c2 volume_checks(1)[OF pos c1 c2] by (simp add: Volume_elements_def Let_def)
qed

text \<open>
  Volumes have exact sizes: \<^verbatim>\<open>AllocVolume\<close> succeeds only for positive dimensions whose number of elements fits an \<^verbatim>\<open>int\<close> and whose size in
  bytes fits 64 bits, asks the driver for rows of exactly width times the element size and height times depth of them, without wrap-around,
  and a later copy of that volume takes exactly width times height times depth elements and moves
  exactly the bytes of the host slice. When it fails no volume is made.
\<close>

theorem Volume_sizes:
  assumes "AllocVolume t (Some c) width height depth s = (r, s')"
  shows "case r of
     Inl e \<Rightarrow> volumes s' = volumes s
   | Inr p \<Rightarrow> wf_volume (volumes s' p) \<and>
       (\<exists>rowBytes rows esb ptr pitch. unat rowBytes = unat width * unat (elemSize t) \<and> unat rows = unat height * unat depth \<and>
         ran (MemAllocPitch (drv_of c s) rowBytes rows esb) (Inr (ptr, pitch)) (world (sy s')) \<and>
         volumes s' = (volumes s)(p := \<lparr>octx = c, oclosed = False, vptr = ptr, vpitch = pitch, vwidth = width,
                vheight = height, vdepth = depth, velem = t\<rparr>)) \<and>
       (\<exists>n. Volume_elements (volumes s' p) = Inr n \<and> (\<forall>xs host up. goslice_of t xs \<longrightarrow> len xs = n \<longrightarrow>
         (let d = Volume_hostDesc (volumes s' p) up host in
          unat (m3WidthInBytes d) * unat (m3Height d) * unat (m3Depth d) = length (slice_bytes xs))))"
proof -
  let ?mk = "\<lambda>(ptr, pitch). \<lparr>octx = c, oclosed = False, vptr = ptr, vpitch = pitch, vwidth = width,
                vheight = height, vdepth = depth, velem = t\<rparr>"
  let ?esb = "if elemSize t = 8 then 8 else 4"
  let ?f = "do_cmd (Some c) bg (MemAllocPitch (drv_of c s) (width * elemSize t) (height * depth) ?esb)"
  consider (refused) e where "(r, s') = (Inl e, s)" | (made) "createWith ?f volumes_update ?mk s = (r, s')"
    "0 < sint width" "0 < sint height" "0 < sint depth" "width \<le> MaxUint64 div elemSize t"
    "sint width \<le> sint (sdiv MaxInt height)" "sint (width * height) \<le> sint (sdiv MaxInt depth)"
    "width * elemSize t \<le> MaxUint64 div (height * depth)"
    using assms by (auto simp: AllocVolume_def Let_def not_le not_less split: if_splits)
  then show ?thesis
  proof cases
    case refused
    then show ?thesis by auto
  next
    case made
    note c = volume_checks[OF made(2,3,4,6,7)]
    have rb: "unat (width * elemSize t) = unat width * unat (elemSize t)"
      by (rule unat_mul_no_wrap[OF made(5) elemSize_pos(1)])
    have tot: "unat width * unat (elemSize t) * (unat height * unat depth) < 2 ^ 64"
      using mul_checked[OF made(8) c(4)] by (simp only: rb c(3))
    show ?thesis
    proof (cases r)
      case (Inl e)
      then show ?thesis using volume.createWith_err[of ?f ?mk s e s'] made(1) by auto
    next
      case (Inr p)
      from made(1)[unfolded Inr] obtain x y where x: "?f (sy s) = (Inr x, y)" "volumes s' = (volumes s)(p := ?mk x)" "sy s' = y"
        by (rule volume.createWith_ok)
      obtain ptr pitch where pp: "x = (ptr, pitch)" by (rule prod.exhaust)
      have wf: "wf_volume (volumes s' p)" using made(2-4) c(2) tot by (simp add: wf_volume_def x(2) pp)
      obtain n where n: "Volume_elements (volumes s' p) = Inr n" "unat n = unat width * unat height * unat depth"
        using wf_volume_elements[OF wf] by (auto simp: x(2) pp)
      have "unat width * unat (elemSize t) * unat height * unat depth = length (slice_bytes xs)"
        if "goslice_of t xs" "len xs = n" for xs
        using goslice_bytes[OF that(1)] unat_len[OF that(1)] that(2) n(2) by (simp add: algebra_simps)
      then have copy: "\<forall>xs host up. goslice_of t xs \<longrightarrow> len xs = n \<longrightarrow>
         (let d = Volume_hostDesc (volumes s' p) up host in
          unat (m3WidthInBytes d) * unat (m3Height d) * unat (m3Depth d) = length (slice_bytes xs))"
        by (simp add: Volume_hostDesc_def Let_def x(2) pp rb)
      have vol: "volumes s' = (volumes s)(p := \<lparr>octx = c, oclosed = False, vptr = ptr, vpitch = pitch, vwidth = width,
                vheight = height, vdepth = depth, velem = t\<rparr>)" by (simp add: x(2) pp)
      have job: "ran (MemAllocPitch (drv_of c s) (width * elemSize t) (height * depth) ?esb) (Inr (ptr, pitch)) (world (sy s'))"
        using do_reports(1)[OF x(1)] pp x(3) by simp
      show ?thesis unfolding Inr sum.case using wf n(1) copy rb c(3) job vol by blast
    qed
  qed
qed

lemma Volume_sizes_witness:
  "\<exists>n. Volume_elements (volumes (snd (AllocVolume Float32 (Some 0) 2 3 4 rt_open)) 0) = Inr n \<and>
     wf_volume (volumes (snd (AllocVolume Float32 (Some 0) 2 3 4 rt_open)) 0)"
proof -
  let ?r = "AllocVolume Float32 (Some 0) 2 3 4 rt_open"
  have "fst ?r = Inr 0" by code_simp
  then have p: "?r = (Inr 0, snd ?r)" by (metis prod.collapse)
  from Volume_sizes[OF p] show ?thesis by auto
qed


end
