(* ===== verification/LockOrder.thy ===== *)
theory LockOrder
  imports Prelude "HOL-Library.Product_Lexorder"
begin

section \<open>Read-write locks and the order they are taken in\<close>

text \<open>
  Goroutines that take and release the locks of \<^verbatim>\<open>sync\<close>. A goroutine is the sequence of lock operations it still has to make and
  the locks it holds. A \<^verbatim>\<open>RWMutex\<close> prefers writers: \<^verbatim>\<open>Lock\<close> first announces itself, which is possible when no other writer has announced itself or
  holds the lock, and from then on every new \<^verbatim>\<open>RLock\<close> waits; it gets the lock when the last reader has left. A \<^verbatim>\<open>Mutex\<close> is
  a lock that is only ever written. The work between lock operations is a step of its own that always
  returns. The locale states what is gained when every goroutine takes its locks in the order of one ranking.
\<close>

subsection \<open>Goroutines\<close>

datatype mode = RLk | WLk

datatype 'l act = Acq mode 'l | Rel mode 'l | Run

record 'l thr =
  todo :: "'l act list"
  held :: "(mode \<times> 'l) list"
  announced :: bool

definition spawn :: "'l act list \<Rightarrow> 'l thr" where
  "spawn as = \<lparr>todo = as, held = [], announced = False\<rparr>"

definition thr_done :: "'l thr \<Rightarrow> bool" where
  "thr_done t = (todo t = [])"

text \<open>Whether a goroutine holds the write lock or has announced that it wants it; whether it holds a read lock.\<close>

definition writes :: "'l \<Rightarrow> 'l thr \<Rightarrow> bool" where
  "writes m t = ((WLk, m) \<in> set (held t) \<or>
     announced t \<and> (case todo t of Acq WLk m' # _ \<Rightarrow> m' = m | _ \<Rightarrow> False))"

definition reads :: "'l \<Rightarrow> 'l thr \<Rightarrow> bool" where
  "reads m t = ((RLk, m) \<in> set (held t))"

text \<open>One step of goroutine \<open>i\<close>; none when it has to wait or has returned.\<close>

definition step_thr :: "'l thr list \<Rightarrow> 'l thr \<Rightarrow> 'l thr option" where
  "step_thr ts t = (case todo t of
     [] \<Rightarrow> None
   | Acq RLk m # as \<Rightarrow>
       if list_ex (writes m) ts then None
       else Some (t\<lparr>todo := as, held := (RLk, m) # held t, announced := False\<rparr>)
   | Acq WLk m # as \<Rightarrow>
       if \<not> announced t then (if list_ex (writes m) ts then None else Some (t\<lparr>announced := True\<rparr>))
       else if list_ex (reads m) ts then None
       else Some (t\<lparr>todo := as, held := (WLk, m) # held t, announced := False\<rparr>)
   | Rel md m # as \<Rightarrow> Some (t\<lparr>todo := as, held := remove1 (md, m) (held t), announced := False\<rparr>)
   | Run # as \<Rightarrow> Some (t\<lparr>todo := as, announced := False\<rparr>))"

inductive gostep :: "'l thr list \<Rightarrow> 'l thr list \<Rightarrow> bool" where
  gostep: "i < length ts \<Longrightarrow> step_thr ts (ts ! i) = Some t \<Longrightarrow> gostep ts (ts[i := t])"

text \<open>The state after the goroutines named in a schedule have made a step each.\<close>

fun schedule :: "nat list \<Rightarrow> 'l thr list \<Rightarrow> 'l thr list option" where
  "schedule [] ts = Some ts"
| "schedule (i # is) ts = (if i < length ts
     then (case step_thr ts (ts ! i) of None \<Rightarrow> None | Some t \<Rightarrow> schedule is (ts[i := t])) else None)"

text \<open>No goroutine can make a step and one has not returned.\<close>

definition deadlocked :: "'l thr list \<Rightarrow> bool" where
  "deadlocked ts = (list_all (\<lambda>t. step_thr ts t = None) ts \<and> list_ex (\<lambda>t. \<not> thr_done t) ts)"

lemma schedule_steps: "schedule is ts = Some ts' \<Longrightarrow> (gostep ^^ length is) ts ts'"
  by (induction "is" ts rule: schedule.induct) (auto split: if_splits option.splits intro!: relpowp_Suc_I2 gostep simp del: relpowp.simps(2))

subsection \<open>Every run is bounded\<close>

definition thr_size :: "'l thr \<Rightarrow> nat" where
  "thr_size t = 2 * length (todo t) - (if announced t then 1 else 0)"

lemma step_thr_size: "step_thr ts t = Some t' \<Longrightarrow> thr_size t' < thr_size t"
  by (auto simp: step_thr_def thr_size_def split: list.splits act.splits mode.splits if_splits)

lemma gostep_size:
  assumes "gostep ts ts'"
  shows "sum_list (map thr_size ts') < sum_list (map thr_size ts)"
  using assms
proof cases
  case (gostep i t)
  let ?xs = "map thr_size ts"
  have "?xs ! i \<le> sum_list ?xs" using gostep(2) by (intro elem_le_sum_list) simp
  moreover have "thr_size t < ?xs ! i" using step_thr_size[OF gostep(3)] gostep(2) by simp
  ultimately show ?thesis using gostep(2) by (simp add: gostep(1) map_update sum_list_update)
qed

lemma gosteps_size: "(gostep ^^ n) ts ts' \<Longrightarrow> n + sum_list (map thr_size ts') \<le> sum_list (map thr_size ts)"
proof (induction n arbitrary: ts')
  case (Suc n)
  then obtain u where "(gostep ^^ n) ts u" "gostep u ts'" by auto
  with Suc.IH[of u] gostep_size[of u ts'] show ?case by simp
qed simp

lemma thr_size_spawn [simp]: "thr_size (spawn as) = 2 * length as"
  by (simp add: thr_size_def spawn_def)

subsection \<open>Exclusion\<close>

text \<open>
  At most one goroutine writes a lock, and while it holds the write lock nobody reads it: the guarantee of \<^verbatim>\<open>RWMutex\<close>
  the operations rely on. It needs no discipline of the goroutines.
\<close>

definition holdsW :: "'l \<Rightarrow> 'l thr \<Rightarrow> bool" where
  "holdsW m t = ((WLk, m) \<in> set (held t))"

definition exclusive :: "'l thr list \<Rightarrow> bool" where
  "exclusive ts = (\<forall>m. \<forall>i < length ts. \<forall>j < length ts.
     (writes m (ts ! i) \<and> writes m (ts ! j) \<longrightarrow> i = j) \<and> \<not> (holdsW m (ts ! i) \<and> reads m (ts ! j)))"

lemma holdsW_writes: "holdsW m t \<Longrightarrow> writes m t"
  by (simp add: holdsW_def writes_def)

text \<open>What one step adds: a reader only where nobody writes, a writer only where nobody writes, a held write lock only where nobody reads.\<close>

lemma step_thr_adds:
  assumes "step_thr ts t = Some t'"
  shows "reads m t' \<Longrightarrow> reads m t \<or> \<not> list_ex (writes m) ts"
    and "writes m t' \<Longrightarrow> writes m t \<or> \<not> list_ex (writes m) ts"
    and "holdsW m t' \<Longrightarrow> holdsW m t \<or> writes m t \<and> \<not> list_ex (reads m) ts"
  using assms set_remove1_subset[of _ "held t"]
  by (auto simp: step_thr_def reads_def writes_def holdsW_def split: list.splits act.splits mode.splits if_splits)

lemma exclusiveI:
  assumes "\<And>m i j. i < length ts \<Longrightarrow> j < length ts \<Longrightarrow> writes m (ts ! i) \<Longrightarrow> writes m (ts ! j) \<Longrightarrow> i = j"
    and "\<And>m i j. i < length ts \<Longrightarrow> j < length ts \<Longrightarrow> holdsW m (ts ! i) \<Longrightarrow> reads m (ts ! j) \<Longrightarrow> False"
  shows "exclusive ts"
  using assms by (auto simp: exclusive_def)

lemma exclusiveD:
  assumes "exclusive ts" "i < length ts" "j < length ts"
  shows "writes m (ts ! i) \<Longrightarrow> writes m (ts ! j) \<Longrightarrow> i = j"
    and "holdsW m (ts ! i) \<Longrightarrow> reads m (ts ! j) \<Longrightarrow> False"
  using assms by (auto simp: exclusive_def)

lemma exclusive_step:
  assumes "gostep ts ts'" and excl: "exclusive ts"
  shows "exclusive ts'"
  using assms(1)
proof cases
  case (gostep i t)
  note adds = step_thr_adds[OF gostep(3)]
  have any: "k < length ts \<Longrightarrow> P (ts ! k) \<Longrightarrow> list_ex P ts" for P k
    by (auto simp: list_ex_iff)
  have w: "writes m t \<Longrightarrow> k < length ts \<Longrightarrow> writes m (ts ! k) \<Longrightarrow> k = i" for m k
    using adds(2)[of m] any[of k "writes m"] exclusiveD(1)[OF excl _ gostep(2), of k m] by blast
  have h: "holdsW m t \<Longrightarrow> k < length ts \<Longrightarrow> \<not> reads m (ts ! k)" for m k
    using adds(3)[of m] any[of k "reads m"] exclusiveD(2)[OF excl gostep(2), of k m] by blast
  have r: "reads m t \<Longrightarrow> k < length ts \<Longrightarrow> \<not> holdsW m (ts ! k)" for m k
    using adds(1)[of m] any[of k "writes m"] exclusiveD(2)[OF excl _ gostep(2), of k m] holdsW_writes[of m] by blast
  have hr: "\<not> (holdsW m t \<and> reads m t)" for m
    using h[of m i] r[of m i] adds(1)[of m] adds(3)[of m] any[OF gostep(2), of "writes m"] gostep(2) by blast
  show ?thesis
    unfolding gostep(1)
  proof (rule exclusiveI)
    fix m a b assume ab: "a < length (ts[i := t])" "b < length (ts[i := t])"
    show "writes m (ts[i := t] ! a) \<Longrightarrow> writes m (ts[i := t] ! b) \<Longrightarrow> a = b"
      using ab w[of m a] w[of m b] exclusiveD(1)[OF excl, of a b m] by (auto simp: nth_list_update gostep(2) split: if_splits)
    show "holdsW m (ts[i := t] ! a) \<Longrightarrow> reads m (ts[i := t] ! b) \<Longrightarrow> False"
      using ab h[of m b] r[of m a] hr[of m] exclusiveD(2)[OF excl, of a b m]
      by (auto simp: nth_list_update gostep(2) split: if_splits)
  qed
qed

lemma exclusive_spawn: "exclusive (map spawn ps)"
  by (auto simp: exclusive_def spawn_def writes_def reads_def holdsW_def)

lemma exclusive_reachable: "gostep\<^sup>*\<^sup>* (map spawn ps) ts \<Longrightarrow> exclusive ts"
  by (induction rule: rtranclp_induct) (auto intro: exclusive_spawn exclusive_step)

subsection \<open>Taking locks in order\<close>

text \<open>
  The locks held after a sequence of lock operations, provided that each lock taken ranks above all the locks held at
  that time and only held locks are released.
\<close>

fun in_order :: "('l \<Rightarrow> 'r::linorder) \<Rightarrow> (mode \<times> 'l) list \<Rightarrow> 'l act list \<Rightarrow> (mode \<times> 'l) list option" where
  "in_order rank H [] = Some H"
| "in_order rank H (Acq md m # as) =
     (if list_all (\<lambda>h. rank (snd h) < rank m) H then in_order rank ((md, m) # H) as else None)"
| "in_order rank H (Rel md m # as) =
     (if (md, m) \<in> set H then in_order rank (remove1 (md, m) H) as else None)"
| "in_order rank H (Run # as) = in_order rank H as"

lemma in_order_append:
  "in_order rank H (as @ bs) = (case in_order rank H as of None \<Rightarrow> None | Some H' \<Rightarrow> in_order rank H' bs)"
  by (induction rank H as rule: in_order.induct) auto

lemma in_order_next:
  assumes "in_order rank H as = Some []" and "(md, m) \<in> set H" and "as = Acq md' m' # bs"
  shows "rank m < rank m'"
  using assms by (auto simp: list_all_iff split: if_splits)

definition well_ordered :: "('l \<Rightarrow> 'r::linorder) \<Rightarrow> 'l thr list \<Rightarrow> bool" where
  "well_ordered rank ts = list_all (\<lambda>t. in_order rank (held t) (todo t) = Some []) ts"

text \<open>What a goroutine waits for that cannot make a step.\<close>

definition wants :: "'l thr \<Rightarrow> 'l" where
  "wants t = (case todo t of Acq _ m # _ \<Rightarrow> m | _ \<Rightarrow> undefined)"

locale lock_order =
  fixes rank :: "'l \<Rightarrow> 'r::linorder" and prog :: "'l act list \<Rightarrow> bool"
  assumes in_order_prog: "prog p \<Longrightarrow> in_order rank [] p = Some []"
begin

lemma step_thr_disciplined:
  "step_thr ts t = Some t' \<Longrightarrow> in_order rank (held t) (todo t) = Some [] \<Longrightarrow> in_order rank (held t') (todo t') = Some []"
  by (auto simp: step_thr_def split: list.splits act.splits mode.splits if_splits)

lemma well_ordered_step: "gostep ts ts' \<Longrightarrow> well_ordered rank ts \<Longrightarrow> well_ordered rank ts'"
  by (induction rule: gostep.induct)
    (auto simp: well_ordered_def list_all_length nth_list_update intro: step_thr_disciplined)

lemma well_ordered_reachable:
  assumes "list_all prog ps" and "gostep\<^sup>*\<^sup>* (map spawn ps) ts"
  shows "well_ordered rank ts"
  using assms(2)
proof (induction rule: rtranclp_induct)
  case base
  show ?case using assms(1) by (auto simp: well_ordered_def list_all_iff spawn_def in_order_prog)
qed (rule well_ordered_step)

lemma stuck_waits:
  assumes "step_thr ts t = None" and "\<not> thr_done t"
  obtains md as where "todo t = Acq md (wants t) # as" "list_ex (\<lambda>u. writes (wants t) u \<or> reads (wants t) u) ts"
  using assms
  by (auto simp: step_thr_def thr_done_def wants_def list_ex_iff split: list.splits act.splits mode.splits if_splits)

lemma not_deadlocked:
  assumes "well_ordered rank ts"
  shows "\<not> deadlocked ts"
proof
  assume "deadlocked ts"
  then have stuck: "\<And>t. t \<in> set ts \<Longrightarrow> step_thr ts t = None" and "\<exists>t \<in> set ts. \<not> thr_done t"
    by (auto simp: deadlocked_def list_all_iff list_ex_iff)
  let ?U = "{t \<in> set ts. \<not> thr_done t}"
  let ?R = "(\<lambda>u. rank (wants u)) ` ?U"
  have R: "finite ?R" "?R \<noteq> {}" using \<open>\<exists>t \<in> set ts. \<not> thr_done t\<close> by auto
  from Max_in[OF R] obtain t where t: "t \<in> set ts" "\<not> thr_done t" and max: "Max ?R = rank (wants t)" by auto
  have top: "rank (wants u) \<le> rank (wants t)" if "u \<in> set ts" "\<not> thr_done u" for u
    unfolding max[symmetric] using that by (intro Max_ge R) auto
  have holder: False if u: "u \<in> set ts" and h: "(md, wants t) \<in> set (held u)" for u md
  proof -
    have ord: "in_order rank (held u) (todo u) = Some []" using assms u by (auto simp: well_ordered_def list_all_iff)
    with h have fin: "\<not> thr_done u" by (auto simp: thr_done_def)
    from stuck_waits[OF stuck[OF u] fin] obtain md' as where "todo u = Acq md' (wants u) # as" by blast
    with in_order_next[OF ord h] have "rank (wants t) < rank (wants u)" by simp
    with top[OF u fin] show False by simp
  qed
  from stuck_waits[OF stuck[OF t(1)] t(2)] obtain u where u: "u \<in> set ts"
    and wr: "writes (wants t) u \<or> reads (wants t) u" by (auto simp: list_ex_iff)
  with holder have "announced u" and nxt: "\<exists>as. todo u = Acq WLk (wants t) # as"
    by (auto simp: writes_def reads_def split: list.splits act.splits mode.splits)
  then obtain v where v: "v \<in> set ts" "reads (wants t) v"
    using stuck[OF u] by (auto simp: step_thr_def list_ex_iff split: if_splits)
  then show False using holder by (auto simp: reads_def)
qed

theorem progress:
  assumes "list_all prog ps" and "gostep\<^sup>*\<^sup>* (map spawn ps) ts"
  shows "list_all thr_done ts \<or> (\<exists>ts'. gostep ts ts')"
proof -
  have "\<not> deadlocked ts" by (rule not_deadlocked[OF well_ordered_reachable[OF assms]])
  then show ?thesis
    by (auto simp: deadlocked_def list_all_iff list_ex_iff in_set_conv_nth) (metis gostep nth_mem)+
qed

end

end
