(* ===== verification/LockProps.thy ===== *)
theory LockProps
  imports LaunchLocks StreamEvent Shaped LockOrder
begin

section \<open>The locks of the operations\<close>

text \<open>
  Which locks the exported methods take, in which order, and what they hold while they wait for the driver. Every method locks
  its objects one after the other with deferred unlocks and then dispatches to its context; a failed check returns with the locks
  taken so far. Objects of all kinds have addresses, which are their numbers here.
\<close>

subsection \<open>Locks and their ranking\<close>

text \<open>
  The locks of launches, those of the other objects, and the locks inside a context: \<^verbatim>\<open>opMu\<close>, \<^verbatim>\<open>copyMu\<close>, \<^verbatim>\<open>laneCreateMu\<close> and \<^verbatim>\<open>syncMu\<close>. A
  page-locked host buffer and a registered slice are told apart by their numbers.
\<close>

datatype objlock = OL lock | LEvent nat | LGraph nat | LGraphExec nat | LPitched nat | LVolume nat | LArray nat
  | LManaged nat | LVirtual nat | LIPC nat | LHost nat | LLinker nat
  | LCtx nat | LCopyMu nat | LLaneCreateMu nat | LSyncMu nat

text \<open>Streams come first, then modules, graphs and events; device objects by address; host memory; contexts last.\<close>

fun lockRank :: "objlock \<Rightarrow> nat \<times> nat \<times> nat" where
  "lockRank (OL (LStream i)) = (0, i, 0)"
| "lockRank (OL (LModule i)) = (1, i, 0)"
| "lockRank (LGraphExec i) = (2, i, 0)"
| "lockRank (LGraph i) = (3, i, 0)"
| "lockRank (LEvent i) = (4, i, 0)"
| "lockRank (OL (LBuffer i)) = (5, i, 0)"
| "lockRank (OL (LTexture i)) = (5, i, 1)"
| "lockRank (OL (LSurface i)) = (5, i, 2)"
| "lockRank (LPitched i) = (5, i, 3)"
| "lockRank (LVolume i) = (5, i, 4)"
| "lockRank (LArray i) = (5, i, 5)"
| "lockRank (LManaged i) = (5, i, 6)"
| "lockRank (LVirtual i) = (5, i, 7)"
| "lockRank (LIPC i) = (5, i, 8)"
| "lockRank (LLinker i) = (5, i, 9)"
| "lockRank (LHost i) = (6, i, 0)"
| "lockRank (LCtx i) = (7, i, 0)"
| "lockRank (LCopyMu i) = (8, i, 0)"
| "lockRank (LLaneCreateMu i) = (9, i, 0)"
| "lockRank (LSyncMu i) = (10, i, 0)"

lemma lockRank_inj: "lockRank (OL a) = lockRank (OL b) \<Longrightarrow> a = b"
  by (cases a; cases b) simp_all

abbreviation ranked :: "(mode \<times> objlock) list \<Rightarrow> objlock act list \<Rightarrow> (mode \<times> objlock) list option" where
  "ranked \<equiv> in_order lockRank"

subsection \<open>Locking with deferred unlocks\<close>

fun nest :: "(mode \<times> objlock) list \<Rightarrow> objlock act list \<Rightarrow> objlock act list" where
  "nest [] body = body"
| "nest ((md, m) # ms) body = Acq md m # nest ms body @ [Rel md m]"

text \<open>Going to the command executor, with the barrier of the \<^verbatim>\<open>Close\<close> methods or without; to the copy executor; to a wait lane.\<close>

definition doJob_locks :: "nat \<Rightarrow> objlock act list" where
  "doJob_locks c = nest [(RLk, LCtx c)] [Run]"

definition doBarrier_locks :: "nat \<Rightarrow> objlock act list" where
  "doBarrier_locks c = nest [(RLk, LCtx c)] (nest [(WLk, LSyncMu c)] [] @ [Run, Run])"

definition doCopyJob_locks :: "nat \<Rightarrow> objlock act list" where
  "doCopyJob_locks c = nest [(RLk, LCtx c)] (nest [(WLk, LCopyMu c)] [Run] @ [Run])"

datatype lane_path = Reused | ReusedLater | Created

definition reuseWaitLane_locks :: "nat \<Rightarrow> objlock act list" where
  "reuseWaitLane_locks c = nest [(WLk, LSyncMu c)] []"

definition acquireWaitLane_locks :: "lane_path \<Rightarrow> nat \<Rightarrow> objlock act list" where
  "acquireWaitLane_locks p c = reuseWaitLane_locks c @ (case p of
     Reused \<Rightarrow> []
   | ReusedLater \<Rightarrow> nest [(WLk, LLaneCreateMu c)] (reuseWaitLane_locks c)
   | Created \<Rightarrow> nest [(WLk, LLaneCreateMu c)]
       (reuseWaitLane_locks c @ [Run] @ nest [(WLk, LSyncMu c)] []))"

definition doJobCtx_locks :: "lane_path \<Rightarrow> nat \<Rightarrow> objlock act list" where
  "doJobCtx_locks p c = nest [(RLk, LCtx c)] (acquireWaitLane_locks p c @ [Run])"

text \<open>What a lane does when it recycles a job.\<close>

definition releaseWaitLane_locks :: "nat \<Rightarrow> objlock act list" where
  "releaseWaitLane_locks c = nest [(WLk, LSyncMu c)] []"

definition Context_Close_locks :: "nat \<Rightarrow> objlock act list" where
  "Context_Close_locks c = nest [(WLk, LCtx c)]
     (nest [(WLk, LSyncMu c)] [] @ [Run] @ nest [(WLk, LCopyMu c)] [] @ [Run])"

subsection \<open>The methods\<close>

text \<open>The methods on one object: \<^verbatim>\<open>Close\<close> and the methods of a linker write, everything else reads.\<close>

definition Close_locks :: "objlock \<Rightarrow> (mode \<times> objlock) list" where
  "Close_locks m = [(WLk, m)]"

definition Use_locks :: "objlock \<Rightarrow> (mode \<times> objlock) list" where
  "Use_locks m = [(RLk, m)]"

definition FreeAsync_locks :: "nat \<Rightarrow> nat \<Rightarrow> (mode \<times> objlock) list" where
  "FreeAsync_locks st b = [(RLk, OL (LStream st)), (WLk, OL (LBuffer b))]"

text \<open>Copies between a buffer and page-locked memory.\<close>

definition CopyHost_locks :: "nat \<Rightarrow> nat \<Rightarrow> (mode \<times> objlock) list" where
  "CopyHost_locks b h = [(RLk, OL (LBuffer b)), (RLk, LHost h)]"

definition CopyHostAsync_locks :: "nat \<Rightarrow> objlock \<Rightarrow> nat \<Rightarrow> (mode \<times> objlock) list" where
  "CopyHostAsync_locks st m h = [(RLk, OL (LStream st)), (RLk, m), (RLk, LHost h)]"

definition Record_locks :: "nat \<Rightarrow> nat \<Rightarrow> (mode \<times> objlock) list" where
  "Record_locks st e = [(RLk, OL (LStream st)), (RLk, LEvent e)]"

definition WaitEvent_locks :: "nat \<Rightarrow> nat \<Rightarrow> (mode \<times> objlock) list" where
  "WaitEvent_locks st e = [(RLk, OL (LStream st)), (RLk, LEvent e)]"

definition Elapsed_locks :: "nat \<Rightarrow> nat \<Rightarrow> (mode \<times> objlock) list" where
  "Elapsed_locks e f = (case lockEvents e f of
     (first, None) \<Rightarrow> [(RLk, LEvent first)]
   | (first, Some second) \<Rightarrow> [(RLk, LEvent first), (RLk, LEvent second)])"

definition GraphExec_Launch_locks :: "nat \<Rightarrow> nat \<Rightarrow> (mode \<times> objlock) list" where
  "GraphExec_Launch_locks st e = [(RLk, OL (LStream st)), (RLk, LGraphExec e)]"

definition Update_locks :: "nat \<Rightarrow> nat \<Rightarrow> (mode \<times> objlock) list" where
  "Update_locks e g = [(WLk, LGraphExec e), (RLk, LGraph g)]"

definition ZeroAsync_locks :: "nat \<Rightarrow> nat \<Rightarrow> (mode \<times> objlock) list" where
  "ZeroAsync_locks st b = [(RLk, OL (LStream st)), (RLk, OL (LBuffer b))]"

definition prefetch_locks :: "nat \<Rightarrow> nat \<Rightarrow> (mode \<times> objlock) list" where
  "prefetch_locks st m = [(RLk, OL (LStream st)), (RLk, LManaged m)]"

definition Pitched_CopyToDevice_locks :: "nat \<Rightarrow> nat \<Rightarrow> (mode \<times> objlock) list" where
  "Pitched_CopyToDevice_locks b dst = map (\<lambda>i. (RLk, LPitched i)) (lockPitchedPair b dst)"

definition Pitched_CopyToDeviceAsync_locks :: "nat \<Rightarrow> nat \<Rightarrow> nat \<Rightarrow> (mode \<times> objlock) list" where
  "Pitched_CopyToDeviceAsync_locks st b dst = (RLk, OL (LStream st)) # Pitched_CopyToDevice_locks b dst"

text \<open>The copies between two buffers lock the source first, whatever the addresses.\<close>

definition CopyToDevice_locks :: "nat \<Rightarrow> nat \<Rightarrow> (mode \<times> objlock) list" where
  "CopyToDevice_locks b dst = (RLk, OL (LBuffer b)) # (if dst \<noteq> b then [(RLk, OL (LBuffer dst))] else [])"

definition CopyToDeviceAsync_locks :: "nat \<Rightarrow> nat \<Rightarrow> nat \<Rightarrow> (mode \<times> objlock) list" where
  "CopyToDeviceAsync_locks st b dst = (RLk, OL (LStream st)) # (RLk, OL (LBuffer b)) #
     (if dst \<noteq> b then [(RLk, OL (LBuffer dst))] else [])"

definition CopyToPeer_locks :: "nat \<Rightarrow> nat \<Rightarrow> (mode \<times> objlock) list" where
  "CopyToPeer_locks b dst = (RLk, OL (LBuffer b)) # (if dst \<noteq> b then [(RLk, OL (LBuffer dst))] else [])"

text \<open>Peer access holds the read lock of the peer while it goes to the executor of the other context.\<close>

definition EnablePeerAccess_locks :: "nat \<Rightarrow> nat \<Rightarrow> objlock act list" where
  "EnablePeerAccess_locks c peer = nest [(RLk, LCtx peer)] (doJob_locks c)"

subsection \<open>Methods take their locks in order\<close>

definition is_object :: "objlock \<Rightarrow> bool" where
  "is_object m = (fst (lockRank m) \<le> 6)"

fun host_target :: "objlock \<Rightarrow> bool" where
  "host_target (OL (LBuffer _)) = True"
| "host_target (LPitched _) = True"
| "host_target (LVolume _) = True"
| "host_target (LArray _) = True"
| "host_target _ = False"

text \<open>The locks of the methods; the copies between two buffers only when the source has the lower address.\<close>

inductive object_locks :: "(mode \<times> objlock) list \<Rightarrow> bool" where
  "is_object m \<Longrightarrow> object_locks (Close_locks m)"
| "is_object m \<Longrightarrow> object_locks (Use_locks m)"
| "object_locks (FreeAsync_locks st b)"
| "object_locks (CopyHost_locks b h)"
| "host_target m \<Longrightarrow> object_locks (CopyHostAsync_locks st m h)"
| "object_locks (Record_locks st e)"
| "object_locks (WaitEvent_locks st e)"
| "object_locks (Elapsed_locks e f)"
| "object_locks (GraphExec_Launch_locks st e)"
| "object_locks (Update_locks e g)"
| "object_locks (ZeroAsync_locks st b)"
| "object_locks (prefetch_locks st i)"
| "object_locks (Pitched_CopyToDevice_locks b dst)"
| "object_locks (Pitched_CopyToDeviceAsync_locks st b dst)"
| "b \<le> dst \<Longrightarrow> object_locks (CopyToDevice_locks b dst)"
| "b \<le> dst \<Longrightarrow> object_locks (CopyToDeviceAsync_locks st b dst)"
| "b \<le> dst \<Longrightarrow> object_locks (CopyToPeer_locks b dst)"

inductive dispatch :: "objlock act list \<Rightarrow> bool" where
  "dispatch []"
| "dispatch (nest [(RLk, LCtx c)] [])"
| "dispatch (doJob_locks c)"
| "dispatch (doBarrier_locks c)"
| "dispatch (doCopyJob_locks c)"
| "dispatch (doJobCtx_locks p c)"

lemmas lock_defs = Close_locks_def Use_locks_def FreeAsync_locks_def CopyHost_locks_def CopyHostAsync_locks_def
  Record_locks_def WaitEvent_locks_def Elapsed_locks_def GraphExec_Launch_locks_def Update_locks_def ZeroAsync_locks_def
  prefetch_locks_def Pitched_CopyToDevice_locks_def Pitched_CopyToDeviceAsync_locks_def CopyToDevice_locks_def
  CopyToDeviceAsync_locks_def CopyToPeer_locks_def

lemmas dispatch_defs = doJob_locks_def doBarrier_locks_def doCopyJob_locks_def doJobCtx_locks_def
  acquireWaitLane_locks_def reuseWaitLane_locks_def releaseWaitLane_locks_def Context_Close_locks_def

definition ascending :: "(mode \<times> objlock) list \<Rightarrow> bool" where
  "ascending ms = (sorted_wrt (\<lambda>x y. lockRank (snd x) < lockRank (snd y)) ms \<and> list_all (\<lambda>x. is_object (snd x)) ms)"

lemma host_target_rank: "host_target m \<Longrightarrow> \<exists>i k. lockRank m = (5, i, k)"
  by (cases m rule: host_target.cases) auto

lemma object_locks_ascending: "object_locks ms \<Longrightarrow> ascending ms"
  by (induction rule: object_locks.induct)
    (auto simp: lock_defs ascending_def is_object_def lockEvents_def lockPitchedPair_def Let_def min_def max_def
      dest!: host_target_rank)

lemma ascending_take: "ascending ms \<Longrightarrow> ascending (take k ms)"
  by (auto simp: ascending_def list_all_iff intro: sorted_wrt_take dest: in_set_takeD)

text \<open>Locks of objects are held when a context is entered.\<close>

lemma below_ctx: "list_all (\<lambda>x. is_object (snd x)) H \<Longrightarrow> 7 \<le> n \<Longrightarrow> list_all (\<lambda>h. lockRank (snd h) < (n, i, k)) H"
  by (auto simp: list_all_iff is_object_def less_prod_def' split: prod.splits)

lemma dispatch_ranked:
  assumes "dispatch d" and "list_all (\<lambda>x. is_object (snd x)) H"
  shows "ranked H d = Some H"
  using assms(1)
proof cases
  case (6 p c)
  then show ?thesis by (cases p) (simp_all add: dispatch_defs below_ctx[OF assms(2)])
qed (simp_all add: dispatch_defs below_ctx[OF assms(2)])

lemma nest_ranked:
  assumes "sorted_wrt (\<lambda>x y. lockRank (snd x) < lockRank (snd y)) (rev H @ ms)"
    and "ranked (rev ms @ H) d = Some (rev ms @ H)"
  shows "ranked H (nest ms d) = Some H"
  using assms
proof (induction ms arbitrary: H)
  case (Cons x ms)
  obtain md m where x: "x = (md, m)" by (cases x)
  have "ranked ((md, m) # H) (nest ms d) = Some ((md, m) # H)"
    using Cons.prems x by (intro Cons.IH) simp_all
  moreover have "list_all (\<lambda>h. lockRank (snd h) < lockRank m) H"
    using Cons.prems(1) x by (auto simp: sorted_wrt_append list_all_iff)
  ultimately show ?case by (simp add: x in_order_append)
qed simp

lemma object_locks_ranked:
  assumes "ascending ms" and "dispatch d"
  shows "ranked [] (nest ms d) = Some []"
  using assms dispatch_ranked[of d "rev ms"] by (intro nest_ranked) (auto simp: ascending_def list_all_rev)

subsection \<open>Launches whose arguments are in address order\<close>

text \<open>The lock operations of a launch; its driver call is a dispatch to the context of the module.\<close>

fun lev_acts :: "nat \<Rightarrow> lev \<Rightarrow> objlock act list" where
  "lev_acts c (RLock m) = [Acq RLk (OL m)]"
| "lev_acts c (RUnlock m) = [Rel RLk (OL m)]"
| "lev_acts c DriverCall = doJob_locks c"

definition trace_acts :: "nat \<Rightarrow> lev list \<Rightarrow> objlock act list" where
  "trace_acts c l = concat (map (lev_acts c) l)"

definition argLocks :: "KernelArg option list \<Rightarrow> lock list" where
  "argLocks as = List.map_filter (\<lambda>a. Option.bind a arg_lock) as"

lemma argLocks_simps [simp]:
  "argLocks [] = []" "argLocks (None # as) = argLocks as"
  "argLocks (Some a # as) = (case arg_lock a of None \<Rightarrow> argLocks as | Some m \<Rightarrow> m # argLocks as)"
  by (simp_all add: argLocks_def map_filter_simps split: option.splits)

lemma trace_acts_simps [simp]:
  "trace_acts c [] = []" "trace_acts c (x # l) = lev_acts c x @ trace_acts c l"
  "trace_acts c (l @ l') = trace_acts c l @ trace_acts c l'"
  by (simp_all add: trace_acts_def)

abbreviation rlocks :: "lock list \<Rightarrow> (mode \<times> objlock) list" where
  "rlocks hs \<equiv> rev (map (\<lambda>m. (RLk, OL m)) hs)"

text \<open>What one argument does to the locks: nothing, take its lock and keep it, or take it and give it back.\<close>

definition one_lock :: "lock option \<Rightarrow> kernelArgBuilder \<Rightarrow> go_error option \<times> kernelArgBuilder \<Rightarrow> bool" where
  "one_lock mo b res = (case res of (r, b') \<Rightarrow> wf_locks b' \<and> snapshot b' = snapshot b \<and>
     (trail b' = trail b \<and> heldLocks b' = heldLocks b \<or>
      (\<exists>m. mo = Some m \<and> m \<notin> set (heldLocks b) \<and>
        (trail b' = trail b @ [RLock m, RUnlock m] \<and> heldLocks b' = heldLocks b \<or>
         trail b' = trail b @ [RLock m] \<and> heldLocks b' = heldLocks b @ [m]))))"

lemma appendLocked_one:
  assumes "wf_locks b" and "\<not> snapshot b" and "is_obj_lock m"
    and put: "\<And>b. \<exists>p. put b = b\<lparr>packed := p\<rparr>"
  shows "one_lock (Some m) b (appendLocked m x closedErr put b)"
proof -
  have put_simps: "wf_locks (put b') = wf_locks b'" "heldLocks (put b') = heldLocks b'" "trail (put b') = trail b'"
    "snapshot (put b') = snapshot b'" for b'
    using put[of b'] by auto
  have snap: "snapshot (addLock m b') = snapshot b'" for b' by (simp add: addLock_def)
  have "wf_locks (addLock m (rlock m b))" "heldLocks (addLock m (rlock m b)) = heldLocks b @ [m]"
    if "m \<notin> set (heldLocks b)"
    using assms(1,3) that by (auto intro!: wf_locks_addLock simp: addLock_held rlock_def)
  then show ?thesis using assms(1,2) holdsLock_iff[OF assms(1), of m]
    by (auto simp: appendLocked_def one_lock_def Let_def put_simps snap) (auto simp: rlock_def runlock_def)
qed

lemma one_lock_none:
  "wf_locks b \<Longrightarrow> one_lock mo b (r, b)" "wf_locks b \<Longrightarrow> one_lock mo b (r, b\<lparr>packed := p\<rparr>)"
  by (simp_all add: one_lock_def)

lemma appendKernelArg_one:
  "wf_locks b \<Longrightarrow> \<not> snapshot b \<Longrightarrow> one_lock (arg_lock a) b (appendKernelArg a s b)"
  by (cases a) (auto simp: buffer_appendKernelArg_def value_appendKernelArg_def devicePtr_appendKernelArg_def
      raw_appendKernelArg_def texture_appendKernelArg_def surface_appendKernelArg_def addDevicePtr_def
      split: option.splits intro!: appendLocked_one one_lock_none)

definition ranks :: "lock list \<Rightarrow> (nat \<times> nat \<times> nat) list" where
  "ranks ms = map (\<lambda>m. lockRank (OL m)) ms"

text \<open>Arguments in address order add locks in address order to those already held.\<close>

lemma appendArgs_ranked:
  assumes "wf_locks b" and "\<not> snapshot b" and "sorted (ranks (heldLocks b @ argLocks as))"
    and "appendArgs as s b = (r, b')"
    and "\<And>m. m \<in> set (argLocks as) \<Longrightarrow> list_all (\<lambda>h. lockRank (snd h) < lockRank (OL m)) B"
  obtains tl where "trail b' = trail b @ tl" "wf_locks b'"
    "ranked (rlocks (heldLocks b) @ B) (trace_acts c tl) = Some (rlocks (heldLocks b') @ B)"
  using assms
proof (induction as s b arbitrary: thesis rule: appendArgs.induct)
  case (3 a as s b)
  obtain q b1 where q: "appendKernelArg a s b = (q, b1)" by (cases "appendKernelArg a s b")
  have one: "one_lock (arg_lock a) b (q, b1)" using appendKernelArg_one[OF 3(3,4), of a s] q by simp
  have new: "list_all (\<lambda>h. lockRank (snd h) < lockRank (OL m)) (rlocks (heldLocks b) @ B)"
    if "arg_lock a = Some m" "m \<notin> set (heldLocks b)" for m
  proof -
    have "lockRank (OL h) \<le> lockRank (OL m)" "h \<noteq> m" if "h \<in> set (heldLocks b)" for h
      using 3(5) that \<open>arg_lock a = Some m\<close> \<open>m \<notin> _\<close> by (auto simp: ranks_def sorted_append)
    then have "lockRank (OL h) < lockRank (OL m)" if "h \<in> set (heldLocks b)" for h
      using that lockRank_inj by (metis order_le_imp_less_or_eq)
    then show ?thesis using 3(7)[of m] that by (auto simp: list_all_iff)
  qed
  have tl1: "\<exists>tl. trail b1 = trail b @ tl \<and> wf_locks b1 \<and> \<not> snapshot b1 \<and>
      ranked (rlocks (heldLocks b) @ B) (trace_acts c tl) = Some (rlocks (heldLocks b1) @ B)"
    using one new 3(4) by (auto simp: one_lock_def)
  show ?case
  proof (cases q)
    case (Some e)
    then show ?thesis using tl1 q 3(2,6) by auto
  next
    case None
    have "sorted (ranks (heldLocks b1 @ argLocks as))"
      using one 3(5) by (auto simp: one_lock_def ranks_def sorted_append split: option.splits)
    with tl1 3(1)[OF q[symmetric] None] 3(2,6,7) None q show ?thesis
      by (fastforce simp: in_order_append split: option.splits)
  qed
qed auto

lemma unlocks_ranked: "ranked (rlocks hs @ B) (trace_acts c (map RUnlock (rev hs))) = Some B"
  by (induction hs rule: rev_induct) simp_all

lemma argLocks_obj: "m \<in> set (argLocks as) \<Longrightarrow> fst (lockRank (OL m)) = 5"
proof (induction as)
  case (Cons a as)
  have "arg_lock x = Some m \<Longrightarrow> fst (lockRank (OL m)) = 5" for x by (cases x) auto
  with Cons show ?case by (cases a) (auto split: option.splits)
qed simp

lemma heldLocks_objects: "wf_locks b \<Longrightarrow> m \<in> set (heldLocks b) \<Longrightarrow> is_object (OL m)"
  by (drule is_obj_heldLocks, assumption, cases m) (simp_all add: is_object_def)

text \<open>The part of a launch under the module's read lock, and the whole of it below the lock of its stream.\<close>

lemma launch_ranked:
  assumes "sorted (ranks (argLocks as))" and "launch fp ctx rs sc cfg coop as s = (r, l, s')"
    and B: "B = [] \<or> B = [(RLk, OL (LStream j))]"
  shows "ranked B (trace_acts c l) = Some B"
proof (cases "fp = None \<or> fmodule (the fp) = None")
  case False
  then obtain f i where f: "fp = Some f" "fmodule f = Some i" by auto
  let ?b = "newKernelArgBuilder (Some (octx (modules s i))) False" and ?B = "(RLk, OL (LModule i)) # B"
  obtain q b where a: "appendArgs as s ?b = (q, b)" by (cases "appendArgs as s ?b")
  have below: "list_all (\<lambda>h. lockRank (snd h) < lockRank (OL m)) ?B" if "m \<in> set (argLocks as)" for m
    using argLocks_obj[OF that] B by (cases "lockRank (OL m)") auto
  have "sorted (ranks (heldLocks ?b @ argLocks as))" using assms(1) by (simp add: wf_locks_new)
  from appendArgs_ranked[OF _ _ this a below, of c] obtain tl where tl: "trail b = trail ?b @ tl" "wf_locks b"
    "ranked (rlocks (heldLocks ?b) @ ?B) (trace_acts c tl) = Some (rlocks (heldLocks b) @ ?B)"
    by (auto simp: wf_locks_new)
  have tr: "ranked ?B (trace_acts c (trail b)) = Some (rlocks (heldLocks b) @ ?B)"
    using tl by (simp add: wf_locks_new)
  have rel: "ranked (rlocks (heldLocks b) @ ?B) (trace_acts c (release b)) = Some ?B"
    using unlocks_ranked[of "heldLocks b" ?B c] by (simp add: release_held[OF tl(2)])
  have "list_all (\<lambda>x. is_object (snd x)) (rlocks (heldLocks b) @ ?B)"
    using heldLocks_objects[OF tl(2)] B by (auto simp: list_all_iff is_object_def)
  then have job: "ranked (rlocks (heldLocks b) @ ?B) (doJob_locks c) = Some (rlocks (heldLocks b) @ ?B)"
    by (intro dispatch_ranked dispatch.intros)
  have "list_all (\<lambda>h. lockRank (snd h) < (Suc 0, i, 0)) B" using B by auto
  then show ?thesis using assms(2) f a tr rel job
    by (auto simp: launch_def Let_def in_order_append split: prod.splits if_splits option.splits)
qed (use assms in \<open>auto simp: launch_def split: option.splits if_splits\<close>)

lemma on_stream_ranked:
  assumes "sorted (ranks (argLocks as))"
    and "on_stream fp stp (\<lambda>rawst sc. launch fp ctx rawst sc cfg coop as) s = (r, l, s')"
  shows "ranked [] (trace_acts c l) = Some []"
  using assms(2)
  by (auto simp: on_stream_def Let_def in_order_append launch_ranked[OF assms(1) _ disjI2[OF refl]]
      split: option.splits if_splits prod.splits)

lemma LaunchOn_ranked:
  "sorted (ranks (argLocks as)) \<Longrightarrow> LaunchOn fp ctx stp cfg as s = (r, l, s') \<Longrightarrow> ranked [] (trace_acts c l) = Some []"
  "sorted (ranks (argLocks as)) \<Longrightarrow> LaunchCooperativeOn fp ctx stp cfg as s = (r, l, s') \<Longrightarrow> ranked [] (trace_acts c l) = Some []"
  by (auto simp: LaunchOn_def LaunchCooperativeOn_def intro: on_stream_ranked)

lemmas schedule_simps = spawn_def step_thr_def writes_def reads_def deadlocked_def thr_done_def numeral_2_eq_2 numeral_3_eq_3

subsection \<open>Calls that may run at the same time\<close>

text \<open>
  A call of a method that gets as far as its dispatch, or returns after some of its locks; closing a context; a lane recycling a job; peer access to a
  context with a lower address; a launch whose arguments are in address order, in any state.
\<close>

inductive ordered_call :: "'w itself \<Rightarrow> objlock act list \<Rightarrow> bool" for w :: "'w itself" where
  complete: "object_locks ms \<Longrightarrow> dispatch d \<Longrightarrow> ordered_call w (nest ms d)"
| early: "object_locks ms \<Longrightarrow> ordered_call w (nest (take k ms) [])"
| create: "dispatch d \<Longrightarrow> ordered_call w d"
| closeContext: "ordered_call w (Context_Close_locks c)"
| recycle: "ordered_call w (releaseWaitLane_locks c)"
| peer: "peer < c \<Longrightarrow> ordered_call w (EnablePeerAccess_locks c peer)"
| launch: "launch fp ctx rs sc cfg coop as (s :: 'w rt) = (r, l, s') \<Longrightarrow> sorted (ranks (argLocks as)) \<Longrightarrow> ordered_call w (trace_acts c l)"
| launchOn: "LaunchOn fp ctx stp cfg as (s :: 'w rt) = (r, l, s') \<Longrightarrow> sorted (ranks (argLocks as)) \<Longrightarrow> ordered_call w (trace_acts c l)"
| launchCooperativeOn: "LaunchCooperativeOn fp ctx stp cfg as (s :: 'w rt) = (r, l, s') \<Longrightarrow> sorted (ranks (argLocks as)) \<Longrightarrow>
    ordered_call w (trace_acts c l)"

interpretation calls: lock_order lockRank "ordered_call w" for w
proof
  fix p assume "ordered_call w p"
  then show "ranked [] p = Some []"
  proof cases
    case (complete ms d)
    then show ?thesis by (simp add: object_locks_ranked object_locks_ascending)
  next
    case (early ms k)
    then show ?thesis by (simp add: object_locks_ranked object_locks_ascending ascending_take dispatch.intros)
  next
    case create
    then show ?thesis by (simp add: dispatch_ranked)
  qed (auto simp: dispatch_defs EnablePeerAccess_locks_def launch_ranked LaunchOn_ranked)
qed

text \<open>
  C14. No deadlock. Take any number of concurrent calls of the exported methods, in which copies between two buffers name the one with the lower address
  first, launches name their arguments in address order and peer access is given to a context with a lower address: copies, launches, event and
  graph operations, \<^verbatim>\<open>Close\<close> of any object and of contexts, calls that fail a check half way. In every interleaving, with the writer preference of Go's locks, a
  call can go on until all have returned, after a bounded number of steps; no object is closed while another call uses it.
\<close>

theorem ordered_calls_return:
  assumes "list_all (ordered_call w) ps" and "(gostep ^^ n) (map spawn ps) ts"
  shows "(list_all thr_done ts \<or> (\<exists>ts'. gostep ts ts')) \<and> n \<le> 2 * length (concat ps) \<and> exclusive ts"
proof -
  have steps: "gostep\<^sup>*\<^sup>* (map spawn ps) ts" by (rule relpowp_imp_rtranclp[OF assms(2)])
  have "sum_list (map thr_size (map spawn ps)) = 2 * length (concat ps)"
    by (induction ps) simp_all
  then show ?thesis
    using calls.progress[OF assms(1) steps] exclusive_reachable[OF steps] gosteps_size[OF assms(2)] by auto
qed

text \<open>One elapsed time has its first lock, \<^verbatim>\<open>Close\<close> is announced on it and the opposite elapsed time waits.\<close>

definition three_calls :: "objlock act list list" where
  "three_calls = [nest (Elapsed_locks 5 3) (doJob_locks 0), nest (Elapsed_locks 3 5) (doJob_locks 0),
     nest (Close_locks (LEvent 3)) (doBarrier_locks 0)]"

lemma ordered_calls_return_witness:
  "(\<exists>ts'. gostep (the (schedule [0, 2] (map spawn three_calls))) ts') \<and>
   exclusive (the (schedule [0, 2] (map spawn three_calls)))"
proof -
  let ?ts = "the (schedule [0, 2] (map spawn three_calls))"
  have "is_object (LEvent 3)" by code_simp
  then have calls: "list_all (ordered_call TYPE(unit)) three_calls"
    by (auto simp: three_calls_def intro!: ordered_call.complete object_locks.intros dispatch.intros)
  have "schedule [0, 2] (map spawn three_calls) = Some ?ts" by code_simp
  from ordered_calls_return[OF calls schedule_steps[OF this]] show ?thesis
    by (auto simp: three_calls_def lock_defs lockEvents_def dispatch_defs schedule_simps)
qed

text \<open>
  C39. The address order is needed. For any two buffers, the copies of each into the other together with the two calls of
  \<^verbatim>\<open>Close\<close> can reach a state in which all four wait for one another for ever: each copy holds the read lock that one \<^verbatim>\<open>Close\<close> waits
  for, and waits behind the \<^verbatim>\<open>Close\<close> announced on its second buffer. Events and pitched buffers, which are locked in address order, cannot
  get there.
\<close>

theorem opposite_copies_deadlock:
  assumes "a \<noteq> b"
  shows "\<exists>ts. gostep\<^sup>*\<^sup>* (map spawn [nest (CopyToDevice_locks a b) (doCopyJob_locks c), nest (CopyToDevice_locks b a) (doCopyJob_locks c),
      nest (Close_locks (OL (LBuffer a))) (doBarrier_locks c), nest (Close_locks (OL (LBuffer b))) (doBarrier_locks c)]) ts \<and>
    deadlocked ts \<and> list_all (\<lambda>t. \<not> thr_done t) ts"
proof -
  let ?ps = "map spawn [nest (CopyToDevice_locks a b) (doCopyJob_locks c), nest (CopyToDevice_locks b a) (doCopyJob_locks c),
      nest (Close_locks (OL (LBuffer a))) (doBarrier_locks c), nest (Close_locks (OL (LBuffer b))) (doBarrier_locks c)]"
  obtain ts where ts: "schedule [0, 1, 2, 3] ?ps = Some ts" and d: "deadlocked ts" "list_all (\<lambda>t. \<not> thr_done t) ts"
    using assms by (simp add: lock_defs dispatch_defs schedule_simps)
  from relpowp_imp_rtranclp[OF schedule_steps[OF ts]] d show ?thesis by blast
qed

lemma opposite_copies_deadlock_witness:
  "\<exists>ts. gostep\<^sup>*\<^sup>* (map spawn [nest (CopyToDevice_locks 0 1) (doCopyJob_locks 0), nest (CopyToDevice_locks 1 0) (doCopyJob_locks 0),
      nest (Close_locks (OL (LBuffer 0))) (doBarrier_locks 0), nest (Close_locks (OL (LBuffer 1))) (doBarrier_locks 0)]) ts \<and>
    deadlocked ts \<and> list_all (\<lambda>t. \<not> thr_done t) ts"
  by (rule opposite_copies_deadlock) simp

text \<open>The same happens to two launches that name two buffers in opposite orders.\<close>

lemma first_inline: "(replicate 16 None)[0 := x] = x # replicate 15 None"
  by (simp add: numeral_eq_Suc)

lemma launch_two:
  assumes "launch (Some f) ctx rs sc cfg coop [Some (Arg (Some a)), Some (Arg (Some b))] s = (r, l, s')"
    and "DriverCall \<in> set l" and "a \<noteq> b" and "fmodule f = Some i"
  obtains rest where "l = RLock (LModule i) # RLock (LBuffer a) # RLock (LBuffer b) # rest"
  using assms
  by (auto simp: launch_def Let_def buffer_appendKernelArg_def appendLocked_def newKernelArgBuilder_def holdsLock_def
      rlock_def runlock_def addLock_def addDevicePtr_def release_def take_Suc first_inline split: if_splits prod.splits)

lemma opposite_launches_deadlock:
  assumes "launch (Some f) ctx rs sc cfg coop [Some (Arg (Some a)), Some (Arg (Some b))] s = (r1, l1, s1)" "DriverCall \<in> set l1"
    and "launch (Some f) ctx rs sc cfg coop [Some (Arg (Some b)), Some (Arg (Some a))] s = (r2, l2, s2)" "DriverCall \<in> set l2"
    and "a \<noteq> b" "fmodule f = Some i"
  shows "\<exists>ts. gostep\<^sup>*\<^sup>* (map spawn [trace_acts c l1, trace_acts c l2,
      nest (Close_locks (OL (LBuffer a))) (doBarrier_locks c), nest (Close_locks (OL (LBuffer b))) (doBarrier_locks c)]) ts \<and>
    deadlocked ts"
proof -
  obtain t1 t2 where l: "l1 = RLock (LModule i) # RLock (LBuffer a) # RLock (LBuffer b) # t1"
    "l2 = RLock (LModule i) # RLock (LBuffer b) # RLock (LBuffer a) # t2"
    using launch_two[OF assms(1,2,5,6)] launch_two[OF assms(3,4) assms(5)[symmetric] assms(6)] by metis
  let ?ps = "map spawn [trace_acts c l1, trace_acts c l2,
      nest (Close_locks (OL (LBuffer a))) (doBarrier_locks c), nest (Close_locks (OL (LBuffer b))) (doBarrier_locks c)]"
  obtain ts where ts: "schedule [0, 0, 1, 1, 2, 3] ?ps = Some ts" and d: "deadlocked ts"
    using assms(5) by (simp add: l lock_defs dispatch_defs schedule_simps)
  from relpowp_imp_rtranclp[OF schedule_steps[OF ts]] d show ?thesis by blast
qed

end
