(* ===== verification/GoFmt.thy ===== *)
theory GoFmt
  imports StreamEvent
begin

unbundle bit_operations_syntax

section \<open>Go's \<^verbatim>\<open>float32\<close> and the printing of values\<close>

text \<open>
  What the programs under \<^verbatim>\<open>examples\<close> use of Go's floating point arithmetic and of the package \<^verbatim>\<open>fmt\<close>: sums and products of \<^verbatim>\<open>float32\<close> values, rounded
  to nearest, ties to even; their comparison and their shortest decimal form; the printing of a \<^verbatim>\<open>time.Duration\<close>; and the text of an error. A \<^verbatim>\<open>float32\<close> is its 32 bits;
  \<^const>\<open>f32_parts\<close> gives the finite ones as sign, mantissa and exponent. Which of the NaN patterns an operation gives cannot be seen by
  these programs; it is always \<open>f32_NaN\<close> here.
\<close>

subsection \<open>Rounding\<close>

definition f32_NaN :: u32 where "f32_NaN = 0x7fc00000"
definition f32_Inf :: u32 where "f32_Inf = 0x7f800000"

definition f32_signed :: "bool \<Rightarrow> u32 \<Rightarrow> u32" where
  "f32_signed neg v = (if neg then v OR 0x80000000 else v)"

definition is_NaN :: "u32 \<Rightarrow> bool" where
  "is_NaN v = (drop_bit 23 v AND 0xff = 0xff \<and> v AND 0x7fffff \<noteq> 0)"

definition is_Inf :: "u32 \<Rightarrow> bool" where
  "is_Inf v = (drop_bit 23 v AND 0xff = 0xff \<and> v AND 0x7fffff = 0)"

text \<open>The quotient rounded to the nearest integer, a tie to the even one.\<close>

definition div_even :: "nat \<Rightarrow> nat \<Rightarrow> nat" where
  "div_even a b = (let q = a div b; r = a mod b in
     if 2 * r > b \<or> 2 * r = b \<and> odd q then q + 1 else q)"

text \<open>\<open>a / b\<close> times \<open>2^x\<close> as a fraction, and the largest \<open>l\<close> with \<open>2^l \<le> a / b\<close>.\<close>

definition scaled :: "int \<Rightarrow> nat \<Rightarrow> nat \<Rightarrow> nat \<times> nat" where
  "scaled x a b = (a * 2 ^ nat x, b * 2 ^ nat (- x))"

fun bit_length :: "nat \<Rightarrow> nat" where
  "bit_length n = (if n = 0 then 0 else Suc (bit_length (n div 2)))"

declare bit_length.simps [simp del]

definition floor_log2 :: "nat \<Rightarrow> nat \<Rightarrow> int" where
  "floor_log2 a b = (let l = int (bit_length a) - int (bit_length b) in
     case scaled (- l) a b of (a', b') \<Rightarrow> if b' \<le> a' then l else l - 1)"

text \<open>
  The \<^verbatim>\<open>float32\<close> nearest to \<open>a / b\<close>: \<open>x\<close> is the exponent of its last place, which is never below \<open>-149\<close>. Adding the mantissa to the
  shifted exponent lets a mantissa rounded up to \<open>2^24\<close> carry into the exponent.
\<close>

definition f32_round :: "bool \<Rightarrow> nat \<Rightarrow> nat \<Rightarrow> u32" where
  "f32_round neg a b = f32_signed neg (if a = 0 then 0
     else let x = max (floor_log2 a b - 23) (- 149);
              m = (case scaled (- x) a b of (a', b') \<Rightarrow> div_even a' b');
              bits = nat (x + 149) * 2 ^ 23 + m
          in if 255 * 2 ^ 23 \<le> bits then f32_Inf else of_nat bits)"

subsection \<open>Arithmetic\<close>

definition f32_of_int :: "int \<Rightarrow> u32" where
  "f32_of_int i = f32_round (i < 0) (nat \<bar>i\<bar>) 1"

text \<open>A signed integer times a power of two, rounded; \<open>neg0\<close> is the sign of a zero.\<close>

definition f32_of_scaled :: "bool \<Rightarrow> int \<Rightarrow> int \<Rightarrow> u32" where
  "f32_of_scaled neg0 i e = (case scaled e (nat \<bar>i\<bar>) 1 of (a, b) \<Rightarrow>
     f32_round (if i = 0 then neg0 else i < 0) a b)"

definition f32_add :: "u32 \<Rightarrow> u32 \<Rightarrow> u32" where
  "f32_add v w =
     (if is_NaN v \<or> is_NaN w then f32_NaN
      else if is_Inf v then (if is_Inf w \<and> v \<noteq> w then f32_NaN else v)
      else if is_Inf w then w
      else (case (the (f32_parts v), the (f32_parts w)) of ((s, m, e), (s', m', e')) \<Rightarrow>
        (let x = min e e';
             i = (if s then - m else m) * 2 ^ nat (e - x) + (if s' then - m' else m') * 2 ^ nat (e' - x)
         in f32_of_scaled (s \<and> s') i x)))"

definition f32_mul :: "u32 \<Rightarrow> u32 \<Rightarrow> u32" where
  "f32_mul v w =
     (if is_NaN v \<or> is_NaN w then f32_NaN
      else if is_Inf v \<or> is_Inf w then
        (if v AND 0x7fffffff = 0 \<or> w AND 0x7fffffff = 0 then f32_NaN
         else f32_signed (bit v 31 \<noteq> bit w 31) f32_Inf)
      else (case (the (f32_parts v), the (f32_parts w)) of ((s, m, e), (s', m', e')) \<Rightarrow>
        f32_of_scaled (s \<noteq> s') (if s \<noteq> s' then - (m * m') else m * m') (e + e')))"

text \<open>Go's \<^verbatim>\<open>==\<close>: NaN is not equal to itself, the two zeros are equal.\<close>

definition f32_eq :: "u32 \<Rightarrow> u32 \<Rightarrow> bool" where
  "f32_eq v w = (\<not> is_NaN v \<and> \<not> is_NaN w \<and> (v = w \<or> v AND 0x7fffffff = 0 \<and> w AND 0x7fffffff = 0))"

subsection \<open>Printing\<close>

text \<open>
  The shortest decimal that reads back as the same number: for one significant digit, then two, and so on, the two neighbours \<open>d\<close> and \<open>d + 1\<close> of the value
  among the multiples of \<open>10^k\<close> are tried, the nearer one first. Nine digits always suffice.
\<close>

definition ten_scaled :: "int \<Rightarrow> nat \<Rightarrow> nat \<Rightarrow> nat \<times> nat" where
  "ten_scaled x a b = (a * 10 ^ nat x, b * 10 ^ nat (- x))"

definition reads_back :: "u32 \<Rightarrow> nat \<Rightarrow> int \<Rightarrow> bool" where
  "reads_back v d k = (case ten_scaled k d 1 of (a, b) \<Rightarrow> f32_round False a b = v)"

fun shortest :: "nat \<Rightarrow> u32 \<Rightarrow> nat \<Rightarrow> nat \<Rightarrow> int \<Rightarrow> nat \<times> int" where
  "shortest 0 v a b k = (case ten_scaled (- k) a b of (a', b') \<Rightarrow> (a' div b', k))"
| "shortest (Suc n) v a b k = (case ten_scaled (- k) a b of (a', b') \<Rightarrow>
     (let d = a' div b'; near = div_even a' b'; far = (if near = d then d + 1 else d) in
      if reads_back v near k then (near, k)
      else if reads_back v far k then (far, k)
      else shortest n v a b (k - 1)))"

text \<open>The exponent \<open>k\<close> of the leading decimal digit of \<open>a / b\<close>, searched downwards from 39.\<close>

fun lead_digit :: "nat \<Rightarrow> int \<Rightarrow> nat \<Rightarrow> nat \<Rightarrow> int" where
  "lead_digit 0 k a b = k"
| "lead_digit (Suc n) k a b = (case ten_scaled (- k) a b of (a', b') \<Rightarrow>
     if b' \<le> a' then k else lead_digit n (k - 1) a b)"

fun strip0 :: "nat \<Rightarrow> string \<Rightarrow> string" where
  "strip0 0 ds = ds"
| "strip0 (Suc n) ds = (if length ds > 1 \<and> last ds = CHR ''0'' then strip0 n (butlast ds) else ds)"

text \<open>
  \<^verbatim>\<open>%v\<close> of a digit string with \<open>dp\<close> digits before the point: exponents below \<open>-4\<close> or from 6 on give the form with \<^verbatim>\<open>e\<close>.
\<close>

definition fmt_digits :: "string \<Rightarrow> int \<Rightarrow> string" where
  "fmt_digits ds dp = (let x = dp - 1 in
     if x < - 4 \<or> 6 \<le> x then
       take 1 ds @ (if length ds > 1 then ''.'' @ drop 1 ds else []) @ ''e'' @ (if x < 0 then ''-'' else ''+'') @
       (if \<bar>x\<bar> < 10 then ''0'' else []) @ show_nat (nat \<bar>x\<bar>)
     else if dp \<le> 0 then ''0.'' @ replicate (nat (- dp)) (CHR ''0'') @ ds
     else if int (length ds) \<le> dp then ds @ replicate (nat dp - length ds) (CHR ''0'')
     else take (nat dp) ds @ ''.'' @ drop (nat dp) ds)"

definition f32_show :: "u32 \<Rightarrow> string" where
  "f32_show v =
     (if is_NaN v then ''NaN''
      else if is_Inf v then (if bit v 31 then ''-Inf'' else ''+Inf'')
      else (case the (f32_parts v) of (s, m, e) \<Rightarrow> (if s then ''-'' else []) @
        (if m = 0 then ''0''
         else (case scaled e (nat m) 1 of (a, b) \<Rightarrow>
           (case shortest 9 (v AND 0x7fffffff) a b (lead_digit 90 39 a b) of (d, k) \<Rightarrow>
             (let ds = show_nat d in fmt_digits (strip0 9 ds) (int (length ds) + k)))))))"


text \<open>\<^verbatim>\<open>%#x\<close>: hexadecimal digits after \<^verbatim>\<open>0x\<close>.\<close>

definition hex_digit :: "nat \<Rightarrow> char" where
  "hex_digit n = char_of (if n < 10 then 48 + n else 87 + n)"

fun hex_digits :: "nat \<Rightarrow> nat \<Rightarrow> string" where
  "hex_digits 0 n = []"
| "hex_digits (Suc k) n = (if n < 16 then [hex_digit n] else hex_digits k (n div 16) @ [hex_digit (n mod 16)])"

definition show_hex :: "u64 \<Rightarrow> string" where
  "show_hex w = ''0x'' @ hex_digits 16 (unat w)"

subsection \<open>Durations\<close>

text \<open>
  \<^verbatim>\<open>time.Duration\<close> counts nanoseconds in 64 bits. \<^verbatim>\<open>String\<close> prints a fraction of \<open>prec\<close> digits without its trailing zeros, and the point only before a digit.
\<close>

definition fmtFrac :: "nat \<Rightarrow> nat \<Rightarrow> string" where
  "fmtFrac u prec = (let f = u mod 10 ^ prec; ds = show_nat f in
     if f = 0 then [] else ''.'' @ strip0 9 (replicate (prec - length ds) (CHR ''0'') @ ds))"

definition fmtScaled :: "nat \<Rightarrow> nat \<Rightarrow> string" where
  "fmtScaled u prec = show_nat (u div 10 ^ prec) @ fmtFrac u prec"

definition Duration_String :: "int \<Rightarrow> string" where
  "Duration_String d = (let u = nat \<bar>d\<bar> in (if d < 0 then ''-'' else []) @
     (if u = 0 then ''0s''
      else if u < 1000 then show_nat u @ ''ns''
      else if u < 1000000 then fmtScaled u 3 @ [CHR 0xC2, CHR 0xB5] @ ''s''
      else if u < 1000000000 then fmtScaled u 6 @ ''ms''
      else let secs = u div 1000000000; mins = secs div 60; hours = mins div 60 in
        (if 0 < hours then show_nat hours @ ''h'' else []) @
        (if 0 < mins then show_nat (mins mod 60) @ ''m'' else []) @
        show_nat (secs mod 60) @ fmtFrac u 9 @ ''s''))"

text \<open>\<^verbatim>\<open>Round\<close>: to the nearest multiple, halves away from zero, and to the extreme durations where the multiple does not fit.\<close>

definition Duration_Round :: "int \<Rightarrow> int \<Rightarrow> int" where
  "Duration_Round d m = (if m \<le> 0 then d else let r = \<bar>d\<bar> mod m in
     if d < 0 then
       (if r + r < m then d + r else if d - m + r < - (2 ^ 63) then - (2 ^ 63) else d - m + r)
     else
       (if r + r < m then d - r else if d + m - r \<ge> 2 ^ 63 then 2 ^ 63 - 1 else d + m - r))"

subsection \<open>The text of an error\<close>

definition PanicError_Error :: "string \<Rightarrow> string" where
  "PanicError_Error v = ''cuda: executor panic: '' @ v"

fun join_lines :: "string list \<Rightarrow> string" where
  "join_lines [] = []"
| "join_lines [x] = x"
| "join_lines (x # y # xs) = x @ [CHR 0x0A] @ join_lines (y # xs)"

fun error_text :: "go_error \<Rightarrow> string" where
  "error_text (Sentinel m) = m"
| "error_text (CudaErr c opn) = Error_Error c opn"
| "error_text (ImmutableResultError c opn txt) = txt"
| "error_text (PanicError v) = PanicError_Error v"
| "error_text Canceled = ''context canceled''"
| "error_text DeadlineExceeded = ''context deadline exceeded''"
| "error_text (WrapErr m e) = m @ error_text e"
| "error_text (JoinErr es) = join_lines (map error_text es)"

end
