(* ===== verification/GoRun.thy ===== *)
theory GoRun
  imports GoFmt Loader
begin

section \<open>Go programs over the library\<close>

text \<open>
  What the programs under \<^verbatim>\<open>examples\<close> use of the language around the library's operations: a function returns, panics, or ends the process by
  \<^verbatim>\<open>os.Exit\<close>; deferred calls run when it returns or panics, the last one first, and not on an exit. The program's state is the library's state \<^typ>\<open>'w rt\<close>, the open libraries and what was
  written to standard output and standard error. Its environment (\<open>env\<close>) is outside of the repository: how the driver is loaded, the thread that
  runs \<^verbatim>\<open>main\<close>, reading and writing page-locked memory that the driver allocated, the result of converting a floating point number that does not
  fit an integer, which Go leaves open, and the kernel image embedded in the program.
\<close>

record 'w env =
  eload :: "openlibs \<Rightarrow> (go_error + 'w LoadedDriver) \<times> openlibs"
  emain :: tid
  ehload :: "'w \<Rightarrow> u64 \<Rightarrow> u32"
  ehstore :: "u64 \<Rightarrow> u32 \<Rightarrow> 'w \<Rightarrow> 'w"
  econv :: int
  vectorAddPTX :: "u8 list"

record 'w prog =
  prt :: "'w rt"
  plibs :: openlibs
  pstdout :: "string list"
  pstderr :: "string list"

datatype 'a goexit = Ret 'a | Panic string | Exit nat

type_synonym ('w, 'a) act = "'w prog \<Rightarrow> 'a goexit \<times> 'w prog"

definition nilDeref :: string where
  "nilDeref = ''runtime error: invalid memory address or nil pointer dereference''"

definition outOfRange :: string where
  "outOfRange = ''runtime error: index out of range''"

definition newline :: string where "newline = [CHR 0x0A]"

subsection \<open>Sequencing\<close>

definition andThen_act :: "('w, 'a) act \<Rightarrow> ('a \<Rightarrow> ('w, 'b) act) \<Rightarrow> ('w, 'b) act" where
  "andThen_act f k s = (case f s of
     (Ret x, s1) \<Rightarrow> k x s1
   | (Panic m, s1) \<Rightarrow> (Panic m, s1)
   | (Exit n, s1) \<Rightarrow> (Exit n, s1))"

definition ret_act :: "'a \<Rightarrow> ('w, 'a) act" where
  "ret_act x s = (Ret x, s)"

definition Printf :: "string \<Rightarrow> ('w, 'a) act \<Rightarrow> ('w, 'a) act" where
  "Printf msg k s = k (s\<lparr>pstdout := pstdout s @ [msg]\<rparr>)"

text \<open>An operation of the library, of its context part, or of the loader and the library, inside the program.\<close>

definition lib :: "('w, 'a) rop \<Rightarrow> 'w prog \<Rightarrow> (go_error + 'a) \<times> 'w prog" where
  "lib f s = (case f (prt s) of (r, y) \<Rightarrow> (r, s\<lparr>prt := y\<rparr>))"

definition init :: "'w env \<Rightarrow> 'w prog \<Rightarrow> (go_error + unit) \<times> 'w prog" where
  "init e s = (case cuda_Init (eload e) (emain e) (sy (prt s), plibs s) of (r, y, l) \<Rightarrow>
     (r, s\<lparr>prt := (prt s)\<lparr>sy := y\<rparr>, plibs := l\<rparr>))"

text \<open>A launch without the locks it took, which are the subject of \<^verbatim>\<open>LaunchLocks\<close>.\<close>

definition unlocked :: "('w rt \<Rightarrow> (go_error + 'a) \<times> lev list \<times> 'w rt) \<Rightarrow> ('w, 'a) rop" where
  "unlocked f s = (case f s of (r, _, s1) \<Rightarrow> (r, s1))"

text \<open>\<^verbatim>\<open>if err != nil { return fmt.Errorf("op: %w", err) }\<close>\<close>

definition attempt :: "string \<Rightarrow> ('w prog \<Rightarrow> (go_error + 'a) \<times> 'w prog) \<Rightarrow>
    ('a \<Rightarrow> ('w, go_error option) act) \<Rightarrow> ('w, go_error option) act" where
  "attempt opn f k s = (case f s of
     (Inl e, s1) \<Rightarrow> (Ret (Some (WrapErr (opn @ '': '') e)), s1)
   | (Inr x, s1) \<Rightarrow> k x s1)"

text \<open>
  \<^verbatim>\<open>defer\<close>: the deferred call gets the named result of the function and may change it. While a panic unwinds, the deferred call runs too and the
  result is never seen.
\<close>

definition deferring :: "('a \<Rightarrow> ('w, 'a) act) \<Rightarrow> 'a \<Rightarrow> ('w, 'a) act \<Rightarrow> ('w, 'a) act" where
  "deferring d r0 body s = (case body s of
     (Ret r, s1) \<Rightarrow> d r s1
   | (Panic m, s1) \<Rightarrow> (case d r0 s1 of
       (Ret _, s2) \<Rightarrow> (Panic m, s2)
     | (Panic m2, s2) \<Rightarrow> (Panic m2, s2)
     | (Exit n, s2) \<Rightarrow> (Exit n, s2))
   | (Exit n, s1) \<Rightarrow> (Exit n, s1))"

subsection \<open>Cleanup\<close>

definition addCleanupErr :: "go_error option \<Rightarrow> string \<Rightarrow> go_error option \<Rightarrow> go_error option" where
  "addCleanupErr prev opn err = (case err of
     None \<Rightarrow> prev
   | Some e \<Rightarrow> (let wrapped = WrapErr (opn @ '': '') e in
       case prev of None \<Rightarrow> Some wrapped | Some _ \<Rightarrow> errors_Join [prev, Some wrapped]))"

definition cleanup :: "string \<Rightarrow> ('w prog \<Rightarrow> (go_error + unit) \<times> 'w prog) \<Rightarrow> go_error option \<Rightarrow> ('w, go_error option) act" where
  "cleanup opn fn rerr s = (case fn s of (r, s1) \<Rightarrow> (Ret (addCleanupErr rerr opn (err_of r)), s1))"

text \<open>\<^verbatim>\<open>main\<close> of a program whose work is \<^verbatim>\<open>run\<close>.\<close>

definition main_of :: "string \<Rightarrow> ('w, go_error option) act \<Rightarrow> ('w, unit) act" where
  "main_of name f = andThen_act f (\<lambda>err s. case err of
     None \<Rightarrow> (Ret (), s)
   | Some e \<Rightarrow> (Exit 1, s\<lparr>pstderr := pstderr s @ [name @ '': '' @ error_text e @ newline]\<rparr>))"

text \<open>\<^verbatim>\<open>fail\<close> of the programs that end at their first error.\<close>

definition fail :: "string \<Rightarrow> string \<Rightarrow> go_error \<Rightarrow> ('w, 'a) act" where
  "fail name opn err s = (Exit 1, s\<lparr>pstderr := pstderr s @ [name @ '': '' @ opn @ '': '' @ error_text err @ newline]\<rparr>)"

definition orFail :: "string \<Rightarrow> string \<Rightarrow> ('w prog \<Rightarrow> (go_error + 'a) \<times> 'w prog) \<Rightarrow> ('a \<Rightarrow> ('w, unit) act) \<Rightarrow> ('w, unit) act" where
  "orFail name opn f k s = (case f s of
     (Inl e, s1) \<Rightarrow> fail name opn e s1
   | (Inr x, s1) \<Rightarrow> k x s1)"

subsection \<open>Values\<close>

text \<open>The bytes of a string and of a \<^verbatim>\<open>float32\<close>, and the \<open>n\<close> values of a byte sequence; missing bytes are zero, as in a slice that \<^verbatim>\<open>make\<close> made.\<close>

definition string_bytes :: "string \<Rightarrow> u8 list" where
  "string_bytes x = map (\<lambda>c. of_nat (of_char c)) x"

definition f32_bytes :: "u32 \<Rightarrow> u8 list" where
  "f32_bytes v = le_bytes 4 (ucast v)"

definition f32_slice :: "u32 list \<Rightarrow> goslice" where
  "f32_slice vs = map f32_bytes vs"

definition f32_values :: "nat \<Rightarrow> u8 list \<Rightarrow> u32 list" where
  "f32_values n bs = map (\<lambda>i. le_word (take 4 (drop (4 * i) bs))) [0..<n]"

definition int32Type :: gotype where "int32Type = GoType ''int32'' 4"

definition f32_2 :: u32 where "f32_2 = 0x40000000"
definition f32_half :: u32 where "f32_half = 0x3f000000"

end
