(* ===== verification/VectorAdd.thy ===== *)
theory VectorAdd
  imports GoRun
begin

section \<open>The program \<^verbatim>\<open>examples/vector-add\<close>\<close>

text \<open>
  \<^verbatim>\<open>examples/vector-add/main.go\<close>. \<open>vadd_run\<close> opens the device, \<open>vadd_buffers\<close> allocates with a deferred close after each allocation, \<open>vadd_compute\<close> copies, launches and
  reads back, \<open>vadd_verify\<close> compares.
\<close>

definition vadd_n :: nat where "vadd_n = 1024"

definition vadd_aHost :: "u32 list" where
  "vadd_aHost = map (\<lambda>i. f32_of_int (int i)) [0..<vadd_n]"

definition vadd_bHost :: "u32 list" where
  "vadd_bHost = map (\<lambda>i. f32_mul (f32_of_int (int i)) f32_2) [0..<vadd_n]"

fun vadd_verify :: "nat \<Rightarrow> (u32 \<times> u32 \<times> u32) list \<Rightarrow> go_error option" where
  "vadd_verify i [] = None"
| "vadd_verify i ((got, x, y) # rest) = (let want = f32_add x y in
     if \<not> f32_eq got want then
       Some (Sentinel (''mismatch at '' @ show_nat i @ '': got '' @ f32_show got @ '', want '' @ f32_show want))
     else vadd_verify (Suc i) rest)"

definition vadd_check :: "u32 list \<Rightarrow> ('w, go_error option) act" where
  "vadd_check got s = (case vadd_verify 0 (zip got (zip vadd_aHost vadd_bHost)) of
     Some e \<Rightarrow> (Ret (Some e), s)
   | None \<Rightarrow> Printf (''ok n='' @ show_nat vadd_n @ '', c[0]='' @ f32_show (got ! 0) @ '', c['' @ show_nat (vadd_n - 1) @ '']='' @
       f32_show (got ! (vadd_n - 1)) @ newline) (ret_act None) s)"

definition vadd_args :: "nat \<Rightarrow> nat \<Rightarrow> nat \<Rightarrow> KernelArg option list" where
  "vadd_args a b c = [Some (Arg (Some a)), Some (Arg (Some b)), Some (Arg (Some c)),
     Some (ArgValue int32Type (le_bytes 4 (of_nat vadd_n)))]"

definition vadd_launch :: "nat \<Rightarrow> nat \<Rightarrow> nat \<Rightarrow> nat \<Rightarrow> Function \<Rightarrow> ('w, go_error option) act" where
  "vadd_launch ctx a b c fn =
     attempt ''launch'' (lib (unlocked (Launch (Some fn) bg (LaunchConfig1D (of_nat vadd_n) 256) (vadd_args a b c)))) (\<lambda>_.
     attempt ''synchronize'' (lib (lift_op (Context_Synchronize (Some ctx) bg))) (\<lambda>_.
     attempt ''copy result'' (lib (Buffer_CopyTo (Some c) bg (f32_slice (replicate vadd_n 0)))) (\<lambda>out.
     vadd_check (f32_values vadd_n out))))"

definition vadd_compute :: "'w env \<Rightarrow> nat \<Rightarrow> nat \<Rightarrow> nat \<Rightarrow> nat \<Rightarrow> ('w, go_error option) act" where
  "vadd_compute e ctx a b c =
     attempt ''copy a'' (lib (Buffer_CopyFrom (Some a) bg (f32_slice vadd_aHost))) (\<lambda>_.
     attempt ''copy b'' (lib (Buffer_CopyFrom (Some b) bg (f32_slice vadd_bHost))) (\<lambda>_.
     attempt ''load module'' (lib (LoadModule (Some ctx) (vectorAddPTX e))) (\<lambda>m.
     deferring (cleanup ''module close'' (lib (Module_Close (Some m)))) None (
     attempt ''function lookup'' (lib (Module_Function (Some m) (string_bytes ''vector_add''))) (\<lambda>fn.
     vadd_launch ctx a b c fn)))))"

definition vadd_buffers :: "'w env \<Rightarrow> nat \<Rightarrow> ('w, go_error option) act" where
  "vadd_buffers e ctx =
     attempt ''alloc a'' (lib (Alloc Float32 (Some ctx) (of_nat vadd_n))) (\<lambda>a.
     deferring (cleanup ''buffer a close'' (lib (Buffer_Close (Some a)))) None (
     attempt ''alloc b'' (lib (Alloc Float32 (Some ctx) (of_nat vadd_n))) (\<lambda>b.
     deferring (cleanup ''buffer b close'' (lib (Buffer_Close (Some b)))) None (
     attempt ''alloc c'' (lib (Alloc Float32 (Some ctx) (of_nat vadd_n))) (\<lambda>c.
     deferring (cleanup ''buffer c close'' (lib (Buffer_Close (Some c)))) None (
     vadd_compute e ctx a b c))))))"

definition vadd_run :: "'w env \<Rightarrow> ('w, go_error option) act" where
  "vadd_run e =
     attempt ''init'' (init e) (\<lambda>_.
     attempt ''device'' (lib (lift_op (cuda_GetDevice (emain e) 0))) (\<lambda>dev.
     attempt ''device name'' (lib (lift_op (Device_Name (emain e) (Some dev)))) (\<lambda>name.
     Printf (''device: '' @ name @ newline) (
     attempt ''primary context'' (lib (lift_op (Primary (Some dev)))) (\<lambda>ctx.
     deferring (cleanup ''context close'' (lib (lift_op (Context_Close (Some ctx))))) None (
     vadd_buffers e ctx))))))"

definition vadd_main :: "'w env \<Rightarrow> ('w, unit) act" where
  "vadd_main e = main_of ''vector-add'' (vadd_run e)"

end
