(* ===== verification/FloatProps.thy ===== *)
theory FloatProps
  imports VectorAdd EventProps
begin

unbundle bit_operations_syntax

section \<open>Floats and their bytes\<close>

subsection \<open>Sums and products that are numbers\<close>

text \<open>As words the patterns up to \<open>f32_Inf\<close> are the nonnegative numbers and infinity.\<close>

lemma f32_fields:
  fixes v :: u32
  shows "drop_bit 23 v AND 0xff = 0xff \<longleftrightarrow> unat v div 2 ^ 23 mod 256 = 255" "v AND 0x7fffff = 0 \<longleftrightarrow> unat v mod 2 ^ 23 = 0"
proof -
  have m: "(0xff :: u32) = mask 8" "(0x7fffff :: u32) = mask 23" by (simp_all add: mask_eq_exp_minus_1)
  have "unat (drop_bit 23 v AND 0xff) = unat v div 2 ^ 23 mod 256"
    unfolding m by (simp add: take_bit_eq_mask [symmetric] unsigned_take_bit_eq take_bit_eq_mod unsigned_drop_bit_eq drop_bit_eq_div unat_div unat_mod)
  moreover have "unat (0xff :: u32) = 255" by simp
  ultimately show "drop_bit 23 v AND 0xff = 0xff \<longleftrightarrow> unat v div 2 ^ 23 mod 256 = 255" by (metis word_unat_eq_iff)
  have "unat (v AND 0x7fffff) = unat v mod 2 ^ 23"
    unfolding m by (simp add: take_bit_eq_mask [symmetric] unsigned_take_bit_eq take_bit_eq_mod unat_mod)
  then show "v AND 0x7fffff = 0 \<longleftrightarrow> unat v mod 2 ^ 23 = 0" by (metis unat_eq_0)
qed

lemma le_Inf_unat: "v \<le> f32_Inf \<longleftrightarrow> unat v \<le> 255 * 2 ^ 23"
  by (simp add: word_le_nat_alt f32_Inf_def)

lemma top_exponent:
  assumes "n \<le> 255 * 2 ^ 23" "n div 2 ^ 23 mod 256 = (255 :: nat)"
  shows "n = 255 * 2 ^ 23"
proof -
  have "n div 2 ^ 23 \<le> 255 * 2 ^ 23 div 2 ^ 23" by (rule div_le_mono[OF assms(1)])
  with assms(2) have "n div 2 ^ 23 = 255" by simp
  then have "255 * 2 ^ 23 \<le> n" using div_times_less_eq_dividend[of n "2 ^ 23"] by simp
  with assms(1) show ?thesis by simp
qed

lemma le_Inf_not_NaN: "v \<le> f32_Inf \<Longrightarrow> \<not> is_NaN v"
  using top_exponent[of "unat v"] by (auto simp: is_NaN_def f32_fields le_Inf_unat)

lemma le_Inf_infinite: "v \<le> f32_Inf \<Longrightarrow> is_Inf v \<Longrightarrow> v = f32_Inf"
proof -
  assume "v \<le> f32_Inf" "is_Inf v"
  then have "unat v = 255 * 2 ^ 23" by (intro top_exponent) (simp_all add: is_Inf_def f32_fields le_Inf_unat)
  then have "unat v = unat f32_Inf" by (simp add: f32_Inf_def)
  then show ?thesis by (simp only: word_unat_eq_iff)
qed

lemma le_Inf_sign: "v \<le> f32_Inf \<Longrightarrow> \<not> bit v 31"
proof -
  assume "v \<le> f32_Inf"
  then have "v < 2 ^ 31" by (simp add: le_Inf_unat word_less_nat_alt)
  then show ?thesis by (simp add: bit_iff_odd div_word_less)
qed

lemma le_Inf_parts:
  assumes "v \<le> f32_Inf" "\<not> is_Inf v"
  obtains m e where "f32_parts v = Some (False, m, e)" "0 \<le> m"
proof -
  have "\<not> (drop_bit 23 v AND 0xff = 0xff)" using assms le_Inf_not_NaN[of v] by (auto simp: is_Inf_def is_NaN_def)
  moreover have "uint (0xff :: u32) = 255" by simp
  ultimately have "uint (drop_bit 23 v AND 0xff) \<noteq> 255" by (metis word_uint_eq_iff)
  then obtain m e where p: "f32_parts v = Some (False, m, e)"
    using le_Inf_sign[OF assms(1)] by (cases "uint (drop_bit 23 v AND 0xff) = 0") (auto simp: f32_parts_def Let_def)
  from that[OF p f32_parts_bound(1)[OF p]] show thesis .
qed

lemma f32_round_le: "f32_round False a b \<le> f32_Inf"
proof -
  have "(if a = 0 then 0 else if 255 * 2 ^ 23 \<le> n then f32_Inf else of_nat n) \<le> f32_Inf" for n
    by (simp add: le_Inf_unat unsigned_of_nat take_bit_nat_eq_self) (simp add: f32_Inf_def)
  then show ?thesis unfolding f32_round_def f32_signed_def Let_def if_False .
qed

lemma f32_of_scaled_le: "0 \<le> i \<Longrightarrow> f32_of_scaled False i e \<le> f32_Inf"
  by (auto simp: f32_of_scaled_def f32_round_le split: prod.splits)

lemma f32_of_int_le: "0 \<le> i \<Longrightarrow> f32_of_int i \<le> f32_Inf"
  by (simp add: f32_of_int_def f32_round_le)

lemma f32_add_le:
  assumes "v \<le> f32_Inf" "w \<le> f32_Inf"
  shows "f32_add v w \<le> f32_Inf"
proof (cases "is_Inf v \<or> is_Inf w")
  case True
  then show ?thesis using assms le_Inf_not_NaN le_Inf_infinite by (auto simp: f32_add_def)
next
  case False
  obtain m e where v: "f32_parts v = Some (False, m, e)" "0 \<le> m" using le_Inf_parts assms False by blast
  obtain m' e' where w: "f32_parts w = Some (False, m', e')" "0 \<le> m'" using le_Inf_parts assms False by blast
  show ?thesis using assms False v w le_Inf_not_NaN by (simp add: f32_add_def Let_def f32_of_scaled_le)
qed

lemma f32_double_le:
  assumes "v \<le> f32_Inf"
  shows "f32_mul v f32_2 \<le> f32_Inf"
proof -
  have 2: "\<not> is_NaN f32_2" "\<not> is_Inf f32_2" "f32_2 AND 0x7fffffff \<noteq> 0" "\<not> bit f32_2 31" "f32_parts f32_2 = Some (False, 2 ^ 23, - 22)"
    by code_simp+
  show ?thesis
  proof (cases "is_Inf v")
    case True
    then have "v = f32_Inf" by (rule le_Inf_infinite[OF assms])
    moreover have "f32_Inf AND 0x7fffffff \<noteq> 0" "\<not> bit f32_Inf 31" "\<not> is_NaN f32_Inf" by code_simp+
    ultimately show ?thesis using 2 True by (simp add: f32_mul_def f32_signed_def)
  next
    case False
    obtain m e where v: "f32_parts v = Some (False, m, e)" "0 \<le> m" using le_Inf_parts[OF assms False] .
    then show ?thesis using 2 False le_Inf_not_NaN[OF assms] by (simp add: f32_mul_def f32_of_scaled_le)
  qed
qed

subsection \<open>Bytes\<close>

lemma le_word_bytes: "le_word (le_bytes n w) = take_bit (8 * n) (ucast w)"
proof (induction n w rule: le_bytes.induct)
  case (2 n w)
  show ?case unfolding le_bytes.simps le_word.simps 2
    by (rule bit_eqI) (auto simp: bit_simps)
qed simp

lemma le_word_f32: "le_word (f32_bytes v) = v"
proof -
  have "take_bit 32 v = v" by (rule bit_eqI) (auto simp: bit_simps)
  moreover have "ucast (ucast v :: u64) = v" by (rule bit_eqI) (auto simp: bit_simps)
  ultimately show ?thesis by (simp add: f32_bytes_def le_word_bytes)
qed

lemma take_drop_bytes:
  "i < length vs \<Longrightarrow> take 4 (drop (4 * i) (concat (map f32_bytes vs))) = f32_bytes (vs ! i)"
proof (induction vs arbitrary: i)
  case (Cons v vs)
  then show ?case by (cases i) (simp_all add: f32_bytes_def)
qed simp

lemma f32_values_slice: "f32_values (length vs) (slice_bytes (f32_slice vs)) = vs"
  by (rule nth_equalityI) (simp_all add: f32_values_def slice_bytes_def f32_slice_def take_drop_bytes le_word_f32)

lemma length_f32_values [simp]: "length (f32_values n bs) = n"
  by (simp add: f32_values_def)

lemma f32_slice_of: "length vs < 2 ^ 61 \<Longrightarrow> goslice_of Float32 (f32_slice vs)"
  by (auto simp: goslice_of_def f32_slice_def f32_bytes_def list_all_iff)

end
