(* ===== verification/EventPipeline.thy ===== *)
theory EventPipeline
  imports GoRun
begin

section \<open>The program \<^verbatim>\<open>examples/event-pipeline\<close>\<close>

text \<open>
  \<^verbatim>\<open>examples/event-pipeline/main.go\<close>: two batches of vector additions through a copy stream and a compute stream. The elements of page-locked buffers are
  in memory the driver allocated; a slice of it is its address and length, and indexing beyond the length panics.
\<close>

definition batches :: nat where "batches = 2"
definition pipe_n :: goint where "pipe_n = 1048576"
definition pipe_block :: goint where "pipe_block = 256"

record workBatch =
  wb_aHost :: "nat option"
  wb_bHost :: "nat option"
  wb_cHost :: "nat option"
  wb_a :: "nat option"
  wb_b :: "nat option"
  wb_c :: "nat option"
  wb_ready :: "nat option"
  wb_done :: "nat option"

definition newWorkBatch :: workBatch where
  "newWorkBatch = \<lparr>wb_aHost = None, wb_bHost = None, wb_cHost = None, wb_a = None, wb_b = None, wb_c = None,
     wb_ready = None, wb_done = None\<rparr>"

definition batchMsg :: "nat \<Rightarrow> string \<Rightarrow> string" where
  "batchMsg i opn = ''batch '' @ show_nat i @ '' '' @ opn"

subsection \<open>Closing a batch\<close>

definition closeField :: "nat \<Rightarrow> string \<Rightarrow> nat option \<Rightarrow> (nat option \<Rightarrow> ('w, unit) rop) \<Rightarrow> go_error option \<Rightarrow>
    ('w, go_error option) act" where
  "closeField i what p cl rerr s = (if p \<noteq> None then cleanup (batchMsg i what) (lib (cl p)) rerr s else (Ret rerr, s))"

text \<open>A nil batch has no fields to read.\<close>

definition workBatch_close :: "workBatch option \<Rightarrow> nat \<Rightarrow> go_error option \<Rightarrow> ('w, go_error option) act" where
  "workBatch_close bp i rerr s = (case bp of
     None \<Rightarrow> (Panic nilDeref, s)
   | Some b \<Rightarrow>
       andThen_act (closeField i ''done event close'' (wb_done b) Event_Close rerr) (\<lambda>rerr.
       andThen_act (closeField i ''ready event close'' (wb_ready b) Event_Close rerr) (\<lambda>rerr.
       andThen_act (closeField i ''device c close'' (wb_c b) Buffer_Close rerr) (\<lambda>rerr.
       andThen_act (closeField i ''device b close'' (wb_b b) Buffer_Close rerr) (\<lambda>rerr.
       andThen_act (closeField i ''device a close'' (wb_a b) Buffer_Close rerr) (\<lambda>rerr.
       andThen_act (closeField i ''host c close'' (wb_cHost b) HostBuffer_Close rerr) (\<lambda>rerr.
       andThen_act (closeField i ''host b close'' (wb_bHost b) HostBuffer_Close rerr) (\<lambda>rerr.
       closeField i ''host a close'' (wb_aHost b) HostBuffer_Close rerr))))))) s)"

subsection \<open>Building a batch\<close>

text \<open>An element of a slice of page-locked memory; a nil slice has no elements.\<close>

definition slice_at :: "(u64 \<times> goint) option \<Rightarrow> nat \<Rightarrow> u64 option" where
  "slice_at sl i = (case sl of None \<Rightarrow> None | Some (p, n) \<Rightarrow> if int i < sint n then Some (p + 4 * of_nat i) else None)"

definition slice_len :: "(u64 \<times> goint) option \<Rightarrow> nat" where
  "slice_len sl = (case sl of None \<Rightarrow> 0 | Some (_, n) \<Rightarrow> nat (sint n))"

definition storeAt :: "'w env \<Rightarrow> u64 \<Rightarrow> u32 \<Rightarrow> 'w prog \<Rightarrow> 'w prog" where
  "storeAt e p v s = s\<lparr>prt := (prt s)\<lparr>sy := (sy (prt s))\<lparr>world := ehstore e p v (world (sy (prt s)))\<rparr>\<rparr>\<rparr>"

definition loadAt :: "'w env \<Rightarrow> u64 \<Rightarrow> 'w prog \<Rightarrow> u32" where
  "loadAt e p s = ehload e (world (sy (prt s))) p"

fun fillBatch :: "'w env \<Rightarrow> u32 \<Rightarrow> (u64 \<times> goint) option \<Rightarrow> (u64 \<times> goint) option \<Rightarrow> nat list \<Rightarrow> ('w, unit) act" where
  "fillBatch e base a bb [] s = (Ret (), s)"
| "fillBatch e base a bb (i # is) s = (case (slice_at a i, slice_at bb i) of
     (Some p, Some q) \<Rightarrow> fillBatch e base a bb is
        (storeAt e q (f32_mul (f32_of_int (int i)) f32_half) (storeAt e p (f32_add base (f32_of_int (int i))) s))
   | (Some p, None) \<Rightarrow> (Panic outOfRange, storeAt e p (f32_add base (f32_of_int (int i))) s)
   | (None, _) \<Rightarrow> (Panic outOfRange, s))"

text \<open>
  A step of \<^verbatim>\<open>newBatch\<close>: a field of the batch is assigned what was made, and on an error the function returns \<^verbatim>\<open>nil\<close> and the wrapped error. Both are named
  results: the assignment of \<^verbatim>\<open>nil\<close> comes before the deferred function runs, which then closes the batch \<^verbatim>\<open>b\<close> it finds there.
\<close>

definition batchField :: "nat \<Rightarrow> string \<Rightarrow> ('w, nat) rop \<Rightarrow> (nat option \<Rightarrow> workBatch) \<Rightarrow>
    (workBatch \<Rightarrow> ('w, workBatch option \<times> go_error option) act) \<Rightarrow> ('w, workBatch option \<times> go_error option) act" where
  "batchField i what f put k s = (case lib f s of
     (Inl e, s1) \<Rightarrow> (Ret (None, Some (WrapErr (batchMsg i what @ '': '') e)), s1)
   | (Inr p, s1) \<Rightarrow> k (put (Some p)) s1)"

definition newBatch_body :: "'w env \<Rightarrow> nat \<Rightarrow> nat \<Rightarrow> ('w, workBatch option \<times> go_error option) act" where
  "newBatch_body e ctx i =
     batchField i ''alloc host a'' (AllocHost Float32 (Some ctx) pipe_n) (\<lambda>p. newWorkBatch\<lparr>wb_aHost := p\<rparr>) (\<lambda>b.
     batchField i ''alloc host b'' (AllocHost Float32 (Some ctx) pipe_n) (\<lambda>p. b\<lparr>wb_bHost := p\<rparr>) (\<lambda>b.
     batchField i ''alloc host c'' (AllocHost Float32 (Some ctx) pipe_n) (\<lambda>p. b\<lparr>wb_cHost := p\<rparr>) (\<lambda>b.
     batchField i ''alloc device a'' (Alloc Float32 (Some ctx) pipe_n) (\<lambda>p. b\<lparr>wb_a := p\<rparr>) (\<lambda>b.
     batchField i ''alloc device b'' (Alloc Float32 (Some ctx) pipe_n) (\<lambda>p. b\<lparr>wb_b := p\<rparr>) (\<lambda>b.
     batchField i ''alloc device c'' (Alloc Float32 (Some ctx) pipe_n) (\<lambda>p. b\<lparr>wb_c := p\<rparr>) (\<lambda>b.
     batchField i ''ready event'' (NewEvent (Some ctx) [Some WithEventDisableTiming]) (\<lambda>p. b\<lparr>wb_ready := p\<rparr>) (\<lambda>b.
     batchField i ''done event'' (NewEvent (Some ctx) [Some WithEventDisableTiming]) (\<lambda>p. b\<lparr>wb_done := p\<rparr>) (\<lambda>b s.
     (let a = HostBuffer_Slice (wb_aHost b) (prt s); bb = HostBuffer_Slice (wb_bHost b) (prt s);
          base = f32_of_int (int i * sint pipe_n)
      in andThen_act (fillBatch e base a bb [0..<slice_len a]) (\<lambda>_. ret_act (Some b, None)) s)))))))))"

definition newBatch_deferred :: "nat \<Rightarrow> workBatch option \<times> go_error option \<Rightarrow> ('w, workBatch option \<times> go_error option) act" where
  "newBatch_deferred i = (\<lambda>(b, err). if err = None then ret_act (b, err)
     else andThen_act (workBatch_close b i None) (\<lambda>cleanupErr. ret_act (b, errors_Join [err, cleanupErr])))"

definition newBatch :: "'w env \<Rightarrow> nat \<Rightarrow> nat \<Rightarrow> ('w, workBatch option \<times> go_error option) act" where
  "newBatch e ctx i = deferring (newBatch_deferred i) (None, None) (newBatch_body e ctx i)"

subsection \<open>The pipeline\<close>

text \<open>A field of a batch, through its pointer.\<close>

definition deref_batch :: "workBatch option \<Rightarrow> (workBatch \<Rightarrow> ('w, 'a) act) \<Rightarrow> ('w, 'a) act" where
  "deref_batch b k s = (case b of None \<Rightarrow> (Panic nilDeref, s) | Some x \<Rightarrow> k x s)"

text \<open>As \<^const>\<open>attempt\<close>, with the flag \<^verbatim>\<open>submitted\<close> as it is when the function returns.\<close>

definition submitting :: "bool \<Rightarrow> string \<Rightarrow> ('w, 'a) rop \<Rightarrow> ('w, go_error option \<times> bool) act \<Rightarrow>
    ('w, go_error option \<times> bool) act" where
  "submitting flag opn f k s = (case lib f s of
     (Inl e, s1) \<Rightarrow> (Ret (Some (WrapErr (opn @ '': '') e), flag), s1)
   | (Inr _, s1) \<Rightarrow> k s1)"

definition pipe_args :: "workBatch \<Rightarrow> KernelArg option list" where
  "pipe_args b = [Some (Arg (wb_a b)), Some (Arg (wb_b b)), Some (Arg (wb_c b)),
     Some (ArgValue int32Type (le_bytes 4 pipe_n))]"

fun submitBatches :: "Function \<Rightarrow> nat \<Rightarrow> nat \<Rightarrow> (nat \<times> workBatch option) list \<Rightarrow> bool \<Rightarrow>
    (bool \<Rightarrow> ('w, go_error option \<times> bool) act) \<Rightarrow> ('w, go_error option \<times> bool) act" where
  "submitBatches fn copy cs [] flag k = k flag"
| "submitBatches fn copy cs ((i, bp) # bs) flag k = deref_batch bp (\<lambda>b.
     submitting flag (batchMsg i ''copy a'') (Buffer_CopyFromHostAsync (wb_a b) bg (Some copy) (Some (PHostBuffer (wb_aHost b)))) (
     submitting True (batchMsg i ''copy b'') (Buffer_CopyFromHostAsync (wb_b b) bg (Some copy) (Some (PHostBuffer (wb_bHost b)))) (
     submitting True (batchMsg i ''record ready'') (Event_Record (wb_ready b) (Some copy)) (
     submitting True (batchMsg i ''wait ready'') (Stream_WaitEvent (Some cs) (wb_ready b) []) (
     submitting True (batchMsg i ''launch'')
       (unlocked (LaunchOn (Some fn) bg (Some cs) (LaunchConfig1D pipe_n pipe_block) (pipe_args b))) (
     submitting True (batchMsg i ''record done'') (Event_Record (wb_done b) (Some cs)) (
     submitBatches fn copy cs bs True k)))))))"

fun collectBatches :: "nat \<Rightarrow> (nat \<times> workBatch option) list \<Rightarrow> bool \<Rightarrow> ('w, go_error option \<times> bool) act \<Rightarrow>
    ('w, go_error option \<times> bool) act" where
  "collectBatches copy [] flag k = k"
| "collectBatches copy ((i, bp) # bs) flag k = deref_batch bp (\<lambda>b.
     submitting flag (batchMsg i ''wait done'') (Stream_WaitEvent (Some copy) (wb_done b) []) (
     submitting flag (batchMsg i ''copy result'') (Buffer_CopyToHostAsync (wb_c b) bg (Some copy) (Some (PHostBuffer (wb_cHost b)))) (
     collectBatches copy bs flag k)))"

fun verifyFrom :: "'w env \<Rightarrow> nat \<Rightarrow> (u64 \<times> goint) option \<Rightarrow> (u64 \<times> goint) option \<Rightarrow> (u64 \<times> goint) option \<Rightarrow> nat list \<Rightarrow>
    ('w, go_error option) act" where
  "verifyFrom e bi a bb c [] s = (Ret None, s)"
| "verifyFrom e bi a bb c (i # is) s = (case (slice_at a i, slice_at bb i, slice_at c i) of
     (Some p, Some q, Some r) \<Rightarrow> (let want = f32_add (loadAt e p s) (loadAt e q s); got = loadAt e r s in
       if \<not> f32_eq got want then
         (Ret (Some (Sentinel (batchMsg bi (''mismatch at '' @ show_nat i @ '': got '' @ f32_show got @ '', want '' @ f32_show want)))), s)
       else verifyFrom e bi a bb c is s)
   | _ \<Rightarrow> (Panic outOfRange, s))"

definition verifyBatch :: "'w env \<Rightarrow> nat \<Rightarrow> workBatch option \<Rightarrow> ('w, go_error option) act" where
  "verifyBatch e i bp = deref_batch bp (\<lambda>b s.
     (let a = HostBuffer_Slice (wb_aHost b) (prt s); bb = HostBuffer_Slice (wb_bHost b) (prt s);
          c = HostBuffer_Slice (wb_cHost b) (prt s)
      in verifyFrom e i a bb c [0..<slice_len c] s))"

fun verifyAll :: "'w env \<Rightarrow> (nat \<times> workBatch option) list \<Rightarrow> ('w, go_error option) act \<Rightarrow> ('w, go_error option) act" where
  "verifyAll e [] k = k"
| "verifyAll e ((i, b) # bs) k = andThen_act (verifyBatch e i b) (\<lambda>err. case err of
     Some x \<Rightarrow> ret_act (Some x)
   | None \<Rightarrow> verifyAll e bs k)"

definition formatDuration :: "int \<Rightarrow> string" where
  "formatDuration d = (if d < 1000 then Duration_String d else Duration_String (Duration_Round d 1000))"

text \<open>The end of \<^verbatim>\<open>run\<close>, after \<^verbatim>\<open>submitted = false\<close>.\<close>

definition pipe_finish :: "'w env \<Rightarrow> nat \<Rightarrow> nat \<Rightarrow> (nat \<times> workBatch option) list \<Rightarrow> string \<Rightarrow> ('w, go_error option) act" where
  "pipe_finish e start stop bs query =
     attempt ''elapsed'' (lib (Event_Elapsed (Some start) (Some stop))) (\<lambda>el.
     verifyAll e bs (
     Printf (''ok batches='' @ show_nat batches @ '' n='' @ show_int (sint pipe_n) @ '' gpu_time='' @
       formatDuration (case el of Some d \<Rightarrow> d | None \<Rightarrow> econv e) @ '' stop_query_before_sync='' @ query @ newline)
       (ret_act None)))"

definition pipe_wait :: "'w env \<Rightarrow> nat \<Rightarrow> nat \<Rightarrow> (nat \<times> workBatch option) list \<Rightarrow> bool \<Rightarrow> string \<Rightarrow>
    ('w, go_error option \<times> bool) act" where
  "pipe_wait e start stop bs flag query =
     submitting flag ''stop synchronize'' (Event_Synchronize (Some stop) bg) (
     andThen_act (pipe_finish e start stop bs query) (\<lambda>err. ret_act (err, False)))"

definition pipe_query :: "'w env \<Rightarrow> nat \<Rightarrow> nat \<Rightarrow> (nat \<times> workBatch option) list \<Rightarrow> bool \<Rightarrow> ('w, go_error option \<times> bool) act" where
  "pipe_query e start stop bs flag s = (case lib (Event_Query (Some stop)) s of
     (Inr _, s1) \<Rightarrow> pipe_wait e start stop bs flag ''ready'' s1
   | (Inl err, s1) \<Rightarrow>
       if \<not> errors_Is err ErrNotReady then (Ret (Some (WrapErr ''query stop: '' err), flag), s1)
       else pipe_wait e start stop bs flag ''pending'' s1)"

definition pipe_submit :: "'w env \<Rightarrow> Function \<Rightarrow> nat \<Rightarrow> nat \<Rightarrow> nat \<Rightarrow> nat \<Rightarrow> (nat \<times> workBatch option) list \<Rightarrow>
    ('w, go_error option \<times> bool) act" where
  "pipe_submit e fn copy cs start stop bs =
     submitting False ''record start'' (Event_Record (Some start) (Some copy)) (
     submitBatches fn copy cs bs False (\<lambda>flag.
     collectBatches copy bs flag (
     submitting flag ''record stop'' (Event_Record (Some stop) (Some copy)) (
     pipe_query e start stop bs flag))))"

text \<open>The deferred synchronisation. Only \<^verbatim>\<open>verifyBatch\<close> could panic after the batches are built, when the flag is false again.\<close>

definition pipe_synced :: "nat \<Rightarrow> ('w, go_error option \<times> bool) act \<Rightarrow> ('w, go_error option) act" where
  "pipe_synced ctx body = andThen_act body (\<lambda>(rerr, submitted). if submitted
     then cleanup ''synchronize before cleanup'' (lib (lift_op (Context_Synchronize (Some ctx) bg))) rerr
     else ret_act rerr)"

fun withBatches :: "'w env \<Rightarrow> nat \<Rightarrow> nat list \<Rightarrow> (nat \<times> workBatch option) list \<Rightarrow>
    ((nat \<times> workBatch option) list \<Rightarrow> ('w, go_error option) act) \<Rightarrow> ('w, go_error option) act" where
  "withBatches e ctx [] bs k = k bs"
| "withBatches e ctx (i # is) bs k = andThen_act (newBatch e ctx i) (\<lambda>(b, err). case err of
     Some x \<Rightarrow> ret_act (Some x)
   | None \<Rightarrow> deferring (workBatch_close b i) None (withBatches e ctx is (bs @ [(i, b)]) k))"

definition pipe_events :: "'w env \<Rightarrow> nat \<Rightarrow> nat \<Rightarrow> nat \<Rightarrow> ('w, go_error option) act" where
  "pipe_events e ctx copy cs =
     attempt ''start event'' (lib (NewEvent (Some ctx) [])) (\<lambda>start.
     deferring (cleanup ''start event close'' (lib (Event_Close (Some start)))) None (
     attempt ''stop event'' (lib (NewEvent (Some ctx) [])) (\<lambda>stop.
     deferring (cleanup ''stop event close'' (lib (Event_Close (Some stop)))) None (
     attempt ''load module'' (lib (LoadModule (Some ctx) (vectorAddPTX e))) (\<lambda>m.
     deferring (cleanup ''module close'' (lib (Module_Close (Some m)))) None (
     attempt ''function lookup'' (lib (Module_Function (Some m) (string_bytes ''vector_add''))) (\<lambda>fn.
     withBatches e ctx [0..<batches] [] (\<lambda>bs.
     pipe_synced ctx (pipe_submit e fn copy cs start stop bs)))))))))"

definition pipe_run :: "'w env \<Rightarrow> ('w, go_error option) act" where
  "pipe_run e =
     attempt ''init'' (init e) (\<lambda>_.
     attempt ''device'' (lib (lift_op (cuda_GetDevice (emain e) 0))) (\<lambda>dev.
     attempt ''device name'' (lib (lift_op (Device_Name (emain e) (Some dev)))) (\<lambda>name.
     Printf (''device: '' @ name @ newline) (
     attempt ''primary context'' (lib (lift_op (Primary (Some dev)))) (\<lambda>ctx.
     deferring (cleanup ''context close'' (lib (lift_op (Context_Close (Some ctx))))) None (
     attempt ''copy stream'' (lib (NewStream (Some ctx) [])) (\<lambda>copy.
     deferring (cleanup ''copy stream close'' (lib (Stream_Close (Some copy)))) None (
     attempt ''compute stream'' (lib (NewStream (Some ctx) [])) (\<lambda>cs.
     deferring (cleanup ''compute stream close'' (lib (Stream_Close (Some cs)))) None (
     pipe_events e ctx copy cs))))))))))"

definition pipe_main :: "'w env \<Rightarrow> ('w, unit) act" where
  "pipe_main e = main_of ''event-pipeline'' (pipe_run e)"

end
