(* ===== verification/Cleanup.thy ===== *)
theory Cleanup
  imports VectorAdd EventPipeline Start
begin

section \<open>Cleaning up\<close>

text \<open>
  What a program leaves behind: the objects it made that are still open. An object made since a state \<open>s0\<close> shows as a changed entry of its store, or as a new context.
\<close>

datatype obj = OBuffer nat | OHostBuffer nat | OStream nat | OEvent nat | OModule nat | OContext nat

fun isopen :: "'w rt \<Rightarrow> 'w rt \<Rightarrow> obj \<Rightarrow> bool" where
  "isopen s0 s (OBuffer i) = (buffers s i \<noteq> buffers s0 i \<and> \<not> oclosed (buffers s i))"
| "isopen s0 s (OHostBuffer i) = (hostbufs s i \<noteq> hostbufs s0 i \<and> \<not> oclosed (hostbufs s i))"
| "isopen s0 s (OStream i) = (streams s i \<noteq> streams s0 i \<and> \<not> oclosed (streams s i))"
| "isopen s0 s (OEvent i) = (events s i \<noteq> events s0 i \<and> \<not> oclosed (events s i))"
| "isopen s0 s (OModule i) = (modules s i \<noteq> modules s0 i \<and> \<not> oclosed (modules s i))"
| "isopen s0 s (OContext c) = (nctxs (sy s0) \<le> c \<and> c < nctxs (sy s) \<and> \<not> closed (ctxs (sy s) c))"

lemma isopen_refl [simp]: "\<not> isopen s s x"
  by (cases x) auto

text \<open>From \<open>s\<close> to \<open>s'\<close> at most the objects \<open>T\<close> were opened.\<close>

definition grows :: "'w rt \<Rightarrow> 'w rt \<Rightarrow> obj set \<Rightarrow> bool" where
  "grows s s' T = (\<forall>s0 x. isopen s0 s' x \<longrightarrow> isopen s0 s x \<or> x \<in> T)"

lemma grows_refl [simp]: "grows s s T"
  by (simp add: grows_def)

lemma grows_trans: "grows s s1 T \<Longrightarrow> grows s1 s2 U \<Longrightarrow> T \<union> U \<subseteq> V \<Longrightarrow> grows s s2 V"
  unfolding grows_def by blast

lemma grows_nothing: "grows s s1 {} \<Longrightarrow> grows s1 s2 {} \<Longrightarrow> grows s s2 {}"
  by (rule grows_trans) simp_all

text \<open>A state that differs only in the context part, with the same contexts closed.\<close>

definition quietly :: "'w rt \<Rightarrow> 'w rt \<Rightarrow> bool" where
  "quietly s s' = (\<exists>y. s' = s\<lparr>sy := y\<rparr> \<and> nctxs y = nctxs (sy s) \<and> (\<forall>c. closed (ctxs y c) = closed (ctxs (sy s) c)))"

lemma quietly_grows: "quietly s s' \<Longrightarrow> grows s s' T"
proof -
  assume "quietly s s'"
  then have "isopen s0 s' x \<Longrightarrow> isopen s0 s x" for s0 x
    by (cases x) (auto simp: quietly_def)
  then show ?thesis by (auto simp: grows_def)
qed

lemma quietly_refl [simp]: "quietly s s"
  unfolding quietly_def by (rule exI[of _ "sy s"]) simp

lemma quietly_identity: "same_identity (sy s) y \<Longrightarrow> quietly s (s\<lparr>sy := y\<rparr>)"
  unfolding quietly_def by (rule exI[of _ y]) (auto simp: same_identity_def same_ctx_def)

lemma quietly_world: "ctxs y = ctxs (sy s) \<Longrightarrow> nctxs y = nctxs (sy s) \<Longrightarrow> quietly s (s\<lparr>sy := y\<rparr>)"
  unfolding quietly_def by (rule exI[of _ y]) simp

subsection \<open>Operations that open nothing\<close>

definition quiet :: "('w, 'a) rop \<Rightarrow> bool" where
  "quiet f = (\<forall>s r s'. f s = (r, s') \<longrightarrow> quietly s s')"

lemma quietI: "(\<And>s r s'. f s = (r, s') \<Longrightarrow> quietly s s') \<Longrightarrow> quiet f"
  by (simp add: quiet_def)

lemma quiet_dispatch:
  "lift_op (doJob cp ctx job) s = (r, s') \<Longrightarrow> quietly s s'"
  "lift_op (doCopyJob cp ctx job) s = (r, s') \<Longrightarrow> quietly s s'"
  "lift_op (doJobCtx cp ctx job) s = (r, s') \<Longrightarrow> quietly s s'"
  "lift_op (doWith cp ctx job wt br) s = (r, s') \<Longrightarrow> quietly s s'"
  by (auto elim!: lift_opE dest!: doJob_identity doCopyJob_identity doJobCtx_identity doWith_identity intro: quietly_identity)

lemma no_value_state: "no_value p = (r, s) \<Longrightarrow> \<exists>r'. p = (r', s)"
  by (auto simp: no_value_def split: prod.splits sum.splits)

lemma quiet_no_value_copy:
  "no_value (lift_op (memcpyHtoD m c ctx p h n) s) = (r, s') \<Longrightarrow> quietly s s'"
  "no_value (lift_op (memcpyHtoDAsync m c ctx p h n st) s) = (r, s') \<Longrightarrow> quietly s s'"
  "no_value (lift_op (memcpyDtoHAsync m c ctx h p n st) s) = (r, s') \<Longrightarrow> quietly s s'"
  "lift_op (memcpyDtoH m c ctx h p n) s = (u, s') \<Longrightarrow> quietly s s'"
  by (auto dest!: no_value_state elim!: lift_opE simp: pooled_copies pooled_async_copies
      intro!: quietly_identity dest: doCopyJob_identity doJob_identity)

lemma quiet_copies:
  "quiet (Buffer_CopyFrom p ctx src)" "quiet (Buffer_CopyTo p ctx dst)"
  "quiet (Buffer_CopyFromHostAsync p ctx st h)" "quiet (Buffer_CopyToHostAsync p ctx st h)"
  by (auto simp: quiet_def Buffer_CopyFrom_def Buffer_CopyTo_def Buffer_CopyFromHostAsync_def Buffer_CopyToHostAsync_def Let_def
      split: option.splits if_splits sum.splits dest: quiet_no_value_copy)

lemma quiet_events:
  "quiet (Event_Record p st)" "quiet (Stream_WaitEvent st p os)" "quiet (Event_Query p)" "quiet (Event_Synchronize p ctx)"
  by (auto simp: quiet_def Event_Record_def Stream_WaitEvent_def Event_Query_def Event_Synchronize_def Let_def
      split: option.splits if_splits sum.splits dest: quiet_dispatch)

lemma quiet_Elapsed: "quiet (Event_Elapsed p q)"
  by (auto simp: quiet_def Event_Elapsed_def eventElapsed_def Let_def split: option.splits if_splits sum.splits prod.splits
      elim!: lift_opE dest!: doJob_identity intro: quietly_identity)

lemma quiet_Synchronize: "quiet (lift_op (Context_Synchronize cp ctx))"
  by (auto simp: quiet_def Context_Synchronize_def split: option.splits elim!: lift_opE
      dest!: doJobCtx_identity intro: quietly_identity)

lemma quiet_Function: "quiet (Module_Function p name)"
  by (auto simp: quiet_def Module_Function_def doWait_def Let_def split: option.splits if_splits sum.splits prod.splits
      dest: quiet_dispatch)

lemma launch_quietly: "launch fp ctx st sc cfg co as s = (r, l, s') \<Longrightarrow> quietly s s'"
  by (auto simp: launch_def Let_def launchKernel_def split: option.splits if_splits sum.splits prod.splits
      elim!: lift_opE dest!: doJob_identity intro: quietly_identity)

lemma quiet_launches:
  "quiet (unlocked (Launch fp ctx cfg as))" "quiet (unlocked (LaunchOn fp ctx st cfg as))"
  by (auto simp: quiet_def unlocked_def Launch_def LaunchOn_def on_stream_def Let_def split: option.splits if_splits prod.splits
      dest: launch_quietly)

lemma on_caller_frame: "on_caller t job y = (r, y') \<Longrightarrow> ctxs y' = ctxs y \<and> nctxs y' = nctxs y"
  by (auto simp: on_caller_def split: prod.splits)

lemma device_frames:
  "cuda_GetDevice t n y = (r, y') \<Longrightarrow> ctxs y' = ctxs y \<and> nctxs y' = nctxs y"
  "Device_Name t d y = (nm, y') \<Longrightarrow> ctxs y' = ctxs y \<and> nctxs y' = nctxs y"
  by (auto simp: cuda_GetDevice_def Device_Name_def deviceQuery_def split: option.splits if_splits sum.splits prod.splits
      dest!: on_caller_frame)

lemma quiet_devices: "quiet (lift_op (cuda_GetDevice t n))" "quiet (lift_op (Device_Name t d))"
  by (auto intro!: quietI elim!: lift_opE dest!: device_frames intro: quietly_world)

lemmas quiet_ops = quiet_copies quiet_events quiet_Elapsed quiet_Synchronize quiet_Function quiet_launches quiet_devices

lemma init_quietly: "init e s = (r, s') \<Longrightarrow> quietly (prt s) (prt s')"
  by (auto simp: init_def cuda_Init_def split: prod.splits option.splits sum.splits intro!: quietly_world)


subsection \<open>Reported failures\<close>

text \<open>The errors joined in a result, and the failure of a deferred close among them.\<close>

fun joined :: "go_error \<Rightarrow> go_error list" where
  "joined (JoinErr es) = concat (map joined es)"
| "joined e = [e]"

definition reports :: "string set \<Rightarrow> go_error option \<Rightarrow> bool" where
  "reports ops r = (\<exists>e opn x. r = Some e \<and> opn \<in> ops \<and> WrapErr (opn @ '': '') x \<in> set (joined e))"

lemma reports_mono: "reports ops r \<Longrightarrow> reports ops (addCleanupErr r opn e)"
  by (auto simp: reports_def addCleanupErr_def errors_Join_def Let_def split: option.splits)

lemma reports_failure: "opn \<in> ops \<Longrightarrow> reports ops (addCleanupErr r opn (Some e))"
  by (auto simp: reports_def addCleanupErr_def errors_Join_def Let_def split: option.splits)

text \<open>A function that opens nothing for good, unless it reports a close that failed.\<close>

definition clean :: "string set \<Rightarrow> ('w, go_error option) act \<Rightarrow> bool" where
  "clean ops body = (\<forall>s res s'. body s = (Ret res, s') \<longrightarrow> grows (prt s) (prt s') {} \<or> reports ops res)"

lemma cleanI: "(\<And>s res s'. body s = (Ret res, s') \<Longrightarrow> grows (prt s) (prt s') {} \<or> reports ops res) \<Longrightarrow> clean ops body"
  by (simp add: clean_def)

lemma cleanD: "clean ops body \<Longrightarrow> body s = (Ret res, s') \<Longrightarrow> grows (prt s) (prt s') {} \<or> reports ops res"
  by (simp add: clean_def)

lemma lib_quietly: "quiet f \<Longrightarrow> lib f s = (r, s') \<Longrightarrow> quietly (prt s) (prt s')"
  by (auto simp: lib_def quiet_def split: prod.splits)

lemma clean_attempt:
  assumes f: "\<And>s r s'. f s = (r, s') \<Longrightarrow> quietly (prt s) (prt s')" and k: "\<And>x. clean ops (k x)"
  shows "clean ops (attempt opn f k)"
proof (rule cleanI)
  fix s res s' assume a: "attempt opn f k s = (Ret res, s')"
  obtain r s1 where fs: "f s = (r, s1)" by fastforce
  have g: "grows (prt s) (prt s1) {}" by (rule quietly_grows[OF f[OF fs]])
  show "grows (prt s) (prt s') {} \<or> reports ops res"
  proof (cases r)
    case (Inl e)
    then show ?thesis using a fs g by (simp add: attempt_def)
  next
    case (Inr x)
    then have "k x s1 = (Ret res, s')" using a fs by (simp add: attempt_def)
    from cleanD[OF k this] g show ?thesis by (auto intro: grows_nothing)
  qed
qed

lemma clean_attempt_lib: "quiet f \<Longrightarrow> (\<And>x. clean ops (k x)) \<Longrightarrow> clean ops (attempt opn (lib f) k)"
  by (rule clean_attempt) (auto dest: lib_quietly)

lemma clean_attempt_init: "(\<And>x. clean ops (k x)) \<Longrightarrow> clean ops (attempt opn (init e) k)"
  by (rule clean_attempt) (auto dest: init_quietly)

lemma clean_Printf: "clean ops k \<Longrightarrow> clean ops (Printf msg k)"
  by (fastforce simp: clean_def Printf_def)

lemma clean_ret: "clean ops (ret_act r)"
  by (simp add: clean_def ret_act_def)

subsection \<open>The contract of making and closing an object\<close>

locale bracket =
  fixes make :: "('w, nat) rop" and close :: "nat option \<Rightarrow> ('w, unit) rop" and tag :: "nat \<Rightarrow> obj"
  assumes make_ok: "make s = (Inr p, s') \<Longrightarrow> grows s s' {tag p}"
    and make_err: "make s = (Inl e, s') \<Longrightarrow> grows s s' {}"
    and close_keeps: "close (Some p) s = (r, s') \<Longrightarrow> grows s s' {}"
    and close_closes: "close (Some p) s = (Inr (), s') \<Longrightarrow> \<not> isopen s0 s' (tag p)"
begin

text \<open>A deferred close removes its object or reports its failure, and keeps what was reported.\<close>

lemma cleanup_result:
  assumes "cleanup opn (lib (close (Some p))) r s = (x, s')" and "opn \<in> ops"
  obtains res where "x = Ret res" "grows (prt s) (prt s') {}" "reports ops r \<longrightarrow> reports ops res"
    "reports ops res \<or> (\<forall>s0. \<not> isopen s0 (prt s') (tag p))"
proof -
  obtain cr y where c: "close (Some p) (prt s) = (cr, y)" by fastforce
  then have x: "x = Ret (addCleanupErr r opn (err_of cr))" "s' = s\<lparr>prt := y\<rparr>"
    using assms(1) by (simp_all add: cleanup_def lib_def)
  have "reports ops (addCleanupErr r opn (err_of cr)) \<or> (\<forall>s0. \<not> isopen s0 y (tag p))"
    using close_closes[of p "prt s" y] c assms(2) by (cases cr) (auto simp: err_of_def reports_failure)
  then show thesis using that x close_keeps[OF c] by (simp add: reports_mono)
qed

lemma clean_bracket:
  assumes body: "\<And>p. clean ops (body p)" and opn: "opn \<in> ops"
  shows "clean ops (attempt what (lib make) (\<lambda>p. deferring (cleanup opn (lib (close (Some p)))) None (body p)))"
proof (rule cleanI)
  fix s res s'
  assume a: "attempt what (lib make) (\<lambda>p. deferring (cleanup opn (lib (close (Some p)))) None (body p)) s = (Ret res, s')"
  obtain mr y where m: "make (prt s) = (mr, y)" by fastforce
  show "grows (prt s) (prt s') {} \<or> reports ops res"
  proof (cases mr)
    case (Inl e)
    then show ?thesis using a m make_err[of "prt s" e y] by (auto simp: attempt_def lib_def)
  next
    case (Inr p)
    with a m obtain br s1 where b: "body p (s\<lparr>prt := y\<rparr>) = (br, s1)"
      and d: "deferring (cleanup opn (lib (close (Some p)))) None (body p) (s\<lparr>prt := y\<rparr>) = (Ret res, s')"
      by (cases "body p (s\<lparr>prt := y\<rparr>)") (auto simp: attempt_def lib_def)
    from b d obtain r where r: "br = Ret r" "cleanup opn (lib (close (Some p))) r s1 = (Ret res, s')"
      by (cases br) (auto simp: deferring_def split: prod.splits goexit.splits)
    obtain g: "grows (prt s1) (prt s') {}" and k: "reports ops r \<longrightarrow> reports ops res"
      and n: "reports ops res \<or> (\<forall>s0. \<not> isopen s0 (prt s') (tag p))"
      using cleanup_result[OF r(2) opn] by fastforce
    have "grows (prt s) y {tag p}" using make_ok m Inr by blast
    moreover have "grows y (prt s1) {} \<or> reports ops r" using cleanD[OF body, of p _ r s1] b r(1) by fastforce
    ultimately show ?thesis using g k n unfolding grows_def by blast
  qed
qed

end

text \<open>
  The stores: making an object opens at most that object, \<^verbatim>\<open>Close\<close> opens none, and when it succeeds its object is closed.
\<close>

locale tagged = resstore sel upd nilErr destroy atend
  for sel :: "'w rt \<Rightarrow> nat \<Rightarrow> 'o resource_scheme" and upd nilErr
    and destroy :: "'w Driver option \<Rightarrow> 'o resource_scheme \<Rightarrow> ('w, unit) drv" and atend +
  fixes tag :: "nat \<Rightarrow> obj"
  assumes upd_grows: "isopen s0 ((upd (\<lambda>g. g(p := x)) z)\<lparr>nobj := n\<rparr>) ob \<Longrightarrow> isopen s0 z ob \<or> ob = tag p"
    and upd_closed: "oclosed x \<Longrightarrow> isopen s0 (upd (\<lambda>g. g(p := x)) z) ob \<Longrightarrow> isopen s0 z ob"
    and tag_closed: "oclosed (sel z p) \<Longrightarrow> \<not> isopen s0 z (tag p)"
begin

lemma make_grows:
  assumes "createWith (doWith cp ctx job wt br) upd mk s = (r, s')"
  shows "grows s s' (case r of Inl _ \<Rightarrow> {} | Inr p \<Rightarrow> {tag p})"
proof -
  obtain d y where d: "doWith cp ctx job wt br (sy s) = (d, y)" by fastforce
  have "grows s (s\<lparr>sy := y\<rparr>) {}" by (rule quietly_grows[OF quietly_identity[OF doWith_identity[OF d]]])
  then show ?thesis
    using assms d upd_grows by (cases d) (fastforce simp: createWith_def lift_op_def newObject_def grows_def)+
qed

lemma close_grows:
  assumes "closeObject nilErr sel upd destroy atend (Some p) s = (r, s')"
  shows "grows s s' {}"
proof -
  have u: "grows z (upd (\<lambda>g. g(p := (atend (sel s p))\<lparr>oclosed := True\<rparr>)) z) {}" for z
    unfolding grows_def using upd_closed[of "(atend (sel s p))\<lparr>oclosed := True\<rparr>"] by simp
  then show ?thesis
    using assms
    by (auto simp: closeObject_def Let_def doBarrier_def split: if_splits prod.splits sum.splits
        dest!: quiet_dispatch(4) quietly_grows[where T = "{}"] intro: grows_nothing[OF _ u])
qed

lemma closes:
  "closeObject nilErr sel upd destroy atend (Some p) s = (Inr (), s') \<Longrightarrow> \<not> isopen s0 s' (tag p)"
  by (rule tag_closed, rule close_ok)

lemma bracketI:
  assumes "\<And>s r s'. mk s = (r, s') \<Longrightarrow> grows s s' (case r of Inl _ \<Rightarrow> {} | Inr p \<Rightarrow> {tag p})"
  shows "bracket mk (closeObject nilErr sel upd destroy atend) tag"
  by unfold_locales (auto dest: assms close_grows closes)

end

lemma isopen_upd:
  "isopen s0 ((buffers_update (\<lambda>g. g(p := b)) z)\<lparr>nobj := n\<rparr>) ob \<Longrightarrow> isopen s0 z ob \<or> ob = OBuffer p"
  "isopen s0 ((hostbufs_update (\<lambda>g. g(p := h)) z)\<lparr>nobj := n\<rparr>) ob \<Longrightarrow> isopen s0 z ob \<or> ob = OHostBuffer p"
  "isopen s0 ((streams_update (\<lambda>g. g(p := st)) z)\<lparr>nobj := n\<rparr>) ob \<Longrightarrow> isopen s0 z ob \<or> ob = OStream p"
  "isopen s0 ((events_update (\<lambda>g. g(p := ev)) z)\<lparr>nobj := n\<rparr>) ob \<Longrightarrow> isopen s0 z ob \<or> ob = OEvent p"
  "isopen s0 ((modules_update (\<lambda>g. g(p := m)) z)\<lparr>nobj := n\<rparr>) ob \<Longrightarrow> isopen s0 z ob \<or> ob = OModule p"
  by (cases ob; auto split: if_splits)+

lemma isopen_upd_closed:
  "oclosed b \<Longrightarrow> isopen s0 (buffers_update (\<lambda>g. g(p := b)) z) ob \<Longrightarrow> isopen s0 z ob"
  "oclosed h \<Longrightarrow> isopen s0 (hostbufs_update (\<lambda>g. g(p := h)) z) ob \<Longrightarrow> isopen s0 z ob"
  "oclosed st \<Longrightarrow> isopen s0 (streams_update (\<lambda>g. g(p := st)) z) ob \<Longrightarrow> isopen s0 z ob"
  "oclosed ev \<Longrightarrow> isopen s0 (events_update (\<lambda>g. g(p := ev)) z) ob \<Longrightarrow> isopen s0 z ob"
  "oclosed m \<Longrightarrow> isopen s0 (modules_update (\<lambda>g. g(p := m)) z) ob \<Longrightarrow> isopen s0 z ob"
  by (cases ob; auto split: if_splits)+

interpretation tbuf: tagged buffers buffers_update ErrNilBuffer "\<lambda>d b. MemFree d (bptr b)" id OBuffer
  rewrites "closeObject ErrNilBuffer buffers buffers_update (\<lambda>d b. MemFree d (bptr b)) id = Buffer_Close"
  by (unfold_locales, auto simp: Buffer_Close_def dest: isopen_upd isopen_upd_closed)

interpretation thost: tagged hostbufs hostbufs_update ErrNilBuffer "\<lambda>d h. MemFreeHost d (hptr h)" id OHostBuffer
  rewrites "closeObject ErrNilBuffer hostbufs hostbufs_update (\<lambda>d h. MemFreeHost d (hptr h)) id = HostBuffer_Close"
  by (unfold_locales, auto simp: HostBuffer_Close_def dest: isopen_upd isopen_upd_closed)

interpretation tstream: tagged streams streams_update ErrNilStream "\<lambda>d st. StreamDestroy d (sraw st)" id OStream
  rewrites "closeObject ErrNilStream streams streams_update (\<lambda>d st. StreamDestroy d (sraw st)) id = Stream_Close"
  by (unfold_locales, auto simp: Stream_Close_def dest: isopen_upd isopen_upd_closed)

interpretation tevent: tagged events events_update ErrNilEvent "\<lambda>d ev. EventDestroy d (eraw ev)" id OEvent
  rewrites "closeObject ErrNilEvent events events_update (\<lambda>d ev. EventDestroy d (eraw ev)) id = Event_Close"
  by (unfold_locales, auto simp: Event_Close_def dest: isopen_upd isopen_upd_closed)

interpretation tmodule: tagged modules modules_update ErrNilModule "\<lambda>d m. ModuleUnload d (mraw m)" id OModule
  rewrites "closeObject ErrNilModule modules modules_update (\<lambda>d m. ModuleUnload d (mraw m)) id = Module_Close"
  by (unfold_locales, auto simp: Module_Close_def dest: isopen_upd isopen_upd_closed)

interpretation bbuf: bracket "Alloc t cp n" Buffer_Close OBuffer
  by (rule tbuf.bracketI) (auto simp: Alloc_def do_cmd_def split: option.splits dest: tbuf.make_grows)

interpretation bhost: bracket "AllocHost t cp n" HostBuffer_Close OHostBuffer
  by (rule thost.bracketI) (auto simp: AllocHost_def doWait_def split: option.splits dest: thost.make_grows)

interpretation bstream: bracket "NewStream cp os" Stream_Close OStream
  by (rule tstream.bracketI) (auto simp: NewStream_def doWait_def split: option.splits sum.splits dest: tstream.make_grows)

interpretation bevent: bracket "NewEvent cp os" Event_Close OEvent
  by (rule tevent.bracketI) (auto simp: NewEvent_def doWait_def split: option.splits sum.splits dest: tevent.make_grows)

interpretation bmodule: bracket "LoadModule cp img" Module_Close OModule
  by (rule tmodule.bracketI) (auto simp: LoadModule_def doWait_def split: option.splits if_splits sum.splits dest: tmodule.make_grows)


subsection \<open>Contexts\<close>

definition same_open :: "'w sys \<Rightarrow> 'w sys \<Rightarrow> bool" where
  "same_open y y' = (nctxs y' = nctxs y \<and> (\<forall>c. closed (ctxs y' c) = closed (ctxs y c)))"

lemma same_open_trans: "same_open y z \<Longrightarrow> same_open z w \<Longrightarrow> same_open y w"
  by (simp add: same_open_def)

lemma xrun_open: "xrun f x y = (r, x', n, y') \<Longrightarrow> ctxs y' = ctxs y \<and> nctxs y' = nctxs y"
  by (simp add: xrun_frame)

lemma closeExecutor_open: "closeExecutor d x y = (e, x', n, y') \<Longrightarrow> same_open y y'"
  by (auto simp: closeExecutor_def same_open_def Let_def split: prod.splits dest!: xrun_open)

lemma closeLanes_open: "closeLanes c ls err y = (e, y') \<Longrightarrow> same_open y y'"
proof (induction ls arbitrary: err y)
  case (Cons l ls)
  then show ?case
    by (fastforce simp: Let_def same_open_def split: prod.splits dest!: closeExecutor_open)
qed (simp add: same_open_def)

lemma teardown_open:
  "recoverCommandExecutor c y = (e1, y1) \<Longrightarrow> same_open y y1"
  "closeWaitLanes c y = (e2, y1) \<Longrightarrow> same_open y y1"
  "closeCopyExecutor c y = (e3, y1) \<Longrightarrow> same_open y y1"
proof -
  show "recoverCommandExecutor c y = (e1, y1) \<Longrightarrow> same_open y y1"
    by (auto simp: recoverCommandExecutor_def startExecutor_def same_open_def Let_def split: option.splits prod.splits sum.splits if_splits
        dest!: xrun_open)
  show "closeWaitLanes c y = (e2, y1) \<Longrightarrow> same_open y y1"
    by (auto simp: closeWaitLanes_def Let_def same_open_def split: if_splits dest!: closeLanes_open)
  show "closeCopyExecutor c y = (e3, y1) \<Longrightarrow> same_open y y1"
    by (auto simp: closeCopyExecutor_def Let_def same_open_def split: option.splits prod.splits if_splits dest!: closeExecutor_open)
qed

text \<open>Closing a context closes no other one and opens none.\<close>

definition closes_only :: "nat \<Rightarrow> 'w sys \<Rightarrow> (go_error + unit) \<Rightarrow> 'w sys \<Rightarrow> bool" where
  "closes_only c y r y' = (nctxs y' = nctxs y \<and> (\<forall>d. closed (ctxs y d) \<longrightarrow> closed (ctxs y' d)) \<and>
     (\<not> isl r \<longrightarrow> closed (ctxs y' c)))"

lemma finishClose_closes: "finishClose c se ce x res y = (r, y') \<Longrightarrow> closes_only c y r y'"
  by (cases res) (auto simp: finishClose_def closes_only_def of_err_def split: if_splits prod.splits option.splits dest!: xrun_open)

lemma closes_only_after: "same_open y y1 \<Longrightarrow> closes_only c y1 r y' \<Longrightarrow> closes_only c y r y'"
  by (simp add: same_open_def closes_only_def)

lemma Context_Close_closes:
  assumes "Context_Close (Some c) y = (r, y')"
  shows "closes_only c y r y'"
proof (cases "device (ctxs y c) = None \<or> exec (ctxs y c) = None \<or> closed (ctxs y c)")
  case True
  then show ?thesis using assms by (auto simp: Context_Close_def closes_only_def split: option.splits if_splits)
next
  case False
  obtain e1 y1 where 1: "recoverCommandExecutor c y = (e1, y1)" by fastforce
  obtain e2 y2 where 2: "closeWaitLanes c y1 = (e2, y2)" by fastforce
  obtain e3 y3 where 3: "closeCopyExecutor c y2 = (e3, y3)" by fastforce
  have o: "same_open y y1" "same_open y y3"
    using teardown_open(1)[OF 1] teardown_open(2)[OF 2] teardown_open(3)[OF 3] by (blast intro: same_open_trans)+
  show ?thesis
  proof (cases e1)
    case (Some e)
    then show ?thesis using assms False 1 o(1) by (auto simp: Context_Close_def closes_only_def same_open_def split: option.splits if_splits)
  next
    case None
    have "closes_only c y3 r y'"
      using assms False None 1 2 3
      by (auto simp: Context_Close_def Let_def split: option.splits if_splits prod.splits sum.splits dest!: finishClose_closes xrun_open)
        (auto simp: closes_only_def of_err_def split: option.splits)
    then show ?thesis by (rule closes_only_after[OF o(2)])
  qed
qed

lemma Primary_grows:
  assumes "lift_op (Primary d) s = (r, s')"
  shows "grows s s' (case r of Inl _ \<Rightarrow> {} | Inr p \<Rightarrow> {OContext p})"
proof -
  have "isopen s0 s' x \<Longrightarrow> isopen s0 s x \<or> x \<in> (case r of Inl _ \<Rightarrow> {} | Inr p \<Rightarrow> {OContext p})" for s0 x
    using assms
    by (cases x) (auto simp: Primary_def startExecutor_def less_Suc_eq split: option.splits prod.splits sum.splits if_splits
      elim!: lift_opE dest!: xrun_open)
  then show ?thesis by (auto simp: grows_def)
qed

lemma Context_Close_grows: "lift_op (Context_Close (Some c)) s = (r, s') \<Longrightarrow> grows s s' {}"
proof -
  assume "lift_op (Context_Close (Some c)) s = (r, s')"
  then obtain y where y: "s' = s\<lparr>sy := y\<rparr>" "closes_only c (sy s) r y" by (auto elim!: lift_opE dest: Context_Close_closes)
  then have "isopen s0 s' x \<Longrightarrow> isopen s0 s x" for s0 x by (cases x) (auto simp: closes_only_def)
  then show ?thesis by (auto simp: grows_def)
qed

lemma Context_Close_closed: "lift_op (Context_Close (Some c)) s = (Inr (), s') \<Longrightarrow> \<not> isopen s0 s' (OContext c)"
  by (auto elim!: lift_opE dest!: Context_Close_closes simp: closes_only_def)

interpretation bctx: bracket "lift_op (Primary d)" "\<lambda>p. lift_op (Context_Close p)" OContext
  by unfold_locales (auto dest!: Primary_grows dest: Context_Close_grows simp del: isopen.simps simp: Context_Close_closed)

subsection \<open>\<^verbatim>\<open>vector-add\<close>\<close>

lemma clean_vadd_launch: "clean ops (vadd_launch ctx a b c fn)"
  unfolding vadd_launch_def
  by (intro clean_attempt_lib quiet_ops)
    (auto simp: vadd_check_def clean_def Printf_def ret_act_def split: option.splits)

definition vadd_closes :: "string set" where
  "vadd_closes = {''context close'', ''buffer a close'', ''buffer b close'', ''buffer c close'', ''module close''}"

lemma clean_vadd_run: "clean vadd_closes (vadd_run e)"
  unfolding vadd_run_def vadd_buffers_def vadd_compute_def
  by (intro clean_attempt_init clean_attempt_lib clean_Printf quiet_ops bctx.clean_bracket bbuf.clean_bracket bmodule.clean_bracket
      clean_vadd_launch) (simp_all add: vadd_closes_def)

text \<open>It always returns: nothing in it panics or exits.\<close>

definition returns :: "('w, 'a) act \<Rightarrow> bool" where
  "returns body = (\<forall>s. \<exists>r s'. body s = (Ret r, s'))"

lemma returns_attempt: "(\<And>x. returns (k x)) \<Longrightarrow> returns (attempt opn f k)"
  unfolding returns_def attempt_def by (fastforce split: prod.splits sum.splits)

lemma returns_deferring: "returns body \<Longrightarrow> returns (deferring (cleanup opn cl) r0 body)"
  by (auto simp: returns_def deferring_def cleanup_def split: prod.splits goexit.splits) (metis prod.inject goexit.distinct)+

lemma returns_Printf: "returns k \<Longrightarrow> returns (Printf msg k)"
  by (simp add: returns_def Printf_def)

lemma returns_vadd_check: "returns (vadd_check got)"
  by (simp add: returns_def vadd_check_def Printf_def ret_act_def split: option.splits)

lemma returns_vadd_run: "returns (vadd_run e)"
  unfolding vadd_run_def vadd_buffers_def vadd_compute_def vadd_launch_def
  by (intro returns_attempt returns_deferring returns_Printf returns_vadd_check)

text \<open>
  C17. \<^verbatim>\<open>vector-add\<close> cleans up whatever the driver does: its \<^verbatim>\<open>run\<close> always returns, and then every buffer, host buffer, stream, event, module and context it made
  is closed, or the error it returns joins the failure of one of its deferred closes.
\<close>

theorem vector_add_cleans_up:
  "\<exists>res s'. vadd_run e s = (Ret res, s') \<and> ((\<forall>x. \<not> isopen (prt s) (prt s') x) \<or> reports vadd_closes res)"
proof -
  obtain res s' where r: "vadd_run e s = (Ret res, s')" using returns_vadd_run unfolding returns_def by blast
  from cleanD[OF clean_vadd_run r] show ?thesis using r isopen_refl unfolding grows_def by blast
qed


subsection \<open>Concrete programs\<close>

text \<open>An environment that loads a given driver, and the state a program starts in.\<close>

definition env_with :: "'w Driver \<Rightarrow> u8 list \<Rightarrow> 'w env" where
  "env_with D ptx = \<lparr>eload = (\<lambda>l. (Inr \<lparr>dlib = None, ddrv = D\<rparr>, l)), emain = 0, ehload = (\<lambda>_ _. 0), ehstore = (\<lambda>_ _ w. w),
     econv = 0, vectorAddPTX = ptx\<rparr>"

definition prog_of :: "'w sys \<Rightarrow> 'w prog" where
  "prog_of y = \<lparr>prt = rt0 y, plibs = [], pstdout = [], pstderr = []\<rparr>"

definition prog0 :: "'w \<Rightarrow> 'w prog" where
  "prog0 w = prog_of \<lparr>ctxs = (\<lambda>_. zeroContext), nctxs = 0, gdriver = None, world = w, clock = 0, nexttid = 1\<rparr>"

end
