(* ===== verification/IdleRuns.thy ===== *)
theory IdleRuns
  imports Cleanup RoundTrip
begin

section \<open>Calls on an idle context\<close>

text \<open>
  A context with no abandoned jobs, used with contexts that are never cancelled. A successful dispatch then runs exactly its job; only making the copy
  executor or a wait lane comes before it, which binds the context to a new thread. \<open>K\<close> is what the caller wants to be kept by such a call.
\<close>

definition idle :: "'w Driver \<Rightarrow> nat \<Rightarrow> 'w sys \<Rightarrow> bool" where
  "idle D c y = (driver (ctxs y c) = Some D \<and>
     (\<forall>x. exec (ctxs y c) = Some x \<longrightarrow> xqueue x = []) \<and>
     (\<forall>x. copyExec (ctxs y c) = Some x \<longrightarrow> xqueue x = []) \<and>
     (\<forall>l \<in> set (waitLanes (ctxs y c)). xqueue (lexec l) = []))"

definition binding_keeps :: "'w Driver \<Rightarrow> ('w \<Rightarrow> 'w \<Rightarrow> bool) \<Rightarrow> bool" where
  "binding_keeps D K = ((\<forall>w. K w w) \<and> (\<forall>rawc t w r w'. CtxSetCurrent (Some D) rawc t w = (r, w') \<longrightarrow> K w w'))"

definition ran_idle :: "'w Driver \<Rightarrow> nat \<Rightarrow> ('w \<Rightarrow> 'w \<Rightarrow> bool) \<Rightarrow> ('w, 'a) drv \<Rightarrow> 'a \<Rightarrow> 'w sys \<Rightarrow> 'w sys \<Rightarrow> bool" where
  "ran_idle D c K job v y y' = (idle D c y' \<and> (\<exists>t w. K (world y) w \<and> job t w = (Inr v, world y')))"

lemma ran_idleI: "idle D c y' \<Longrightarrow> K (world y) w \<Longrightarrow> job t w = (Inr v, world y') \<Longrightarrow> ran_idle D c K job v y y'"
  by (auto simp: ran_idle_def)

text \<open>An executor with an empty queue runs the job in the state of the call.\<close>

lemma DoJob_idle:
  assumes "DoJob ctx job s = (Inr v, s')" "xqueue (ex s) = []"
  shows "xqueue (ex s') = [] \<and> job (xtid (ex s)) (wld s) = (Inr v, wld s')"
  using assms by (auto simp: xops run_queue_def split: if_splits prod.splits)

lemma DoJobCtx_idle:
  assumes "DoJobCtx ctx tr job s = (Inr v, s')" "xqueue (ex s) = []"
  shows "xqueue (ex s') = [] \<and> job (xtid (ex s)) (wld s) = (Inr v, wld s')"
  using assms by (auto simp: xops run_queue_def split: if_splits prod.splits)

lemma xrun_idle:
  "xrun (DoJob ctx job) x y = (Inr v, x', n, y') \<Longrightarrow> xqueue x = [] \<Longrightarrow>
     xqueue x' = [] \<and> job (xtid x) (world y) = (Inr v, world y')"
  "xrun (DoJobCtx ctx tr job) x y = (Inr v, x', n, y') \<Longrightarrow> xqueue x = [] \<Longrightarrow>
     xqueue x' = [] \<and> job (xtid x) (world y) = (Inr v, world y')"
  by (auto simp: xrun_def split: prod.splits dest: DoJob_idle DoJobCtx_idle)

lemma doJob_idle:
  assumes "doJob (Some c) ctx job y = (Inr v, y')" "idle D c y" "binding_keeps D K"
  shows "ran_idle D c K job v y y'"
proof -
  obtain x where x: "exec (ctxs y c) = Some x" "on_exec c x (DoJob (ctx_or_background ctx) job) y = (Inr v, y')"
    using assms(1) by (auto simp: doJob_def Let_def ctx_Err_def split: option.splits if_splits)
  then obtain x1 n y1 where r: "xrun (DoJob (ctx_or_background ctx) job) x y = (Inr v, x1, n, y1)"
    and y': "y' = setctx c ((ctxs y1 c)\<lparr>exec := Some x1\<rparr>) y1"
    by (auto simp: on_exec_def split: prod.splits)
  have q: "xqueue x1 = [] \<and> job (xtid x) (world y) = (Inr v, world y1)"
    using xrun_idle(1)[OF r] assms(2) x(1) by (simp add: idle_def)
  show ?thesis
    using q assms(2,3) xrun_frame(1)[OF r] by (intro ran_idleI[where w = "world y"]) (auto simp: y' idle_def binding_keeps_def)
qed

lemma doWith_idle:
  assumes "doWith (Some c) ctx job wt False y = (Inr v, y')" "idle D c y" "binding_keeps D K"
  shows "ran_idle D c K job v y y'"
proof -
  obtain x y0 f where x: "exec (ctxs y c) = Some x" "on_exec c x f y0 = (Inr v, y')" "world y0 = world y" "ctxs y0 = ctxs y"
    and f: "f = DoJob (ctx_or_background ctx) job \<or> f = DoJobCtx (ctx_or_background ctx) False job"
    using assms(1) by (auto simp: doWith_def Let_def ctx_Err_def DoCtxWait_eq DoCtx_def split: option.splits if_splits)
  then obtain x1 n y1 where r: "xrun f x y0 = (Inr v, x1, n, y1)"
    and y': "y' = setctx c ((ctxs y1 c)\<lparr>exec := Some x1\<rparr>) y1"
    by (auto simp: on_exec_def split: prod.splits)
  have q: "xqueue x1 = [] \<and> job (xtid x) (world y) = (Inr v, world y1)"
    using f r assms(2) x by (auto simp: idle_def dest: xrun_idle)
  show ?thesis
    using q assms(2,3) xrun_frame(1)[OF r] x(4) by (intro ran_idleI[where w = "world y"]) (auto simp: y' idle_def binding_keeps_def)
qed

lemma newExecutor_idle:
  assumes "newExecutor c y = (Inr x, y')" "idle D c y" "binding_keeps D K"
  shows "xqueue x = [] \<and> K (world y) (world y') \<and> ctxs y' = ctxs y"
proof -
  obtain n y0 where r: "xrun (Do (CtxSetCurrent (driver (ctxs y c)) (raw (ctxs y c)))) (newExec (nexttid y)) y0 = (Inr (), x, n, y')"
    and y0: "y0 = y\<lparr>nexttid := Suc (nexttid y)\<rparr>"
    using assms(1) by (auto simp: newExecutor_def startExecutor_def Let_def split: prod.splits sum.splits)
  have "xqueue x = [] \<and> CtxSetCurrent (driver (ctxs y c)) (raw (ctxs y c)) (xtid (newExec (nexttid y) :: 'a Executor)) (world y0) = (Inr (), world y')"
    using xrun_idle(2)[OF r[unfolded Do_def DoCtx_def]] by (simp add: newExec_def)
  then show ?thesis
    using assms(2,3) newExecutor_frame(1)[OF assms(1)] by (auto simp: idle_def binding_keeps_def y0)
qed

lemma copyExecutor_idle:
  assumes "copyExecutor c y = (Inr x, y')" "idle D c y" "binding_keeps D K"
  shows "xqueue x = [] \<and> K (world y) (world y') \<and> idle D c y'"
proof (cases "copyExec (ctxs y c)")
  case None
  with assms(1) obtain y1 where n: "newExecutor c y = (Inr x, y1)" and y': "y' = setctx c ((ctxs y1 c)\<lparr>copyExec := Some x\<rparr>) y1"
    by (auto simp: copyExecutor_def split: prod.splits sum.splits)
  with newExecutor_idle[OF n assms(2,3)] assms(2) show ?thesis by (auto simp: idle_def y')
next
  case (Some z)
  then show ?thesis using assms by (auto simp: copyExecutor_def idle_def binding_keeps_def)
qed

lemma doCopyJob_idle_run:
  assumes "doCopyJob (Some c) ctx job y = (Inr v, y')" "idle D c y" "binding_keeps D K"
  shows "ran_idle D c K job v y y'"
proof -
  let ?y0 = "y\<lparr>clock := Suc (clock y)\<rparr>"
  obtain x y1 where x: "copyExecutor c ?y0 = (Inr x, y1)" "on_copy c x (DoJob (ctx_or_background ctx) job) y1 = (Inr v, y')"
    using assms(1) by (auto simp: doCopyJob_def Let_def ctx_Err_def split: option.splits if_splits prod.splits sum.splits)
  have "idle D c ?y0" using assms(2) by (simp add: idle_def)
  from copyExecutor_idle[OF x(1) this assms(3)] have c: "xqueue x = []" "K (world y) (world y1)" "idle D c y1" by auto
  from x(2) obtain x1 n y2 where r: "xrun (DoJob (ctx_or_background ctx) job) x y1 = (Inr v, x1, n, y2)"
    and y': "y' = setctx c ((ctxs y2 c)\<lparr>copyExec := Some x1\<rparr>) y2"
    by (auto simp: on_copy_def split: prod.splits)
  have q: "xqueue x1 = [] \<and> job (xtid x) (world y1) = (Inr v, world y2)"
    by (rule xrun_idle(1)[OF r c(1)])
  show ?thesis
    using q c xrun_frame(1)[OF r] by (intro ran_idleI[where w = "world y1"]) (auto simp: y' idle_def)
qed

lemma in_set_upd: "x \<in> set (xs[i := v]) \<Longrightarrow> x = v \<or> x \<in> set xs"
  using set_update_subset_insert[of xs i v] by auto

lemma acquireWaitLane_idle:
  assumes "acquireWaitLane c y = (Inr i, y')" "idle D c y" "binding_keeps D K"
  shows "i < length (waitLanes (ctxs y' c)) \<and> K (world y) (world y') \<and> idle D c y'"
proof -
  note spec = reuseWaitLane_spec[of "waitLanes (ctxs y c)"]
  obtain oi lanes where re: "reuseWaitLane (waitLanes (ctxs y c)) = (oi, lanes)" by fastforce
  show ?thesis
  proof (cases oi)
    case None
    with re assms(1) obtain x y1 where n: "newExecutor c y = (Inr x, y1)" and i: "i = length (waitLanes (ctxs y1 c))"
      and y': "y' = setctx c ((ctxs y1 c)\<lparr>waitLanes := waitLanes (ctxs y1 c) @ [\<lparr>lexec = x, pending = 1\<rparr>]\<rparr>) y1"
      by (auto simp: acquireWaitLane_def Let_def split: prod.splits sum.splits)
    with newExecutor_idle[OF n assms(2,3)] assms(2) show ?thesis by (auto simp: idle_def)
  next
    case (Some j)
    with re assms(1) spec have "i = j" "j < length (waitLanes (ctxs y c))"
      "y' = setctx c ((ctxs y c)\<lparr>waitLanes := (waitLanes (ctxs y c))[j := (waitLanes (ctxs y c) ! j)\<lparr>pending := pending (waitLanes (ctxs y c) ! j) + 1\<rparr>]\<rparr>) y"
      by (auto simp: acquireWaitLane_def)
    then show ?thesis using assms(2,3) by (auto simp: idle_def binding_keeps_def dest!: in_set_upd)
  qed
qed

lemma doJobCtx_idle_run:
  assumes "doJobCtx (Some c) ctx job y = (Inr v, y')" "idle D c y" "binding_keeps D K"
  shows "ran_idle D c K job v y y'"
proof -
  let ?y0 = "y\<lparr>clock := Suc (clock y)\<rparr>"
  let ?f = "DoJobCtx (ctx_or_background ctx) True job"
  obtain i y1 where x: "acquireWaitLane c ?y0 = (Inr i, y1)" "on_lane c i ?f (trackWait c y1) = (Inr v, y')"
    using assms(1) by (auto simp: doJobCtx_def Let_def ctx_Err_def split: option.splits if_splits prod.splits sum.splits)
  have "idle D c ?y0" using assms(2) by (simp add: idle_def)
  from acquireWaitLane_idle[OF x(1) this assms(3)]
  have a: "i < length (waitLanes (ctxs y1 c))" "K (world y) (world y1)" "idle D c y1" by auto
  let ?x = "lexec (waitLanes (ctxs y1 c) ! i)"
  have t: "ctxs (trackWait c y1) c = (ctxs y1 c)\<lparr>syncActive := syncActive (ctxs y1 c) + 1\<rparr>" by (simp add: trackWait_def)
  from x(2) obtain x1 n y2 where r: "xrun ?f ?x (trackWait c y1) = (Inr v, x1, n, y2)"
    and y': "y' = setctx c (releaseWaitLane i n ((ctxs y2 c)\<lparr>waitLanes := (waitLanes (ctxs y2 c))[i := (waitLanes (ctxs y2 c) ! i)\<lparr>lexec := x1\<rparr>]\<rparr>)) y2"
    by (auto simp: on_lane_def t Let_def split: prod.splits)
  have "xqueue ?x = []" using a by (simp add: idle_def)
  then have q: "xqueue x1 = [] \<and> job (xtid ?x) (world (trackWait c y1)) = (Inr v, world y2)"
    by (rule xrun_idle(2)[OF r])
  have w: "world (trackWait c y1) = world y1" by (simp add: trackWait_def)
  have "idle D c y'"
    using q a(1,3) xrun_frame(1)[OF r] t
    by (auto simp: y' idle_def releaseWaitLane_def dest!: in_set_upd)
  then show ?thesis using q a w by (intro ran_idleI[where w = "world y1"]) (auto simp: y')
qed

end
