(* ===== verification/VectorAddProps.thy ===== *)
theory VectorAddProps
  imports FloatProps IdleRuns LaunchProps
begin

unbundle bit_operations_syntax

section \<open>The result of \<^verbatim>\<open>vector-add\<close>\<close>

subsection \<open>A device\<close>

text \<open>
  What the program relies on, from the documentation of the driver, for \<open>rd w p n\<close> the \<open>n\<close> bytes of device memory from \<open>p\<close> on as the calls made so far leave
  them and \<open>live w\<close> the allocations: a new allocation overlaps no other; a copy to an allocation changes no other; binding a context, loading a module, looking up a
  function and synchronising change no allocation.
\<close>

fun apart :: "u64 \<times> u64 \<Rightarrow> u64 \<times> u64 \<Rightarrow> bool" where
  "apart (p, n) (q, m) = (unat p + unat n \<le> unat q \<or> unat q + unat m \<le> unat p)"

declare apart.simps [simp del]

definition kept :: "('w \<Rightarrow> u64 \<Rightarrow> u64 \<Rightarrow> u8 list) \<Rightarrow> ('w \<Rightarrow> (u64 \<times> u64) set) \<Rightarrow> 'w \<Rightarrow> 'w \<Rightarrow> bool" where
  "kept rd live w w' = (live w \<subseteq> live w' \<and> (\<forall>(p, n) \<in> live w. rd w' p n = rd w p n))"

definition allocates :: "'w Driver \<Rightarrow> ('w \<Rightarrow> u64 \<Rightarrow> u64 \<Rightarrow> u8 list) \<Rightarrow> ('w \<Rightarrow> (u64 \<times> u64) set) \<Rightarrow> bool" where
  "allocates D rd live = (\<forall>n t w r w'. invoke D (CuMemAlloc n) t w = ((CUDA_SUCCESS, r), w') \<longrightarrow>
     kept rd live w w' \<and> (o0 r, n) \<in> live w' \<and> (\<forall>x \<in> live w. apart x (o0 r, n)))"

definition writes_only :: "'w Driver \<Rightarrow> ('w \<Rightarrow> u64 \<Rightarrow> u64 \<Rightarrow> u8 list) \<Rightarrow> ('w \<Rightarrow> (u64 \<times> u64) set) \<Rightarrow> bool" where
  "writes_only D rd live = (\<forall>p data n t w r w'. invoke D (CuMemcpyHtoD p (HGo data) n) t w = ((CUDA_SUCCESS, r), w') \<and> (p, n) \<in> live w \<longrightarrow>
     live w \<subseteq> live w' \<and> (\<forall>(q, m) \<in> live w. apart (q, m) (p, n) \<longrightarrow> rd w' q m = rd w q m))"

definition leaves_memory :: "'w Driver \<Rightarrow> ('w \<Rightarrow> u64 \<Rightarrow> u64 \<Rightarrow> u8 list) \<Rightarrow> ('w \<Rightarrow> (u64 \<times> u64) set) \<Rightarrow> bool" where
  "leaves_memory D rd live = (\<forall>call t w res w'.
     csym call \<in> {''cuCtxSetCurrent'', ''cuModuleLoadData'', ''cuModuleGetFunction'', ''cuCtxSynchronize''} \<and>
     invoke D call t w = (res, w') \<longrightarrow> kept rd live w w')"

text \<open>
  What \<^verbatim>\<open>vector_add.cu\<close> says: the thread with index \<open>i < n\<close> of a one-dimensional grid stores the sum of the elements \<open>i\<close> of the first two
  arrays in the third. \<open>ismod\<close> and \<open>iskern\<close> are the handles of modules loaded from the image \<open>ptx\<close>, and of their function \<^verbatim>\<open>vector_add\<close>. A sum that is not
  a number may have any such pattern.
\<close>

definition sums :: "nat \<Rightarrow> u8 list \<Rightarrow> u8 list \<Rightarrow> u8 list \<Rightarrow> bool" where
  "sums n xs ys zs = list_all2 (\<lambda>z s. z = s \<or> is_NaN z \<and> is_NaN s)
     (f32_values n zs) (map2 f32_add (f32_values n xs) (f32_values n ys))"

definition runs_kernel :: "'w Driver \<Rightarrow> ('w \<Rightarrow> u64 \<Rightarrow> u64 \<Rightarrow> u8 list) \<Rightarrow> ('w \<Rightarrow> (u64 \<times> u64) set) \<Rightarrow> u8 list \<Rightarrow>
    (u64 \<Rightarrow> bool) \<Rightarrow> (u64 \<Rightarrow> bool) \<Rightarrow> bool" where
  "runs_kernel D rd live ptx ismod iskern =
     ((\<forall>t w r w'. invoke D (CuModuleLoadData (moduleImage ptx)) t w = ((CUDA_SUCCESS, r), w') \<longrightarrow> ismod (o0 r)) \<and>
      (\<forall>m t w r w'. ismod m \<and> invoke D (CuModuleGetFunction m (nameBuf (string_bytes ''vector_add''))) t w = ((CUDA_SUCCESS, r), w') \<longrightarrow>
         iskern (o0 r)) \<and>
      (\<forall>f gx bx a b c n t w r w'. iskern f \<and>
         invoke D (CuLaunchKernel f gx 1 1 bx 1 1 0 0 [le_bytes 8 a, le_bytes 8 b, le_bytes 8 c, le_bytes 4 n]) t w = ((CUDA_SUCCESS, r), w') \<and>
         unat n < 2 ^ 31 \<and> unat n \<le> unat gx * unat bx \<and> (a, 4 * n) \<in> live w \<and> (b, 4 * n) \<in> live w \<and> (c, 4 * n) \<in> live w \<and>
         apart (a, 4 * n) (c, 4 * n) \<and> apart (b, 4 * n) (c, 4 * n) \<longrightarrow>
         live w \<subseteq> live w' \<and> sums (unat n) (rd w a (4 * n)) (rd w b (4 * n)) (rd w' c (4 * n))))"

definition vector_device :: "'w Driver \<Rightarrow> ('w \<Rightarrow> u64 \<Rightarrow> u64 \<Rightarrow> u8 list) \<Rightarrow> ('w \<Rightarrow> (u64 \<times> u64) set) \<Rightarrow> u8 list \<Rightarrow>
    (u64 \<Rightarrow> bool) \<Rightarrow> (u64 \<Rightarrow> bool) \<Rightarrow> bool" where
  "vector_device D rd live ptx ismod iskern = (device_memory D rd \<and> allocates D rd live \<and> writes_only D rd live \<and>
     leaves_memory D rd live \<and> runs_kernel D rd live ptx ismod iskern)"

lemma kept_trans: "kept rd live w w1 \<Longrightarrow> kept rd live w1 w2 \<Longrightarrow> kept rd live w w2"
  by (fastforce simp: kept_def)

lemma kept_refl: "kept rd live w w"
  by (auto simp: kept_def)

lemma required_kept:
  assumes "leaves_memory D rd live" "csym call \<in> {''cuCtxSetCurrent'', ''cuModuleLoadData'', ''cuModuleGetFunction'', ''cuCtxSynchronize''}"
    and "required (Some D) call f t w = (r, w')"
  shows "kept rd live w w'"
proof (cases "bound D (csym call)")
  case True
  then obtain res where "invoke D call t w = (res, w')" using assms(3)
    by (auto simp: required_def checked_call_def split: prod.splits)
  with assms(1,2) show ?thesis unfolding leaves_memory_def by blast
next
  case False
  then show ?thesis using assms(3) by (simp add: required_def kept_refl)
qed

lemma binding_kept: "leaves_memory D rd live \<Longrightarrow> binding_keeps D (kept rd live)"
  unfolding binding_keeps_def CtxSetCurrent_def
  by (auto simp: kept_refl intro: required_kept[of D rd live "CuCtxSetCurrent _"] simp: CuCtxSetCurrent_def)

subsection \<open>Reasoning about the program\<close>

text \<open>Errors that are all the failures of operations of the library.\<close>

definition only_calls :: "go_error option \<Rightarrow> bool" where
  "only_calls r = (\<forall>e. r = Some e \<longrightarrow> (\<forall>m \<in> set (joined e). \<exists>opn x. m = WrapErr opn x))"

definition honest :: "('w rt \<Rightarrow> bool) \<Rightarrow> ('w, go_error option) act \<Rightarrow> bool" where
  "honest P body = (\<forall>s res s'. P (prt s) \<and> body s = (Ret res, s') \<longrightarrow> only_calls res)"

definition yields :: "('w rt \<Rightarrow> bool) \<Rightarrow> ('w prog \<Rightarrow> (go_error + 'a) \<times> 'w prog) \<Rightarrow> ('a \<Rightarrow> 'w rt \<Rightarrow> bool) \<Rightarrow> bool" where
  "yields P f Q = (\<forall>s v s'. P (prt s) \<longrightarrow> f s = (Inr v, s') \<longrightarrow> Q v (prt s'))"

lemma yields_lib: "(\<And>s v s'. P s \<Longrightarrow> f s = (Inr v, s') \<Longrightarrow> Q v s') \<Longrightarrow> yields P (lib f) Q"
  by (auto simp: yields_def lib_def split: prod.splits)

lemma honestI: "(\<And>s res s'. P (prt s) \<Longrightarrow> body s = (Ret res, s') \<Longrightarrow> only_calls res) \<Longrightarrow> honest P body"
  by (auto simp: honest_def)

lemma honestD: "honest P body \<Longrightarrow> P (prt s) \<Longrightarrow> body s = (Ret res, s') \<Longrightarrow> only_calls res"
  by (auto simp: honest_def)

lemma honest_attempt:
  assumes f: "yields P f Q" and k: "\<And>x. honest (Q x) (k x)"
  shows "honest P (attempt opn f k)"
proof (rule honestI)
  fix s res s' assume p: "P (prt s)" and a: "attempt opn f k s = (Ret res, s')"
  obtain r s1 where fs: "f s = (r, s1)" by fastforce
  show "only_calls res"
  proof (cases r)
    case (Inl e)
    then show ?thesis using a fs by (auto simp: attempt_def only_calls_def)
  next
    case (Inr x)
    then have "k x s1 = (Ret res, s')" using a fs by (simp add: attempt_def)
    moreover have "Q x (prt s1)" using f p fs Inr unfolding yields_def by blast
    ultimately show ?thesis using honestD[OF k] by blast
  qed
qed

lemma honest_ex: "(\<And>p. honest (P p) body) \<Longrightarrow> honest (\<lambda>s. \<exists>p. P p s) body"
  by (auto simp: honest_def)

lemma honest_weaken: "honest P body \<Longrightarrow> (\<And>s. Q s \<Longrightarrow> P s) \<Longrightarrow> honest Q body"
  by (auto simp: honest_def)

lemma only_calls_cleanup: "only_calls r \<Longrightarrow> only_calls (addCleanupErr r opn e)"
  by (auto simp: only_calls_def addCleanupErr_def errors_Join_def Let_def split: option.splits)

lemma honest_deferring:
  assumes "honest P body"
  shows "honest P (deferring (cleanup opn cl) None body)"
proof (rule honestI)
  fix s res s' assume p: "P (prt s)" and d: "deferring (cleanup opn cl) None body s = (Ret res, s')"
  obtain x s1 where b: "body s = (x, s1)" by fastforce
  with d obtain r where "x = Ret r" "cleanup opn cl r s1 = (Ret res, s')"
    by (cases x) (auto simp: deferring_def split: prod.splits goexit.splits)
  with b honestD[OF assms p] show "only_calls res" by (auto simp: cleanup_def only_calls_cleanup split: prod.splits)
qed

lemma honest_Printf:
  assumes "honest P k"
  shows "honest P (Printf msg k)"
  using honestD[OF assms, of "s\<lparr>pstdout := pstdout s @ [msg]\<rparr>" for s] by (auto intro!: honestI simp: Printf_def)

subsection \<open>Verification\<close>

lemma vadd_verify_ok: "list_all (\<lambda>(g, x, y). f32_eq g (f32_add x y)) vs \<Longrightarrow> vadd_verify i vs = None"
  by (induction i vs rule: vadd_verify.induct) (auto simp: Let_def)

lemma host_lengths [simp]: "length vadd_aHost = vadd_n" "length vadd_bHost = vadd_n"
  by (simp_all add: vadd_aHost_def vadd_bHost_def)

lemma host_sums: "i < vadd_n \<Longrightarrow> f32_add (vadd_aHost ! i) (vadd_bHost ! i) \<le> f32_Inf"
  by (simp add: vadd_aHost_def vadd_bHost_def f32_add_le f32_of_int_le f32_double_le)

lemma sums_check:
  assumes "sums vadd_n (slice_bytes (f32_slice vadd_aHost)) (slice_bytes (f32_slice vadd_bHost)) zs"
  shows "f32_values vadd_n zs = map2 f32_add vadd_aHost vadd_bHost"
    and "vadd_verify 0 (zip (f32_values vadd_n zs) (zip vadd_aHost vadd_bHost)) = None"
proof -
  have v: "f32_values vadd_n (slice_bytes (f32_slice vadd_aHost)) = vadd_aHost"
    "f32_values vadd_n (slice_bytes (f32_slice vadd_bHost)) = vadd_bHost"
    using f32_values_slice[of vadd_aHost] f32_values_slice[of vadd_bHost] by simp_all
  have eq: "f32_values vadd_n zs ! i = f32_add (vadd_aHost ! i) (vadd_bHost ! i)" if i: "i < vadd_n" for i
    using assms i le_Inf_not_NaN[OF host_sums[OF i]] by (auto simp: sums_def v list_all2_conv_all_nth)
  then show "f32_values vadd_n zs = map2 f32_add vadd_aHost vadd_bHost"
    by (intro nth_equalityI) simp_all
  show "vadd_verify 0 (zip (f32_values vadd_n zs) (zip vadd_aHost vadd_bHost)) = None"
    using le_Inf_not_NaN[OF host_sums] by (intro vadd_verify_ok) (auto simp: list_all_length eq f32_eq_def)
qed

lemma honest_check:
  assumes "sums vadd_n (slice_bytes (f32_slice vadd_aHost)) (slice_bytes (f32_slice vadd_bHost)) zs"
  shows "honest P (vadd_check (f32_values vadd_n zs))"
  using sums_check(2)[OF assms] by (auto simp: honest_def vadd_check_def Printf_def ret_act_def only_calls_def)

subsection \<open>The state of the run\<close>

text \<open>
  The buffers made so far, each with its device pointer and, where it is known, its content. They are live and apart.
\<close>

type_synonym heldbuf = "nat \<times> u64 \<times> u8 list option"

definition vadd_bytes :: u64 where "vadd_bytes = 4096"

definition holding :: "('w \<Rightarrow> u64 \<Rightarrow> u64 \<Rightarrow> u8 list) \<Rightarrow> ('w \<Rightarrow> (u64 \<times> u64) set) \<Rightarrow> nat \<Rightarrow> 'w rt \<Rightarrow> heldbuf \<Rightarrow> bool" where
  "holding rd live c s = (\<lambda>(i, p, d). i < nobj s \<and> buffers s i = mkBuffer c Float32 (of_nat vadd_n) vadd_bytes p \<and>
     (p, vadd_bytes) \<in> live (world (sy s)) \<and> (\<forall>data. d = Some data \<longrightarrow> rd (world (sy s)) p vadd_bytes = data))"

fun pairwise_apart :: "u64 list \<Rightarrow> bool" where
  "pairwise_apart [] = True"
| "pairwise_apart (p # ps) = (list_all (\<lambda>q. apart (p, vadd_bytes) (q, vadd_bytes)) ps \<and> pairwise_apart ps)"

definition held :: "'w Driver \<Rightarrow> ('w \<Rightarrow> u64 \<Rightarrow> u64 \<Rightarrow> u8 list) \<Rightarrow> ('w \<Rightarrow> (u64 \<times> u64) set) \<Rightarrow> nat \<Rightarrow> heldbuf list \<Rightarrow> 'w rt \<Rightarrow> bool" where
  "held D rd live c bs s = (idle D c (sy s) \<and> list_all (holding rd live c s) bs \<and> distinct (map fst bs) \<and>
     pairwise_apart (map (fst \<circ> snd) bs))"


lemma held_kept:
  assumes "held D rd live c bs s" "kept rd live (world (sy s)) (world (sy s'))" "idle D c (sy s')"
    and "\<And>i. i < nobj s \<Longrightarrow> buffers s' i = buffers s i" "nobj s \<le> nobj s'"
  shows "held D rd live c bs s'"
proof -
  have "list_all (holding rd live c s') bs"
    using assms unfolding held_def list_all_iff holding_def kept_def by fastforce
  then show ?thesis using assms by (simp add: held_def)
qed

lemma apart_sym: "apart x y = apart y x"
  by (cases x; cases y) (auto simp: apart.simps)

lemma held_driver: "held D rd live c bs s \<Longrightarrow> drv_of c s = Some D"
  by (simp add: held_def idle_def drv_of_def)

text \<open>A dispatched call whose symbol changes no memory.\<close>

lemma ran_kept:
  assumes "leaves_memory D rd live" "csym call \<in> {''cuCtxSetCurrent'', ''cuModuleLoadData'', ''cuModuleGetFunction'', ''cuCtxSynchronize''}"
    and "ran_idle D c (kept rd live) (required (Some D) call f) v y y'"
  shows "idle D c y' \<and> kept rd live (world y) (world y') \<and> (\<exists>t w r. invoke D call t w = ((CUDA_SUCCESS, r), world y') \<and> v = f r)"
proof -
  obtain t w where i: "idle D c y'" and k: "kept rd live (world y) w" and j: "required (Some D) call f t w = (Inr v, world y')"
    using assms(3) by (auto simp: ran_idle_def)
  have "kept rd live w (world y')" by (rule required_kept[OF assms(1,2) j])
  then have "kept rd live (world y) (world y')" by (rule kept_trans[OF k])
  with i required_ran[OF j] show ?thesis by blast
qed

lemma Alloc_yields:
  assumes dev: "allocates D rd live" "leaves_memory D rd live"
  shows "yields (held D rd live c bs) (lib (Alloc Float32 (Some c) (of_nat vadd_n)))
    (\<lambda>i s. \<exists>p. held D rd live c ((i, p, None) # bs) s)"
proof (rule yields_lib)
  fix s i s' assume h: "held D rd live c bs s" and a: "Alloc Float32 (Some c) (of_nat vadd_n) s = (Inr i, s')"
  have b: "byteSize Float32 (of_nat vadd_n) = Some vadd_bytes" by code_simp
  obtain p y where d: "doWith (Some c) bg (MemAlloc (Some D) vadd_bytes) False False (sy s) = (Inr p, y)"
    and s': "buffers s' = (buffers s)(i := mkBuffer c Float32 (of_nat vadd_n) vadd_bytes p)" "sy s' = y" "i = nobj s" "nobj s' = Suc i"
    using a held_driver[OF h] by (auto simp: Alloc_def b do_cmd_def elim!: buf.createWith_ok)
  have r: "ran_idle D c (kept rd live) (MemAlloc (Some D) vadd_bytes) p (sy s) y"
    using h by (intro doWith_idle[OF d] binding_kept[OF dev(2)]) (simp add: held_def)
  then obtain t w where i: "idle D c y" and k: "kept rd live (world (sy s)) w" and j: "MemAlloc (Some D) vadd_bytes t w = (Inr p, world y)"
    by (auto simp: ran_idle_def)
  then have m: "kept rd live w (world y)" "(p, vadd_bytes) \<in> live (world y)" "\<forall>x \<in> live w. apart x (p, vadd_bytes)"
    using dev(1) unfolding allocates_def by (auto simp: MemAlloc_def dest!: required_ran)
  have "kept rd live (world (sy s)) (world (sy s'))" using kept_trans[OF k m(1)] s'(2) by simp
  then have h': "held D rd live c bs s'" using i s' by (intro held_kept[OF h]) simp_all
  have "list_all (\<lambda>q. apart (p, vadd_bytes) (q, vadd_bytes)) (map (fst \<circ> snd) bs)"
    unfolding list_all_iff
  proof
    fix q assume "q \<in> set (map (fst \<circ> snd) bs)"
    then obtain x d where "(x, q, d) \<in> set bs" by force
    then have "holding rd live c s (x, q, d)" using h by (auto simp: held_def list_all_iff)
    then have "(q, vadd_bytes) \<in> live w" using k by (auto simp: holding_def kept_def)
    then show "apart (p, vadd_bytes) (q, vadd_bytes)" using m(3) apart_sym by blast
  qed
  moreover have "i \<notin> set (map fst bs)" using h s'(3) unfolding held_def list_all_iff holding_def by fastforce
  moreover have "holding rd live c s' (i, p, None)" using s' m(2) by (simp add: holding_def)
  ultimately show "\<exists>p. held D rd live c ((i, p, None) # bs) s'" using h' by (auto simp: held_def)
qed


lemma pairwise_middle:
  "pairwise_apart (ps @ p # qs) \<Longrightarrow> q \<in> set ps \<union> set qs \<Longrightarrow> apart (q, vadd_bytes) (p, vadd_bytes)"
  by (induction ps) (auto simp: list_all_iff apart_sym)

lemma vadd_bytes_len: "length vs = vadd_n \<Longrightarrow> unat vadd_bytes = length (slice_bytes (f32_slice vs))"
  using goslice_bytes[OF f32_slice_of, of vs] by (simp add: vadd_bytes_def vadd_n_def f32_slice_def)

lemma CopyFrom_yields:
  assumes dev: "device_memory D rd" "writes_only D rd live" "leaves_memory D rd live" and vs: "length vs = vadd_n"
  shows "yields (held D rd live c (pre @ (i, p, d) # post)) (lib (Buffer_CopyFrom (Some i) bg (f32_slice vs)))
    (\<lambda>_. held D rd live c (pre @ (i, p, Some (slice_bytes (f32_slice vs))) # post))"
proof (rule yields_lib)
  let ?data = "slice_bytes (f32_slice vs)"
  fix s v s' assume h: "held D rd live c (pre @ (i, p, d) # post) s" and a: "Buffer_CopyFrom (Some i) bg (f32_slice vs) s = (Inr v, s')"
  have b: "buffers s i = mkBuffer c Float32 (of_nat vadd_n) vadd_bytes p" "(p, vadd_bytes) \<in> live (world (sy s))"
    using h by (auto simp: held_def holding_def)
  obtain u y where d: "doCopyJob (Some c) bg (no_bytes (MemcpyHtoD (Some D) p (HGo ?data) vadd_bytes)) (sy s) = (Inr u, y)"
    and s': "s' = s\<lparr>sy := y\<rparr>"
    using a held_driver[OF h]
    by (auto simp: Buffer_CopyFrom_def b mkBuffer_def Let_def drv_of_def pooled_copies no_value_Inr split: if_splits elim!: lift_opE)
  have "ran_idle D c (kept rd live) (no_bytes (MemcpyHtoD (Some D) p (HGo ?data) vadd_bytes)) u (sy s) y"
    using h by (intro doCopyJob_idle_run[OF d] binding_kept[OF dev(3)]) (simp add: held_def)
  then obtain t w where i: "idle D c y" and k: "kept rd live (world (sy s)) w"
    and j: "no_bytes (MemcpyHtoD (Some D) p (HGo ?data) vadd_bytes) t w = (Inr u, world y)"
    by (auto simp: ran_idle_def)
  obtain r where inv: "invoke D (CuMemcpyHtoD p (HGo ?data) vadd_bytes) t w = ((CUDA_SUCCESS, r), world y)"
    using j by (auto simp: no_bytes_def andThen_def ret_def MemcpyHtoD_def split: prod.splits sum.splits dest!: required_ran)
  have w: "live w \<subseteq> live (world y)" "\<And>q m. (q, m) \<in> live w \<Longrightarrow> apart (q, m) (p, vadd_bytes) \<Longrightarrow> rd (world y) q m = rd w q m"
    using dev(2) inv b(2) k unfolding writes_only_def kept_def by blast+
  have new: "rd (world y) p vadd_bytes = ?data" by (rule MemcpyHtoD_stores[OF dev(1) j vadd_bytes_len[OF vs]])
  have old: "holding rd live c s' x" if "x \<in> set pre \<union> set post" for x
  proof -
    obtain q pq dq where x: "x = (q, pq, dq)" by (cases x)
    have hx: "holding rd live c s x" using h that by (auto simp: held_def list_all_iff)
    have "pq \<in> set (map (fst \<circ> snd) pre) \<union> set (map (fst \<circ> snd) post)" using that x by force
    then have "apart (pq, vadd_bytes) (p, vadd_bytes)"
      using h pairwise_middle[of "map (fst \<circ> snd) pre" p "map (fst \<circ> snd) post" pq] by (simp add: held_def)
    moreover have "(pq, vadd_bytes) \<in> live w" "rd w pq vadd_bytes = rd (world (sy s)) pq vadd_bytes"
      using hx k by (auto simp: x holding_def kept_def)
    ultimately show ?thesis using hx w k by (auto simp: x holding_def s' kept_def)
  qed
  have "holding rd live c s' (i, p, Some ?data)" using h new w k by (auto simp: holding_def held_def s' kept_def)
  with old h i show "held D rd live c (pre @ (i, p, Some ?data) # post) s'"
    by (auto simp: held_def list_all_iff s')
qed

lemma CopyTo_yields:
  assumes dev: "device_memory D rd" "leaves_memory D rd live" and vs: "length vs = vadd_n"
  shows "yields (held D rd live c (pre @ (i, p, Some data) # post)) (lib (Buffer_CopyTo (Some i) bg (f32_slice vs)))
    (\<lambda>out _. out = data)"
proof (rule yields_lib)
  let ?dst = "slice_bytes (f32_slice vs)"
  fix s out s' assume h: "held D rd live c (pre @ (i, p, Some data) # post) s" and a: "Buffer_CopyTo (Some i) bg (f32_slice vs) s = (Inr out, s')"
  have b: "buffers s i = mkBuffer c Float32 (of_nat vadd_n) vadd_bytes p" "(p, vadd_bytes) \<in> live (world (sy s))"
    "rd (world (sy s)) p vadd_bytes = data" using h by (auto simp: held_def holding_def)
  obtain y where d: "doCopyJob (Some c) bg (MemcpyDtoH (Some D) (HGo ?dst) p vadd_bytes) (sy s) = (Inr out, y)"
    using a held_driver[OF h]
    by (auto simp: Buffer_CopyTo_def b mkBuffer_def Let_def drv_of_def pooled_copies split: if_splits elim!: lift_opE)
  have "ran_idle D c (kept rd live) (MemcpyDtoH (Some D) (HGo ?dst) p vadd_bytes) out (sy s) y"
    using h by (intro doCopyJob_idle_run[OF d] binding_kept[OF dev(2)]) (simp add: held_def)
  then obtain t w where k: "kept rd live (world (sy s)) w" and j: "MemcpyDtoH (Some D) (HGo ?dst) p vadd_bytes t w = (Inr out, world y)"
    by (auto simp: ran_idle_def)
  have "out = rd w p vadd_bytes" by (rule MemcpyDtoH_loads[OF dev(1) j vadd_bytes_len[OF vs]])
  then show "out = data" using k b by (auto simp: kept_def)
qed

lemma Synchronize_yields:
  assumes dev: "leaves_memory D rd live"
  shows "yields (held D rd live c bs) (lib (lift_op (Context_Synchronize (Some c) bg))) (\<lambda>_. held D rd live c bs)"
proof (rule yields_lib)
  fix s v s' assume h: "held D rd live c bs s" and a: "lift_op (Context_Synchronize (Some c) bg) s = (Inr v, s')"
  have run: "syncOp_Run (newSyncOp (driver (ctxs (sy s) c)) opCtxSync 0 0 0) = required (Some D) CuCtxSynchronize (\<lambda>_. ())"
    using held_driver[OF h] by (simp add: drv_of_def syncOp_Run_def newSyncOp_def syncOpKind_defs CtxSynchronize_def)
  obtain y where d: "doJobCtx (Some c) bg (required (Some D) CuCtxSynchronize (\<lambda>_. ())) (sy s) = (Inr v, y)" and s': "s' = s\<lparr>sy := y\<rparr>"
    using a by (auto simp: Context_Synchronize_def run elim!: lift_opE)
  have "ran_idle D c (kept rd live) (required (Some D) CuCtxSynchronize (\<lambda>_. ())) v (sy s) y"
    using h by (intro doJobCtx_idle_run[OF d] binding_kept[OF dev]) (simp add: held_def)
  from ran_kept[OF dev _ this] show "held D rd live c bs s'"
    using h by (auto intro!: held_kept[OF h] simp: s' CuCtxSynchronize_def)
qed


lemma runs_kernelD:
  assumes "runs_kernel D rd live ptx ismod iskern"
  shows "invoke D (CuModuleLoadData (moduleImage ptx)) t w = ((CUDA_SUCCESS, r), w') \<Longrightarrow> ismod (o0 r)"
    and "ismod m \<Longrightarrow> invoke D (CuModuleGetFunction m (nameBuf (string_bytes ''vector_add''))) t w = ((CUDA_SUCCESS, r), w') \<Longrightarrow> iskern (o0 r)"
    and "iskern f \<Longrightarrow> invoke D (CuLaunchKernel f gx 1 1 bx 1 1 0 0 [le_bytes 8 a, le_bytes 8 b, le_bytes 8 c, le_bytes 4 n]) t w = ((CUDA_SUCCESS, r), w') \<Longrightarrow>
      unat n < 2 ^ 31 \<Longrightarrow> unat n \<le> unat gx * unat bx \<Longrightarrow> (a, 4 * n) \<in> live w \<Longrightarrow> (b, 4 * n) \<in> live w \<Longrightarrow> (c, 4 * n) \<in> live w \<Longrightarrow>
      apart (a, 4 * n) (c, 4 * n) \<Longrightarrow> apart (b, 4 * n) (c, 4 * n) \<Longrightarrow>
      live w \<subseteq> live w' \<and> sums (unat n) (rd w a (4 * n)) (rd w b (4 * n)) (rd w' c (4 * n))"
proof -
  note a = assms[unfolded runs_kernel_def]
  show "invoke D (CuModuleLoadData (moduleImage ptx)) t w = ((CUDA_SUCCESS, r), w') \<Longrightarrow> ismod (o0 r)"
    using a[THEN conjunct1] by blast
  show "ismod m \<Longrightarrow> invoke D (CuModuleGetFunction m (nameBuf (string_bytes ''vector_add''))) t w = ((CUDA_SUCCESS, r), w') \<Longrightarrow> iskern (o0 r)"
    using a[THEN conjunct2, THEN conjunct1] by blast
  show "live w \<subseteq> live w' \<and> sums (unat n) (rd w a (4 * n)) (rd w b (4 * n)) (rd w' c (4 * n))"
    if "iskern f" "invoke D (CuLaunchKernel f gx 1 1 bx 1 1 0 0 [le_bytes 8 a, le_bytes 8 b, le_bytes 8 c, le_bytes 4 n]) t w = ((CUDA_SUCCESS, r), w')"
      "unat n < 2 ^ 31" "unat n \<le> unat gx * unat bx" "(a, 4 * n) \<in> live w" "(b, 4 * n) \<in> live w" "(c, 4 * n) \<in> live w"
      "apart (a, 4 * n) (c, 4 * n)" "apart (b, 4 * n) (c, 4 * n)"
    by (rule a[THEN conjunct2, THEN conjunct2, rule_format, of f gx bx a b c n t w r w']) (intro conjI that)
qed

definition loaded :: "(u64 \<Rightarrow> bool) \<Rightarrow> nat \<Rightarrow> nat \<Rightarrow> 'w rt \<Rightarrow> bool" where
  "loaded ismod c m s = (\<exists>h. ismod h \<and> modules s m = \<lparr>octx = c, oclosed = False, mraw = h\<rparr>)"

lemma LoadModule_yields:
  assumes dev: "leaves_memory D rd live" "runs_kernel D rd live ptx ismod iskern"
  shows "yields (held D rd live c bs) (lib (LoadModule (Some c) ptx)) (\<lambda>m s. held D rd live c bs s \<and> loaded ismod c m s)"
proof (rule yields_lib)
  fix s m s' assume h: "held D rd live c bs s" and a: "LoadModule (Some c) ptx s = (Inr m, s')"
  let ?call = "CuModuleLoadData (moduleImage ptx)"
  obtain x y where d: "doWith (Some c) bg (required (Some D) ?call o0) True False (sy s) = (Inr x, y)"
    and s': "s' = (modules_update (\<lambda>f. f(m := \<lparr>octx = c, oclosed = False, mraw = x\<rparr>)) (s\<lparr>sy := y\<rparr>))\<lparr>nobj := Suc (nobj s)\<rparr>"
    using a held_driver[OF h]
    by (auto simp: LoadModule_def createWith_def newObject_def doWait_def ModuleLoadData_def split: if_splits prod.splits sum.splits elim!: lift_opE)
  have "ran_idle D c (kept rd live) (required (Some D) ?call o0) x (sy s) y"
    using h by (intro doWith_idle[OF d] binding_kept[OF dev(1)]) (simp add: held_def)
  from ran_kept[OF dev(1) _ this] obtain t w r where i: "idle D c y" and k: "kept rd live (world (sy s)) (world y)"
    and "invoke D ?call t w = ((CUDA_SUCCESS, r), world y)" "x = o0 r" by (auto simp: CuModuleLoadData_def)
  then have "ismod x" using runs_kernelD(1)[OF dev(2)] by simp
  moreover have "held D rd live c bs s'" using i k by (intro held_kept[OF h]) (simp_all add: s')
  ultimately show "held D rd live c bs s' \<and> loaded ismod c m s'" by (simp add: loaded_def s')
qed

definition kernel_of :: "(u64 \<Rightarrow> bool) \<Rightarrow> nat \<Rightarrow> Function \<Rightarrow> bool" where
  "kernel_of iskern m fn = (fmodule fn = Some m \<and> iskern (fraw fn))"

lemma Function_yields:
  assumes dev: "leaves_memory D rd live" "runs_kernel D rd live ptx ismod iskern"
  shows "yields (\<lambda>s. held D rd live c bs s \<and> loaded ismod c m s) (lib (Module_Function (Some m) (string_bytes ''vector_add'')))
    (\<lambda>fn s. held D rd live c bs s \<and> loaded ismod c m s \<and> kernel_of iskern m fn)"
proof (rule yields_lib)
  let ?nm = "string_bytes ''vector_add''"
  fix s fn s' assume p: "held D rd live c bs s \<and> loaded ismod c m s" and a: "Module_Function (Some m) ?nm s = (Inr fn, s')"
  then obtain h where m: "ismod h" "modules s m = \<lparr>octx = c, oclosed = False, mraw = h\<rparr>" and h: "held D rd live c bs s" by (auto simp: loaded_def)
  have nm: "?nm \<noteq> []" "0 \<notin> set ?nm" by code_simp+
  let ?call = "CuModuleGetFunction h (nameBuf ?nm)"
  obtain x y where d: "doWith (Some c) bg (required (Some D) ?call o0) True False (sy s) = (Inr x, y)"
    and s': "s' = s\<lparr>sy := y\<rparr>" "fn = \<lparr>fmodule = Some m, fraw = x, fname = ?nm\<rparr>"
    using a held_driver[OF h] nm
    by (auto simp: Module_Function_def m Let_def doWait_def ModuleGetFunction_def split: if_splits prod.splits sum.splits elim!: lift_opE)
  have "ran_idle D c (kept rd live) (required (Some D) ?call o0) x (sy s) y"
    using h by (intro doWith_idle[OF d] binding_kept[OF dev(1)]) (simp add: held_def)
  from ran_kept[OF dev(1) _ this] obtain t w r where i: "idle D c y" and k: "kept rd live (world (sy s)) (world y)"
    and "invoke D ?call t w = ((CUDA_SUCCESS, r), world y)" "x = o0 r" by (auto simp: CuModuleGetFunction_def)
  then have "iskern x" using runs_kernelD(2)[OF dev(2) m(1)] by simp
  moreover have "held D rd live c bs s'" using i k by (intro held_kept[OF h]) (simp_all add: s')
  ultimately show "held D rd live c bs s' \<and> loaded ismod c m s' \<and> kernel_of iskern m fn"
    using m by (simp add: loaded_def kernel_of_def s')
qed

text \<open>The launch of the program passes every check and is one call of the driver.\<close>

definition vadd_call :: "u64 \<Rightarrow> u64 \<Rightarrow> u64 \<Rightarrow> u64 \<Rightarrow> drvcall" where
  "vadd_call f p q r = CuLaunchKernel f 4 1 1 256 1 1 0 0 [le_bytes 8 p, le_bytes 8 q, le_bytes 8 r, le_bytes 4 1024]"

lemma Launch_calls:
  assumes "held D rd live c [(k, r, dr), (j, q, dq), (i, p, dp)] s \<and> loaded ismod c m s \<and> kernel_of iskern m fn"
  shows "unlocked (Launch (Some fn) bg (LaunchConfig1D (of_nat vadd_n) 256) (vadd_args i j k)) s =
    lift_op (doJob (Some c) bg (required (Some D) (vadd_call (fraw fn) p q r) (\<lambda>_. ()))) s"
proof -
  let ?cfg = "LaunchConfig1D (of_nat vadd_n) 256" and ?as = "vadd_args i j k"
  have h: "held D rd live c [(k, r, dr), (j, q, dq), (i, p, dp)] s" and fn: "fmodule fn = Some m"
    and m: "octx (modules s m) = c" "\<not> oclosed (modules s m)"
    using assms by (auto simp: loaded_def kernel_of_def)
  have b: "buffers s i = mkBuffer c Float32 (of_nat vadd_n) vadd_bytes p" "buffers s j = mkBuffer c Float32 (of_nat vadd_n) vadd_bytes q"
    "buffers s k = mkBuffer c Float32 (of_nat vadd_n) vadd_bytes r" using h by (simp_all add: held_def holding_def)
  have cfg: "?cfg = \<lparr>GridX = 4, GridY = 1, GridZ = 1, BlockX = 256, BlockY = 1, BlockZ = 1, SharedMemBytes = 0\<rparr>" by code_simp
  have n: "(of_nat vadd_n :: u64) = 1024" by (simp add: vadd_n_def)
  have fit: "args_fit s ?as" by (simp add: args_fit_def vadd_args_def int32Type_def)
  have vals: "args_values s ?as = [le_bytes 8 p, le_bytes 8 q, le_bytes 8 r, le_bytes 4 1024]"
    using b by (simp add: args_values_def vadd_args_def mkBuffer_def n)
  have err: "launch_error fn None ?cfg ?as s = None"
    using b by (simp add: launch_error_def cfg valid_def fn m vadd_args_def resource_error_def mkBuffer_def)
  have "unlocked (Launch (Some fn) bg ?cfg ?as) s = kernel_dispatch c bg fn ?cfg 0 False (args_values s ?as) s"
    using launch_dispatch[OF fit, where f = fn and streamCtx = None and cfg = ?cfg and ctx = bg and rawStream = 0 and coop = False]
    by (auto simp: err fn m unlocked_def Launch_def defaultStream_def split: prod.splits)
  then show ?thesis using held_driver[OF h] by (simp add: vals kernel_dispatch_def kernel_call_def cfg LaunchKernel_def vadd_call_def)
qed

lemma Launch_yields:
  assumes dev: "leaves_memory D rd live" "runs_kernel D rd live ptx ismod iskern"
  shows "yields (\<lambda>s. held D rd live c [(k, r, None), (j, q, Some ys), (i, p, Some xs)] s \<and> loaded ismod c m s \<and> kernel_of iskern m fn)
    (lib (unlocked (Launch (Some fn) bg (LaunchConfig1D (of_nat vadd_n) 256) (vadd_args i j k))))
    (\<lambda>_ s. \<exists>zs. sums vadd_n xs ys zs \<and> held D rd live c [(k, r, Some zs)] s)"
proof (rule yields_lib)
  let ?call = "vadd_call (fraw fn) p q r"
  fix s v s' assume p: "held D rd live c [(k, r, None), (j, q, Some ys), (i, p, Some xs)] s \<and> loaded ismod c m s \<and> kernel_of iskern m fn"
    and a: "unlocked (Launch (Some fn) bg (LaunchConfig1D (of_nat vadd_n) 256) (vadd_args i j k)) s = (Inr v, s')"
  then have h: "held D rd live c [(k, r, None), (j, q, Some ys), (i, p, Some xs)] s" and fn: "iskern (fraw fn)" by (auto simp: kernel_of_def)
  obtain y where d: "doJob (Some c) bg (required (Some D) ?call (\<lambda>_. ())) (sy s) = (Inr v, y)" and s': "s' = s\<lparr>sy := y\<rparr>"
    using a Launch_calls[OF p] by (auto elim!: lift_opE)
  have "ran_idle D c (kept rd live) (required (Some D) ?call (\<lambda>_. ())) v (sy s) y"
    using h by (intro doJob_idle[OF d] binding_kept[OF dev(1)]) (simp add: held_def)
  then obtain t w ov where idl: "idle D c y" and kp: "kept rd live (world (sy s)) w"
    and inv: "invoke D ?call t w = ((CUDA_SUCCESS, ov), world y)" by (auto simp: ran_idle_def dest!: required_ran)
  have lv: "(p, 4096) \<in> live w" "(q, 4096) \<in> live w" "(r, 4096) \<in> live w"
    using h kp by (auto simp: held_def holding_def kept_def vadd_bytes_def)
  have ap: "apart (p, 4096) (r, 4096)" "apart (q, 4096) (r, 4096)"
    using h by (simp_all add: held_def vadd_bytes_def apart_sym)
  have "live w \<subseteq> live (world y) \<and> sums (unat (1024 :: u64)) (rd w p (4 * 1024)) (rd w q (4 * 1024)) (rd (world y) r (4 * 1024))"
    by (rule runs_kernelD(3)[OF dev(2) fn inv[unfolded vadd_call_def]]) (use lv ap in simp_all)
  moreover have "rd w p 4096 = xs" "rd w q 4096 = ys"
    using h kp by (auto simp: held_def holding_def kept_def vadd_bytes_def)
  ultimately have sm: "live w \<subseteq> live (world y)" "sums vadd_n xs ys (rd (world y) r 4096)" by (simp_all add: vadd_n_def)
  have "held D rd live c [(k, r, Some (rd (world y) r 4096))] s'"
    using h idl sm(1) lv by (auto simp: held_def holding_def s' vadd_bytes_def)
  with sm(2) show "\<exists>zs. sums vadd_n xs ys zs \<and> held D rd live c [(k, r, Some zs)] s'" by blast
qed


subsection \<open>Starting the run\<close>

definition on_driver :: "'w Driver \<Rightarrow> 'w rt \<Rightarrow> bool" where
  "on_driver D s = (gdriver (sy s) = Some D)"

lemma init_yields:
  assumes "\<And>l d l'. eload e l = (Inr d, l') \<Longrightarrow> ddrv d = D"
  shows "yields (\<lambda>s. gdriver (sy s) = None \<or> on_driver D s) (init e) (\<lambda>_. on_driver D)"
proof -
  have "gdriver y' = Some D" if "cuda_Init (eload e) (emain e) (y, l) = (Inr v, y', l')" "gdriver y = None \<or> gdriver y = Some D" for y l v y' l'
    using that by (auto simp: cuda_Init_def split: prod.splits option.splits sum.splits dest: assms)
  then show ?thesis by (auto simp: yields_def init_def on_driver_def split: prod.splits)
qed

lemma GetDevice_yields: "yields (on_driver D) (lib (lift_op (cuda_GetDevice t n))) (\<lambda>_. on_driver D)"
  by (rule yields_lib) (auto simp: on_driver_def cuda_GetDevice_def on_caller_def split: option.splits if_splits sum.splits prod.splits elim!: lift_opE)

lemma Name_yields: "yields (on_driver D) (lib (lift_op (Device_Name t d))) (\<lambda>_. on_driver D)"
  by (rule yields_lib) (auto simp: on_driver_def Device_Name_def deviceQuery_def on_caller_def split: option.splits prod.splits elim!: lift_opE)

lemma Primary_yields: "yields (on_driver D) (lib (lift_op (Primary (Some d)))) (\<lambda>c. held D rd live c [])"
proof (rule yields_lib)
  fix s c s' assume p: "on_driver D s" and a: "lift_op (Primary (Some d)) s = (Inr c, s')"
  let ?run = "xrun (Do (primary_job (Some D) (handle d))) (newExec (nexttid (sy s))) ((sy s)\<lparr>nexttid := Suc (nexttid (sy s))\<rparr>)"
  obtain res x1 n y1 where run: "?run = (res, x1, n, y1)" by (cases ?run)
  obtain y2 where y2: "Primary (Some d) (sy s) = (Inr c, y2)" "s' = s\<lparr>sy := y2\<rparr>" using a by (rule lift_opE)
  have g: "gdriver (sy s) = Some D" using p by (simp add: on_driver_def)
  have "Primary (Some d) (sy s) = (case (res, x1, n, y1) of
      (Inl e, x1, _, s2) \<Rightarrow> (case xrun xClose x1 s2 of (_, _, _, s3) \<Rightarrow> (Inl e, s3))
    | (Inr rawc, x1, _, s2) \<Rightarrow> (Inr (nctxs s2), (setctx (nctxs s2) (newContext d (Some D) rawc x1) s2)\<lparr>nctxs := Suc (nctxs s2)\<rparr>))"
    unfolding Primary_def g startExecutor_def option.case prod.case run ..
  then obtain rawc where r: "?run = (Inr rawc, x1, n, y1)"
    and y: "y2 = (setctx (nctxs y1) (newContext d (Some D) rawc x1) y1)\<lparr>nctxs := Suc (nctxs y1)\<rparr>" "c = nctxs y1"
    using y2(1) run by (cases res) (auto split: prod.splits)
  have "xqueue x1 = []" using xrun_idle(2)[OF r[unfolded Do_def DoCtx_def]] by (simp add: newExec_def)
  then show "held D rd live c [] s'" by (simp add: held_def idle_def y2(2) y newContext_def)
qed

subsection \<open>The property\<close>

lemma honest_launch:
  assumes "vector_device D rd live ptx ismod iskern"
    and "xs = slice_bytes (f32_slice vadd_aHost)" "ys = slice_bytes (f32_slice vadd_bHost)"
  shows "honest (\<lambda>s. held D rd live ctx [(c, r, None), (b, q, Some ys), (a, p, Some xs)] s \<and> loaded ismod ctx m s \<and> kernel_of iskern m fn)
    (vadd_launch ctx a b c fn)"
proof -
  note dev = assms(1)[unfolded vector_device_def]
  have mem: "device_memory D rd" and lv: "leaves_memory D rd live" and run: "runs_kernel D rd live ptx ismod iskern" using dev by auto
  show ?thesis
    unfolding vadd_launch_def
  proof (rule honest_attempt[OF Launch_yields[OF lv run]], rule honest_ex)
    fix zs
    show "honest (\<lambda>s. sums vadd_n xs ys zs \<and> held D rd live ctx [(c, r, Some zs)] s)
      (attempt ''synchronize'' (lib (lift_op (Context_Synchronize (Some ctx) bg))) (\<lambda>_.
       attempt ''copy result'' (lib (Buffer_CopyTo (Some c) bg (f32_slice (replicate vadd_n 0)))) (\<lambda>out. vadd_check (f32_values vadd_n out))))"
    proof (cases "sums vadd_n xs ys zs")
      case True
      have "honest (\<lambda>_. out = zs) (vadd_check (f32_values vadd_n out))" for out
        using honest_check[of zs "\<lambda>_. True"] True assms(2,3) by (auto simp: honest_def)
      then have "honest (held D rd live ctx ([] @ (c, r, Some zs) # []))
         (attempt ''copy result'' (lib (Buffer_CopyTo (Some c) bg (f32_slice (replicate vadd_n 0)))) (\<lambda>out. vadd_check (f32_values vadd_n out)))"
        by (intro honest_attempt[OF CopyTo_yields[OF mem lv]]) simp_all
      then have "honest (held D rd live ctx [(c, r, Some zs)])
        (attempt ''synchronize'' (lib (lift_op (Context_Synchronize (Some ctx) bg))) (\<lambda>_.
         attempt ''copy result'' (lib (Buffer_CopyTo (Some c) bg (f32_slice (replicate vadd_n 0)))) (\<lambda>out. vadd_check (f32_values vadd_n out))))"
        by (intro honest_attempt[OF Synchronize_yields[OF lv]]) simp
      then show ?thesis by (rule honest_weaken) simp
    qed (simp add: honest_def)
  qed
qed

lemma honest_compute:
  assumes dev: "vector_device D rd live (vectorAddPTX e) ismod iskern"
  shows "honest (held D rd live ctx [(c, r, None), (b, q, None), (a, p, None)]) (vadd_compute e ctx a b c)"
proof -
  let ?xs = "slice_bytes (f32_slice vadd_aHost)" and ?ys = "slice_bytes (f32_slice vadd_bHost)"
  have mem: "device_memory D rd" and wr: "writes_only D rd live" and lv: "leaves_memory D rd live"
    and run: "runs_kernel D rd live (vectorAddPTX e) ismod iskern" using dev by (auto simp: vector_device_def)
  have A: "yields (held D rd live ctx [(c, r, None), (b, q, None), (a, p, None)]) (lib (Buffer_CopyFrom (Some a) bg (f32_slice vadd_aHost)))
      (\<lambda>_. held D rd live ctx [(c, r, None), (b, q, None), (a, p, Some ?xs)])"
    using CopyFrom_yields[OF mem wr lv, of vadd_aHost ctx "[(c, r, None), (b, q, None)]" a p None "[]"] by simp
  have B: "yields (held D rd live ctx [(c, r, None), (b, q, None), (a, p, Some ?xs)]) (lib (Buffer_CopyFrom (Some b) bg (f32_slice vadd_bHost)))
      (\<lambda>_. held D rd live ctx [(c, r, None), (b, q, Some ?ys), (a, p, Some ?xs)])"
    using CopyFrom_yields[OF mem wr lv, of vadd_bHost ctx "[(c, r, None)]" b q None "[(a, p, Some ?xs)]"] by simp
  show ?thesis
    unfolding vadd_compute_def
    by (intro honest_attempt[OF A] honest_attempt[OF B] honest_attempt[OF LoadModule_yields[OF lv run]] honest_deferring
        honest_attempt[OF Function_yields[OF lv run]] honest_launch[OF dev] refl)
qed

lemma honest_buffers:
  assumes dev: "vector_device D rd live (vectorAddPTX e) ismod iskern"
  shows "honest (held D rd live ctx []) (vadd_buffers e ctx)"
proof -
  have al: "allocates D rd live" "leaves_memory D rd live" using dev by (auto simp: vector_device_def)
  show ?thesis
    unfolding vadd_buffers_def
    by (intro honest_attempt[OF Alloc_yields[OF al]] honest_ex honest_deferring honest_compute[OF dev])
qed

text \<open>
  C16. \<^verbatim>\<open>vector-add\<close> computes what it verifies: on a device with memory, disjoint allocations and the kernel of \<^verbatim>\<open>vector_add.cu\<close>, the result read back is the sum
  of the two inputs, so its check never fails. Every error its \<^verbatim>\<open>run\<close> returns is the failure of an operation of the library.
\<close>

theorem vector_add_correct:
  assumes "vector_device D rd live (vectorAddPTX e) ismod iskern"
    and "\<And>l d l'. eload e l = (Inr d, l') \<Longrightarrow> ddrv d = D"
    and "gdriver (sy (prt s)) = None"
    and "vadd_run e s = (Ret res, s')"
  shows "only_calls res"
proof -
  have "honest (\<lambda>s. gdriver (sy s) = None \<or> on_driver D s) (vadd_run e)"
    unfolding vadd_run_def
    by (intro honest_attempt[OF init_yields[OF assms(2)]] honest_attempt[OF GetDevice_yields] honest_attempt[OF Name_yields] honest_Printf
        honest_attempt[OF Primary_yields[where rd = rd and live = live]] honest_deferring honest_buffers[OF assms(1)])
  then show ?thesis using assms(3,4) by (auto dest: honestD)
qed


subsection \<open>A concrete device\<close>

text \<open>
  Device memory from address 0 on, allocated upwards, with a kernel that adds; every handle is one of this kernel. Launches read their arguments from the parameter bytes.
\<close>

record gpu =
  gmem :: "u64 \<Rightarrow> u8"
  gallocs :: "(u64 \<times> u64) list"
  gnext :: nat

fun of_le :: "u8 list \<Rightarrow> u64" where
  "of_le [] = 0"
| "of_le (b # bs) = ucast b OR push_bit 8 (of_le bs)"

definition addKernel :: "u8 list list \<Rightarrow> (u64 \<Rightarrow> u8) \<Rightarrow> u64 \<Rightarrow> u8" where
  "addKernel ps m = (let n = of_le (ps ! 3); va = f32_values (unat n) (rd_mem m (of_le (ps ! 0)) (4 * n));
       vb = f32_values (unat n) (rd_mem m (of_le (ps ! 1)) (4 * n))
     in wr_mem m (of_le (ps ! 2)) (slice_bytes (f32_slice (map2 f32_add va vb))))"

definition gpuDriver :: "gpu Driver" where
  "gpuDriver = \<lparr>bound = (\<lambda>_. True), invoke = (\<lambda>call t w.
     if csym call = ''cuMemAlloc_v2'' then
       (if gnext w + unat (cargs call ! 0) < 2 ^ 63 then
          ((CUDA_SUCCESS, \<lparr>o0 = of_nat (gnext w), o1 = 0, obuf = []\<rparr>),
           w\<lparr>gallocs := (of_nat (gnext w), cargs call ! 0) # gallocs w, gnext := gnext w + unat (cargs call ! 0)\<rparr>)
        else ((CUDA_ERROR_OUT_OF_MEMORY, \<lparr>o0 = 0, o1 = 0, obuf = []\<rparr>), w))
     else if csym call = ''cuMemcpyHtoD_v2'' then
       ((CUDA_SUCCESS, \<lparr>o0 = 0, o1 = 0, obuf = []\<rparr>),
        w\<lparr>gmem := wr_mem (gmem w) (cargs call ! 0) (take (unat (cargs call ! 2)) (cbufs call ! 0))\<rparr>)
     else if csym call = ''cuMemcpyDtoH_v2'' then
       ((CUDA_SUCCESS, \<lparr>o0 = 0, o1 = 0, obuf = rd_mem (gmem w) (cargs call ! 1) (cargs call ! 2)\<rparr>), w)
     else if csym call = ''cuLaunchKernel'' then
       ((CUDA_SUCCESS, \<lparr>o0 = 0, o1 = 0, obuf = []\<rparr>), w\<lparr>gmem := addKernel (cbufs call) (gmem w)\<rparr>)
     else ((CUDA_SUCCESS, \<lparr>o0 = 1, o1 = 0, obuf = []\<rparr>), w))\<rparr>"

definition gpu_rd :: "gpu \<Rightarrow> u64 \<Rightarrow> u64 \<Rightarrow> u8 list" where
  "gpu_rd w = rd_mem (gmem w)"

definition gpu_live :: "gpu \<Rightarrow> (u64 \<times> u64) set" where
  "gpu_live w = {(p, n). (p, n) \<in> set (gallocs w) \<and> unat p + unat n \<le> gnext w \<and> gnext w < 2 ^ 63}"

lemma of_le_bytes: "of_le (le_bytes n w) = take_bit (8 * n) w"
proof (induction n w rule: le_bytes.induct)
  case (2 n w)
  show ?case unfolding le_bytes.simps of_le.simps 2
    by (rule bit_eqI) (auto simp: bit_simps)
qed simp

lemma of_le_8: "of_le (le_bytes 8 w) = w"
proof -
  have "take_bit 64 w = w" by (rule bit_eqI) (auto simp: bit_simps)
  then show ?thesis by (simp add: of_le_bytes)
qed

lemma of_le_4: "unat w < 2 ^ 31 \<Longrightarrow> of_le (le_bytes 4 w) = w"
proof -
  assume "unat w < 2 ^ 31"
  then have "unat (take_bit 32 w) = unat w" by (simp add: unsigned_take_bit_eq take_bit_nat_eq_self)
  then show ?thesis by (simp add: of_le_bytes word_unat_eq_iff)
qed

lemma rd_wr_apart:
  assumes ap: "apart (q, k) (p, n)" and b: "unat q + unat k < 2 ^ 63" "unat p + unat n < 2 ^ 63" and len: "length data \<le> unat n"
  shows "rd_mem (wr_mem m p data) q k = rd_mem m q k"
proof -
  have "\<not> unat (q + of_nat i - p) < length data" if i: "i < unat k" for i
  proof -
    have i64: "unat (of_nat i :: u64) = i" using i unat_lt64[of k] by (simp add: unsigned_of_nat take_bit_nat_eq_self)
    have a: "unat (q + of_nat i) = unat q + i" using b(1) i i64 by (subst unat_add_small) simp_all
    show ?thesis
    proof (cases "unat q + i < unat p")
      case True
      have "unat (q + of_nat i - p) = unat q + i + 2 ^ 64 - unat p"
        using True a unat_sub_if'[of "q + of_nat i" p] by (simp add: word_le_nat_alt)
      then show ?thesis using b len by simp
    next
      case False
      then have "unat (q + of_nat i - p) = unat q + i - unat p"
        using a unat_sub_if'[of "q + of_nat i" p] by (simp add: word_le_nat_alt)
      then show ?thesis using ap i len False by (auto simp: apart.simps)
    qed
  qed
  then show ?thesis by (simp add: rd_mem_def wr_mem_def)
qed

lemma gpu_memory: "device_memory gpuDriver gpu_rd"
  by (auto simp: device_memory_def gpuDriver_def CuMemcpyHtoD_def CuMemcpyDtoH_def gpu_rd_def rd_wr_mem)

lemma gpu_allocates: "allocates gpuDriver gpu_rd gpu_live"
proof -
  have "kept gpu_rd gpu_live w w' \<and> (o0 r, n) \<in> gpu_live w' \<and> (\<forall>x \<in> gpu_live w. apart x (o0 r, n))"
    if "invoke gpuDriver (CuMemAlloc n) t w = ((CUDA_SUCCESS, r), w')" for n t w r w'
  proof -
    have w: "gnext w + unat n < 2 ^ 63" "o0 r = of_nat (gnext w)"
      "w' = w\<lparr>gallocs := (of_nat (gnext w), n) # gallocs w, gnext := gnext w + unat n\<rparr>"
      using that by (auto simp: gpuDriver_def CuMemAlloc_def code_defs split: if_splits)
    have u: "unat (of_nat (gnext w) :: u64) = gnext w" using w(1) by (simp add: unsigned_of_nat take_bit_nat_eq_self)
    show ?thesis using w u by (auto simp: kept_def gpu_live_def gpu_rd_def apart.simps)
  qed
  then show ?thesis unfolding allocates_def by blast
qed

lemma gpu_writes_only: "writes_only gpuDriver gpu_rd gpu_live"
proof -
  have "gpu_live w \<subseteq> gpu_live w' \<and> (\<forall>(q, m) \<in> gpu_live w. apart (q, m) (p, n) \<longrightarrow> gpu_rd w' q m = gpu_rd w q m)"
    if "invoke gpuDriver (CuMemcpyHtoD p (HGo data) n) t w = ((CUDA_SUCCESS, r), w')" "(p, n) \<in> gpu_live w" for p data n t w r w'
  proof -
    have w': "w' = w\<lparr>gmem := wr_mem (gmem w) p (take (unat n) data)\<rparr>"
      using that(1) by (auto simp: gpuDriver_def CuMemcpyHtoD_def)
    then show ?thesis using that(2) by (auto simp: gpu_live_def gpu_rd_def intro!: rd_wr_apart)
  qed
  then show ?thesis unfolding writes_only_def by blast
qed

lemma gpu_leaves: "leaves_memory gpuDriver gpu_rd gpu_live"
  by (auto simp: leaves_memory_def gpuDriver_def kept_refl)

lemma gpu_kernel: "runs_kernel gpuDriver gpu_rd gpu_live ptx (\<lambda>_. True) (\<lambda>_. True)"
proof -
  have "gpu_live w \<subseteq> gpu_live w' \<and> sums (unat n) (gpu_rd w a (4 * n)) (gpu_rd w b (4 * n)) (gpu_rd w' c (4 * n))"
    if inv: "invoke gpuDriver (CuLaunchKernel f gx 1 1 bx 1 1 0 0 [le_bytes 8 a, le_bytes 8 b, le_bytes 8 c, le_bytes 4 n]) t w = ((CUDA_SUCCESS, r), w')"
      and n: "unat n < 2 ^ 31" for f gx bx a b c n t w r w'
  proof -
    let ?vs = "map2 f32_add (f32_values (unat n) (gpu_rd w a (4 * n))) (f32_values (unat n) (gpu_rd w b (4 * n)))"
    have w': "w' = w\<lparr>gmem := wr_mem (gmem w) c (slice_bytes (f32_slice ?vs))\<rparr>"
      using inv n by (auto simp: gpuDriver_def CuLaunchKernel_def addKernel_def Let_def of_le_8 of_le_4 gpu_rd_def)
    have "unat (4 * n) = length (slice_bytes (f32_slice ?vs))"
      using n unat_mul_small[of 4 n] goslice_bytes[OF f32_slice_of, of ?vs] by (simp add: f32_slice_def)
    then have "gpu_rd w' c (4 * n) = slice_bytes (f32_slice ?vs)" by (simp add: w' gpu_rd_def rd_wr_mem)
    moreover have "f32_values (unat n) (slice_bytes (f32_slice ?vs)) = ?vs" using f32_values_slice[of ?vs] by simp
    ultimately show ?thesis by (simp add: sums_def list.rel_refl w' gpu_live_def)
  qed
  then show ?thesis unfolding runs_kernel_def by blast
qed

lemma vector_add_correct_witness:
  "\<exists>res s'. vadd_run (env_with gpuDriver [1]) (prog0 \<lparr>gmem = (\<lambda>_. 0), gallocs = [], gnext = 0\<rparr>) = (Ret res, s') \<and> only_calls res"
proof -
  let ?e = "env_with gpuDriver [1]" and ?s = "prog0 \<lparr>gmem = (\<lambda>_. 0), gallocs = [], gnext = 0\<rparr>"
  obtain res s' where r: "vadd_run ?e ?s = (Ret res, s')" using returns_vadd_run unfolding returns_def by blast
  have "vector_device gpuDriver gpu_rd gpu_live (vectorAddPTX ?e) (\<lambda>_. True) (\<lambda>_. True)"
    unfolding vector_device_def by (intro conjI gpu_memory gpu_allocates gpu_writes_only gpu_leaves gpu_kernel)
  then have "only_calls res"
    by (rule vector_add_correct[where s = ?s, OF _ _ _ r]) (auto simp: env_with_def prog0_def prog_of_def rt0_def)
  with r show ?thesis by blast
qed

end
