(* ===== verification/Accepting.thy ===== *)
theory Accepting
  imports IdleRuns
begin

section \<open>Calls that succeed\<close>

text \<open>
  Total correctness: from which states an operation returns a value and no error. \<open>succeeds P f Q\<close> is the triple for an operation \<open>f\<close> of the library or of a
  program; \<open>fine I job J\<close> is the one for a job, on any thread. A context that is open, has failed no command and has no abandoned jobs (\<open>up\<close>) carries every dispatched job
  to its success if the job succeeds and the driver accepts the binding of the context to a thread (\<open>binds\<close>).
\<close>

subsection \<open>Triples\<close>

definition succeeds :: "('s \<Rightarrow> bool) \<Rightarrow> ('s \<Rightarrow> (go_error + 'a) \<times> 's) \<Rightarrow> ('a \<Rightarrow> 's \<Rightarrow> bool) \<Rightarrow> bool" where
  "succeeds P f Q = (\<forall>s. P s \<longrightarrow> (\<exists>v s'. f s = (Inr v, s') \<and> Q v s'))"

definition fine :: "('w \<Rightarrow> bool) \<Rightarrow> ('w, 'a) drv \<Rightarrow> ('w \<Rightarrow> bool) \<Rightarrow> bool" where
  "fine I job J = (\<forall>t. succeeds I (job t) (\<lambda>_. J))"

definition accepts :: "'w Driver \<Rightarrow> string set \<Rightarrow> ('w \<Rightarrow> bool) \<Rightarrow> bool" where
  "accepts D S I = (\<forall>call t w. csym call \<in> S \<and> I w \<longrightarrow>
     bound D (csym call) \<and> (\<exists>r w'. invoke D call t w = ((CUDA_SUCCESS, r), w') \<and> I w'))"

definition binds :: "'w Driver \<Rightarrow> ('w \<Rightarrow> bool) \<Rightarrow> bool" where
  "binds D I = (\<forall>rawc. fine I (CtxSetCurrent (Some D) rawc) I)"

lemma succeedsI: "(\<And>s. P s \<Longrightarrow> \<exists>v s'. f s = (Inr v, s') \<and> Q v s') \<Longrightarrow> succeeds P f Q"
  by (simp add: succeeds_def)

lemma succeedsE:
  assumes "succeeds P f Q" "P s"
  obtains v s' where "f s = (Inr v, s')" "Q v s'"
  using assms by (auto simp: succeeds_def)

lemma fineE:
  assumes "fine I job J" "I w"
  obtains v w' where "job t w = (Inr v, w')" "J w'"
  using assms unfolding fine_def succeeds_def by blast

lemma fineI: "(\<And>t w. I w \<Longrightarrow> \<exists>v w'. job t w = (Inr v, w') \<and> J w') \<Longrightarrow> fine I job J"
  by (simp add: fine_def succeeds_def)

lemma required_fine:
  assumes "accepts D S I" "csym call \<in> S"
  shows "fine I (required (Some D) call f) I"
proof (rule fineI)
  fix t w assume "I w"
  with assms obtain r w' where "bound D (csym call)" "invoke D call t w = ((CUDA_SUCCESS, r), w')" "I w'" unfolding accepts_def by blast
  then show "\<exists>v w'. required (Some D) call f t w = (Inr v, w') \<and> I w'" by (simp add: required_def checked_call_def check_def)
qed

lemma ret_fine: "fine I (ret v) I"
  by (simp add: fine_def succeeds_def ret_def)

lemma no_bytes_fine:
  assumes "fine I m J"
  shows "fine I (no_bytes m) J"
proof (rule fineI)
  fix t w assume "I w"
  then obtain w' where "m t w = (Inr (), w')" "J w'" using fineE[OF assms] by (metis old.unit.exhaust)
  then show "\<exists>v w'. no_bytes m t w = (Inr v, w') \<and> J w'" by (simp add: no_bytes_def andThen_def ret_def)
qed

subsection \<open>Executors\<close>

definition calm :: "'w Executor \<Rightarrow> bool" where
  "calm x = (\<not> xclosed x \<and> xqueue x = [])"

lemma calm_new: "calm (newExec t)"
  by (simp add: calm_def newExec_def)

text \<open>What a call on a calm executor does, for a job that succeeds and a caller's context that is never cancelled.\<close>

definition carries :: "('w \<Rightarrow> bool) \<Rightarrow> ('w xst \<Rightarrow> (go_error + 'a) \<times> 'w xst) \<Rightarrow> ('w \<Rightarrow> bool) \<Rightarrow> bool" where
  "carries I f J = succeeds (\<lambda>s. calm (ex s) \<and> I (wld s)) f (\<lambda>_ s. calm (ex s) \<and> J (wld s))"

lemma carriesI:
  fixes f :: "'w xst \<Rightarrow> (go_error + 'a) \<times> 'w xst"
  assumes "fine I job J"
    and "\<And>s v w'. calm (ex s) \<Longrightarrow> job (xtid (ex s)) (wld s) = (Inr v, w') \<Longrightarrow> \<exists>s'. f s = (Inr v, s') \<and> calm (ex s') \<and> wld s' = w'"
  shows "carries I f J"
  unfolding carries_def
proof (rule succeedsI, elim conjE)
  fix s :: "'w xst" assume "calm (ex s)" "I (wld s)"
  then obtain v w' where "job (xtid (ex s)) (wld s) = (Inr v, w')" "J w'" using fineE[OF assms(1)] by metis
  with assms(2)[OF \<open>calm (ex s)\<close> this(1)] show "\<exists>v s'. f s = (Inr v, s') \<and> calm (ex s') \<and> J (wld s')" by blast
qed

lemma carries_jobs:
  assumes "fine I job J"
  shows "carries I (DoJob Background job) J" and "carries I (DoJobCtx Background tr job) J"
  by (rule carriesI[OF assms]; simp add: xops run_queue_def calm_def)+

lemma carries_variants:
  assumes "fine I job J"
  shows "carries I (DoCtx Background job) J" "carries I (DoCtxWait Background job) J" "carries I (Do job) J"
  using carries_jobs[OF assms] by (simp_all add: DoCtx_def DoCtxWait_eq Do_def)

lemma xrun_carries:
  assumes "carries I f J" "calm x" "I (world y)"
  obtains v x' n y' where "xrun f x y = (Inr v, x', n, y')" "calm x'" "J (world y')"
    "ctxs y' = ctxs y" "nctxs y' = nctxs y" "gdriver y' = gdriver y"
  by (rule succeedsE[OF assms(1)[unfolded carries_def], of "\<lparr>ex = x, clk = clock y, wld = world y, rel = 0\<rparr>"])
    (use assms(2,3) that in \<open>auto simp: xrun_def\<close>)

lemma xrun_Do_calm:
  "calm x \<Longrightarrow> job (xtid x) (world y) = (Inr v, w) \<Longrightarrow> \<exists>x' n y'. xrun (Do job) x y = (Inr v, x', n, y') \<and> calm x' \<and> world y' = w"
  by (simp add: xrun_def xops calm_def run_queue_def)

lemma xClose_calm: "calm x \<Longrightarrow> \<exists>x' n y'. xrun xClose x y = (None, x', n, y') \<and> world y' = world y \<and> ctxs y' = ctxs y"
  by (simp add: xrun_def xops calm_def run_queue_def)

subsection \<open>Contexts\<close>

definition ready :: "'w Driver \<Rightarrow> 'w Context \<Rightarrow> bool" where
  "ready D C = (driver C = Some D \<and> device C \<noteq> None \<and> (\<exists>x. exec C = Some x \<and> calm x) \<and> (\<forall>x. copyExec C = Some x \<longrightarrow> calm x) \<and>
     (\<forall>l \<in> set (waitLanes C). calm (lexec l)) \<and> \<not> closed C \<and> commandErr C = None)"

definition up :: "'w Driver \<Rightarrow> nat \<Rightarrow> ('w \<Rightarrow> bool) \<Rightarrow> 'w sys \<Rightarrow> bool" where
  "up D c I y = (ready D (ctxs y c) \<and> I (world y))"

lemma ready_updates:
  assumes "ready D C"
  shows "calm x \<Longrightarrow> ready D (C\<lparr>exec := Some x\<rparr>)" "calm x \<Longrightarrow> ready D (C\<lparr>copyExec := Some x\<rparr>)"
    "\<forall>l \<in> set ls. calm (lexec l) \<Longrightarrow> ready D (C\<lparr>waitLanes := ls\<rparr>)" "ready D (C\<lparr>syncActive := n\<rparr>)"
  using assms by (simp_all add: ready_def)

lemma readyD:
  assumes "ready D C"
  shows "driver C = Some D" "\<not> closed C" "commandErr C = None" "copyExec C = Some x \<Longrightarrow> calm x" "exec C = Some x \<Longrightarrow> calm x"
    "l \<in> set (waitLanes C) \<Longrightarrow> calm (lexec l)" "\<exists>x. exec C = Some x" "\<exists>d. device C = Some d"
  using assms by (auto simp: ready_def)

lemma upD: "up D c I y \<Longrightarrow> ready D (ctxs y c)" "up D c I y \<Longrightarrow> I (world y)"
  by (simp_all add: up_def)

lemma up_clock: "up D c I (y\<lparr>clock := n\<rparr>) = up D c I y"
  by (simp add: up_def)

lemma on_exec_up:
  assumes "up D c I y" "exec (ctxs y c) = Some x" "carries I f J"
  shows "\<exists>v y'. on_exec c x f y = (Inr v, y') \<and> up D c J y'"
proof -
  obtain v x' n y' where "xrun f x y = (Inr v, x', n, y')" "calm x'" "J (world y')" "ctxs y' = ctxs y"
    by (rule xrun_carries[OF assms(3) readyD(5)[OF upD(1)[OF assms(1)] assms(2)] upD(2)[OF assms(1)]])
  then show ?thesis using ready_updates(1)[OF upD(1)[OF assms(1)]] by (simp add: on_exec_def up_def)
qed

lemma newExecutor_up:
  assumes "up D c I y" "binds D I"
  shows "\<exists>x y'. newExecutor c y = (Inr x, y') \<and> calm x \<and> ctxs y' = ctxs y \<and> I (world y')"
proof -
  let ?y = "y\<lparr>nexttid := Suc (nexttid y)\<rparr>" and ?f = "Do (CtxSetCurrent (driver (ctxs y c)) (raw (ctxs y c)))"
  have f: "carries I ?f I"
    using assms(2) readyD(1)[OF upD(1)[OF assms(1)]] by (simp add: binds_def carries_variants(3))
  have "I (world ?y)" using upD(2)[OF assms(1)] by simp
  then obtain v x n y' where "xrun ?f (newExec (nexttid y)) ?y = (Inr v, x, n, y')" "calm x" "I (world y')" "ctxs y' = ctxs ?y"
    by (rule xrun_carries[OF f calm_new])
  then show ?thesis by (simp add: newExecutor_def startExecutor_def Let_def)
qed

lemma copyExecutor_up:
  assumes "up D c I y" "binds D I"
  shows "\<exists>x y'. copyExecutor c y = (Inr x, y') \<and> calm x \<and> up D c I y'"
proof (cases "copyExec (ctxs y c)")
  case None
  obtain x y1 where "newExecutor c y = (Inr x, y1)" "calm x" "ctxs y1 = ctxs y" "I (world y1)" using newExecutor_up[OF assms] by blast
  with None ready_updates(2)[OF upD(1)[OF assms(1)]] show ?thesis by (simp add: copyExecutor_def up_def)
next
  case (Some x)
  with assms(1) readyD(4)[OF upD(1)[OF assms(1)]] show ?thesis by (simp add: copyExecutor_def)
qed

lemma acquireWaitLane_up:
  assumes "up D c I y" "binds D I"
  shows "\<exists>i y'. acquireWaitLane c y = (Inr i, y') \<and> i < length (waitLanes (ctxs y' c)) \<and> up D c I y'"
proof -
  obtain oi lanes where re: "reuseWaitLane (waitLanes (ctxs y c)) = (oi, lanes)" by fastforce
  note r = upD(1)[OF assms(1)]
  show ?thesis
  proof (cases oi)
    case None
    obtain x y1 where "newExecutor c y = (Inr x, y1)" "calm x" "ctxs y1 = ctxs y" "I (world y1)" using newExecutor_up[OF assms] by blast
    with None re readyD(6)[OF r] show ?thesis
      by (auto simp: acquireWaitLane_def Let_def up_def intro!: ready_updates(3)[OF r])
  next
    case (Some j)
    with re reuseWaitLane_spec[of "waitLanes (ctxs y c)"] have j: "j < length (waitLanes (ctxs y c))"
      "lanes = (waitLanes (ctxs y c))[j := (waitLanes (ctxs y c) ! j)\<lparr>pending := pending (waitLanes (ctxs y c) ! j) + 1\<rparr>]" by auto
    have "ready D ((ctxs y c)\<lparr>waitLanes := lanes\<rparr>)"
      using readyD(6)[OF r] j by (intro ready_updates(3)[OF r]) (auto dest!: in_set_upd)
    with Some re j upD(2)[OF assms(1)] show ?thesis by (auto simp: acquireWaitLane_def up_def)
  qed
qed

lemma on_lane_up:
  assumes "up D c I y" "i < length (waitLanes (ctxs y c))" "carries I f J"
  shows "\<exists>v y'. on_lane c i f y = (Inr v, y') \<and> up D c J y' \<and> length (waitLanes (ctxs y' c)) = length (waitLanes (ctxs y c)) \<and>
    exec (ctxs y' c) = exec (ctxs y c)"
proof -
  let ?ls = "waitLanes (ctxs y c)"
  note r = upD(1)[OF assms(1)]
  obtain v x n y' where x: "xrun f (lexec (?ls ! i)) y = (Inr v, x, n, y')" "calm x" "J (world y')" "ctxs y' = ctxs y"
    by (rule xrun_carries[OF assms(3) readyD(6)[OF r nth_mem[OF assms(2)]] upD(2)[OF assms(1)]])
  have "ready D (releaseWaitLane i n ((ctxs y c)\<lparr>waitLanes := ?ls[i := (?ls ! i)\<lparr>lexec := x\<rparr>]\<rparr>))"
    unfolding releaseWaitLane_def using readyD(6)[OF r] x(2) assms(2)
    by (intro ready_updates(4) ready_updates(3)[OF ready_updates(3)[OF r]]) (auto dest!: in_set_upd)
  with x show ?thesis by (simp add: on_lane_def up_def Let_def) (simp add: releaseWaitLane_def)
qed

lemma barrierFrom_up:
  "up D c I y \<Longrightarrow> \<forall>i \<in> set is. i < length (waitLanes (ctxs y c)) \<Longrightarrow> \<exists>y'. barrierFrom c Background is y = (Inr (), y') \<and> up D c I y' \<and> exec (ctxs y' c) = exec (ctxs y c)"
proof (induction "is" arbitrary: y)
  case (Cons i "is")
  from on_lane_up[OF Cons.prems(1) _ carries_variants(1)[OF ret_fine], of i "()"] Cons.prems(2)
  obtain y1 where "on_lane c i (DoCtx Background (ret ())) y = (Inr (), y1)" "up D c I y1" "length (waitLanes (ctxs y1 c)) = length (waitLanes (ctxs y c))" "exec (ctxs y1 c) = exec (ctxs y c)"
    by auto
  with Cons.IH[of y1] Cons.prems(2) show ?case by simp
qed simp

lemma syncBarrier_up: "up D c I y \<Longrightarrow> \<exists>y'. syncBarrier c Background y = (Inr (), y') \<and> up D c I y' \<and> exec (ctxs y' c) = exec (ctxs y c)"
  using barrierFrom_up[of D c I y "[0..<length (waitLanes (ctxs y c))]"] by (simp add: syncBarrier_def)

subsection \<open>Dispatch\<close>

lemma bg_context [simp]: "ctx_or_background bg = Background"
  by (simp add: ctx_or_background_def)

lemma doJob_up:
  assumes "fine I job J"
  shows "succeeds (up D c I) (doJob (Some c) bg job) (\<lambda>_. up D c J)"
proof (rule succeedsI)
  fix y assume u: "up D c I y"
  note r = upD(1)[OF u]
  obtain x where "exec (ctxs y c) = Some x" using readyD(7)[OF r] by blast
  then show "\<exists>v y'. doJob (Some c) bg job y = (Inr v, y') \<and> up D c J y'"
    using on_exec_up[OF u _ carries_jobs(1)[OF assms]] readyD(2,3)[OF r] by (simp add: doJob_def)
qed

lemma doWith_up:
  assumes "fine I job J"
  shows "succeeds (up D c I) (doWith (Some c) bg job wt br) (\<lambda>_. up D c J)"
proof (rule succeedsI)
  fix y assume u: "up D c I y"
  note r = upD(1)[OF u]
  obtain x where x: "exec (ctxs y c) = Some x" using readyD(7)[OF r] by blast
  have u1: "up D c I (y\<lparr>clock := Suc (clock y)\<rparr>)" using u by (simp add: up_clock)
  obtain y1 where y1: "(if br then syncBarrier c Background (y\<lparr>clock := Suc (clock y)\<rparr>) else (Inr (), y\<lparr>clock := Suc (clock y)\<rparr>)) = (Inr (), y1)"
    "up D c I y1" "exec (ctxs y1 c) = Some x"
    using syncBarrier_up[OF u1] u1 x by (cases br) auto
  show "\<exists>v y'. doWith (Some c) bg job wt br y = (Inr v, y') \<and> up D c J y'"
    using on_exec_up[OF y1(2,3) carries_variants(2)[OF assms]] on_exec_up[OF u x carries_variants(1)[OF assms]] readyD(2,3)[OF r] x y1(1)
    by (simp add: doWith_def ctx_Err_def)
qed

lemma doCopyJob_up:
  assumes "fine I job J" "binds D I"
  shows "succeeds (up D c I) (doCopyJob (Some c) bg job) (\<lambda>_. up D c J)"
proof (rule succeedsI)
  fix y assume "up D c I y"
  then have u: "up D c I (y\<lparr>clock := Suc (clock y)\<rparr>)" by (simp add: up_clock)
  obtain x y1 where c: "copyExecutor c (y\<lparr>clock := Suc (clock y)\<rparr>) = (Inr x, y1)" "calm x" "up D c I y1" using copyExecutor_up[OF u assms(2)] by blast
  then obtain v x1 n y2 where "xrun (DoJob Background job) x y1 = (Inr v, x1, n, y2)" "calm x1" "J (world y2)" "ctxs y2 = ctxs y1"
    using xrun_carries[OF carries_jobs(1)[OF assms(1)] c(2) upD(2)[OF c(3)]] by metis
  moreover obtain z where "exec (ctxs y c) = Some z" using readyD(7)[OF upD(1)[OF u]] by auto
  ultimately show "\<exists>v y'. doCopyJob (Some c) bg job y = (Inr v, y') \<and> up D c J y'"
    using c(1) readyD(2,3)[OF upD(1)[OF u]] ready_updates(2)[OF upD(1)[OF c(3)]] by (simp add: doCopyJob_def ctx_Err_def on_copy_def up_def)
qed

lemma doJobCtx_up:
  assumes "fine I job J" "binds D I"
  shows "succeeds (up D c I) (doJobCtx (Some c) bg job) (\<lambda>_. up D c J)"
proof (rule succeedsI)
  fix y assume "up D c I y"
  then have u: "up D c I (y\<lparr>clock := Suc (clock y)\<rparr>)" by (simp add: up_clock)
  obtain i y1 where a: "acquireWaitLane c (y\<lparr>clock := Suc (clock y)\<rparr>) = (Inr i, y1)" "i < length (waitLanes (ctxs y1 c))" "up D c I y1"
    using acquireWaitLane_up[OF u assms(2)] by blast
  have "up D c I (trackWait c y1)" "i < length (waitLanes (ctxs (trackWait c y1) c))" using a(2,3) by (simp_all add: trackWait_def up_def ready_updates(4))
  note run = on_lane_up[OF this carries_jobs(2)[OF assms(1), where tr = True]]
  obtain z where "exec (ctxs y c) = Some z" using readyD(7)[OF upD(1)[OF u]] by auto
  with run a(1) readyD(2,3)[OF upD(1)[OF u]] show "\<exists>v y'. doJobCtx (Some c) bg job y = (Inr v, y') \<and> up D c J y'"
    by (auto simp: doJobCtx_def ctx_Err_def)
qed

lemma Primary_up:
  assumes "gdriver y = Some D" "I (world y)" "binds D I" "fine I (PrimaryCtxRetain (Some D) (handle d)) I"
  shows "\<exists>c y'. Primary (Some d) y = (Inr c, y') \<and> up D c I y'"
proof -
  let ?y = "y\<lparr>nexttid := Suc (nexttid y)\<rparr>"
  have "fine I (primary_job (Some D) (handle d)) I"
  proof (rule fineI)
    fix t w assume "I w"
    then obtain h w1 where h: "PrimaryCtxRetain (Some D) (handle d) t w = (Inr h, w1)" "I w1" using fineE[OF assms(4)] by metis
    then obtain u w2 where "CtxSetCurrent (Some D) h t w1 = (Inr u, w2)" "I w2" using assms(3) fineE unfolding binds_def by metis
    with h show "\<exists>v w'. primary_job (Some D) (handle d) t w = (Inr v, w') \<and> I w'" by (simp add: primary_job_def)
  qed
  moreover have "I (world ?y)" using assms(2) by simp
  ultimately obtain h x n y' where "xrun (Do (primary_job (Some D) (handle d))) (newExec (nexttid y)) ?y = (Inr h, x, n, y')" "calm x" "I (world y')"
    using xrun_carries[OF carries_variants(3) calm_new] by metis
  then show ?thesis using assms(1) by (simp add: Primary_def startExecutor_def up_def ready_def newContext_def)
qed

subsection \<open>\<^verbatim>\<open>Close\<close>\<close>

lemma closeExecutor_calm:
  assumes "calm x" "I (world y)" "binds D I"
  shows "\<exists>x' n y'. closeExecutor (Some D) x y = (None, x', n, y') \<and> ctxs y' = ctxs y \<and> I (world y')"
proof -
  have f: "carries I (Do (CtxSetCurrent (Some D) 0)) I" using assms(3) by (simp add: binds_def carries_variants(3))
  obtain v x1 n1 y1 where x1: "xrun (Do (CtxSetCurrent (Some D) 0)) x y = (Inr v, x1, n1, y1)" "calm x1" "I (world y1)" "ctxs y1 = ctxs y"
    using xrun_carries[OF f assms(1), where y = y] assms(2) by metis
  with xClose_calm[OF x1(2), of y1] show ?thesis by (auto simp: closeExecutor_def err_of_def errors_Join_def)
qed

lemma closeLanes_calm:
  assumes "binds D I"
  shows "\<forall>l \<in> set ls. calm (lexec l) \<Longrightarrow> driver (ctxs y c) = Some D \<Longrightarrow> I (world y) \<Longrightarrow>
    \<exists>n y'. closeLanes c ls None y = (None, y') \<and> ctxs y' c = (ctxs y c)\<lparr>syncActive := n\<rparr> \<and> I (world y')"
proof (induction ls arbitrary: y)
  case Nil
  then show ?case by (auto intro: exI[of _ "syncActive (ctxs y c)"])
next
  case (Cons l ls)
  from Cons.prems obtain x n y1 where x: "closeExecutor (Some D) (lexec l) y = (None, x, n, y1)" "ctxs y1 = ctxs y" "I (world y1)"
    using closeExecutor_calm[OF _ _ assms, of "lexec l" y] by auto
  let ?y = "setctx c ((ctxs y1 c)\<lparr>syncActive := syncActive (ctxs y1 c) - int n\<rparr>) y1"
  from Cons.IH[of ?y] Cons.prems x show ?case by (simp add: errors_Join_def Let_def)
qed

lemma close_job_fine:
  assumes "binds D I" "fine I (PrimaryCtxRelease (Some D) h) I" "I w"
  shows "\<exists>w'. close_job (Some D) h rawc t w = (Inr (None, None, None), w') \<and> I w'"
proof -
  obtain u w1 where w1: "CtxSetCurrent (Some D) 0 t w = (Inr u, w1)" "I w1" using assms(1,3) fineE unfolding binds_def by metis
  then obtain v w2 where "PrimaryCtxRelease (Some D) h t w1 = (Inr v, w2)" "I w2" using fineE[OF assms(2)] by metis
  with w1 show ?thesis by (simp add: close_job_def err_of_def)
qed

lemma closeCopyExecutor_up:
  assumes "up D c I y" "binds D I"
  shows "\<exists>y'. closeCopyExecutor c y = (None, y') \<and> ctxs y' c = (ctxs y c)\<lparr>copyExec := None\<rparr> \<and> I (world y')"
proof (cases "copyExec (ctxs y c)")
  case None
  then show ?thesis using upD(2)[OF assms(1)] by (simp add: closeCopyExecutor_def Let_def)
next
  case (Some x)
  have "I (world (setctx c ((ctxs y c)\<lparr>copyExec := None\<rparr>) y))" using upD(2)[OF assms(1)] by simp
  from closeExecutor_calm[OF readyD(4)[OF upD(1)[OF assms(1)] Some] this assms(2)]
  show ?thesis using Some readyD(1)[OF upD(1)[OF assms(1)]] by (auto simp: closeCopyExecutor_def Let_def)
qed

lemma closeWaitLanes_up:
  assumes "up D c I y" "binds D I"
  shows "\<exists>y'. closeWaitLanes c y = (None, y') \<and> up D c I y' \<and> device (ctxs y' c) = device (ctxs y c)"
proof -
  note r = upD(1)[OF assms(1)]
  let ?y = "setctx c ((ctxs y c)\<lparr>waitLanes := []\<rparr>) y"
  have "\<forall>l \<in> set (waitLanes (ctxs y c)). calm (lexec l)" "driver (ctxs ?y c) = Some D" "I (world ?y)"
    using readyD(1,6)[OF r] upD(2)[OF assms(1)] by auto
  from closeLanes_calm[OF assms(2) this] obtain n y' where y': "closeLanes c (waitLanes (ctxs y c)) None ?y = (None, y')"
    "ctxs y' c = (ctxs y c)\<lparr>waitLanes := [], syncActive := n\<rparr>" "I (world y')" by auto
  have "ready D ((ctxs y c)\<lparr>waitLanes := [], syncActive := n\<rparr>)" by (intro ready_updates(4) ready_updates(3)[OF r]) simp
  with y' show ?thesis by (simp add: closeWaitLanes_def Let_def up_def)
qed

lemma Context_Close_up:
  assumes "up D c I y" "binds D I" "\<And>h. fine I (PrimaryCtxRelease (Some D) h) I"
  shows "\<exists>y'. Context_Close (Some c) y = (Inr (), y')"
proof -
  note r = upD(1)[OF assms(1)]
  obtain d where d: "device (ctxs y c) = Some d" using readyD(8)[OF r] by blast
  obtain y1 where y1: "closeWaitLanes c y = (None, y1)" "up D c I y1" "device (ctxs y1 c) = Some d"
    using closeWaitLanes_up[OF assms(1,2)] d by auto
  obtain y2 where y2: "closeCopyExecutor c y1 = (None, y2)" "ctxs y2 c = (ctxs y1 c)\<lparr>copyExec := None\<rparr>" "I (world y2)"
    using closeCopyExecutor_up[OF y1(2) assms(2)] by blast
  obtain x where x: "exec (ctxs y2 c) = Some x" "calm x" "driver (ctxs y2 c) = Some D"
    using readyD(1,5,7)[OF upD(1)[OF y1(2)]] y2(2) by auto
  let ?j = "close_job (Some D) (handle d) (raw (ctxs y2 c))"
  obtain w where "?j (xtid x) (world y2) = (Inr (None, None, None), w)" using close_job_fine[OF assms(2,3) y2(3)] by blast
  from xrun_Do_calm[where job = ?j, OF x(2) this] obtain x1 n y3 where x1: "xrun (Do ?j) x y2 = (Inr (None, None, None), x1, n, y3)" "calm x1" by auto
  have nc: "exec (ctxs y c) \<noteq> None" "\<not> closed (ctxs y c)" "commandErr (ctxs y c) = None" using readyD(2,3,7)[OF r] by auto
  show ?thesis
    using d y1(1) y2(1) x(1,3) x1(1) xClose_calm[OF x1(2), of y3] nc
    by (auto simp: Context_Close_def recoverCommandExecutor_def finishClose_def Let_def of_err_def errors_Join_def Option.is_none_def)
qed

end
