(* ===== verification/VectorAddTotal.thy ===== *)
theory VectorAddTotal
  imports VectorAddProps Accepting
begin

section \<open>\<^verbatim>\<open>vector-add\<close> succeeds\<close>

text \<open>
  On a device that accepts the calls of the program, \<^verbatim>\<open>vector-add\<close> runs to its end. \<^verbatim>\<open>VectorAddProps\<close> says what every operation leaves if it succeeds;
  here each is shown to succeed, and the two are put together along the program.
\<close>

subsection \<open>The device\<close>

text \<open>
  The entry points the program uses, and a device that accepts them: \<open>room k w\<close> says that there is room for \<open>k\<close> more vectors in the state \<open>w\<close>. No other call takes room.
\<close>

definition vadd_symbols :: "string set" where
  "vadd_symbols = {''cuInit'', ''cuDeviceGetCount'', ''cuDeviceGet'', ''cuDeviceGetName'', ''cuDevicePrimaryCtxRetain'', ''cuCtxSetCurrent'',
     ''cuMemcpyHtoD_v2'', ''cuModuleLoadData'', ''cuModuleGetFunction'', ''cuLaunchKernel'', ''cuCtxSynchronize'', ''cuMemcpyDtoH_v2'',
     ''cuModuleUnload'', ''cuMemFree_v2'', ''cuDevicePrimaryCtxRelease_v2''}"

definition accepting_device :: "'w Driver \<Rightarrow> (nat \<Rightarrow> 'w \<Rightarrow> bool) \<Rightarrow> bool" where
  "accepting_device D room = ((\<forall>k. accepts D vadd_symbols (room k)) \<and>
     (\<forall>k t w. room (Suc k) w \<longrightarrow> bound D ''cuMemAlloc_v2'' \<and> (\<exists>r w'. invoke D (CuMemAlloc vadd_bytes) t w = ((CUDA_SUCCESS, r), w') \<and> room k w')) \<and>
     (\<forall>t w r w'. invoke D CuDeviceGetCount t w = ((CUDA_SUCCESS, r), w') \<longrightarrow> 0 < sint (out_int r)))"

lemma accepting_calls:
  assumes "accepting_device D room"
  shows "fine (room k) (required (Some D) (CuInit fl) (\<lambda>_. ())) (room k)"
    "fine (room k) (DeviceCount (Some D)) (room k)" "fine (room k) (GetDevice (Some D) n) (room k)" "fine (room k) (DeviceName (Some D) h) (room k)"
    "fine (room k) (PrimaryCtxRetain (Some D) h) (room k)" "fine (room k) (PrimaryCtxRelease (Some D) h) (room k)" "binds D (room k)"
    "fine (room k) (MemcpyHtoD (Some D) p hp z) (room k)" "fine (room k) (MemcpyDtoH (Some D) hp p z) (room k)"
    "fine (room k) (ModuleLoadData (Some D) img) (room k)" "fine (room k) (ModuleGetFunction (Some D) m nm) (room k)"
    "fine (room k) (ModuleUnload (Some D) m) (room k)" "fine (room k) (MemFree (Some D) p) (room k)"
    "fine (room k) (required (Some D) CuCtxSynchronize (\<lambda>_. ())) (room k)"
    "fine (room k) (required (Some D) (CuLaunchKernel fn gx gy gz bx by bz sh st ps) (\<lambda>_. ())) (room k)"
  using assms unfolding accepting_device_def binds_def wrapper_defs
  by (auto intro!: required_fine simp: vadd_symbols_def call_defs)

lemma MemAlloc_fine:
  assumes "accepting_device D room"
  shows "fine (room (Suc k)) (MemAlloc (Some D) vadd_bytes) (room k)"
proof (rule fineI)
  fix t w assume "room (Suc k) w"
  then obtain r w' where "bound D ''cuMemAlloc_v2''" "invoke D (CuMemAlloc vadd_bytes) t w = ((CUDA_SUCCESS, r), w')" "room k w'"
    using assms unfolding accepting_device_def by blast
  moreover have "csym (CuMemAlloc vadd_bytes) = ''cuMemAlloc_v2''" by (simp add: CuMemAlloc_def)
  ultimately show "\<exists>v w'. MemAlloc (Some D) vadd_bytes t w = (Inr v, w') \<and> room k w'"
    by (simp add: MemAlloc_def required_def checked_call_def check_def)
qed

subsection \<open>Triples for programs\<close>

text \<open>
  \<open>goes P f Q\<close>: an operation inside a program succeeds and prints nothing. \<open>works P body out Q\<close>: a part of \<^verbatim>\<open>run\<close> returns no error and prints the lines \<open>out\<close>.
\<close>

definition goes :: "('w rt \<Rightarrow> bool) \<Rightarrow> ('w prog \<Rightarrow> (go_error + 'a) \<times> 'w prog) \<Rightarrow> ('a \<Rightarrow> 'w rt \<Rightarrow> bool) \<Rightarrow> bool" where
  "goes P f Q = (\<forall>s. P (prt s) \<longrightarrow> (\<exists>v s'. f s = (Inr v, s') \<and> Q v (prt s') \<and> pstdout s' = pstdout s \<and> pstderr s' = pstderr s))"

definition works :: "('w rt \<Rightarrow> bool) \<Rightarrow> ('w, go_error option) act \<Rightarrow> string list \<Rightarrow> ('w rt \<Rightarrow> bool) \<Rightarrow> bool" where
  "works P body out Q = (\<forall>s. P (prt s) \<longrightarrow> (\<exists>s'. body s = (Ret None, s') \<and> Q (prt s') \<and> pstdout s' = pstdout s @ out \<and> pstderr s' = pstderr s))"

lemma goes_lib: "succeeds P f Q \<Longrightarrow> goes P (lib f) Q"
  by (fastforce simp: goes_def succeeds_def lib_def)

text \<open>What an operation leaves when it succeeds, added to its success.\<close>

lemma goes_yields:
  assumes "succeeds (\<lambda>s. A s \<and> B s) f Q" "yields B (lib f) R"
  shows "goes (\<lambda>s. A s \<and> B s) (lib f) (\<lambda>v s. Q v s \<and> R v s)"
  using goes_lib[OF assms(1)] assms(2) unfolding goes_def yields_def by blast

lemma works_attempt:
  fixes f :: "'w prog \<Rightarrow> (go_error + 'a) \<times> 'w prog"
  assumes "goes P f Q" "\<And>v. works (Q v) (k v) out R"
  shows "works P (attempt opn f k) out R"
  unfolding works_def
proof (intro allI impI)
  fix s :: "'w prog" assume "P (prt s)"
  then obtain v s1 where s1: "f s = (Inr v, s1)" "Q v (prt s1)" "pstdout s1 = pstdout s" "pstderr s1 = pstderr s"
    using assms(1) unfolding goes_def by blast
  then obtain s' where "k v s1 = (Ret None, s')" "R (prt s')" "pstdout s' = pstdout s1 @ out" "pstderr s' = pstderr s1"
    using assms(2)[of v] unfolding works_def by blast
  with s1 show "\<exists>s'. attempt opn f k s = (Ret None, s') \<and> R (prt s') \<and> pstdout s' = pstdout s @ out \<and> pstderr s' = pstderr s"
    by (simp add: attempt_def)
qed

lemma works_deferring:
  fixes body :: "('w, go_error option) act"
  assumes "works P body out R" "goes R cl (\<lambda>_. Q)"
  shows "works P (deferring (cleanup opn cl) None body) out Q"
  unfolding works_def
proof (intro allI impI)
  fix s :: "'w prog" assume "P (prt s)"
  then obtain s1 where s1: "body s = (Ret None, s1)" "R (prt s1)" "pstdout s1 = pstdout s @ out" "pstderr s1 = pstderr s"
    using assms(1) unfolding works_def by blast
  then obtain v s' where "cl s1 = (Inr v, s')" "Q (prt s')" "pstdout s' = pstdout s1" "pstderr s' = pstderr s1"
    using assms(2) unfolding goes_def by blast
  with s1 show "\<exists>s'. deferring (cleanup opn cl) None body s = (Ret None, s') \<and> Q (prt s') \<and> pstdout s' = pstdout s @ out \<and> pstderr s' = pstderr s"
    by (simp add: deferring_def cleanup_def addCleanupErr_def err_of_def)
qed

lemma works_ex: "(\<And>x. works (P x) body out Q) \<Longrightarrow> works (\<lambda>s. \<exists>x. P x s) body out Q"
  by (auto simp: works_def)

lemma works_weaken: "works P body out Q \<Longrightarrow> (\<And>s. P' s \<Longrightarrow> P s) \<Longrightarrow> works P' body out Q"
  by (simp add: works_def)

subsection \<open>Operations on an open context\<close>

text \<open>The context is up, and the buffers and modules made so far belong to it; some of them may be closed already.\<close>

definition owns :: "'w Driver \<Rightarrow> nat \<Rightarrow> ('w \<Rightarrow> bool) \<Rightarrow> nat list \<Rightarrow> nat list \<Rightarrow> 'w rt \<Rightarrow> bool" where
  "owns D c I bs ms s = (up D c I (sy s) \<and> (\<forall>i \<in> set bs. octx (buffers s i) = c) \<and> (\<forall>m \<in> set ms. octx (modules s m) = c))"

lemma owns_sy: "owns D c I bs ms s \<Longrightarrow> up D c J y \<Longrightarrow> owns D c J bs ms (s\<lparr>sy := y\<rparr>)"
  by (simp add: owns_def)

lemma owns_driver: "owns D c I bs ms s \<Longrightarrow> drv_of c s = Some D"
  by (auto simp: owns_def drv_of_def dest: upD(1) readyD(1))

lemma lift_owns:
  assumes "succeeds (up D c I) f (\<lambda>_. up D c J)" "owns D c I bs ms s"
  shows "\<exists>v y. lift_op f s = (Inr v, s\<lparr>sy := y\<rparr>) \<and> owns D c J bs ms (s\<lparr>sy := y\<rparr>)"
proof -
  have "up D c I (sy s)" using assms(2) by (simp add: owns_def)
  then obtain v y where "f (sy s) = (Inr v, y)" "up D c J y" by (rule succeedsE[OF assms(1)])
  then show ?thesis using owns_sy[OF assms(2)] by (auto simp: lift_op_def)
qed

lemma Buffer_Close_goes:
  assumes "accepting_device D room" "i \<in> set bs"
  shows "goes (owns D c (room k) bs ms) (lib (Buffer_Close (Some i))) (\<lambda>_. owns D c (room k) bs ms)"
proof (rule goes_lib, rule succeedsI)
  fix s assume o: "owns D c (room k) bs ms s"
  have c: "octx (buffers s i) = c" using o assms(2) by (simp add: owns_def)
  obtain v y where "lift_op (doBarrier (Some c) bg (MemFree (Some D) (bptr (buffers s i)))) s = (Inr v, s\<lparr>sy := y\<rparr>)"
    "owns D c (room k) bs ms (s\<lparr>sy := y\<rparr>)"
    using lift_owns[OF doWith_up[OF accepting_calls(13)[OF assms(1)], where wt = True and br = True] o] unfolding doBarrier_def by blast
  then show "\<exists>v s'. Buffer_Close (Some i) s = (Inr v, s') \<and> owns D c (room k) bs ms s'"
    using o c owns_driver[OF o] by (auto simp: Buffer_Close_def closeObject_def Let_def owns_def)
qed

lemma Module_Close_goes:
  assumes "accepting_device D room" "m \<in> set ms"
  shows "goes (owns D c (room k) bs ms) (lib (Module_Close (Some m))) (\<lambda>_. owns D c (room k) bs ms)"
proof (rule goes_lib, rule succeedsI)
  fix s assume o: "owns D c (room k) bs ms s"
  have c: "octx (modules s m) = c" using o assms(2) by (simp add: owns_def)
  obtain v y where "lift_op (doBarrier (Some c) bg (ModuleUnload (Some D) (mraw (modules s m)))) s = (Inr v, s\<lparr>sy := y\<rparr>)"
    "owns D c (room k) bs ms (s\<lparr>sy := y\<rparr>)"
    using lift_owns[OF doWith_up[OF accepting_calls(12)[OF assms(1)], where wt = True and br = True] o] unfolding doBarrier_def by blast
  then show "\<exists>v s'. Module_Close (Some m) s = (Inr v, s') \<and> owns D c (room k) bs ms s'"
    using o c owns_driver[OF o] by (auto simp: Module_Close_def closeObject_def Let_def owns_def)
qed

lemma Context_Close_goes:
  assumes "accepting_device D room"
  shows "goes (owns D c (room k) bs ms) (lib (lift_op (Context_Close (Some c)))) (\<lambda>_ _. True)"
proof (rule goes_lib, rule succeedsI)
  fix s assume "owns D c (room k) bs ms s"
  then have "up D c (room k) (sy s)" by (simp add: owns_def)
  from Context_Close_up[OF this accepting_calls(7)[OF assms] accepting_calls(6)[OF assms]]
  show "\<exists>v s'. lift_op (Context_Close (Some c)) s = (Inr v, s') \<and> True" by (auto simp: lift_op_def)
qed

lemma Alloc_succeeds:
  assumes "accepting_device D room"
  shows "succeeds (\<lambda>s. owns D c (room (Suc k)) bs ms s \<and> held D rd live c hs s) (Alloc Float32 (Some c) (of_nat vadd_n))
    (\<lambda>i. owns D c (room k) (i # bs) ms)"
proof (rule succeedsI, elim conjE)
  fix s assume o: "owns D c (room (Suc k)) bs ms s"
  have b: "byteSize Float32 (of_nat vadd_n) = Some vadd_bytes" by code_simp
  obtain p y where "lift_op (do_cmd (Some c) bg (MemAlloc (Some D) vadd_bytes)) s = (Inr p, s\<lparr>sy := y\<rparr>)" "owns D c (room k) bs ms (s\<lparr>sy := y\<rparr>)"
    using lift_owns[OF doWith_up[OF MemAlloc_fine[OF assms], where wt = False and br = False] o] unfolding do_cmd_def by blast
  then show "\<exists>i s'. Alloc Float32 (Some c) (of_nat vadd_n) s = (Inr i, s') \<and> owns D c (room k) (i # bs) ms s'"
    using owns_driver[OF o] by (auto simp: Alloc_def b createWith_def newObject_def owns_def mkBuffer_def)
qed

lemma held_buffer: "held D rd live c (pre @ (i, p, d) # post) s \<Longrightarrow> buffers s i = mkBuffer c Float32 (of_nat vadd_n) vadd_bytes p"
  by (simp add: held_def holding_def)

lemma f32_len: "length vs = vadd_n \<Longrightarrow> len (f32_slice vs) = 1024"
  by (simp add: len_def f32_slice_def vadd_n_def)

lemma CopyFrom_succeeds:
  assumes "accepting_device D room" "length vs = vadd_n"
  shows "succeeds (\<lambda>s. owns D c (room k) bs ms s \<and> held D rd live c (pre @ (i, p, d) # post) s) (Buffer_CopyFrom (Some i) bg (f32_slice vs))
    (\<lambda>_. owns D c (room k) bs ms)"
proof (rule succeedsI, elim conjE)
  fix s assume o: "owns D c (room k) bs ms s" and h: "held D rd live c (pre @ (i, p, d) # post) s"
  obtain v y where "lift_op (doCopyJob (Some c) bg (no_bytes (MemcpyHtoD (Some D) p (HGo (slice_bytes (f32_slice vs))) vadd_bytes))) s = (Inr v, s\<lparr>sy := y\<rparr>)"
    "owns D c (room k) bs ms (s\<lparr>sy := y\<rparr>)"
    using lift_owns[OF doCopyJob_up[OF no_bytes_fine[OF accepting_calls(8)[OF assms(1)]] accepting_calls(7)[OF assms(1)]] o] by blast
  then show "\<exists>v s'. Buffer_CopyFrom (Some i) bg (f32_slice vs) s = (Inr v, s') \<and> owns D c (room k) bs ms s'"
    using owns_driver[OF o] f32_len[OF assms(2)]
    by (simp add: Buffer_CopyFrom_def held_buffer[OF h] mkBuffer_def vadd_n_def Let_def pooled_copies lift_op_def drv_of_def no_value_def split: prod.splits)
qed

lemma CopyTo_succeeds:
  assumes "accepting_device D room" "length vs = vadd_n"
  shows "succeeds (\<lambda>s. owns D c (room k) bs ms s \<and> held D rd live c (pre @ (i, p, d) # post) s) (Buffer_CopyTo (Some i) bg (f32_slice vs))
    (\<lambda>_. owns D c (room k) bs ms)"
proof (rule succeedsI, elim conjE)
  fix s assume o: "owns D c (room k) bs ms s" and h: "held D rd live c (pre @ (i, p, d) # post) s"
  obtain v y where "lift_op (doCopyJob (Some c) bg (MemcpyDtoH (Some D) (HGo (slice_bytes (f32_slice vs))) p vadd_bytes)) s = (Inr v, s\<lparr>sy := y\<rparr>)"
    "owns D c (room k) bs ms (s\<lparr>sy := y\<rparr>)"
    using lift_owns[OF doCopyJob_up[OF accepting_calls(9)[OF assms(1)] accepting_calls(7)[OF assms(1)]] o] by blast
  then show "\<exists>v s'. Buffer_CopyTo (Some i) bg (f32_slice vs) s = (Inr v, s') \<and> owns D c (room k) bs ms s'"
    using owns_driver[OF o] f32_len[OF assms(2)]
    by (simp add: Buffer_CopyTo_def held_buffer[OF h] mkBuffer_def vadd_n_def Let_def pooled_copies lift_op_def drv_of_def split: prod.splits)
qed

lemma LoadModule_succeeds:
  assumes "accepting_device D room" "img \<noteq> []"
  shows "succeeds (\<lambda>s. owns D c (room k) bs ms s \<and> held D rd live c hs s) (LoadModule (Some c) img) (\<lambda>m. owns D c (room k) bs (m # ms))"
proof (rule succeedsI, elim conjE)
  fix s assume o: "owns D c (room k) bs ms s"
  obtain v y where "lift_op (doWait (Some c) bg (ModuleLoadData (Some D) (moduleImage img))) s = (Inr v, s\<lparr>sy := y\<rparr>)"
    "owns D c (room k) bs ms (s\<lparr>sy := y\<rparr>)"
    using lift_owns[OF doWith_up[OF accepting_calls(10)[OF assms(1)], where wt = True and br = False] o] unfolding doWait_def by blast
  then show "\<exists>m s'. LoadModule (Some c) img s = (Inr m, s') \<and> owns D c (room k) bs (m # ms) s'"
    using owns_driver[OF o] assms(2) by (auto simp: LoadModule_def createWith_def newObject_def owns_def)
qed

lemma Function_succeeds:
  assumes "accepting_device D room"
  shows "succeeds (\<lambda>s. owns D c (room k) bs ms s \<and> held D rd live c hs s \<and> loaded ismod c m s) (Module_Function (Some m) (string_bytes ''vector_add''))
    (\<lambda>_. owns D c (room k) bs ms)"
proof (rule succeedsI, elim conjE)
  let ?nm = "string_bytes ''vector_add''"
  fix s assume o: "owns D c (room k) bs ms s" and l: "loaded ismod c m s"
  have nm: "?nm \<noteq> []" "0 \<notin> set ?nm" by code_simp+
  obtain h where h: "modules s m = \<lparr>octx = c, oclosed = False, mraw = h\<rparr>" using l by (auto simp: loaded_def)
  obtain v y where "lift_op (doWait (Some c) bg (ModuleGetFunction (Some D) h (nameBuf ?nm))) s = (Inr v, s\<lparr>sy := y\<rparr>)"
    "owns D c (room k) bs ms (s\<lparr>sy := y\<rparr>)"
    using lift_owns[OF doWith_up[OF accepting_calls(11)[OF assms(1)], where wt = True and br = False] o] unfolding doWait_def by blast
  then show "\<exists>v s'. Module_Function (Some m) ?nm s = (Inr v, s') \<and> owns D c (room k) bs ms s'"
    using owns_driver[OF o] nm by (simp add: Module_Function_def h Let_def)
qed

lemma Synchronize_succeeds:
  assumes "accepting_device D room"
  shows "succeeds (\<lambda>s. owns D c (room k) bs ms s \<and> held D rd live c hs s) (lift_op (Context_Synchronize (Some c) bg)) (\<lambda>_. owns D c (room k) bs ms)"
proof (rule succeedsI, elim conjE)
  fix s assume o: "owns D c (room k) bs ms s"
  have run: "syncOp_Run (newSyncOp (driver (ctxs (sy s) c)) opCtxSync 0 0 0) = required (Some D) CuCtxSynchronize (\<lambda>_. ())"
    using owns_driver[OF o] by (simp add: drv_of_def syncOp_Run_def newSyncOp_def syncOpKind_defs CtxSynchronize_def)
  show "\<exists>v s'. lift_op (Context_Synchronize (Some c) bg) s = (Inr v, s') \<and> owns D c (room k) bs ms s'"
    using lift_owns[OF doJobCtx_up[OF accepting_calls(14)[OF assms] accepting_calls(7)[OF assms]] o]
    by (auto simp: lift_op_def Context_Synchronize_def run split: prod.splits)
qed

lemma Launch_succeeds:
  assumes "accepting_device D room"
  shows "succeeds (\<lambda>s. owns D c (room k) bs ms s \<and> held D rd live c [(z, r, dr), (j, q, dq), (i, p, dp)] s \<and> loaded ismod c m s \<and> kernel_of iskern m fn)
    (unlocked (Launch (Some fn) bg (LaunchConfig1D (of_nat vadd_n) 256) (vadd_args i j z))) (\<lambda>_. owns D c (room k) bs ms)"
proof (rule succeedsI, elim conjE)
  fix s assume o: "owns D c (room k) bs ms s"
    and h: "held D rd live c [(z, r, dr), (j, q, dq), (i, p, dp)] s" "loaded ismod c m s" "kernel_of iskern m fn"
  from lift_owns[OF doJob_up[OF accepting_calls(15)[OF assms]] o]
  show "\<exists>v s'. unlocked (Launch (Some fn) bg (LaunchConfig1D (of_nat vadd_n) 256) (vadd_args i j z)) s = (Inr v, s') \<and> owns D c (room k) bs ms s'"
    unfolding Launch_calls[OF conjI[OF h(1) conjI[OF h(2,3)]]] vadd_call_def by blast
qed

subsection \<open>What it prints\<close>

lemma bit_length_num: "bit_length (numeral n) = Suc (bit_length (numeral n div 2))" "bit_length 0 = 0" "bit_length (Suc 0) = 1"
  by (subst bit_length.simps, simp)+

lemmas round_defs = f32_of_scaled_def f32_round_def floor_log2_def bit_length_num scaled_def div_even_def f32_signed_def f32_Inf_def
lemmas parts_defs = f32_parts_def is_NaN_def is_Inf_def

lemma shortest_num:
  "shortest (numeral n) v a b k = (case ten_scaled (- k) a b of (a', b') \<Rightarrow>
     (let d = a' div b'; near = div_even a' b'; far = (if near = d then d + 1 else d) in
      if reads_back v near k then (near, k)
      else if reads_back v far k then (far, k)
      else shortest (pred_numeral n) v a b (k - 1)))"
  by (simp add: numeral_eq_Suc)

lemma lead_digit_skip: "a < b * 10 ^ Suc k \<Longrightarrow> lead_digit (n + j) (int (k + j)) a b = lead_digit n (int k) a b"
proof (induction j)
  case (Suc j)
  have "b * 10 ^ Suc k \<le> b * 10 ^ (k + Suc j)" by (intro mult_le_mono2 power_increasing) auto
  with Suc.prems have "a < b * 10 ^ (k + Suc j)" by linarith
  moreover have "nat (int (k + Suc j)) = k + Suc j" by simp
  ultimately have "lead_digit (n + Suc j) (int (k + Suc j)) a b = lead_digit (n + j) (int (k + Suc j) - 1) a b"
    by (simp add: ten_scaled_def del: of_nat_Suc)
  moreover have "int (k + Suc j) - 1 = int (k + j)" by simp
  ultimately show ?case using Suc by simp
qed simp

text \<open>The last element is 1023 plus 2046; its shortest decimal is found with four digits.\<close>

lemma last_sum: "f32_add (f32_of_int 1023) (f32_mul (f32_of_int 1023) f32_2) = 0x453FD000"
proof -
  have a: "f32_of_int 1023 = 0x447FC000" by (simp add: f32_of_int_def round_defs)
  have p: "f32_parts 0x447FC000 = Some (False, 16760832, -14)" "f32_parts f32_2 = Some (False, 8388608, -22)"
    "\<not> is_NaN 0x447FC000" "\<not> is_Inf 0x447FC000" "\<not> is_NaN f32_2" "\<not> is_Inf f32_2" by (simp_all add: parts_defs f32_2_def)
  have "f32_of_scaled False (16760832 * 8388608) (- 36) = 0x44FFC000"
    by (simp add: f32_of_scaled_def scaled_def) (simp add: round_defs)
  then have "f32_mul 0x447FC000 f32_2 = 0x44FFC000" using p by (simp add: f32_mul_def)
  then show ?thesis by (simp add: a f32_add_def parts_defs round_defs)
qed

lemma reads_back_int: "reads_back v d (int k) = (f32_round False (d * 10 ^ k) 1 = v)"
  by (simp add: reads_back_def ten_scaled_def)

lemma reads_back_3069:
  "\<not> reads_back 0x453FD000 3 3" "\<not> reads_back 0x453FD000 4 3" "\<not> reads_back 0x453FD000 31 2" "\<not> reads_back 0x453FD000 30 2"
  "\<not> reads_back 0x453FD000 307 1" "\<not> reads_back 0x453FD000 306 1" "reads_back 0x453FD000 3069 0"
proof -
  have r: "f32_round False 3000 1 = 0x453B8000" "f32_round False 4000 1 = 0x457A0000" "f32_round False 3100 1 = 0x4541C000"
    "f32_round False 3070 1 = 0x453FE000" "f32_round False 3060 1 = 0x453F4000" "f32_round False 3069 1 = 0x453FD000"
    by (simp_all add: f32_round_def round_defs)
  show "\<not> reads_back 0x453FD000 3 3" "\<not> reads_back 0x453FD000 4 3" "\<not> reads_back 0x453FD000 31 2" "\<not> reads_back 0x453FD000 30 2"
    "\<not> reads_back 0x453FD000 307 1" "\<not> reads_back 0x453FD000 306 1" "reads_back 0x453FD000 3069 0"
    using reads_back_int[of _ 3 3] reads_back_int[of _ 4 3] reads_back_int[of _ 31 2] reads_back_int[of _ 30 2] reads_back_int[of _ 307 1]
      reads_back_int[of _ 306 1] reads_back_int[of _ 3069 0] r by simp_all
qed

lemma show_last: "f32_show 0x453FD000 = ''3069''"
proof -
  have l: "lead_digit 90 39 12570624 4096 = 3"
    using lead_digit_skip[of 12570624 4096 3 54 36] lead_digit.simps(2)[of 53 3 12570624 4096] by (simp add: ten_scaled_def)
  have s: "shortest 9 0x453FD000 12570624 4096 3 = (3069, 0)"
    by (simp add: shortest_num ten_scaled_def div_even_def reads_back_3069)
  have d: "show_nat 3069 = ''3069''" by code_simp
  show ?thesis by (simp add: f32_show_def parts_defs scaled_def l s d) (simp add: fmt_digits_def numeral_eq_Suc)
qed

lemma show_first: "f32_show (f32_add (f32_of_int 0) (f32_mul (f32_of_int 0) f32_2)) = ''0''"
proof -
  have "f32_of_int 0 = 0" by (simp add: f32_of_int_def round_defs)
  moreover have "f32_mul 0 f32_2 = 0" by (simp add: f32_mul_def parts_defs f32_2_def round_defs)
  moreover have "f32_add 0 0 = 0" by (simp add: f32_add_def parts_defs round_defs)
  ultimately show ?thesis by (simp add: f32_show_def parts_defs)
qed

definition vadd_line :: string where
  "vadd_line = ''ok n=1024, c[0]=0, c[1023]=3069'' @ newline"

lemma check_works:
  assumes "sums vadd_n (slice_bytes (f32_slice vadd_aHost)) (slice_bytes (f32_slice vadd_bHost)) zs"
  shows "works P (vadd_check (f32_values vadd_n zs)) [vadd_line] P"
proof -
  have n: "show_nat 1024 = ''1024''" "show_nat 1023 = ''1023''" by code_simp+
  have v: "f32_values vadd_n zs ! i = f32_add (f32_of_int (int i)) (f32_mul (f32_of_int (int i)) f32_2)" if "i < vadd_n" for i
    using that by (simp add: sums_check(1)[OF assms]) (simp add: vadd_aHost_def vadd_bHost_def)
  have "f32_show (f32_values vadd_n zs ! 0) = ''0''" "f32_show (f32_values vadd_n zs ! (vadd_n - 1)) = ''3069''"
    using v[of 0] v[of 1023] show_first show_last last_sum by (simp_all add: vadd_n_def)
  then have "''ok n='' @ show_nat vadd_n @ '', c[0]='' @ f32_show (f32_values vadd_n zs ! 0) @ '', c['' @ show_nat (vadd_n - 1) @ '']='' @
      f32_show (f32_values vadd_n zs ! (vadd_n - 1)) @ newline = vadd_line"
    by (simp add: vadd_n_def n vadd_line_def)
  then show ?thesis unfolding works_def vadd_check_def sums_check(2)[OF assms] by (simp add: Printf_def ret_act_def)
qed

subsection \<open>The run\<close>

definition total_device :: "'w Driver \<Rightarrow> ('w \<Rightarrow> u64 \<Rightarrow> u64 \<Rightarrow> u8 list) \<Rightarrow> ('w \<Rightarrow> (u64 \<times> u64) set) \<Rightarrow> u8 list \<Rightarrow>
    (u64 \<Rightarrow> bool) \<Rightarrow> (u64 \<Rightarrow> bool) \<Rightarrow> (nat \<Rightarrow> 'w \<Rightarrow> bool) \<Rightarrow> bool" where
  "total_device D rd live ptx ismod iskern room = (vector_device D rd live ptx ismod iskern \<and> accepting_device D room \<and> ptx \<noteq> [])"

lemma total_deviceD:
  assumes "total_device D rd live ptx ismod iskern room"
  shows "accepting_device D room" "ptx \<noteq> []" "device_memory D rd" "allocates D rd live" "writes_only D rd live" "leaves_memory D rd live"
    "runs_kernel D rd live ptx ismod iskern"
  using assms by (simp_all add: total_device_def vector_device_def)

lemma launch_works:
  assumes "total_device D rd live ptx ismod iskern room" "xs = slice_bytes (f32_slice vadd_aHost)" "ys = slice_bytes (f32_slice vadd_bHost)"
  shows "works (\<lambda>s. owns D ctx (room k) bs ms s \<and> held D rd live ctx [(c, r, None), (b, q, Some ys), (a, p, Some xs)] s \<and> loaded ismod ctx m s \<and> kernel_of iskern m fn)
    (vadd_launch ctx a b c fn) [vadd_line] (owns D ctx (room k) bs ms)"
proof -
  note dev = total_deviceD[OF assms(1)]
  let ?copy = "attempt ''copy result'' (lib (Buffer_CopyTo (Some c) bg (f32_slice (replicate vadd_n 0)))) (\<lambda>out. vadd_check (f32_values vadd_n out))"
  have copy: "works (\<lambda>s. owns D ctx (room k) bs ms s \<and> held D rd live ctx [(c, r, Some zs)] s) ?copy [vadd_line] (owns D ctx (room k) bs ms)"
    if "sums vadd_n xs ys zs" for zs
  proof -
    have "goes (\<lambda>s. owns D ctx (room k) bs ms s \<and> held D rd live ctx ([] @ (c, r, Some zs) # []) s)
        (lib (Buffer_CopyTo (Some c) bg (f32_slice (replicate vadd_n 0)))) (\<lambda>out s. owns D ctx (room k) bs ms s \<and> out = zs)"
      by (rule goes_yields[OF CopyTo_succeeds[OF dev(1)] CopyTo_yields[OF dev(3,6)]]) simp_all
    moreover have "works (\<lambda>s. owns D ctx (room k) bs ms s \<and> out = zs) (vadd_check (f32_values vadd_n out)) [vadd_line] (owns D ctx (room k) bs ms)" for out
      using check_works[OF that[unfolded assms(2,3)], of "owns D ctx (room k) bs ms"] by (auto simp: works_def)
    ultimately show ?thesis by (intro works_attempt) simp_all
  qed
  have "works (\<lambda>s. owns D ctx (room k) bs ms s \<and> (\<exists>zs. sums vadd_n xs ys zs \<and> held D rd live ctx [(c, r, Some zs)] s))
     (attempt ''synchronize'' (lib (lift_op (Context_Synchronize (Some ctx) bg))) (\<lambda>_. ?copy)) [vadd_line] (owns D ctx (room k) bs ms)"
  proof -
    have "works (\<lambda>s. owns D ctx (room k) bs ms s \<and> held D rd live ctx [(c, r, Some zs)] s)
       (attempt ''synchronize'' (lib (lift_op (Context_Synchronize (Some ctx) bg))) (\<lambda>_. ?copy)) [vadd_line] (owns D ctx (room k) bs ms)"
      if "sums vadd_n xs ys zs" for zs
      by (rule works_attempt[OF goes_yields[OF Synchronize_succeeds[OF dev(1)] Synchronize_yields[OF dev(6)]] copy[OF that]])
    then show ?thesis by (auto simp: works_def)
  qed
  then show ?thesis
    unfolding vadd_launch_def by (rule works_attempt[OF goes_yields[OF Launch_succeeds[OF dev(1)] Launch_yields[OF dev(6,7)]]])
qed

lemma compute_works:
  assumes "total_device D rd live (vectorAddPTX e) ismod iskern room"
  shows "works (\<lambda>s. owns D ctx (room k) bs [] s \<and> held D rd live ctx [(c, r, None), (b, q, None), (a, p, None)] s)
    (vadd_compute e ctx a b c) [vadd_line] (owns D ctx (room k) bs [])"
proof -
  note dev = total_deviceD[OF assms]
  let ?xs = "slice_bytes (f32_slice vadd_aHost)" and ?ys = "slice_bytes (f32_slice vadd_bHost)" and ?o = "owns D ctx (room k) bs []"
  have copy: "goes (\<lambda>s. ?o s \<and> held D rd live ctx (pre @ (i, x, d) # post) s) (lib (Buffer_CopyFrom (Some i) bg (f32_slice vs)))
      (\<lambda>_ s. ?o s \<and> held D rd live ctx (pre @ (i, x, Some (slice_bytes (f32_slice vs))) # post) s)" if "length vs = vadd_n" for vs pre i x d post
    by (rule goes_yields[OF CopyFrom_succeeds[OF dev(1) that] CopyFrom_yields[OF dev(3,5,6) that]])
  have A: "goes (\<lambda>s. ?o s \<and> held D rd live ctx [(c, r, None), (b, q, None), (a, p, None)] s) (lib (Buffer_CopyFrom (Some a) bg (f32_slice vadd_aHost)))
      (\<lambda>_ s. ?o s \<and> held D rd live ctx [(c, r, None), (b, q, None), (a, p, Some ?xs)] s)"
    using copy[of vadd_aHost "[(c, r, None), (b, q, None)]" a p None "[]"] by simp
  have B: "goes (\<lambda>s. ?o s \<and> held D rd live ctx [(c, r, None), (b, q, None), (a, p, Some ?xs)] s) (lib (Buffer_CopyFrom (Some b) bg (f32_slice vadd_bHost)))
      (\<lambda>_ s. ?o s \<and> held D rd live ctx [(c, r, None), (b, q, Some ?ys), (a, p, Some ?xs)] s)"
    using copy[of vadd_bHost "[(c, r, None)]" b q None "[(a, p, Some ?xs)]"] by simp
  have M: "goes (owns D ctx (room k) bs [m]) (lib (Module_Close (Some m))) (\<lambda>_. ?o)" for m
    using Module_Close_goes[OF dev(1), of m "[m]" ctx k bs] by (fastforce simp: goes_def owns_def)
  show ?thesis
    unfolding vadd_compute_def
    by (intro works_attempt[OF A] works_attempt[OF B] works_attempt[OF goes_yields[OF LoadModule_succeeds[OF dev(1,2)] LoadModule_yields[OF dev(6,7)]]]
        works_deferring[OF _ M] works_attempt[OF goes_yields[OF Function_succeeds[OF dev(1)] Function_yields[OF dev(6,7)]]] launch_works[OF assms] refl)
qed

lemma buffers_work:
  assumes "total_device D rd live (vectorAddPTX e) ismod iskern room"
  shows "works (\<lambda>s. owns D ctx (room 3) [] [] s \<and> held D rd live ctx [] s) (vadd_buffers e ctx) [vadd_line] (owns D ctx (room 0) [] [])"
proof -
  note dev = total_deviceD[OF assms]
  have al: "goes (\<lambda>s. owns D ctx (room (Suc k)) bs [] s \<and> held D rd live ctx hs s) (lib (Alloc Float32 (Some ctx) (of_nat vadd_n)))
      (\<lambda>i s. owns D ctx (room k) (i # bs) [] s \<and> (\<exists>p. held D rd live ctx ((i, p, None) # hs) s))" for k bs hs
    by (rule goes_yields[OF Alloc_succeeds[OF dev(1)] Alloc_yields[OF dev(4,6)]])
  have cl: "goes (owns D ctx (room k) (i # bs) []) (lib (Buffer_Close (Some i))) (\<lambda>_. owns D ctx (room k) bs [])" for i k bs
    using Buffer_Close_goes[OF dev(1), of i "i # bs" ctx k "[]"] by (fastforce simp: goes_def owns_def)
  have ex: "works (\<lambda>s. P s \<and> (\<exists>p. H p s)) body out Q" if "\<And>p. works (\<lambda>s. P s \<and> H p s) body out Q" for P H body out Q
    using that by (auto simp: works_def)
  show ?thesis
    unfolding vadd_buffers_def numeral_3_eq_3
    by (intro works_attempt[OF al] ex works_deferring[OF _ cl] compute_works[OF assms])
qed

lemma works_Printf:
  fixes k :: "('w, go_error option) act"
  assumes "works P k out Q"
  shows "works P (Printf msg k) (msg # out) Q"
  unfolding works_def Printf_def
proof (intro allI impI)
  fix s :: "'w prog" assume "P (prt s)"
  with assms[unfolded works_def, rule_format, of "s\<lparr>pstdout := pstdout s @ [msg]\<rparr>"]
  show "\<exists>s'. k (s\<lparr>pstdout := pstdout s @ [msg]\<rparr>) = (Ret None, s') \<and> Q (prt s') \<and> pstdout s' = pstdout s @ msg # out \<and> pstderr s' = pstderr s"
    by simp
qed

text \<open>Before there is a context.\<close>

definition started :: "'w Driver \<Rightarrow> ('w \<Rightarrow> bool) \<Rightarrow> 'w rt \<Rightarrow> bool" where
  "started D I s = (gdriver (sy s) = Some D \<and> I (world (sy s)))"

lemma caller_fine:
  assumes "fine I job I" "I (world y)"
  shows "\<exists>v w. job t (world y) = (Inr v, w) \<and> on_caller t job y = (Inr v, y\<lparr>world := w\<rparr>) \<and> I w"
proof -
  obtain v w where "job t (world y) = (Inr v, w)" "I w" using fineE[OF assms] by metis
  then show ?thesis by (simp add: on_caller_def)
qed

lemma GetDevice_goes:
  assumes "accepting_device D room"
  shows "goes (started D (room k)) (lib (lift_op (cuda_GetDevice t 0))) (\<lambda>_. started D (room k))"
proof (rule goes_lib, rule succeedsI)
  fix s assume st: "started D (room k) s"
  obtain n w where n: "DeviceCount (Some D) t (world (sy s)) = (Inr n, w)" "on_caller t (DeviceCount (Some D)) (sy s) = (Inr n, (sy s)\<lparr>world := w\<rparr>)" "room k w"
    using caller_fine[OF accepting_calls(2)[OF assms], where y = "sy s" and t = t] st unfolding started_def by blast
  have "0 < sint n" using required_ran[OF n(1)[unfolded DeviceCount_def]] assms unfolding accepting_device_def by blast
  moreover obtain h w' where "on_caller t (GetDevice (Some D) 0) ((sy s)\<lparr>world := w\<rparr>) = (Inr h, (sy s)\<lparr>world := w'\<rparr>)" "room k w'"
    using caller_fine[OF accepting_calls(3)[OF assms, of k 0], where y = "(sy s)\<lparr>world := w\<rparr>" and t = t] n(3) by auto
  ultimately show "\<exists>v s'. lift_op (cuda_GetDevice t 0) s = (Inr v, s') \<and> started D (room k) s'"
    using st n(2) by (simp add: started_def lift_op_def cuda_GetDevice_def)
qed

lemma Name_goes:
  assumes "accepting_device D room"
  shows "goes (started D (room k)) (lib (lift_op (Device_Name t (Some d)))) (\<lambda>_. started D (room k))"
proof (rule goes_lib, rule succeedsI)
  fix s assume st: "started D (room k) s"
  obtain n w where "on_caller t (DeviceName (Some D) (handle d)) (sy s) = (Inr n, (sy s)\<lparr>world := w\<rparr>)" "room k w"
    using caller_fine[OF accepting_calls(4)[OF assms], where y = "sy s" and t = t] st unfolding started_def by blast
  then show "\<exists>v s'. lift_op (Device_Name t (Some d)) s = (Inr v, s') \<and> started D (room k) s'"
    using st by (simp add: started_def lift_op_def Device_Name_def deviceQuery_def)
qed

lemma Primary_goes:
  assumes "accepting_device D room"
  shows "goes (started D (room k)) (lib (lift_op (Primary (Some d)))) (\<lambda>c s. owns D c (room k) [] [] s \<and> held D rd live c [] s)"
proof -
  have "succeeds (\<lambda>s. started D (room k) s \<and> on_driver D s) (lift_op (Primary (Some d))) (\<lambda>c. owns D c (room k) [] [])"
  proof (rule succeedsI, elim conjE)
    fix s assume "started D (room k) s"
    then have "gdriver (sy s) = Some D" "room k (world (sy s))" by (simp_all add: started_def)
    from Primary_up[OF this accepting_calls(7,5)[OF assms], of d]
    show "\<exists>c s'. lift_op (Primary (Some d)) s = (Inr c, s') \<and> owns D c (room k) [] [] s'" by (auto simp: lift_op_def owns_def)
  qed
  from goes_yields[OF this Primary_yields] show ?thesis by (simp add: goes_def started_def on_driver_def)
qed

lemma init_goes:
  fixes s :: "'w prog"
  assumes "accepting_device D room" "eload e (plibs s) = (Inr d, libs)" "ddrv d = D" "gdriver (sy (prt s)) = None" "room k (world (sy (prt s)))"
  shows "\<exists>s'. init e s = (Inr (), s') \<and> started D (room k) (prt s') \<and> pstdout s' = pstdout s \<and> pstderr s' = pstderr s"
proof -
  obtain w where "Init (Some D) 0 (emain e) (world (sy (prt s))) = (Inr (), w)" "room k w"
    using fineE[OF accepting_calls(1)[OF assms(1)] assms(5), folded Init_def] by (metis old.unit.exhaust)
  then show ?thesis using assms(2-4) by (simp add: init_def cuda_Init_def started_def)
qed

text \<open>
  C15. \<^verbatim>\<open>vector-add\<close> succeeds: on a device with memory, room for three vectors and the kernel of \<^verbatim>\<open>vector_add.cu\<close>, which accepts the calls the program makes, the program ends normally. It
  prints the name of the device and the line \<^verbatim>\<open>ok n=1024, c[0]=0, c[1023]=3069\<close>, and nothing to standard error.
\<close>

theorem vector_add_succeeds:
  assumes "total_device D rd live (vectorAddPTX e) ismod iskern room"
    and "eload e (plibs s) = (Inr d, libs)" "ddrv d = D" "gdriver (sy (prt s)) = None" "room 3 (world (sy (prt s)))"
  shows "\<exists>name s'. vadd_main e s = (Ret (), s') \<and> pstdout s' = pstdout s @ [''device: '' @ name @ newline, vadd_line] \<and> pstderr s' = pstderr s"
proof -
  note dev = total_deviceD(1)[OF assms(1)]
  let ?rest = "\<lambda>dv. attempt ''primary context'' (lib (lift_op (Primary (Some dv)))) (\<lambda>ctx.
     deferring (cleanup ''context close'' (lib (lift_op (Context_Close (Some ctx))))) None (vadd_buffers e ctx))"
  have rest: "works (started D (room 3)) (?rest dv) [vadd_line] (\<lambda>_. True)" for dv
    by (intro works_attempt[OF Primary_goes[OF dev, where rd = rd and live = live]] works_deferring[OF buffers_work[OF assms(1)] Context_Close_goes[OF dev]])
  obtain s1 where s1: "init e s = (Inr (), s1)" "started D (room 3) (prt s1)" "pstdout s1 = pstdout s" "pstderr s1 = pstderr s"
    using init_goes[OF dev assms(2-5)] by blast
  obtain dv s2 where s2: "lib (lift_op (cuda_GetDevice (emain e) 0)) s1 = (Inr dv, s2)" "started D (room 3) (prt s2)" "pstdout s2 = pstdout s1" "pstderr s2 = pstderr s1"
    using GetDevice_goes[OF dev] s1(2) unfolding goes_def by blast
  obtain nm s3 where s3: "lib (lift_op (Device_Name (emain e) (Some dv))) s2 = (Inr nm, s3)" "started D (room 3) (prt s3)" "pstdout s3 = pstdout s2" "pstderr s3 = pstderr s2"
    using Name_goes[OF dev] s2(2) unfolding goes_def by blast
  obtain s' where "Printf (''device: '' @ nm @ newline) (?rest dv) s3 = (Ret None, s')" "pstdout s' = pstdout s3 @ [''device: '' @ nm @ newline, vadd_line]" "pstderr s' = pstderr s3"
    using works_Printf[OF rest] s3(2) unfolding works_def by blast
  with s1 s2 s3 show ?thesis by (auto simp: vadd_main_def main_of_def andThen_act_def vadd_run_def attempt_def)
qed

text \<open>The concrete device has room while its addresses stay small.\<close>

lemma gpu_accepts: "accepting_device gpuDriver (\<lambda>k w. gnext w + k * 4096 < 2 ^ 63)"
  unfolding accepting_device_def
proof (intro conjI allI impI)
  show "accepts gpuDriver vadd_symbols (\<lambda>w. gnext w + k * 4096 < 2 ^ 63)" for k
    unfolding accepts_def by (auto simp: gpuDriver_def vadd_symbols_def)
qed (auto simp: gpuDriver_def CuMemAlloc_def CuDeviceGetCount_def vadd_bytes_def out_int_def out_i32_def)

lemma vector_add_succeeds_witness:
  "\<exists>name s'. vadd_main (env_with gpuDriver [1]) (prog0 \<lparr>gmem = (\<lambda>_. 0), gallocs = [], gnext = 0\<rparr>) = (Ret (), s') \<and>
     pstdout s' = [''device: '' @ name @ newline, ''ok n=1024, c[0]=0, c[1023]=3069'' @ newline] \<and> pstderr s' = []"
proof -
  let ?e = "env_with gpuDriver [1]" and ?s = "prog0 \<lparr>gmem = (\<lambda>_. 0), gallocs = [], gnext = 0\<rparr>"
  have "total_device gpuDriver gpu_rd gpu_live (vectorAddPTX ?e) (\<lambda>_. True) (\<lambda>_. True) (\<lambda>k w. gnext w + k * 4096 < 2 ^ 63)"
    unfolding total_device_def vector_device_def
    by (intro conjI gpu_memory gpu_allocates gpu_writes_only gpu_leaves gpu_kernel gpu_accepts) (simp add: env_with_def)
  from vector_add_succeeds[OF this, where s = ?s] show ?thesis
    by (simp add: env_with_def prog0_def prog_of_def rt0_def vadd_line_def)
qed

end
