(* ===== verification/PipelineProps.thy ===== *)
theory PipelineProps
  imports Cleanup
begin

section \<open>What \<^verbatim>\<open>event-pipeline\<close> leaves behind\<close>

subsection \<open>Closing a batch\<close>

definition opt_tag :: "(nat \<Rightarrow> obj) \<Rightarrow> nat option \<Rightarrow> obj set" where
  "opt_tag t p = (case p of None \<Rightarrow> {} | Some i \<Rightarrow> {t i})"

lemma opt_tag_simps [simp]: "opt_tag t None = {}" "opt_tag t (Some i) = {t i}"
  by (simp_all add: opt_tag_def)

definition batch_tags :: "workBatch \<Rightarrow> obj set" where
  "batch_tags b = opt_tag OEvent (wb_done b) \<union> (opt_tag OEvent (wb_ready b) \<union> (opt_tag OBuffer (wb_c b) \<union>
     (opt_tag OBuffer (wb_b b) \<union> (opt_tag OBuffer (wb_a b) \<union> (opt_tag OHostBuffer (wb_cHost b) \<union>
     (opt_tag OHostBuffer (wb_bHost b) \<union> opt_tag OHostBuffer (wb_aHost b)))))))"

text \<open>A cleanup that leaves none of the objects \<open>T\<close> open, or reports a failure.\<close>

definition shuts :: "string set \<Rightarrow> obj set \<Rightarrow> (go_error option \<Rightarrow> ('w, go_error option) act) \<Rightarrow> bool" where
  "shuts ops T f = (\<forall>r s x s'. f r s = (x, s') \<longrightarrow> (\<exists>res. x = Ret res \<and> grows (prt s) (prt s') {} \<and>
     (reports ops r \<longrightarrow> reports ops res) \<and> (reports ops res \<or> (\<forall>s0. \<forall>t \<in> T. \<not> isopen s0 (prt s') t))))"

lemma shutsD: "shuts ops T f \<Longrightarrow> f r s = (x, s') \<Longrightarrow> \<exists>res. x = Ret res \<and> grows (prt s) (prt s') {} \<and>
     (reports ops r \<longrightarrow> reports ops res) \<and> (reports ops res \<or> (\<forall>s0. \<forall>t \<in> T. \<not> isopen s0 (prt s') t))"
  by (simp add: shuts_def)

lemma shuts_andThen:
  assumes f: "shuts ops T f" and g: "shuts ops U g"
  shows "shuts ops (T \<union> U) (\<lambda>r. andThen_act (f r) g)"
  unfolding shuts_def
proof (intro allI impI)
  fix r s x s' assume a: "andThen_act (f r) g s = (x, s')"
  obtain y s1 where 1: "f r s = (y, s1)" by fastforce
  from shutsD[OF f 1] obtain r1 where r1: "y = Ret r1" "grows (prt s) (prt s1) {}" "reports ops r \<longrightarrow> reports ops r1"
    "reports ops r1 \<or> (\<forall>s0. \<forall>t \<in> T. \<not> isopen s0 (prt s1) t)" by blast
  with a 1 have "g r1 s1 = (x, s')" by (simp add: andThen_act_def)
  from shutsD[OF g this] obtain r2 where "x = Ret r2" "grows (prt s1) (prt s') {}" "reports ops r1 \<longrightarrow> reports ops r2"
    "reports ops r2 \<or> (\<forall>s0. \<forall>t \<in> U. \<not> isopen s0 (prt s') t)" by blast
  with r1 show "\<exists>res. x = Ret res \<and> grows (prt s) (prt s') {} \<and> (reports ops r \<longrightarrow> reports ops res) \<and>
      (reports ops res \<or> (\<forall>s0. \<forall>t \<in> T \<union> U. \<not> isopen s0 (prt s') t))"
    unfolding grows_def by blast
qed

context bracket
begin

lemma shuts_field: "batchMsg i what \<in> ops \<Longrightarrow> shuts ops (opt_tag tag p) (closeField i what p close)"
  unfolding shuts_def closeField_def
  by (cases p) (auto elim!: cleanup_result)

end

definition batch_closes :: "string set" where
  "batch_closes = {''done event close'', ''ready event close'', ''device c close'', ''device b close'', ''device a close'',
     ''host c close'', ''host b close'', ''host a close''}"

definition pipe_closes :: "string set" where
  "pipe_closes = {''context close'', ''copy stream close'', ''compute stream close'', ''start event close'', ''stop event close'', ''module close''} \<union>
     (\<Union>i. batchMsg i ` batch_closes)"

lemma pipe_closesI: "what \<in> batch_closes \<Longrightarrow> batchMsg i what \<in> pipe_closes"
  unfolding pipe_closes_def by blast

lemma shuts_batch: "shuts pipe_closes (batch_tags b) (workBatch_close (Some b) i)"
proof -
  have eq: "workBatch_close (Some b) i = (\<lambda>rerr.
       andThen_act (closeField i ''done event close'' (wb_done b) Event_Close rerr) (\<lambda>rerr.
       andThen_act (closeField i ''ready event close'' (wb_ready b) Event_Close rerr) (\<lambda>rerr.
       andThen_act (closeField i ''device c close'' (wb_c b) Buffer_Close rerr) (\<lambda>rerr.
       andThen_act (closeField i ''device b close'' (wb_b b) Buffer_Close rerr) (\<lambda>rerr.
       andThen_act (closeField i ''device a close'' (wb_a b) Buffer_Close rerr) (\<lambda>rerr.
       andThen_act (closeField i ''host c close'' (wb_cHost b) HostBuffer_Close rerr) (\<lambda>rerr.
       andThen_act (closeField i ''host b close'' (wb_bHost b) HostBuffer_Close rerr) (\<lambda>rerr.
       closeField i ''host a close'' (wb_aHost b) HostBuffer_Close rerr))))))))"
    by (intro ext) (simp add: workBatch_close_def)
  show ?thesis
    unfolding batch_tags_def eq
    by (intro shuts_andThen bevent.shuts_field bbuf.shuts_field bhost.shuts_field pipe_closesI; simp add: batch_closes_def)
qed

subsection \<open>Building a batch\<close>

text \<open>
  What a step of \<^verbatim>\<open>newBatch\<close> gives once the batch is \<open>b0\<close>: an error with no batch, or a batch that accounts for every object made.
\<close>

definition builds :: "workBatch \<Rightarrow> ('w, workBatch option \<times> go_error option) act \<Rightarrow> bool" where
  "builds b0 k = (\<forall>s r err s'. k s = (Ret (r, err), s') \<longrightarrow> (case r of
     None \<Rightarrow> err \<noteq> None
   | Some b \<Rightarrow> err = None \<and> (\<forall>z. grows z (prt s) (batch_tags b0) \<longrightarrow> grows z (prt s') (batch_tags b))))"

context bracket
begin

lemma builds_field:
  assumes "\<And>p. builds (put (Some p)) (k (put (Some p)))" and "\<And>p. batch_tags (put (Some p)) = insert (tag p) (batch_tags b0)"
  shows "builds b0 (batchField i what make put k)"
  unfolding builds_def
proof (intro allI impI)
  fix s r err s' assume a: "batchField i what make put k s = (Ret (r, err), s')"
  obtain m y where m: "make (prt s) = (m, y)" by fastforce
  show "case r of None \<Rightarrow> err \<noteq> None
     | Some b \<Rightarrow> err = None \<and> (\<forall>z. grows z (prt s) (batch_tags b0) \<longrightarrow> grows z (prt s') (batch_tags b))"
  proof (cases m)
    case (Inl e)
    then show ?thesis using a m by (auto simp: batchField_def lib_def)
  next
    case (Inr p)
    with a m have k: "k (put (Some p)) (s\<lparr>prt := y\<rparr>) = (Ret (r, err), s')" by (simp add: batchField_def lib_def)
    have g: "grows z (prt s) (batch_tags b0) \<Longrightarrow> grows z y (batch_tags (put (Some p)))" for z
      using make_ok m Inr assms(2) by (auto elim!: grows_trans)
    from assms(1)[of p] k g show ?thesis unfolding builds_def by (fastforce split: option.splits)
  qed
qed

end

lemma storeAt_quietly: "quietly (prt s) (prt (storeAt e p v s))"
  unfolding storeAt_def by (simp add: quietly_world)

lemma fillBatch_grows: "fillBatch e base a bb is s = (r, s') \<Longrightarrow> grows (prt s) (prt s') {}"
proof (induction e base a bb "is" s rule: fillBatch.induct)
  case (2 e base a bb i "is" s)
  have q: "grows (prt z) (prt (storeAt e p v z)) {}" for p v z by (rule quietly_grows[OF storeAt_quietly])
  show ?case
    using 2 by (fastforce split: option.splits intro: q grows_nothing)
qed simp

lemma builds_filled: "builds b (\<lambda>s. andThen_act (fillBatch e base (a s) (bb s) (is s)) (\<lambda>_. ret_act (Some b, None)) s)"
  unfolding builds_def
  by (auto simp: andThen_act_def ret_act_def split: prod.splits goexit.splits dest!: fillBatch_grows elim: grows_trans)

lemma builds_newBatch: "builds newWorkBatch (newBatch_body e ctx i)"
  unfolding newBatch_body_def Let_def
  by (intro bhost.builds_field bbuf.builds_field bevent.builds_field builds_filled)
    (auto simp: batch_tags_def newWorkBatch_def)


lemma newBatch_cases:
  assumes "newBatch_body e ctx i s = (Ret (r, err), s1)"
  obtains (failed) x where "r = None" "err = Some x" "newBatch e ctx i s = (Panic nilDeref, s1)"
    | (built) b where "r = Some b" "err = None" "newBatch e ctx i s = (Ret (Some b, None), s1)" "grows (prt s) (prt s1) (batch_tags b)"
proof (cases r)
  case None
  with assms builds_newBatch[of e ctx i] obtain x where "err = Some x" unfolding builds_def by fastforce
  with None show thesis
    using assms by (intro failed) (simp_all add: newBatch_def deferring_def newBatch_deferred_def andThen_act_def workBatch_close_def)
next
  case (Some b)
  with assms builds_newBatch[of e ctx i] have "err = None" "grows (prt s) (prt s1) (batch_tags b)"
    unfolding builds_def by fastforce+
  with Some show thesis
    using assms by (intro built) (simp_all add: newBatch_def deferring_def newBatch_deferred_def ret_act_def)
qed

lemma newBatch_Ret:
  assumes "newBatch e ctx i s = (Ret (r, err), s1)"
  shows "\<exists>b. r = Some b \<and> err = None \<and> grows (prt s) (prt s1) (batch_tags b)"
proof (cases "newBatch_body e ctx i s")
  case (Pair x z)
  show ?thesis
  proof (cases x)
    case (Ret p)
    obtain r0 err0 where "p = (r0, err0)" by (cases p)
    with Pair Ret have "newBatch_body e ctx i s = (Ret (r0, err0), z)" by simp
    then show ?thesis by (cases rule: newBatch_cases) (use assms in auto)
  qed (use Pair assms in \<open>auto simp: newBatch_def deferring_def newBatch_deferred_def ret_act_def\<close>)
qed

subsection \<open>The pipeline\<close>

definition still :: "('w, 'a) act \<Rightarrow> bool" where
  "still f = (\<forall>s r s'. f s = (Ret r, s') \<longrightarrow> grows (prt s) (prt s') {})"

lemma still_submitting: "quiet f \<Longrightarrow> still k \<Longrightarrow> still (submitting flag opn f k)"
  by (auto simp: still_def submitting_def split: prod.splits sum.splits dest!: lib_quietly quietly_grows[where T = "{}"] intro: grows_nothing)

lemma still_deref: "(\<And>b. still (k b)) \<Longrightarrow> still (deref_batch bp k)"
  by (auto simp: still_def deref_batch_def split: option.splits)

lemma still_submitBatches: "(\<And>flag. still (k flag)) \<Longrightarrow> still (submitBatches fn copy cs bs flag k)"
  by (induction fn copy cs bs flag k rule: submitBatches.induct)
    (auto intro!: still_deref still_submitting quiet_ops)

lemma still_collectBatches: "still k \<Longrightarrow> still (collectBatches copy bs flag k)"
  by (induction copy bs flag k rule: collectBatches.induct) (auto intro!: still_deref still_submitting quiet_ops)

lemma verifyFrom_state: "verifyFrom e bi a bb c is s = (r, s') \<Longrightarrow> s' = s"
  by (induction e bi a bb c "is" s rule: verifyFrom.induct) (auto simp: Let_def split: option.splits if_splits)

lemma still_verifyAll: "still k \<Longrightarrow> still (verifyAll e bs k)"
proof (induction e bs k rule: verifyAll.induct)
  case (2 e i b bs k)
  have "verifyBatch e i b s = (r, s') \<Longrightarrow> s' = s" for r s s'
    by (auto simp: verifyBatch_def deref_batch_def Let_def split: option.splits dest: verifyFrom_state)
  with 2 show ?case
    by (fastforce simp: still_def andThen_act_def ret_act_def split: prod.splits goexit.splits option.splits)
qed simp

lemma still_finish: "still (pipe_finish e st0 stop bs query)"
proof -
  have "still (verifyAll e bs (Printf msg (ret_act None)))" for msg
    by (rule still_verifyAll) (auto simp: still_def Printf_def ret_act_def)
  then show ?thesis
    unfolding pipe_finish_def still_def attempt_def
    by (auto split: prod.splits sum.splits dest!: lib_quietly[OF quiet_Elapsed] quietly_grows[where T = "{}"] intro: grows_nothing)
qed

lemma still_wait: "still (pipe_wait e st0 stop bs flag query)"
proof -
  have "still (andThen_act (pipe_finish e st0 stop bs query) (\<lambda>err. ret_act (err, False)))"
    using still_finish[of e st0 stop bs query] unfolding still_def andThen_act_def ret_act_def
    by (fastforce split: prod.splits goexit.splits)
  then show ?thesis unfolding pipe_wait_def by (intro still_submitting quiet_ops)
qed

lemma still_query: "still (pipe_query e st0 stop bs flag)"
  using still_wait[of e st0 stop bs flag] unfolding still_def pipe_query_def
  by (fastforce split: prod.splits sum.splits if_splits dest!: lib_quietly[OF quiet_events(3)] quietly_grows[where T = "{}"] intro: grows_nothing)

lemma still_submit: "still (pipe_submit e fn copy cs st0 stop bs)"
  unfolding pipe_submit_def by (intro still_submitting quiet_ops still_submitBatches still_collectBatches still_query)

lemma clean_synced: "clean ops (pipe_synced ctx (pipe_submit e fn copy cs st0 stop bs))"
proof (rule cleanI)
  fix s res s' assume a: "pipe_synced ctx (pipe_submit e fn copy cs st0 stop bs) s = (Ret res, s')"
  obtain r s1 where r: "pipe_submit e fn copy cs st0 stop bs s = (r, s1)" by fastforce
  then obtain rerr flag where "r = Ret (rerr, flag)"
    using a by (cases r) (auto simp: pipe_synced_def andThen_act_def)
  with r have "grows (prt s) (prt s1) {}" using still_submit unfolding still_def by blast
  moreover have "grows (prt s1) (prt s') {}"
    using a r \<open>r = Ret (rerr, flag)\<close>
    by (auto simp: pipe_synced_def andThen_act_def cleanup_def ret_act_def split: if_splits prod.splits
        dest!: lib_quietly[OF quiet_Synchronize] quietly_grows[where T = "{}"])
  ultimately show "grows (prt s) (prt s') {} \<or> reports ops res" by (blast intro: grows_nothing)
qed

lemma clean_withBatches: "(\<And>bs. clean pipe_closes (k bs)) \<Longrightarrow> clean pipe_closes (withBatches e ctx is bs k)"
proof (induction e ctx "is" bs k rule: withBatches.induct)
  case (2 e ctx i "is" bs k)
  show ?case
  proof (rule cleanI)
    fix s res s' assume a: "withBatches e ctx (i # is) bs k s = (Ret res, s')"
    obtain r err s1 where n: "newBatch e ctx i s = (Ret (r, err), s1)"
      using a by (cases "newBatch e ctx i s"; cases "fst (newBatch e ctx i s)") (auto simp: andThen_act_def split: goexit.splits)
    from newBatch_Ret[OF n] obtain b where b: "r = Some b" "err = None" "grows (prt s) (prt s1) (batch_tags b)" by blast
    obtain x s2 where w: "withBatches e ctx is (bs @ [(i, Some b)]) k s1 = (x, s2)" by fastforce
    with a n b obtain r2 where r2: "x = Ret r2" "workBatch_close (Some b) i r2 s2 = (Ret res, s')"
      by (cases x) (auto simp: andThen_act_def deferring_def split: prod.splits goexit.splits)
    from 2 w r2 b have "grows (prt s1) (prt s2) {} \<or> reports pipe_closes r2" by (blast dest: cleanD)
    with shutsD[OF shuts_batch r2(2)] b(3) show "grows (prt s) (prt s') {} \<or> reports pipe_closes res"
      unfolding grows_def by blast
  qed
qed simp

lemma clean_pipe_run: "clean pipe_closes (pipe_run e)"
  unfolding pipe_run_def pipe_events_def
  by (intro clean_attempt_init clean_attempt_lib clean_Printf quiet_ops bctx.clean_bracket bstream.clean_bracket bevent.clean_bracket
      bmodule.clean_bracket clean_withBatches clean_synced) (simp_all add: pipe_closes_def)


subsection \<open>The properties\<close>

text \<open>
  A driver with one device whose state counts the page-locked allocations and that has memory for one of them.
\<close>

definition outOfHost :: "nat Driver" where
  "outOfHost = \<lparr>bound = (\<lambda>_. True), invoke = (\<lambda>call t w.
     if csym call = ''cuMemAllocHost_v2'' then
       ((if w = 0 then CUDA_SUCCESS else CUDA_ERROR_OUT_OF_MEMORY, \<lparr>o0 = 1, o1 = 0, obuf = []\<rparr>), w + 1)
     else ((CUDA_SUCCESS, \<lparr>o0 = 1, o1 = 0, obuf = []\<rparr>), w))\<rparr>"

text \<open>
  C18. \<^verbatim>\<open>event-pipeline\<close> cleans up when it returns: whatever the driver does, once \<^verbatim>\<open>run\<close> has returned every buffer, host buffer, stream, event, module and context
  it made is closed, or the error it returns joins the failure of one of its deferred closes.
\<close>

theorem pipeline_cleans_up:
  assumes "pipe_run e s = (Ret res, s')"
  shows "(\<forall>x. \<not> isopen (prt s) (prt s') x) \<or> reports pipe_closes res"
  using cleanD[OF clean_pipe_run assms] isopen_refl unfolding grows_def by blast

lemma returns_no_image: "vectorAddPTX e = [] \<Longrightarrow> returns (attempt opn (lib (LoadModule (Some c) (vectorAddPTX e))) k)"
  by (simp add: returns_def attempt_def lib_def LoadModule_def)

lemma returns_empty_image: "vectorAddPTX e = [] \<Longrightarrow> returns (pipe_run e)"
  unfolding pipe_run_def pipe_events_def
  by (intro returns_no_image returns_attempt returns_deferring returns_Printf)

lemma pipeline_cleans_up_witness:
  "\<exists>res s'. pipe_run (env_with outOfHost []) (prog0 0) = (Ret res, s') \<and>
     ((\<forall>x. \<not> isopen (prt (prog0 0)) (prt s') x) \<or> reports pipe_closes res)"
proof -
  have "returns (pipe_run (env_with outOfHost []))" by (rule returns_empty_image) (simp add: env_with_def)
  then obtain res s' where r: "pipe_run (env_with outOfHost []) (prog0 0) = (Ret res, s')" unfolding returns_def by blast
  from pipeline_cleans_up[OF r] r show ?thesis by blast
qed

text \<open>
  C19. A batch that cannot be built is not cleaned up: when one of its allocations fails, \<^verbatim>\<open>newBatch\<close> returns \<^verbatim>\<open>nil\<close> and an error, so the deferred function that should close what was
  already allocated finds the named result \<^verbatim>\<open>b\<close> nil and panics. The error is lost, and the objects already made for the batch stay open.
\<close>

theorem failed_batch_panics:
  assumes "newBatch_body e ctx i s = (Ret (r, Some err), s1)"
  shows "newBatch e ctx i s = (Panic nilDeref, s1)"
  using assms by (cases rule: newBatch_cases) auto

lemma batchField_ok: "lib f s = (Inr p, s1) \<Longrightarrow> batchField i what f put k s = k (put (Some p)) s1"
  by (simp add: batchField_def)

lemma batchField_err: "lib f s = (Inl e, s1) \<Longrightarrow>
    batchField i what f put k s = (Ret (None, Some (WrapErr (batchMsg i what @ '': '') e)), s1)"
  by (simp add: batchField_def)

text \<open>With memory for one page-locked buffer the second allocation fails, and the first buffer is still open.\<close>

lemma failed_batch_panics_witness:
  "\<exists>s1. newBatch (env_with outOfHost [1]) 0 0 (prog_of (snd (Primary (Some dev0) (sys0 outOfHost 0)))) = (Panic nilDeref, s1) \<and>
     isopen (prt (prog_of (snd (Primary (Some dev0) (sys0 outOfHost 0))))) (prt s1) (OHostBuffer 0)"
proof -
  let ?s = "prog_of (snd (Primary (Some dev0) (sys0 outOfHost 0)))"
  let ?f = "lib (AllocHost Float32 (Some 0) pipe_n)"
  let ?s1 = "snd (?f ?s)"
  have "fst (?f ?s) = Inr 0" by code_simp
  then have 1: "?f ?s = (Inr 0, ?s1)" by (metis prod.collapse)
  have "isl (fst (?f ?s1))" by code_simp
  then obtain er where "fst (?f ?s1) = Inl er" by (auto simp: isl_def)
  then have 2: "?f ?s1 = (Inl er, snd (?f ?s1))" by (metis prod.collapse)
  have o: "isopen (prt ?s) (prt (snd (?f ?s1))) (OHostBuffer 0)" by code_simp
  have "newBatch_body (env_with outOfHost [1]) 0 0 ?s = (Ret (None, Some (WrapErr (batchMsg 0 ''alloc host b'' @ '': '') er)), snd (?f ?s1))"
    unfolding newBatch_body_def batchField_ok[OF 1] batchField_err[OF 2] by (rule refl)
  from failed_batch_panics[OF this] o show ?thesis by blast
qed

end
