(* ===== verification/SmallPrograms.thy ===== *)
theory SmallPrograms
  imports GoRun
begin

section \<open>The programs \<^verbatim>\<open>examples/device-info\<close> and \<^verbatim>\<open>examples/sibling-module\<close>\<close>

subsection \<open>Device attributes\<close>

text \<open>The attributes \<^verbatim>\<open>cuda/attributes.go\<close> names, apart from the three of \<^verbatim>\<open>Loader\<close>.\<close>

definition DeviceAttributeMaxThreadsPerBlock :: i32 where "DeviceAttributeMaxThreadsPerBlock = 1"
definition DeviceAttributeMaxBlockDimX :: i32 where "DeviceAttributeMaxBlockDimX = 2"
definition DeviceAttributeMaxBlockDimY :: i32 where "DeviceAttributeMaxBlockDimY = 3"
definition DeviceAttributeMaxBlockDimZ :: i32 where "DeviceAttributeMaxBlockDimZ = 4"
definition DeviceAttributeMaxGridDimX :: i32 where "DeviceAttributeMaxGridDimX = 5"
definition DeviceAttributeMaxGridDimY :: i32 where "DeviceAttributeMaxGridDimY = 6"
definition DeviceAttributeMaxGridDimZ :: i32 where "DeviceAttributeMaxGridDimZ = 7"
definition DeviceAttributeMaxSharedMemoryPerBlock :: i32 where "DeviceAttributeMaxSharedMemoryPerBlock = 8"
definition DeviceAttributeTotalConstantMemory :: i32 where "DeviceAttributeTotalConstantMemory = 9"
definition DeviceAttributeWarpSize :: i32 where "DeviceAttributeWarpSize = 10"
definition DeviceAttributeMaxRegistersPerBlock :: i32 where "DeviceAttributeMaxRegistersPerBlock = 12"
definition DeviceAttributeClockRate :: i32 where "DeviceAttributeClockRate = 13"
definition DeviceAttributeIntegrated :: i32 where "DeviceAttributeIntegrated = 18"
definition DeviceAttributeCanMapHostMemory :: i32 where "DeviceAttributeCanMapHostMemory = 19"
definition DeviceAttributeComputeMode :: i32 where "DeviceAttributeComputeMode = 20"
definition DeviceAttributeConcurrentKernels :: i32 where "DeviceAttributeConcurrentKernels = 31"
definition DeviceAttributePCIBusID :: i32 where "DeviceAttributePCIBusID = 33"
definition DeviceAttributePCIDeviceID :: i32 where "DeviceAttributePCIDeviceID = 34"
definition DeviceAttributeTCCDriver :: i32 where "DeviceAttributeTCCDriver = 35"
definition DeviceAttributeMemoryClockRate :: i32 where "DeviceAttributeMemoryClockRate = 36"
definition DeviceAttributeGlobalMemoryBusWidth :: i32 where "DeviceAttributeGlobalMemoryBusWidth = 37"
definition DeviceAttributeL2CacheSize :: i32 where "DeviceAttributeL2CacheSize = 38"
definition DeviceAttributeMaxThreadsPerMultiprocessor :: i32 where "DeviceAttributeMaxThreadsPerMultiprocessor = 39"
definition DeviceAttributeAsyncEngineCount :: i32 where "DeviceAttributeAsyncEngineCount = 40"
definition DeviceAttributeUnifiedAddressing :: i32 where "DeviceAttributeUnifiedAddressing = 41"
definition DeviceAttributePCIDomainID :: i32 where "DeviceAttributePCIDomainID = 50"
definition DeviceAttributeMaxSharedMemoryPerMultiprocessor :: i32 where "DeviceAttributeMaxSharedMemoryPerMultiprocessor = 81"
definition DeviceAttributeMaxRegistersPerMultiprocessor :: i32 where "DeviceAttributeMaxRegistersPerMultiprocessor = 82"
definition DeviceAttributeManagedMemory :: i32 where "DeviceAttributeManagedMemory = 83"
definition DeviceAttributeConcurrentManagedAccess :: i32 where "DeviceAttributeConcurrentManagedAccess = 89"
definition DeviceAttributeCooperativeLaunch :: i32 where "DeviceAttributeCooperativeLaunch = 95"

subsection \<open>\<^verbatim>\<open>device-info\<close>\<close>

text \<open>Go's division and remainder of integers, which truncate.\<close>

definition quot :: "int \<Rightarrow> int \<Rightarrow> int" where
  "quot a b = sgn a * sgn b * (\<bar>a\<bar> div \<bar>b\<bar>)"

definition rem :: "int \<Rightarrow> int \<Rightarrow> int" where
  "rem a b = a - quot a b * b"

definition diag :: "go_error + string \<Rightarrow> string" where
  "diag r = (case r of
     Inl e \<Rightarrow> if errors_Is e ErrSymbolUnavailable then ''n/a (driver lacks the symbol)'' else ''error: '' @ error_text e
   | Inr x \<Rightarrow> x)"

definition infoLine :: "string \<Rightarrow> string \<Rightarrow> ('w, 'a) act \<Rightarrow> ('w, 'a) act" where
  "infoLine name v = Printf (''  '' @ name @ '': '' @ v @ newline)"

definition deviceMsg :: "nat \<Rightarrow> string \<Rightarrow> string" where
  "deviceMsg i what = ''device '' @ show_nat i @ what"

text \<open>The identifiers are queried where they are printed.\<close>

definition info_print :: "'w env \<Rightarrow> nat \<Rightarrow> Device \<Rightarrow> string \<Rightarrow> u64 \<Rightarrow> goint \<times> goint \<Rightarrow> goint list \<Rightarrow> ('w, unit) act \<Rightarrow> ('w, unit) act" where
  "info_print e i d name mem cc as k =
     Printf (newline @ show_nat i @ '': '' @ name @ newline) (\<lambda>s.
     case lib (lift_op (Device_PCIBusID (emain e) (Some d))) s of (bus, s1) \<Rightarrow>
     infoLine ''pci bus id         '' (diag bus) (\<lambda>s.
     case lib (lift_op (Device_UUID (emain e) (Some d))) s of (uuid, s2) \<Rightarrow>
     infoLine ''uuid               '' (diag uuid) (
     infoLine ''compute capability '' (show_int (sint (fst cc)) @ ''.'' @ show_int (sint (snd cc))) (
     infoLine ''total memory       '' (show_nat (unat mem div 2 ^ 20) @ '' MiB'') (
     infoLine ''multiprocessors    '' (show_int (sint (as ! 0))) (
     infoLine ''max threads per sm '' (show_int (sint (as ! 5))) (
     infoLine ''warp size          '' (show_int (sint (as ! 1))) (
     infoLine ''core clock         '' (show_int (quot (sint (as ! 2)) 1000) @ '' MHz'') (
     infoLine ''memory bus width   '' (show_int (sint (as ! 3)) @ '' bits'') (
     infoLine ''l2 cache           '' (show_int (quot (sint (as ! 4)) 1024) @ '' KiB'') (
     infoLine ''async copy engines '' (show_int (sint (as ! 6))) k))))))))) s2) s1)"

text \<open>The seven attributes, each with the message of its failure.\<close>

definition info_attrs :: "(string \<times> i32) list" where
  "info_attrs = [('' multiprocessors'', DeviceAttributeMultiprocessorCount), ('' warp size'', DeviceAttributeWarpSize),
     ('' clock rate'', DeviceAttributeClockRate), ('' memory bus width'', DeviceAttributeGlobalMemoryBusWidth),
     ('' l2 cache'', DeviceAttributeL2CacheSize), ('' max threads per sm'', DeviceAttributeMaxThreadsPerMultiprocessor),
     ('' async engines'', DeviceAttributeAsyncEngineCount)]"

fun queryAttrs :: "'w env \<Rightarrow> nat \<Rightarrow> Device \<Rightarrow> (string \<times> i32) list \<Rightarrow> goint list \<Rightarrow> (goint list \<Rightarrow> ('w, unit) act) \<Rightarrow> ('w, unit) act" where
  "queryAttrs e i d [] as k = k as"
| "queryAttrs e i d ((msg, attr) # rest) as k =
     orFail ''device-info'' (deviceMsg i msg) (lib (lift_op (Device_Attribute (emain e) (Some d) attr))) (\<lambda>v.
     queryAttrs e i d rest (as @ [v]) k)"

fun info_devices :: "'w env \<Rightarrow> nat list \<Rightarrow> ('w, unit) act" where
  "info_devices e [] = ret_act ()"
| "info_devices e (i # is) =
     orFail ''device-info'' (deviceMsg i []) (lib (lift_op (cuda_GetDevice (emain e) (of_nat i)))) (\<lambda>d.
     orFail ''device-info'' (deviceMsg i '' name'') (lib (lift_op (Device_Name (emain e) (Some d)))) (\<lambda>name.
     orFail ''device-info'' (deviceMsg i '' memory'') (lib (lift_op (Device_TotalMemory (emain e) (Some d)))) (\<lambda>mem.
     orFail ''device-info'' (deviceMsg i '' compute capability'') (lib (lift_op (Device_ComputeCapability (emain e) (Some d)))) (\<lambda>cc.
     queryAttrs e i d info_attrs [] (\<lambda>as.
     info_print e i d name mem cc as (info_devices e is))))))"

definition info_version :: "'w env \<Rightarrow> ('w, unit) act \<Rightarrow> ('w, unit) act" where
  "info_version e k s = (case lib (lift_op (cuda_DriverVersion (emain e))) s of
     (Inl _, s1) \<Rightarrow> k s1
   | (Inr dv, s1) \<Rightarrow> Printf (''driver: '' @ show_int (quot (sint dv) 1000) @ ''.'' @
       show_int (quot (rem (sint dv) 1000) 10) @ newline) k s1)"

definition info_main :: "'w env \<Rightarrow> ('w, unit) act" where
  "info_main e =
     orFail ''device-info'' ''init'' (init e) (\<lambda>_.
     orFail ''device-info'' ''device count'' (lib (lift_op (cuda_DeviceCount (emain e)))) (\<lambda>n.
     Printf (''CUDA devices: '' @ show_int (sint n) @ newline) (
     if n = 0 then ret_act () else info_version e (info_devices e [0..<nat (sint n)]))))"

subsection \<open>\<^verbatim>\<open>sibling-module\<close>\<close>

definition foreignKernel :: "'w Driver option \<Rightarrow> u64 \<Rightarrow> u64 \<Rightarrow> u64 \<Rightarrow> 'w prog \<Rightarrow> (go_error + unit) \<times> 'w prog" where
  "foreignKernel drv stream inp outp s = (case drv of
     None \<Rightarrow> (Inl (Sentinel ''nil driver''), s)
   | Some _ \<Rightarrow> (Inr (), s\<lparr>pstdout := pstdout s @ [''sibling received stream='' @ show_hex stream @ '' in='' @ show_hex inp @
       '' out='' @ show_hex outp @ newline]\<rparr>))"

text \<open>\<^verbatim>\<open>defer x.Close()\<close>: the error is dropped.\<close>

definition dropping :: "('w prog \<Rightarrow> (go_error + unit) \<times> 'w prog) \<Rightarrow> unit \<Rightarrow> ('w, unit) act" where
  "dropping cl u s = (Ret u, snd (cl s))"

definition sibling_work :: "nat \<Rightarrow> nat \<Rightarrow> nat \<Rightarrow> nat \<Rightarrow> ('w, unit) act" where
  "sibling_work ctx stream inp outp =
     orFail ''sibling-module'' ''sibling'' (\<lambda>s. foreignKernel (Context_Driver (Some ctx) (sy (prt s))) (Stream_Raw (Some stream) (prt s))
       (Buffer_DevicePtr (Some inp) (prt s)) (Buffer_DevicePtr (Some outp) (prt s)) s) (\<lambda>_.
     orFail ''sibling-module'' ''synchronize'' (lib (Stream_Synchronize (Some stream) bg)) (\<lambda>_.
     Printf (''ok'' @ newline) (ret_act ())))"

definition sibling_main :: "'w env \<Rightarrow> ('w, unit) act" where
  "sibling_main e =
     orFail ''sibling-module'' ''init'' (init e) (\<lambda>_.
     orFail ''sibling-module'' ''device'' (lib (lift_op (cuda_GetDevice (emain e) 0))) (\<lambda>dev.
     orFail ''sibling-module'' ''primary'' (lib (lift_op (Primary (Some dev)))) (\<lambda>ctx.
     deferring (dropping (lib (lift_op (Context_Close (Some ctx))))) () (
     orFail ''sibling-module'' ''stream'' (lib (NewStream (Some ctx) [])) (\<lambda>stream.
     deferring (dropping (lib (Stream_Close (Some stream)))) () (
     orFail ''sibling-module'' ''alloc in'' (lib (Alloc Float32 (Some ctx) 1024)) (\<lambda>inp.
     deferring (dropping (lib (Buffer_Close (Some inp)))) () (
     orFail ''sibling-module'' ''alloc out'' (lib (Alloc Float32 (Some ctx) 1024)) (\<lambda>outp.
     deferring (dropping (lib (Buffer_Close (Some outp)))) () (
     sibling_work ctx stream inp outp))))))))))"

end
