(* ===== verification/ProgramExits.thy ===== *)
theory ProgramExits
  imports SmallPrograms Cleanup
begin

section \<open>How the programs end\<close>

text \<open>
  \<^verbatim>\<open>device-info\<close>, \<^verbatim>\<open>sibling-module\<close> and \<^verbatim>\<open>vector-add\<close> on any driver: they end, with status 0 or with status 1 and one line on standard error, and never panic.
\<close>

text \<open>A part of a program that writes nothing to standard error.\<close>

definition silent :: "('w prog \<Rightarrow> 'r \<times> 'w prog) \<Rightarrow> bool" where
  "silent f = (\<forall>s. pstderr (snd (f s)) = pstderr s)"

lemma silentI: "(\<And>s r s'. f s = (r, s') \<Longrightarrow> pstderr s' = pstderr s) \<Longrightarrow> silent f"
  unfolding silent_def by (metis prod.collapse)

lemma silentD: "silent f \<Longrightarrow> f s = (r, s') \<Longrightarrow> pstderr s' = pstderr s"
  unfolding silent_def by (metis snd_conv)

lemma silent_lib: "silent (lib f)"
  by (simp add: silent_def lib_def split: prod.splits)

lemma silent_init: "silent (init e)"
  by (simp add: silent_def init_def split: prod.splits)

lemma silent_cleanup: "silent cl \<Longrightarrow> silent (cleanup opn cl r)"
  by (rule silentI) (auto simp: cleanup_def split: prod.splits dest: silentD)

lemma silent_attempt:
  assumes "silent f" "\<And>x. silent (k x)"
  shows "silent (attempt opn f k)"
  by (rule silentI) (auto simp: attempt_def split: prod.splits sum.splits dest!: silentD[OF assms(1)] silentD[OF assms(2)])

lemma silent_deferring:
  assumes "silent body" "\<And>r. silent (d r)"
  shows "silent (deferring d r0 body)"
  by (rule silentI) (auto simp: deferring_def split: prod.splits goexit.splits dest!: silentD[OF assms(1)] silentD[OF assms(2)])

lemma silent_Printf: "silent k \<Longrightarrow> silent (Printf msg k)"
  by (simp add: silent_def Printf_def)

lemma silent_check: "silent (vadd_check got)"
  by (simp add: silent_def vadd_check_def Printf_def ret_act_def split: option.splits)

lemma silent_foreign: "silent (\<lambda>s. foreignKernel (d s) (a s) (b s) (c s) s)"
  by (simp add: silent_def foreignKernel_def split: option.splits)

lemma silent_vadd_run: "silent (vadd_run e)"
  unfolding vadd_run_def vadd_buffers_def vadd_compute_def vadd_launch_def
  by (intro silent_attempt silent_init silent_lib silent_Printf silent_deferring silent_cleanup silent_check)

text \<open>The end of a program of the given name that began with \<open>err\<close> on standard error.\<close>

definition ended :: "string \<Rightarrow> string list \<Rightarrow> unit goexit \<times> 'w prog \<Rightarrow> bool" where
  "ended name err = (\<lambda>(r, s'). case r of
     Ret _ \<Rightarrow> pstderr s' = err
   | Panic _ \<Rightarrow> False
   | Exit n \<Rightarrow> n = 1 \<and> (\<exists>msg. pstderr s' = err @ [name @ '': '' @ msg @ newline]))"

definition exits :: "string \<Rightarrow> ('w, unit) act \<Rightarrow> bool" where
  "exits name f = (\<forall>s. ended name (pstderr s) (f s))"

lemma exitsI: "(\<And>s. ended name (pstderr s) (f s)) \<Longrightarrow> exits name f"
  by (simp add: exits_def)

lemma exitsD: "exits name f \<Longrightarrow> pstderr s = err \<Longrightarrow> ended name err (f s)"
  by (auto simp: exits_def)

lemma exits_query:
  assumes "silent f" "\<And>r. exits name (k r)"
  shows "exits name (\<lambda>s. case f s of (r, s1) \<Rightarrow> k r s1)"
  by (rule exitsI) (auto split: prod.splits intro: exitsD[OF assms(2)] dest: silentD[OF assms(1)])

lemma exits_fail: "exits name (GoRun.fail name opn err)"
  by (rule exitsI) (auto simp: ended_def GoRun.fail_def intro!: exI[of _ "opn @ '': '' @ error_text err"])

lemma exits_orFail:
  assumes "silent f" "\<And>x. exits name (k x)"
  shows "exits name (orFail name opn f k)"
proof -
  have "orFail name opn f k = (\<lambda>s. case f s of (r, s1) \<Rightarrow> (case r of Inl e \<Rightarrow> GoRun.fail name opn e | Inr x \<Rightarrow> k x) s1)"
    by (rule ext) (simp add: orFail_def split: prod.splits sum.splits)
  then show ?thesis using assms by (auto intro!: exits_query exits_fail split: sum.splits)
qed

lemma exits_Printf: "exits name k \<Longrightarrow> exits name (Printf msg k)"
  by (rule exitsI) (auto simp: Printf_def intro: exitsD)

lemma exits_ret: "exits name (ret_act ())"
  by (simp add: exits_def ended_def ret_act_def)

lemma exits_dropping:
  assumes "silent cl" "exits name body"
  shows "exits name (deferring (dropping cl) () body)"
proof (rule exitsI)
  fix s
  obtain r s1 where b: "body s = (r, s1)" by fastforce
  obtain u s2 where c: "cl s1 = (u, s2)" by fastforce
  have "ended name (pstderr s) (r, s1)" using exitsD[OF assms(2) refl, of s] b by simp
  then show "ended name (pstderr s) (deferring (dropping cl) () body s)"
    using b c silentD[OF assms(1) c] by (cases r) (auto simp: ended_def deferring_def dropping_def)
qed

lemma exits_main:
  assumes "silent f" "returns f"
  shows "exits name (main_of name f)"
proof (rule exitsI)
  fix s
  obtain r s1 where f: "f s = (Ret r, s1)" using assms(2) unfolding returns_def by blast
  then show "ended name (pstderr s) (main_of name f s)"
    using silentD[OF assms(1) f] by (cases r) (auto simp: main_of_def andThen_act_def ended_def)
qed

lemma exits_info_print: "exits name k \<Longrightarrow> exits name (info_print e i d nm mem cc as k)"
  unfolding info_print_def infoLine_def by (intro exits_Printf exits_query silent_lib)

lemma exits_queryAttrs: "(\<And>as. exits ''device-info'' (k as)) \<Longrightarrow> exits ''device-info'' (queryAttrs e i d ats as k)"
  by (induction ats arbitrary: as) (auto intro!: exits_orFail silent_lib)

lemma exits_devices: "exits ''device-info'' (info_devices e is)"
proof (induction "is")
  case (Cons i "is")
  then show ?case unfolding info_devices.simps by (intro exits_orFail exits_queryAttrs exits_info_print silent_lib)
qed (simp add: exits_ret)

lemma exits_version:
  assumes "exits name k"
  shows "exits name (info_version e k)"
proof -
  have "info_version e k = (\<lambda>s. case lib (lift_op (cuda_DriverVersion (emain e))) s of (r, s1) \<Rightarrow>
      (case r of Inl _ \<Rightarrow> k | Inr dv \<Rightarrow> Printf (''driver: '' @ show_int (quot (sint dv) 1000) @ ''.'' @
       show_int (quot (rem (sint dv) 1000) 10) @ newline) k) s1)"
    by (rule ext) (simp add: info_version_def split: prod.splits sum.splits)
  then show ?thesis using assms by (auto intro!: exits_query silent_lib exits_Printf split: sum.splits)
qed

text \<open>
  On every driver, loaded or not, whatever it answers, \<^verbatim>\<open>device-info\<close>, \<^verbatim>\<open>sibling-module\<close> and \<^verbatim>\<open>vector-add\<close> end: normally, with nothing written to standard error, or with status
  1 and one line there that begins with the program's name. They never panic.
\<close>

theorem programs_end:
  "exits ''device-info'' (info_main e) \<and> exits ''sibling-module'' (sibling_main e) \<and> exits ''vector-add'' (vadd_main e)"
proof (intro conjI)
  have "exits ''device-info'' (if n = 0 then ret_act () else info_version e (info_devices e [0..<nat (sint n)]))" for n :: goint
    by (simp add: exits_ret exits_version exits_devices)
  then show "exits ''device-info'' (info_main e)"
    unfolding info_main_def by (intro exits_orFail exits_Printf silent_init silent_lib)
  show "exits ''sibling-module'' (sibling_main e)"
    unfolding sibling_main_def sibling_work_def
    by (intro exits_orFail exits_dropping exits_Printf exits_ret silent_init silent_lib silent_foreign)
  show "exits ''vector-add'' (vadd_main e)"
    unfolding vadd_main_def by (intro exits_main silent_vadd_run returns_vadd_run)
qed

end
