(* ===== verification/SpinExec.thy ===== *)
theory SpinExec
  imports Executor
begin

section \<open>The spin windows of the executor\<close>

text \<open>
  Before they park, the worker and a waiting caller of \<^verbatim>\<open>internal/executor/executor.go\<close> poll for a bounded number of iterations and give up the processor now and then.
  \<^verbatim>\<open>Executor\<close> leaves these iterations out; here they are steps. The state adds the local variables of the loops to the state of the executor. A poll
  that finds nothing takes the \<^verbatim>\<open>default\<close> branch of its \<^verbatim>\<open>select\<close>; one that finds something is a step of the executor. The number of processors
  may change at any time, so each window reads its own.
\<close>

definition workerSpin :: nat where "workerSpin = 4096"
definition callerSpin :: nat where "callerSpin = 4096"
definition multiPSpinYieldEvery :: nat where "multiPSpinYieldEvery = 128"

lemmas spin_consts = workerSpin_def callerSpin_def multiPSpinYieldEvery_def

definition spinYieldEveryFor :: "int \<Rightarrow> nat" where
  "spinYieldEveryFor procs = (if procs \<le> 1 then 1 else multiPSpinYieldEvery)"

definition shouldYield :: "nat \<Rightarrow> nat \<Rightarrow> bool" where
  "shouldYield spins every = (spins > 0 \<and> spins mod every = 0)"

record spin_state =
  base :: exec_state
  wspin :: nat
  wevery :: nat
  wblocked :: bool  \<comment> \<open>in the second \<^verbatim>\<open>select\<close> of \<^verbatim>\<open>run\<close>\<close>
  wyields :: nat    \<comment> \<open>calls of \<^verbatim>\<open>runtime.Gosched\<close> in the current window\<close>
  cspin :: "nat \<Rightarrow> nat"
  cevery :: "nat \<Rightarrow> nat"
  cyields :: "nat \<Rightarrow> nat"

definition newSpinning :: spin_state where
  "newSpinning = \<lparr>base = newExecutor, wspin = 0, wevery = multiPSpinYieldEvery, wblocked = False, wyields = 0,
     cspin = (\<lambda>_. 0), cevery = (\<lambda>_. 1), cyields = (\<lambda>_. 0)\<rparr>"

text \<open>A step of the worker other than a poll leaves both \<^verbatim>\<open>select\<close>s; after a task, unless it was run by \<^verbatim>\<open>drain\<close>, a new window starts.\<close>

definition after_worker :: "int \<Rightarrow> spin_state \<Rightarrow> exec_state \<Rightarrow> spin_state" where
  "after_worker procs s b =
     (if wpc (base s) \<noteq> WIdle \<and> wpc b = WIdle \<and> \<not> draining b
      then s\<lparr>base := b, wblocked := False, wspin := workerSpin, wevery := spinYieldEveryFor procs, wyields := 0\<rparr>
      else s\<lparr>base := b, wblocked := False\<rparr>)"

text \<open>A caller whose job was accepted starts its window.\<close>

definition after_submit :: "int \<Rightarrow> nat \<Rightarrow> spin_state \<Rightarrow> exec_state \<Rightarrow> spin_state" where
  "after_submit procs i s b =
     (if cpc b i = CWait
      then s\<lparr>base := b, cspin := (cspin s)(i := 0), cevery := (cevery s)(i := spinYieldEveryFor procs), cyields := (cyields s)(i := 0)\<rparr>
      else s\<lparr>base := b\<rparr>)"

definition wpoll :: "spin_state \<Rightarrow> spin_state" where
  "wpoll s = (if wspin s > 0
     then let spin = wspin s - 1 in s\<lparr>wspin := spin, wyields := wyields s + (if shouldYield spin (wevery s) then 1 else 0)\<rparr>
     else s\<lparr>wblocked := True\<rparr>)"

definition cpoll :: "nat \<Rightarrow> spin_state \<Rightarrow> spin_state" where
  "cpoll i s = s\<lparr>cspin := (cspin s)(i := cspin s i + 1),
     cyields := (cyields s)(i := cyields s i + (if shouldYield (cspin s i + 1) (cevery s i) then 1 else 0))\<rparr>"

inductive spin_step :: "exec_env \<Rightarrow> spin_state \<Rightarrow> spin_state \<Rightarrow> bool" for S where
  sp_worker: "worker_step (jobs S) (base s) b \<Longrightarrow> spin_step S s (after_worker procs s b)"
| sp_wpoll: "wpc (base s) = WIdle \<Longrightarrow> \<not> draining (base s) \<Longrightarrow> tasks (base s) = [] \<Longrightarrow> \<not> quit (base s) \<Longrightarrow> \<not> wblocked s \<Longrightarrow>
    spin_step S s (wpoll s)"
| sp_submit: "i < callers S \<Longrightarrow> submit_step (ctxerr S) i (base s) b \<Longrightarrow> spin_step S s (after_submit procs i s b)"
| sp_cpoll: "i < callers S \<Longrightarrow> cpc (base s) i = CWait \<Longrightarrow> cspin s i < callerSpin \<Longrightarrow> result (comp (base s) i) = [] \<Longrightarrow>
    spin_step S s (cpoll i s)"
| sp_wait: "i < callers S \<Longrightarrow> wait_step (ctxerr S) (cancellable S) i (base s) b \<Longrightarrow> spin_step S s (s\<lparr>base := b\<rparr>)"
| sp_close: "closing S \<Longrightarrow> close_step (base s) b \<Longrightarrow> spin_step S s (s\<lparr>base := b\<rparr>)"
| sp_retire: "\<not> retire (base s) \<Longrightarrow> spin_step S s (s\<lparr>base := Retire (base s)\<rparr>)"

inductive spin_reach :: "exec_env \<Rightarrow> spin_state \<Rightarrow> bool" for S where
  spin_start: "spin_reach S newSpinning"
| spin_next: "spin_reach S s \<Longrightarrow> spin_step S s t \<Longrightarrow> spin_reach S t"

lemma after_base [simp]:
  "base (after_worker procs s b) = b" "base (after_submit procs i s b) = b" "base (wpoll s) = base s" "base (cpoll i s) = base s"
  by (simp_all add: after_worker_def after_submit_def wpoll_def cpoll_def Let_def)

subsection \<open>Simulation\<close>

text \<open>A step is one of the executor or a poll, which leaves the executor as it is; and every step of the executor can be made.\<close>

lemma spin_step_base: "spin_step S s t \<Longrightarrow> exec_step S (base s) (base t) \<or> base t = base s"
  by (induction rule: spin_step.induct) (auto intro: exec_step.intros)

lemma spin_step_lift: "exec_step S (base s) b \<Longrightarrow> \<exists>t. spin_step S s t \<and> base t = b"
proof (induction "base s" b rule: exec_step.induct)
  case (worker t)
  then show ?case by (intro exI[of _ "after_worker 1 s t"]) (simp add: sp_worker)
next
  case (submit i t)
  then show ?case by (intro exI[of _ "after_submit 1 i s t"]) (simp add: sp_submit)
next
  case (wait i t)
  then show ?case by (intro exI[of _ "s\<lparr>base := t\<rparr>"]) (simp add: sp_wait)
next
  case (close t)
  then show ?case by (intro exI[of _ "s\<lparr>base := t\<rparr>"]) (simp add: sp_close)
next
  case retire
  then show ?case by (intro exI[of _ "s\<lparr>base := Retire (base s)\<rparr>"]) (simp add: sp_retire)
qed

lemma spin_reach_base: "spin_reach S s \<Longrightarrow> exec_reach S (base s)"
proof (induction rule: spin_reach.induct)
  case (spin_next s t)
  then show ?case using spin_step_base[of S s t] by (metis exec_reach.step)
qed (simp add: newSpinning_def exec_reach.start)

lemma exec_reach_lift: "exec_reach S b \<Longrightarrow> \<exists>s. spin_reach S s \<and> base s = b"
proof (induction rule: exec_reach.induct)
  case start
  have "base newSpinning = newExecutor" by (simp add: newSpinning_def)
  then show ?case using spin_start by blast
next
  case (step b t)
  then obtain s where s: "spin_reach S s" "base s = b" by blast
  then show ?case using spin_step_lift[of S s t] step(2) spin_next[OF s(1)] by blast
qed

subsection \<open>The windows\<close>

lemma div_Suc_yield: "0 < e \<Longrightarrow> Suc n div e = n div e + (if shouldYield (Suc n) e then 1 else 0)"
  by (auto simp: shouldYield_def div_Suc)

definition windows :: "spin_state \<Rightarrow> bool" where
  "windows s = (wspin s \<le> workerSpin \<and> wevery s > 0 \<and> wyields s + (wspin s - 1) div wevery s \<le> (workerSpin - 1) div wevery s \<and>
     (\<forall>i. cspin s i \<le> callerSpin \<and> cevery s i > 0 \<and> cyields s i = cspin s i div cevery s i))"

lemma every_pos [simp]: "0 < spinYieldEveryFor procs"
  by (simp add: spinYieldEveryFor_def spin_consts)

lemma windows_new: "windows newSpinning"
  by (simp add: windows_def newSpinning_def spin_consts)

lemma windows_base [simp]: "windows (s\<lparr>base := b\<rparr>) = windows s"
  by (simp add: windows_def)

lemma windows_after:
  assumes "windows s"
  shows "windows (after_worker procs s b)" "windows (after_submit procs i s b)"
  using assms by (auto simp: windows_def after_worker_def after_submit_def)

lemma windows_wpoll:
  assumes "windows s"
  shows "windows (wpoll s)"
proof (cases "wspin s")
  case 0
  then show ?thesis using assms by (simp add: windows_def wpoll_def)
next
  case (Suc k)
  have "(if shouldYield k (wevery s) then 1 else 0) + (k - 1) div wevery s = k div wevery s"
    using div_Suc_yield[of "wevery s" "k - 1"] assms by (cases k) (auto simp: windows_def shouldYield_def)
  then show ?thesis using assms Suc by (auto simp: windows_def wpoll_def Let_def)
qed

lemma windows_cpoll: "windows s \<Longrightarrow> cspin s i < callerSpin \<Longrightarrow> windows (cpoll i s)"
  by (auto simp: windows_def cpoll_def div_Suc_yield)

lemma spin_step_windows: "spin_step S s t \<Longrightarrow> windows s \<Longrightarrow> windows t"
  by (induction rule: spin_step.induct) (simp_all add: windows_after windows_wpoll windows_cpoll)

lemma spin_reach_windows: "spin_reach S s \<Longrightarrow> windows s"
  by (induction rule: spin_reach.induct) (auto simp: windows_new intro: spin_step_windows)

subsection \<open>Termination\<close>

text \<open>The polls left in the open windows, which a step of the executor may start anew.\<close>

definition polls_left :: "exec_env \<Rightarrow> spin_state \<Rightarrow> nat" where
  "polls_left S s = (if wblocked s then 0 else Suc (wspin s)) + (\<Sum>i<callers S. callerSpin - cspin s i)"

definition spin_measure :: "exec_env \<Rightarrow> spin_state \<Rightarrow> nat" where
  "spin_measure S s = exec_measure S (base s) * (workerSpin + 2 + callers S * callerSpin) + polls_left S s"

lemma polls_left_bound:
  assumes "windows s"
  shows "polls_left S s < workerSpin + 2 + callers S * callerSpin"
proof -
  have "(\<Sum>i<callers S. callerSpin - cspin s i) \<le> (\<Sum>i<callers S. callerSpin)" by (intro sum_mono) simp
  then show ?thesis using assms by (simp add: polls_left_def windows_def)
qed

lemma exec_step_spin_decreases:
  assumes "exec_measure S (base t) < exec_measure S (base s)" "windows t"
  shows "spin_measure S t < spin_measure S s"
proof -
  let ?K = "workerSpin + 2 + callers S * callerSpin"
  have "exec_measure S (base t) * ?K + ?K \<le> exec_measure S (base s) * ?K"
    using mult_le_mono1[of "Suc (exec_measure S (base t))" "exec_measure S (base s)" ?K] assms(1) by simp
  then show ?thesis using polls_left_bound[OF assms(2), of S] by (simp add: spin_measure_def)
qed

lemma sum_less_update:
  assumes "i < (n :: nat)" "f i < g i" "\<And>j. j \<noteq> i \<Longrightarrow> f j = (g j :: nat)"
  shows "(\<Sum>j<n. f j) < (\<Sum>j<n. g j)"
  by (rule sum_strict_mono_ex1) (use assms in \<open>force simp: le_less\<close>)+

lemma wpoll_decreases: "\<not> wblocked s \<Longrightarrow> polls_left S (wpoll s) < polls_left S s"
  by (simp add: polls_left_def wpoll_def Let_def)

lemma cpoll_decreases: "i < callers S \<Longrightarrow> cspin s i < callerSpin \<Longrightarrow> polls_left S (cpoll i s) < polls_left S s"
  using sum_less_update[of i "callers S" "\<lambda>j. callerSpin - cspin (cpoll i s) j" "\<lambda>j. callerSpin - cspin s j"]
  by (simp add: polls_left_def cpoll_def)

lemma spin_step_decreases:
  assumes "spin_step S s t" "windows s"
  shows "spin_measure S t < spin_measure S s"
proof -
  have w: "windows t" using spin_step_windows[OF assms] .
  from assms(1) show ?thesis
  proof cases
    case sp_wpoll
    then show ?thesis by (simp add: spin_measure_def wpoll_decreases)
  next
    case (sp_cpoll i)
    then show ?thesis by (simp add: spin_measure_def cpoll_decreases)
  qed (use w in \<open>auto intro!: exec_step_spin_decreases exec_step_decreases intro: exec_step.intros\<close>)
qed


text \<open>
  C22. The spinning executor's loops end: the worker, the callers and the closer together make at most as many steps, polls included, as the measure of the
  state they start in says, in any order, and a run that cannot go on has ended with every call, and \<^verbatim>\<open>Close\<close> if it was called, returned.
\<close>

theorem spinning_terminates:
  assumes "spin_reach S (f 0)" and "\<forall>k < n. spin_step S (f k) (f (Suc k))"
  shows "n \<le> spin_measure S (f 0) \<and> spin_reach S (f n) \<and>
    ((\<exists>t. spin_step S (f n) t) \<or> (\<forall>i < callers S. \<exists>r. cpc (base (f n)) i = CDone r) \<and> (closing S \<longrightarrow> clpc (base (f n)) = ClDone))"
proof -
  have "spin_reach S (f n) \<and> n + spin_measure S (f n) \<le> spin_measure S (f 0)"
    using assms(2)
  proof (induction n)
    case 0
    then show ?case using assms(1) by simp
  next
    case (Suc n)
    then have r: "spin_reach S (f n)" "n + spin_measure S (f n) \<le> spin_measure S (f 0)" "spin_step S (f n) (f (Suc n))" by simp_all
    then show ?case using spin_step_decreases[OF r(3) spin_reach_windows[OF r(1)]] spin_next[OF r(1,3)] by simp
  qed
  then have r: "spin_reach S (f n)" and n: "n \<le> spin_measure S (f 0)" by simp_all
  have "(\<nexists>t. spin_step S (f n) t) \<Longrightarrow> \<nexists>b. exec_step S (base (f n)) b" using spin_step_lift by blast
  then show ?thesis using r n stuck_finished[OF spin_reach_base[OF r]] by auto
qed

lemma spinning_terminates_witness:
  "1 \<le> spin_measure env_ok newSpinning \<and> spin_reach env_ok (newSpinning\<lparr>wblocked := True\<rparr>)"
proof -
  let ?f = "\<lambda>k :: nat. if k = 0 then newSpinning else newSpinning\<lparr>wblocked := True\<rparr>"
  have "spin_step env_ok newSpinning (wpoll newSpinning)"
    by (rule sp_wpoll) (simp_all add: newSpinning_def newExecutor_def)
  then have "\<forall>k < 1. spin_step env_ok (?f k) (?f (Suc k))" by (simp add: wpoll_def newSpinning_def)
  moreover have "spin_reach env_ok (?f 0)" by (simp add: spin_start)
  ultimately show ?thesis using spinning_terminates[of env_ok ?f 1] by simp
qed

end
