(* ===== verification/ExecOrder.thy ===== *)
theory ExecOrder
  imports Executor SeqExec
begin

section \<open>The order in which the executor runs its jobs\<close>

text \<open>
  The step relation of \<^verbatim>\<open>Executor\<close> with a log of the jobs it accepted and of those it ran, with the driver's state, and with what the jobs returned: running job \<open>i\<close> in the
  state \<open>w\<close> gives \<open>jb i w\<close>, a result and the next state. The functions of \<^verbatim>\<open>SeqExec\<close>, in which an abandoned job waits in a queue and runs before the next one, are shown to be what
  a concurrent run does.
\<close>

record ('w, 'r) log =
  lacc :: "nat list"
  lrun :: "nat list"
  lworld :: 'w
  lres :: "nat \<rightharpoonup> 'r"

fun run_jobs :: "(nat \<Rightarrow> 'w \<Rightarrow> 'r \<times> 'w) \<Rightarrow> nat list \<Rightarrow> 'w \<times> (nat \<rightharpoonup> 'r) \<Rightarrow> 'w \<times> (nat \<rightharpoonup> 'r)" where
  "run_jobs jb [] x = x"
| "run_jobs jb (i # is) (w, m) = run_jobs jb is (snd (jb i w), m(i \<mapsto> fst (jb i w)))"

definition newly :: "exec_env \<Rightarrow> (nat \<Rightarrow> bool) \<Rightarrow> nat list" where
  "newly S P = filter P [0..<callers S]"

definition log_step :: "exec_env \<Rightarrow> (nat \<Rightarrow> 'w \<Rightarrow> 'r \<times> 'w) \<Rightarrow> exec_state \<Rightarrow> exec_state \<Rightarrow> ('w, 'r) log \<Rightarrow> ('w, 'r) log" where
  "log_step S jb s t l =
     (let as = newly S (\<lambda>i. accepted t i \<and> \<not> accepted s i); rs = newly S (\<lambda>i. ran s i < ran t i); x = run_jobs jb rs (lworld l, lres l)
      in \<lparr>lacc = lacc l @ as, lrun = lrun l @ rs, lworld = fst x, lres = snd x\<rparr>)"

inductive log_reach :: "exec_env \<Rightarrow> (nat \<Rightarrow> 'w \<Rightarrow> 'r \<times> 'w) \<Rightarrow> 'w \<Rightarrow> exec_state \<Rightarrow> ('w, 'r) log \<Rightarrow> bool" for S jb w0 where
  log_start: "log_reach S jb w0 newExecutor \<lparr>lacc = [], lrun = [], lworld = w0, lres = Map.empty\<rparr>"
| log_next: "log_reach S jb w0 s l \<Longrightarrow> exec_step S s t \<Longrightarrow> log_reach S jb w0 t (log_step S jb s t l)"

lemma log_reach_exec: "log_reach S jb w0 s l \<Longrightarrow> exec_reach S s"
  by (induction rule: log_reach.induct) (auto intro: exec_reach.intros)

text \<open>Every run can be logged.\<close>

lemma exec_reach_log: "exec_reach S s \<Longrightarrow> \<exists>l. log_reach S jb w0 s l"
  by (induction rule: exec_reach.induct) (blast intro: log_reach.intros)+

lemma run_jobs_append: "run_jobs jb (is @ js) x = run_jobs jb js (run_jobs jb is x)"
  by (induction "is" arbitrary: x) (auto split: prod.splits)

lemma run_jobs_world: "fst (run_jobs jb is (w, m)) = fold (\<lambda>i w. snd (jb i w)) is w"
  by (induction "is" arbitrary: w m) auto

lemma run_jobs_keeps: "i \<notin> set is \<Longrightarrow> snd (run_jobs jb is (w, m)) i = m i"
  by (induction "is" arbitrary: w m) auto

text \<open>Every job runs in the state that the jobs before it left.\<close>

lemma run_jobs_res:
  "distinct is \<Longrightarrow> k < length is \<Longrightarrow> snd (run_jobs jb is (w, m)) (is ! k) = Some (fst (jb (is ! k) (fold (\<lambda>i w. snd (jb i w)) (take k is) w)))"
proof (induction "is" arbitrary: k w m)
  case (Cons i "is")
  then show ?case by (cases k) (simp_all add: run_jobs_keeps)
qed simp

subsection \<open>First in, first out\<close>

text \<open>The job the worker has taken and not yet run.\<close>

fun taken :: "worker_pc \<Rightarrow> nat list" where
  "taken (WRun i) = [i]"
| "taken _ = []"

lemma newly_one: "i < callers S \<Longrightarrow> newly S (\<lambda>j. j = i) = [i]"
proof (induction "callers S" arbitrary: S)
  case (Suc n)
  have "filter (\<lambda>j. j = i) [0..<m] = (if i < m then [i] else [])" for m by (induction m) auto
  then show ?case using Suc by (simp add: newly_def)
qed simp

lemma newly_none: "newly S (\<lambda>_. False) = []"
  by (simp add: newly_def)

text \<open>A step accepts a job at the end of the queue, takes one from its front, runs the one it took, or leaves all three alone.\<close>

lemma step_effect:
  assumes "exec_step S s t" "exec_reach S s"
  shows "(\<exists>i < callers S. accepted t = (accepted s)(i := True) \<and> \<not> accepted s i \<and> ran t = ran s \<and> tasks t = tasks s @ [i] \<and> taken (wpc t) = taken (wpc s)) \<or>
    (accepted t = accepted s \<and> ran t = ran s \<and> taken (wpc t) @ tasks t = taken (wpc s) @ tasks s) \<or>
    (\<exists>i < callers S. accepted t = accepted s \<and> ran t = (ran s)(i := Suc (ran s i)) \<and> taken (wpc s) = [i] \<and> taken (wpc t) = [] \<and> tasks t = tasks s)"
  using assms(1)
proof cases
  case worker
  note inv = exec_reach_inv[OF assms(2)]
  have started: "i < callers S" if "wpc s = WRun i" for i
  proof (rule ccontr)
    assume "\<not> i < callers S"
    then have "cpc s i = CStart" using exec_reach_frame[OF assms(2), of i] by simp
    then show False using exec_invD(1)[OF inv, of i] that by (simp add: worker_ref_def)
  qed
  from worker show ?thesis by cases (auto simp: exec_ops started split: handoff.splits)
next
  case (submit i)
  have "\<not> accepted s i" if "cpc s i = CSelect" using exec_invD(1)[OF exec_reach_inv[OF assms(2)], of i] that by simp
  with submit(2,1) show ?thesis by cases (auto simp: exec_ops)
next
  case (wait i)
  from wait(2) show ?thesis by cases (auto simp: exec_ops)
next
  case close
  from close(2) show ?thesis by cases auto
next
  case retire
  then show ?thesis by (simp add: Retire_def)
qed

definition log_inv :: "(nat \<Rightarrow> 'w \<Rightarrow> 'r \<times> 'w) \<Rightarrow> 'w \<Rightarrow> exec_state \<Rightarrow> ('w, 'r) log \<Rightarrow> bool" where
  "log_inv jb w0 s l = (lacc l = lrun l @ taken (wpc s) @ tasks s \<and> distinct (lacc l) \<and> (\<forall>i. i \<in> set (lacc l) \<longleftrightarrow> accepted s i) \<and>
     (\<forall>i. 0 < ran s i \<longleftrightarrow> i \<in> set (lrun l)) \<and> (lworld l, lres l) = run_jobs jb (lrun l) (w0, Map.empty))"

lemma log_reach_inv: "log_reach S jb w0 s l \<Longrightarrow> log_inv jb w0 s l"
proof (induction rule: log_reach.induct)
  case log_start
  show ?case by (simp add: log_inv_def newExecutor_def)
next
  case (log_next s l t)
  from step_effect[OF log_next(2) log_reach_exec[OF log_next(1)]] show ?case
  proof (elim disjE exE conjE)
    fix i assume i: "i < callers S" "accepted t = (accepted s)(i := True)" "\<not> accepted s i" "ran t = ran s" "tasks t = tasks s @ [i]" "taken (wpc t) = taken (wpc s)"
    have "newly S (\<lambda>j. accepted t j \<and> \<not> accepted s j) = [i]" using newly_one[OF i(1)] i(2,3) by (simp add: newly_def)
    then show ?thesis using log_next(3) i by (auto simp: log_inv_def log_step_def Let_def newly_none run_jobs_append)
  next
    assume "accepted t = accepted s" "ran t = ran s" "taken (wpc t) @ tasks t = taken (wpc s) @ tasks s"
    then show ?thesis using log_next(3) by (auto simp: log_inv_def log_step_def Let_def newly_none run_jobs_append)
  next
    fix i assume i: "i < callers S" "accepted t = accepted s" "ran t = (ran s)(i := Suc (ran s i))" "taken (wpc s) = [i]" "taken (wpc t) = []" "tasks t = tasks s"
    have "newly S (\<lambda>j. ran s j < ran t j) = [i]" using newly_one[OF i(1)] i(3) by (simp add: newly_def)
    then show ?thesis using log_next(3) i by (auto simp: log_inv_def log_step_def Let_def newly_none run_jobs_append)
  qed
qed

lemma nth_in_take: "distinct xs \<Longrightarrow> k < length xs \<Longrightarrow> xs ! k \<in> set (take n xs) \<Longrightarrow> k < n"
  by (auto simp: in_set_conv_nth nth_eq_iff_index_eq)

lemma fold_run_queue: "fold eff is w = run_queue (map (\<lambda>i. (False, eff i)) is) w"
  by (induction "is" arbitrary: w) (simp_all add: run_queue_def)

text \<open>
  Jobs run in the order they were accepted: in every interleaving the jobs that have run are the first ones of those accepted, each once, and the driver is in the state in which running them in this
  order as a queue leaves it. Once a call that waits for its job has returned, its job and all jobs accepted before it, abandoned ones included, have run;
  once \<^verbatim>\<open>Close\<close> has returned, all have.
\<close>

theorem executor_fifo:
  assumes "log_reach S jb w0 s l"
  shows "\<exists>n. lrun l = take n (lacc l) \<and> n \<le> length (lacc l) \<and> distinct (lacc l) \<and> (\<forall>i. i \<in> set (lacc l) \<longleftrightarrow> accepted s i) \<and>
    lworld l = run_queue (map (\<lambda>i. (False, \<lambda>w. snd (jb i w))) (take n (lacc l))) w0 \<and>
    (\<forall>k r. k < length (lacc l) \<and> \<not> cancellable S (lacc l ! k) \<and> cpc s (lacc l ! k) = CDone r \<longrightarrow> k < n) \<and>
    (clpc s = ClDone \<longrightarrow> n = length (lacc l))"
proof (intro exI conjI)
  let ?n = "length (lrun l)"
  note inv = log_reach_inv[OF assms, unfolded log_inv_def] and einv = exec_reach_inv[OF log_reach_exec[OF assms]]
  show t: "lrun l = take ?n (lacc l)" "?n \<le> length (lacc l)" "distinct (lacc l)" "\<forall>i. i \<in> set (lacc l) \<longleftrightarrow> accepted s i" using inv by auto
  show "lworld l = run_queue (map (\<lambda>i. (False, \<lambda>w. snd (jb i w))) (take ?n (lacc l))) w0"
    using inv t(1) by (metis fold_run_queue run_jobs_world fst_conv)
  show "\<forall>k r. k < length (lacc l) \<and> \<not> cancellable S (lacc l ! k) \<and> cpc s (lacc l ! k) = CDone r \<longrightarrow> k < ?n"
  proof (intro allI impI, elim conjE)
    fix k r assume k: "k < length (lacc l)" "\<not> cancellable S (lacc l ! k)" "cpc s (lacc l ! k) = CDone r"
    have "accepted s (lacc l ! k)" using k(1) t(4) nth_mem by blast
    then have "0 < ran s (lacc l ! k)" using exec_invD(1)[OF einv, of "lacc l ! k"] k(2,3) by auto
    then have "lacc l ! k \<in> set (take ?n (lacc l))" using inv t(1) by metis
    then show "k < ?n" by (rule nth_in_take[OF t(3) k(1)])
  qed
  show "clpc s = ClDone \<longrightarrow> ?n = length (lacc l)"
    using exec_invD(5)[OF einv] inv by (cases "wpc s") (auto simp: thread_inv_def)
qed

subsection \<open>One call after the other\<close>

text \<open>
  The accepted calls made one after the other with the functions of \<^verbatim>\<open>SeqExec\<close>, on one executor. A call that gave up its job has a context that is cancelled when the call waits for it.
\<close>

definition gave_up :: "exec_env \<Rightarrow> exec_state \<Rightarrow> nat \<Rightarrow> bool" where
  "gave_up S s i = (cancellable S i \<and> ctxerr S i \<noteq> None \<and> cpc s i = CDone (ctxerr S i))"

definition call_ctx :: "exec_env \<Rightarrow> exec_state \<Rightarrow> nat \<Rightarrow> nat \<Rightarrow> goctx" where
  "call_ctx S s now i = (if gave_up S s i then \<lparr>deadline = Some (now + 2), cerr = the (ctxerr S i)\<rparr> else Background)"

definition seq_call :: "exec_env \<Rightarrow> exec_state \<Rightarrow> (nat \<Rightarrow> ('w, 'a) drv) \<Rightarrow> nat \<Rightarrow> 'w xst \<Rightarrow> (go_error + 'a) \<times> 'w xst" where
  "seq_call S s job i x = (if cancellable S i then DoJobCtx (call_ctx S s (clk x) i) False (job i) x else DoJob Background (job i) x)"

fun seq_calls :: "exec_env \<Rightarrow> exec_state \<Rightarrow> (nat \<Rightarrow> ('w, 'a) drv) \<Rightarrow> nat list \<Rightarrow> 'w xst \<Rightarrow> (nat \<rightharpoonup> go_error + 'a) \<times> 'w xst" where
  "seq_calls S s job [] x = (Map.empty, x)"
| "seq_calls S s job (i # is) x = (case seq_call S s job i x of (r, x1) \<Rightarrow>
     case seq_calls S s job is x1 of (m, x2) \<Rightarrow> (m(i \<mapsto> r), x2))"

text \<open>The driver's state once the queue has run.\<close>

definition settled :: "'w xst \<Rightarrow> 'w" where
  "settled x = run_queue (xqueue (ex x)) (wld x)"

lemma seq_call_settles:
  assumes "\<not> xclosed (ex x)" "seq_call S s job i x = (r, x')"
  shows "settled x' = snd (job i (xtid (ex x)) (settled x))" "\<not> xclosed (ex x')" "xtid (ex x') = xtid (ex x)"
    "r = (if gave_up S s i then Inl (the (ctxerr S i)) else fst (job i (xtid (ex x)) (settled x)))"
  using assms
  by (auto simp: seq_call_def call_ctx_def gave_up_def xops run_queue_def settled_def canceled_def Background_def split: if_splits prod.splits)

lemma seq_calls_settle:
  assumes "seq_calls S s job is x = (m, x')" "\<not> xclosed (ex x)" "xtid (ex x) = t" "distinct is"
  shows "settled x' = fold (\<lambda>i w. snd (job i t w)) is (settled x) \<and>
    (\<forall>k < length is. m (is ! k) = Some (if gave_up S s (is ! k) then Inl (the (ctxerr S (is ! k)))
       else fst (job (is ! k) t (fold (\<lambda>i w. snd (job i t w)) (take k is) (settled x)))))"
  using assms
proof (induction "is" arbitrary: x m)
  case (Cons i "is")
  obtain r x1 where c: "seq_call S s job i x = (r, x1)" by fastforce
  obtain m1 where m: "seq_calls S s job is x1 = (m1, x')" "m = m1(i \<mapsto> r)" using Cons.prems(1) c by (auto split: prod.splits)
  note st = seq_call_settles[OF Cons.prems(2) c]
  have IH: "settled x' = fold (\<lambda>i w. snd (job i t w)) is (settled x1) \<and>
    (\<forall>k < length is. m1 (is ! k) = Some (if gave_up S s (is ! k) then Inl (the (ctxerr S (is ! k)))
       else fst (job (is ! k) t (fold (\<lambda>i w. snd (job i t w)) (take k is) (settled x1)))))"
    by (rule Cons.IH[OF m(1)]) (use st Cons.prems in simp_all)
  have "m ((i # is) ! k) = Some (if gave_up S s ((i # is) ! k) then Inl (the (ctxerr S ((i # is) ! k)))
       else fst (job ((i # is) ! k) t (fold (\<lambda>i w. snd (job i t w)) (take k (i # is)) (settled x))))" if "k < length (i # is)" for k
  proof (cases k)
    case 0
    then show ?thesis using st(4) m(2) Cons.prems(3) by simp
  next
    case (Suc j)
    with that have j: "j < length is" by simp
    then have "is ! j \<noteq> i" using Cons.prems(4) nth_mem by fastforce
    then show ?thesis using Suc IH j m(2) st(1) Cons.prems(3) by simp
  qed
  with IH st(1) Cons.prems(3) show ?case by simp
qed simp

definition call_err :: "go_error + 'a \<Rightarrow> go_error option" where
  "call_err v = (case v of Inl e \<Rightarrow> Some e | Inr _ \<Rightarrow> None)"

lemma accepted_in_seq:
  assumes "log_reach S (\<lambda>i. job i t) w0 s l" "seq_calls S s job (lacc l) \<lparr>ex = newExec t, clk = now, wld = w0, rel = 0\<rparr> = (m, x)"
  shows "settled x = fold (\<lambda>i w. snd (job i t w)) (lacc l) w0"
    and "k < length (lacc l) \<Longrightarrow> m (lacc l ! k) = Some (if gave_up S s (lacc l ! k) then Inl (the (ctxerr S (lacc l ! k)))
       else fst (job (lacc l ! k) t (fold (\<lambda>i w. snd (job i t w)) (take k (lacc l)) w0)))"
proof -
  have "distinct (lacc l)" using log_reach_inv[OF assms(1)] unfolding log_inv_def by blast
  from seq_calls_settle[OF assms(2) _ _ this]
  show "settled x = fold (\<lambda>i w. snd (job i t w)) (lacc l) w0"
    and "k < length (lacc l) \<Longrightarrow> m (lacc l ! k) = Some (if gave_up S s (lacc l ! k) then Inl (the (ctxerr S (lacc l ! k)))
       else fst (job (lacc l ! k) t (fold (\<lambda>i w. snd (job i t w)) (take k (lacc l)) w0)))"
    by (simp_all add: newExec_def settled_def run_queue_def)
qed

text \<open>What a job that has run returned.\<close>

lemma logged_result:
  assumes "log_reach S jb w0 s l" "k < length (lacc l)" "i = lacc l ! k" "i \<in> set (lrun l)"
  shows "lres l i = Some (fst (jb i (fold (\<lambda>i w. snd (jb i w)) (take k (lacc l)) w0)))"
proof -
  note inv = log_reach_inv[OF assms(1), unfolded log_inv_def]
  have t: "lrun l = take (length (lrun l)) (lacc l)" and d: "distinct (lacc l)" using inv by auto
  have "k < length (lrun l)" using nth_in_take[OF d assms(2)] assms(3,4) t by metis
  then have "lrun l ! k = i" "take k (lrun l) = take k (lacc l)" using t assms(3) by (metis nth_take, metis min.strict_order_iff take_take)
  moreover have "distinct (lrun l)" using d t by (metis distinct_take)
  moreover have "lres l = snd (run_jobs jb (lrun l) (w0, Map.empty))" using inv by (metis snd_conv)
  ultimately show ?thesis using run_jobs_res[of "lrun l" k jb w0 Map.empty] \<open>k < length (lrun l)\<close> by simp
qed

lemma logged_some:
  assumes "log_reach S jb w0 s l" "lres l i = Some r"
  shows "\<exists>w. r = fst (jb i w)"
proof -
  note inv = log_reach_inv[OF assms(1), unfolded log_inv_def]
  have "lres l = snd (run_jobs jb (lrun l) (w0, Map.empty))" using inv by (metis snd_conv)
  then have i: "i \<in> set (lrun l)" using assms(2) run_jobs_keeps[of i "lrun l" jb w0 Map.empty] by fastforce
  then have "i \<in> set (lacc l)" using inv by auto
  then obtain k where "k < length (lacc l)" "i = lacc l ! k" by (metis in_set_conv_nth)
  from logged_result[OF assms(1) this i] assms(2) show ?thesis by auto
qed

text \<open>A job for every outcome: it logs its number and returns what \<open>jobs S\<close> says.\<close>

definition call_of :: "exec_env \<Rightarrow> nat \<Rightarrow> (nat list, unit) drv" where
  "call_of S i t w = (case runOne (jobs S i) of Some e \<Rightarrow> Inl e | None \<Rightarrow> Inr (), w @ [i])"

text \<open>
  C4. The executor is linearizable: whatever the interleaving of callers, worker, cancellations and \<^verbatim>\<open>Close\<close>, every call that was accepted and has returned returned what it returns when the accepted calls are
  made one after the other, in the order of acceptance, with the sequential functions on which the model of the contexts rests, and once all accepted jobs have run the driver is in the state in which those calls leave it. The order respects
  time: calls accepted later come later. The outcome of a job may depend on the driver's state; \<open>jobs S\<close> is what the jobs returned in this run.
\<close>

theorem executor_linearizable:
  assumes "log_reach S (\<lambda>i. job i t) w0 s l"
    and "\<And>i r. lres l i = Some r \<Longrightarrow> runOne (jobs S i) = call_err r"
    and "seq_calls S s job (lacc l) \<lparr>ex = newExec t, clk = now, wld = w0, rel = 0\<rparr> = (m, x)"
  shows "(\<forall>i r. accepted s i \<and> cpc s i = CDone r \<longrightarrow> (\<exists>v. m i = Some v \<and> r = call_err v)) \<and>
    (lrun l = lacc l \<longrightarrow> lworld l = settled x) \<and>
    (\<forall>u. exec_step S s u \<longrightarrow> (\<exists>new. lacc (log_step S (\<lambda>i. job i t) s u l) = lacc l @ new))"
proof (intro conjI allI impI, goal_cases)
  case (1 i r)
  note inv = log_reach_inv[OF assms(1), unfolded log_inv_def] and seq = accepted_in_seq[OF assms(1,3)]
  obtain k where k: "k < length (lacc l)" "i = lacc l ! k" using 1 inv by (metis in_set_conv_nth)
  show ?case
  proof (cases "gave_up S s i")
    case True
    then show ?thesis using seq(2)[OF k(1)] k(2) 1 by (auto simp: gave_up_def call_err_def)
  next
    case False
    then have r: "r = runOne (jobs S i)" "ran s i = 1"
      using 1 exec_invD(1)[OF exec_reach_inv[OF log_reach_exec[OF assms(1)]], of i] by (auto simp: gave_up_def)
    then have "i \<in> set (lrun l)" using inv by auto
    from logged_result[OF assms(1) k this] have "lres l i = Some (fst (job i t (fold (\<lambda>i w. snd (job i t w)) (take k (lacc l)) w0)))" .
    then show ?thesis using assms(2) seq(2)[OF k(1)] k(2) r(1) False by simp
  qed
next
  case 2
  have "lworld l = fold (\<lambda>i w. snd (job i t w)) (lrun l) w0" using log_reach_inv[OF assms(1), unfolded log_inv_def] by (metis run_jobs_world fst_conv)
  then show ?case using 2 accepted_in_seq(1)[OF assms(1,3)] by simp
next
  case (3 u)
  then show ?case by (simp add: log_step_def Let_def)
qed

lemma executor_linearizable_witness:
  "\<exists>l m x. log_reach env_ok (\<lambda>i. call_of env_ok i 0) [] (exec_run env_ok 40 newExecutor) l \<and>
     seq_calls env_ok (exec_run env_ok 40 newExecutor) (call_of env_ok) (lacc l) \<lparr>ex = newExec 0, clk = 0, wld = [], rel = 0\<rparr> = (m, x) \<and>
     m 0 = Some (Inr ()) \<and> m 1 = Some (Inl (PanicError ''boom'')) \<and> lworld l = settled x"
proof -
  let ?s = "exec_run env_ok 40 newExecutor" and ?x = "\<lparr>ex = newExec 0, clk = 0, wld = [], rel = 0\<rparr> :: nat list xst"
  obtain l where l: "log_reach env_ok (\<lambda>i. call_of env_ok i 0) [] ?s l" using exec_reach_log[OF env_ok_run[of 40], of "\<lambda>i. call_of env_ok i 0" "[]"] by blast
  obtain m x where mx: "seq_calls env_ok ?s (call_of env_ok) (lacc l) ?x = (m, x)" by fastforce
  have res: "runOne (jobs env_ok i) = call_err r" if "lres l i = Some r" for i r
    using logged_some[OF l that] by (auto simp: call_of_def call_err_def split: option.splits)
  have fin: "clpc ?s = ClDone" "accepted ?s 0" "accepted ?s 1" "cpc ?s 0 = CDone None" "cpc ?s 1 = CDone (Some (PanicError ''boom''))"
    by (simp_all add: exec_eval eval_nat_numeral)
  have "lrun l = lacc l" using executor_fifo[OF l] fin(1) by auto
  with executor_linearizable[OF l res mx] fin have w: "lworld l = settled x" "\<exists>v. m 0 = Some v \<and> None = call_err v"
    "\<exists>v. m 1 = Some v \<and> Some (PanicError ''boom'') = call_err v" by blast+
  have "None = call_err v \<longleftrightarrow> v = Inr ()" "Some e = call_err v \<longleftrightarrow> v = Inl e" for v :: "go_error + unit" and e
    by (cases v; auto simp: call_err_def)+
  with w l mx show ?thesis by auto
qed

end
