(* ===== verification/LaunchPool.thy ===== *)
theory LaunchPool
  imports LaunchProps
begin

section \<open>Pools of reusable objects, and the pool of launch argument states\<close>

text \<open>
  \<^verbatim>\<open>sync.Pool\<close>: \<^verbatim>\<open>Get\<close> hands out any object that was put back and is still there, or a new one. Which one it is, is an argument, so that the theorems hold for
  every choice. An object that the garbage collector drops is one that is never chosen.
\<close>

definition poolGet :: "nat \<Rightarrow> 'o \<Rightarrow> 'o list \<Rightarrow> 'o \<times> 'o list" where
  "poolGet k new ps = (if k < length ps then (ps ! k, take k ps @ drop (Suc k) ps) else (new, ps))"

definition poolPut :: "'o \<Rightarrow> 'o list \<Rightarrow> 'o list" where
  "poolPut x ps = x # ps"

text \<open>The objects in a pool are new ones or were recycled after their use; what holds of both holds of whatever \<^verbatim>\<open>Get\<close> returns.\<close>

locale object_pool =
  fixes new :: 'o and ready :: "'o \<Rightarrow> bool" and used :: "'o \<Rightarrow> bool" and recycle :: "'o \<Rightarrow> 'o"
  assumes new_ready: "ready new"
    and recycle_ready: "used x \<Longrightarrow> ready (recycle x)"
begin

lemma get_ready: "list_all ready ps \<Longrightarrow> poolGet k new ps = (x, qs) \<Longrightarrow> ready x \<and> list_all ready qs"
  using new_ready by (fastforce simp: poolGet_def list_all_iff split: if_splits dest: in_set_takeD in_set_dropD)

lemma put_ready: "used x \<Longrightarrow> list_all ready ps \<Longrightarrow> list_all ready (poolPut (recycle x) ps)"
  by (simp add: poolPut_def recycle_ready)

end

subsection \<open>Launch argument states\<close>

text \<open>
  \<^verbatim>\<open>launchArgState\<close> of \<^verbatim>\<open>cuda/launch.go\<close>. \<^verbatim>\<open>builder.packed\<close> points to the field \<^verbatim>\<open>packed\<close> of the same state while it is in use; the model has the value in the builder then and
  puts it back where the pointer is dropped.
\<close>

record launchArgState =
  las_builder :: kernelArgBuilder
  las_packed :: Builder

definition new_launchArgState :: launchArgState where
  "new_launchArgState = \<lparr>las_builder = newKernelArgBuilder None False, las_packed = newBuilder\<rparr>"

definition newLaunchArgState :: "nat \<Rightarrow> nat \<Rightarrow> launchArgState list \<Rightarrow> launchArgState \<times> launchArgState list" where
  "newLaunchArgState k c ps = (case poolGet k new_launchArgState ps of (s, qs) \<Rightarrow>
     (s\<lparr>las_builder := (las_builder s)\<lparr>kbctx := Some c, packed := las_packed s\<rparr>\<rparr>, qs))"

text \<open>\<^verbatim>\<open>reset\<close> releases the locks and clears both parts.\<close>

definition launchArgState_reset :: "launchArgState \<Rightarrow> lev list \<times> launchArgState" where
  "launchArgState_reset s = (release (las_builder s),
     \<lparr>las_builder = newKernelArgBuilder None False, las_packed = Reset (packed (las_builder s))\<rparr>)"

definition launchArgState_recycle :: "launchArgState \<Rightarrow> launchArgState list \<Rightarrow> lev list \<times> launchArgState list" where
  "launchArgState_recycle s ps = (case launchArgState_reset s of (l, s1) \<Rightarrow> (l, poolPut s1 ps))"

text \<open>\<^verbatim>\<open>launch\<close> with the pool; the deferred \<^verbatim>\<open>recycle\<close> runs before the module is unlocked.\<close>

definition launch_pooled :: "nat \<Rightarrow> Function option \<Rightarrow> goctx option \<Rightarrow> u64 \<Rightarrow> nat option \<Rightarrow> LaunchConfig \<Rightarrow> bool \<Rightarrow>
    KernelArg option list \<Rightarrow> launchArgState list \<Rightarrow> 'w rt \<Rightarrow> ((go_error + unit) \<times> lev list \<times> 'w rt) \<times> launchArgState list" where
  "launch_pooled k fp ctx rawStream streamCtx cfg cooperative as ps s = (case fp of
     None \<Rightarrow> ((Inl ErrNilFunction, [], s), ps)
   | Some f \<Rightarrow>
       if \<not> valid cfg then ((Inl ErrInvalidLaunchConfig, [], s), ps)
       else (case fmodule f of
         None \<Rightarrow> ((Inl ErrNilModule, [], s), ps)
       | Some i \<Rightarrow> (let m = modules s i in
           if streamCtx \<noteq> None \<and> streamCtx \<noteq> Some (octx m) then ((Inl ErrContextMismatch, [], s), ps)
           else if oclosed m then ((Inl ErrModuleClosed, [RLock (LModule i), RUnlock (LModule i)], s), ps)
           else (case newLaunchArgState k (octx m) ps of (st, qs) \<Rightarrow>
             (case appendArgs as s (las_builder st) of
               (Some e, b) \<Rightarrow> (case launchArgState_recycle (st\<lparr>las_builder := b\<rparr>) qs of (l, qs1) \<Rightarrow>
                  ((Inl e, [RLock (LModule i)] @ trail b @ l @ [RUnlock (LModule i)], s), qs1))
             | (None, b) \<Rightarrow> (case lift_op (launchKernel (octx m) ctx (fraw f) cfg rawStream
                   (params_bytes (packed b)) cooperative) s of (r, s1) \<Rightarrow>
                 (case launchArgState_recycle (st\<lparr>las_builder := b\<lparr>packed := snd (Params (packed b))\<rparr>\<rparr>) qs of (l, qs1) \<Rightarrow>
                  ((r, [RLock (LModule i)] @ trail b @ [DriverCall] @ l @ [RUnlock (LModule i)], s1), qs1))))))))"

subsection \<open>Builders that were used before\<close>

text \<open>The arrays of a builder keep their lengths whatever is added, so that a reset builder is well formed, holds nothing, and keeps at most 8 KiB of arena.\<close>

definition inline_ok :: "Builder \<Rightarrow> bool" where
  "inline_ok b = (length (inlineValues b) = inlineArgs \<and> (\<forall>v \<in> set (inlineValues b). length v = 8) \<and>
     length (inlinePointers b) = inlineArgs \<and> length (inlineMeta b) = inlineArgs)"

lemma inline_ok_new: "inline_ok newBuilder"
  by (simp add: inline_ok_def newBuilder_def)

lemma inline_ok_frame [simp]:
  "inline_ok (b\<lparr>count := n\<rparr>) = inline_ok b" "inline_ok (b\<lparr>hasSpill := h\<rparr>) = inline_ok b" "inline_ok (b\<lparr>dirty := h\<rparr>) = inline_ok b"
  "inline_ok (b\<lparr>spillBack := xs\<rparr>) = inline_ok b" "inline_ok (b\<lparr>spillLen := n\<rparr>) = inline_ok b"
  "inline_ok (b\<lparr>spillGen := n\<rparr>) = inline_ok b" "inline_ok (b\<lparr>overflowMeta := ms\<rparr>) = inline_ok b"
  "inline_ok (b\<lparr>spillPointers := ps\<rparr>) = inline_ok b"
  by (simp_all add: inline_ok_def)

lemma inline_ok_setMeta: "inline_ok b \<Longrightarrow> inline_ok (setMeta b i m)"
  by (simp add: inline_ok_def setMeta_def)

lemma inline_ok_arenaAlloc: "inline_ok b \<Longrightarrow> arenaAlloc b n = (off, b') \<Longrightarrow> inline_ok b'"
  by (auto simp: arenaAlloc_def Let_def split: if_splits)

lemma inline_ok_slot:
  assumes "inline_ok b" "length v = 8"
  shows "inline_ok (b\<lparr>inlineValues := (inlineValues b)[i := v], inlinePointers := (inlinePointers b)[i := p]\<rparr>)"
  using assms set_update_subset_insert[of "inlineValues b" i v] by (auto simp: inline_ok_def)

lemma inline_ok_add: "inline_ok b \<Longrightarrow> inline_ok (add b data typ)"
  by (auto simp: add_def Let_def inline_ok_setMeta inline_ok_slot inline_ok_arenaAlloc overwrite_def split: prod.splits)

lemma inline_ok_Params: "inline_ok (snd (Params b)) = inline_ok b"
  by (simp add: Params_def Let_def)

lemma inline_ok_wf: "wf_builder b \<Longrightarrow> inline_ok b"
  by (simp add: inline_ok_def wf_defs)

lemma Reset_inline_ok:
  assumes "inline_ok b"
  shows "wf_builder (Reset b)" "args (Reset b) = []" "spillLen (Reset b) = 0" "length (spillBack (Reset b)) \<le> MaxRetainedSpillBytes"
  using assms by (auto simp: Reset_def Let_def wf_defs args_def inline_ok_def)

lemma appendLocked_inline_ok:
  assumes "inline_ok (packed b)" "\<And>b. inline_ok (packed b) \<Longrightarrow> inline_ok (packed (put b))"
  shows "inline_ok (packed (snd (appendLocked m x closedErr put b)))"
  using assms by (auto simp: appendLocked_def Let_def)

lemma appendKernelArg_inline_ok: "inline_ok (packed b) \<Longrightarrow> inline_ok (packed (snd (appendKernelArg a s b)))"
  by (cases a) (auto simp: buffer_appendKernelArg_def texture_appendKernelArg_def surface_appendKernelArg_def value_appendKernelArg_def
      devicePtr_appendKernelArg_def raw_appendKernelArg_def addDevicePtr_def Add_def AddBytes_def inline_ok_add
      split: option.splits intro!: appendLocked_inline_ok)

lemma appendArgs_inline_ok: "inline_ok (packed b) \<Longrightarrow> inline_ok (packed (snd (appendArgs as s b)))"
proof (induction as s b rule: appendArgs.induct)
  case (3 a as s b)
  then show ?case using appendKernelArg_inline_ok[of b a s] by (auto split: prod.splits option.splits)
qed simp_all

subsection \<open>The locks do not depend on what is packed\<close>

text \<open>Two builders that differ in what they packed.\<close>

definition alike :: "kernelArgBuilder \<Rightarrow> kernelArgBuilder \<Rightarrow> bool" where
  "alike b b' = (b' = b\<lparr>packed := packed b'\<rparr>)"

lemma alikeD:
  assumes "alike b b'"
  shows "kbctx b' = kbctx b" "inlineLocks b' = inlineLocks b" "lockCount b' = lockCount b" "overflowLocks b' = overflowLocks b"
    "snapshot b' = snapshot b" "trail b' = trail b"
  using assms by (cases b; cases b'; simp add: alike_def)+

lemma alikeI:
  assumes "kbctx b' = kbctx b" "inlineLocks b' = inlineLocks b" "lockCount b' = lockCount b" "overflowLocks b' = overflowLocks b"
    "snapshot b' = snapshot b" "trail b' = trail b"
  shows "alike b b'"
  using assms by (cases b; cases b'; simp add: alike_def)

lemma alike_locks:
  assumes "alike b b'"
  shows "alike (rlock m b) (rlock m b')" "alike (runlock m b) (runlock m b')" "alike (addLock m b) (addLock m b')"
    "holdsLock m b' = holdsLock m b" "alike (b\<lparr>packed := p\<rparr>) (b'\<lparr>packed := p'\<rparr>)" "release b' = release b"
  using alikeD[OF assms] by (auto intro!: alikeI simp: rlock_def runlock_def addLock_def holdsLock_def release_def lockAt_def)

definition alike_step :: "go_error option \<times> kernelArgBuilder \<Rightarrow> go_error option \<times> kernelArgBuilder \<Rightarrow> bool" where
  "alike_step x y = (fst y = fst x \<and> alike (snd x) (snd y))"

lemma appendLocked_alike:
  assumes "alike b b'" "\<And>b b'. alike b b' \<Longrightarrow> alike (put b) (put b')"
  shows "alike_step (appendLocked m x closedErr put b) (appendLocked m x closedErr put b')"
  using assms alikeD[OF assms(1)] by (auto simp: alike_step_def appendLocked_def Let_def alike_locks)

lemma appendKernelArg_alike: "alike b b' \<Longrightarrow> alike_step (appendKernelArg a s b) (appendKernelArg a s b')"
  by (cases a) (auto simp: buffer_appendKernelArg_def texture_appendKernelArg_def surface_appendKernelArg_def value_appendKernelArg_def
      devicePtr_appendKernelArg_def raw_appendKernelArg_def addDevicePtr_def alike_locks alike_step_def[of "(_, _)"]
      split: option.splits intro!: appendLocked_alike)

lemma appendArgs_alike: "alike b b' \<Longrightarrow> alike_step (appendArgs as s b) (appendArgs as s b')"
proof (induction as arbitrary: b b')
  case (Cons a as)
  show ?case
  proof (cases a)
    case (Some x)
    obtain r b1 r' b1' where 1: "appendKernelArg x s b = (r, b1)" "appendKernelArg x s b' = (r', b1')"
      by (cases "appendKernelArg x s b"; cases "appendKernelArg x s b'")
    then have "r' = r" "alike b1 b1'" using appendKernelArg_alike[OF Cons.prems, of x s] by (simp_all add: alike_step_def)
    then show ?thesis using Cons.IH[of b1 b1'] Some 1 by (auto simp: alike_step_def split: option.splits)
  qed (use Cons.prems in \<open>simp add: alike_step_def\<close>)
qed (simp add: alike_step_def)

subsection \<open>Launches through the pool\<close>

text \<open>A state in the pool holds no lock, no context, no argument, and no large arena.\<close>

definition argstate_ready :: "launchArgState \<Rightarrow> bool" where
  "argstate_ready st = (las_builder st = newKernelArgBuilder None False \<and> wf_builder (las_packed st) \<and> args (las_packed st) = [] \<and>
     spillLen (las_packed st) = 0 \<and> length (spillBack (las_packed st)) \<le> MaxRetainedSpillBytes)"

definition argstate_used :: "launchArgState \<Rightarrow> bool" where
  "argstate_used st = inline_ok (packed (las_builder st))"

interpretation las: object_pool new_launchArgState argstate_ready argstate_used "\<lambda>st. snd (launchArgState_reset st)"
  by unfold_locales (simp_all add: argstate_ready_def argstate_used_def new_launchArgState_def launchArgState_reset_def wf_newBuilder
      args_newBuilder Reset_inline_ok, simp_all add: newBuilder_def)

lemma argstate_recycle:
  assumes "inline_ok (packed (las_builder st))" "list_all argstate_ready ps" "launchArgState_recycle st ps = (l, qs)"
  shows "l = release (las_builder st) \<and> list_all argstate_ready qs"
  using assms las.put_ready[of st ps] by (auto simp: launchArgState_recycle_def argstate_used_def launchArgState_reset_def)

text \<open>What a launch packs into a state from the pool, and into a new one.\<close>

lemma packed_values:
  assumes fit: "args_fit s as" and p: "wf_builder p" "args p = []" "spillLen p = 0"
    and b: "packed b = p" and a: "appendArgs as s b = (None, b1)"
  shows "params_bytes (packed b1) = args_values s as"
proof -
  let ?is = "map (arg_item s \<circ> the) as"
  have "packed b1 = foldl addItem p ?is" using appendArgs_items[of b s as] a b by (simp add: arg_step_def)
  moreover have "wf_builder (foldl addItem p ?is) \<and> args (foldl addItem p ?is) = ?is"
    using fit ap.push_all[OF p(1), of ?is] by (simp add: args_fit_def list_all_iff p comp_def)
  ultimately show ?thesis by (simp add: params_bytes_args args_values_def)
qed

lemma appendArgs_pooled:
  assumes fit: "args_fit s as" and st: "argstate_ready st"
    and a: "appendArgs as s ((las_builder st)\<lparr>kbctx := Some c, packed := las_packed st\<rparr>) = (r, b)"
    and n: "appendArgs as s (newKernelArgBuilder (Some c) False) = (r', b')"
  shows "r = r'" "trail b = trail b'" "release b = release b'" "inline_ok (packed b)"
    "r = None \<Longrightarrow> params_bytes (packed b) = params_bytes (packed b')"
proof -
  let ?b = "(las_builder st)\<lparr>kbctx := Some c, packed := las_packed st\<rparr>" and ?n = "newKernelArgBuilder (Some c) False"
  have "alike ?n ?b" using st by (simp add: alike_def argstate_ready_def newKernelArgBuilder_def)
  then have al: "r = r'" "alike b' b" using appendArgs_alike[of ?n ?b as s] a n by (simp_all add: alike_step_def)
  show "r = r'" by (rule al(1))
  show "trail b = trail b'" "release b = release b'" using alikeD(6)[OF al(2)] alike_locks(6)[OF al(2)] by simp_all
  show "inline_ok (packed b)" using appendArgs_inline_ok[of ?b as s] a st by (simp add: argstate_ready_def inline_ok_wf)
  show "params_bytes (packed b) = params_bytes (packed b')" if "r = None"
    using packed_values[OF fit, of "las_packed st" ?b b] packed_values[OF fit, of newBuilder ?n b'] a n st that al(1)
    by (simp add: argstate_ready_def wf_newBuilder args_newBuilder) (simp add: newBuilder_def)
qed

lemma launch_pooled_equiv:
  assumes fit: "args_fit s as" and ps: "list_all argstate_ready ps"
    and r: "launch_pooled k fp ctx rawStream streamCtx cfg coop as ps s = (res, qs)"
  shows "res = launch fp ctx rawStream streamCtx cfg coop as s \<and> list_all argstate_ready qs"
proof (cases "\<exists>f i. fp = Some f \<and> valid cfg \<and> fmodule f = Some i \<and> \<not> (streamCtx \<noteq> None \<and> streamCtx \<noteq> Some (octx (modules s i))) \<and>
    \<not> oclosed (modules s i)")
  case True
  then obtain f i where f: "fp = Some f" "valid cfg" "fmodule f = Some i" "\<not> (streamCtx \<noteq> None \<and> streamCtx \<noteq> Some (octx (modules s i)))"
    "\<not> oclosed (modules s i)" by blast
  let ?c = "octx (modules s i)"
  obtain st ps1 where g: "poolGet k new_launchArgState ps = (st, ps1)" by (cases "poolGet k new_launchArgState ps")
  have st: "argstate_ready st" "list_all argstate_ready ps1" using las.get_ready[OF ps g] by simp_all
  let ?b = "(las_builder st)\<lparr>kbctx := Some ?c, packed := las_packed st\<rparr>"
  obtain e b where a: "appendArgs as s ?b = (e, b)" by (cases "appendArgs as s ?b")
  obtain e' b' where n: "appendArgs as s (newKernelArgBuilder (Some ?c) False) = (e', b')"
    by (cases "appendArgs as s (newKernelArgBuilder (Some ?c) False)")
  note eq = appendArgs_pooled[OF fit st(1) a n]
  show ?thesis
  proof (cases e)
    case None
    have ok: "inline_ok (packed (las_builder (st\<lparr>las_builder := b\<lparr>packed := snd (Params (packed b))\<rparr>\<rparr>)))" using eq(4) by (simp add: inline_ok_Params)
    have rl: "release (b\<lparr>packed := p\<rparr>) = release b" for p by (simp add: release_def lockAt_def)
    show ?thesis using r None f g a n eq(1-3) eq(5)[OF None] argstate_recycle[OF ok st(2)]
      by (auto simp: launch_pooled_def launch_def newLaunchArgState_def Let_def rl split: prod.splits)
  next
    case (Some x)
    have ok: "inline_ok (packed (las_builder (st\<lparr>las_builder := b\<rparr>)))" using eq(4) by simp
    show ?thesis using r Some f g a n eq(1-3) argstate_recycle[OF ok st(2)]
      by (auto simp: launch_pooled_def launch_def newLaunchArgState_def Let_def split: prod.splits)
  qed
next
  case False
  show ?thesis
  proof (cases fp)
    case None
    then show ?thesis using r ps by (simp add: launch_pooled_def launch_def)
  next
    case (Some f)
    show ?thesis
    proof (cases "fmodule f")
      case None
      then show ?thesis using r ps Some by (auto simp: launch_pooled_def launch_def)
    next
      case (Some i)
      then have "\<not> valid cfg \<or> (streamCtx \<noteq> None \<and> streamCtx \<noteq> Some (octx (modules s i))) \<or> oclosed (modules s i)"
        using False \<open>fp = Some f\<close> by blast
      then show ?thesis using r ps Some \<open>fp = Some f\<close> by (auto simp: launch_pooled_def launch_def Let_def split: if_splits)
    qed
  qed
qed

subsection \<open>Any sequence of launches\<close>

text \<open>A launch by its arguments, with the choice of the pool.\<close>

record launchCall =
  lc_choice :: nat
  lc_fn :: "Function option"
  lc_ctx :: "goctx option"
  lc_stream :: u64
  lc_streamCtx :: "nat option"
  lc_cfg :: LaunchConfig
  lc_coop :: bool
  lc_args :: "KernelArg option list"

fun launches :: "launchCall list \<Rightarrow> 'w rt \<Rightarrow> ((go_error + unit) \<times> lev list) list \<times> 'w rt" where
  "launches [] s = ([], s)"
| "launches (c # cs) s = (case launch (lc_fn c) (lc_ctx c) (lc_stream c) (lc_streamCtx c) (lc_cfg c) (lc_coop c) (lc_args c) s of
     (r, l, s1) \<Rightarrow> (case launches cs s1 of (rs, s2) \<Rightarrow> ((r, l) # rs, s2)))"

fun launches_pooled :: "launchCall list \<Rightarrow> launchArgState list \<Rightarrow> 'w rt \<Rightarrow>
    (((go_error + unit) \<times> lev list) list \<times> 'w rt) \<times> launchArgState list" where
  "launches_pooled [] ps s = (([], s), ps)"
| "launches_pooled (c # cs) ps s = (case launch_pooled (lc_choice c) (lc_fn c) (lc_ctx c) (lc_stream c) (lc_streamCtx c) (lc_cfg c)
       (lc_coop c) (lc_args c) ps s of
     ((r, l, s1), ps1) \<Rightarrow> (case launches_pooled cs ps1 s1 of ((rs, s2), ps2) \<Rightarrow> (((r, l) # rs, s2), ps2)))"

text \<open>The sizes of arguments do not depend on the state.\<close>

lemma args_fit_state: "args_fit s as = args_fit s' as"
proof -
  have "length (fst (arg_item s a)) = length (fst (arg_item s' a))" for a by (cases a) simp_all
  then show ?thesis by (simp add: args_fit_def)
qed

lemma launches_equiv:
  "list_all argstate_ready ps \<Longrightarrow> list_all (\<lambda>c. args_fit s (lc_args c)) cs \<Longrightarrow> launches_pooled cs ps s = (res, qs) \<Longrightarrow>
     res = launches cs s \<and> list_all argstate_ready qs"
proof (induction cs arbitrary: ps s res)
  case (Cons c cs)
  obtain r l s1 ps1 where 1: "launch_pooled (lc_choice c) (lc_fn c) (lc_ctx c) (lc_stream c) (lc_streamCtx c) (lc_cfg c)
       (lc_coop c) (lc_args c) ps s = ((r, l, s1), ps1)" by (metis prod.collapse)
  have e: "(r, l, s1) = launch (lc_fn c) (lc_ctx c) (lc_stream c) (lc_streamCtx c) (lc_cfg c) (lc_coop c) (lc_args c) s"
    and p: "list_all argstate_ready ps1"
    using launch_pooled_equiv[OF _ Cons.prems(1) 1] Cons.prems(2) by simp_all
  obtain rs s2 where 2: "launches_pooled cs ps1 s1 = ((rs, s2), qs)" using Cons.prems(3) 1 by (auto split: prod.splits)
  have "list_all (\<lambda>c. args_fit s1 (lc_args c)) cs" using Cons.prems(2) args_fit_state[of s _ s1] by (auto simp: list_all_iff)
  from Cons.IH[OF p this 2] show ?case using Cons.prems(3) 1 2 e[symmetric] by (auto split: prod.splits)
qed simp

text \<open>
  C35. Recycled launch states change nothing: in every sequence of launches, with whatever states the pool hands out, each launch has the result, the lock operations and the
  effect it has with a new state; and a state that went back to the pool holds no lock, no context and no argument, and at most 8 KiB of arena.
\<close>

theorem pooled_launches:
  assumes "list_all (\<lambda>c. args_fit s (lc_args c)) cs"
  shows "fst (launches_pooled cs [] s) = launches cs s \<and> list_all argstate_ready (snd (launches_pooled cs [] s))"
  using launches_equiv[OF _ assms, of "[]"] by (metis list.pred_inject(1) prod.collapse)

text \<open>Two launches, the second with the state of the first; the arguments of both spill into the arena.\<close>

definition two_launches :: "launchCall list" where
  "two_launches = (let c = \<lparr>lc_choice = 0, lc_fn = Some one_kernel, lc_ctx = bg, lc_stream = 0, lc_streamCtx = None, lc_cfg = LaunchConfig1D 3 2,
     lc_coop = False, lc_args = [Some (ArgRaw (Some (replicate 9 1)) 9), Some (Arg (Some 0))]\<rparr> in [c, c])"

lemma pooled_launches_witness:
  "fst (launches_pooled two_launches [] one_module) = launches two_launches one_module \<and>
   map (\<lambda>st. length (spillBack (las_packed st))) (snd (launches_pooled two_launches [] one_module)) = [64]"
proof -
  have f: "list_all (\<lambda>c. args_fit one_module (lc_args c)) two_launches"
    by (simp add: two_launches_def Let_def args_fit_def unat_numeral)
  have "map (\<lambda>st. length (spillBack (las_packed st))) (snd (launches_pooled two_launches [] one_module)) = [64]" by code_simp
  then show ?thesis using pooled_launches[OF f] by simp
qed

end
