(* ===== verification/OpPools.thy ===== *)
theory OpPools
  imports LaunchPool
begin

section \<open>The pools of operation objects\<close>

text \<open>
  The objects of \<^verbatim>\<open>cuda/dispatch.go\<close> and \<^verbatim>\<open>cuda/event_dispatch.go\<close> that \<^verbatim>\<open>Dispatch\<close> models by the call they make, with their pools. Each function takes an object, fills
  it in, submits it, clears what must not stay reachable and puts it back. A \<^verbatim>\<open>syncOp\<close> is put back by the executor, which does so exactly once.
\<close>

subsection \<open>Two- and three-dimensional copies\<close>

record 'w memcpy2DOp =
  c2_driver :: "'w Driver option"
  c2_desc :: Memcpy2D_desc

definition new_memcpy2DOp :: "'w memcpy2DOp" where
  "new_memcpy2DOp = \<lparr>c2_driver = None, c2_desc = zero_Memcpy2D\<rparr>"

definition memcpy2DOp_Run :: "'w memcpy2DOp \<Rightarrow> ('w, u8 list) drv" where
  "memcpy2DOp_Run m = Memcpy2D (c2_driver m) (c2_desc m)"

definition memcpy2D_with :: "nat \<Rightarrow> goctx option \<Rightarrow> Memcpy2D_desc \<Rightarrow> 'w sys \<Rightarrow> 'w memcpy2DOp \<Rightarrow> ((go_error + u8 list) \<times> 'w sys) \<times> 'w memcpy2DOp" where
  "memcpy2D_with c ctx desc s m = (let m1 = m\<lparr>c2_driver := driver (ctxs s c), c2_desc := desc\<rparr>
     in (doCopyJob (Some c) ctx (memcpy2DOp_Run m1) s, m1\<lparr>c2_desc := zero_Memcpy2D\<rparr>))"

record 'w memcpy3DOp =
  c3_driver :: "'w Driver option"
  c3_desc :: Memcpy3D_desc

definition new_memcpy3DOp :: "'w memcpy3DOp" where
  "new_memcpy3DOp = \<lparr>c3_driver = None, c3_desc = zero_Memcpy3D\<rparr>"

definition memcpy3DOp_Run :: "'w memcpy3DOp \<Rightarrow> ('w, u8 list) drv" where
  "memcpy3DOp_Run m = Memcpy3D (c3_driver m) (c3_desc m)"

definition memcpy3D_with :: "nat \<Rightarrow> goctx option \<Rightarrow> Memcpy3D_desc \<Rightarrow> 'w sys \<Rightarrow> 'w memcpy3DOp \<Rightarrow> ((go_error + u8 list) \<times> 'w sys) \<times> 'w memcpy3DOp" where
  "memcpy3D_with c ctx desc s m = (let m1 = m\<lparr>c3_driver := driver (ctxs s c), c3_desc := desc\<rparr>
     in (doCopyJob (Some c) ctx (memcpy3DOp_Run m1) s, m1\<lparr>c3_desc := zero_Memcpy3D\<rparr>))"

record 'w memcpy2DAsyncOp =
  a2_driver :: "'w Driver option"
  a2_desc :: Memcpy2D_desc
  a2_stream :: u64

definition memcpy2DAsyncOp_reset :: "'w memcpy2DAsyncOp" where
  "memcpy2DAsyncOp_reset = \<lparr>a2_driver = None, a2_desc = zero_Memcpy2D, a2_stream = 0\<rparr>"

definition memcpy2DAsyncOp_Run :: "'w memcpy2DAsyncOp \<Rightarrow> ('w, unit) drv" where
  "memcpy2DAsyncOp_Run m = Memcpy2DAsync (a2_driver m) (a2_desc m) (a2_stream m)"

definition memcpy2DAsync_with :: "nat \<Rightarrow> goctx option \<Rightarrow> Memcpy2D_desc \<Rightarrow> u64 \<Rightarrow> 'w sys \<Rightarrow> 'w memcpy2DAsyncOp \<Rightarrow>
    ((go_error + unit) \<times> 'w sys) \<times> 'w memcpy2DAsyncOp" where
  "memcpy2DAsync_with c ctx desc stream s m = (let m1 = m\<lparr>a2_driver := driver (ctxs s c), a2_desc := desc, a2_stream := stream\<rparr>
     in (doJob (Some c) ctx (memcpy2DAsyncOp_Run m1) s, memcpy2DAsyncOp_reset))"

record 'w memcpy3DAsyncOp =
  a3_driver :: "'w Driver option"
  a3_desc :: Memcpy3D_desc
  a3_stream :: u64

definition memcpy3DAsyncOp_reset :: "'w memcpy3DAsyncOp" where
  "memcpy3DAsyncOp_reset = \<lparr>a3_driver = None, a3_desc = zero_Memcpy3D, a3_stream = 0\<rparr>"

definition memcpy3DAsyncOp_Run :: "'w memcpy3DAsyncOp \<Rightarrow> ('w, unit) drv" where
  "memcpy3DAsyncOp_Run m = Memcpy3DAsync (a3_driver m) (a3_desc m) (a3_stream m)"

definition memcpy3DAsync_with :: "nat \<Rightarrow> goctx option \<Rightarrow> Memcpy3D_desc \<Rightarrow> u64 \<Rightarrow> 'w sys \<Rightarrow> 'w memcpy3DAsyncOp \<Rightarrow>
    ((go_error + unit) \<times> 'w sys) \<times> 'w memcpy3DAsyncOp" where
  "memcpy3DAsync_with c ctx desc stream s m = (let m1 = m\<lparr>a3_driver := driver (ctxs s c), a3_desc := desc, a3_stream := stream\<rparr>
     in (doJob (Some c) ctx (memcpy3DAsyncOp_Run m1) s, memcpy3DAsyncOp_reset))"

subsection \<open>Launches, graphs, event times and synchronisation\<close>

definition new_launchOp :: "'w launchOp" where
  "new_launchOp = \<lparr>lo_driver = None, lo_params = [],
     lo_cfg = \<lparr>GridX = 0, GridY = 0, GridZ = 0, BlockX = 0, BlockY = 0, BlockZ = 0, SharedMemBytes = 0\<rparr>,
     lo_fn = 0, lo_stream = 0, lo_coop = False\<rparr>"

definition launchOp_recycle :: "'w launchOp \<Rightarrow> 'w launchOp" where
  "launchOp_recycle m = m\<lparr>lo_params := []\<rparr>"

definition launchKernel_with :: "nat \<Rightarrow> goctx option \<Rightarrow> u64 \<Rightarrow> LaunchConfig \<Rightarrow> u64 \<Rightarrow> u8 list list \<Rightarrow> bool \<Rightarrow> 'w sys \<Rightarrow> 'w launchOp \<Rightarrow>
    ((go_error + unit) \<times> 'w sys) \<times> 'w launchOp" where
  "launchKernel_with c ctx fn cfg stream params cooperative s m =
     (let m1 = m\<lparr>lo_driver := driver (ctxs s c), lo_fn := fn, lo_cfg := cfg, lo_stream := stream, lo_params := params, lo_coop := cooperative\<rparr>
      in (doJob (Some c) ctx (launchOp_Run m1) s, launchOp_recycle m1))"

record 'w graphLaunchOp =
  gl_driver :: "'w Driver option"
  gl_exec :: u64
  gl_stream :: u64

definition new_graphLaunchOp :: "'w graphLaunchOp" where
  "new_graphLaunchOp = \<lparr>gl_driver = None, gl_exec = 0, gl_stream = 0\<rparr>"

definition graphLaunchOp_Run :: "'w graphLaunchOp \<Rightarrow> ('w, unit) drv" where
  "graphLaunchOp_Run m = GraphLaunch (gl_driver m) (gl_exec m) (gl_stream m)"

definition graphLaunch_with :: "nat \<Rightarrow> goctx option \<Rightarrow> u64 \<Rightarrow> u64 \<Rightarrow> 'w sys \<Rightarrow> 'w graphLaunchOp \<Rightarrow> ((go_error + unit) \<times> 'w sys) \<times> 'w graphLaunchOp" where
  "graphLaunch_with c ctx gexec stream s m = (let m1 = m\<lparr>gl_driver := driver (ctxs s c), gl_exec := gexec, gl_stream := stream\<rparr>
     in (doJob (Some c) ctx (graphLaunchOp_Run m1) s, m1))"

text \<open>The time goes through the field \<^verbatim>\<open>ms\<close> of the object: \<^verbatim>\<open>Run\<close> stores it, and it is read after the job, before the object is reset.\<close>

record 'w eventElapsedOp =
  ee_driver :: "'w Driver option"
  ee_start :: u64
  ee_end :: u64
  ee_ms :: u32

definition eventElapsedOp_reset :: "'w eventElapsedOp" where
  "eventElapsedOp_reset = \<lparr>ee_driver = None, ee_start = 0, ee_end = 0, ee_ms = 0\<rparr>"

definition eventElapsedOp_Run :: "'w eventElapsedOp \<Rightarrow> ('w, 'w eventElapsedOp) drv" where
  "eventElapsedOp_Run m = andThen (EventElapsedTime (ee_driver m) (ee_start m) (ee_end m)) (\<lambda>ms. ret (m\<lparr>ee_ms := ms\<rparr>))"

definition eventElapsed_with :: "nat \<Rightarrow> u64 \<Rightarrow> u64 \<Rightarrow> 'w sys \<Rightarrow> 'w eventElapsedOp \<Rightarrow> ((go_error + u32) \<times> 'w sys) \<times> 'w eventElapsedOp" where
  "eventElapsed_with c ev0 ev1 s m = (let m1 = m\<lparr>ee_driver := driver (ctxs s c), ee_start := ev0, ee_end := ev1\<rparr> in
     case doJob (Some c) (Some Background) (eventElapsedOp_Run m1) s of
       (Inl e, s1) \<Rightarrow> ((Inl e, s1), eventElapsedOp_reset)
     | (Inr m2, s1) \<Rightarrow> ((Inr (ee_ms m2), s1), eventElapsedOp_reset))"

definition newSyncOp_from :: "'w syncOp \<Rightarrow> 'w Driver option \<Rightarrow> syncOpKind \<Rightarrow> u64 \<Rightarrow> u64 \<Rightarrow> u32 \<Rightarrow> 'w syncOp" where
  "newSyncOp_from m d kind stream event flags =
     m\<lparr>so_driver := d, so_kind := kind, so_stream := stream, so_event := event, so_flags := flags\<rparr>"

text \<open>\<^verbatim>\<open>newSyncOp\<close> overwrites every field, so a recycled object needs no clearing.\<close>

lemma newSyncOp_from: "newSyncOp_from m d kind stream event flags = newSyncOp d kind stream event flags"
  by (simp add: newSyncOp_from_def newSyncOp_def)

subsection \<open>Each object is the call it stands for\<close>

lemma DoJob_map:
  "DoJob ctx (andThen job (\<lambda>x. ret (f x))) y = (case DoJob ctx job y of (r, y1) \<Rightarrow> (map_sum id f r, y1))"
  by (auto simp: DoJob_def xwork_def andThen_def ret_def Let_def split: prod.splits option.splits sum.splits)

lemma doJob_map:
  "doJob cp ctx (andThen job (\<lambda>x. ret (f x))) s = (case doJob cp ctx job s of (r, s1) \<Rightarrow> (map_sum id f r, s1))"
  by (simp add: doJob_def on_exec_def xrun_def DoJob_map Let_def split: prod.splits option.splits)

lemma objects_equiv:
  "fst (memcpy2D_with c ctx d2 s m2) = memcpy2D c ctx d2 s"
  "fst (memcpy3D_with c ctx d3 s m3) = memcpy3D c ctx d3 s"
  "fst (memcpy2DAsync_with c ctx d2 st s ma2) = memcpy2DAsync c ctx d2 st s"
  "fst (memcpy3DAsync_with c ctx d3 st s ma3) = memcpy3DAsync c ctx d3 st s"
  "fst (launchKernel_with c ctx fn cfg st params coop s ml) = launchKernel c ctx fn cfg st params coop s"
  "fst (graphLaunch_with c ctx ge st s mg) = graphLaunch c ctx ge st s"
  by (simp_all add: memcpy2D_with_def memcpy3D_with_def memcpy2DAsync_with_def memcpy3DAsync_with_def launchKernel_with_def graphLaunch_with_def
      memcpy2D_def memcpy3D_def memcpy2DAsync_def memcpy3DAsync_def launchKernel_def graphLaunch_def Let_def
      memcpy2DOp_Run_def memcpy3DOp_Run_def memcpy2DAsyncOp_Run_def memcpy3DAsyncOp_Run_def launchOp_Run_def graphLaunchOp_Run_def)

lemma elapsed_equiv: "fst (eventElapsed_with c ev0 ev1 s me) = eventElapsed (Some c) ev0 ev1 s"
proof -
  obtain r s1 where r: "doJob (Some c) bg (EventElapsedTime (driver (ctxs s c)) ev0 ev1) s = (r, s1)"
    by (cases "doJob (Some c) bg (EventElapsedTime (driver (ctxs s c)) ev0 ev1) s")
  then show ?thesis by (cases r) (simp_all add: eventElapsed_with_def eventElapsed_def eventElapsedOp_Run_def Let_def doJob_map)
qed

subsection \<open>Programs over the pools\<close>

datatype memcall = HtoD u64 hostptr u64 | DtoH hostptr u64 u64 | DtoD u64 u64 u64
  | HtoDAsync u64 hostptr u64 u64 | DtoHAsync hostptr u64 u64 u64 | DtoDAsync u64 u64 u64 u64
  | Memset u64 u32 u64 u64 | MemsetAsync u64 u32 u64 u64 u64

fun mem_fill :: "memcall \<Rightarrow> 'w memOp \<Rightarrow> 'w memOp" where
  "mem_fill (HtoD dst host n) m = m\<lparr>mo_kind := opHtoD, mo_dst := dst, mo_host := host, mo_n := n\<rparr>"
| "mem_fill (DtoH host src n) m = m\<lparr>mo_kind := opDtoH, mo_host := host, mo_src := src, mo_n := n\<rparr>"
| "mem_fill (DtoD dst src n) m = m\<lparr>mo_kind := opDtoD, mo_dst := dst, mo_src := src, mo_n := n\<rparr>"
| "mem_fill (HtoDAsync dst host n st) m = m\<lparr>mo_kind := opHtoDAsync, mo_dst := dst, mo_host := host, mo_n := n, mo_stream := st\<rparr>"
| "mem_fill (DtoHAsync host src n st) m = m\<lparr>mo_kind := opDtoHAsync, mo_host := host, mo_src := src, mo_n := n, mo_stream := st\<rparr>"
| "mem_fill (DtoDAsync dst src n st) m = m\<lparr>mo_kind := opDtoDAsync, mo_dst := dst, mo_src := src, mo_n := n, mo_stream := st\<rparr>"
| "mem_fill (Memset dst val n siz) m = m\<lparr>mo_kind := memsetKind opMemset8 siz, mo_dst := dst, mo_val := val, mo_n := n\<rparr>"
| "mem_fill (MemsetAsync dst val n siz st) m =
     m\<lparr>mo_kind := memsetKind opMemset8Async siz, mo_dst := dst, mo_val := val, mo_n := n, mo_stream := st\<rparr>"

text \<open>The call itself, with no object: the copy or memset of \<^verbatim>\<open>cudaresult\<close> on its executor.\<close>

fun mem_call :: "memcall \<Rightarrow> nat \<Rightarrow> goctx option \<Rightarrow> ('w, u8 list) op" where
  "mem_call (HtoD dst host n) c ctx s = doCopyJob (Some c) ctx (no_bytes (MemcpyHtoD (driver (ctxs s c)) dst host n)) s"
| "mem_call (DtoH host src n) c ctx s = doCopyJob (Some c) ctx (MemcpyDtoH (driver (ctxs s c)) host src n) s"
| "mem_call (DtoD dst src n) c ctx s = doCopyJob (Some c) ctx (no_bytes (MemcpyDtoD (driver (ctxs s c)) dst src n)) s"
| "mem_call (HtoDAsync dst host n st) c ctx s = doJob (Some c) ctx (no_bytes (MemcpyHtoDAsync (driver (ctxs s c)) dst host n st)) s"
| "mem_call (DtoHAsync host src n st) c ctx s = doJob (Some c) ctx (no_bytes (MemcpyDtoHAsync (driver (ctxs s c)) host src n st)) s"
| "mem_call (DtoDAsync dst src n st) c ctx s = doJob (Some c) ctx (no_bytes (MemcpyDtoDAsync (driver (ctxs s c)) dst src n st)) s"
| "mem_call (Memset dst val n siz) c ctx s = doJob (Some c) ctx (no_bytes (memset_call (driver (ctxs s c)) dst val n siz)) s"
| "mem_call (MemsetAsync dst val n siz st) c ctx s = doJob (Some c) ctx (no_bytes (memset_call_async (driver (ctxs s c)) dst val n siz st)) s"

lemma mem_equiv: "fst (run_memOp c ctx (mem_fill call m) s) = mem_call call c ctx s"
  using pooled_copies[of m c ctx] pooled_async_copies[of m c ctx] pooled_memsets[of m c ctx]
  by (cases call) (simp_all add: memcpyHtoD_def memcpyDtoH_def memcpyDtoD_def memcpyHtoDAsync_def memcpyDtoHAsync_def memcpyDtoDAsync_def
      memset_def memsetAsync_def)

datatype pcall = PMem memcall | P2D Memcpy2D_desc | P3D Memcpy3D_desc | P2DAsync Memcpy2D_desc u64 | P3DAsync Memcpy3D_desc u64
  | PLaunch u64 LaunchConfig u64 "u8 list list" bool | PGraph u64 u64 | PElapsed u64 u64

record 'w pools =
  memOpPool :: "'w memOp list"
  memcpy2DOpPool :: "'w memcpy2DOp list"
  memcpy3DOpPool :: "'w memcpy3DOp list"
  memcpy2DAsyncOpPool :: "'w memcpy2DAsyncOp list"
  memcpy3DAsyncOpPool :: "'w memcpy3DAsyncOp list"
  launchOpPool :: "'w launchOp list"
  graphLaunchOpPool :: "'w graphLaunchOp list"
  eventElapsedOpPool :: "'w eventElapsedOp list"

definition emptyPools :: "'w pools" where
  "emptyPools = \<lparr>memOpPool = [], memcpy2DOpPool = [], memcpy3DOpPool = [], memcpy2DAsyncOpPool = [], memcpy3DAsyncOpPool = [],
     launchOpPool = [], graphLaunchOpPool = [], eventElapsedOpPool = []\<rparr>"

text \<open>An object is taken, used and put back. Results are bytes: those read, none, or those of a time.\<close>

definition cycle :: "nat \<Rightarrow> 'o \<Rightarrow> ('o \<Rightarrow> ((go_error + 'a) \<times> 'w sys) \<times> 'o) \<Rightarrow> ('a \<Rightarrow> u8 list) \<Rightarrow> 'o list \<Rightarrow> ((go_error + u8 list) \<times> 'w sys) \<times> 'o list" where
  "cycle k new use f ps = (case poolGet k new ps of (m, qs) \<Rightarrow> (case use m of ((r, s), m1) \<Rightarrow> ((map_sum id f r, s), poolPut m1 qs)))"

definition mapped :: "('a \<Rightarrow> u8 list) \<Rightarrow> (go_error + 'a) \<times> 'w sys \<Rightarrow> (go_error + u8 list) \<times> 'w sys" where
  "mapped f x = (map_sum id f (fst x), snd x)"

fun pool_exec :: "nat \<Rightarrow> nat \<Rightarrow> goctx option \<Rightarrow> pcall \<Rightarrow> 'w pools \<Rightarrow> 'w sys \<Rightarrow> ((go_error + u8 list) \<times> 'w sys) \<times> 'w pools" where
  "pool_exec k c ctx (PMem call) P s =
     (case cycle k new_memOp (\<lambda>m. run_memOp c ctx (mem_fill call m) s) id (memOpPool P) of (x, qs) \<Rightarrow> (x, P\<lparr>memOpPool := qs\<rparr>))"
| "pool_exec k c ctx (P2D desc) P s =
     (case cycle k new_memcpy2DOp (memcpy2D_with c ctx desc s) id (memcpy2DOpPool P) of (x, qs) \<Rightarrow> (x, P\<lparr>memcpy2DOpPool := qs\<rparr>))"
| "pool_exec k c ctx (P3D desc) P s =
     (case cycle k new_memcpy3DOp (memcpy3D_with c ctx desc s) id (memcpy3DOpPool P) of (x, qs) \<Rightarrow> (x, P\<lparr>memcpy3DOpPool := qs\<rparr>))"
| "pool_exec k c ctx (P2DAsync desc st) P s =
     (case cycle k memcpy2DAsyncOp_reset (memcpy2DAsync_with c ctx desc st s) (\<lambda>_. []) (memcpy2DAsyncOpPool P) of
        (x, qs) \<Rightarrow> (x, P\<lparr>memcpy2DAsyncOpPool := qs\<rparr>))"
| "pool_exec k c ctx (P3DAsync desc st) P s =
     (case cycle k memcpy3DAsyncOp_reset (memcpy3DAsync_with c ctx desc st s) (\<lambda>_. []) (memcpy3DAsyncOpPool P) of
        (x, qs) \<Rightarrow> (x, P\<lparr>memcpy3DAsyncOpPool := qs\<rparr>))"
| "pool_exec k c ctx (PLaunch fn cfg st params coop) P s =
     (case cycle k new_launchOp (launchKernel_with c ctx fn cfg st params coop s) (\<lambda>_. []) (launchOpPool P) of
        (x, qs) \<Rightarrow> (x, P\<lparr>launchOpPool := qs\<rparr>))"
| "pool_exec k c ctx (PGraph ge st) P s =
     (case cycle k new_graphLaunchOp (graphLaunch_with c ctx ge st s) (\<lambda>_. []) (graphLaunchOpPool P) of
        (x, qs) \<Rightarrow> (x, P\<lparr>graphLaunchOpPool := qs\<rparr>))"
| "pool_exec k c ctx (PElapsed ev0 ev1) P s =
     (case cycle k eventElapsedOp_reset (eventElapsed_with c ev0 ev1 s) (\<lambda>ms. le_bytes 4 (ucast ms)) (eventElapsedOpPool P) of
        (x, qs) \<Rightarrow> (x, P\<lparr>eventElapsedOpPool := qs\<rparr>))"

fun plain_exec :: "nat \<Rightarrow> goctx option \<Rightarrow> pcall \<Rightarrow> ('w, u8 list) op" where
  "plain_exec c ctx (PMem call) s = mem_call call c ctx s"
| "plain_exec c ctx (P2D desc) s = memcpy2D c ctx desc s"
| "plain_exec c ctx (P3D desc) s = memcpy3D c ctx desc s"
| "plain_exec c ctx (P2DAsync desc st) s = mapped (\<lambda>_. []) (memcpy2DAsync c ctx desc st s)"
| "plain_exec c ctx (P3DAsync desc st) s = mapped (\<lambda>_. []) (memcpy3DAsync c ctx desc st s)"
| "plain_exec c ctx (PLaunch fn cfg st params coop) s = mapped (\<lambda>_. []) (launchKernel c ctx fn cfg st params coop s)"
| "plain_exec c ctx (PGraph ge st) s = mapped (\<lambda>_. []) (graphLaunch c ctx ge st s)"
| "plain_exec c ctx (PElapsed ev0 ev1) s = mapped (\<lambda>ms. le_bytes 4 (ucast ms)) (eventElapsed (Some c) ev0 ev1 s)"

lemma cycle_equiv:
  assumes "\<And>m. fst (use m) = x"
  shows "fst (cycle k new use f ps) = mapped f x"
  using assms by (auto simp: cycle_def mapped_def split: prod.splits) (metis fst_conv snd_conv)+

lemma mapped_id [simp]: "mapped id x = x"
  by (simp add: mapped_def sum.map_id)

lemma fst_case_pair: "fst (case p of (x, qs) \<Rightarrow> (x, F qs)) = fst p"
  by (simp add: split_beta)

lemma pool_exec_equiv: "fst (pool_exec k c ctx call P s) = plain_exec c ctx call s"
  by (cases call) (simp_all add: fst_case_pair cycle_equiv[OF mem_equiv] cycle_equiv[OF objects_equiv(1)] cycle_equiv[OF objects_equiv(2)]
      cycle_equiv[OF objects_equiv(3)] cycle_equiv[OF objects_equiv(4)] cycle_equiv[OF objects_equiv(5)] cycle_equiv[OF objects_equiv(6)]
      cycle_equiv[OF elapsed_equiv])

subsection \<open>What the pools keep reachable\<close>

text \<open>The objects of a pool as they are between calls: no pointer to the memory of a caller.\<close>

interpretation pool_mem: object_pool new_memOp "\<lambda>m. mo_host m = HNil" "\<lambda>_. True" memOp_recycle
  by unfold_locales (simp_all add: new_memOp_def memOp_recycle_def)

interpretation pool_2d: object_pool new_memcpy2DOp "\<lambda>m. c2_desc m = zero_Memcpy2D" "\<lambda>_. True" "\<lambda>m. m\<lparr>c2_desc := zero_Memcpy2D\<rparr>"
  by unfold_locales (simp_all add: new_memcpy2DOp_def)

interpretation pool_3d: object_pool new_memcpy3DOp "\<lambda>m. c3_desc m = zero_Memcpy3D" "\<lambda>_. True" "\<lambda>m. m\<lparr>c3_desc := zero_Memcpy3D\<rparr>"
  by unfold_locales (simp_all add: new_memcpy3DOp_def)

interpretation pool_2da: object_pool memcpy2DAsyncOp_reset "\<lambda>m. m = memcpy2DAsyncOp_reset" "\<lambda>_. True" "\<lambda>_. memcpy2DAsyncOp_reset"
  by unfold_locales simp_all

interpretation pool_3da: object_pool memcpy3DAsyncOp_reset "\<lambda>m. m = memcpy3DAsyncOp_reset" "\<lambda>_. True" "\<lambda>_. memcpy3DAsyncOp_reset"
  by unfold_locales simp_all

interpretation pool_launch: object_pool new_launchOp "\<lambda>m. lo_params m = []" "\<lambda>_. True" launchOp_recycle
  by unfold_locales (simp_all add: new_launchOp_def launchOp_recycle_def)

interpretation pool_elapsed: object_pool eventElapsedOp_reset "\<lambda>m. m = eventElapsedOp_reset" "\<lambda>_. True" "\<lambda>_. eventElapsedOp_reset"
  by unfold_locales simp_all

context object_pool
begin

lemma cycle_ready:
  assumes "list_all ready ps" and "\<And>m. \<exists>z. used z \<and> snd (use m) = recycle z" and "cycle k new use f ps = (x, qs)"
  shows "list_all ready qs"
proof -
  obtain m ps1 where g: "poolGet k new ps = (m, ps1)" by (cases "poolGet k new ps")
  obtain z where z: "used z" "snd (use m) = recycle z" using assms(2) by blast
  then show ?thesis using assms(3) g put_ready[OF z(1), of ps1] get_ready[OF assms(1) g] by (auto simp: cycle_def split: prod.splits)
qed

end

definition pools_clear :: "'w pools \<Rightarrow> bool" where
  "pools_clear P = (list_all (\<lambda>m. mo_host m = HNil) (memOpPool P) \<and> list_all (\<lambda>m. c2_desc m = zero_Memcpy2D) (memcpy2DOpPool P) \<and>
     list_all (\<lambda>m. c3_desc m = zero_Memcpy3D) (memcpy3DOpPool P) \<and> list_all (\<lambda>m. m = memcpy2DAsyncOp_reset) (memcpy2DAsyncOpPool P) \<and>
     list_all (\<lambda>m. m = memcpy3DAsyncOp_reset) (memcpy3DAsyncOpPool P) \<and> list_all (\<lambda>m. lo_params m = []) (launchOpPool P) \<and>
     list_all (\<lambda>m. m = eventElapsedOp_reset) (eventElapsedOpPool P))"

lemma recycled_after:
  "\<exists>z. True \<and> snd (run_memOp c ctx m s) = memOp_recycle z"
  "\<exists>z. True \<and> snd (memcpy2D_with c ctx d2 s m2) = z\<lparr>c2_desc := zero_Memcpy2D\<rparr>"
  "\<exists>z. True \<and> snd (memcpy3D_with c ctx d3 s m3) = z\<lparr>c3_desc := zero_Memcpy3D\<rparr>"
  "\<exists>z :: 'w memcpy2DAsyncOp. True \<and> snd (memcpy2DAsync_with c ctx d2 st s ma2) = memcpy2DAsyncOp_reset"
  "\<exists>z :: 'w memcpy3DAsyncOp. True \<and> snd (memcpy3DAsync_with c ctx d3 st s ma3) = memcpy3DAsyncOp_reset"
  "\<exists>z. True \<and> snd (launchKernel_with c ctx fn cfg st params coop s ml) = launchOp_recycle z"
  "\<exists>z :: 'w eventElapsedOp. True \<and> snd (eventElapsed_with c ev0 ev1 s me) = eventElapsedOp_reset"
  by (auto simp: run_memOp_def memcpy2D_with_def memcpy3D_with_def memcpy2DAsync_with_def memcpy3DAsync_with_def launchKernel_with_def
      eventElapsed_with_def Let_def split: prod.splits sum.splits)

lemmas cycle_clear = pool_mem.cycle_ready[OF _ recycled_after(1)] pool_2d.cycle_ready[OF _ recycled_after(2)]
  pool_3d.cycle_ready[OF _ recycled_after(3)] pool_2da.cycle_ready[OF _ recycled_after(4)] pool_3da.cycle_ready[OF _ recycled_after(5)]
  pool_launch.cycle_ready[OF _ recycled_after(6)] pool_elapsed.cycle_ready[OF _ recycled_after(7)]

lemma pool_exec_clear: "pools_clear P \<Longrightarrow> pool_exec k c ctx call P s = (x, Q) \<Longrightarrow> pools_clear Q"
  by (cases call) (auto simp: pools_clear_def split: prod.splits dest: cycle_clear)

fun pool_runs :: "(nat \<times> nat \<times> goctx option \<times> pcall) list \<Rightarrow> 'w pools \<Rightarrow> 'w sys \<Rightarrow> ((go_error + u8 list) list \<times> 'w sys) \<times> 'w pools" where
  "pool_runs [] P s = (([], s), P)"
| "pool_runs ((k, c, ctx, call) # cs) P s = (case pool_exec k c ctx call P s of ((r, s1), P1) \<Rightarrow>
     (case pool_runs cs P1 s1 of ((rs, s2), P2) \<Rightarrow> ((r # rs, s2), P2)))"

fun plain_runs :: "(nat \<times> nat \<times> goctx option \<times> pcall) list \<Rightarrow> 'w sys \<Rightarrow> (go_error + u8 list) list \<times> 'w sys" where
  "plain_runs [] s = ([], s)"
| "plain_runs ((k, c, ctx, call) # cs) s = (case plain_exec c ctx call s of (r, s1) \<Rightarrow>
     (case plain_runs cs s1 of (rs, s2) \<Rightarrow> (r # rs, s2)))"

lemma pool_runs_equiv: "pools_clear P \<Longrightarrow> fst (pool_runs cs P s) = plain_runs cs s \<and> pools_clear (snd (pool_runs cs P s))"
proof (induction cs P s rule: pool_runs.induct)
  case (2 k c ctx call cs P s)
  obtain r s1 P1 where 1: "pool_exec k c ctx call P s = ((r, s1), P1)" by (metis prod.collapse)
  then have "plain_exec c ctx call s = (r, s1)" "pools_clear P1" using pool_exec_equiv[of k c ctx call P s] pool_exec_clear[OF 2(2) 1] by simp_all
  then show ?case using 2(1)[OF 1[symmetric] refl] 1 by (auto simp: split_beta)
qed simp

text \<open>
  C34. The pools are transparent: in every sequence of copies, memsets, two- and three-dimensional copies, launches, graph launches and event times, over any contexts and with
  whatever objects the pools hand out, every operation returns and does what the driver call it stands for returns and does, dispatched to its executor; and
  between operations no pooled object holds a pointer into memory or a parameter array of a caller.
\<close>

theorem pooled_programs:
  "fst (pool_runs cs emptyPools s) = plain_runs cs s \<and> pools_clear (snd (pool_runs cs emptyPools s))"
  by (rule pool_runs_equiv) (simp add: pools_clear_def emptyPools_def)

end
