(* ===== verification/Binding.thy ===== *)
theory Binding
  imports LoaderProps
begin

section \<open>Binding entry points to addresses\<close>

text \<open>
  \<^verbatim>\<open>Loader\<close> says which entry points of a loaded driver are bound. Here are the fields themselves (\<^verbatim>\<open>cudasys/driver.go\<close>, \<^verbatim>\<open>cudasys/syscall_bind.go\<close>,
  \<^verbatim>\<open>cudasys/lookup_windows.go\<close>, \<^verbatim>\<open>cudasys/ipc_bind_windows.go\<close>, \<^verbatim>\<open>cudasys/ipc_bind_notwindows.go\<close>): a field of \<^verbatim>\<open>Driver\<close> is nil or calls through the address its
  symbol resolved to. A field is named by the symbol that its entry of the tables binds. The two functions that take a 64-byte handle by value call through a reference to the handle on
  Windows and through purego's registration elsewhere, which panics when it cannot make such a call; that is a parameter, as is calling an address.
\<close>

datatype adapter = SyscallN u64 | SyscallNByRef u64 | Registered Library string

type_synonym fields = "string \<rightharpoonup> adapter"

text \<open>The result register holds a 32-bit code in its low half.\<close>

definition cures :: "u64 \<Rightarrow> CUresult" where
  "cures r1 = ucast r1"

definition call_adapter :: "(u64 \<Rightarrow> bool \<Rightarrow> drvcall \<Rightarrow> tid \<Rightarrow> 'w \<Rightarrow> (u64 \<times> out) \<times> 'w) \<Rightarrow>
    (Library \<Rightarrow> string \<Rightarrow> drvcall \<Rightarrow> tid \<Rightarrow> 'w \<Rightarrow> (CUresult \<times> out) \<times> 'w) \<Rightarrow> adapter \<Rightarrow> drvcall \<Rightarrow> tid \<Rightarrow> 'w \<Rightarrow> (CUresult \<times> out) \<times> 'w" where
  "call_adapter syscall registered a c t w = (case a of
     SyscallN addr \<Rightarrow> (case syscall addr False c t w of ((r1, x), w1) \<Rightarrow> ((cures r1, x), w1))
   | SyscallNByRef addr \<Rightarrow> (case syscall addr True c t w of ((r1, x), w1) \<Rightarrow> ((cures r1, x), w1))
   | Registered lib name \<Rightarrow> registered lib name c t w)"

definition lookupSymbol_windows :: "(Library \<Rightarrow> string \<Rightarrow> go_error + u64) \<Rightarrow> Library \<Rightarrow> string \<Rightarrow> go_error + u64" where
  "lookupSymbol_windows getProcAddress lib name = (case getProcAddress lib name of
     Inl e \<Rightarrow> Inl (WrapErr (''cudasys: lookup '' @ [CHR 0x22] @ name @ [CHR 0x22] @ '': '') e)
   | Inr addr \<Rightarrow> if addr = 0 then Inl (Sentinel (''cudasys: lookup '' @ [CHR 0x22] @ name @ [CHR 0x22] @ '': nil address'')) else Inr addr)"

text \<open>\<^verbatim>\<open>bind\<close>: a panic of the registration is recovered as an error, and the field stays nil.\<close>

definition bind :: "(Library \<Rightarrow> string \<Rightarrow> string option) \<Rightarrow> Library \<Rightarrow> string \<Rightarrow> fields \<Rightarrow> go_error option \<times> fields" where
  "bind register lib name d = (case register lib name of
     Some r \<Rightarrow> (Some (Sentinel (''cudasys: bind '' @ [CHR 0x22] @ name @ [CHR 0x22] @ '': '' @ r)), d)
   | None \<Rightarrow> (None, d(name \<mapsto> Registered lib name)))"

definition bindByValueIPC :: "(Library \<Rightarrow> string \<Rightarrow> string option) \<Rightarrow> (string \<Rightarrow> go_error + u64) \<Rightarrow> Library \<Rightarrow> fields \<Rightarrow> fields" where
  "bindByValueIPC register lookup lib d =
     (let d1 = (case lookup ''cuIpcOpenMemHandle_v2'' of
            Inr _ \<Rightarrow> snd (bind register lib ''cuIpcOpenMemHandle_v2'' d) | Inl _ \<Rightarrow> d)
      in case lookup ''cuIpcOpenEventHandle'' of
            Inr _ \<Rightarrow> snd (bind register lib ''cuIpcOpenEventHandle'' d1) | Inl _ \<Rightarrow> d1)"

definition bindByValueIPC_windows :: "(string \<Rightarrow> go_error + u64) \<Rightarrow> Library \<Rightarrow> fields \<Rightarrow> fields" where
  "bindByValueIPC_windows lookup lib d =
     (let d1 = (case lookup ''cuIpcOpenMemHandle_v2'' of
            Inr addr \<Rightarrow> d(''cuIpcOpenMemHandle_v2'' \<mapsto> SyscallNByRef addr) | Inl _ \<Rightarrow> d)
      in case lookup ''cuIpcOpenEventHandle'' of
            Inr addr \<Rightarrow> d1(''cuIpcOpenEventHandle'' \<mapsto> SyscallNByRef addr) | Inl _ \<Rightarrow> d1)"

text \<open>The two loops of \<^verbatim>\<open>Load\<close>: a required symbol that does not resolve ends it, an optional one is skipped.\<close>

fun bindRequired :: "(string \<Rightarrow> go_error + u64) \<Rightarrow> string list \<Rightarrow> fields \<Rightarrow> go_error + fields" where
  "bindRequired lookup [] d = Inr d"
| "bindRequired lookup (n # ns) d = (case lookup n of
     Inl e \<Rightarrow> Inl e
   | Inr addr \<Rightarrow> bindRequired lookup ns (d(n \<mapsto> SyscallN addr)))"

fun bindOptional :: "(string \<Rightarrow> go_error + u64) \<Rightarrow> string list \<Rightarrow> fields \<Rightarrow> fields" where
  "bindOptional lookup [] d = d"
| "bindOptional lookup (n # ns) d = bindOptional lookup ns (case lookup n of Inr addr \<Rightarrow> d(n \<mapsto> SyscallN addr) | Inl _ \<Rightarrow> d)"

definition Load_fields :: "(string \<Rightarrow> go_error + u64) \<Rightarrow> (fields \<Rightarrow> fields) \<Rightarrow> Library \<Rightarrow> openlibs \<Rightarrow> (go_error + fields) \<times> openlibs" where
  "Load_fields lookup byValue lib libs = (case bindRequired lookup requiredSymbols Map.empty of
     Inl e \<Rightarrow> (Inl e, closeLib lib libs)
   | Inr d \<Rightarrow> (Inr (byValue (bindOptional lookup optionalSymbols d)), libs))"

definition Load_windows :: "(Library \<Rightarrow> string \<Rightarrow> go_error + u64) \<Rightarrow> Library \<Rightarrow> openlibs \<Rightarrow> (go_error + fields) \<times> openlibs" where
  "Load_windows getProcAddress lib = Load_fields (lookupSymbol_windows getProcAddress lib) (bindByValueIPC_windows (lookupSymbol_windows getProcAddress lib) lib) lib"

definition Load_notwindows :: "(Library \<Rightarrow> string \<Rightarrow> string option) \<Rightarrow> (Library \<Rightarrow> string \<Rightarrow> go_error + u64) \<Rightarrow> Library \<Rightarrow> openlibs \<Rightarrow>
    (go_error + fields) \<times> openlibs" where
  "Load_notwindows register dlsym lib = Load_fields (lookupSymbol dlsym lib) (bindByValueIPC register (lookupSymbol dlsym lib) lib) lib"

subsection \<open>What the loops bind\<close>

definition bound_by :: "(string \<Rightarrow> go_error + u64) \<Rightarrow> string list \<Rightarrow> fields \<Rightarrow> fields" where
  "bound_by lookup ns d = (\<lambda>n. if n \<in> set ns then (case lookup n of Inr addr \<Rightarrow> Some (SyscallN addr) | Inl _ \<Rightarrow> d n) else d n)"

lemma bindRequired_spec:
  "bindRequired lookup ns d = (case firstMissing lookup ns of Some e \<Rightarrow> Inl e | None \<Rightarrow> Inr (bound_by lookup ns d))"
proof (induction ns arbitrary: d)
  case (Cons n ns)
  then show ?case by (auto simp: bound_by_def fun_eq_iff split: sum.splits option.splits)
qed (simp add: bound_by_def)

lemma bindOptional_spec: "bindOptional lookup ns d = bound_by lookup ns d"
  by (induction ns arbitrary: d) (auto simp: bound_by_def fun_eq_iff split: sum.splits)

lemma firstMissing_resolves: "firstMissing lookup ns = None \<Longrightarrow> n \<in> set ns \<Longrightarrow> resolves lookup n"
  by (induction ns) (auto simp: resolves_def split: sum.splits)

lemma lookupSymbol_windows_eq: "lookupSymbol_windows = lookupSymbol"
  by (intro ext) (simp add: lookupSymbol_windows_def lookupSymbol_def)

text \<open>A field calls the code its own symbol resolved to, which is not address zero.\<close>

fun calls_symbol :: "(Library \<Rightarrow> string \<Rightarrow> go_error + u64) \<Rightarrow> Library \<Rightarrow> string \<Rightarrow> adapter \<Rightarrow> bool" where
  "calls_symbol dlsym lib n (SyscallN a) = (dlsym lib n = Inr a \<and> a \<noteq> 0)"
| "calls_symbol dlsym lib n (SyscallNByRef a) = (dlsym lib n = Inr a \<and> a \<noteq> 0)"
| "calls_symbol dlsym lib n (Registered l m) = (l = lib \<and> m = n)"

definition binds_own :: "(Library \<Rightarrow> string \<Rightarrow> go_error + u64) \<Rightarrow> Library \<Rightarrow> fields \<Rightarrow> bool" where
  "binds_own dlsym lib d = (\<forall>n. case d n of None \<Rightarrow> True | Some a \<Rightarrow> calls_symbol dlsym lib n a)"

lemma lookupSymbol_ok: "lookupSymbol dlsym lib n = Inr a \<Longrightarrow> dlsym lib n = Inr a \<and> a \<noteq> 0"
  by (auto simp: lookupSymbol_def split: sum.splits if_splits)

lemma binds_own_by: "binds_own dlsym lib d \<Longrightarrow> binds_own dlsym lib (bound_by (lookupSymbol dlsym lib) ns d)"
  by (auto simp: binds_own_def bound_by_def dest: lookupSymbol_ok split: option.splits sum.splits if_splits)

lemma binds_own_upd: "binds_own dlsym lib d \<Longrightarrow> calls_symbol dlsym lib n a \<Longrightarrow> binds_own dlsym lib (d(n \<mapsto> a))"
  by (simp add: binds_own_def)

lemma binds_own_byValue:
  assumes "binds_own dlsym lib d"
  shows "binds_own dlsym lib (bindByValueIPC register (lookupSymbol dlsym lib) lib d)"
    "binds_own dlsym lib (bindByValueIPC_windows (lookupSymbol dlsym lib) lib d)"
  using assms by (auto simp: bindByValueIPC_def bindByValueIPC_windows_def bind_def Let_def split: sum.splits option.splits
      intro!: binds_own_upd dest: lookupSymbol_ok)

lemma dom_bound_by: "bound_by lookup ns d n \<noteq> None \<longleftrightarrow> n \<in> set ns \<and> resolves lookup n \<or> d n \<noteq> None"
  by (auto simp: bound_by_def resolves_def split: sum.splits)

lemma dom_step:
  "(case lookup m of Inr _ \<Rightarrow> snd (bind register lib m d) | Inl _ \<Rightarrow> d) n \<noteq> None \<longleftrightarrow>
     n = m \<and> resolves lookup n \<and> register lib n = None \<or> d n \<noteq> None"
  "(case lookup m of Inr addr \<Rightarrow> d(m \<mapsto> SyscallNByRef addr) | Inl _ \<Rightarrow> d) n \<noteq> None \<longleftrightarrow> n = m \<and> resolves lookup n \<or> d n \<noteq> None"
  by (auto simp: bind_def resolves_def split: sum.splits option.splits)

lemma dom_byValue:
  "bindByValueIPC register lookup lib d n \<noteq> None \<longleftrightarrow> n \<in> set byValueIPCSymbols \<and> resolves lookup n \<and> register lib n = None \<or> d n \<noteq> None"
  "bindByValueIPC_windows lookup lib d n \<noteq> None \<longleftrightarrow> n \<in> set byValueIPCSymbols \<and> resolves lookup n \<or> d n \<noteq> None"
  unfolding bindByValueIPC_def bindByValueIPC_windows_def Let_def dom_step byValueIPCSymbols_def list.set insert_iff empty_iff by blast+

definition loads_own :: "(Library \<Rightarrow> string \<Rightarrow> go_error + u64) \<Rightarrow> Library \<Rightarrow> (string \<Rightarrow> bool) \<Rightarrow>
    (go_error + fields) \<times> openlibs \<Rightarrow> (go_error + 'w LoadedDriver) \<times> openlibs \<Rightarrow> bool" where
  "loads_own dlsym lib ok x y = (snd x = snd y \<and> (case (fst x, fst y) of
     (Inl e, Inl e') \<Rightarrow> e = e'
   | (Inr d, Inr D) \<Rightarrow> binds_own dlsym lib d \<and> (\<forall>n. (d n \<noteq> None) = (bound (ddrv D) n \<and> (n \<notin> set byValueIPCSymbols \<or> ok n)))
   | _ \<Rightarrow> False))"

lemma tables_apart: "n \<in> set byValueIPCSymbols \<Longrightarrow> n \<notin> set requiredSymbols \<and> n \<notin> set optionalSymbols"
  by (auto simp: byValueIPCSymbols_def requiredSymbols_def optionalSymbols_def)

lemma Load_fields_own:
  assumes "\<And>d. binds_own dlsym lib d \<Longrightarrow> binds_own dlsym lib (byValue d)"
    and "\<And>d n. byValue d n \<noteq> None \<longleftrightarrow> n \<in> set byValueIPCSymbols \<and> resolves (lookupSymbol dlsym lib) n \<and> ok n \<or> d n \<noteq> None"
  shows "loads_own dlsym lib ok (Load_fields (lookupSymbol dlsym lib) byValue lib libs) (Load dlsym invk lib libs)"
proof (cases "firstMissing (lookupSymbol dlsym lib) requiredSymbols")
  case None
  let ?d = "bound_by (lookupSymbol dlsym lib) optionalSymbols (bound_by (lookupSymbol dlsym lib) requiredSymbols Map.empty)"
  have "binds_own dlsym lib ?d" by (intro binds_own_by) (simp add: binds_own_def)
  moreover have "?d n \<noteq> None \<longleftrightarrow> n \<in> set requiredSymbols \<or> n \<in> set optionalSymbols \<and> resolves (lookupSymbol dlsym lib) n" for n
    using firstMissing_resolves[OF None, of n] by (auto simp only: dom_bound_by simp_thms)
  ultimately show ?thesis using None assms tables_apart
    by (auto simp: loads_own_def Load_fields_def Load_def Let_def bindRequired_spec bindOptional_spec)
qed (simp add: loads_own_def Load_fields_def Load_def Let_def bindRequired_spec)


end
