(* ===== verification/ErrorCodes.thy ===== *)
theory ErrorCodes
  imports Driver
begin

section \<open>Telling driver errors apart\<close>

text \<open>
  The names under which \<^verbatim>\<open>cuda/errors.go\<close> exports the sentinels of \<^verbatim>\<open>cudaresult\<close>, and what \<^verbatim>\<open>errors.Is\<close> against them says about the result code of a call.
\<close>

definition exported_errors :: "(string \<times> go_error) list" where
  "exported_errors =
    [(''ErrInvalidValue'', ErrInvalidValue), (''ErrOutOfMemory'', ErrOutOfMemory), (''ErrNotInitialized'', ErrNotInitialized),
     (''ErrSymbolUnavailable'', ErrSymbolUnavailable), (''ErrDeinitialized'', ErrDeinitialized), (''ErrProfilerDisabled'', ErrProfilerDisabled),
     (''ErrStubLibrary'', ErrStubLibrary), (''ErrDeviceUnavailable'', ErrDeviceUnavailable), (''ErrNoDevice'', ErrNoDevice),
     (''ErrInvalidDevice'', ErrInvalidDevice), (''ErrDeviceNotLicensed'', ErrDeviceNotLicensed), (''ErrInvalidImage'', ErrInvalidImage),
     (''ErrInvalidContext'', ErrInvalidContext), (''ErrNoBinaryForGPU'', ErrNoBinaryForGPU), (''ErrInvalidPTX'', ErrInvalidPTX),
     (''ErrUnsupportedPTXVersion'', ErrUnsupportedPTXVersion), (''ErrInvalidSource'', ErrInvalidSource), (''ErrFileNotFound'', ErrFileNotFound),
     (''ErrSharedObjectSymbolNotFound'', ErrSharedObjectSymbolNotFound), (''ErrSharedObjectInitFailed'', ErrSharedObjectInitFailed),
     (''ErrOperatingSystem'', ErrOperatingSystem), (''ErrInvalidHandle'', ErrInvalidHandle), (''ErrIllegalState'', ErrIllegalState),
     (''ErrNotFound'', ErrNotFound), (''ErrNotReady'', ErrNotReady), (''ErrIllegalAddress'', ErrIllegalAddress),
     (''ErrLaunchOutOfResources'', ErrLaunchOutOfResources), (''ErrLaunchTimeout'', ErrLaunchTimeout), (''ErrLaunchFailed'', ErrLaunchFailed),
     (''ErrCooperativeLaunchTooLarge'', ErrCooperativeLaunchTooLarge), (''ErrNotPermitted'', ErrNotPermitted), (''ErrNotSupported'', ErrNotSupported),
     (''ErrSystemNotReady'', ErrSystemNotReady), (''ErrSystemDriverMismatch'', ErrSystemDriverMismatch),
     (''ErrStreamCaptureUnsupported'', ErrStreamCaptureUnsupported), (''ErrStreamCaptureInvalidated'', ErrStreamCaptureInvalidated),
     (''ErrStreamCaptureMerge'', ErrStreamCaptureMerge), (''ErrStreamCaptureUnmatched'', ErrStreamCaptureUnmatched),
     (''ErrStreamCaptureUnjoined'', ErrStreamCaptureUnjoined), (''ErrStreamCaptureIsolation'', ErrStreamCaptureIsolation),
     (''ErrStreamCaptureImplicit'', ErrStreamCaptureImplicit), (''ErrCapturedEvent'', ErrCapturedEvent),
     (''ErrStreamCaptureWrongThread'', ErrStreamCaptureWrongThread), (''ErrTimeout'', ErrTimeout),
     (''ErrGraphExecUpdateFailure'', ErrGraphExecUpdateFailure), (''ErrExternalDevice'', ErrExternalDevice), (''ErrUnknown'', ErrUnknown)]"

text \<open>The exported names that an error matches, and those that stand for a result code.\<close>

definition matches :: "go_error \<Rightarrow> string list" where
  "matches e = map fst (filter (\<lambda>(n, s). errors_Is e s) exported_errors)"

definition names_of :: "CUresult \<Rightarrow> string list" where
  "names_of code = map fst (filter (\<lambda>(n, s). Error_Is code s) exported_errors)"

lemmas exported_defs = exported_errors_def err_defs

lemma exported_shape: "(n, s) \<in> set exported_errors \<Longrightarrow> s = ErrSymbolUnavailable \<or> (\<exists>c. s = CudaErr c [])"
  by (auto simp: exported_defs)

fun exported_code :: "go_error \<Rightarrow> int" where
  "exported_code (CudaErr c _) = uint c"
| "exported_code _ = - 1"

lemma exported_codes_distinct: "distinct (map (exported_code \<circ> snd) exported_errors)"
  by (simp add: exported_defs code_defs)

lemma exported_names_distinct: "distinct (map fst exported_errors)"
  by (simp add: exported_errors_def)

lemma one_match:
  assumes "distinct (map f xs)" "\<And>x. x \<in> set xs \<Longrightarrow> P x \<Longrightarrow> f x = k"
  shows "length (filter P xs) \<le> 1"
proof -
  have "distinct (map f (filter P xs))" using assms(1) by (rule distinct_map_filter)
  moreover have "set (map f (filter P xs)) \<subseteq> {k}" using assms(2) by auto
  ultimately have "length (map f (filter P xs)) \<le> card {k}" by (metis card_mono distinct_card finite.intros)
  then show ?thesis by simp
qed

lemma Error_Is_iff: "Error_Is c s \<longleftrightarrow> (\<exists>opn. s = CudaErr c opn)"
  by (cases s) auto

lemma names_of_one: "length (names_of code) \<le> 1"
  unfolding names_of_def length_map
  by (rule one_match[OF exported_codes_distinct, where k = "uint code"]) (auto simp: Error_Is_iff)

text \<open>What the errors of the wrappers match, also inside \<^verbatim>\<open>fmt.Errorf("%w")\<close> and \<^verbatim>\<open>errors.Join\<close>.\<close>

lemma matches_CudaErr: "matches (CudaErr code opn) = names_of code"
  by (simp add: matches_def names_of_def)

lemma matches_Immutable: "matches (ImmutableResultError code opn txt) = names_of code"
proof -
  have "immutableResultError_Is code s = Error_Is code s" if "(n, s) \<in> set exported_errors" for n s
    using exported_shape[OF that] by (auto simp: err_defs)
  then show ?thesis unfolding matches_def names_of_def errors_Is.simps by (intro arg_cong[where f = "map fst"] filter_cong) auto
qed

lemma matches_Wrap: "matches (WrapErr msg e) = matches e"
  by (simp add: matches_def)

lemma matches_Join: "set (matches (JoinErr es)) = (\<Union>e \<in> set es. set (matches e))"
  by (auto simp: matches_def)

lemma in_names_of: "(n, CudaErr c []) \<in> set exported_errors \<Longrightarrow> n \<in> set (names_of code) \<longleftrightarrow> code = c"
proof -
  assume n: "(n, CudaErr c []) \<in> set exported_errors"
  have "s = CudaErr c []" if "(n, s) \<in> set exported_errors" for s
    using eq_key_imp_eq_value[OF exported_names_distinct that n] .
  with n show ?thesis unfolding names_of_def by (force simp: Error_Is_iff)
qed

text \<open>The guards of the wrappers: what the driver answers is the result, or an error of its code.\<close>

definition guards :: "'w Driver \<Rightarrow> drvcall \<Rightarrow> (out \<Rightarrow> 'a) \<Rightarrow> ('w, 'a) drv \<Rightarrow> bool" where
  "guards D call f job = (job \<in> {required (Some D) call f, optional (Some D) call f} \<or>
     (\<exists>opn txt. job = required_nr (Some D) call (ImmutableResultError CUDA_ERROR_NOT_READY opn txt) f))"

lemma guards_result:
  assumes "guards D call f job" "bound D (csym call)" "invoke D call t w = ((code, r), w')"
  shows "if code = CUDA_SUCCESS then job t w = (Inr (f r), w') else \<exists>e. job t w = (Inl e, w') \<and> matches e = names_of code"
proof -
  have "CUDA_ERROR_NOT_READY \<noteq> CUDA_SUCCESS" by (simp add: code_defs)
  then show ?thesis using assms
    by (auto simp: guards_def required_def optional_def required_nr_def checked_call_def check_def checkNotReady_def matches_CudaErr matches_Immutable)
qed



end
