(* ===== verification/Spec2Isabelle.thy ===== *)
theory Spec2Isabelle
  imports ArgPack Executor ContextProps LaunchProps ResourceProps HostCallbacks VmmProps RoundTrip LoaderProps BufferRuns
    EventProps ShapedProps LockProps VectorAddTotal PipelineProps ProgramExits
    SpinExec ExecOrder OpPools Binding ErrorCodes
begin

text \<open>
  A verification development for gocudrv, a Go binding of the CUDA driver API without cgo.

  \<^bold>\<open>The program.\<close> The library loads the CUDA driver at run time (\<^verbatim>\<open>internal/dynload\<close>, \<^verbatim>\<open>internal/platform\<close>, \<^verbatim>\<open>cudasys\<close>) and wraps every entry point
  in a function that checks its result code (\<^verbatim>\<open>cudaresult\<close>). The package \<^verbatim>\<open>cuda\<close> builds on these: a \<^verbatim>\<open>Context\<close>
  owns operating system threads on which the CUDA context is current, one for commands, one for synchronous copies and up to eight
  for calls that wait, each driven by an \<^verbatim>\<open>internal/executor\<close>; every operation of a buffer, stream, event, graph,
  module, texture, ... checks its objects and dispatches one job to one of these threads. Kernel arguments are packed by
  \<^verbatim>\<open>internal/argpack\<close>, host callbacks go through the registry of \<^verbatim>\<open>internal/hostcb\<close>.

  \<^bold>\<open>The driver\<close> is not part of the repository. It is a parameter: a record \<open>Driver\<close> that says which entry points are bound and what a call with
  its arguments returns and does to the driver's state \<open>'w\<close>, an arbitrary type. Theorems about what is called where use \<open>traced D\<close>, any driver
  \<open>D\<close> with a log of its calls. In the same way \<^verbatim>\<open>dlopen\<close>, \<^verbatim>\<open>dlsym\<close>, file reading and the closures run by callbacks are arguments.

  \<^bold>\<open>The model, by theory.\<close>
  \<^item> \<^verbatim>\<open>Prelude\<close>: Go integers as words, signed comparison and division, products without wrap-around.
  \<^item> \<^verbatim>\<open>GoErrors\<close>: result codes (\<^verbatim>\<open>cudasys/result.go\<close>), error values, \<^verbatim>\<open>errors.Is\<close> and \<^verbatim>\<open>errors.Join\<close>, sentinels (\<^verbatim>\<open>cudaresult/error.go\<close>, \<^verbatim>\<open>cuda/errors.go\<close>).
  \<^item> \<^verbatim>\<open>ArgPack\<close>: \<^verbatim>\<open>internal/argpack/argpack.go\<close>; the arena, inline values, the parameter array and what a pointer into them reads.
  \<^item> \<^verbatim>\<open>Executor\<close>: \<^verbatim>\<open>internal/executor/executor.go\<close> as a step relation of the worker, any number of callers and \<^verbatim>\<open>Close\<close>, in every interleaving.
    \<^verbatim>\<open>SpinExec\<close>: the same with the polls of the spin windows as steps. \<^verbatim>\<open>ExecOrder\<close>: the same with a log of what it accepted and ran.
  \<^item> \<^verbatim>\<open>Driver\<close>: the entry points (\<^verbatim>\<open>cudasys/syscall_bind.go\<close>), the structures passed by reference, and every wrapper of \<^verbatim>\<open>cudaresult\<close>.
  \<^item> \<^verbatim>\<open>SeqExec\<close>, \<^verbatim>\<open>Context\<close>: the executor as one goroutine sees it, and \<^verbatim>\<open>cuda/context.go\<close> on it: \<^verbatim>\<open>Primary\<close>, the dispatchers, the wait lanes,
    barriers and \<^verbatim>\<open>Close\<close>. Cancellation may strike at any observation of a context.
  \<^item> \<^verbatim>\<open>Dispatch\<close>: \<^verbatim>\<open>cuda/dispatch.go\<close> and \<^verbatim>\<open>cuda/event_dispatch.go\<close>. \<^verbatim>\<open>OpPools\<close>, \<^verbatim>\<open>LaunchPool\<close>: their pools of operation objects and the pool of launch argument states.
  \<^item> \<^verbatim>\<open>Objects\<close>: the objects of the package in stores of the state \<open>rt\<close>, how they are made and closed, and the contract of a store and of \<^verbatim>\<open>Close\<close> as locales.
  \<^item> \<^verbatim>\<open>HostMem\<close>, \<^verbatim>\<open>Buffers\<close>, \<^verbatim>\<open>StreamEvent\<close>, \<^verbatim>\<open>Graphs\<close>, \<^verbatim>\<open>ModuleLink\<close>, \<^verbatim>\<open>Launch\<close>, \<^verbatim>\<open>Shaped\<close>, \<^verbatim>\<open>Vmm\<close>, \<^verbatim>\<open>MemKinds\<close>: the operations of
    the package, one definition per method, file by file (each theory names its files).
  \<^item> \<^verbatim>\<open>Loader\<close>: loading, the table of required and optional symbols, \<^verbatim>\<open>Init\<close> and the device queries. \<^verbatim>\<open>Binding\<close>: the fields of a driver and the addresses they call, per platform.
  \<^item> \<^verbatim>\<open>LockOrder\<close>: goroutines that take Go's read-write locks, with their preference for writers, as a step relation, and what an order of locks gives, as a locale.
    \<^verbatim>\<open>LockProps\<close>: the locks each method of the package takes, in its order.
  \<^item> \<^verbatim>\<open>GoFmt\<close>, \<^verbatim>\<open>GoRun\<close>: what the programs under \<^verbatim>\<open>examples\<close> use of Go: \<^verbatim>\<open>float32\<close> arithmetic and formatting, error messages, deferred calls, panics and exits.
    \<^verbatim>\<open>VectorAdd\<close>, \<^verbatim>\<open>EventPipeline\<close>, \<^verbatim>\<open>SmallPrograms\<close>: the four programs, on top of the library.
  \<^item> \<^verbatim>\<open>Start\<close>: the initial state.

  \<^bold>\<open>What is proved.\<close>
  \<^item> Arguments: whatever is packed is read back through the parameter array, also after the arena grew and was reused; updates change one
    argument (\<^verbatim>\<open>ArgPack\<close>). A launch is refused with its first error or hands the driver exactly its arguments; prepacked launches are equivalent to direct ones;
    one-dimensional configurations cover their elements (\<^verbatim>\<open>LaunchProps\<close>). The locks a launch takes are balanced, taken once, and held at the driver call (\<^verbatim>\<open>LaunchLocks\<close>).
  \<^item> Threads: in every interleaving an accepted job runs exactly once, its caller gets its own outcome, \<^verbatim>\<open>Close\<close> drains, completions and jobs are recycled
    safely, no run is infinite and none gets stuck (\<^verbatim>\<open>Executor\<close>), also with the spin windows, which change nothing else (\<^verbatim>\<open>SpinExec\<close>), and a concurrent run is equivalent to its accepted calls made one
    after the other with the functions of \<^verbatim>\<open>SeqExec\<close>, in the order of acceptance (\<^verbatim>\<open>ExecOrder\<close>). Every driver call of a context runs on a thread bound to it, retains and releases
    balance, \<^verbatim>\<open>Close\<close> releases once (\<^verbatim>\<open>Trace\<close>, \<^verbatim>\<open>Lifecycle\<close>); wait lanes are bounded and accounted for, barriers hold (\<^verbatim>\<open>Lanes\<close>, \<^verbatim>\<open>ContextProps\<close>).
  \<^item> Memory: allocations ask for exactly their size; offset copies and nested views stay inside their buffers (\<^verbatim>\<open>BufferProps\<close>); buffers keep their shape for life
    (\<^verbatim>\<open>BufferRuns\<close>); what is copied in is read back (\<^verbatim>\<open>RoundTrip\<close>, from the documented behaviour of device memory, named \<open>device_memory\<close>); volumes and pitched buffers
    have exact sizes (\<^verbatim>\<open>ShapedProps\<close>); virtual memory is acquired with rollback and closed with retries, against a ledger of what the driver holds (\<^verbatim>\<open>VmmProps\<close>).
  \<^item> Objects: the contract of \<^verbatim>\<open>Close\<close> for all sixteen closable types, and that closed objects never reach the driver (\<^verbatim>\<open>ResourceProps\<close>).
  \<^item> Callbacks: the sharded registry refines a map, a closure runs at most once, and none leaks from a failed launch (\<^verbatim>\<open>HostCallbacks\<close>).
  \<^item> Locks: calls that take the locks of objects of one kind in address order all return, in every interleaving, and no object is closed while another call uses it; copies
    between two buffers and launches take them in the order of their arguments instead, and can deadlock with \<^verbatim>\<open>Close\<close> (\<^verbatim>\<open>LockProps\<close>).
  \<^item> Pools: whatever objects the pools hand out, every sequence of operations and of launches does what it does without them, and pooled objects keep nothing of a caller (\<^verbatim>\<open>OpPools\<close>,
    \<^verbatim>\<open>LaunchPool\<close>). Event options; elapsed times; pair locks (\<^verbatim>\<open>EventProps\<close>).
  \<^item> Errors: \<^verbatim>\<open>errors.Is\<close> against the exported sentinels tells the result code of a failed call (\<^verbatim>\<open>ErrorCodes\<close>).
  \<^item> Loading and initialisation do not leak; device ordinals are in range (\<^verbatim>\<open>LoaderProps\<close>); every field of a loaded driver calls its own symbol (\<^verbatim>\<open>Binding\<close>).
  \<^item> Programs: \<^verbatim>\<open>vector-add\<close> computes the sums it checks, through every layer from \<^verbatim>\<open>Init\<close> to the copy back, on any device with the documented memory and the kernel (\<^verbatim>\<open>IdleRuns\<close>,
    \<^verbatim>\<open>FloatProps\<close>, \<^verbatim>\<open>VectorAddProps\<close>), and on one that also accepts its calls it ends normally with the line it should print (\<^verbatim>\<open>Accepting\<close>, \<^verbatim>\<open>VectorAddTotal\<close>). On any
    driver it, \<^verbatim>\<open>device-info\<close> and \<^verbatim>\<open>sibling-module\<close> end with status 0, or with status 1 and a message (\<^verbatim>\<open>ProgramExits\<close>). It and \<^verbatim>\<open>event-pipeline\<close> close all they open or report why not (\<^verbatim>\<open>Cleanup\<close>, \<^verbatim>\<open>PipelineProps\<close>), but a batch that cannot be built
    makes \<^verbatim>\<open>event-pipeline\<close> panic.

  \<^bold>\<open>Bounds.\<close> Go's \<^verbatim>\<open>int\<close> is 64 bits wide. A packed argument is below 64 KiB and all of them below 2 GiB (\<open>args_fit\<close>; the builder's metadata has 16- and 32-bit
  fields), and fewer than \<open>2^64\<close> host functions are registered (the key counter is 64 bits). There is no fuel: every
  function of the model is total, and the loops of the executor end by a measure. The digits of a printed \<^verbatim>\<open>float32\<close> are searched up to nine, which always suffice.

  \<^bold>\<open>Not modelled.\<close> Garbage collection, so \<^verbatim>\<open>runtime.KeepAlive\<close> and \<^verbatim>\<open>runtime.Pinner\<close> (where a pin is visible in the code it is a flag). What purego does to call an
  address or to register a function, which are parameters.
  In the operations of the package one call is one step on the objects it locks; \<^verbatim>\<open>LockProps\<close> has the interleavings of the locks
  themselves, in which waiting for an executor is a step that returns, as \<^verbatim>\<open>Executor\<close> shows it does.
\<close>

end
